(* ===== verification/Prelude.thy ===== *)
theory Prelude
  imports Complex_Main "HOL-Library.AList"
begin

section \<open>Shared vocabulary of the development\<close>

text \<open>
  What every component of the model uses: the error values of the JavaScript code, the
  sequencing of steps that may throw, loops over lists that stop at the first throw,
  insertion-ordered maps (JavaScript \<open>Map\<close> and object literals) over
  \<^theory_text>\<open>HOL-Library.AList\<close>, and first-occurrence de-duplication
  (\<open>[...new Set(xs)]\<close> and the \<open>seen\<close> filters).
\<close>

named_theorems monad \<open>what a step that returned a value says about its parts\<close>

subsection \<open>Thrown errors as values\<close>

text \<open>
  \<open>Fail code detail\<close> is the \<open>Error\<close> that \<open>fail(code, detail)\<close> throws; the other two are the
  errors of the language itself: reading a property of \<open>null\<close>, iterating what is not iterable,
  an invalid date.
\<close>

datatype err = Fail (fail_code: string) (fail_detail: string) | TypeError | RangeError

type_synonym 'a res = "err + 'a"

definition ebind :: "'a res \<Rightarrow> ('a \<Rightarrow> 'b res) \<Rightarrow> 'b res" where
  "ebind m f = (case m of Inl e \<Rightarrow> Inl e | Inr x \<Rightarrow> f x)"

lemma ebind_simps [simp]: "ebind (Inl e) f = Inl e" "ebind (Inr x) f = f x"
  by (simp_all add: ebind_def)

lemma ebind_Inr_iff [monad]: "ebind m f = Inr y \<longleftrightarrow> (\<exists>x. m = Inr x \<and> f x = Inr y)"
  by (cases m) auto

lemma ebind_Inl_iff: "ebind m f = Inl e \<longleftrightarrow> m = Inl e \<or> (\<exists>x. m = Inr x \<and> f x = Inl e)"
  by (cases m) auto

lemma ebind_cong [fundef_cong]:
  "m = m' \<Longrightarrow> (\<And>x. m' = Inr x \<Longrightarrow> f x = g x) \<Longrightarrow> ebind m f = ebind m' g"
  by (cases m') auto

lemma ebind_assoc: "ebind (ebind m f) g = ebind m (\<lambda>x. ebind (f x) g)"
  by (cases m) auto

lemma if_Inl_Inr_iff [monad]: "((if c then Inl e else m) = Inr y) \<longleftrightarrow> \<not> c \<and> m = Inr y"
  by simp

lemma if_Inr_Inl_iff [monad]: "((if c then m else Inl e) = Inr y) \<longleftrightarrow> c \<and> m = Inr y"
  by simp

text \<open>
  Elimination rules that take a computation that returned a value apart, one step at a time
  (\<open>elim run_elims\<close>); every component inverts its operations with them.
\<close>

lemma ebind_InrE: "ebind m f = Inr y \<Longrightarrow> (\<And>x. m = Inr x \<Longrightarrow> f x = Inr y \<Longrightarrow> P) \<Longrightarrow> P"
  by (cases m) auto

lemma Let_InrE: "Let t f = (Inr y :: 'a res) \<Longrightarrow> (\<And>x. x = t \<Longrightarrow> f x = Inr y \<Longrightarrow> P) \<Longrightarrow> P"
  by auto

lemma Inr_InrE: "(Inr x :: 'a res) = Inr y \<Longrightarrow> (x = y \<Longrightarrow> P) \<Longrightarrow> P"
  by simp

lemma if_Inl_InrE: "(if c then Inl e else m) = Inr v \<Longrightarrow> (\<not> c \<Longrightarrow> m = Inr v \<Longrightarrow> P) \<Longrightarrow> P"
  by (auto split: if_splits)

subsection \<open>Loops that may throw\<close>

fun emap :: "('a \<Rightarrow> 'b res) \<Rightarrow> 'a list \<Rightarrow> 'b list res" where
  "emap f [] = Inr []"
| "emap f (x # xs) = ebind (f x) (\<lambda>y. ebind (emap f xs) (\<lambda>ys. Inr (y # ys)))"

fun emapi :: "(nat \<Rightarrow> 'a \<Rightarrow> 'b res) \<Rightarrow> nat \<Rightarrow> 'a list \<Rightarrow> 'b list res" where
  "emapi f n [] = Inr []"
| "emapi f n (x # xs) = ebind (f n x) (\<lambda>y. ebind (emapi f (Suc n) xs) (\<lambda>ys. Inr (y # ys)))"

fun efold :: "('a \<Rightarrow> 's \<Rightarrow> 's res) \<Rightarrow> 'a list \<Rightarrow> 's \<Rightarrow> 's res" where
  "efold f [] s = Inr s"
| "efold f (x # xs) s = ebind (f x s) (efold f xs)"

fun efilter :: "('a \<Rightarrow> bool res) \<Rightarrow> 'a list \<Rightarrow> 'a list res" where
  "efilter p [] = Inr []"
| "efilter p (x # xs) =
     ebind (p x) (\<lambda>b. ebind (efilter p xs) (\<lambda>ys. Inr (if b then x # ys else ys)))"

definition eforeach :: "('a \<Rightarrow> 'b res) \<Rightarrow> 'a list \<Rightarrow> bool res" where
  "eforeach f xs = ebind (emap f xs) (\<lambda>_. Inr True)"

definition eforeachi :: "(nat \<Rightarrow> 'a \<Rightarrow> 'b res) \<Rightarrow> 'a list \<Rightarrow> bool res" where
  "eforeachi f xs = ebind (emapi f 0 xs) (\<lambda>_. Inr True)"

lemma emap_cong [fundef_cong]:
  "xs = ys \<Longrightarrow> (\<And>x. x \<in> set ys \<Longrightarrow> f x = g x) \<Longrightarrow> emap f xs = emap g ys"
  by (induction ys arbitrary: xs) auto

lemma emap_Inr_iff [monad]: "emap f xs = Inr ys \<longleftrightarrow> list_all2 (\<lambda>x y. f x = Inr y) xs ys"
proof (induction xs arbitrary: ys)
  case Nil
  then show ?case by (cases ys) auto
next
  case (Cons x xs)
  then show ?case by (cases ys) (auto simp: monad)
qed

lemma emap_total: "(\<And>x. x \<in> set xs \<Longrightarrow> f x = Inr (g x)) \<Longrightarrow> emap f xs = Inr (map g xs)"
  by (induction xs) auto

lemma emapi_Inr_length: "emapi f n xs = Inr ys \<Longrightarrow> length ys = length xs"
  by (induction xs arbitrary: n ys) (auto simp: monad)

lemma emapi_Inr_nth: "emapi f n xs = Inr ys \<Longrightarrow> i < length xs \<Longrightarrow> f (n + i) (xs ! i) = Inr (ys ! i)"
proof (induction xs arbitrary: n ys i)
  case Nil
  then show ?case by simp
next
  case (Cons x xs)
  from Cons.prems(1) obtain y zs where yz: "f n x = Inr y" "emapi f (Suc n) xs = Inr zs" "ys = y # zs"
    by (auto simp: monad)
  show ?case
  proof (cases i)
    case 0
    with yz show ?thesis by simp
  next
    case (Suc j)
    with Cons.IH [OF yz(2), of j] Cons.prems(2) yz(3) show ?thesis by simp
  qed
qed

lemma emapi_Inr_mem: "emapi f n xs = Inr ys \<Longrightarrow> y \<in> set ys \<Longrightarrow> \<exists>i x. x \<in> set xs \<and> f i x = Inr y"
  by (metis emapi_Inr_length emapi_Inr_nth in_set_conv_nth)

lemma emapi_total: "(\<And>x i. x \<in> set xs \<Longrightarrow> f i x = Inr (g x)) \<Longrightarrow> emapi f n xs = Inr (map g xs)"
  by (induction xs arbitrary: n) auto

lemma efilter_Inr:
  "efilter p xs = Inr ys \<Longrightarrow> ys = filter (\<lambda>x. p x = Inr True) xs \<and> (\<forall>x\<in>set xs. \<exists>b. p x = Inr b)"
  by (induction xs arbitrary: ys) (auto simp: monad)

lemma eforeach_Inr_iff [monad]:
  "eforeach f xs = Inr b \<longleftrightarrow> b \<and> (\<forall>x\<in>set xs. \<exists>y. f x = Inr y)"
proof
  assume "eforeach f xs = Inr b"
  then obtain ys where "list_all2 (\<lambda>x y. f x = Inr y) xs ys" and "b"
    by (auto simp: eforeach_def monad)
  then show "b \<and> (\<forall>x\<in>set xs. \<exists>y. f x = Inr y)"
    by (auto simp: list_all2_conv_all_nth in_set_conv_nth)
next
  assume r: "b \<and> (\<forall>x\<in>set xs. \<exists>y. f x = Inr y)"
  then obtain g where "\<And>x. x \<in> set xs \<Longrightarrow> f x = Inr (g x)" by metis
  then have "emap f xs = Inr (map g xs)" by (rule emap_total)
  with r show "eforeach f xs = Inr b" by (simp add: eforeach_def)
qed

lemma eforeachi_Inr:
  "eforeachi f xs = Inr b \<Longrightarrow> b \<and> (\<forall>i<length xs. \<exists>y. f i (xs ! i) = Inr y)"
  by (auto simp: eforeachi_def monad) (metis add_0 emapi_Inr_nth)

lemma eforeachi_InrI: "(\<And>i x. x \<in> set xs \<Longrightarrow> \<exists>y. f i x = Inr y) \<Longrightarrow> eforeachi f xs = Inr True"
proof -
  assume a: "\<And>i x. x \<in> set xs \<Longrightarrow> \<exists>y. f i x = Inr y"
  have "\<exists>ys. emapi f n xs = Inr ys" for n
    using a by (induction xs arbitrary: n) (auto, metis ebind_simps(2))
  then show ?thesis by (metis ebind_simps(2) eforeachi_def)
qed

subsection \<open>Keeping the first occurrence\<close>

fun dedup_from :: "('a \<Rightarrow> 'k) \<Rightarrow> 'k list \<Rightarrow> 'a list \<Rightarrow> 'a list" where
  "dedup_from key seen [] = []"
| "dedup_from key seen (x # xs) =
     (if key x \<in> set seen then dedup_from key seen xs
      else x # dedup_from key (key x # seen) xs)"

abbreviation dedup :: "('a \<Rightarrow> 'k) \<Rightarrow> 'a list \<Rightarrow> 'a list" where
  "dedup key \<equiv> dedup_from key []"

lemma dedup_from_subset: "set (dedup_from key seen xs) \<subseteq> set xs"
  by (induction key seen xs rule: dedup_from.induct) auto

lemma dedup_from_unseen: "x \<in> set (dedup_from key seen xs) \<Longrightarrow> key x \<notin> set seen"
  by (induction key seen xs rule: dedup_from.induct) (auto split: if_splits)

lemma dedup_from_distinct: "distinct (map key (dedup_from key seen xs))"
  by (induction key seen xs rule: dedup_from.induct) (auto dest: dedup_from_unseen)

lemma dedup_from_keys: "key ` set (dedup_from key seen xs) = key ` set xs - set seen"
  by (induction key seen xs rule: dedup_from.induct) auto

lemma dedup_keys: "key ` set (dedup key xs) = key ` set xs"
  by (simp add: dedup_from_keys)

lemma dedup_from_id:
  "distinct (map key xs) \<Longrightarrow> key ` set xs \<inter> set seen = {} \<Longrightarrow> dedup_from key seen xs = xs"
  by (induction key seen xs rule: dedup_from.induct) auto

lemma dedup_idem: "dedup key (dedup key xs) = dedup key xs"
  by (rule dedup_from_id) (simp_all add: dedup_from_distinct)

lemma dedup_from_length: "length (dedup_from key seen xs) \<le> length xs"
  by (induction key seen xs rule: dedup_from.induct) (auto simp: le_SucI)

subsection \<open>Insertion-ordered maps\<close>

definition assign_all :: "('k \<times> 'v) list \<Rightarrow> ('k \<times> 'v) list \<Rightarrow> ('k \<times> 'v) list" where
  "assign_all fs gs = fold (\<lambda>(k, v). AList.update k v) gs fs"

lemma map_of_assign_all: "map_of (assign_all fs gs) = map_of fs ++ map_of (rev gs)"
  unfolding assign_all_def
  by (induction gs arbitrary: fs) (auto simp: update_conv' map_add_def fun_eq_iff split: option.splits)

lemma distinct_assign_all: "distinct (map fst fs) \<Longrightarrow> distinct (map fst (assign_all fs gs))"
  unfolding assign_all_def
  by (induction gs arbitrary: fs) (auto simp: distinct_update)

lemma dom_assign_all: "fst ` set (assign_all fs gs) = fst ` set fs \<union> fst ` set gs"
  by (metis dom_map_add dom_map_of_conv_image_fst map_of_assign_all set_rev sup_commute)

lemma map_of_rev_distinct: "distinct (map fst xs) \<Longrightarrow> map_of (rev xs) = map_of xs"
  by (subst map_of_inject_set) (simp_all add: rev_map [symmetric])

lemma map_of_filter_fst: "P k \<Longrightarrow> map_of (filter (\<lambda>(k, x). P k) fs) k = map_of fs k"
  by (induction fs) auto

lemma efold_snoc_Inr: "efold f (xs @ [x]) s = Inr t \<longleftrightarrow> (\<exists>u. efold f xs s = Inr u \<and> f x u = Inr t)"
  by (induction xs arbitrary: s) (auto simp: ebind_Inr_iff)

lemma efold_invariant:
  "efold f xs s = Inr t \<Longrightarrow> P s \<Longrightarrow> (\<And>x u w. x \<in> set xs \<Longrightarrow> f x u = Inr w \<Longrightarrow> P u \<Longrightarrow> P w) \<Longrightarrow> P t"
  by (induction xs arbitrary: s) (auto simp: monad)

lemma efold_visits: "efold f xs s = Inr t \<Longrightarrow> x \<in> set xs \<Longrightarrow> \<exists>u w. f x u = Inr w"
  by (induction xs arbitrary: s) (auto simp: monad)

lemma efilter_Nil: "efilter p xs = Inr [] \<Longrightarrow> x \<in> set xs \<Longrightarrow> p x = Inr False"
  by (induction xs) (auto simp: ebind_Inr_iff split: if_splits)

lemma emap_member: "emap f xs = Inr ys \<Longrightarrow> x \<in> set xs \<Longrightarrow> \<exists>y\<in>set ys. f x = Inr y"
  by (induction xs arbitrary: ys) (auto simp: ebind_Inr_iff simp del: emap_Inr_iff)

lemma emap_judged:
  assumes "emap (\<lambda>c. ebind (f c) (\<lambda>r. Inr (c, r))) cs = Inr js"
  shows "map fst (filter (\<lambda>(c, r). r = []) js) = filter (\<lambda>c. f c = Inr []) cs"
    "length (filter (\<lambda>(c, r). r \<noteq> []) js) = length cs - length (filter (\<lambda>c. f c = Inr []) cs)"
proof -
  show e: "map fst (filter (\<lambda>(c, r). r = []) js) = filter (\<lambda>c. f c = Inr []) cs"
    using assms by (induction cs arbitrary: js) (auto simp: ebind_Inr_iff simp del: emap_Inr_iff)
  have "length js = length cs"
    using assms by (auto simp: emap_Inr_iff dest: list_all2_lengthD)
  moreover have "length (filter (\<lambda>(c, r). r = []) js) = length (filter (\<lambda>c. f c = Inr []) cs)"
    by (metis e length_map)
  moreover have "length (filter (\<lambda>(c, r). r \<noteq> []) js) + length (filter (\<lambda>(c, r). r = []) js) = length js"
    by (induction js) auto
  ultimately show "length (filter (\<lambda>(c, r). r \<noteq> []) js) = length cs - length (filter (\<lambda>c. f c = Inr []) cs)"
    by simp
qed

lemma emap_origin: "emap f xs = Inr ys \<Longrightarrow> y \<in> set ys \<Longrightarrow> \<exists>x\<in>set xs. f x = Inr y"
  by (induction xs arbitrary: ys) (auto simp: ebind_Inr_iff simp del: emap_Inr_iff)

lemma set_dedup_id [simp]: "set (dedup id xs) = set xs"
  using dedup_keys [of id xs] by simp

lemma length_dedup_id: "length (dedup id xs) = card (set xs)"
  using dedup_from_distinct [of id "[]" xs] distinct_card [of "dedup id xs"] by simp

lemma card_1_member: "x \<in> S \<Longrightarrow> card S = 1 \<longleftrightarrow> S \<subseteq> {x}"
  by (auto simp: card_1_singleton_iff)

lemma emap_mem: "emap f xs = Inr ys \<Longrightarrow> y \<in> set ys \<longleftrightarrow> (\<exists>x\<in>set xs. f x = Inr y)"
  by (auto dest: emap_origin emap_member)

end
