(* ===== verification/JsValue.thy ===== *)
theory JsValue
  imports Prelude "HOL-Library.List_Lexorder" "HOL-Library.Char_ord"
begin

section \<open>JavaScript values and the operations the kernels use on them\<close>

text \<open>
  The WorldManager kernels take and return plain JSON-like data: primitives, arrays and
  object literals. A value is a \<open>jval\<close>; an object is the list of its own properties in
  insertion order. Numbers are exact rationals with the two infinities and NaN (rounding of
  doubles and the sign of zero are not modelled). Strings are character lists, one character
  per UTF-16 code unit below 256, with \<open>CHR 0x85\<close> standing for the ellipsis U+2026, the only
  other code unit the kernels write. Objects are compared by identity in JavaScript; every
  comparison below is between values built from different literals, so an object is never
  strictly equal to another value.
  What the language leaves to the host is a field of \<open>jsenv\<close>: the SHA-256 of the \<open>crypto\<close>
  module, the printed form of a non-integral number, the clock and the ISO date format, and
  the collation order of \<open>localeCompare\<close>. \<open>date_now E n\<close> is what the clock shows when one operation
  reads it for the time \<open>n\<close>, counted from 0; a function that reads it once sees \<open>date_now E 0\<close>.
\<close>

datatype jnum = Fin rat | PosInf | NegInf | NaN

datatype jval =
    JUndef
  | JNull
  | JBool bool
  | JNum jnum
  | JStr string
  | JArr "jval list"
  | JObj "(string \<times> jval) list"

record jsenv =
  sha256hex :: "string \<Rightarrow> string"
  num_text :: "rat \<Rightarrow> string"
  date_now :: "nat \<Rightarrow> rat"
  iso_text :: "rat \<Rightarrow> string"
  locale_less :: "string \<Rightarrow> string \<Rightarrow> bool"

subsection \<open>Properties of objects\<close>

definition fields :: "jval \<Rightarrow> (string \<times> jval) list" where
  "fields v = (case v of JObj fs \<Rightarrow> fs | _ \<Rightarrow> [])"

definition fld :: "jval \<Rightarrow> string \<Rightarrow> jval" where
  \<comment> \<open>\<open>v.k\<close> for a value that is not null or undefined, and \<open>v?.k\<close> for any value\<close>
  "fld v k = (case map_of (fields v) k of Some x \<Rightarrow> x | None \<Rightarrow> JUndef)"

definition nullish :: "jval \<Rightarrow> bool" where
  "nullish v \<longleftrightarrow> v = JUndef \<or> v = JNull"

definition getp :: "jval \<Rightarrow> string \<Rightarrow> jval res" where
  \<comment> \<open>\<open>v.k\<close>: a TypeError on null and undefined\<close>
  "getp v k = (if nullish v then Inl TypeError else Inr (fld v k))"

definition has_own :: "jval \<Rightarrow> string \<Rightarrow> bool" where
  "has_own v k \<longleftrightarrow> k \<in> fst ` set (fields v)"

definition set_fld :: "string \<Rightarrow> jval \<Rightarrow> jval \<Rightarrow> jval" where
  "set_fld k x v = JObj (AList.update k x (fields v))"

definition spread :: "jval \<Rightarrow> (string \<times> jval) list \<Rightarrow> jval" where
  \<comment> \<open>\<open>{...v, k1: x1, k2: x2}\<close>\<close>
  "spread v gs = JObj (assign_all (fields v) gs)"

definition defaulted :: "jval \<Rightarrow> jval res" where
  \<comment> \<open>a parameter declared \<open>input = {}\<close> whose properties are then read\<close>
  "defaulted v = (case v of JUndef \<Rightarrow> Inr (JObj []) | JNull \<Rightarrow> Inl TypeError | _ \<Rightarrow> Inr v)"

lemma fields_JObj [simp]: "fields (JObj fs) = fs"
  by (simp add: fields_def)

lemma fld_JObj: "fld (JObj fs) k = (case map_of fs k of Some x \<Rightarrow> x | None \<Rightarrow> JUndef)"
  by (simp add: fld_def)

lemma fld_Nil [simp]: "fld (JObj []) k = JUndef"
  by (simp add: fld_def)

lemma fld_Cons [simp]: "fld (JObj ((k', x) # fs)) k = (if k = k' then x else fld (JObj fs) k)"
  by (simp add: fld_def)

lemma fld_not_object [simp]:
  "fld JUndef k = JUndef" "fld JNull k = JUndef" "fld (JBool b) k = JUndef"
  "fld (JNum n) k = JUndef" "fld (JStr s) k = JUndef" "fld (JArr vs) k = JUndef"
  by (simp_all add: fld_def fields_def)

lemma fields_set_fld [simp]: "fields (set_fld k x v) = AList.update k x (fields v)"
  by (simp add: set_fld_def)

lemma fld_set_fld [simp]: "fld (set_fld k x v) k' = (if k' = k then x else fld v k')"
  by (simp add: fld_def update_conv')

lemma fld_spread:
  "fld (spread v gs) k = (case map_of (rev gs) k of Some x \<Rightarrow> x | None \<Rightarrow> fld v k)"
  by (auto simp: fld_def spread_def map_of_assign_all map_add_def split: option.splits)

lemma defaulted_simps [simp]:
  "defaulted JUndef = Inr (JObj [])" "defaulted JNull = Inl TypeError"
  "defaulted (JObj fs) = Inr (JObj fs)" "defaulted (JArr vs) = Inr (JArr vs)"
  "defaulted (JStr s) = Inr (JStr s)" "defaulted (JNum n) = Inr (JNum n)"
  "defaulted (JBool b) = Inr (JBool b)"
  by (simp_all add: defaulted_def)

lemma defaulted_Inr_fld: "defaulted v = Inr w \<Longrightarrow> fld w k = fld v k"
  by (cases v) auto

definition dflt :: "jval \<Rightarrow> jval" where
  "dflt v = (if v = JUndef then JObj [] else v)"

lemma fld_dflt [simp]: "fld (dflt v) k = fld v k"
  by (simp add: dflt_def)

lemma ebind_defaulted: "ebind (defaulted v) f = (if v = JNull then Inl TypeError else f (dflt v))"
  by (cases v) (simp_all add: dflt_def)

lemma getp_simps [simp]:
  "getp JUndef k = Inl TypeError" "getp JNull k = Inl TypeError"
  "getp (JObj fs) k = Inr (fld (JObj fs) k)"
  by (simp_all add: getp_def nullish_def)

lemma getp_Inr_iff [monad]: "getp v k = Inr x \<longleftrightarrow> \<not> nullish v \<and> x = fld v k"
  by (auto simp: getp_def)

subsection \<open>Kinds of values and coercions to booleans\<close>

definition isPlainObject :: "jval \<Rightarrow> bool" where
  "isPlainObject v = (case v of JObj _ \<Rightarrow> True | _ \<Rightarrow> False)"

definition isArray :: "jval \<Rightarrow> bool" where
  "isArray v = (case v of JArr _ \<Rightarrow> True | _ \<Rightarrow> False)"

definition truthy :: "jval \<Rightarrow> bool" where
  "truthy v = (case v of JUndef \<Rightarrow> False | JNull \<Rightarrow> False | JBool b \<Rightarrow> b
     | JNum n \<Rightarrow> n \<noteq> Fin 0 \<and> n \<noteq> NaN | JStr s \<Rightarrow> s \<noteq> [] | JArr _ \<Rightarrow> True | JObj _ \<Rightarrow> True)"

definition js_or :: "jval \<Rightarrow> jval \<Rightarrow> jval" where
  "js_or a b = (if truthy a then a else b)"

definition coalesce :: "jval \<Rightarrow> jval \<Rightarrow> jval" where
  \<comment> \<open>\<open>a ?? b\<close>\<close>
  "coalesce a b = (if nullish a then b else a)"

definition strict_eq :: "jval \<Rightarrow> jval \<Rightarrow> bool" where
  "strict_eq a b = (case a of JNum n \<Rightarrow> n \<noteq> NaN \<and> b = JNum n
     | JArr _ \<Rightarrow> False | JObj _ \<Rightarrow> False | _ \<Rightarrow> a = b)"

definition same_value_zero :: "jval \<Rightarrow> jval \<Rightarrow> bool" where
  \<comment> \<open>the comparison of \<open>Array.prototype.includes\<close>\<close>
  "same_value_zero a b = (case a of JArr _ \<Rightarrow> False | JObj _ \<Rightarrow> False | _ \<Rightarrow> a = b)"

definition one_of :: "jval \<Rightarrow> string list \<Rightarrow> bool" where
  \<comment> \<open>\<open>SET.has(v)\<close> and \<open>[...].includes(v)\<close> for a collection of string constants\<close>
  "one_of v ss = (case v of JStr s \<Rightarrow> s \<in> set ss | _ \<Rightarrow> False)"

lemma isPlainObject_simps [simp]:
  "isPlainObject (JObj fs)" "\<not> isPlainObject JUndef" "\<not> isPlainObject JNull"
  "\<not> isPlainObject (JArr vs)" "\<not> isPlainObject (JStr s)" "\<not> isPlainObject (JNum n)"
  "\<not> isPlainObject (JBool b)"
  by (simp_all add: isPlainObject_def)

lemma isPlainObjectE: "isPlainObject v \<Longrightarrow> \<exists>fs. v = JObj fs"
  by (cases v) auto

lemma isArray_simps [simp]:
  "isArray (JArr vs)" "\<not> isArray JUndef" "\<not> isArray JNull" "\<not> isArray (JObj fs)"
  "\<not> isArray (JStr s)" "\<not> isArray (JNum n)" "\<not> isArray (JBool b)"
  by (simp_all add: isArray_def)

lemma isArrayE: "isArray v \<Longrightarrow> \<exists>vs. v = JArr vs"
  by (cases v) auto

lemma truthy_simps [simp]:
  "\<not> truthy JUndef" "\<not> truthy JNull" "truthy (JBool b) = b" "truthy (JStr s) = (s \<noteq> [])"
  "truthy (JArr vs)" "truthy (JObj fs)" "truthy (JNum n) = (n \<noteq> Fin 0 \<and> n \<noteq> NaN)"
  by (simp_all add: truthy_def)

lemma nullish_simps [simp]:
  "nullish JUndef" "nullish JNull" "\<not> nullish (JBool b)" "\<not> nullish (JStr s)"
  "\<not> nullish (JArr vs)" "\<not> nullish (JObj fs)" "\<not> nullish (JNum n)"
  by (simp_all add: nullish_def)

lemma one_of_simps [simp]:
  "one_of (JStr s) ss = (s \<in> set ss)" "\<not> one_of JUndef ss" "\<not> one_of JNull ss"
  "\<not> one_of (JBool b) ss" "\<not> one_of (JNum n) ss" "\<not> one_of (JArr vs) ss"
  "\<not> one_of (JObj fs) ss"
  by (simp_all add: one_of_def)

lemma one_ofE: "one_of v ss \<Longrightarrow> \<exists>s\<in>set ss. v = JStr s"
  by (cases v) auto

lemma js_or_truthy [simp]: "truthy a \<Longrightarrow> js_or a b = a" "\<not> truthy a \<Longrightarrow> js_or a b = b"
  by (simp_all add: js_or_def)

lemma coalesce_simps [simp]: "\<not> nullish a \<Longrightarrow> coalesce a b = a" "coalesce JUndef b = b" "coalesce JNull b = b"
  by (simp_all add: coalesce_def)

lemma strict_eqD: "strict_eq a b \<Longrightarrow> a = b"
  by (cases a) (auto simp: strict_eq_def)

lemma strict_eq_sym: "strict_eq a b \<Longrightarrow> strict_eq b a"
  by (frule strict_eqD) simp

lemma strict_eq_trans: "strict_eq a b \<Longrightarrow> strict_eq b c \<Longrightarrow> strict_eq a c"
  by (frule strict_eqD) simp

lemma strict_eq_JStr [simp]: "strict_eq (JStr s) v \<longleftrightarrow> v = JStr s" "strict_eq v (JStr s) \<longleftrightarrow> v = JStr s"
  by (auto simp: strict_eq_def split: jval.splits)

subsection \<open>Arrays\<close>

definition elems :: "jval \<Rightarrow> jval list" where
  \<comment> \<open>\<open>Array.isArray(v) ? v : []\<close>\<close>
  "elems v = (case v of JArr vs \<Rightarrow> vs | _ \<Rightarrow> [])"

definition method_elems :: "jval \<Rightarrow> jval list res" where
  \<comment> \<open>the elements an array method called on \<open>v\<close> runs over; other values have no such method\<close>
  "method_elems v = (case v of JArr vs \<Rightarrow> Inr vs | _ \<Rightarrow> Inl TypeError)"

definition iter_elems :: "jval \<Rightarrow> jval list res" where
  \<comment> \<open>the values \<open>for (... of v)\<close> and \<open>[...v]\<close> run over: arrays and strings are iterable\<close>
  "iter_elems v = (case v of JArr vs \<Rightarrow> Inr vs | JStr s \<Rightarrow> Inr (map (\<lambda>c. JStr [c]) s)
     | _ \<Rightarrow> Inl TypeError)"

definition js_length :: "jval \<Rightarrow> jval res" where
  "js_length v = (case v of JArr vs \<Rightarrow> Inr (JNum (Fin (of_nat (length vs))))
     | JStr s \<Rightarrow> Inr (JNum (Fin (of_nat (length s)))) | _ \<Rightarrow> getp v ''length'')"

lemma elems_simps [simp]:
  "elems (JArr vs) = vs" "elems JUndef = []" "elems JNull = []" "elems (JObj fs) = []"
  "elems (JStr s) = []" "elems (JNum n) = []" "elems (JBool b) = []"
  by (simp_all add: elems_def)

lemma iter_elems_JArr [simp]: "iter_elems (JArr vs) = Inr vs"
  by (simp add: iter_elems_def)

lemma method_elems_JArr [simp]: "method_elems (JArr vs) = Inr vs"
  by (simp add: method_elems_def)

lemma method_elems_Inr_iff [monad]: "method_elems v = Inr vs \<longleftrightarrow> v = JArr vs"
  by (cases v) (auto simp: method_elems_def)

lemma js_length_JArr [simp]: "js_length (JArr vs) = Inr (JNum (Fin (of_nat (length vs))))"
  by (simp add: js_length_def)

subsection \<open>Strings\<close>

definition is_space :: "char \<Rightarrow> bool" where
  "is_space c \<longleftrightarrow> c \<in> {CHR 0x09, CHR 0x0A, CHR 0x0B, CHR 0x0C, CHR 0x0D, CHR 0x20, CHR 0xA0}"

definition trimEnd :: "string \<Rightarrow> string" where
  "trimEnd s = rev (dropWhile is_space (rev s))"

definition trim :: "string \<Rightarrow> string" where
  "trim s = trimEnd (dropWhile is_space s)"

definition ellipsis :: char where
  "ellipsis = CHR 0x85"

fun joined :: "string \<Rightarrow> string list \<Rightarrow> string" where
  \<comment> \<open>\<open>Array.prototype.join\<close>\<close>
  "joined sep [] = []"
| "joined sep [s] = s"
| "joined sep (s # ss) = s @ sep @ joined sep ss"

lemma trimEnd_Nil [simp]: "trimEnd [] = []"
  by (simp add: trimEnd_def)

lemma trim_Nil [simp]: "trim [] = []"
  by (simp add: trim_def)

lemma trimEnd_length: "length (trimEnd s) \<le> length s"
  by (metis length_dropWhile_le length_rev trimEnd_def)

lemma trimEnd_hd: "trimEnd s \<noteq> [] \<Longrightarrow> hd (trimEnd s) = hd s"
proof -
  assume ne: "trimEnd s \<noteq> []"
  have "s = trimEnd s @ rev (takeWhile is_space (rev s))"
    by (metis rev_append rev_rev_ident takeWhile_dropWhile_id trimEnd_def)
  with ne show ?thesis by (metis hd_append2)
qed

lemma trimEnd_last: "trimEnd s \<noteq> [] \<Longrightarrow> \<not> is_space (last (trimEnd s))"
  by (metis hd_dropWhile last_rev rev_is_Nil_conv trimEnd_def)

lemma trimEnd_id: "s = [] \<or> \<not> is_space (last s) \<Longrightarrow> trimEnd s = s"
  by (cases s rule: rev_cases) (auto simp: trimEnd_def)

lemma trim_id: "s = [] \<or> (\<not> is_space (hd s) \<and> \<not> is_space (last s)) \<Longrightarrow> trim s = s"
  by (cases s) (auto simp: trim_def trimEnd_id)

lemma trim_ends: "trim s \<noteq> [] \<Longrightarrow> \<not> is_space (hd (trim s)) \<and> \<not> is_space (last (trim s))"
proof -
  assume ne: "trim s \<noteq> []"
  then have "dropWhile is_space s \<noteq> []" by (metis trimEnd_Nil trim_def)
  then have "\<not> is_space (hd (dropWhile is_space s))" by (rule hd_dropWhile)
  with ne show ?thesis by (auto simp: trim_def trimEnd_hd trimEnd_last)
qed

lemma trim_idem [simp]: "trim (trim s) = trim s"
  using trim_ends [of s] by (cases "trim s = []") (auto intro: trim_id)

lemma trim_nonempty: "trim s \<noteq> [] \<Longrightarrow> s \<noteq> []"
  by auto

lemma trim_not_Nil: "c \<in> set s \<Longrightarrow> \<not> is_space c \<Longrightarrow> trim s \<noteq> []"
proof
  assume c: "c \<in> set s" "\<not> is_space c" and "trim s = []"
  then have "\<forall>x\<in>set (dropWhile is_space s). is_space x"
    by (simp add: trim_def trimEnd_def dropWhile_eq_Nil_conv)
  moreover have "\<forall>x\<in>set (takeWhile is_space s). is_space x" by (auto dest: set_takeWhileD)
  ultimately have "\<forall>x\<in>set s. is_space x"
    by (metis Un_iff set_append takeWhile_dropWhile_id)
  with c show False by blast
qed

subsection \<open>Numbers\<close>

definition is_integral :: "rat \<Rightarrow> bool" where
  "is_integral r \<longleftrightarrow> of_int \<lfloor>r\<rfloor> = r"

definition num :: "int \<Rightarrow> jval" where
  "num i = JNum (Fin (of_int i))"

definition isInteger :: "jval \<Rightarrow> bool" where
  \<comment> \<open>\<open>Number.isInteger(v)\<close>\<close>
  "isInteger v = (case v of JNum (Fin r) \<Rightarrow> is_integral r | _ \<Rightarrow> False)"

definition digit_of :: "char \<Rightarrow> nat" where
  "digit_of c = of_char c - 48"

definition is_digit :: "char \<Rightarrow> bool" where
  "is_digit c \<longleftrightarrow> 48 \<le> (of_char c :: nat) \<and> (of_char c :: nat) \<le> 57"

definition hex_of :: "char \<Rightarrow> nat option" where
  "hex_of c = (let n = (of_char c :: nat) in
     if 48 \<le> n \<and> n \<le> 57 then Some (n - 48)
     else if 97 \<le> n \<and> n \<le> 102 then Some (n - 87)
     else if 65 \<le> n \<and> n \<le> 70 then Some (n - 55) else None)"

definition radix_num :: "nat \<Rightarrow> string \<Rightarrow> jnum" where
  "radix_num b s =
     (if s \<noteq> [] \<and> (\<forall>c\<in>set s. \<exists>d\<in>set_option (hex_of c). d < b)
      then Fin (of_nat (foldl (\<lambda>a c. a * b + the (hex_of c)) 0 s)) else NaN)"

definition decimal :: "string \<Rightarrow> nat" where
  "decimal s = foldl (\<lambda>a c. a * 10 + digit_of c) 0 s"

definition signed :: "string \<Rightarrow> bool \<times> string" where
  \<comment> \<open>a leading minus or plus sign and the rest\<close>
  "signed s = (case s of [] \<Rightarrow> (False, []) | c # r \<Rightarrow>
     if c = CHR ''-'' then (True, r) else if c = CHR ''+'' then (False, r) else (False, s))"

definition exponent :: "string \<Rightarrow> int option" where
  "exponent s = (case s of [] \<Rightarrow> Some 0 | c # r \<Rightarrow>
     if c \<noteq> CHR ''e'' \<and> c \<noteq> CHR ''E'' then None
     else let (neg, ds) = signed r in
       if ds = [] \<or> \<not> list_all is_digit ds then None
       else Some (if neg then - int (decimal ds) else int (decimal ds)))"

definition decimal_num :: "string \<Rightarrow> jnum" where
  "decimal_num s = (let (neg, b) = signed s; ip = takeWhile is_digit b; r = dropWhile is_digit b;
     (fp, e) = (case r of [] \<Rightarrow> ([], []) | c # t \<Rightarrow>
        if c = CHR ''.'' then (takeWhile is_digit t, dropWhile is_digit t) else ([], r))
     in if b = ''Infinity'' then (if neg then NegInf else PosInf)
        else if ip = [] \<and> fp = [] then NaN
        else case exponent e of None \<Rightarrow> NaN | Some x \<Rightarrow>
          let m = of_nat (decimal (ip @ fp)) / 10 ^ length fp;
              v = (if 0 \<le> x then m * 10 ^ nat x else m / 10 ^ nat (- x))
          in Fin (if neg then - v else v))"

definition str_num :: "string \<Rightarrow> jnum" where
  \<comment> \<open>\<open>Number(s)\<close> for a string\<close>
  "str_num s = (let t = trim s in
     if t = [] then Fin 0
     else if take 2 t \<in> {''0x'', ''0X''} then radix_num 16 (drop 2 t)
     else if take 2 t \<in> {''0o'', ''0O''} then radix_num 8 (drop 2 t)
     else if take 2 t \<in> {''0b'', ''0B''} then radix_num 2 (drop 2 t)
     else decimal_num t)"

fun nat_text :: "nat \<Rightarrow> string" where
  "nat_text n = (if n < 10 then [''0123456789'' ! n]
     else nat_text (n div 10) @ [''0123456789'' ! (n mod 10)])"

declare nat_text.simps [simp del]

definition int_text :: "int \<Rightarrow> string" where
  "int_text i = (if i < 0 then CHR ''-'' # nat_text (nat (- i)) else nat_text (nat i))"

definition rat_text :: "jsenv \<Rightarrow> rat \<Rightarrow> string" where
  "rat_text E r = (if is_integral r \<and> \<bar>r\<bar> < 10 ^ 21 then int_text \<lfloor>r\<rfloor> else num_text E r)"

fun js_string :: "jsenv \<Rightarrow> jval \<Rightarrow> string" where
  \<comment> \<open>\<open>String(v)\<close>, and \<open>v\<close> inside a template literal\<close>
  "js_string E JUndef = ''undefined''"
| "js_string E JNull = ''null''"
| "js_string E (JBool b) = (if b then ''true'' else ''false'')"
| "js_string E (JNum (Fin r)) = rat_text E r"
| "js_string E (JNum PosInf) = ''Infinity''"
| "js_string E (JNum NegInf) = ''-Infinity''"
| "js_string E (JNum NaN) = ''NaN''"
| "js_string E (JStr s) = s"
| "js_string E (JArr vs) = joined '','' (map (\<lambda>v. if nullish v then [] else js_string E v) vs)"
| "js_string E (JObj fs) = ''[object Object]''"

definition join_vals :: "jsenv \<Rightarrow> string \<Rightarrow> jval list \<Rightarrow> string" where
  "join_vals E sep vs = joined sep (map (\<lambda>v. if nullish v then [] else js_string E v) vs)"

definition to_number :: "jsenv \<Rightarrow> jval \<Rightarrow> jnum" where
  \<comment> \<open>\<open>Number(v)\<close>\<close>
  "to_number E v = (case v of JUndef \<Rightarrow> NaN | JNull \<Rightarrow> Fin 0 | JBool b \<Rightarrow> Fin (if b then 1 else 0)
     | JNum n \<Rightarrow> n | JStr s \<Rightarrow> str_num s | JArr vs \<Rightarrow> str_num (js_string E v) | JObj _ \<Rightarrow> NaN)"

fun num_less :: "jnum \<Rightarrow> jnum \<Rightarrow> bool" where
  "num_less (Fin a) (Fin b) = (a < b)"
| "num_less (Fin a) PosInf = True"
| "num_less NegInf (Fin b) = True"
| "num_less NegInf PosInf = True"
| "num_less _ _ = False"

fun num_add :: "jnum \<Rightarrow> jnum \<Rightarrow> jnum" where
  "num_add (Fin a) (Fin b) = Fin (a + b)"
| "num_add NaN _ = NaN"
| "num_add _ NaN = NaN"
| "num_add PosInf NegInf = NaN"
| "num_add NegInf PosInf = NaN"
| "num_add PosInf _ = PosInf"
| "num_add NegInf _ = NegInf"
| "num_add _ x = x"

definition num_max0 :: "rat \<Rightarrow> jnum \<Rightarrow> jval" where
  \<comment> \<open>\<open>Math.max(c, n)\<close>\<close>
  "num_max0 c n = JNum (case n of NaN \<Rightarrow> NaN | PosInf \<Rightarrow> PosInf | NegInf \<Rightarrow> Fin c
     | Fin r \<Rightarrow> Fin (max c r))"

definition num_or :: "jnum \<Rightarrow> rat \<Rightarrow> jnum" where
  \<comment> \<open>\<open>n || c\<close> for a number\<close>
  "num_or n c = (if n = NaN \<or> n = Fin 0 then Fin c else n)"

definition js_less :: "jsenv \<Rightarrow> jval \<Rightarrow> rat \<Rightarrow> bool" where
  \<comment> \<open>\<open>v < c\<close> for a numeral\<close>
  "js_less E v c = num_less (to_number E v) (Fin c)"

definition js_plus1 :: "jsenv \<Rightarrow> jval \<Rightarrow> jval" where
  \<comment> \<open>\<open>v + 1\<close>: concatenation when \<open>v\<close> is a string or an object\<close>
  "js_plus1 E v = (case v of JStr s \<Rightarrow> JStr (s @ ''1'') | JArr _ \<Rightarrow> JStr (js_string E v @ ''1'')
     | JObj _ \<Rightarrow> JStr (js_string E v @ ''1'') | _ \<Rightarrow> JNum (num_add (to_number E v) (Fin 1)))"

lemma to_number_simps [simp]:
  "to_number E (JNum n) = n" "to_number E JUndef = NaN" "to_number E JNull = Fin 0"
  by (simp_all add: to_number_def)

lemma is_integral_of_int [simp]: "is_integral (of_int i)"
  by (simp add: is_integral_def)

lemma is_integral_01 [simp]: "is_integral 1" "is_integral 0"
  by (simp_all add: is_integral_def)

lemma is_integral_numeral [simp]: "is_integral (numeral k)"
  by (simp add: is_integral_def)

lemma is_integral_add1: "is_integral r \<Longrightarrow> is_integral (r + 1)"
  by (simp add: is_integral_def)

lemma isInteger_JNum [simp]: "isInteger (JNum (Fin r)) = is_integral r"
  by (simp add: isInteger_def)

lemma isIntegerE: "isInteger v \<Longrightarrow> \<exists>i. v = num i"
  by (cases v) (auto simp: isInteger_def num_def is_integral_def split: jnum.splits intro: exI [of _ "\<lfloor>_\<rfloor>"])

lemma isInteger_num [simp]: "isInteger (num i)"
  by (simp add: num_def)

lemma num_inject [simp]: "num i = num j \<longleftrightarrow> i = j"
  by (simp add: num_def)

lemma js_less_num [simp]: "js_less E (num i) 1 \<longleftrightarrow> i < 1"
  by (simp add: js_less_def num_def)

lemma js_plus1_num [simp]: "js_plus1 E (num i) = num (i + 1)"
  by (simp add: js_plus1_def num_def)

subsection \<open>Dates\<close>

definition nowIso :: "jsenv \<Rightarrow> jval \<Rightarrow> string res" where
  \<comment> \<open>\<open>new Date(Number(value) || Date.now()).toISOString()\<close>; the \<open>now\<close> option is a number or absent\<close>
  "nowIso E now =
     (let value = (if now = JUndef then JNum (Fin (date_now E 0)) else now) in
      case num_or (to_number E value) (date_now E 0) of
        Fin ms \<Rightarrow> if \<bar>ms\<bar> \<le> 8640000000000000 then Inr (iso_text E ms) else Inl RangeError
      | _ \<Rightarrow> Inl RangeError)"

lemma to_number_num [simp]: "to_number E (num i) = Fin (of_int i)"
  by (simp add: num_def)

lemma truthy_num [simp]: "truthy (num i) \<longleftrightarrow> i \<noteq> 0"
  by (simp add: num_def)

lemma JNum_plus1 [simp]: "JNum (Fin (of_int i + 1)) = num (i + 1)"
  by (simp add: num_def)

lemma js_or_num: "i \<noteq> 0 \<Longrightarrow> JNum (to_number E (js_or (num i) v)) = num i"
  by (simp add: num_def)

lemma method_elems_InrD: "method_elems v = Inr vs \<Longrightarrow> v = JArr vs"
  by (simp add: method_elems_Inr_iff)

lemma emap_getp: "emap (\<lambda>x. getp x k) xs = Inr ys \<Longrightarrow> ys = map (\<lambda>x. fld x k) xs"
  by (induction xs arbitrary: ys) (auto simp: monad)

lemma isPlainObject_set_fld [simp]: "isPlainObject (set_fld k x v)"
  by (simp add: set_fld_def)

lemma coalesce_spread [simp]: "coalesce (spread v gs) w = spread v gs"
  by (simp add: spread_def)

lemma coalesce_num [simp]: "coalesce (num i) w = num i"
  by (simp add: num_def)

end
