(* ===== verification/Canonical.thy ===== *)
theory Canonical
  imports JsValue "HOL-Library.Multiset"
begin

section \<open>Canonical values, JSON text and content digests\<close>

text \<open>
  The identity layer every WorldManager kernel is built on (\<open>stableValue\<close>, \<open>digestFor\<close>,
  \<open>stableId\<close> of \<^verbatim>\<open>src/main/direct/worldmanager/artifact-lifecycle-kernel.js\<close> and, word for word
  the same, of \<^verbatim>\<open>aro-kernel.js\<close>). An object is digested through the JSON text of its
  canonical form: properties sorted by key, undefined and omitted ones left out.
\<close>

subsection \<open>Property order of objects\<close>

definition is_index :: "string \<Rightarrow> bool" where
  \<comment> \<open>keys that JavaScript enumerates first, in numeric order\<close>
  "is_index k \<longleftrightarrow> k \<noteq> [] \<and> list_all is_digit k \<and> (k = ''0'' \<or> hd k \<noteq> CHR ''0'')
     \<and> decimal k < 4294967295"

definition own_entries :: "(string \<times> 'a) list \<Rightarrow> (string \<times> 'a) list" where
  "own_entries fs = sort_key (\<lambda>(k, v). decimal k) (filter (\<lambda>(k, v). is_index k) fs)
     @ filter (\<lambda>(k, v). \<not> is_index k) fs"

lemma mset_own_entries [simp]: "mset (own_entries fs) = mset fs"
  by (auto simp: own_entries_def multiset_eq_iff case_prod_unfold)

lemma set_own_entries [simp]: "set (own_entries fs) = set fs"
  by (metis mset_own_entries set_mset_mset)

subsection \<open>The canonical form\<close>

definition kept :: "string list \<Rightarrow> string \<times> jval \<Rightarrow> bool" where
  \<comment> \<open>assigning to \<open>__proto__\<close> sets the prototype and creates no property\<close>
  "kept omitted e \<longleftrightarrow> fst e \<notin> set omitted \<and> snd e \<noteq> JUndef \<and> fst e \<noteq> ''__proto__''"

fun stableValue :: "string list \<Rightarrow> jval \<Rightarrow> jval" where
  "stableValue omitted (JArr vs) = JArr (map (stableValue omitted) vs)"
| "stableValue omitted (JObj fs) =
     JObj (sort_key fst (map (\<lambda>(k, v). (k, stableValue omitted v)) (filter (kept omitted) fs)))"
| "stableValue omitted v = v"

subsection \<open>JSON text\<close>

definition hex_digit :: "nat \<Rightarrow> char" where
  "hex_digit n = ''0123456789abcdef'' ! n"

definition json_char :: "char \<Rightarrow> string" where
  "json_char c = (let n = (of_char c :: nat) in
     if n = 34 then [CHR 0x5C, CHR 0x22] else if n = 92 then [CHR 0x5C, CHR 0x5C]
     else if n = 8 then [CHR 0x5C, CHR ''b''] else if n = 9 then [CHR 0x5C, CHR ''t'']
     else if n = 10 then [CHR 0x5C, CHR ''n''] else if n = 12 then [CHR 0x5C, CHR ''f'']
     else if n = 13 then [CHR 0x5C, CHR ''r'']
     else if n < 32 then [CHR 0x5C, CHR ''u'', CHR ''0'', CHR ''0'', hex_digit (n div 16), hex_digit (n mod 16)]
     else [c])"

definition json_string :: "string \<Rightarrow> string" where
  "json_string s = CHR 0x22 # concat (map json_char s) @ [CHR 0x22]"

fun json_text :: "jsenv \<Rightarrow> jval \<Rightarrow> string" where
  \<comment> \<open>\<open>JSON.stringify\<close> of a value inside an array or object\<close>
  "json_text E JUndef = ''null''"
| "json_text E JNull = ''null''"
| "json_text E (JBool b) = (if b then ''true'' else ''false'')"
| "json_text E (JNum n) = (case n of Fin r \<Rightarrow> rat_text E r | _ \<Rightarrow> ''null'')"
| "json_text E (JStr s) = json_string s"
| "json_text E (JArr vs) = ''['' @ joined '','' (map (json_text E) vs) @ '']''"
| "json_text E (JObj fs) = ''{'' @ joined '','' (map (\<lambda>(k, t). json_string k @ '':'' @ t)
     (own_entries (map (\<lambda>(k, v). (k, json_text E v)) (filter (\<lambda>(k, v). v \<noteq> JUndef) fs)))) @ ''}''"

definition stringified :: "jsenv \<Rightarrow> jval \<Rightarrow> string" where
  \<comment> \<open>\<open>JSON.stringify(v)\<close> inside a template literal\<close>
  "stringified E v = (if v = JUndef then ''undefined'' else json_text E v)"

subsection \<open>Digests and derived identifiers\<close>

definition digestFor :: "jsenv \<Rightarrow> string \<Rightarrow> jval \<Rightarrow> string list \<Rightarrow> string" where
  "digestFor E domain v omittedFields =
     ''sha256:'' @ sha256hex E (domain @ [CHR 0x00] @ stringified E (stableValue omittedFields v))"

definition stableId :: "jsenv \<Rightarrow> string \<Rightarrow> jval \<Rightarrow> string" where
  "stableId E prefix v =
     prefix @ ''_'' @ take 24 (drop 7 (digestFor E (prefix @ ''@1'') v []))"

subsection \<open>The canonical form is canonical\<close>

lemma stableValue_JUndef_iff [simp]: "stableValue om v = JUndef \<longleftrightarrow> v = JUndef"
  by (cases v) auto

lemma stableValue_isPlainObject [simp]: "isPlainObject (stableValue om v) = isPlainObject v"
  by (cases v) auto

lemma stableValue_idem: "stableValue om (stableValue om v) = stableValue om v"
proof (induction om v rule: stableValue.induct)
  case (2 om fs)
  let ?gs = "map (\<lambda>(k, v). (k, stableValue om v)) (filter (kept om) fs)"
  have fixed: "stableValue om (snd e) = snd e" if "e \<in> set ?gs" for e
    using that 2 by auto
  have "filter (kept om) (sort_key fst ?gs) = sort_key fst ?gs"
    by (rule filter_True) (auto simp: kept_def)
  moreover have "map (\<lambda>(k, v). (k, stableValue om v)) (sort_key fst ?gs) = sort_key fst ?gs"
  proof (rule map_idI)
    fix e assume "e \<in> set (sort_key fst ?gs)"
    then have "stableValue om (snd e) = snd e" by (intro fixed) (simp only: set_sort)
    then show "(case e of (k, v) \<Rightarrow> (k, stableValue om v)) = e" by (cases e) simp
  qed
  moreover have "sort_key fst (sort_key fst ?gs) = sort_key fst ?gs"
    by (rule sort_key_id_if_sorted) (rule sorted_sort_key)
  ultimately show ?case by (simp only: stableValue.simps)
qed auto

lemma stable_entries_kept:
  "stableValue om (JObj fs) = JObj gs \<Longrightarrow> e \<in> set gs \<Longrightarrow> kept om e"
  by (auto simp: kept_def)

text \<open>Two values hold the same data when they differ only in the order of object properties.\<close>

inductive same_data :: "jval \<Rightarrow> jval \<Rightarrow> bool" where
  same_refl: "same_data v v"
| same_arr: "list_all2 same_data vs ws \<Longrightarrow> same_data (JArr vs) (JArr ws)"
| same_obj: "list_all2 (\<lambda>e e'. fst e = fst e' \<and> same_data (snd e) (snd e')) fs hs
     \<Longrightarrow> mset hs = mset gs \<Longrightarrow> distinct (map fst gs) \<Longrightarrow> same_data (JObj fs) (JObj gs)"

lemma sort_key_perm:
  assumes "mset xs = mset ys" "distinct (map f ys)"
  shows "sort_key f xs = sort_key f ys"
proof (rule sort_key_inj_key_eq)
  show "mset xs = mset (sort_key f ys)" using assms(1) by simp
  show "inj_on f (set xs)"
    using assms by (metis distinct_map mset_eq_setD)
qed (rule sorted_sort_key)

lemma map_fst_stable:
  "map fst (map (\<lambda>(k, v). (k, stableValue om v)) fs) = map fst fs"
  by (simp add: case_prod_unfold comp_def)

lemma stableValue_pointwise:
  "list_all2 (\<lambda>e e'. fst e = fst e' \<and> stableValue om (snd e) = stableValue om (snd e')) fs hs \<Longrightarrow>
   map (\<lambda>(k, v). (k, stableValue om v)) (filter (kept om) fs) =
   map (\<lambda>(k, v). (k, stableValue om v)) (filter (kept om) hs)"
proof (induction fs hs rule: list_all2_induct)
  case (Cons e fs e' hs)
  then have "stableValue om (snd e) = stableValue om (snd e')" "fst e = fst e'" by auto
  then have "kept om e = kept om e'"
    unfolding kept_def by (metis stableValue_JUndef_iff)
  with Cons show ?case by (auto simp: case_prod_unfold)
qed simp

lemma same_data_stable: "same_data a b \<Longrightarrow> stableValue om a = stableValue om b"
proof (induction rule: same_data.induct)
  case (same_arr vs ws)
  then have "list_all2 (\<lambda>v w. stableValue om v = stableValue om w) vs ws"
    by (rule list_all2_mono) simp
  then show ?case by (simp add: list_all2_conv_all_nth list_eq_iff_nth_eq)
next
  case (same_obj fs hs gs)
  let ?m = "map (\<lambda>(k, v). (k, stableValue om v))"
  from same_obj(1) have "?m (filter (kept om) fs) = ?m (filter (kept om) hs)"
    by (intro stableValue_pointwise) (auto elim: list_all2_mono)
  moreover have "mset (?m (filter (kept om) hs)) = mset (?m (filter (kept om) gs))"
    using same_obj(2) by simp
  moreover have "distinct (map fst (?m (filter (kept om) gs)))"
    using same_obj(3) by (simp only: map_fst_stable distinct_map_filter)
  ultimately show ?case by (metis sort_key_perm stableValue.simps(2))
qed simp

subsection \<open>A digest does not depend on the omitted properties\<close>

lemma filter_kept_update:
  "k \<in> set om \<Longrightarrow> filter (kept om) (AList.update k x fs) = filter (kept om) fs"
  by (induction fs) (auto simp: kept_def)

lemma digestFor_set_omitted:
  "isPlainObject v \<Longrightarrow> k \<in> set om \<Longrightarrow> digestFor E d (set_fld k x v) om = digestFor E d v om"
  by (auto dest!: isPlainObjectE simp: digestFor_def set_fld_def stringified_def filter_kept_update)

subsection \<open>What the code relies on in the hash\<close>

definition sha_ok :: "jsenv \<Rightarrow> bool" where
  \<comment> \<open>\<open>createHash("sha256").digest("hex")\<close> is 64 lower-case hexadecimal digits\<close>
  "sha_ok E \<longleftrightarrow> (\<forall>s. length (sha256hex E s) = 64 \<and> set (sha256hex E s) \<subseteq> set ''0123456789abcdef'')"

lemma digest_trimmed:
  assumes "sha_ok E" shows "trim (digestFor E d v om) = digestFor E d v om"
proof -
  let ?h = "sha256hex E (d @ [CHR 0x00] @ stringified E (stableValue om v))"
  from assms have l: "length ?h = 64" and s: "set ?h \<subseteq> set ''0123456789abcdef''"
    by (auto simp: sha_ok_def)
  from l have "?h \<noteq> []" by auto
  with s have "last ?h \<in> set ''0123456789abcdef''" using last_in_set by blast
  then have "\<not> is_space (last ?h)" by (auto simp: is_space_def)
  then show ?thesis using \<open>?h \<noteq> []\<close>
    by (auto simp: digestFor_def intro!: trim_id) (simp_all add: is_space_def)
qed

subsection \<open>What a digest leaves out\<close>

text \<open>
  The omitted properties are omitted at every depth: \<open>stableValue\<close> hands \<open>omitted\<close> on to its
  recursive calls. So a digest computed with \<open>["digest"]\<close> does not depend on the \<open>digest\<close>
  properties of the objects nested in the record.
\<close>

lemma stable_entries_replace:
  assumes "map_of gs k = Some r" "stableValue om r' = stableValue om r"
  shows "map (\<lambda>(k, v). (k, stableValue om v)) (filter (kept om) (AList.update k r' gs)) =
         map (\<lambda>(k, v). (k, stableValue om v)) (filter (kept om) gs)"
proof -
  have "r' = JUndef \<longleftrightarrow> r = JUndef" using assms(2) by (metis stableValue_JUndef_iff)
  with assms show ?thesis by (induction gs) (auto simp: kept_def split: if_splits)
qed

lemma stableValue_replace:
  assumes "isPlainObject v" "fld v k \<noteq> JUndef" "stableValue om r' = stableValue om (fld v k)"
  shows "stableValue om (set_fld k r' v) = stableValue om v"
proof -
  obtain gs where v: "v = JObj gs" using assms(1) by (auto dest: isPlainObjectE)
  with assms(2) have "map_of gs k = Some (fld v k)" by (auto simp: fld_JObj split: option.splits)
  from stable_entries_replace [OF this assms(3)] show ?thesis by (simp add: v set_fld_def)
qed

lemma digestFor_nested_omitted:
  assumes "isPlainObject v" "isPlainObject (fld v k)" "o' \<in> set om"
  shows "digestFor E d (set_fld k (set_fld o' x (fld v k)) v) om = digestFor E d v om"
proof -
  obtain fs where r: "fld v k = JObj fs" using assms(2) by (auto dest: isPlainObjectE)
  have "stableValue om (set_fld o' x (fld v k)) = stableValue om (fld v k)"
    by (simp add: r set_fld_def filter_kept_update [OF assms(3)])
  then have "stableValue om (set_fld k (set_fld o' x (fld v k)) v) = stableValue om v"
    by (rule stableValue_replace [OF assms(1), rotated]) (simp add: r)
  then show ?thesis by (simp add: digestFor_def)
qed

text \<open>C31: Digests do not depend on the order of the properties of an object, at any depth.\<close>

theorem digest_of_same_data:
  assumes "same_data a b"
  shows "digestFor E domain a omitted = digestFor E domain b omitted"
  by (simp add: digestFor_def same_data_stable [OF assms])

end
