(* ===== verification/ArtifactRefs.thy ===== *)
theory ArtifactRefs
  imports Canonical
begin

section \<open>Exact references, scopes and sealed artifacts\<close>

text \<open>
  The normalising helpers at the head of
  \<^verbatim>\<open>src/main/direct/worldmanager/artifact-lifecycle-kernel.js\<close>: bounded text, exact references
  (kind, id, digest), their de-duplication and comparison, semantic scopes, string lists, and
  \<open>artifact\<close> / \<open>validateArtifact\<close>, which seal a record with the digest of its content and
  check the seal.
\<close>

subsection \<open>Text\<close>

definition fail :: "string \<Rightarrow> string \<Rightarrow> 'a res" where
  "fail code detail = Inl (Fail code detail)"

definition js_text :: "jval \<Rightarrow> string \<Rightarrow> string" where
  "js_text v fallback = (case v of JStr s \<Rightarrow> if trim s \<noteq> [] then trim s else fallback | _ \<Rightarrow> fallback)"

definition bounded :: "jval \<Rightarrow> string \<Rightarrow> nat \<Rightarrow> string" where
  "bounded v fallback mx = (let source = js_text v fallback in
     if length source > mx then trimEnd (take (mx - 1) source) @ [ellipsis] else source)"

lemma fail_neq_Inr [simp]: "fail c d \<noteq> Inr x" "Inr x \<noteq> fail c d"
  by (simp_all add: fail_def)

lemma ebind_fail [simp]: "ebind (fail c d) f = fail c d"
  by (simp add: fail_def)

lemma fail_eq_iff [simp]: "fail c d = (fail c' d' :: 'a res) \<longleftrightarrow> c = c' \<and> d = d'"
  by (simp add: fail_def)

lemma fail_eq_Inl_iff: "fail c d = (Inl e :: 'a res) \<longleftrightarrow> e = Fail c d"
  by (auto simp: fail_def)

lemma if_fail_Inr_iff [monad]: "((if c then fail x y else m) = Inr v) \<longleftrightarrow> \<not> c \<and> m = Inr v"
  by simp

lemma if_fail_InrE: "(if c then fail x y else m) = Inr v \<Longrightarrow> (\<not> c \<Longrightarrow> m = Inr v \<Longrightarrow> P) \<Longrightarrow> P"
  by (auto split: if_splits)

lemma if_not_fail_InrE: "(if \<not> c then fail x y else m) = Inr v \<Longrightarrow> (c \<Longrightarrow> m = Inr v \<Longrightarrow> P) \<Longrightarrow> P"
  by (auto split: if_splits)

lemmas run_elims = ebind_InrE Let_InrE if_not_fail_InrE if_fail_InrE if_Inl_InrE Inr_InrE

lemma js_text_simps [simp]:
  "js_text JUndef fb = fb" "js_text JNull fb = fb" "js_text (JBool b) fb = fb" "js_text (JNum n) fb = fb"
  "js_text (JArr vs) fb = fb" "js_text (JObj fs) fb = fb"
  by (simp_all add: js_text_def)

lemma js_text_JStr: "js_text (JStr s) fb = (if trim s \<noteq> [] then trim s else fb)"
  by (simp add: js_text_def)

lemma js_text_nonempty_iff: "js_text v [] \<noteq> [] \<longleftrightarrow> (\<exists>s. v = JStr s \<and> trim s \<noteq> [])"
  by (cases v) (auto simp: js_text_def)

lemma js_text_nonempty: "fb \<noteq> [] \<Longrightarrow> js_text v fb \<noteq> []"
  by (cases v) (auto simp: js_text_def)

lemma js_text_trimmed [simp]: "trim fb = fb \<Longrightarrow> trim (js_text v fb) = js_text v fb"
  by (cases v) (auto simp: js_text_def)

lemma js_text_JStr_trimmed [simp]: "trim s = s \<Longrightarrow> js_text (JStr s) fb = (if s = [] then fb else s)"
  by (simp add: js_text_JStr)

lemma bounded_length: "length (js_text v fb) \<le> mx \<or> 0 < mx \<Longrightarrow> length (bounded v fb mx) \<le> mx"
  using trimEnd_length [of "take (mx - 1) (js_text v fb)"]
  by (auto simp: bounded_def Let_def)

subsection \<open>Exact references\<close>

definition exactRef :: "jval \<Rightarrow> string \<Rightarrow> jval res" where
  "exactRef arg label =
     ebind (defaulted arg) (\<lambda>v.
       let kind = js_text (fld v ''kind'') [];
           id = js_text (js_or (js_or (fld v ''id'') (fld v ''refId'')) (fld v ''artifactId'')) [];
           digest = js_text (js_or (js_or (fld v ''digest'') (fld v ''artifactDigest''))
                       (fld v ''sourceDigest'')) [];
           projectId = js_text (fld v ''projectId'') [];
           labelText = bounded (js_or (fld v ''label'') (fld v ''rendererSafeLabel'')) [] 160
       in if kind = [] \<or> id = [] \<or> digest = []
          then fail ''world_manager_artifact_lifecycle_ref_invalid'' label
          else Inr (JObj ([(''kind'', JStr kind), (''id'', JStr id), (''digest'', JStr digest)]
            @ (if projectId = [] then [] else [(''projectId'', JStr projectId)])
            @ (if labelText = [] then [] else [(''label'', JStr labelText)]))))"

definition exactRefKey :: "jsenv \<Rightarrow> jval \<Rightarrow> string" where
  "exactRefKey E ref = js_string E (fld ref ''kind'') @ '':'' @ js_string E (fld ref ''id'')
     @ '':'' @ js_string E (fld ref ''digest'')"

definition uniqueRefs :: "jsenv \<Rightarrow> jval \<Rightarrow> string \<Rightarrow> jval list res" where
  "uniqueRefs E v label =
     ebind (emapi (\<lambda>index entry. exactRef entry (label @ ''.'' @ nat_text index)) 0 (elems v))
       (\<lambda>refs. Inr (dedup (exactRefKey E) refs))"

definition exactRefMatches :: "jval \<Rightarrow> jval \<Rightarrow> bool" where
  "exactRefMatches left right \<longleftrightarrow> truthy left \<and> truthy right
     \<and> strict_eq (fld left ''kind'') (fld right ''kind'')
     \<and> strict_eq (fld left ''id'') (fld right ''id'')
     \<and> strict_eq (fld left ''digest'') (fld right ''digest'')"

definition optionalRef :: "jval \<Rightarrow> string \<Rightarrow> jval res" where
  \<comment> \<open>\<open>v ? exactRef(v, label) : null\<close>\<close>
  "optionalRef v label = (if truthy v then exactRef v label else Inr JNull)"

definition stamped :: "jsenv \<Rightarrow> jval \<Rightarrow> jval res" where
  \<comment> \<open>\<open>text(input.createdAt, nowIso(input.now))\<close>\<close>
  "stamped E input = ebind (nowIso E (fld input ''now''))
     (\<lambda>iso. Inr (JStr (js_text (fld input ''createdAt'') iso)))"

subsection \<open>Scopes and string lists\<close>

definition scope_kinds :: "string list" where
  "scope_kinds = [''user_world'', ''project'', ''task'', ''workthread'', ''artifact'']"

definition project_scope_kinds :: "string list" where
  "project_scope_kinds = [''project'', ''task'', ''workthread'', ''artifact'']"

definition normalizeScope :: "jval \<Rightarrow> jval res" where
  "normalizeScope arg =
     ebind (defaulted arg) (\<lambda>v.
       let projectId = js_text (fld v ''projectId'') [];
           workThreadId = js_text (fld v ''workThreadId'') [];
           kind = js_text (fld v ''kind'')
             (if workThreadId \<noteq> [] then ''workthread''
              else if projectId \<noteq> [] then ''project'' else ''user_world'')
       in if kind \<notin> set scope_kinds
          then fail ''world_manager_artifact_lifecycle_scope_invalid'' kind
          else if kind \<in> set project_scope_kinds \<and> projectId = []
          then fail ''world_manager_artifact_lifecycle_scope_project_required'' kind
          else if kind = ''workthread'' \<and> workThreadId = []
          then fail ''world_manager_artifact_lifecycle_scope_workthread_required'' []
          else Inr (JObj [
            (''kind'', JStr kind),
            (''userWorldId'', JStr (js_text (fld v ''userWorldId'') ''user_world_local'')),
            (''projectId'', JStr projectId),
            (''taskType'', JStr (js_text (fld v ''taskType'') [])),
            (''workThreadId'', JStr workThreadId),
            (''artifactLifecycleId'', JStr (js_text (fld v ''artifactLifecycleId'') []))]))"

definition sameScope :: "jval \<Rightarrow> jval \<Rightarrow> bool res" where
  "sameScope left right =
     ebind (normalizeScope left) (\<lambda>a. ebind (normalizeScope right) (\<lambda>b.
       Inr (strict_eq (fld a ''userWorldId'') (fld b ''userWorldId'')
         \<and> strict_eq (fld a ''projectId'') (fld b ''projectId'')
         \<and> (\<not> truthy (fld a ''workThreadId'') \<or> \<not> truthy (fld b ''workThreadId'')
            \<or> strict_eq (fld a ''workThreadId'') (fld b ''workThreadId'')))))"

definition stringList :: "jval \<Rightarrow> string list" where
  "stringList v = take 64 (dedup id (filter (\<lambda>s. s \<noteq> []) (map (\<lambda>e. js_text e []) (elems v))))"

definition strings :: "string list \<Rightarrow> jval" where
  "strings ss = JArr (map JStr ss)"

subsection \<open>Sealed artifacts\<close>

definition artifact :: "jsenv \<Rightarrow> string \<Rightarrow> string \<Rightarrow> string \<Rightarrow> (string \<times> jval) list \<Rightarrow> jval" where
  "artifact E schema idField ident body =
     (let v = spread (JObj [(''schema'', JStr schema)]) ((idField, JStr ident) # body)
      in set_fld ''digest'' (JStr (digestFor E schema v [''digest''])) v)"

definition validateArtifact :: "jsenv \<Rightarrow> jval \<Rightarrow> string \<Rightarrow> string \<Rightarrow> string \<Rightarrow> bool res" where
  "validateArtifact E v schema idField code =
     (if \<not> isPlainObject v
       \<or> fld v ''schema'' \<noteq> JStr schema
       \<or> js_text (fld v idField) [] = []
       \<or> fld v ''digest'' \<noteq> JStr (digestFor E schema v [''digest''])
      then fail code (js_text (fld v idField) schema)
      else Inr True)"

definition artifactExactRef :: "string \<Rightarrow> jval \<Rightarrow> string \<Rightarrow> jval \<Rightarrow> jval res" where
  "artifactExactRef kind v idField projectId =
     ebind (getp v idField) (\<lambda>id. ebind (getp v ''digest'') (\<lambda>digest.
       exactRef (JObj ([(''kind'', JStr kind), (''id'', id), (''digest'', digest)]
         @ (if truthy projectId then [(''projectId'', projectId)] else []))) ''ref''))"

subsection \<open>Laws of references\<close>

lemma ellipsis_not_space [simp]: "\<not> is_space ellipsis"
  by (simp add: is_space_def ellipsis_def)

lemma js_text_hd: "js_text v [] \<noteq> [] \<Longrightarrow> \<not> is_space (hd (js_text v []))"
  using trim_ends [of "js_text v []"] by simp

lemma bounded_trimmed: "0 < mx \<Longrightarrow> trim (bounded v [] mx) = bounded v [] mx"
proof -
  let ?s = "js_text v []" and ?t = "trimEnd (take (mx - 1) (js_text v []))"
  have "\<not> is_space (hd (?t @ [ellipsis]))" if "length ?s > mx"
  proof (cases "?t = []")
    case False
    then have "hd ?t = hd (take (mx - 1) ?s)" "take (mx - 1) ?s \<noteq> []"
      by (auto simp: trimEnd_hd)
    then have "hd ?t = hd ?s" by (simp add: hd_take)
    moreover have "js_text v [] \<noteq> []" using that by auto
    ultimately show ?thesis using False js_text_hd [of v] by (simp add: hd_append)
  qed simp
  then show ?thesis
    by (auto simp: bounded_def Let_def js_text_trimmed intro!: trim_id)
qed

lemma bounded_JStr: "0 < mx \<Longrightarrow> trim s = s \<Longrightarrow> length s \<le> mx \<Longrightarrow> bounded (JStr s) [] mx = s"
  by (auto simp: bounded_def Let_def js_text_JStr)

lemma bounded_JUndef [simp]: "bounded JUndef fb mx = (if length fb > mx then trimEnd (take (mx - 1) fb) @ [ellipsis] else fb)"
  by (simp add: bounded_def)

lemma bounded_idem: "0 < mx \<Longrightarrow> bounded (JStr (bounded v [] mx)) [] mx = bounded v [] mx"
  by (intro bounded_JStr bounded_trimmed bounded_length) auto

lemma exactRef_Inr:
  assumes "exactRef v l = Inr r"
  obtains kind id digest projectId label where
    "r = JObj ([(''kind'', JStr kind), (''id'', JStr id), (''digest'', JStr digest)]
            @ (if projectId = [] then [] else [(''projectId'', JStr projectId)])
            @ (if label = [] then [] else [(''label'', JStr label)]))"
    "kind \<noteq> []" "id \<noteq> []" "digest \<noteq> []" "trim kind = kind" "trim id = id" "trim digest = digest"
    "trim projectId = projectId" "trim label = label" "length label \<le> 160"
    "kind = js_text (fld v ''kind'') []"
  using assms
proof (cases "defaulted v")
  case (Inr w)
  have f: "fld w k = fld v k" for k using Inr by (rule defaulted_Inr_fld)
  from assms Inr show thesis
    by (intro that [of "js_text (fld v ''kind'') []"
        "js_text (js_or (js_or (fld v ''id'') (fld v ''refId'')) (fld v ''artifactId'')) []"
        "js_text (js_or (js_or (fld v ''digest'') (fld v ''artifactDigest'')) (fld v ''sourceDigest'')) []"
        "js_text (fld v ''projectId'') []"
        "bounded (js_or (fld v ''label'') (fld v ''rendererSafeLabel'')) [] 160"])
      (auto simp: exactRef_def Let_def f js_text_trimmed bounded_trimmed bounded_length split: if_splits)
qed (simp add: exactRef_def)

lemma exactRef_exactRef: "exactRef v l = Inr r \<Longrightarrow> exactRef r l' = Inr r"
  by (erule exactRef_Inr) (auto simp: exactRef_def Let_def js_text_JStr bounded_JStr)

lemma exactRef_fields:
  assumes "exactRef v l = Inr r"
  shows "isPlainObject r" "truthy r" "truthy (fld r ''kind'')" "truthy (fld r ''id'')" "truthy (fld r ''digest'')"
    "fld r ''kind'' = JStr (js_text (fld v ''kind'') [])"
  using assms by (auto elim!: exactRef_Inr)

lemma exactRefMatches_refl: "exactRef v l = Inr r \<Longrightarrow> exactRefMatches r r"
  by (erule exactRef_Inr) (auto simp: exactRefMatches_def strict_eq_def)

lemma exactRefMatches_sym: "exactRefMatches a b \<Longrightarrow> exactRefMatches b a"
  by (simp add: exactRefMatches_def strict_eq_sym)

lemma exactRefMatches_trans:
  assumes "exactRefMatches a b" "exactRefMatches b c"
  shows "exactRefMatches a c"
  using assms unfolding exactRefMatches_def by (blast intro: strict_eq_trans)

lemma uniqueRefs_Inr:
  assumes "uniqueRefs E v l = Inr rs"
  shows "distinct (map (exactRefKey E) rs)" "\<forall>r\<in>set rs. \<exists>e\<in>set (elems v). \<exists>l'. exactRef e l' = Inr r"
    "length rs \<le> length (elems v)"
proof -
  from assms obtain refs where r: "emapi (\<lambda>i e. exactRef e (l @ ''.'' @ nat_text i)) 0 (elems v) = Inr refs"
    and rs: "rs = dedup (exactRefKey E) refs"
    by (auto simp: uniqueRefs_def monad)
  show "distinct (map (exactRefKey E) rs)" by (simp add: rs dedup_from_distinct)
  show "\<forall>r\<in>set rs. \<exists>e\<in>set (elems v). \<exists>l'. exactRef e l' = Inr r"
    using emapi_Inr_mem [OF r] dedup_from_subset unfolding rs by (metis subsetD)
  show "length rs \<le> length (elems v)"
    using dedup_from_length [of "exactRefKey E" "[]" refs] emapi_Inr_length [OF r] rs by simp
qed

lemma uniqueRefs_again:
  assumes "uniqueRefs E v l = Inr rs"
  shows "uniqueRefs E (JArr rs) l' = Inr rs"
proof -
  have "emapi (\<lambda>i e. exactRef e (l' @ ''.'' @ nat_text i)) 0 rs = Inr (map id rs)"
    using uniqueRefs_Inr(2) [OF assms] by (intro emapi_total) (auto intro: exactRef_exactRef)
  then show ?thesis
    using uniqueRefs_Inr(1) [OF assms] by (simp add: uniqueRefs_def dedup_from_id)
qed

subsection \<open>Laws of scopes and string lists\<close>

lemma trim_user_world [simp]: "trim ''user_world_local'' = ''user_world_local''"
  by (simp add: trim_id is_space_def)

lemma scope_kind_trimmed: "kind \<in> set scope_kinds \<Longrightarrow> trim kind = kind \<and> kind \<noteq> []"
  by (auto simp: scope_kinds_def trim_id is_space_def)

lemma normalizeScope_Inr:
  assumes "normalizeScope v = Inr sc"
  obtains kind userWorldId projectId taskType workThreadId lifecycleId where
    "sc = JObj [(''kind'', JStr kind), (''userWorldId'', JStr userWorldId), (''projectId'', JStr projectId),
       (''taskType'', JStr taskType), (''workThreadId'', JStr workThreadId),
       (''artifactLifecycleId'', JStr lifecycleId)]"
    "kind \<in> set scope_kinds" "kind \<in> set project_scope_kinds \<Longrightarrow> projectId \<noteq> []"
    "kind = ''workthread'' \<Longrightarrow> workThreadId \<noteq> []" "userWorldId \<noteq> []"
    "trim userWorldId = userWorldId" "trim projectId = projectId" "trim taskType = taskType"
    "trim workThreadId = workThreadId" "trim lifecycleId = lifecycleId"
  using assms
proof (cases "defaulted v")
  case (Inr w)
  let ?p = "js_text (fld w ''projectId'') []" and ?w = "js_text (fld w ''workThreadId'') []"
  let ?k = "js_text (fld w ''kind'') (if ?w \<noteq> [] then ''workthread'' else if ?p \<noteq> [] then ''project'' else ''user_world'')"
  from assms Inr have
    sc: "sc = JObj [(''kind'', JStr ?k), (''userWorldId'', JStr (js_text (fld w ''userWorldId'') ''user_world_local'')),
       (''projectId'', JStr ?p), (''taskType'', JStr (js_text (fld w ''taskType'') [])),
       (''workThreadId'', JStr ?w), (''artifactLifecycleId'', JStr (js_text (fld w ''artifactLifecycleId'') []))]"
    and k: "?k \<in> set scope_kinds" "\<not> (?k \<in> set project_scope_kinds \<and> ?p = [])"
      "\<not> (?k = ''workthread'' \<and> ?w = [])"
    by (auto simp only: normalizeScope_def ebind_simps Let_def monad sum.inject not_not)
  show thesis
    by (rule that [OF sc k(1)]) (use k in \<open>auto simp: js_text_nonempty\<close>)
qed (simp add: normalizeScope_def)

lemma normalizeScope_again: "normalizeScope v = Inr sc \<Longrightarrow> normalizeScope sc = Inr sc"
  by (erule normalizeScope_Inr)
    (auto simp: normalizeScope_def Let_def scope_kind_trimmed)

lemma stringList_props:
  "length (stringList v) \<le> 64" "distinct (stringList v)"
  "s \<in> set (stringList v) \<Longrightarrow> s \<noteq> [] \<and> trim s = s"
proof -
  let ?l = "filter (\<lambda>s. s \<noteq> []) (map (\<lambda>e. js_text e []) (elems v))"
  show "length (stringList v) \<le> 64" by (simp add: stringList_def)
  show "distinct (stringList v)"
    using dedup_from_distinct [of id "[]" ?l] by (simp add: stringList_def)
  assume "s \<in> set (stringList v)"
  then have "s \<in> set ?l"
    unfolding stringList_def by (meson dedup_from_subset in_set_takeD subsetD)
  then show "s \<noteq> [] \<and> trim s = s" by (auto simp: js_text_trimmed)
qed

subsection \<open>Laws of sealed artifacts\<close>

lemma fld_artifact:
  "fld (artifact E schema idField ident body) k =
     (if k = ''digest''
      then JStr (digestFor E schema (artifact E schema idField ident body) [''digest''])
      else case map_of (rev body) k of Some x \<Rightarrow> x | None \<Rightarrow>
        if k = idField then JStr ident else if k = ''schema'' then JStr schema else JUndef)"
proof -
  have "isPlainObject (spread (JObj [(''schema'', JStr schema)]) ((idField, JStr ident) # body))"
    by (simp add: spread_def)
  then show ?thesis
    by (simp add: artifact_def Let_def digestFor_set_omitted fld_spread map_of_append
        map_add_def split: option.split)
qed

lemma isPlainObject_artifact [simp]: "isPlainObject (artifact E schema idField ident body)"
  by (simp add: artifact_def Let_def set_fld_def)

lemma validateArtifact_Inr_iff [monad]:
  "validateArtifact E v schema idField code = Inr b \<longleftrightarrow>
     b \<and> isPlainObject v \<and> fld v ''schema'' = JStr schema \<and> js_text (fld v idField) [] \<noteq> []
     \<and> fld v ''digest'' = JStr (digestFor E schema v [''digest''])"
  by (auto simp: validateArtifact_def)

lemma validateArtifact_artifact:
  assumes "''schema'' \<notin> fst ` set body" "idField \<notin> fst ` set body" "idField \<noteq> ''digest''"
    "idField \<noteq> ''schema''" "trim ident \<noteq> []"
  shows "validateArtifact E (artifact E schema idField ident body) schema idField code = Inr True"
proof -
  have "map_of (rev body) ''schema'' = None" "map_of (rev body) idField = None"
    using assms(1,2) by (simp_all add: map_of_eq_None_iff)
  with assms(3-5) show ?thesis
    by (simp add: validateArtifact_Inr_iff fld_artifact js_text_JStr)
qed

subsection \<open>The contract of a sealed record\<close>

text \<open>
  Every kind of record the kernels exchange has a validator that first checks the seal. What
  follows from that alone is proved once: the reference of a validated record always exists,
  and it pins the content that was digested.
\<close>

locale sealed_record =
  fixes E :: jsenv and validate :: "jval \<Rightarrow> bool res" and schema idField :: string
  assumes validate_seal: "validate v = Inr b \<Longrightarrow> isPlainObject v \<and> fld v ''schema'' = JStr schema
     \<and> js_text (fld v idField) [] \<noteq> [] \<and> fld v ''digest'' = JStr (digestFor E schema v [''digest''])"
    and validate_returns_true: "validate v = Inr b \<Longrightarrow> b"
begin

lemma validated: "validate v = Inr b \<Longrightarrow> validate v = Inr True"
  using validate_returns_true [of v b] by simp

lemma ref_total:
  assumes "validate v = Inr b" "sha_ok E" "trim kind = kind" "kind \<noteq> []"
  obtains r where "artifactExactRef kind v idField projectId = Inr r"
    "fld r ''kind'' = JStr kind" "fld r ''id'' = JStr (js_text (fld v idField) [])"
    "fld r ''digest'' = fld v ''digest''"
proof -
  from validate_seal [OF assms(1)] obtain fs s where v: "v = JObj fs" "fld v idField = JStr s" "trim s \<noteq> []"
    "fld v ''digest'' = JStr (digestFor E schema v [''digest''])"
    by (auto simp: js_text_nonempty_iff dest!: isPlainObjectE)
  have d: "trim (digestFor E schema v [''digest'']) = digestFor E schema v [''digest'']"
    "digestFor E schema v [''digest''] \<noteq> []"
    using digest_trimmed [OF assms(2)] by (simp_all add: digestFor_def)
  show thesis
    by (rule that [of "JObj ([(''kind'', JStr kind), (''id'', JStr (trim s)),
        (''digest'', JStr (digestFor E schema v [''digest'']))]
        @ (if js_text (if truthy projectId then projectId else JUndef) [] = [] then []
           else [(''projectId'', JStr (js_text projectId []))]))"])
      (use v assms d trim_nonempty [OF v(3)] in
        \<open>auto simp: artifactExactRef_def getp_def nullish_def exactRef_def Let_def js_text_JStr bounded_def\<close>)
qed

lemma ref_fields:
  assumes "validate v = Inr b" "sha_ok E" "trim kind = kind" "kind \<noteq> []"
    "artifactExactRef kind v idField p = Inr r"
  shows "fld r ''kind'' = JStr kind" "fld r ''id'' = JStr (js_text (fld v idField) [])"
    "fld r ''digest'' = JStr (digestFor E schema v [''digest''])"
  using ref_total [OF assms(1-4), of p] validate_seal [OF assms(1)] assms(5) by auto

lemma ref_pins:
  assumes "validate v = Inr b" "validate w = Inr c" "sha_ok E" "trim kind = kind" "kind \<noteq> []"
    "artifactExactRef kind v idField p = Inr r" "artifactExactRef kind w idField q = Inr s" "exactRefMatches r s"
  shows "digestFor E schema v [''digest''] = digestFor E schema w [''digest'']"
  using ref_fields(3) [OF assms(1,3,4,5,6)] ref_fields(3) [OF assms(2,3,4,5,7)] assms(8)
  by (simp add: exactRefMatches_def)

end

lemma js_text_fallback: "js_text v [] \<noteq> [] \<Longrightarrow> js_text v fb = js_text v []"
  by (cases v) (auto simp: js_text_def split: if_splits)

lemma exactRef_truthy: "exactRef v l = Inr r \<Longrightarrow> truthy r"
  by (rule exactRef_fields)

lemma artifactExactRef_again: "artifactExactRef k v i p = Inr r \<Longrightarrow> exactRef r l = Inr r"
  by (auto simp: artifactExactRef_def monad intro: exactRef_exactRef)

lemma artifactExactRef_truthy: "artifactExactRef k v i p = Inr r \<Longrightarrow> truthy r"
  by (auto simp: artifactExactRef_def monad dest: exactRef_truthy)

lemma distinct_artifact: "distinct (map fst (JsValue.fields (artifact E schema idField ident body)))"
  by (simp add: artifact_def Let_def spread_def distinct_update distinct_assign_all)

lemma validateArtifact_nested_digest:
  assumes "validateArtifact E v schema idField code = Inr b" "isPlainObject (fld v k)"
    "k \<noteq> ''schema''" "k \<noteq> idField" "k \<noteq> ''digest''"
  shows "validateArtifact E (set_fld k (set_fld ''digest'' x (fld v k)) v) schema idField code = Inr True"
proof -
  have "isPlainObject v" using assms(1) by (auto simp: monad)
  then have "digestFor E schema (set_fld k (set_fld ''digest'' x (fld v k)) v) [''digest'']
      = digestFor E schema v [''digest'']"
    using assms(2) by (intro digestFor_nested_omitted) simp_all
  with assms show ?thesis by (auto simp: monad)
qed

text \<open>C32: The digest of a sealed record does not cover the digest properties of the objects nested in
it: a record whose predecessor reference has another digest still validates.\<close>

theorem nested_digest_not_sealed:
  assumes "validateArtifact E v schema idField code = Inr b" "isPlainObject (fld v k)"
    "k \<noteq> ''schema''" "k \<noteq> idField" "k \<noteq> ''digest''"
  shows "validateArtifact E (set_fld k (set_fld ''digest'' x (fld v k)) v) schema idField code = Inr True"
  by (rule validateArtifact_nested_digest [OF assms])

text \<open>C33: The list of references that uniqueRefs returns is duplicate free, no longer than its input
and unchanged by normalising it again.\<close>

theorem references_normalise_once:
  assumes "uniqueRefs E v l = Inr rs"
  shows "uniqueRefs E (JArr rs) l' = Inr rs \<and> distinct (map (exactRefKey E) rs) \<and> length rs \<le> length (elems v)
   \<and> (\<forall>r\<in>set rs. exactRef r l' = Inr r)"
  using uniqueRefs_again [OF assms] uniqueRefs_Inr [OF assms] by (meson exactRef_exactRef)

text \<open>A normalised scope is a fixed point of normalizeScope.\<close>

theorem scope_normalises_once:
  assumes "normalizeScope v = Inr sc"
  shows "normalizeScope sc = Inr sc"
  by (rule normalizeScope_again [OF assms])

text \<open>C34: stringList returns at most 64 distinct trimmed non-empty strings, and bounded never exceeds
its limit.\<close>

theorem texts_are_bounded:
  assumes "0 < mx"
  shows "length (stringList v) \<le> 64 \<and> distinct (stringList v) \<and> (\<forall>s\<in>set (stringList v). s \<noteq> [] \<and> trim s = s)
   \<and> length (bounded w fb mx) \<le> mx"
  using assms stringList_props bounded_length by auto

lemma exactRef_label: "exactRef v l = Inr r \<Longrightarrow> exactRef v l' = Inr r"
  by (cases "defaulted v") (auto simp: exactRef_def Let_def split: if_splits)

lemma exactRef_object: "exactRef v l = Inr r \<Longrightarrow> isPlainObject v"
  by (cases v) (auto simp: exactRef_def Let_def js_or_def)

lemma exactRef_fix: "exactRef v l = Inr r \<Longrightarrow> exactRef r l' = Inr s \<Longrightarrow> s = r"
  using exactRef_exactRef [of v l r l'] by simp

lemma stringList_strings: "set (stringList (strings xs)) \<subseteq> trim ` set xs"
proof -
  let ?l = "filter (\<lambda>s. s \<noteq> []) (map (\<lambda>e. js_text e []) (map JStr xs))"
  have "set (stringList (strings xs)) \<subseteq> set (dedup id ?l)"
    unfolding stringList_def strings_def elems_simps by (auto dest: in_set_takeD)
  also have "\<dots> \<subseteq> set ?l" by (rule dedup_from_subset)
  also have "\<dots> \<subseteq> trim ` set xs" by (auto simp: js_text_JStr)
  finally show ?thesis .
qed

end
