(* ===== verification/Requirements.thy ===== *)
theory Requirements
  imports ArtifactRefs
begin

section \<open>Assurance requirements and their dependency graph\<close>

text \<open>
  The requirement builders of
  \<^verbatim>\<open>src/main/direct/worldmanager/artifact-lifecycle-kernel.js\<close> (mechanical witnesses, semantic
  audits, conditional audit rules, assurance roots) and \<open>assertAcyclicRequirements\<close>, the
  depth-first search that rejects a requirement list with unknown or cyclic dependencies.
  The main result is that the search accepts exactly the well-formed lists whose dependency
  relation is acyclic.
\<close>

subsection \<open>Constants\<close>

definition ARTIFACT_AUDIT_REQUIREMENT_SCHEMA :: string where
  "ARTIFACT_AUDIT_REQUIREMENT_SCHEMA = ''direct_artifact_audit_requirement@1''"

definition ARTIFACT_CONDITIONAL_AUDIT_RULE_SCHEMA :: string where
  "ARTIFACT_CONDITIONAL_AUDIT_RULE_SCHEMA = ''direct_artifact_conditional_audit_rule@1''"

definition REQUIREMENT_KINDS :: "string list" where
  "REQUIREMENT_KINDS = [''mechanical_witness'', ''semantic_audit'']"

definition REQUIREMENT_STATES :: "string list" where
  "REQUIREMENT_STATES = [''inactive'', ''pending'', ''supported'', ''contradicted'',
     ''requires_revision'', ''blocked'', ''stale'']"

definition ASSURANCE_ROOT_KINDS :: "string list" where
  "ASSURANCE_ROOT_KINDS = [''deterministic_validator'', ''authorized_human'', ''trusted_auditor'']"

definition PREDICATE_OPERATORS :: "string list" where
  "PREDICATE_OPERATORS = [''equals'', ''not_equals'', ''includes'', ''not_includes'', ''in'', ''exists'']"

subsection \<open>Builders\<close>

definition raw_string :: "jval \<Rightarrow> string" where
  "raw_string v = (case v of JStr s \<Rightarrow> s | _ \<Rightarrow> [])"

definition detail_text :: "jsenv \<Rightarrow> jval \<Rightarrow> string" where
  \<comment> \<open>the \<open>detail\<close> argument of \<open>fail\<close>: a falsy one is as good as none\<close>
  "detail_text E v = (if truthy v then js_string E v else [])"

definition normalizeAssuranceRoot :: "jsenv \<Rightarrow> jval \<Rightarrow> jval res" where
  "normalizeAssuranceRoot E arg =
     ebind (defaulted arg) (\<lambda>input.
     let rootKind = js_text (fld input ''rootKind'') [] in
     ebind (exactRef (fld input ''rootRef'') ''assuranceRoot.rootRef'') (\<lambda>rootRef.
     let permits = (fld input ''permitsRecursiveAudit'' = JBool True);
         depth = num_max0 0 (num_or (to_number E (js_or (fld input ''maximumAuditDepth'') (num 0))) 0)
     in if rootKind \<notin> set ASSURANCE_ROOT_KINDS
        then fail ''world_manager_artifact_assurance_root_kind_invalid'' rootKind
        else if permits \<and> js_less E depth 1
        then fail ''world_manager_artifact_assurance_root_depth_invalid'' []
        else Inr (JObj [(''rootKind'', JStr rootKind), (''rootRef'', rootRef),
          (''permitsRecursiveAudit'', JBool permits), (''maximumAuditDepth'', depth)])))"

definition buildMechanicalWitnessRequirement :: "jval \<Rightarrow> nat \<Rightarrow> jval res" where
  "buildMechanicalWitnessRequirement arg index =
     ebind (defaulted arg) (\<lambda>input.
     let requirementId = js_text (fld input ''requirementId'') (''mechanical_witness_'' @ nat_text (index + 1)) in
     if js_text (fld input ''witnessKind'') [] = []
     then fail ''world_manager_artifact_mechanical_witness_kind_required'' requirementId
     else ebind (exactRef (fld input ''freshnessPolicyRef'') (requirementId @ ''.freshnessPolicyRef''))
       (\<lambda>freshnessPolicyRef.
     Inr (JObj [
       (''schema'', JStr ARTIFACT_AUDIT_REQUIREMENT_SCHEMA),
       (''requirementId'', JStr requirementId),
       (''requirementKind'', JStr ''mechanical_witness''),
       (''witnessKind'', JStr (js_text (fld input ''witnessKind'') [])),
       (''required'', JBool (fld input ''required'' \<noteq> JBool False)),
       (''dependencyRequirementIds'', strings (stringList (fld input ''dependencyRequirementIds''))),
       (''freshnessPolicyRef'', freshnessPolicyRef),
       (''rendererSafeSummary'', JStr (bounded (fld input ''rendererSafeSummary'')
          (raw_string (fld input ''witnessKind'')) 320))])))"

definition buildAuditRequirement :: "jval \<Rightarrow> nat \<Rightarrow> jval res" where
  "buildAuditRequirement arg index =
     ebind (defaulted arg) (\<lambda>input.
     let requirementId = js_text (fld input ''requirementId'') (''semantic_audit_'' @ nat_text (index + 1));
         auditType = js_text (fld input ''auditType'') [] in
     if auditType = []
     then fail ''world_manager_artifact_semantic_audit_type_required'' requirementId
     else ebind (exactRef (fld input ''auditorEligibilityRef'') (requirementId @ ''.auditorEligibilityRef''))
       (\<lambda>auditorEligibilityRef.
     ebind (exactRef (fld input ''verdictPolicyRef'') (requirementId @ ''.verdictPolicyRef''))
       (\<lambda>verdictPolicyRef.
     Inr (JObj [
       (''schema'', JStr ARTIFACT_AUDIT_REQUIREMENT_SCHEMA),
       (''requirementId'', JStr requirementId),
       (''requirementKind'', JStr ''semantic_audit''),
       (''auditType'', JStr auditType),
       (''required'', JBool (fld input ''required'' \<noteq> JBool False)),
       (''dependencyRequirementIds'', strings (stringList (fld input ''dependencyRequirementIds''))),
       (''auditorEligibilityRef'', auditorEligibilityRef),
       (''verdictPolicyRef'', verdictPolicyRef),
       (''reusableInvariantEvidence'', JBool (fld input ''reusableInvariantEvidence'' = JBool True)),
       (''rendererSafeSummary'', JStr (bounded (fld input ''rendererSafeSummary'') auditType 320))]))))"

definition normalizePredicateClause :: "jval \<Rightarrow> string \<Rightarrow> jval res" where
  "normalizePredicateClause arg label =
     ebind (defaulted arg) (\<lambda>input.
     let operator = js_text (fld input ''operator'') ''equals'';
         path = js_text (fld input ''path'') [] in
     if path = [] \<or> operator \<notin> set PREDICATE_OPERATORS
     then fail ''world_manager_artifact_conditional_predicate_invalid'' label
     else Inr (JObj ([(''path'', JStr path), (''operator'', JStr operator)]
       @ (if operator = ''exists'' then [] else [(''expected'', fld input ''expected'')]))))"

definition buildConditionalAuditRule :: "jval \<Rightarrow> nat \<Rightarrow> jval res" where
  "buildConditionalAuditRule arg index =
     ebind (defaulted arg) (\<lambda>input.
     let ruleId = js_text (fld input ''ruleId'') (''conditional_audit_'' @ nat_text (index + 1)) in
     ebind (emapi (\<lambda>clauseIndex entry. normalizePredicateClause entry
         (ruleId @ ''.allOf.'' @ nat_text clauseIndex)) 0 (elems (fld input ''allOf''))) (\<lambda>clauses.
     if clauses = []
     then fail ''world_manager_artifact_conditional_rule_empty'' ruleId
     else ebind (buildAuditRequirement (fld input ''auditRequirement'') index) (\<lambda>auditRequirement.
     ebind (exactRef (fld input ''settledPropertySourceRef'') (ruleId @ ''.settledPropertySourceRef''))
       (\<lambda>settledPropertySourceRef.
     Inr (JObj [
       (''schema'', JStr ARTIFACT_CONDITIONAL_AUDIT_RULE_SCHEMA),
       (''ruleId'', JStr ruleId),
       (''allOf'', JArr clauses),
       (''auditRequirement'', auditRequirement),
       (''settledPropertySourceRef'', settledPropertySourceRef)])))))"

definition allRequirements :: "jval \<Rightarrow> jval list res" where
  "allRequirements constitution =
     ebind (iter_elems (fld constitution ''requiredMechanicalWitnesses'')) (\<lambda>witnesses.
     ebind (iter_elems (fld constitution ''requiredSemanticAudits'')) (\<lambda>audits.
     ebind (method_elems (fld constitution ''conditionalAuditRules'')) (\<lambda>rules.
     ebind (emap (\<lambda>rule. getp rule ''auditRequirement'') rules) (\<lambda>conditional.
     Inr (witnesses @ audits @ conditional)))))"

subsection \<open>Unique identifiers\<close>

text \<open>
  The keys of a JavaScript \<open>Set\<close> or \<open>Map\<close> are compared by \<open>SameValueZero\<close>, which on the
  primitive identifiers used here is equality of values.
\<close>

fun uniqueRequirementIdsFrom :: "jsenv \<Rightarrow> jval list \<Rightarrow> jval list \<Rightarrow> bool res" where
  "uniqueRequirementIdsFrom E seen [] = Inr True"
| "uniqueRequirementIdsFrom E seen (requirement # rest) =
     ebind (getp requirement ''schema'') (\<lambda>schema.
     if schema \<noteq> JStr ARTIFACT_AUDIT_REQUIREMENT_SCHEMA
       \<or> \<not> one_of (fld requirement ''requirementKind'') REQUIREMENT_KINDS
       \<or> (fld requirement ''required'' \<noteq> JBool True \<and> fld requirement ''required'' \<noteq> JBool False)
     then fail ''world_manager_artifact_requirement_invalid''
       (js_text (fld requirement ''requirementId'') ''missing'')
     else if fld requirement ''requirementId'' \<in> set seen
     then fail ''world_manager_artifact_requirement_id_duplicate''
       (detail_text E (fld requirement ''requirementId''))
     else uniqueRequirementIdsFrom E (fld requirement ''requirementId'' # seen) rest)"

definition assertUniqueRequirementIds :: "jsenv \<Rightarrow> jval list \<Rightarrow> bool res" where
  "assertUniqueRequirementIds E requirements = uniqueRequirementIdsFrom E [] requirements"

subsection \<open>The depth-first search\<close>

definition cycle_code :: string where
  "cycle_code = ''world_manager_artifact_assurance_cycle''"

definition checkDependencies :: "jsenv \<Rightarrow> (jval \<times> jval) list \<Rightarrow> jval \<Rightarrow> bool res" where
  "checkDependencies E byId requirement =
     ebind (iter_elems (fld requirement ''dependencyRequirementIds'')) (\<lambda>deps.
     eforeach (\<lambda>dependencyId.
       if dependencyId \<notin> fst ` set byId
       then fail ''world_manager_artifact_assurance_dependency_unknown''
         (js_string E (fld requirement ''requirementId'') @ ''->'' @ js_string E dependencyId)
       else if strict_eq dependencyId (fld requirement ''requirementId'')
       then fail cycle_code (detail_text E (fld requirement ''requirementId''))
       else Inr True) deps)"

text \<open>
  \<open>visit\<close> of \<open>assertAcyclicRequirements\<close>: the \<open>visiting\<close> set holds exactly the identifiers on
  the current path, so the path argument stands for both; \<open>visited\<close> is threaded through.
\<close>

function (sequential) visit :: "jsenv \<Rightarrow> (jval \<times> jval) list \<Rightarrow> jval list \<Rightarrow> jval list \<Rightarrow> jval \<Rightarrow> jval list res" and
  visit_all :: "jsenv \<Rightarrow> (jval \<times> jval) list \<Rightarrow> jval list \<Rightarrow> jval list \<Rightarrow> jval list \<Rightarrow> jval list res"
where
  "visit E byId path visited requirementId =
     (if requirementId \<in> set path
      then fail cycle_code (join_vals E ''->'' (path @ [requirementId]))
      else if requirementId \<in> set visited then Inr visited
      else case map_of byId requirementId of
        None \<Rightarrow> Inl TypeError
      | Some requirement \<Rightarrow>
          ebind (iter_elems (fld requirement ''dependencyRequirementIds'')) (\<lambda>deps.
          ebind (visit_all E byId (path @ [requirementId]) visited deps) (\<lambda>visited'.
          Inr (requirementId # visited'))))"
| "visit_all E byId path visited [] = Inr visited"
| "visit_all E byId path visited (d # ds) =
     ebind (visit E byId path visited d) (\<lambda>visited'. visit_all E byId path visited' ds)"
  by pat_completeness auto

termination
proof (relation "measures
    [\<lambda>x. case x of Inl (E, byId, path, v, r) \<Rightarrow> card (fst ` set byId - set path)
       | Inr (E, byId, path, v, ds) \<Rightarrow> card (fst ` set byId - set path),
     \<lambda>x. case x of Inl (E, byId, path, v, r) \<Rightarrow> 0 | Inr (E, byId, path, v, ds) \<Rightarrow> Suc (length ds)]",
    goal_cases)
  case (2 E byId path visited r req deps)
  then have "r \<in> fst ` set byId - set path"
    by (force dest: map_of_SomeD)
  then have "fst ` set byId - set (path @ [r]) \<subset> fst ` set byId - set path" by auto
  then show ?case by (simp add: psubset_card_mono)
qed auto

declare visit.simps [simp del]

definition assertAcyclicRequirements :: "jsenv \<Rightarrow> jval list \<Rightarrow> bool res" where
  "assertAcyclicRequirements E requirements =
     ebind (assertUniqueRequirementIds E requirements) (\<lambda>_.
     let byId = map (\<lambda>r. (fld r ''requirementId'', r)) requirements in
     ebind (eforeach (checkDependencies E byId) requirements) (\<lambda>_.
     ebind (visit_all E byId [] [] (map fst byId)) (\<lambda>_. Inr True)))"

subsection \<open>The dependency relation\<close>

definition req_id :: "jval \<Rightarrow> jval" where
  "req_id r = fld r ''requirementId''"

definition req_deps :: "jval \<Rightarrow> jval list" where
  "req_deps r = (case iter_elems (fld r ''dependencyRequirementIds'') of Inr ds \<Rightarrow> ds | Inl _ \<Rightarrow> [])"

definition dep_rel :: "jval list \<Rightarrow> (jval \<times> jval) set" where
  \<comment> \<open>requirement \<open>a\<close> depends on requirement \<open>b\<close>\<close>
  "dep_rel rs = {(req_id r, d) | r d. r \<in> set rs \<and> d \<in> set (req_deps r)}"

definition requirement_shape :: "jval \<Rightarrow> bool" where
  "requirement_shape r \<longleftrightarrow> fld r ''schema'' = JStr ARTIFACT_AUDIT_REQUIREMENT_SCHEMA
     \<and> one_of (fld r ''requirementKind'') REQUIREMENT_KINDS
     \<and> (fld r ''required'' = JBool True \<or> fld r ''required'' = JBool False)"

definition requirements_ok :: "jval list \<Rightarrow> bool" where
  \<comment> \<open>what the checks before the search ask for\<close>
  "requirements_ok rs \<longleftrightarrow> (\<forall>r\<in>set rs. requirement_shape r) \<and> distinct (map req_id rs)
     \<and> (\<forall>r\<in>set rs. \<exists>ds. iter_elems (fld r ''dependencyRequirementIds'') = Inr ds)
     \<and> (\<forall>r\<in>set rs. set (req_deps r) \<subseteq> req_id ` set rs)
     \<and> (\<forall>r\<in>set rs. \<forall>d\<in>set (req_deps r). \<not> strict_eq d (req_id r))"

definition by_id :: "jval list \<Rightarrow> (jval \<times> jval) list" where
  "by_id rs = map (\<lambda>r. (req_id r, r)) rs"

lemma by_id_facts [simp]: "map fst (by_id rs) = map req_id rs" "fst ` set (by_id rs) = req_id ` set rs"
  by (simp_all add: by_id_def image_image comp_def)

lemma map_of_by_id:
  "map_of (by_id rs) i = Some r \<Longrightarrow> r \<in> set rs \<and> req_id r = i"
  by (auto dest: map_of_SomeD simp: by_id_def)

lemma map_of_by_id_None: "map_of (by_id rs) i = None \<longleftrightarrow> i \<notin> req_id ` set rs"
  by (simp add: map_of_eq_None_iff)

subsection \<open>Soundness and completeness of the search\<close>

text \<open>The invariant of \<open>visited\<close>: closed under dependencies, free of cycles, apart from the path.\<close>

definition settled :: "jval rel \<Rightarrow> jval list \<Rightarrow> jval list \<Rightarrow> bool" where
  "settled D path visited \<longleftrightarrow> D `` set visited \<subseteq> set visited
     \<and> (\<forall>x\<in>set visited. (x, x) \<notin> D\<^sup>+) \<and> set path \<inter> set visited = {}"

lemma closed_trancl: "(x, y) \<in> D\<^sup>+ \<Longrightarrow> D `` S \<subseteq> S \<Longrightarrow> x \<in> S \<Longrightarrow> y \<in> S"
  by (induction rule: trancl_induct) auto

lemma settled_Cons:
  assumes "settled D (path @ [r]) vs" "D `` {r} \<subseteq> set vs" "r \<notin> set path"
  shows "settled D path (r # vs)"
proof -
  have closed: "D `` set vs \<subseteq> set vs" and r: "r \<notin> set vs"
    using assms(1) by (auto simp: settled_def)
  have "(r, r) \<notin> D\<^sup>+"
  proof
    assume "(r, r) \<in> D\<^sup>+"
    then obtain d where "(r, d) \<in> D" "(d, r) \<in> D\<^sup>*" by (meson tranclD)
    then have "d \<in> set vs" "d = r \<or> (d, r) \<in> D\<^sup>+" using assms(2) by (auto simp: rtrancl_eq_or_trancl)
    with closed_trancl [OF _ closed] r show False by blast
  qed
  with assms show ?thesis by (auto simp: settled_def)
qed

lemma visit_sound:
  "visit E (by_id rs) path visited r = Inr visited' \<Longrightarrow> distinct (map req_id rs) \<Longrightarrow>
     settled (dep_rel rs) path visited \<Longrightarrow>
     settled (dep_rel rs) path visited' \<and> set visited \<subseteq> set visited' \<and> r \<in> set visited'"
  "visit_all E (by_id rs) path visited ds = Inr visited' \<Longrightarrow> distinct (map req_id rs) \<Longrightarrow>
     settled (dep_rel rs) path visited \<Longrightarrow>
     settled (dep_rel rs) path visited' \<and> set visited \<subseteq> set visited' \<and> set ds \<subseteq> set visited'"
proof (induction E "by_id rs" path visited r and E "by_id rs" path visited ds
    arbitrary: visited' and visited' rule: visit_visit_all.induct)
  case (1 E path visited r)
  show ?case
  proof (cases "r \<in> set path \<or> r \<in> set visited")
    case True
    with 1 show ?thesis by (auto simp: visit.simps split: if_splits)
  next
    case False
    with 1 obtain req deps vs where req: "map_of (by_id rs) r = Some req"
      and deps: "iter_elems (fld req ''dependencyRequirementIds'') = Inr deps"
      and vs: "visit_all E (by_id rs) (path @ [r]) visited deps = Inr vs" "visited' = r # vs"
      by (auto simp: visit.simps monad split: option.splits)
    have "settled (dep_rel rs) (path @ [r]) visited"
      using False 1 by (auto simp: settled_def)
    then have IH: "settled (dep_rel rs) (path @ [r]) vs" "set visited \<subseteq> set vs" "set deps \<subseteq> set vs"
      using 1(1) [OF _ _ req deps vs(1)] 1(3) False by auto
    have "d \<in> set deps" if "(r, d) \<in> dep_rel rs" for d
    proof -
      from that obtain q where q: "q \<in> set rs" "req_id q = r" "d \<in> set (req_deps q)"
        by (auto simp: dep_rel_def)
      then have "q = req"
        using map_of_by_id [OF req] 1(3) by (metis distinct_map inj_onD)
      with q deps show ?thesis by (simp add: req_deps_def)
    qed
    then have "dep_rel rs `` {r} \<subseteq> set vs" using IH(3) by auto
    with IH False show ?thesis by (auto simp: vs(2) intro: settled_Cons)
  qed
next
  case (2 E path visited)
  then show ?case by simp
next
  case (3 E path visited d ds)
  then obtain v1 where "visit E (by_id rs) path visited d = Inr v1"
    "visit_all E (by_id rs) path v1 ds = Inr visited'"
    by (auto simp: monad)
  with 3 show ?case by fastforce
qed

lemma visit_complete:
  "requirements_ok rs \<Longrightarrow> acyclic (dep_rel rs) \<Longrightarrow> r \<in> req_id ` set rs \<Longrightarrow>
     (\<forall>p\<in>set path. (p, r) \<in> (dep_rel rs)\<^sup>+) \<Longrightarrow> \<exists>vs. visit E (by_id rs) path visited r = Inr vs"
  "requirements_ok rs \<Longrightarrow> acyclic (dep_rel rs) \<Longrightarrow> set ds \<subseteq> req_id ` set rs \<Longrightarrow>
     (\<forall>d\<in>set ds. \<forall>p\<in>set path. (p, d) \<in> (dep_rel rs)\<^sup>+) \<Longrightarrow>
     \<exists>vs. visit_all E (by_id rs) path visited ds = Inr vs"
proof (induction E "by_id rs" path visited r and E "by_id rs" path visited ds
    rule: visit_visit_all.induct)
  case (1 E path visited r)
  have np: "r \<notin> set path" using 1 by (auto simp: acyclic_def)
  show ?case
  proof (cases "r \<in> set visited")
    case False
    obtain req where req: "map_of (by_id rs) r = Some req"
      using 1(4) map_of_by_id_None [of rs r] by fastforce
    then have q: "req \<in> set rs" "req_id req = r" by (auto dest: map_of_by_id)
    with 1(2) obtain deps where deps: "iter_elems (fld req ''dependencyRequirementIds'') = Inr deps"
      and sub: "set deps \<subseteq> req_id ` set rs"
      by (fastforce simp: requirements_ok_def req_deps_def)
    have e: "(r, d) \<in> dep_rel rs" if "d \<in> set deps" for d
      using that q deps by (auto simp: dep_rel_def req_deps_def)
    have "\<forall>d\<in>set deps. \<forall>p\<in>set (path @ [r]). (p, d) \<in> (dep_rel rs)\<^sup>+"
      using e 1(5) by (auto intro: trancl_into_trancl)
    then obtain vs where "visit_all E (by_id rs) (path @ [r]) visited deps = Inr vs"
      using 1(1) [OF np False req deps 1(2) 1(3) sub] by blast
    with np False req deps show ?thesis by (simp add: visit.simps)
  qed (simp add: visit.simps np)
next
  case (2 E path visited)
  then show ?case by simp
next
  case (3 E path visited d ds)
  then obtain v1 where "visit E (by_id rs) path visited d = Inr v1" by auto
  with 3 show ?case by auto
qed


lemma visit_error:
  "requirements_ok rs \<Longrightarrow> r \<in> req_id ` set rs \<Longrightarrow>
     visit E (by_id rs) path visited r = Inl e \<Longrightarrow> fail_code e = cycle_code \<and> e \<noteq> TypeError \<and> e \<noteq> RangeError"
  "requirements_ok rs \<Longrightarrow> set ds \<subseteq> req_id ` set rs \<Longrightarrow>
     visit_all E (by_id rs) path visited ds = Inl e \<Longrightarrow> fail_code e = cycle_code \<and> e \<noteq> TypeError \<and> e \<noteq> RangeError"
proof (induction E "by_id rs" path visited r and E "by_id rs" path visited ds
    rule: visit_visit_all.induct)
  case (1 E path visited r)
  show ?case
  proof (cases "r \<in> set path \<or> r \<in> set visited")
    case True
    with 1(4) show ?thesis by (auto simp: visit.simps fail_eq_Inl_iff split: if_splits)
  next
    case False
    obtain req where req: "map_of (by_id rs) r = Some req"
      using 1(3) map_of_by_id_None [of rs r] by fastforce
    then have "req \<in> set rs" by (auto dest: map_of_by_id)
    with 1(2) obtain deps where deps: "iter_elems (fld req ''dependencyRequirementIds'') = Inr deps"
      and sub: "set deps \<subseteq> req_id ` set rs"
      by (fastforce simp: requirements_ok_def req_deps_def)
    with 1(4) False req have "visit_all E (by_id rs) (path @ [r]) visited deps = Inl e"
      by (simp add: visit.simps ebind_Inl_iff)
    then show ?thesis using 1(1) [OF _ _ req deps 1(2) sub] False by blast
  qed
next
  case (2 E path visited)
  then show ?case by simp
next
  case (3 E path visited d ds)
  then show ?case by (auto simp: ebind_Inl_iff)
qed

lemma uniqueRequirementIdsFrom_iff:
  "uniqueRequirementIdsFrom E seen rs = Inr b \<longleftrightarrow> b \<and> (\<forall>r\<in>set rs. requirement_shape r)
     \<and> distinct (map req_id rs) \<and> req_id ` set rs \<inter> set seen = {}"
proof (induction rs arbitrary: seen)
  case (Cons r rs)
  have "requirement_shape r \<Longrightarrow> \<not> nullish r"
    by (auto simp: requirement_shape_def nullish_def)
  with Cons show ?case
    by (auto simp: monad getp_def requirement_shape_def req_id_def)
qed auto

lemma checkDependencies_iff:
  "checkDependencies E (by_id rs) r = Inr b \<longleftrightarrow> b \<and>
     (\<exists>ds. iter_elems (fld r ''dependencyRequirementIds'') = Inr ds)
     \<and> set (req_deps r) \<subseteq> req_id ` set rs \<and> (\<forall>d\<in>set (req_deps r). \<not> strict_eq d (req_id r))"
  by (auto simp: checkDependencies_def monad req_deps_def req_id_def)

theorem assertAcyclicRequirements_iff:
  "assertAcyclicRequirements E rs = Inr b \<longleftrightarrow> b \<and> requirements_ok rs \<and> acyclic (dep_rel rs)"
proof -
  have unfold: "assertAcyclicRequirements E rs = Inr b \<longleftrightarrow>
      b \<and> requirements_ok rs \<and> (\<exists>vs. visit_all E (by_id rs) [] [] (map req_id rs) = Inr vs)"
    by (auto simp: assertAcyclicRequirements_def assertUniqueRequirementIds_def monad
        uniqueRequirementIdsFrom_iff checkDependencies_iff requirements_ok_def Let_def
        simp flip: by_id_def req_id_def)
  have "acyclic (dep_rel rs)" if ok: "requirements_ok rs"
    and vs: "visit_all E (by_id rs) [] [] (map req_id rs) = Inr vs" for vs
  proof (rule acyclicI, rule allI, rule notI)
    fix x assume x: "(x, x) \<in> (dep_rel rs)\<^sup>+"
    have "settled (dep_rel rs) [] vs \<and> set (map req_id rs) \<subseteq> set vs"
      using visit_sound(2) [OF vs] ok by (auto simp: requirements_ok_def settled_def)
    moreover from x obtain d where "(x, d) \<in> dep_rel rs" by (meson tranclD)
    then have "x \<in> req_id ` set rs" by (auto simp: dep_rel_def)
    ultimately show False using x by (auto simp: settled_def)
  qed
  with unfold visit_complete(2) [of rs "map req_id rs" "[]"] show ?thesis by auto
qed

lemma assertAcyclicRequirements_cycle_error:
  assumes "requirements_ok rs" "\<not> acyclic (dep_rel rs)"
  obtains detail where "assertAcyclicRequirements E rs = fail cycle_code detail"
proof -
  have u: "assertUniqueRequirementIds E rs = Inr True"
    using assms(1) by (simp add: assertUniqueRequirementIds_def uniqueRequirementIdsFrom_iff requirements_ok_def)
  have c: "eforeach (checkDependencies E (by_id rs)) rs = Inr True"
    using assms(1) unfolding eforeach_Inr_iff checkDependencies_iff requirements_ok_def by blast
  from u c have eq: "assertAcyclicRequirements E rs =
      ebind (visit_all E (by_id rs) [] [] (map req_id rs)) (\<lambda>_. Inr True)"
    by (simp add: assertAcyclicRequirements_def Let_def flip: by_id_def req_id_def)
  from assms(2) assertAcyclicRequirements_iff [of E rs True]
  obtain e where e: "assertAcyclicRequirements E rs = Inl e"
    by (cases "assertAcyclicRequirements E rs") (auto simp: eq ebind_Inr_iff)
  then have "visit_all E (by_id rs) [] [] (map req_id rs) = Inl e"
    by (auto simp: eq ebind_Inl_iff)
  from visit_error(2) [OF assms(1) _ this] have "fail_code e = cycle_code \<and> e \<noteq> TypeError \<and> e \<noteq> RangeError"
    by simp
  then obtain d where "e = Fail cycle_code d" by (cases e) auto
  with e that show thesis by (simp add: fail_def)
qed

lemma dep_rel_Nil: "dep_rel [] = {}"
  by (simp add: dep_rel_def)

lemma dep_rel_Cons: "dep_rel (r # rs) = {req_id r} \<times> set (req_deps r) \<union> dep_rel rs"
  by (auto simp: dep_rel_def)

text \<open>C6: assertAcyclicRequirements accepts a list of requirements exactly when the identifiers are well
formed and unique, every dependency is known and the dependency relation is acyclic.\<close>

theorem requirement_graph_accepted_iff:
  "assertAcyclicRequirements E rs = Inr b \<longleftrightarrow> b \<and> requirements_ok rs \<and> acyclic (dep_rel rs)"
  by (rule assertAcyclicRequirements_iff)

theorem requirement_cycle_rejected:
  assumes "requirements_ok rs" "\<not> acyclic (dep_rel rs)"
  shows "\<exists>detail. assertAcyclicRequirements E rs = fail cycle_code detail"
  by (rule assertAcyclicRequirements_cycle_error [OF assms]) (rule exI)

end
