(* ===== verification/Constitution.thy ===== *)
theory Constitution
  imports Requirements
begin

section \<open>Artifact type constitutions and conditional audit rules\<close>

text \<open>
  \<open>buildArtifactTypeConstitution\<close> and its validator, and the evaluation of conditional audit
  rules on settled properties
  (\<^verbatim>\<open>src/main/direct/worldmanager/artifact-lifecycle-kernel.js\<close>). A constitution fixes, for a
  type of artifact, the requirements whose graph every revision of it has to discharge.
\<close>

subsection \<open>Constitutions\<close>

definition ARTIFACT_TYPE_CONSTITUTION_SCHEMA :: string where
  "ARTIFACT_TYPE_CONSTITUTION_SCHEMA = ''direct_artifact_type_constitution@1''"

definition validateArtifactTypeConstitution :: "jsenv \<Rightarrow> jval \<Rightarrow> bool res" where
  "validateArtifactTypeConstitution E v =
     ebind (validateArtifact E v ARTIFACT_TYPE_CONSTITUTION_SCHEMA ''artifactTypeConstitutionId''
       ''world_manager_artifact_type_constitution_invalid'') (\<lambda>_.
     if js_text (fld v ''artifactTypeId'') [] = []
       \<or> \<not> isInteger (fld v ''revision'')
       \<or> js_less E (fld v ''revision'') 1
       \<or> fld v ''canonical'' \<noteq> JBool True
       \<or> fld v ''activationEligible'' \<noteq> JBool True
       \<or> fld v ''grantsAuthority'' \<noteq> JBool False
       \<or> fld v ''rawChainOfThoughtIncluded'' \<noteq> JBool False
       \<or> fld v ''rawSecretIncluded'' \<noteq> JBool False
     then fail ''world_manager_artifact_type_constitution_boundary_invalid'' []
     else if \<not> isArray (fld v ''assuranceRoots'') \<or> elems (fld v ''assuranceRoots'') = []
     then fail ''world_manager_artifact_assurance_root_required'' []
     else ebind (eforeach (normalizeAssuranceRoot E) (elems (fld v ''assuranceRoots''))) (\<lambda>_.
     ebind (normalizeScope (fld v ''semanticScope'')) (\<lambda>_.
     ebind (exactRef (fld v ''constitutionAdmissionReceiptRef'') ''constitutionAdmissionReceiptRef'') (\<lambda>_.
     ebind (exactRef (fld v ''admissionAuthorityRef'') ''admissionAuthorityRef'') (\<lambda>_.
     ebind (exactRef (fld v ''assuranceRootPolicyRef'') ''assuranceRootPolicyRef'') (\<lambda>_.
     ebind (allRequirements v) (\<lambda>requirements.
     ebind (assertAcyclicRequirements E requirements) (\<lambda>_.
     Inr True))))))))"

interpretation constitution: sealed_record E "validateArtifactTypeConstitution E" ARTIFACT_TYPE_CONSTITUTION_SCHEMA "''artifactTypeConstitutionId''" for E
  by unfold_locales (auto simp: validateArtifactTypeConstitution_def monad)

definition buildArtifactTypeConstitution :: "jsenv \<Rightarrow> jval \<Rightarrow> jval res" where
  "buildArtifactTypeConstitution E arg =
     ebind (defaulted arg) (\<lambda>input.
     let artifactTypeId = js_text (fld input ''artifactTypeId'') [];
         revision = JNum (to_number E (js_or (fld input ''revision'') (num 1))) in
     if artifactTypeId = [] \<or> \<not> isInteger revision \<or> js_less E revision 1
     then fail ''world_manager_artifact_type_constitution_identity_invalid'' []
     else
     ebind (emapi (\<lambda>i e. buildMechanicalWitnessRequirement e i) 0
       (elems (fld input ''requiredMechanicalWitnesses''))) (\<lambda>requiredMechanicalWitnesses.
     ebind (emapi (\<lambda>i e. buildAuditRequirement e i) 0
       (elems (fld input ''requiredSemanticAudits''))) (\<lambda>requiredSemanticAudits.
     ebind (emapi (\<lambda>i e. buildConditionalAuditRule e i) 0
       (elems (fld input ''conditionalAuditRules''))) (\<lambda>conditionalAuditRules.
     let requirements = requiredMechanicalWitnesses @ requiredSemanticAudits
           @ map (\<lambda>rule. fld rule ''auditRequirement'') conditionalAuditRules in
     ebind (assertAcyclicRequirements E requirements) (\<lambda>_.
     ebind (exactRef (fld input ''constitutionAdmissionReceiptRef'') ''constitutionAdmissionReceiptRef'')
       (\<lambda>admissionReceiptRef.
     ebind (normalizeScope (fld input ''semanticScope'')) (\<lambda>semanticScope.
     ebind (uniqueRefs E (fld input ''producedObjectKindRefs'') ''producedObjectKindRefs'')
       (\<lambda>producedObjectKindRefs.
     ebind (exactRef (fld input ''producerEligibilityRef'') ''producerEligibilityRef'')
       (\<lambda>producerEligibilityRef.
     ebind (exactRef (fld input ''auditorIndependenceRuleRef'') ''auditorIndependenceRuleRef'')
       (\<lambda>auditorIndependenceRuleRef.
     ebind (exactRef (fld input ''lifecycleGatePolicyRef'') ''lifecycleGatePolicyRef'')
       (\<lambda>lifecycleGatePolicyRef.
     ebind (exactRef (fld input ''admissionAuthorityRef'') ''admissionAuthorityRef'')
       (\<lambda>admissionAuthorityRef.
     ebind (exactRef (fld input ''remandPolicyRef'') ''remandPolicyRef'') (\<lambda>remandPolicyRef.
     ebind (exactRef (fld input ''escalationPolicyRef'') ''escalationPolicyRef'') (\<lambda>escalationPolicyRef.
     ebind (uniqueRefs E (fld input ''notificationStandingRefs'') ''notificationStandingRefs'')
       (\<lambda>notificationStandingRefs.
     ebind (exactRef (fld input ''budgetPolicyRef'') ''budgetPolicyRef'') (\<lambda>budgetPolicyRef.
     ebind (exactRef (fld input ''assuranceRootPolicyRef'') ''assuranceRootPolicyRef'')
       (\<lambda>assuranceRootPolicyRef.
     ebind (emap (normalizeAssuranceRoot E) (elems (fld input ''assuranceRoots''))) (\<lambda>assuranceRoots.
     ebind (stamped E input) (\<lambda>createdAt.
     let v = artifact E ARTIFACT_TYPE_CONSTITUTION_SCHEMA ''artifactTypeConstitutionId''
       (js_text (fld input ''artifactTypeConstitutionId'')
         (stableId E ''wm_artifact_type_constitution'' (JObj [
           (''artifactTypeId'', JStr artifactTypeId), (''revision'', revision),
           (''admissionReceiptRef'', admissionReceiptRef)])))
       [(''artifactTypeId'', JStr artifactTypeId),
        (''semanticScope'', semanticScope),
        (''producedObjectKindRefs'', JArr producedObjectKindRefs),
        (''producerEligibilityRef'', producerEligibilityRef),
        (''requiredMechanicalWitnesses'', JArr requiredMechanicalWitnesses),
        (''requiredSemanticAudits'', JArr requiredSemanticAudits),
        (''conditionalAuditRules'', JArr conditionalAuditRules),
        (''auditorIndependenceRuleRef'', auditorIndependenceRuleRef),
        (''lifecycleGatePolicyRef'', lifecycleGatePolicyRef),
        (''admissionAuthorityRef'', admissionAuthorityRef),
        (''remandPolicyRef'', remandPolicyRef),
        (''escalationPolicyRef'', escalationPolicyRef),
        (''notificationStandingRefs'', JArr notificationStandingRefs),
        (''budgetPolicyRef'', budgetPolicyRef),
        (''assuranceRootPolicyRef'', assuranceRootPolicyRef),
        (''assuranceRoots'', JArr assuranceRoots),
        (''constitutionAdmissionReceiptRef'', admissionReceiptRef),
        (''revision'', revision),
        (''canonical'', JBool True),
        (''activationEligible'', JBool True),
        (''grantsAuthority'', JBool False),
        (''rawChainOfThoughtIncluded'', JBool False),
        (''rawSecretIncluded'', JBool False),
        (''createdAt'', createdAt)] in
     ebind (validateArtifactTypeConstitution E v) (\<lambda>_. Inr v))))))))))))))))))))"

definition artifactTypeConstitutionRef :: "jsenv \<Rightarrow> jval \<Rightarrow> jval res" where
  "artifactTypeConstitutionRef E v =
     ebind (validateArtifactTypeConstitution E v) (\<lambda>_.
     ebind (getp (fld v ''semanticScope'') ''projectId'') (\<lambda>projectId.
     artifactExactRef ''artifact_type_constitution'' v ''artifactTypeConstitutionId'' projectId))"

subsection \<open>Predicates over settled properties\<close>

fun splitDots :: "string \<Rightarrow> string \<Rightarrow> string list" where
  \<comment> \<open>\<open>path.split(".")\<close>, the first argument holding the segment read so far\<close>
  "splitDots acc [] = [rev acc]"
| "splitDots acc (c # cs) = (if c = CHR ''.'' then rev acc # splitDots [] cs else splitDots (c # acc) cs)"

definition own_property :: "jval \<Rightarrow> string \<Rightarrow> jval option" where
  "own_property v k = (case v of JObj fs \<Rightarrow> map_of fs k
     | JArr vs \<Rightarrow> (if is_index k \<and> decimal k < length vs then Some (vs ! decimal k)
         else if k = ''length'' then Some (num (int (length vs))) else None)
     | _ \<Rightarrow> None)"

fun walkPath :: "jval \<Rightarrow> string list \<Rightarrow> jval option" where
  "walkPath current [] = Some current"
| "walkPath current (segment # rest) =
     (if \<not> isPlainObject current \<and> \<not> isArray current then None
      else case own_property current segment of None \<Rightarrow> None | Some x \<Rightarrow> walkPath x rest)"

definition getPath :: "jval \<Rightarrow> string \<Rightarrow> jval option" where
  \<comment> \<open>\<open>Some v\<close> is \<open>{present: true, value: v}\<close>\<close>
  "getPath source path = walkPath source (filter (\<lambda>s. s \<noteq> []) (splitDots [] path))"

fun contains :: "string \<Rightarrow> string \<Rightarrow> bool" where
  \<comment> \<open>\<open>String.prototype.includes\<close>\<close>
  "contains [] needle = (needle = [])"
| "contains (c # cs) needle = (take (length needle) (c # cs) = needle \<or> contains cs needle)"

definition js_includes :: "jsenv \<Rightarrow> jval \<Rightarrow> jval \<Rightarrow> bool" where
  "js_includes E actual expected = (case actual of
       JArr vs \<Rightarrow> list_ex (\<lambda>x. same_value_zero x expected) vs
     | JStr s \<Rightarrow> contains s (js_string E expected)
     | _ \<Rightarrow> False)"

definition not_includes :: "jsenv \<Rightarrow> jval \<Rightarrow> jval \<Rightarrow> bool" where
  "not_includes E actual expected = (case actual of
       JArr vs \<Rightarrow> \<not> list_ex (\<lambda>x. same_value_zero x expected) vs
     | JStr s \<Rightarrow> \<not> contains s (js_string E expected)
     | _ \<Rightarrow> False)"

text \<open>A clause is indeterminate (\<open>None\<close>) when its path is missing, and matches or not otherwise.\<close>

definition clauseVerdict :: "jsenv \<Rightarrow> string \<Rightarrow> jval \<Rightarrow> jval option \<Rightarrow> bool option" where
  "clauseVerdict E operator expected actual =
     (if operator = ''exists'' then Some ((actual \<noteq> None) = truthy (coalesce expected (JBool True)))
      else case actual of None \<Rightarrow> None | Some x \<Rightarrow> Some (
        if operator = ''equals'' then strict_eq x expected
        else if operator = ''not_equals'' then \<not> strict_eq x expected
        else if operator = ''includes'' then js_includes E x expected
        else if operator = ''not_includes'' then not_includes E x expected
        else if operator = ''in'' then list_ex (\<lambda>y. same_value_zero y x) (elems expected)
        else False))"

definition verdict_fields :: "bool option \<Rightarrow> (string \<times> jval) list" where
  "verdict_fields r = (case r of
       None \<Rightarrow> [(''state'', JStr ''indeterminate''), (''matched'', JBool False)]
     | Some m \<Rightarrow> [(''state'', JStr ''evaluated''), (''matched'', JBool m)])"

definition evaluatePredicateClause :: "jsenv \<Rightarrow> jval \<Rightarrow> jval \<Rightarrow> bool option res" where
  "evaluatePredicateClause E clause settledProperties =
     ebind (getp clause ''path'') (\<lambda>path. case path of
       JStr p \<Rightarrow> Inr (clauseVerdict E (raw_string (fld clause ''operator'')) (fld clause ''expected'')
                    (getPath settledProperties p))
     | _ \<Rightarrow> Inl TypeError)"

definition evaluateConditionalAuditRule :: "jsenv \<Rightarrow> jval \<Rightarrow> jval \<Rightarrow> jval res" where
  "evaluateConditionalAuditRule E rule settledArg =
     ebind (getp rule ''allOf'') (\<lambda>allOf. ebind (method_elems allOf) (\<lambda>clauses.
     let settledProperties = (if settledArg = JUndef then JObj [] else settledArg) in
     ebind (emap (\<lambda>clause. ebind (evaluatePredicateClause E clause settledProperties)
       (\<lambda>r. Inr (clause, r))) clauses) (\<lambda>results.
     let indeterminate = list_ex (\<lambda>(c, r). r = None) results in
     Inr (JObj [
       (''ruleId'', fld rule ''ruleId''),
       (''evaluationState'', JStr (if indeterminate then ''indeterminate'' else ''evaluated'')),
       (''activated'', JBool (\<not> indeterminate \<and> list_all (\<lambda>(c, r). r = Some True) results)),
       (''clauseResults'', JArr (map (\<lambda>(c, r). JObj ((''clause'', c) # verdict_fields r)) results))]))))"

subsection \<open>Conditional rules are three-valued\<close>

lemma evaluateConditionalAuditRule_Inr:
  assumes "evaluateConditionalAuditRule E rule settledProperties = Inr e"
  shows "\<exists>clauses verdicts. fld rule ''allOf'' = JArr clauses
    \<and> emap (\<lambda>c. evaluatePredicateClause E c
        (if settledProperties = JUndef then JObj [] else settledProperties)) clauses = Inr verdicts
    \<and> fld e ''ruleId'' = fld rule ''ruleId''
    \<and> fld e ''activated'' = JBool (\<forall>r\<in>set verdicts. r = Some True)
    \<and> fld e ''evaluationState'' = JStr (if None \<in> set verdicts then ''indeterminate'' else ''evaluated'')"
proof -
  let ?s = "if settledProperties = JUndef then JObj [] else settledProperties"
  from assms obtain clauses results where c: "fld rule ''allOf'' = JArr clauses"
    and r: "emap (\<lambda>clause. ebind (evaluatePredicateClause E clause ?s) (\<lambda>r. Inr (clause, r))) clauses = Inr results"
    and e: "e = JObj [
       (''ruleId'', fld rule ''ruleId''),
       (''evaluationState'', JStr (if list_ex (\<lambda>(c, r). r = None) results then ''indeterminate'' else ''evaluated'')),
       (''activated'', JBool (\<not> list_ex (\<lambda>(c, r). r = None) results \<and> list_all (\<lambda>(c, r). r = Some True) results)),
       (''clauseResults'', JArr (map (\<lambda>(c, r). JObj ((''clause'', c) # verdict_fields r)) results))]"
    unfolding evaluateConditionalAuditRule_def Let_def by (auto simp: monad)
  from r have "emap (\<lambda>c. evaluatePredicateClause E c ?s) clauses = Inr (map snd results)"
    by (induction clauses arbitrary: results) (auto simp: monad simp del: emap_Inr_iff)
  moreover have "list_ex (\<lambda>(c, r). r = None) results \<longleftrightarrow> None \<in> set (map snd results)"
    by (force simp: list_ex_iff)
  moreover have "list_all (\<lambda>(c, r). r = Some True) results \<longleftrightarrow> (\<forall>r\<in>set (map snd results). r = Some True)"
    by (force simp: list_all_iff)
  ultimately show ?thesis
    using c by (intro exI [of _ clauses] exI [of _ "map snd results"]) (auto simp: e)
qed

text \<open>C30: A conditional rule with a clause on a property that is not settled is not activated and is
reported as indeterminate, unless the clause only asks whether the property exists.\<close>

theorem missing_property_never_activates:
  assumes "evaluateConditionalAuditRule E rule settledProperties = Inr e" "settledProperties \<noteq> JUndef"
    and "clause \<in> set (elems (fld rule ''allOf''))" "fld clause ''path'' = JStr path"
    and "getPath settledProperties path = None" "fld clause ''operator'' \<noteq> JStr ''exists''"
  shows "fld e ''activated'' = JBool False \<and> fld e ''evaluationState'' = JStr ''indeterminate''"
proof -
  obtain clauses verdicts where c: "fld rule ''allOf'' = JArr clauses"
    and v: "emap (\<lambda>c. evaluatePredicateClause E c settledProperties) clauses = Inr verdicts"
    and e: "fld e ''activated'' = JBool (\<forall>r\<in>set verdicts. r = Some True)"
      "fld e ''evaluationState'' = JStr (if None \<in> set verdicts then ''indeterminate'' else ''evaluated'')"
    using evaluateConditionalAuditRule_Inr [OF assms(1)] assms(2) by auto
  have "evaluatePredicateClause E clause settledProperties = Inr r \<Longrightarrow> r = None" for r
    using assms(4-6)
    by (auto simp: evaluatePredicateClause_def monad clauseVerdict_def raw_string_def split: jval.splits)
  with v c assms(3) have "None \<in> set verdicts"
    by (auto simp: emap_Inr_iff list_all2_conv_all_nth in_set_conv_nth)
  with e show ?thesis by auto
qed

end
