(* ===== verification/ArtifactRecords.thy ===== *)
theory ArtifactRecords
  imports ArtifactRefs Requirements
begin

section \<open>The records of an artifact's life\<close>

text \<open>
  Builders, validators and references of the records one artifact lifecycle produces, in the
  order of \<^verbatim>\<open>src/main/direct/worldmanager/artifact-lifecycle-kernel.js\<close>: producer assignments,
  artifact revisions, audit assignments and assessments, mechanical witness joins, audit
  invalidations, remand obligations, compatibility receipts. A builder normalises its input,
  seals the record and runs the validator on the result; a reference function validates first.
\<close>

subsection \<open>Producer assignments\<close>

definition ARTIFACT_PRODUCER_ASSIGNMENT_SCHEMA :: string where
  "ARTIFACT_PRODUCER_ASSIGNMENT_SCHEMA = ''direct_artifact_producer_assignment@1''"

definition validateProducerAssignment :: "jsenv \<Rightarrow> jval \<Rightarrow> bool res" where
  "validateProducerAssignment E v =
     ebind (validateArtifact E v ARTIFACT_PRODUCER_ASSIGNMENT_SCHEMA ''assignmentId''
       ''world_manager_artifact_producer_assignment_invalid'') (\<lambda>_.
     if js_text (fld v ''producerRole'') [] = []
       \<or> js_text (fld v ''lifecycleId'') [] = []
       \<or> fld v ''assignmentPosture'' \<noteq> JStr ''candidate''
       \<or> fld v ''providerLaunchAuthorized'' \<noteq> JBool False
       \<or> fld v ''canonicalEffect'' \<noteq> JBool False
     then fail ''world_manager_artifact_producer_assignment_boundary_invalid'' []
     else ebind (exactRef (fld v ''lifecycleRef'') ''producer.lifecycleRef'') (\<lambda>_.
     ebind (exactRef (fld v ''producerAgentRef'') ''producer.producerAgentRef'') (\<lambda>_.
     Inr True)))"

interpretation producer_assignment: sealed_record E "validateProducerAssignment E" ARTIFACT_PRODUCER_ASSIGNMENT_SCHEMA "''assignmentId''" for E
  by unfold_locales (auto simp: validateProducerAssignment_def monad)

definition buildProducerAssignment :: "jsenv \<Rightarrow> jval \<Rightarrow> jval res" where
  "buildProducerAssignment E arg =
     ebind (defaulted arg) (\<lambda>input.
     ebind (exactRef (fld input ''lifecycleRef'') ''producer.lifecycleRef'') (\<lambda>lifecycleRef.
     let lifecycleId = js_text (fld input ''lifecycleId'') [];
         producerRole = js_text (fld input ''producerRole'') [] in
     ebind (exactRef (fld input ''producerAgentRef'') ''producerAgentRef'') (\<lambda>producerAgentRef.
     ebind (optionalRef (fld input ''producerRunRef'') ''producerRunRef'') (\<lambda>producerRunRef.
     if producerRole = [] \<or> lifecycleId = []
     then fail ''world_manager_artifact_producer_role_required'' []
     else
     ebind (exactRef (fld input ''eligibilityRef'') ''producer.eligibilityRef'') (\<lambda>eligibilityRef.
     ebind (stamped E input) (\<lambda>createdAt.
     let assignmentId = js_text (fld input ''assignmentId'')
           (stableId E ''wm_artifact_producer_assignment'' (JObj [
             (''lifecycleRef'', lifecycleRef), (''producerRole'', JStr producerRole),
             (''producerAgentRef'', producerAgentRef)]));
         v = artifact E ARTIFACT_PRODUCER_ASSIGNMENT_SCHEMA ''assignmentId'' assignmentId
       [(''lifecycleRef'', lifecycleRef),
        (''lifecycleId'', JStr lifecycleId),
        (''producerRole'', JStr producerRole),
        (''producerAgentRef'', producerAgentRef),
        (''producerRunRef'', producerRunRef),
        (''eligibilityRef'', eligibilityRef),
        (''assignmentPosture'', JStr ''candidate''),
        (''providerLaunchAuthorized'', JBool False),
        (''canonicalEffect'', JBool False),
        (''createdAt'', createdAt)] in
     ebind (validateProducerAssignment E v) (\<lambda>_. Inr v)))))))"

definition producerAssignmentRef :: "jsenv \<Rightarrow> jval \<Rightarrow> jval \<Rightarrow> jval res" where
  "producerAssignmentRef E v projectId =
     ebind (validateProducerAssignment E v) (\<lambda>_.
     artifactExactRef ''artifact_producer_assignment'' v ''assignmentId'' projectId)"

subsection \<open>Artifact revisions\<close>

definition ARTIFACT_REVISION_SCHEMA :: string where
  "ARTIFACT_REVISION_SCHEMA = ''direct_artifact_revision@1''"

definition validateArtifactRevision :: "jsenv \<Rightarrow> jval \<Rightarrow> bool res" where
  "validateArtifactRevision E v =
     ebind (validateArtifact E v ARTIFACT_REVISION_SCHEMA ''artifactRevisionId''
       ''world_manager_artifact_revision_invalid'') (\<lambda>_.
     if js_text (fld v ''artifactId'') [] = []
       \<or> js_text (fld v ''lifecycleId'') [] = []
       \<or> \<not> isInteger (fld v ''revision'')
       \<or> js_less E (fld v ''revision'') 1
       \<or> strict_eq (fld v ''revision'') (num 1) = truthy (fld v ''predecessorRef'')
       \<or> \<not> strict_eq (fld v ''artifactDigest'') (fld (fld v ''artifactContentRef'') ''digest'')
       \<or> fld v ''immutable'' \<noteq> JBool True
       \<or> fld v ''canonical'' \<noteq> JBool False
       \<or> fld v ''canonicalEffect'' \<noteq> JBool False
     then fail ''world_manager_artifact_revision_boundary_invalid'' []
     else ebind (exactRef (fld v ''lifecycleRef'') ''revision.lifecycleRef'') (\<lambda>_.
     ebind (exactRef (fld v ''artifactTypeConstitutionRef'') ''revision.constitutionRef'') (\<lambda>_.
     ebind (exactRef (fld v ''artifactContentRef'') ''revision.contentRef'') (\<lambda>_.
     ebind (exactRef (fld v ''producerAssignmentRef'') ''revision.producerAssignmentRef'') (\<lambda>_.
     Inr True)))))"

interpretation artifact_revision: sealed_record E "validateArtifactRevision E" ARTIFACT_REVISION_SCHEMA "''artifactRevisionId''" for E
  by unfold_locales (auto simp: validateArtifactRevision_def monad)

definition buildArtifactRevision :: "jsenv \<Rightarrow> jval \<Rightarrow> jval res" where
  "buildArtifactRevision E arg =
     ebind (defaulted arg) (\<lambda>input.
     ebind (exactRef (fld input ''lifecycleRef'') ''revision.lifecycleRef'') (\<lambda>lifecycleRef.
     ebind (exactRef (fld input ''artifactTypeConstitutionRef'') ''revision.artifactTypeConstitutionRef'')
       (\<lambda>constitutionRef.
     ebind (exactRef (fld input ''artifactContentRef'') ''artifactContentRef'') (\<lambda>contentRef.
     ebind (exactRef (fld input ''producerAssignmentRef'') ''revision.producerAssignmentRef'')
       (\<lambda>assignmentRef.
     let revision = JNum (to_number E (js_or (fld input ''revision'') (num 1))) in
     ebind (optionalRef (fld input ''predecessorRef'') ''revision.predecessorRef'') (\<lambda>predecessorRef.
     if \<not> isInteger revision \<or> js_less E revision 1
       \<or> strict_eq revision (num 1) = truthy predecessorRef
     then fail ''world_manager_artifact_revision_lineage_invalid'' []
     else
     let artifactId = js_text (fld input ''artifactId'') [];
         lifecycleId = js_text (fld input ''lifecycleId'') [] in
     if artifactId = [] \<or> lifecycleId = []
     then fail ''world_manager_artifact_revision_identity_required'' []
     else
     ebind (optionalRef (fld input ''producerRunRef'') ''producerRunRef'') (\<lambda>producerRunRef.
     ebind (uniqueRefs E (fld input ''evidenceRefs'') ''revision.evidenceRefs'') (\<lambda>evidenceRefs.
     ebind (stamped E input) (\<lambda>createdAt.
     let v = artifact E ARTIFACT_REVISION_SCHEMA ''artifactRevisionId''
       (js_text (fld input ''artifactRevisionId'') (stableId E ''wm_artifact_revision'' (JObj [
          (''lifecycleRef'', lifecycleRef), (''artifactId'', JStr artifactId),
          (''revision'', revision), (''contentRef'', contentRef)])))
       [(''lifecycleRef'', lifecycleRef),
        (''artifactTypeConstitutionRef'', constitutionRef),
        (''lifecycleId'', JStr lifecycleId),
        (''artifactId'', JStr artifactId),
        (''revision'', revision),
        (''predecessorRef'', predecessorRef),
        (''artifactContentRef'', contentRef),
        (''artifactDigest'', fld contentRef ''digest''),
        (''producerAssignmentRef'', assignmentRef),
        (''producerRunRef'', producerRunRef),
        (''evidenceRefs'', JArr evidenceRefs),
        (''settledProperties'', if isPlainObject (fld input ''settledProperties'')
           then stableValue [] (fld input ''settledProperties'') else JObj []),
        (''immutable'', JBool True),
        (''canonical'', JBool False),
        (''canonicalEffect'', JBool False),
        (''createdAt'', createdAt)] in
     ebind (validateArtifactRevision E v) (\<lambda>_. Inr v))))))))))"

definition artifactRevisionRefFor :: "jsenv \<Rightarrow> jval \<Rightarrow> jval res" where
  "artifactRevisionRefFor E v =
     ebind (validateArtifactRevision E v) (\<lambda>_.
     ebind (getp (fld v ''artifactContentRef'') ''projectId'') (\<lambda>projectId.
     artifactExactRef ''artifact_revision'' v ''artifactRevisionId'' projectId))"

subsection \<open>Audit assignments\<close>

definition ARTIFACT_AUDIT_ASSIGNMENT_SCHEMA :: string where
  "ARTIFACT_AUDIT_ASSIGNMENT_SCHEMA = ''direct_artifact_audit_assignment@1''"

definition validateAuditAssignment :: "jsenv \<Rightarrow> jval \<Rightarrow> bool res" where
  "validateAuditAssignment E v =
     ebind (validateArtifact E v ARTIFACT_AUDIT_ASSIGNMENT_SCHEMA ''auditAssignmentId''
       ''world_manager_artifact_audit_assignment_invalid'') (\<lambda>_.
     if js_text (fld v ''lifecycleId'') [] = []
       \<or> js_text (fld v ''requirementId'') [] = []
       \<or> js_text (fld v ''auditType'') [] = []
       \<or> js_text (fld v ''auditorRole'') [] = []
       \<or> fld v ''assignmentPosture'' \<noteq> JStr ''candidate''
       \<or> fld v ''providerLaunchAuthorized'' \<noteq> JBool False
       \<or> fld v ''canonicalEffect'' \<noteq> JBool False
     then fail ''world_manager_artifact_audit_assignment_boundary_invalid'' []
     else ebind (exactRef (fld v ''artifactRevisionRef'') ''auditAssignment.artifactRevisionRef'') (\<lambda>_.
     ebind (exactRef (fld v ''independenceReceiptRef'') ''independenceReceiptRef'') (\<lambda>_.
     ebind (exactRef (fld v ''independenceRuleRef'') ''independenceRuleRef'') (\<lambda>_.
     Inr True))))"

interpretation audit_assignment: sealed_record E "validateAuditAssignment E" ARTIFACT_AUDIT_ASSIGNMENT_SCHEMA "''auditAssignmentId''" for E
  by unfold_locales (auto simp: validateAuditAssignment_def monad)

definition buildAuditAssignment :: "jsenv \<Rightarrow> jval \<Rightarrow> jval res" where
  "buildAuditAssignment E arg =
     ebind (defaulted arg) (\<lambda>input.
     let lifecycleId = js_text (fld input ''lifecycleId'') [] in
     ebind (exactRef (fld input ''artifactRevisionRef'') ''auditAssignment.artifactRevisionRef'')
       (\<lambda>artifactRevisionRef.
     let requirementId = js_text (fld input ''requirementId'') [];
         auditorRole = js_text (fld input ''auditorRole'') [] in
     if lifecycleId = [] \<or> requirementId = [] \<or> auditorRole = []
     then fail ''world_manager_artifact_audit_assignment_identity_invalid'' []
     else
     ebind (exactRef (fld input ''lifecycleRef'') ''auditAssignment.lifecycleRef'') (\<lambda>lifecycleRef.
     ebind (exactRef (fld input ''auditorAgentRef'') ''auditorAgentRef'') (\<lambda>auditorAgentRef.
     ebind (optionalRef (fld input ''auditorRunRef'') ''auditorRunRef'') (\<lambda>auditorRunRef.
     ebind (exactRef (fld input ''independenceReceiptRef'') ''independenceReceiptRef'')
       (\<lambda>independenceReceiptRef.
     ebind (exactRef (fld input ''independenceRuleRef'') ''independenceRuleRef'') (\<lambda>independenceRuleRef.
     ebind (stamped E input) (\<lambda>createdAt.
     let v = artifact E ARTIFACT_AUDIT_ASSIGNMENT_SCHEMA ''auditAssignmentId''
       (js_text (fld input ''auditAssignmentId'') (stableId E ''wm_artifact_audit_assignment'' (JObj [
          (''artifactRevisionRef'', artifactRevisionRef), (''requirementId'', JStr requirementId),
          (''auditorAgentRef'', fld input ''auditorAgentRef'')])))
       [(''lifecycleId'', JStr lifecycleId),
        (''lifecycleRef'', lifecycleRef),
        (''artifactRevisionRef'', artifactRevisionRef),
        (''requirementId'', JStr requirementId),
        (''auditType'', JStr (js_text (fld input ''auditType'') [])),
        (''auditorRole'', JStr auditorRole),
        (''auditorAgentRef'', auditorAgentRef),
        (''auditorRunRef'', auditorRunRef),
        (''independenceReceiptRef'', independenceReceiptRef),
        (''independenceRuleRef'', independenceRuleRef),
        (''boundedCapabilityNames'', strings (stringList (fld input ''boundedCapabilityNames''))),
        (''assignmentPosture'', JStr ''candidate''),
        (''providerLaunchAuthorized'', JBool False),
        (''canonicalEffect'', JBool False),
        (''createdAt'', createdAt)] in
     ebind (validateAuditAssignment E v) (\<lambda>_. Inr v)))))))))"

definition auditAssignmentRef :: "jsenv \<Rightarrow> jval \<Rightarrow> jval \<Rightarrow> jval res" where
  "auditAssignmentRef E v projectId =
     ebind (validateAuditAssignment E v) (\<lambda>_.
     artifactExactRef ''artifact_audit_assignment'' v ''auditAssignmentId'' projectId)"

subsection \<open>Audit assessments\<close>

definition ARTIFACT_AUDIT_ASSESSMENT_SCHEMA :: string where
  "ARTIFACT_AUDIT_ASSESSMENT_SCHEMA = ''direct_artifact_audit_assessment@1''"

definition AUDIT_VERDICTS :: "string list" where
  "AUDIT_VERDICTS = [''supported'', ''contradicted'', ''requires_revision'', ''blocked'']"

definition validateAuditAssessment :: "jsenv \<Rightarrow> jval \<Rightarrow> bool res" where
  "validateAuditAssessment E v =
     ebind (validateArtifact E v ARTIFACT_AUDIT_ASSESSMENT_SCHEMA ''auditAssessmentId''
       ''world_manager_artifact_audit_assessment_invalid'') (\<lambda>_.
     if js_text (fld v ''requirementId'') [] = []
       \<or> \<not> one_of (fld v ''verdict'') AUDIT_VERDICTS
       \<or> fld v ''exactRevisionAssessed'' \<noteq> JBool True
       \<or> fld v ''canonical'' \<noteq> JBool False
       \<or> fld v ''canonicalEffect'' \<noteq> JBool False
     then fail ''world_manager_artifact_audit_assessment_boundary_invalid'' []
     else ebind (if fld v ''verdict'' = JStr ''requires_revision''
         then ebind (js_length (fld v ''remandObligations'')) (\<lambda>n. Inr (\<not> truthy n)) else Inr False)
       (\<lambda>missing.
     if missing then fail ''world_manager_artifact_audit_remand_obligation_required'' []
     else ebind (exactRef (fld v ''artifactRevisionRef'') ''assessment.artifactRevisionRef'') (\<lambda>_.
     ebind (exactRef (fld v ''auditAssignmentRef'') ''assessment.auditAssignmentRef'') (\<lambda>_.
     Inr True))))"

interpretation audit_assessment: sealed_record E "validateAuditAssessment E" ARTIFACT_AUDIT_ASSESSMENT_SCHEMA "''auditAssessmentId''" for E
  by unfold_locales (auto simp: validateAuditAssessment_def monad)

definition buildAuditAssessment :: "jsenv \<Rightarrow> jval \<Rightarrow> jval res" where
  "buildAuditAssessment E arg =
     ebind (defaulted arg) (\<lambda>input.
     let verdict = js_text (fld input ''verdict'') [] in
     if verdict \<notin> set AUDIT_VERDICTS
     then fail ''world_manager_artifact_audit_verdict_invalid'' verdict
     else
     ebind (exactRef (fld input ''artifactRevisionRef'') ''assessment.artifactRevisionRef'')
       (\<lambda>artifactRevisionRef.
     ebind (exactRef (fld input ''auditAssignmentRef'') ''assessment.auditAssignmentRef'')
       (\<lambda>assignmentRef.
     let requirementId = js_text (fld input ''requirementId'') [] in
     if requirementId = []
     then fail ''world_manager_artifact_audit_assessment_requirement_required'' []
     else
     ebind (exactRef (fld input ''lifecycleRef'') ''assessment.lifecycleRef'') (\<lambda>lifecycleRef.
     ebind (uniqueRefs E (fld input ''findingRefs'') ''assessment.findingRefs'') (\<lambda>findingRefs.
     ebind (uniqueRefs E (fld input ''evidenceRefs'') ''assessment.evidenceRefs'') (\<lambda>evidenceRefs.
     ebind (stamped E input) (\<lambda>createdAt.
     let v = artifact E ARTIFACT_AUDIT_ASSESSMENT_SCHEMA ''auditAssessmentId''
       (js_text (fld input ''auditAssessmentId'') (stableId E ''wm_artifact_audit_assessment'' (JObj [
          (''assignmentRef'', assignmentRef), (''artifactRevisionRef'', artifactRevisionRef),
          (''requirementId'', JStr requirementId), (''verdict'', JStr verdict),
          (''evidenceRefs'', fld input ''evidenceRefs'')])))
       [(''lifecycleRef'', lifecycleRef),
        (''artifactRevisionRef'', artifactRevisionRef),
        (''auditAssignmentRef'', assignmentRef),
        (''requirementId'', JStr requirementId),
        (''verdict'', JStr verdict),
        (''findingRefs'', JArr findingRefs),
        (''evidenceRefs'', JArr evidenceRefs),
        (''remandObligations'', strings (stringList (fld input ''remandObligations''))),
        (''rendererSafeSummary'', JStr (bounded (fld input ''rendererSafeSummary'')
           (''Audit '' @ verdict) 600)),
        (''exactRevisionAssessed'', JBool True),
        (''canonical'', JBool False),
        (''canonicalEffect'', JBool False),
        (''createdAt'', createdAt)] in
     ebind (validateAuditAssessment E v) (\<lambda>_. Inr v))))))))"

definition auditAssessmentRef :: "jsenv \<Rightarrow> jval \<Rightarrow> jval \<Rightarrow> jval res" where
  "auditAssessmentRef E v projectId =
     ebind (validateAuditAssessment E v) (\<lambda>_.
     artifactExactRef ''artifact_audit_assessment'' v ''auditAssessmentId'' projectId)"

subsection \<open>Mechanical witness joins\<close>

definition ARTIFACT_MECHANICAL_WITNESS_JOIN_SCHEMA :: string where
  "ARTIFACT_MECHANICAL_WITNESS_JOIN_SCHEMA = ''direct_artifact_mechanical_witness_join@1''"

definition validateMechanicalWitnessJoin :: "jsenv \<Rightarrow> jval \<Rightarrow> bool res" where
  "validateMechanicalWitnessJoin E v =
     ebind (validateArtifact E v ARTIFACT_MECHANICAL_WITNESS_JOIN_SCHEMA ''mechanicalWitnessJoinId''
       ''world_manager_artifact_mechanical_witness_join_invalid'') (\<lambda>_.
     if js_text (fld v ''requirementId'') [] = []
       \<or> \<not> one_of (fld v ''state'') REQUIREMENT_STATES
       \<or> fld v ''state'' = JStr ''inactive''
       \<or> fld v ''mechanicallyAuthored'' \<noteq> JBool True
       \<or> fld v ''semanticTruthClaimed'' \<noteq> JBool False
       \<or> fld v ''canonicalEffect'' \<noteq> JBool False
     then fail ''world_manager_artifact_mechanical_witness_boundary_invalid'' []
     else ebind (if fld v ''state'' = JStr ''supported''
         then ebind (js_length (fld v ''evidenceRefs'')) (\<lambda>n. Inr (\<not> truthy n)) else Inr False)
       (\<lambda>missing.
     if missing then fail ''world_manager_artifact_mechanical_witness_evidence_required'' []
     else ebind (exactRef (fld v ''artifactRevisionRef'') ''mechanicalWitness.artifactRevisionRef'') (\<lambda>_.
     Inr True)))"

interpretation witness_join: sealed_record E "validateMechanicalWitnessJoin E" ARTIFACT_MECHANICAL_WITNESS_JOIN_SCHEMA "''mechanicalWitnessJoinId''" for E
  by unfold_locales (auto simp: validateMechanicalWitnessJoin_def monad)

definition buildMechanicalWitnessJoin :: "jsenv \<Rightarrow> jval \<Rightarrow> jval res" where
  "buildMechanicalWitnessJoin E arg =
     ebind (defaulted arg) (\<lambda>input.
     let state = js_text (fld input ''state'') ''pending'' in
     if state \<notin> set REQUIREMENT_STATES \<or> state = ''inactive''
     then fail ''world_manager_artifact_mechanical_witness_state_invalid'' state
     else
     ebind (exactRef (fld input ''artifactRevisionRef'') ''mechanicalWitness.artifactRevisionRef'')
       (\<lambda>artifactRevisionRef.
     let requirementId = js_text (fld input ''requirementId'') [] in
     if requirementId = []
     then fail ''world_manager_artifact_mechanical_witness_requirement_required'' []
     else
     ebind (exactRef (fld input ''lifecycleRef'') ''mechanicalWitness.lifecycleRef'') (\<lambda>lifecycleRef.
     ebind (uniqueRefs E (fld input ''evidenceRefs'') ''mechanicalWitness.evidenceRefs'') (\<lambda>evidenceRefs.
     ebind (optionalRef (fld input ''freshnessWitnessRef'') ''freshnessWitnessRef'') (\<lambda>freshnessWitnessRef.
     ebind (stamped E input) (\<lambda>createdAt.
     let v = artifact E ARTIFACT_MECHANICAL_WITNESS_JOIN_SCHEMA ''mechanicalWitnessJoinId''
       (js_text (fld input ''mechanicalWitnessJoinId'') (stableId E ''wm_artifact_mechanical_join'' (JObj [
          (''artifactRevisionRef'', artifactRevisionRef), (''requirementId'', JStr requirementId),
          (''state'', JStr state), (''evidenceRefs'', fld input ''evidenceRefs'')])))
       [(''lifecycleRef'', lifecycleRef),
        (''artifactRevisionRef'', artifactRevisionRef),
        (''requirementId'', JStr requirementId),
        (''state'', JStr state),
        (''evidenceRefs'', JArr evidenceRefs),
        (''freshnessWitnessRef'', freshnessWitnessRef),
        (''mechanicallyAuthored'', JBool True),
        (''semanticTruthClaimed'', JBool False),
        (''canonicalEffect'', JBool False),
        (''createdAt'', createdAt)] in
     ebind (validateMechanicalWitnessJoin E v) (\<lambda>_. Inr v)))))))"

definition mechanicalWitnessJoinRef :: "jsenv \<Rightarrow> jval \<Rightarrow> jval \<Rightarrow> jval res" where
  "mechanicalWitnessJoinRef E v projectId =
     ebind (validateMechanicalWitnessJoin E v) (\<lambda>_.
     artifactExactRef ''artifact_mechanical_witness_join'' v ''mechanicalWitnessJoinId'' projectId)"

subsection \<open>Audit invalidations\<close>

definition ARTIFACT_AUDIT_INVALIDATION_SCHEMA :: string where
  "ARTIFACT_AUDIT_INVALIDATION_SCHEMA = ''direct_artifact_audit_invalidation@1''"

definition buildAuditInvalidation :: "jsenv \<Rightarrow> jval \<Rightarrow> jval res" where
  "buildAuditInvalidation E arg =
     ebind (defaulted arg) (\<lambda>input.
     ebind (exactRef (fld input ''auditAssessmentRef'') ''auditAssessmentRef'') (\<lambda>assessmentRef.
     ebind (exactRef (fld input ''previousArtifactRevisionRef'') ''previousArtifactRevisionRef'')
       (\<lambda>previousRevisionRef.
     ebind (exactRef (fld input ''currentArtifactRevisionRef'') ''currentArtifactRevisionRef'')
       (\<lambda>currentRevisionRef.
     if exactRefMatches previousRevisionRef currentRevisionRef
     then fail ''world_manager_artifact_audit_invalidation_same_revision'' []
     else ebind (stamped E input) (\<lambda>createdAt.
     Inr (artifact E ARTIFACT_AUDIT_INVALIDATION_SCHEMA ''auditInvalidationId''
       (js_text (fld input ''auditInvalidationId'') (stableId E ''wm_artifact_audit_invalidation'' (JObj [
          (''assessmentRef'', assessmentRef), (''previousRevisionRef'', previousRevisionRef),
          (''currentRevisionRef'', currentRevisionRef)])))
       [(''auditAssessmentRef'', assessmentRef),
        (''previousArtifactRevisionRef'', previousRevisionRef),
        (''currentArtifactRevisionRef'', currentRevisionRef),
        (''reason'', JStr ''artifact_revision_changed''),
        (''priorAssessmentStanding'', JStr ''stale''),
        (''canonicalEffect'', JBool False),
        (''createdAt'', createdAt)]))))))"

subsection \<open>Remand obligations\<close>

definition ARTIFACT_REMAND_OBLIGATION_SCHEMA :: string where
  "ARTIFACT_REMAND_OBLIGATION_SCHEMA = ''direct_artifact_remand_obligation@1''"

definition buildRemandObligation :: "jsenv \<Rightarrow> jval \<Rightarrow> jval res" where
  "buildRemandObligation E arg =
     ebind (defaulted arg) (\<lambda>input.
     ebind (exactRef (fld input ''artifactRevisionRef'') ''remand.artifactRevisionRef'')
       (\<lambda>artifactRevisionRef.
     let obligationText = bounded (fld input ''obligation'') [] 800 in
     if obligationText = []
     then fail ''world_manager_artifact_remand_obligation_required'' []
     else
     ebind (exactRef (fld input ''lifecycleRef'') ''remand.lifecycleRef'') (\<lambda>lifecycleRef.
     ebind (exactRef (fld input ''sourceAssessmentRef'') ''remand.sourceAssessmentRef'')
       (\<lambda>sourceAssessmentRef.
     ebind (stamped E input) (\<lambda>createdAt.
     Inr (artifact E ARTIFACT_REMAND_OBLIGATION_SCHEMA ''remandObligationId''
       (js_text (fld input ''remandObligationId'') (stableId E ''wm_artifact_remand_obligation'' (JObj [
          (''artifactRevisionRef'', artifactRevisionRef),
          (''sourceAssessmentRef'', fld input ''sourceAssessmentRef''),
          (''obligationText'', JStr obligationText)])))
       [(''lifecycleRef'', lifecycleRef),
        (''artifactRevisionRef'', artifactRevisionRef),
        (''sourceAssessmentRef'', sourceAssessmentRef),
        (''obligation'', JStr obligationText),
        (''obligationClass'', JStr (js_text (fld input ''obligationClass'') ''revision_required'')),
        (''blocking'', JBool (fld input ''blocking'' \<noteq> JBool False)),
        (''state'', JStr ''open''),
        (''canonicalEffect'', JBool False),
        (''createdAt'', createdAt)]))))))"

subsection \<open>Compatibility receipts\<close>

definition ARTIFACT_LIFECYCLE_COMPATIBILITY_ADAPTER_SCHEMA :: string where
  "ARTIFACT_LIFECYCLE_COMPATIBILITY_ADAPTER_SCHEMA = ''direct_artifact_lifecycle_compatibility_adapter@1''"

definition COMPATIBILITY_SOURCE_KINDS :: "string list" where
  "COMPATIBILITY_SOURCE_KINDS = [''direct_meta_orchestrator_shadow'', ''world_manager_sc8'']"

definition buildCompatibilityAdapterReceipt :: "jsenv \<Rightarrow> jval \<Rightarrow> jval res" where
  "buildCompatibilityAdapterReceipt E arg =
     ebind (defaulted arg) (\<lambda>input.
     let sourceKind = js_text (fld input ''sourceKind'') [] in
     if sourceKind \<notin> set COMPATIBILITY_SOURCE_KINDS
     then fail ''world_manager_artifact_compatibility_source_invalid'' sourceKind
     else
     ebind (uniqueRefs E (fld input ''sourceRefs'') ''compatibility.sourceRefs'') (\<lambda>sourceRefs.
     if sourceRefs = []
     then fail ''world_manager_artifact_compatibility_source_required'' []
     else
     ebind (exactRef (fld input ''lifecycleRef'') ''compatibility.lifecycleRef'') (\<lambda>lifecycleRef.
     ebind (optionalRef (fld input ''artifactRevisionRef'') ''compatibility.artifactRevisionRef'')
       (\<lambda>artifactRevisionRef.
     ebind (stamped E input) (\<lambda>createdAt.
     Inr (artifact E ARTIFACT_LIFECYCLE_COMPATIBILITY_ADAPTER_SCHEMA ''compatibilityAdapterId''
       (js_text (fld input ''compatibilityAdapterId'') (stableId E ''wm_artifact_compatibility_adapter''
          (JObj [(''sourceKind'', JStr sourceKind), (''sourceRefs'', JArr sourceRefs),
            (''lifecycleRef'', fld input ''lifecycleRef''),
            (''artifactRevisionRef'', fld input ''artifactRevisionRef'')])))
       [(''sourceKind'', JStr sourceKind),
        (''sourceRefs'', JArr sourceRefs),
        (''lifecycleRef'', lifecycleRef),
        (''artifactRevisionRef'', artifactRevisionRef),
        (''sourceBodyCopied'', JBool False),
        (''sourceClaimUpgraded'', JBool False),
        (''canonicalEffect'', JBool False),
        (''rendererSafeSummary'', JStr (bounded (fld input ''rendererSafeSummary'')
           ''Registered legacy artifact by exact reference.'' 420)),
        (''createdAt'', createdAt)]))))))"

lemma buildProducerAssignment_valid:
  "buildProducerAssignment E input = Inr v \<Longrightarrow> validateProducerAssignment E v = Inr True"
  unfolding buildProducerAssignment_def
  by (elim run_elims, drule producer_assignment.validated, hypsubst_thin, assumption)

lemma buildProducerAssignment_Inr:
  assumes "buildProducerAssignment E input = Inr v"
  shows "exactRef (fld input ''producerAgentRef'') ''producerAgentRef'' = Inr (fld v ''producerAgentRef'')
    \<and> exactRef (fld input ''eligibilityRef'') ''producer.eligibilityRef'' = Inr (fld v ''eligibilityRef'')
    \<and> fld v ''lifecycleId'' = JStr (js_text (fld input ''lifecycleId'') [])
    \<and> fld v ''producerRole'' = JStr (js_text (fld input ''producerRole'') [])
    \<and> fld v ''assignmentPosture'' = JStr ''candidate'' \<and> fld v ''providerLaunchAuthorized'' = JBool False
    \<and> isPlainObject v"
  using assms unfolding buildProducerAssignment_def ebind_defaulted fld_dflt
  apply (elim run_elims)
  apply hypsubst_thin
  apply (simp (no_asm_simp) add: fld_artifact)
  done

lemma buildArtifactRevision_valid:
  "buildArtifactRevision E input = Inr v \<Longrightarrow> validateArtifactRevision E v = Inr True"
  unfolding buildArtifactRevision_def
  by (elim run_elims, drule artifact_revision.validated, hypsubst_thin, assumption)

lemma buildArtifactRevision_Inr:
  assumes "buildArtifactRevision E input = Inr v"
  shows "fld v ''revision'' = JNum (to_number E (js_or (fld input ''revision'') (num 1)))
    \<and> fld v ''lifecycleId'' = JStr (js_text (fld input ''lifecycleId'') [])
    \<and> optionalRef (fld input ''predecessorRef'') ''revision.predecessorRef'' = Inr (fld v ''predecessorRef'')
    \<and> exactRef (fld input ''artifactContentRef'') ''artifactContentRef'' = Inr (fld v ''artifactContentRef'')
    \<and> exactRef (fld input ''producerAssignmentRef'') ''revision.producerAssignmentRef'' = Inr (fld v ''producerAssignmentRef'')
    \<and> fld v ''settledProperties'' = (if isPlainObject (fld input ''settledProperties'')
         then stableValue [] (fld input ''settledProperties'') else JObj [])
    \<and> isPlainObject v"
  using assms unfolding buildArtifactRevision_def ebind_defaulted fld_dflt
  apply (elim run_elims)
  apply hypsubst_thin
  apply (simp (no_asm_simp) add: fld_artifact)
  done

lemma validateArtifactRevision_Inr:
  assumes "validateArtifactRevision E v = Inr b"
  shows "\<exists>i\<ge>1. fld v ''revision'' = num i" "isPlainObject v"
    "strict_eq (fld v ''revision'') (num 1) \<noteq> truthy (fld v ''predecessorRef'')"
proof -
  have "isInteger (fld v ''revision'')" "\<not> js_less E (fld v ''revision'') 1"
    using assms unfolding validateArtifactRevision_def by (auto simp: monad)
  then show "\<exists>i\<ge>1. fld v ''revision'' = num i" by (auto dest!: isIntegerE)
  show "isPlainObject v" "strict_eq (fld v ''revision'') (num 1) \<noteq> truthy (fld v ''predecessorRef'')"
    using assms unfolding validateArtifactRevision_def by (auto simp: monad)
qed

lemma artifactRevisionRefFor_Inr:
  assumes "artifactRevisionRefFor E v = Inr r"
  shows "truthy r" "exactRef r l = Inr r" "validateArtifactRevision E v = Inr True"
  using assms unfolding artifactRevisionRefFor_def
  by (auto simp: monad dest: artifactExactRef_truthy artifactExactRef_again artifact_revision.validated)

lemma producerAssignmentRef_Inr:
  assumes "producerAssignmentRef E v p = Inr r"
  shows "truthy r" "exactRef r l = Inr r" "validateProducerAssignment E v = Inr True"
  using assms unfolding producerAssignmentRef_def
  by (auto simp: monad dest: artifactExactRef_truthy artifactExactRef_again producer_assignment.validated)

lemma auditAssessmentRef_Inr:
  assumes "auditAssessmentRef E v p = Inr r"
  shows "truthy r" "exactRef r l = Inr r" "validateAuditAssessment E v = Inr True"
  using assms unfolding auditAssessmentRef_def
  by (auto simp: monad dest: artifactExactRef_truthy artifactExactRef_again audit_assessment.validated)

lemma buildAuditAssignment_valid:
  "buildAuditAssignment E input = Inr v \<Longrightarrow> validateAuditAssignment E v = Inr True"
  unfolding buildAuditAssignment_def
  by (elim run_elims, drule audit_assignment.validated, hypsubst_thin, assumption)

lemma buildAuditAssignment_Inr:
  assumes "buildAuditAssignment E input = Inr v"
  shows "exactRef (fld input ''artifactRevisionRef'') ''auditAssignment.artifactRevisionRef'' = Inr (fld v ''artifactRevisionRef'')
    \<and> exactRef (fld input ''auditorAgentRef'') ''auditorAgentRef'' = Inr (fld v ''auditorAgentRef'')
    \<and> fld v ''requirementId'' = JStr (js_text (fld input ''requirementId'') [])
    \<and> fld v ''lifecycleId'' = JStr (js_text (fld input ''lifecycleId'') [])
    \<and> fld v ''auditorRole'' = JStr (js_text (fld input ''auditorRole'') [])
    \<and> fld v ''boundedCapabilityNames'' = strings (stringList (fld input ''boundedCapabilityNames''))
    \<and> fld v ''providerLaunchAuthorized'' = JBool False \<and> isPlainObject v"
  using assms unfolding buildAuditAssignment_def ebind_defaulted fld_dflt
  apply (elim run_elims)
  apply hypsubst_thin
  apply (simp (no_asm_simp) add: fld_artifact)
  done

lemma buildAuditInvalidation_Inr:
  assumes "buildAuditInvalidation E input = Inr v"
  shows "exactRef (fld input ''auditAssessmentRef'') ''auditAssessmentRef'' = Inr (fld v ''auditAssessmentRef'')
    \<and> exactRef (fld input ''previousArtifactRevisionRef'') ''previousArtifactRevisionRef'' = Inr (fld v ''previousArtifactRevisionRef'')
    \<and> exactRef (fld input ''currentArtifactRevisionRef'') ''currentArtifactRevisionRef'' = Inr (fld v ''currentArtifactRevisionRef'')
    \<and> \<not> exactRefMatches (fld v ''previousArtifactRevisionRef'') (fld v ''currentArtifactRevisionRef'')
    \<and> fld v ''priorAssessmentStanding'' = JStr ''stale''"
  using assms unfolding buildAuditInvalidation_def ebind_defaulted fld_dflt
  apply (elim run_elims)
  apply hypsubst_thin
  apply (simp (no_asm_simp) add: fld_artifact)
  done

lemma buildRemandObligation_Inr:
  assumes "buildRemandObligation E input = Inr v"
  shows "exactRef (fld input ''artifactRevisionRef'') ''remand.artifactRevisionRef'' = Inr (fld v ''artifactRevisionRef'')
    \<and> exactRef (fld input ''sourceAssessmentRef'') ''remand.sourceAssessmentRef'' = Inr (fld v ''sourceAssessmentRef'')
    \<and> fld v ''obligation'' = JStr (bounded (fld input ''obligation'') [] 800)
    \<and> bounded (fld input ''obligation'') [] 800 \<noteq> []
    \<and> fld v ''blocking'' = JBool (fld input ''blocking'' \<noteq> JBool False) \<and> fld v ''state'' = JStr ''open''"
  using assms unfolding buildRemandObligation_def ebind_defaulted fld_dflt
  apply (elim run_elims)
  apply hypsubst_thin
  apply (simp (no_asm_simp) add: fld_artifact)
  done

end
