(* ===== verification/RevisionChains.thy ===== *)
theory RevisionChains
  imports ArtifactRefs
begin

section \<open>The contract of a revision chain\<close>

text \<open>
  Lifecycle instances, assurance graphs and abstract reasoning objects are all immutable: a
  change makes a new revision that names its predecessor. This interface states what one such
  step promises, and derives what then holds along every chain of steps: the revision number
  counts the steps, no revision comes back, the identity of the chain is kept, and every
  revision but the first one names the one before.
\<close>

locale revision_chain =
  fixes step :: "jval \<Rightarrow> jval \<Rightarrow> bool" and number :: "jval \<Rightarrow> int"
    and lineage :: "jval \<Rightarrow> jval \<Rightarrow> bool" and predecessor :: "jval \<Rightarrow> jval \<Rightarrow> bool"
  assumes step_number: "step v w \<Longrightarrow> number w = number v + 1"
    and number_positive: "step v w \<Longrightarrow> 1 \<le> number v"
    and step_lineage: "step v w \<Longrightarrow> lineage v w"
    and lineage_trans: "lineage u v \<Longrightarrow> lineage v w \<Longrightarrow> lineage u w"
    and step_predecessor: "step v w \<Longrightarrow> predecessor v w"
begin

lemma chain_number: "(step ^^ n) v w \<Longrightarrow> number w = number v + int n"
  by (induction n arbitrary: w) (auto dest: step_number)

lemma chain_increases: "step\<^sup>+\<^sup>+ v w \<Longrightarrow> number v < number w"
  by (induction rule: tranclp_induct) (auto dest: step_number)

lemma no_cycle: "\<not> step\<^sup>+\<^sup>+ v v"
  using chain_increases [of v v] by auto

lemma chain_lineage: "step\<^sup>+\<^sup>+ v w \<Longrightarrow> lineage v w"
  by (induction rule: tranclp_induct) (auto intro: step_lineage lineage_trans)

lemma chain_predecessor:
  assumes "step\<^sup>+\<^sup>+ v w"
  obtains u where "step\<^sup>*\<^sup>* v u" "predecessor u w" "number w = number u + 1"
  using assms by (metis step_number step_predecessor tranclpD tranclp.cases tranclp_into_rtranclp rtranclp.rtrancl_refl)

lemma chain_length: "(step ^^ n) v w \<Longrightarrow> 0 < n \<Longrightarrow> int n < number w"
proof -
  assume c: "(step ^^ n) v w" "0 < n"
  then obtain m u where "n = Suc m" "step v u" "(step ^^ m) u w"
    by (metis gr0_implies_Suc relpowp_Suc_D2)
  with number_positive [of v u] chain_number [OF c(1)] show ?thesis by simp
qed

end

definition revision_number :: "string \<Rightarrow> jval \<Rightarrow> int" where
  "revision_number k v = (case fld v k of JNum (Fin r) \<Rightarrow> \<lfloor>r\<rfloor> | _ \<Rightarrow> 0)"

lemma revision_number_num: "fld v k = num i \<Longrightarrow> revision_number k v = i"
  by (simp add: revision_number_def num_def)

end
