(* ===== verification/AssuranceGraph.thy ===== *)
theory AssuranceGraph
  imports Constitution ArtifactRecords RevisionChains
begin

section \<open>Assurance graphs\<close>

text \<open>
  \<open>buildAssuranceGraph\<close>, \<open>validateAssuranceGraph\<close>, \<open>reviseAssuranceGraph\<close> and
  \<open>assuranceGraphRef\<close> (\<^verbatim>\<open>src/main/direct/worldmanager/artifact-lifecycle-kernel.js\<close>). A graph
  has one node per requirement of the constitution; a conditional requirement is active when its
  rule was activated by the settled properties. A revision of the graph may only change node
  states and the join state.
\<close>

definition ARTIFACT_ASSURANCE_GRAPH_SCHEMA :: string where
  "ARTIFACT_ASSURANCE_GRAPH_SCHEMA = ''direct_artifact_assurance_graph@1''"

definition join_states :: "string list" where
  "join_states = [''awaiting_revision'', ''pending'', ''supported'', ''blocked'', ''remanded'']"

definition validateAssuranceNode :: "jsenv \<Rightarrow> jval \<Rightarrow> jval \<Rightarrow> bool res" where
  \<comment> \<open>the body of the loop over \<open>value.nodes\<close>\<close>
  "validateAssuranceNode E graphRevisionRef node =
     ebind (getp node ''nodeId'') (\<lambda>nodeId.
     if js_text nodeId [] = []
       \<or> \<not> one_of (fld node ''requirementKind'') REQUIREMENT_KINDS
       \<or> \<not> one_of (fld node ''state'') REQUIREMENT_STATES
       \<or> fld node ''active'' \<noteq> JBool (fld node ''state'' \<noteq> JStr ''inactive'')
     then fail ''world_manager_artifact_assurance_node_invalid'' (detail_text E nodeId)
     else if truthy graphRevisionRef
       \<and> \<not> exactRefMatches (fld node ''artifactRevisionRef'') graphRevisionRef
     then fail ''world_manager_artifact_assurance_node_revision_mismatch'' (detail_text E nodeId)
     else Inr True)"

definition validateAssuranceGraph :: "jsenv \<Rightarrow> jval \<Rightarrow> bool res" where
  "validateAssuranceGraph E v =
     ebind (validateArtifact E v ARTIFACT_ASSURANCE_GRAPH_SCHEMA ''assuranceGraphId''
       ''world_manager_artifact_assurance_graph_invalid'') (\<lambda>_.
     if js_text (fld v ''lifecycleId'') [] = []
       \<or> \<not> isInteger (fld v ''graphRevision'')
       \<or> js_less E (fld v ''graphRevision'') 1
       \<or> strict_eq (fld v ''graphRevision'') (num 1) = truthy (fld v ''predecessorRef'')
       \<or> fld v ''rootPolicyApplied'' \<noteq> JBool True
       \<or> fld v ''cycleFree'' \<noteq> JBool True
       \<or> fld v ''canonicalEffect'' \<noteq> JBool False
       \<or> \<not> one_of (fld v ''joinState'') join_states
     then fail ''world_manager_artifact_assurance_graph_boundary_invalid'' []
     else ebind (iter_elems (fld v ''nodes'')) (\<lambda>nodes.
     ebind (eforeach (validateAssuranceNode E (fld v ''artifactRevisionRef'')) nodes) (\<lambda>_.
     ebind (method_elems (fld v ''nodes'')) (\<lambda>nodes.
     ebind (emap (\<lambda>node. getp node ''requirement'') nodes) (\<lambda>requirements.
     ebind (assertAcyclicRequirements E requirements) (\<lambda>_.
     Inr True))))))"

interpretation assurance_graph: sealed_record E "validateAssuranceGraph E" ARTIFACT_ASSURANCE_GRAPH_SCHEMA "''assuranceGraphId''" for E
  by unfold_locales (auto simp: validateAssuranceGraph_def monad)

definition assuranceGraphRef :: "jsenv \<Rightarrow> jval \<Rightarrow> jval \<Rightarrow> jval res" where
  "assuranceGraphRef E v projectId =
     ebind (validateAssuranceGraph E v) (\<lambda>_.
     artifactExactRef ''artifact_assurance_graph'' v ''assuranceGraphId'' projectId)"

subsection \<open>Building a graph\<close>

definition ruleActive :: "jval list \<Rightarrow> jval list \<Rightarrow> jval \<Rightarrow> bool" where
  \<comment> \<open>whether a requirement is unconditional or its rule is among the activated ones\<close>
  "ruleActive rules evaluations requirement =
     (case map_of (rev (map (\<lambda>rule. (fld (fld rule ''auditRequirement'') ''requirementId'', rule)) rules))
        (fld requirement ''requirementId'') of
        None \<Rightarrow> True
      | Some rule \<Rightarrow> fld rule ''ruleId'' \<in> set (map (\<lambda>e. fld e ''ruleId'')
          (filter (\<lambda>e. truthy (fld e ''activated'')) evaluations)))"

definition graphNode :: "jval list \<Rightarrow> jval list \<Rightarrow> jval \<Rightarrow> jval \<Rightarrow> jval" where
  "graphNode rules evaluations artifactRevisionRef requirement =
     (let active = ruleActive rules evaluations requirement in JObj [
       (''nodeId'', fld requirement ''requirementId''),
       (''requirementKind'', fld requirement ''requirementKind''),
       (''required'', fld requirement ''required''),
       (''active'', JBool active),
       (''state'', JStr (if active then ''pending'' else ''inactive'')),
       (''dependencyNodeIds'', fld requirement ''dependencyRequirementIds''),
       (''artifactRevisionRef'', artifactRevisionRef),
       (''requirement'', requirement)])"

definition graphEdges :: "jval list \<Rightarrow> jval list res" where
  "graphEdges nodes =
     ebind (emap (\<lambda>node. ebind (method_elems (fld node ''dependencyNodeIds'')) (\<lambda>deps.
       Inr (map (\<lambda>dependencyNodeId. JObj [(''fromNodeId'', dependencyNodeId),
         (''toNodeId'', fld node ''nodeId'')]) deps))) nodes) (\<lambda>edges. Inr (concat edges))"

definition buildAssuranceGraph :: "jsenv \<Rightarrow> jval \<Rightarrow> jval res" where
  "buildAssuranceGraph E arg =
     ebind (defaulted arg) (\<lambda>input.
     let constitution = fld input ''constitution'' in
     ebind (validateArtifactTypeConstitution E constitution) (\<lambda>_.
     let lifecycleId = js_text (fld input ''lifecycleId'') [] in
     if lifecycleId = []
     then fail ''world_manager_artifact_assurance_graph_lifecycle_required'' []
     else
     ebind (if truthy (fld input ''artifactRevision'')
         then artifactRevisionRefFor E (fld input ''artifactRevision'')
         else optionalRef (fld input ''artifactRevisionRef'') ''artifactRevisionRef'')
       (\<lambda>artifactRevisionRef.
     ebind (method_elems (fld constitution ''conditionalAuditRules'')) (\<lambda>rules.
     ebind (emap (\<lambda>rule. evaluateConditionalAuditRule E rule
         (js_or (fld input ''settledProperties'') (JObj []))) rules) (\<lambda>conditionalEvaluations.
     ebind (allRequirements constitution) (\<lambda>requirements.
     let nodes = map (graphNode rules conditionalEvaluations artifactRevisionRef) requirements;
         graphRevision = JNum (to_number E (js_or (fld input ''graphRevision'') (num 1))) in
     ebind (assertAcyclicRequirements E (map (\<lambda>node. fld node ''requirement'') nodes)) (\<lambda>_.
     ebind (artifactTypeConstitutionRef E constitution) (\<lambda>constitutionRef.
     ebind (optionalRef (fld input ''predecessorRef'') ''assuranceGraph.predecessorRef'') (\<lambda>predecessorRef.
     ebind (graphEdges nodes) (\<lambda>edges.
     ebind (stamped E input) (\<lambda>createdAt.
     let graph = artifact E ARTIFACT_ASSURANCE_GRAPH_SCHEMA ''assuranceGraphId''
       (js_text (fld input ''assuranceGraphId'') (stableId E ''wm_artifact_assurance_graph'' (JObj [
          (''lifecycleId'', JStr lifecycleId), (''graphRevision'', graphRevision),
          (''constitutionRef'', constitutionRef), (''artifactRevisionRef'', artifactRevisionRef),
          (''conditionalEvaluations'', JArr conditionalEvaluations)])))
       [(''lifecycleId'', JStr lifecycleId),
        (''graphRevision'', graphRevision),
        (''predecessorRef'', predecessorRef),
        (''artifactTypeConstitutionRef'', constitutionRef),
        (''artifactRevisionRef'', artifactRevisionRef),
        (''nodes'', JArr nodes),
        (''edges'', JArr edges),
        (''conditionalEvaluations'', JArr conditionalEvaluations),
        (''assuranceRootPolicyRef'', fld constitution ''assuranceRootPolicyRef''),
        (''assuranceRoots'', fld constitution ''assuranceRoots''),
        (''rootPolicyApplied'', JBool True),
        (''cycleFree'', JBool True),
        (''joinState'', JStr (if truthy artifactRevisionRef then ''pending'' else ''awaiting_revision'')),
        (''canonicalEffect'', JBool False),
        (''createdAt'', createdAt)] in
     ebind (validateAssuranceGraph E graph) (\<lambda>_. Inr graph))))))))))))"

subsection \<open>Revising a graph\<close>

definition object_entries :: "jval \<Rightarrow> (string \<times> jval) list" where
  \<comment> \<open>\<open>Object.entries(v)\<close>\<close>
  "object_entries v = (case v of JObj fs \<Rightarrow> own_entries fs
     | JArr vs \<Rightarrow> zip (map nat_text [0..<length vs]) vs
     | JStr s \<Rightarrow> zip (map nat_text [0..<length s]) (map (\<lambda>c. JStr [c]) s)
     | _ \<Rightarrow> [])"

definition reviseNode :: "jsenv \<Rightarrow> (string \<times> jval) list \<Rightarrow> jval \<Rightarrow> jval res" where
  "reviseNode E allowedNodeStates node =
     ebind (getp node ''nodeId'') (\<lambda>nodeId.
     let state = (case map_of (map (\<lambda>(k, s). (JStr k, s)) allowedNodeStates) nodeId of
           Some s \<Rightarrow> JStr (js_text s []) | None \<Rightarrow> fld node ''state'') in
     if \<not> one_of state REQUIREMENT_STATES
     then fail ''world_manager_artifact_assurance_node_state_invalid''
       (js_string E nodeId @ '':'' @ js_string E state)
     else if \<not> truthy (fld node ''active'') \<and> state \<noteq> JStr ''inactive''
     then fail ''world_manager_artifact_assurance_inactive_node_transition'' (detail_text E nodeId)
     else Inr (set_fld ''state'' state node))"

definition reviseAssuranceGraph :: "jsenv \<Rightarrow> jval \<Rightarrow> jval \<Rightarrow> jval res" where
  "reviseAssuranceGraph E previous arg =
     ebind (validateAssuranceGraph E previous) (\<lambda>_.
     ebind (defaulted arg) (\<lambda>input.
     let previousBody = filter (\<lambda>(k, x). k \<noteq> ''assuranceGraphId'' \<and> k \<noteq> ''digest'') (fields previous);
         allowedNodeStates = object_entries (js_or (fld input ''nodeStates'') (JObj [])) in
     ebind (method_elems (fld previous ''nodes'')) (\<lambda>previousNodes.
     ebind (emap (reviseNode E allowedNodeStates) previousNodes) (\<lambda>nodes.
     ebind (eforeach (\<lambda>(nodeId, s).
         if list_ex (\<lambda>node. strict_eq (fld node ''nodeId'') (JStr nodeId)) nodes then Inr True
         else fail ''world_manager_artifact_assurance_node_unknown'' nodeId) allowedNodeStates) (\<lambda>_.
     let joinState = js_text (fld input ''joinState'') (raw_string (fld previous ''joinState'')) in
     if joinState \<notin> set join_states
     then fail ''world_manager_artifact_assurance_join_state_invalid'' joinState
     else
     ebind (assuranceGraphRef E previous JUndef) (\<lambda>predecessorRef.
     ebind (stamped E input) (\<lambda>createdAt.
     let graphRevision = js_plus1 E (fld previous ''graphRevision'');
         graph = artifact E ARTIFACT_ASSURANCE_GRAPH_SCHEMA ''assuranceGraphId''
       (js_text (fld input ''assuranceGraphId'') (stableId E ''wm_artifact_assurance_graph'' (JObj [
          (''lifecycleId'', fld previous ''lifecycleId''),
          (''graphRevision'', graphRevision),
          (''predecessorRef'', predecessorRef),
          (''nodeStates'', JObj (assign_all []
             (map (\<lambda>node. (js_string E (fld node ''nodeId''), fld node ''state'')) nodes))),
          (''joinState'', JStr joinState)])))
       (previousBody @
        [(''graphRevision'', graphRevision),
         (''predecessorRef'', predecessorRef),
         (''nodes'', JArr nodes),
         (''joinState'', JStr joinState),
         (''canonicalEffect'', JBool False),
         (''createdAt'', createdAt)]) in
     ebind (validateAssuranceGraph E graph) (\<lambda>_. Inr graph))))))))"

subsection \<open>What a validated graph guarantees\<close>

lemma validateAssuranceNode_Inr:
  assumes "validateAssuranceNode E ref node = Inr b"
  shows "\<not> nullish node" "js_text (fld node ''nodeId'') [] \<noteq> []"
    "one_of (fld node ''requirementKind'') REQUIREMENT_KINDS" "one_of (fld node ''state'') REQUIREMENT_STATES"
    "fld node ''active'' = JBool (fld node ''state'' \<noteq> JStr ''inactive'')"
    "truthy ref \<Longrightarrow> exactRefMatches (fld node ''artifactRevisionRef'') ref"
  using assms unfolding validateAssuranceNode_def by (auto simp: monad)

lemma validateAssuranceGraph_Inr:
  assumes "validateAssuranceGraph E v = Inr b"
  shows "isPlainObject v" "js_text (fld v ''lifecycleId'') [] \<noteq> []" "isInteger (fld v ''graphRevision'')"
    "\<not> js_less E (fld v ''graphRevision'') 1" "one_of (fld v ''joinState'') join_states"
    "strict_eq (fld v ''graphRevision'') (num 1) \<noteq> truthy (fld v ''predecessorRef'')"
    "fld v ''canonicalEffect'' = JBool False"
    and "\<exists>nodes requirements. fld v ''nodes'' = JArr nodes
      \<and> (\<forall>node\<in>set nodes. \<exists>b. validateAssuranceNode E (fld v ''artifactRevisionRef'') node = Inr b)
      \<and> emap (\<lambda>node. getp node ''requirement'') nodes = Inr requirements
      \<and> assertAcyclicRequirements E requirements = Inr True"
proof -
  show "isPlainObject v" "js_text (fld v ''lifecycleId'') [] \<noteq> []" "isInteger (fld v ''graphRevision'')"
    "\<not> js_less E (fld v ''graphRevision'') 1" "one_of (fld v ''joinState'') join_states"
    "strict_eq (fld v ''graphRevision'') (num 1) \<noteq> truthy (fld v ''predecessorRef'')"
    "fld v ''canonicalEffect'' = JBool False"
    using assms unfolding validateAssuranceGraph_def by (auto simp: monad)
  from assms obtain nodes nodes' requirements c where
    "iter_elems (fld v ''nodes'') = Inr nodes" "fld v ''nodes'' = JArr nodes'"
    "\<forall>node\<in>set nodes. \<exists>b. validateAssuranceNode E (fld v ''artifactRevisionRef'') node = Inr b"
    "emap (\<lambda>node. getp node ''requirement'') nodes' = Inr requirements"
    "assertAcyclicRequirements E requirements = Inr c"
    unfolding validateAssuranceGraph_def
    by (elim run_elims) (auto simp only: method_elems_Inr_iff eforeach_Inr_iff)
  moreover from this have c by (simp add: assertAcyclicRequirements_iff)
  ultimately show "\<exists>nodes requirements. fld v ''nodes'' = JArr nodes
      \<and> (\<forall>node\<in>set nodes. \<exists>b. validateAssuranceNode E (fld v ''artifactRevisionRef'') node = Inr b)
      \<and> emap (\<lambda>node. getp node ''requirement'') nodes = Inr requirements
      \<and> assertAcyclicRequirements E requirements = Inr True"
    by auto
qed

lemma assuranceGraphRef_Inr:
  assumes "assuranceGraphRef E v p = Inr r"
  shows "truthy r" "exactRef r l = Inr r" "validateAssuranceGraph E v = Inr True"
  using assms unfolding assuranceGraphRef_def
  by (auto simp: monad dest: artifactExactRef_truthy artifactExactRef_again assurance_graph.validated)

subsection \<open>What a revision of a graph may change\<close>

lemma reviseNode_Inr:
  assumes "reviseNode E states node = Inr n"
  shows "\<exists>s. n = set_fld ''state'' s node \<and> one_of s REQUIREMENT_STATES
    \<and> (\<not> truthy (fld node ''active'') \<longrightarrow> s = JStr ''inactive'')"
  using assms unfolding reviseNode_def Let_def by (elim run_elims) auto

lemma reviseAssuranceGraph_Inr:
  assumes "reviseAssuranceGraph E previous input = Inr g"
  shows "validateAssuranceGraph E previous = Inr True \<and> validateAssuranceGraph E g = Inr True
    \<and> (\<exists>nodes. emap (reviseNode E (object_entries (js_or (fld input ''nodeStates'') (JObj []))))
          (elems (fld previous ''nodes'')) = Inr nodes \<and> fld g ''nodes'' = JArr nodes)
    \<and> (\<exists>i \<ge> 1. fld previous ''graphRevision'' = num i \<and> fld g ''graphRevision'' = num (i + 1))
    \<and> assuranceGraphRef E previous JUndef = Inr (fld g ''predecessorRef'')
    \<and> fld g ''joinState'' = JStr (js_text (fld input ''joinState'') (raw_string (fld previous ''joinState'')))
    \<and> fld g ''canonicalEffect'' = JBool False"
proof -
  have inv: "validateAssuranceGraph E previous = Inr True \<and> validateAssuranceGraph E g = Inr True
    \<and> (\<exists>nodes. emap (reviseNode E (object_entries (js_or (fld input ''nodeStates'') (JObj []))))
          (elems (fld previous ''nodes'')) = Inr nodes \<and> fld g ''nodes'' = JArr nodes)
    \<and> fld g ''graphRevision'' = js_plus1 E (fld previous ''graphRevision'')
    \<and> assuranceGraphRef E previous JUndef = Inr (fld g ''predecessorRef'')
    \<and> fld g ''joinState'' = JStr (js_text (fld input ''joinState'') (raw_string (fld previous ''joinState'')))
    \<and> fld g ''canonicalEffect'' = JBool False"
    using assms unfolding reviseAssuranceGraph_def ebind_defaulted fld_dflt method_elems_Inr_iff
    apply (elim run_elims)
    apply (drule assurance_graph.validated, drule assurance_graph.validated, drule method_elems_InrD)
    apply hypsubst_thin
    apply (simp (no_asm_simp) add: fld_artifact)
    done
  then have p: "validateAssuranceGraph E previous = Inr True" by blast
  from validateAssuranceGraph_Inr(3,4) [OF p] obtain i where "fld previous ''graphRevision'' = num i" "i \<ge> 1"
    by (auto dest!: isIntegerE)
  with inv show ?thesis by auto
qed

definition graph_revised_fields :: "string list" where
  "graph_revised_fields = [''schema'', ''assuranceGraphId'', ''digest'', ''graphRevision'',
     ''predecessorRef'', ''nodes'', ''joinState'', ''canonicalEffect'', ''createdAt'']"

lemma reviseAssuranceGraph_artifact:
  assumes "reviseAssuranceGraph E previous input = Inr g"
  shows "\<exists>ident new. fst ` set new \<subseteq> set graph_revised_fields \<and> g = artifact E ARTIFACT_ASSURANCE_GRAPH_SCHEMA
    ''assuranceGraphId'' ident
    (filter (\<lambda>(k, x). k \<noteq> ''assuranceGraphId'' \<and> k \<noteq> ''digest'') (JsValue.fields previous) @ new)"
  using assms unfolding reviseAssuranceGraph_def ebind_defaulted fld_dflt
  apply (elim run_elims)
  apply hypsubst_thin
  apply (intro exI conjI)
   prefer 2 apply (rule refl)
  apply (simp add: graph_revised_fields_def)
  done

lemma reviseAssuranceGraph_frame:
  assumes "reviseAssuranceGraph E previous input = Inr g" "distinct (map fst (JsValue.fields previous))"
    and k: "k \<notin> set graph_revised_fields"
  shows "fld g k = fld previous k"
proof -
  let ?old = "filter (\<lambda>(k, x). k \<noteq> ''assuranceGraphId'' \<and> k \<noteq> ''digest'') (JsValue.fields previous)"
  obtain ident new where new: "fst ` set new \<subseteq> set graph_revised_fields"
    and g: "g = artifact E ARTIFACT_ASSURANCE_GRAPH_SCHEMA ''assuranceGraphId'' ident (?old @ new)"
    using reviseAssuranceGraph_artifact [OF assms(1)] by blast
  have "map_of (rev new) k = None" using new k by (auto simp: map_of_eq_None_iff)
  moreover have "map_of (rev ?old) k = map_of (JsValue.fields previous) k"
  proof -
    have "distinct (map fst ?old)" using assms(2) by (rule distinct_map_filter)
    then have r: "map_of (rev ?old) = map_of ?old" by (rule map_of_rev_distinct)
    have "map_of ?old k = map_of (JsValue.fields previous) k"
      by (rule map_of_filter_fst) (use k in \<open>simp add: graph_revised_fields_def\<close>)
    then show ?thesis by (simp only: r)
  qed
  ultimately show ?thesis
    using k by (simp add: g fld_artifact graph_revised_fields_def map_add_def fld_def [of previous])
qed

lemma emap_list_all2_nodes:
  "emap f xs = Inr ys \<Longrightarrow> (\<And>x y. x \<in> set xs \<Longrightarrow> f x = Inr y \<Longrightarrow> P x y) \<Longrightarrow> list_all2 P xs ys"
  by (auto simp: monad list_all2_conv_all_nth)

lemma reviseAssuranceGraph_known:
  assumes "reviseAssuranceGraph E previous input = Inr g"
    and "(k, s) \<in> set (object_entries (js_or (fld input ''nodeStates'') (JObj [])))"
  shows "\<exists>n\<in>set (elems (fld g ''nodes'')). fld n ''nodeId'' = JStr k"
proof -
  have "\<exists>nodes b. fld g ''nodes'' = JArr nodes \<and> eforeach (\<lambda>(nodeId, s).
         if list_ex (\<lambda>node. strict_eq (fld node ''nodeId'') (JStr nodeId)) nodes then Inr True
         else fail ''world_manager_artifact_assurance_node_unknown'' nodeId)
       (object_entries (js_or (fld input ''nodeStates'') (JObj []))) = Inr b"
    using assms(1) unfolding reviseAssuranceGraph_def ebind_defaulted fld_dflt
    apply (elim run_elims)
    apply hypsubst_thin
    apply (simp (no_asm_simp) add: fld_artifact del: strict_eq_JStr)
    done
  then obtain nodes b where n: "fld g ''nodes'' = JArr nodes"
    and e: "eforeach (\<lambda>(nodeId, s).
         if list_ex (\<lambda>node. strict_eq (fld node ''nodeId'') (JStr nodeId)) nodes then Inr True
         else fail ''world_manager_artifact_assurance_node_unknown'' nodeId)
       (object_entries (js_or (fld input ''nodeStates'') (JObj []))) = Inr b" by blast
  from e assms(2) have "list_ex (\<lambda>node. strict_eq (fld node ''nodeId'') (JStr k)) nodes"
    by (auto simp: eforeach_Inr_iff split: if_splits)
  then show ?thesis by (auto simp: n list_ex_iff)
qed

lemma reviseNode_state:
  assumes "reviseNode E states node = Inr n"
  shows "fld n ''state'' = (case map_of (map (\<lambda>(k, s). (JStr k, s)) states) (fld node ''nodeId'') of
     Some s \<Rightarrow> JStr (js_text s []) | None \<Rightarrow> fld node ''state'')"
  using assms unfolding reviseNode_def Let_def by (elim run_elims) (auto simp: monad)

lemma reviseAssuranceGraph_nodes:
  assumes "reviseAssuranceGraph E previous input = Inr g"
  shows "\<exists>old new. fld previous ''nodes'' = JArr old \<and> fld g ''nodes'' = JArr new
    \<and> list_all2 (\<lambda>n m. (\<forall>k. k \<noteq> ''state'' \<longrightarrow> fld m k = fld n k)
        \<and> one_of (fld m ''state'') REQUIREMENT_STATES
        \<and> (fld m ''state'' = JStr ''inactive'' \<longleftrightarrow> fld n ''state'' = JStr ''inactive'')) old new"
proof -
  note r = reviseAssuranceGraph_Inr [OF assms]
  from r have p: "validateAssuranceGraph E previous = Inr True" and v: "validateAssuranceGraph E g = Inr True"
    by blast+
  obtain old where old: "fld previous ''nodes'' = JArr old"
      "\<forall>n\<in>set old. \<exists>b. validateAssuranceNode E (fld previous ''artifactRevisionRef'') n = Inr b"
    using validateAssuranceGraph_Inr(8) [OF p] by blast
  obtain new where new: "fld g ''nodes'' = JArr new"
      "emap (reviseNode E (object_entries (js_or (fld input ''nodeStates'') (JObj [])))) old = Inr new"
    using r old(1) by auto
  have ok: "\<forall>m\<in>set new. \<exists>b. validateAssuranceNode E (fld g ''artifactRevisionRef'') m = Inr b"
    using validateAssuranceGraph_Inr(8) [OF v] new(1) by auto
  have "list_all2 (\<lambda>n m. reviseNode E (object_entries (js_or (fld input ''nodeStates'') (JObj []))) n = Inr m) old new"
    using new(2) by (simp add: emap_Inr_iff)
  then have "list_all2 (\<lambda>n m. (\<forall>k. k \<noteq> ''state'' \<longrightarrow> fld m k = fld n k)
        \<and> one_of (fld m ''state'') REQUIREMENT_STATES
        \<and> (fld m ''state'' = JStr ''inactive'' \<longleftrightarrow> fld n ''state'' = JStr ''inactive'')) old new"
  proof (rule list.rel_mono_strong)
    fix n m assume "n \<in> set old" "m \<in> set new"
      and rn: "reviseNode E (object_entries (js_or (fld input ''nodeStates'') (JObj []))) n = Inr m"
    then obtain b b' where b: "validateAssuranceNode E (fld previous ''artifactRevisionRef'') n = Inr b"
      and b': "validateAssuranceNode E (fld g ''artifactRevisionRef'') m = Inr b'" using old(2) ok by blast
    obtain s where m: "m = set_fld ''state'' s n" using reviseNode_Inr [OF rn] by blast
    then have "fld m ''active'' = fld n ''active''" by simp
    then show "(\<forall>k. k \<noteq> ''state'' \<longrightarrow> fld m k = fld n k) \<and> one_of (fld m ''state'') REQUIREMENT_STATES
        \<and> (fld m ''state'' = JStr ''inactive'' \<longleftrightarrow> fld n ''state'' = JStr ''inactive'')"
      using validateAssuranceNode_Inr(5) [OF b] validateAssuranceNode_Inr(4,5) [OF b'] m by simp
  qed
  with old(1) new(1) show ?thesis by blast
qed

lemma buildAssuranceGraph_Inr:
  assumes "buildAssuranceGraph E input = Inr g"
  shows "validateAssuranceGraph E g = Inr True
    \<and> validateArtifactTypeConstitution E (fld input ''constitution'') = Inr True
    \<and> (\<exists>rules evaluations requirements.
        fld (fld input ''constitution'') ''conditionalAuditRules'' = JArr rules
      \<and> emap (\<lambda>rule. evaluateConditionalAuditRule E rule
          (js_or (fld input ''settledProperties'') (JObj []))) rules = Inr evaluations
      \<and> allRequirements (fld input ''constitution'') = Inr requirements
      \<and> fld g ''nodes'' = JArr (map (graphNode rules evaluations (fld g ''artifactRevisionRef'')) requirements)
      \<and> fld g ''conditionalEvaluations'' = JArr evaluations)
    \<and> fld g ''joinState'' = JStr (if truthy (fld g ''artifactRevisionRef'') then ''pending'' else ''awaiting_revision'')
    \<and> fld g ''lifecycleId'' = JStr (js_text (fld input ''lifecycleId'') [])
    \<and> (truthy (fld input ''artifactRevision'') \<longrightarrow>
        artifactRevisionRefFor E (fld input ''artifactRevision'') = Inr (fld g ''artifactRevisionRef''))"
  using assms unfolding buildAssuranceGraph_def ebind_defaulted fld_dflt
  apply (elim run_elims)
  apply (drule constitution.validated, drule assurance_graph.validated)
  apply (drule method_elems_InrD)
  apply hypsubst_thin
  apply (simp (no_asm_simp) add: fld_artifact)
  apply force
  done

subsection \<open>Chains of graph revisions\<close>

inductive graph_step :: "jsenv \<Rightarrow> jval \<Rightarrow> jval \<Rightarrow> bool" for E where
  revise: "reviseAssuranceGraph E v input = Inr w \<Longrightarrow> graph_step E v w"

inductive_cases graph_stepE: "graph_step E v w"

definition graph_frame :: "string list" where
  "graph_frame = [''lifecycleId'', ''artifactTypeConstitutionRef'', ''artifactRevisionRef'', ''edges'',
     ''conditionalEvaluations'', ''assuranceRootPolicyRef'', ''assuranceRoots'', ''rootPolicyApplied'', ''cycleFree'']"

definition node_frame :: "jval \<Rightarrow> jval \<Rightarrow> bool" where
  \<comment> \<open>the same node, active in both or inactive in both\<close>
  "node_frame n m \<longleftrightarrow> (\<forall>k. k \<noteq> ''state'' \<longrightarrow> fld m k = fld n k)
     \<and> (fld m ''state'' = JStr ''inactive'' \<longleftrightarrow> fld n ''state'' = JStr ''inactive'')"

definition same_graph :: "jval \<Rightarrow> jval \<Rightarrow> bool" where
  "same_graph v w \<longleftrightarrow> list_all2 node_frame (elems (fld v ''nodes'')) (elems (fld w ''nodes''))
     \<and> (distinct (map fst (JsValue.fields v)) \<longrightarrow> distinct (map fst (JsValue.fields w))
        \<and> (\<forall>k\<in>set graph_frame. fld w k = fld v k))"

lemma node_frame_trans: "node_frame a b \<Longrightarrow> node_frame b c \<Longrightarrow> node_frame a c"
  unfolding node_frame_def by simp

lemma reviseAssuranceGraph_same:
  assumes "reviseAssuranceGraph E v input = Inr w"
  shows "same_graph v w"
proof -
  obtain old new where n: "fld v ''nodes'' = JArr old" "fld w ''nodes'' = JArr new"
    and l: "list_all2 (\<lambda>n m. (\<forall>k. k \<noteq> ''state'' \<longrightarrow> fld m k = fld n k)
        \<and> one_of (fld m ''state'') REQUIREMENT_STATES
        \<and> (fld m ''state'' = JStr ''inactive'' \<longleftrightarrow> fld n ''state'' = JStr ''inactive'')) old new"
    using reviseAssuranceGraph_nodes [OF assms] by blast
  from l have "list_all2 node_frame old new"
    by (rule list_all2_mono) (simp add: node_frame_def)
  moreover have "distinct (map fst (JsValue.fields w))"
    using reviseAssuranceGraph_artifact [OF assms] distinct_artifact by blast
  moreover have "fld w k = fld v k" if "distinct (map fst (JsValue.fields v))" "k \<in> set graph_frame" for k
    using that by (intro reviseAssuranceGraph_frame [OF assms])
      (auto simp: graph_frame_def graph_revised_fields_def)
  ultimately show ?thesis by (simp add: same_graph_def n)
qed

interpretation graph_chain: revision_chain "graph_step E" "revision_number ''graphRevision''" same_graph
  "\<lambda>v w. assuranceGraphRef E v JUndef = Inr (fld w ''predecessorRef'')" for E
proof unfold_locales
  fix v w assume "graph_step E v w"
  then obtain input where r: "reviseAssuranceGraph E v input = Inr w" by (rule graph_stepE)
  obtain i where "i \<ge> 1" "fld v ''graphRevision'' = num i" "fld w ''graphRevision'' = num (i + 1)"
    using reviseAssuranceGraph_Inr [OF r] by blast
  then show "revision_number ''graphRevision'' w = revision_number ''graphRevision'' v + 1"
    "1 \<le> revision_number ''graphRevision'' v"
    by (simp_all add: revision_number_num)
  show "same_graph v w" using r by (rule reviseAssuranceGraph_same)
  show "assuranceGraphRef E v JUndef = Inr (fld w ''predecessorRef'')"
    using reviseAssuranceGraph_Inr [OF r] by blast
next
  fix u v w assume s: "same_graph u v" "same_graph v w"
  then have "list_all2 node_frame (elems (fld u ''nodes'')) (elems (fld w ''nodes''))"
    unfolding same_graph_def by (elim conjE) (rule list_all2_trans [OF node_frame_trans])
  with s show "same_graph u w" unfolding same_graph_def by simp
qed

text \<open>C20: Revisions of an assurance graph count up by one, keep the nodes, edges, activation and policy
of the graph, never recur and are linked by their predecessor references.\<close>

theorem graph_chain_history:
  assumes "(graph_step E ^^ n) v w" "0 < n"
  shows "revision_number ''graphRevision'' w = revision_number ''graphRevision'' v + int n
    \<and> same_graph v w \<and> v \<noteq> w
    \<and> (\<exists>u. (graph_step E)\<^sup>*\<^sup>* v u \<and> assuranceGraphRef E u JUndef = Inr (fld w ''predecessorRef''))"
proof -
  from assms have t: "(graph_step E)\<^sup>+\<^sup>+ v w" by (auto simp: tranclp_power)
  obtain u where "(graph_step E)\<^sup>*\<^sup>* v u" "assuranceGraphRef E u JUndef = Inr (fld w ''predecessorRef'')"
    using t by (rule graph_chain.chain_predecessor)
  then show ?thesis
    using graph_chain.chain_number [OF assms(1)] graph_chain.chain_lineage [OF t]
      graph_chain.no_cycle [of E v] t by blast
qed

subsection \<open>Which requirements a new graph activates\<close>

lemma allRequirements_Inr:
  assumes "allRequirements c = Inr rs" "fld c ''conditionalAuditRules'' = JArr rules"
  shows "\<exists>base. rs = base @ map (\<lambda>rule. fld rule ''auditRequirement'') rules"
  using assms unfolding allRequirements_def
  by (elim run_elims) (auto dest: emap_getp)

lemma ruleActive_conditional:
  assumes "rule \<in> set rules" "distinct (map (\<lambda>rule. fld (fld rule ''auditRequirement'') ''requirementId'') rules)"
    and "fld requirement ''requirementId'' = fld (fld rule ''auditRequirement'') ''requirementId''"
  shows "ruleActive rules evaluations requirement \<longleftrightarrow>
     (\<exists>e\<in>set evaluations. truthy (fld e ''activated'') \<and> fld e ''ruleId'' = fld rule ''ruleId'')"
proof -
  let ?m = "map (\<lambda>rule. (fld (fld rule ''auditRequirement'') ''requirementId'', rule)) rules"
  have "map_of (rev ?m) = map_of ?m"
    using assms(2) by (intro map_of_rev_distinct) (simp add: comp_def)
  moreover have "map_of ?m (fld requirement ''requirementId'') = Some rule"
    using assms by (intro map_of_is_SomeI) (auto simp: comp_def)
  ultimately have "ruleActive rules evaluations requirement \<longleftrightarrow>
      fld rule ''ruleId'' \<in> (\<lambda>e. fld e ''ruleId'') ` {e \<in> set evaluations. truthy (fld e ''activated'')}"
    by (simp add: ruleActive_def)
  then show ?thesis by (force simp: image_iff)
qed

lemma ruleActive_unconditional:
  assumes "fld requirement ''requirementId'' \<notin> (\<lambda>rule. fld (fld rule ''auditRequirement'') ''requirementId'') ` set rules"
  shows "ruleActive rules evaluations requirement"
proof -
  have "map_of (rev (map (\<lambda>rule. (fld (fld rule ''auditRequirement'') ''requirementId'', rule)) rules))
      (fld requirement ''requirementId'') = None"
    using assms by (auto simp: map_of_eq_None_iff image_iff)
  then show ?thesis by (simp add: ruleActive_def)
qed

lemma new_graph_nodes:
  assumes "buildAssuranceGraph E input = Inr g"
  shows "\<exists>rules evaluations requirements nodes.
      fld (fld input ''constitution'') ''conditionalAuditRules'' = JArr rules
    \<and> emap (\<lambda>rule. evaluateConditionalAuditRule E rule
        (js_or (fld input ''settledProperties'') (JObj []))) rules = Inr evaluations
    \<and> allRequirements (fld input ''constitution'') = Inr requirements
    \<and> fld g ''nodes'' = JArr nodes \<and> map (\<lambda>n. fld n ''requirement'') nodes = requirements
    \<and> map (\<lambda>n. fld n ''nodeId'') nodes = map (\<lambda>q. fld q ''requirementId'') requirements
    \<and> (\<forall>n\<in>set nodes. fld n ''state'' = (if truthy (fld n ''active'') then JStr ''pending'' else JStr ''inactive'')
        \<and> fld n ''artifactRevisionRef'' = fld g ''artifactRevisionRef''
        \<and> ((\<forall>rule\<in>set rules. fld (fld rule ''auditRequirement'') ''requirementId'' \<noteq> fld n ''nodeId'')
             \<longrightarrow> truthy (fld n ''active''))
        \<and> (\<forall>rule\<in>set rules. fld (fld rule ''auditRequirement'') ''requirementId'' = fld n ''nodeId'' \<longrightarrow>
             truthy (fld n ''active'') = (\<exists>e\<in>set evaluations. truthy (fld e ''activated'')
               \<and> fld e ''ruleId'' = fld rule ''ruleId'')))"
proof -
  note b = buildAssuranceGraph_Inr [OF assms]
  obtain rules evaluations requirements where
    r: "fld (fld input ''constitution'') ''conditionalAuditRules'' = JArr rules"
    and e: "emap (\<lambda>rule. evaluateConditionalAuditRule E rule
        (js_or (fld input ''settledProperties'') (JObj []))) rules = Inr evaluations"
    and q: "allRequirements (fld input ''constitution'') = Inr requirements"
    and n: "fld g ''nodes'' = JArr (map (graphNode rules evaluations (fld g ''artifactRevisionRef'')) requirements)"
    using b by blast
  from b have "validateArtifactTypeConstitution E (fld input ''constitution'') = Inr True" by blast
  then have "assertAcyclicRequirements E requirements = Inr True"
    using q by (auto simp: validateArtifactTypeConstitution_def monad assertAcyclicRequirements_iff)
  then have "distinct (map req_id requirements)"
    by (simp add: assertAcyclicRequirements_iff requirements_ok_def)
  with allRequirements_Inr [OF q r]
  have d: "distinct (map (\<lambda>rule. fld (fld rule ''auditRequirement'') ''requirementId'') rules)"
    by (auto simp: req_id_def comp_def)
  have nodes: "\<forall>n\<in>set (map (graphNode rules evaluations (fld g ''artifactRevisionRef'')) requirements).
      fld n ''state'' = (if truthy (fld n ''active'') then JStr ''pending'' else JStr ''inactive'')
      \<and> fld n ''artifactRevisionRef'' = fld g ''artifactRevisionRef''
      \<and> ((\<forall>rule\<in>set rules. fld (fld rule ''auditRequirement'') ''requirementId'' \<noteq> fld n ''nodeId'')
           \<longrightarrow> truthy (fld n ''active''))
      \<and> (\<forall>rule\<in>set rules. fld (fld rule ''auditRequirement'') ''requirementId'' = fld n ''nodeId'' \<longrightarrow>
           truthy (fld n ''active'') = (\<exists>e\<in>set evaluations. truthy (fld e ''activated'')
             \<and> fld e ''ruleId'' = fld rule ''ruleId''))"
  proof
    fix n assume "n \<in> set (map (graphNode rules evaluations (fld g ''artifactRevisionRef'')) requirements)"
    then obtain q where "n = graphNode rules evaluations (fld g ''artifactRevisionRef'') q" by auto
    then have act: "fld n ''active'' = JBool (ruleActive rules evaluations q)"
      "fld n ''nodeId'' = fld q ''requirementId''"
      "fld n ''state'' = JStr (if ruleActive rules evaluations q then ''pending'' else ''inactive'')"
      "fld n ''artifactRevisionRef'' = fld g ''artifactRevisionRef''"
      by (simp_all add: graphNode_def Let_def)
    have "(\<forall>rule\<in>set rules. fld (fld rule ''auditRequirement'') ''requirementId'' \<noteq> fld q ''requirementId'')
        \<Longrightarrow> ruleActive rules evaluations q"
      by (rule ruleActive_unconditional) (auto simp: image_iff)
    moreover have "rule \<in> set rules \<Longrightarrow> fld (fld rule ''auditRequirement'') ''requirementId'' = fld q ''requirementId''
        \<Longrightarrow> ruleActive rules evaluations q =
          (\<exists>e\<in>set evaluations. truthy (fld e ''activated'') \<and> fld e ''ruleId'' = fld rule ''ruleId'')" for rule
      by (rule ruleActive_conditional [OF _ d]) simp_all
    ultimately show "fld n ''state'' = (if truthy (fld n ''active'') then JStr ''pending'' else JStr ''inactive'')
      \<and> fld n ''artifactRevisionRef'' = fld g ''artifactRevisionRef''
      \<and> ((\<forall>rule\<in>set rules. fld (fld rule ''auditRequirement'') ''requirementId'' \<noteq> fld n ''nodeId'')
           \<longrightarrow> truthy (fld n ''active''))
      \<and> (\<forall>rule\<in>set rules. fld (fld rule ''auditRequirement'') ''requirementId'' = fld n ''nodeId'' \<longrightarrow>
           truthy (fld n ''active'') = (\<exists>e\<in>set evaluations. truthy (fld e ''activated'')
             \<and> fld e ''ruleId'' = fld rule ''ruleId''))"
      by (simp add: act)
  qed
  show ?thesis
    by (rule exI [of _ rules], rule exI [of _ evaluations], rule exI [of _ requirements],
        rule exI [of _ "map (graphNode rules evaluations (fld g ''artifactRevisionRef'')) requirements"],
        intro conjI r e q n nodes) (simp_all add: graphNode_def Let_def comp_def)
qed

definition governs :: "jval \<Rightarrow> jval \<Rightarrow> bool" where
  \<comment> \<open>the conditional rule is about the requirement of the node\<close>
  "governs rule node \<longleftrightarrow> fld (fld rule ''auditRequirement'') ''requirementId'' = fld node ''nodeId''"

lemma evaluation_of_rule:
  assumes "emap (\<lambda>rule. evaluateConditionalAuditRule E rule props) rules = Inr evaluations" "(rule, e) \<in> set (zip rules evaluations)"
  shows "fld e ''ruleId'' = fld rule ''ruleId''"
proof -
  have "evaluateConditionalAuditRule E rule props = Inr e" using assms by (auto simp: emap_Inr_iff list_all2_iff)
  then show ?thesis using evaluateConditionalAuditRule_Inr by blast
qed

lemma activated_by_id:
  assumes "emap (\<lambda>rule. evaluateConditionalAuditRule E rule props) rules = Inr evaluations"
  shows "(\<exists>e\<in>set evaluations. truthy (fld e ''activated'') \<and> fld e ''ruleId'' = i)
     \<longleftrightarrow> (\<exists>(rule, e)\<in>set (zip rules evaluations). fld rule ''ruleId'' = i \<and> truthy (fld e ''activated''))"
proof -
  have "length rules = length evaluations" using assms by (auto simp: emap_Inr_iff list_all2_lengthD)
  then have "set evaluations = snd ` set (zip rules evaluations)" by (simp add: image_set)
  then show ?thesis using evaluation_of_rule [OF assms] by fastforce
qed

lemma activated_own_rule:
  assumes "emap (\<lambda>rule. evaluateConditionalAuditRule E rule props) rules = Inr evaluations" "(rule, e) \<in> set (zip rules evaluations)"
    and "distinct (map (\<lambda>rule. fld rule ''ruleId'') rules)"
  shows "(\<exists>e\<in>set evaluations. truthy (fld e ''activated'') \<and> fld e ''ruleId'' = fld rule ''ruleId'') \<longleftrightarrow> truthy (fld e ''activated'')"
proof -
  have len: "length rules = length evaluations" using assms(1) by (auto simp: emap_Inr_iff list_all2_lengthD)
  then have "map (\<lambda>e. fld e ''ruleId'') evaluations = map (\<lambda>rule. fld rule ''ruleId'') rules"
    using evaluation_of_rule [OF assms(1)] by (auto simp: list_eq_iff_nth_eq set_zip)
  then have d: "distinct (map (\<lambda>e. fld e ''ruleId'') evaluations)" using assms(3) by simp
  have "e \<in> set evaluations" using assms(2) by (rule set_zip_rightD)
  then show ?thesis using d evaluation_of_rule [OF assms(1,2)] by (auto simp: distinct_map inj_on_def)
qed

text \<open>C26: A new assurance graph has one node per requirement of the constitution; a node is pending
exactly when its requirement is unconditional or a conditional rule with the identifier of one of
its rules was activated on the settled properties. When no two rules share an identifier, that
rule is its own.\<close>

theorem new_graph_activation:
  assumes "buildAssuranceGraph E input = Inr g"
  shows "\<exists>rules evaluations requirements nodes.
      fld (fld input ''constitution'') ''conditionalAuditRules'' = JArr rules
    \<and> emap (\<lambda>rule. evaluateConditionalAuditRule E rule
        (js_or (fld input ''settledProperties'') (JObj []))) rules = Inr evaluations
    \<and> allRequirements (fld input ''constitution'') = Inr requirements
    \<and> fld g ''nodes'' = JArr nodes \<and> map (\<lambda>n. fld n ''requirement'') nodes = requirements
    \<and> map (\<lambda>n. fld n ''nodeId'') nodes = map (\<lambda>q. fld q ''requirementId'') requirements
    \<and> (\<forall>n\<in>set nodes. fld n ''state'' = (if truthy (fld n ''active'') then JStr ''pending'' else JStr ''inactive'')
        \<and> fld n ''artifactRevisionRef'' = fld g ''artifactRevisionRef''
        \<and> (truthy (fld n ''active'') \<longleftrightarrow> (\<forall>rule\<in>set rules. \<not> governs rule n)
             \<or> (\<exists>rule\<in>set rules. governs rule n \<and> (\<exists>(other, e)\<in>set (zip rules evaluations).
                   fld other ''ruleId'' = fld rule ''ruleId'' \<and> truthy (fld e ''activated'')))))
    \<and> (distinct (map (\<lambda>rule. fld rule ''ruleId'') rules) \<longrightarrow>
         (\<forall>n\<in>set nodes. \<forall>(rule, e)\<in>set (zip rules evaluations). governs rule n \<longrightarrow>
            truthy (fld n ''active'') = truthy (fld e ''activated'')))"
proof -
  obtain rules evaluations requirements nodes where
    p: "fld (fld input ''constitution'') ''conditionalAuditRules'' = JArr rules"
      "allRequirements (fld input ''constitution'') = Inr requirements"
      "fld g ''nodes'' = JArr nodes" "map (\<lambda>n. fld n ''requirement'') nodes = requirements"
      "map (\<lambda>n. fld n ''nodeId'') nodes = map (\<lambda>q. fld q ''requirementId'') requirements"
    and e: "emap (\<lambda>rule. evaluateConditionalAuditRule E rule
        (js_or (fld input ''settledProperties'') (JObj []))) rules = Inr evaluations"
    and n: "\<forall>n\<in>set nodes. fld n ''state'' = (if truthy (fld n ''active'') then JStr ''pending'' else JStr ''inactive'')
        \<and> fld n ''artifactRevisionRef'' = fld g ''artifactRevisionRef''
        \<and> ((\<forall>rule\<in>set rules. \<not> governs rule n) \<longrightarrow> truthy (fld n ''active''))
        \<and> (\<forall>rule\<in>set rules. governs rule n \<longrightarrow> truthy (fld n ''active'') = (\<exists>e\<in>set evaluations. truthy (fld e ''activated'')
               \<and> fld e ''ruleId'' = fld rule ''ruleId''))"
    using new_graph_nodes [OF assms] unfolding governs_def by blast
  note byId = activated_by_id [OF e] and own = activated_own_rule [OF e]
  have "truthy (fld n ''active'') \<longleftrightarrow> (\<forall>rule\<in>set rules. \<not> governs rule n)
      \<or> (\<exists>rule\<in>set rules. governs rule n \<and> (\<exists>(other, e)\<in>set (zip rules evaluations).
            fld other ''ruleId'' = fld rule ''ruleId'' \<and> truthy (fld e ''activated'')))" if "n \<in> set nodes" for n
  proof -
    have a: "(\<forall>rule\<in>set rules. \<not> governs rule n) \<longrightarrow> truthy (fld n ''active'')"
      and b: "\<forall>rule\<in>set rules. governs rule n \<longrightarrow> truthy (fld n ''active'') = (\<exists>(other, e)\<in>set (zip rules evaluations).
            fld other ''ruleId'' = fld rule ''ruleId'' \<and> truthy (fld e ''activated''))"
      using bspec [OF n that] unfolding byId by simp_all
    show ?thesis
    proof (cases "\<forall>rule\<in>set rules. \<not> governs rule n")
      case False
      show ?thesis using b False by (metis (no_types, lifting))
    qed (use a in simp)
  qed
  moreover have "truthy (fld n ''active'') = truthy (fld e ''activated'')"
    if "distinct (map (\<lambda>rule. fld rule ''ruleId'') rules)" "n \<in> set nodes" "(rule, e) \<in> set (zip rules evaluations)" "governs rule n" for n rule e
  proof -
    have "truthy (fld n ''active'') = (\<exists>e\<in>set evaluations. truthy (fld e ''activated'') \<and> fld e ''ruleId'' = fld rule ''ruleId'')"
      using bspec [OF n that(2)] set_zip_leftD [OF that(3)] that(4) by blast
    then show ?thesis using own [OF that(3,1)] by (simp only:)
  qed
  moreover have "fld n ''state'' = (if truthy (fld n ''active'') then JStr ''pending'' else JStr ''inactive'')
      \<and> fld n ''artifactRevisionRef'' = fld g ''artifactRevisionRef''" if "n \<in> set nodes" for n
    using bspec [OF n that] by blast
  ultimately show ?thesis
    by (intro exI [of _ rules] exI [of _ evaluations] exI [of _ requirements] exI [of _ nodes] conjI p e ballI impI) blast+
qed

text \<open>C25: A graph revision changes nothing in a node but its state, the new state is a known one, a
node is inactive after exactly if it was before, and every node named in the update exists.\<close>

theorem graph_revision_moves_only_states:
  assumes "reviseAssuranceGraph E previous input = Inr g"
  shows "(\<exists>old new. fld previous ''nodes'' = JArr old \<and> fld g ''nodes'' = JArr new
    \<and> list_all2 (\<lambda>n m. (\<forall>k. k \<noteq> ''state'' \<longrightarrow> fld m k = fld n k)
        \<and> one_of (fld m ''state'') REQUIREMENT_STATES
        \<and> (fld m ''state'' = JStr ''inactive'' \<longleftrightarrow> fld n ''state'' = JStr ''inactive'')) old new)
    \<and> (\<forall>(k, s)\<in>set (object_entries (js_or (fld input ''nodeStates'') (JObj []))).
         \<exists>n\<in>set (elems (fld g ''nodes'')). fld n ''nodeId'' = JStr k)"
  using reviseAssuranceGraph_nodes [OF assms] reviseAssuranceGraph_known [OF assms] by auto

end
