(* ===== verification/GateDecisions.thy ===== *)
theory GateDecisions
  imports ArtifactRecords
begin

section \<open>Gate decisions and admission candidates\<close>

text \<open>
  \<open>buildArtifactGateDecision\<close>, \<open>buildAdmissionReceiptCandidate\<close>, their validators and the gate
  reference (\<^verbatim>\<open>src/main/direct/worldmanager/artifact-lifecycle-kernel.js\<close>): a gate may be declared
  ready only without blockers, and neither record ever admits anything by itself.
\<close>

definition ARTIFACT_GATE_DECISION_SCHEMA :: string where
  "ARTIFACT_GATE_DECISION_SCHEMA = ''direct_artifact_gate_decision@1''"

definition GATE_DECISION_STATES :: "string list" where
  "GATE_DECISION_STATES = [''blocked'', ''gate_ready'', ''escalation_required'']"

definition validateArtifactGateDecision :: "jsenv \<Rightarrow> jval \<Rightarrow> bool res" where
  "validateArtifactGateDecision E v =
     ebind (validateArtifact E v ARTIFACT_GATE_DECISION_SCHEMA ''gateDecisionId''
       ''world_manager_artifact_gate_decision_invalid'') (\<lambda>_.
     ebind (if \<not> one_of (fld v ''decisionState'') GATE_DECISION_STATES
         \<or> fld v ''authorityActRequired'' \<noteq> JBool True
         \<or> fld v ''admissionAuthorized'' \<noteq> JBool False
         \<or> fld v ''canonicalEffect'' \<noteq> JBool False
       then Inr True
       else if fld v ''decisionState'' = JStr ''gate_ready''
       then ebind (js_length (fld v ''blockerCodes'')) (\<lambda>n. Inr (truthy n
         \<or> fld v ''assuranceSupported'' \<noteq> JBool True
         \<or> fld v ''authorityResolvable'' \<noteq> JBool True))
       else Inr False) (\<lambda>invalid.
     if invalid then fail ''world_manager_artifact_gate_decision_boundary_invalid'' []
     else ebind (exactRef (fld v ''artifactRevisionRef'') ''gate.artifactRevisionRef'') (\<lambda>_.
     ebind (normalizeScope (fld v ''targetAdmissionScope'')) (\<lambda>_.
     Inr True))))"

interpretation gate_decision: sealed_record E "validateArtifactGateDecision E" ARTIFACT_GATE_DECISION_SCHEMA "''gateDecisionId''" for E
  by unfold_locales (auto simp: validateArtifactGateDecision_def monad)

definition buildArtifactGateDecision :: "jsenv \<Rightarrow> jval \<Rightarrow> jval res" where
  "buildArtifactGateDecision E arg =
     ebind (defaulted arg) (\<lambda>input.
     let decisionState = js_text (fld input ''decisionState'') ''blocked'' in
     if decisionState \<notin> set GATE_DECISION_STATES
     then fail ''world_manager_artifact_gate_decision_state_invalid'' decisionState
     else
     ebind (exactRef (fld input ''artifactRevisionRef'') ''gate.artifactRevisionRef'') (\<lambda>artifactRevisionRef.
     ebind (normalizeScope (fld input ''targetAdmissionScope'')) (\<lambda>targetAdmissionScope.
     let blockerCodes = stringList (fld input ''blockerCodes'') in
     if decisionState = ''gate_ready''
       \<and> (blockerCodes \<noteq> []
          \<or> fld input ''assuranceSupported'' \<noteq> JBool True
          \<or> fld input ''authorityResolvable'' \<noteq> JBool True)
     then fail ''world_manager_artifact_gate_ready_with_blockers'' []
     else
     ebind (exactRef (fld input ''lifecycleRef'') ''gate.lifecycleRef'') (\<lambda>lifecycleRef.
     ebind (exactRef (fld input ''assuranceGraphRef'') ''gate.assuranceGraphRef'') (\<lambda>assuranceGraphRef.
     ebind (exactRef (fld input ''admissionAuthorityRef'') ''gate.admissionAuthorityRef'')
       (\<lambda>admissionAuthorityRef.
     ebind (stamped E input) (\<lambda>createdAt.
     let v = artifact E ARTIFACT_GATE_DECISION_SCHEMA ''gateDecisionId''
       (js_text (fld input ''gateDecisionId'') (stableId E ''wm_artifact_gate_decision'' (JObj [
          (''artifactRevisionRef'', artifactRevisionRef), (''decisionState'', JStr decisionState),
          (''targetAdmissionScope'', targetAdmissionScope), (''blockerCodes'', strings blockerCodes)])))
       [(''lifecycleRef'', lifecycleRef),
        (''artifactRevisionRef'', artifactRevisionRef),
        (''assuranceGraphRef'', assuranceGraphRef),
        (''decisionState'', JStr decisionState),
        (''assuranceSupported'', JBool (fld input ''assuranceSupported'' = JBool True)),
        (''blockerCodes'', strings blockerCodes),
        (''targetAdmissionScope'', targetAdmissionScope),
        (''admissionAuthorityRef'', admissionAuthorityRef),
        (''authorityResolvable'', JBool (fld input ''authorityResolvable'' = JBool True)),
        (''authorityActRequired'', JBool True),
        (''admissionAuthorized'', JBool False),
        (''canonicalEffect'', JBool False),
        (''rendererSafeSummary'', JStr (bounded (fld input ''rendererSafeSummary'')
           (if decisionState = ''gate_ready''
            then ''Assurance supported; authority admission remains pending.''
            else ''Artifact assurance gate remains blocked.'') 500)),
        (''createdAt'', createdAt)] in
     ebind (validateArtifactGateDecision E v) (\<lambda>_. Inr v))))))))"

definition artifactGateDecisionRef :: "jsenv \<Rightarrow> jval \<Rightarrow> jval \<Rightarrow> jval res" where
  "artifactGateDecisionRef E v projectId =
     ebind (validateArtifactGateDecision E v) (\<lambda>_.
     artifactExactRef ''artifact_gate_decision'' v ''gateDecisionId'' projectId)"

definition ARTIFACT_ADMISSION_RECEIPT_CANDIDATE_SCHEMA :: string where
  "ARTIFACT_ADMISSION_RECEIPT_CANDIDATE_SCHEMA = ''direct_artifact_admission_receipt_candidate@1''"

definition validateAdmissionReceiptCandidate :: "jsenv \<Rightarrow> jval \<Rightarrow> bool res" where
  "validateAdmissionReceiptCandidate E v =
     ebind (validateArtifact E v ARTIFACT_ADMISSION_RECEIPT_CANDIDATE_SCHEMA ''admissionReceiptCandidateId''
       ''world_manager_artifact_admission_candidate_invalid'') (\<lambda>_.
     if fld v ''receiptPosture'' \<noteq> JStr ''candidate''
       \<or> fld v ''authorityActRequired'' \<noteq> JBool True
       \<or> fld v ''trustStoreReceiptRef'' \<noteq> JNull
       \<or> fld v ''admitted'' \<noteq> JBool False
       \<or> fld v ''canonicalEffect'' \<noteq> JBool False
     then fail ''world_manager_artifact_admission_candidate_boundary_invalid'' []
     else ebind (normalizeScope (fld v ''targetAdmissionScope'')) (\<lambda>_.
     Inr True))"

interpretation admission_candidate: sealed_record E "validateAdmissionReceiptCandidate E" ARTIFACT_ADMISSION_RECEIPT_CANDIDATE_SCHEMA "''admissionReceiptCandidateId''" for E
  by unfold_locales (auto simp: validateAdmissionReceiptCandidate_def monad)

definition buildAdmissionReceiptCandidate :: "jsenv \<Rightarrow> jval \<Rightarrow> jval res" where
  "buildAdmissionReceiptCandidate E arg =
     ebind (defaulted arg) (\<lambda>input.
     let gateDecision = fld input ''gateDecision'' in
     ebind (validateArtifactGateDecision E gateDecision) (\<lambda>_.
     if fld gateDecision ''decisionState'' \<noteq> JStr ''gate_ready''
     then fail ''world_manager_artifact_admission_candidate_gate_not_ready'' []
     else
     ebind (getp (fld gateDecision ''targetAdmissionScope'') ''projectId'') (\<lambda>projectId.
     ebind (artifactGateDecisionRef E gateDecision projectId) (\<lambda>gateDecisionRef.
     ebind (uniqueRefs E (fld input ''expectedCanonicalRevisionRefs'') ''expectedCanonicalRevisionRefs'')
       (\<lambda>expectedCanonicalRevisionRefs.
     ebind (stamped E input) (\<lambda>createdAt.
     let v = artifact E ARTIFACT_ADMISSION_RECEIPT_CANDIDATE_SCHEMA ''admissionReceiptCandidateId''
       (js_text (fld input ''admissionReceiptCandidateId'') (stableId E ''wm_artifact_admission_candidate''
          (JObj [(''gateDecisionRef'', gateDecisionRef),
            (''expectedCanonicalRevisionRefs'', fld input ''expectedCanonicalRevisionRefs'')])))
       [(''lifecycleRef'', fld gateDecision ''lifecycleRef''),
        (''artifactRevisionRef'', fld gateDecision ''artifactRevisionRef''),
        (''gateDecisionRef'', gateDecisionRef),
        (''targetAdmissionScope'', fld gateDecision ''targetAdmissionScope''),
        (''admissionAuthorityRef'', fld gateDecision ''admissionAuthorityRef''),
        (''expectedCanonicalRevisionRefs'', JArr expectedCanonicalRevisionRefs),
        (''receiptPosture'', JStr ''candidate''),
        (''authorityActRequired'', JBool True),
        (''trustStoreReceiptRef'', JNull),
        (''admitted'', JBool False),
        (''canonicalEffect'', JBool False),
        (''createdAt'', createdAt)] in
     ebind (validateAdmissionReceiptCandidate E v) (\<lambda>_. Inr v)))))))"

subsection \<open>What the operations establish\<close>

lemma buildArtifactGateDecision_valid:
  "buildArtifactGateDecision E input = Inr v \<Longrightarrow> validateArtifactGateDecision E v = Inr True"
  unfolding buildArtifactGateDecision_def
  by (elim run_elims, drule gate_decision.validated, hypsubst_thin, assumption)

lemma buildArtifactGateDecision_Inr:
  assumes "buildArtifactGateDecision E input = Inr v"
  shows "fld v ''decisionState'' = JStr (js_text (fld input ''decisionState'') ''blocked'')
    \<and> fld v ''blockerCodes'' = strings (stringList (fld input ''blockerCodes''))
    \<and> fld v ''assuranceSupported'' = JBool (fld input ''assuranceSupported'' = JBool True)
    \<and> fld v ''authorityResolvable'' = JBool (fld input ''authorityResolvable'' = JBool True)
    \<and> fld v ''authorityActRequired'' = JBool True \<and> fld v ''admissionAuthorized'' = JBool False
    \<and> fld v ''canonicalEffect'' = JBool False"
  using assms unfolding buildArtifactGateDecision_def
  by (elim run_elims, hypsubst_thin, simp (no_asm_simp) add: fld_artifact defaulted_Inr_fld)

lemma buildArtifactGateDecision_ready:
  assumes "buildArtifactGateDecision E input = Inr v" "js_text (fld input ''decisionState'') ''blocked'' = ''gate_ready''"
  shows "stringList (fld input ''blockerCodes'') = [] \<and> fld input ''assuranceSupported'' = JBool True
    \<and> fld input ''authorityResolvable'' = JBool True"
  using assms unfolding buildArtifactGateDecision_def Let_def
  by (auto simp: monad defaulted_Inr_fld simp del: js_text_simps split: if_splits)

text \<open>C16: A gate decision never authorizes admission and always requires an authority act; it is
gate_ready only with no blocker, supported assurance and a resolvable authority.\<close>

theorem gate_ready_needs_no_blockers:
  assumes "buildArtifactGateDecision E input = Inr v"
  shows "fld v ''admissionAuthorized'' = JBool False \<and> fld v ''authorityActRequired'' = JBool True
    \<and> (fld v ''decisionState'' = JStr ''gate_ready'' \<longrightarrow> fld v ''blockerCodes'' = JArr []
        \<and> fld v ''assuranceSupported'' = JBool True \<and> fld v ''authorityResolvable'' = JBool True)"
  using buildArtifactGateDecision_Inr [OF assms] buildArtifactGateDecision_ready [OF assms]
  by (auto simp: strings_def)

theorem gate_refuses_blockers:
  assumes "isPlainObject input" "exactRef (fld input ''artifactRevisionRef'') ''gate.artifactRevisionRef'' = Inr r"
    "normalizeScope (fld input ''targetAdmissionScope'') = Inr sc"
    "js_text (fld input ''decisionState'') ''blocked'' = ''gate_ready''"
    "stringList (fld input ''blockerCodes'') \<noteq> [] \<or> fld input ''assuranceSupported'' \<noteq> JBool True
     \<or> fld input ''authorityResolvable'' \<noteq> JBool True"
  shows "buildArtifactGateDecision E input = fail ''world_manager_artifact_gate_ready_with_blockers'' []"
proof -
  from assms(1) have "defaulted input = Inr input" by (auto dest!: isPlainObjectE)
  moreover have "''gate_ready'' \<in> set GATE_DECISION_STATES" by (simp add: GATE_DECISION_STATES_def)
  ultimately show ?thesis using assms by (simp add: buildArtifactGateDecision_def)
qed

lemma buildAdmissionReceiptCandidate_Inr:
  assumes "buildAdmissionReceiptCandidate E input = Inr v"
  shows "validateArtifactGateDecision E (fld input ''gateDecision'') = Inr True
    \<and> fld (fld input ''gateDecision'') ''decisionState'' = JStr ''gate_ready''
    \<and> (\<exists>p. artifactGateDecisionRef E (fld input ''gateDecision'') p = Inr (fld v ''gateDecisionRef''))
    \<and> fld v ''artifactRevisionRef'' = fld (fld input ''gateDecision'') ''artifactRevisionRef''
    \<and> fld v ''targetAdmissionScope'' = fld (fld input ''gateDecision'') ''targetAdmissionScope''
    \<and> fld v ''admissionAuthorityRef'' = fld (fld input ''gateDecision'') ''admissionAuthorityRef''
    \<and> fld v ''receiptPosture'' = JStr ''candidate'' \<and> fld v ''authorityActRequired'' = JBool True
    \<and> fld v ''trustStoreReceiptRef'' = JNull \<and> fld v ''admitted'' = JBool False
    \<and> fld v ''canonicalEffect'' = JBool False"
  using assms unfolding buildAdmissionReceiptCandidate_def
  apply (elim run_elims)
  apply (drule gate_decision.validated, hypsubst_thin, simp (no_asm_simp) add: fld_artifact defaulted_Inr_fld)
  by (auto simp: defaulted_Inr_fld)

theorem admission_candidate_admits_nothing:
  assumes "buildAdmissionReceiptCandidate E input = Inr v"
  shows "validateArtifactGateDecision E (fld input ''gateDecision'') = Inr True
    \<and> fld (fld input ''gateDecision'') ''decisionState'' = JStr ''gate_ready''
    \<and> (\<exists>p. artifactGateDecisionRef E (fld input ''gateDecision'') p = Inr (fld v ''gateDecisionRef''))
    \<and> fld v ''artifactRevisionRef'' = fld (fld input ''gateDecision'') ''artifactRevisionRef''
    \<and> fld v ''targetAdmissionScope'' = fld (fld input ''gateDecision'') ''targetAdmissionScope''
    \<and> fld v ''admissionAuthorityRef'' = fld (fld input ''gateDecision'') ''admissionAuthorityRef''
    \<and> fld v ''authorityActRequired'' = JBool True \<and> fld v ''trustStoreReceiptRef'' = JNull
    \<and> fld v ''admitted'' = JBool False \<and> fld v ''canonicalEffect'' = JBool False"
  using buildAdmissionReceiptCandidate_Inr [OF assms] by blast

end
