(* ===== verification/LifecycleInstance.thy ===== *)
theory LifecycleInstance
  imports AssuranceGraph GateDecisions RevisionChains
begin

section \<open>Artifact lifecycle instances\<close>

text \<open>
  \<open>buildArtifactLifecycleInstance\<close>, its validator and reference, and
  \<open>reviseArtifactLifecycleInstance\<close>
  (\<^verbatim>\<open>src/main/direct/worldmanager/artifact-lifecycle-kernel.js\<close>): the revision chain that carries
  the state of one artifact from \<open>requested\<close> to a terminal state.
\<close>

definition ARTIFACT_LIFECYCLE_INSTANCE_SCHEMA :: string where
  "ARTIFACT_LIFECYCLE_INSTANCE_SCHEMA = ''direct_artifact_lifecycle_instance@1''"

definition LIFECYCLE_STATES :: "string list" where
  "LIFECYCLE_STATES = [''requested'', ''under_production'', ''candidate'', ''under_audit'', ''remanded'',
     ''gate_ready'', ''admission_pending'', ''admitted'', ''rejected'', ''superseded'', ''stale'']"

definition TERMINAL_LIFECYCLE_STATES :: "string list" where
  "TERMINAL_LIFECYCLE_STATES = [''admitted'', ''rejected'', ''superseded'']"

definition revision_bearing_states :: "string list" where
  "revision_bearing_states = [''candidate'', ''under_audit'', ''remanded'', ''gate_ready'',
     ''admission_pending'', ''admitted'', ''rejected'', ''superseded'', ''stale'']"

definition validateArtifactLifecycleInstance :: "jsenv \<Rightarrow> jval \<Rightarrow> bool res" where
  "validateArtifactLifecycleInstance E v =
     ebind (validateArtifact E v ARTIFACT_LIFECYCLE_INSTANCE_SCHEMA ''lifecycleInstanceRevisionId''
       ''world_manager_artifact_lifecycle_instance_invalid'') (\<lambda>_.
     if js_text (fld v ''lifecycleId'') [] = []
       \<or> \<not> isInteger (fld v ''lifecycleRevision'')
       \<or> js_less E (fld v ''lifecycleRevision'') 1
       \<or> \<not> one_of (fld v ''state'') LIFECYCLE_STATES
       \<or> fld v ''terminal'' \<noteq> JBool (one_of (fld v ''state'') TERMINAL_LIFECYCLE_STATES)
       \<or> fld v ''canonicalAdmissionEffect'' \<noteq> JBool (fld v ''state'' = JStr ''admitted'')
     then fail ''world_manager_artifact_lifecycle_instance_boundary_invalid'' []
     else if strict_eq (fld v ''lifecycleRevision'') (num 1) = truthy (fld v ''predecessorRef'')
     then fail ''world_manager_artifact_lifecycle_lineage_invalid'' []
     else if fld v ''state'' = JStr ''under_production'' \<and> \<not> truthy (fld v ''producerAssignmentRef'')
     then fail ''world_manager_artifact_lifecycle_producer_assignment_required'' []
     else if one_of (fld v ''state'') revision_bearing_states
       \<and> (\<not> truthy (fld v ''producerAssignmentRef'') \<or> \<not> truthy (fld v ''currentArtifactRevisionRef''))
     then fail ''world_manager_artifact_lifecycle_current_revision_required''
       (detail_text E (fld v ''state''))
     else if fld v ''state'' = JStr ''gate_ready'' \<and> \<not> truthy (fld v ''gateDecisionRef'')
     then fail ''world_manager_artifact_lifecycle_gate_decision_required'' []
     else ebind (exactRef (fld v ''artifactTypeConstitutionRef'') ''artifactTypeConstitutionRef'') (\<lambda>_.
     ebind (exactRef (fld v ''assuranceGraphRef'') ''assuranceGraphRef'') (\<lambda>_.
     ebind (normalizeScope (fld v ''subjectScope'')) (\<lambda>_.
     Inr True))))"

interpretation lifecycle_instance: sealed_record E "validateArtifactLifecycleInstance E" ARTIFACT_LIFECYCLE_INSTANCE_SCHEMA "''lifecycleInstanceRevisionId''" for E
  by unfold_locales (auto simp: validateArtifactLifecycleInstance_def monad)

definition count_field :: "jsenv \<Rightarrow> jval \<Rightarrow> jval" where
  \<comment> \<open>\<open>Math.max(0, Number(v || 0) || 0)\<close>\<close>
  "count_field E v = num_max0 0 (num_or (to_number E (js_or v (num 0))) 0)"

definition buildArtifactLifecycleInstance :: "jsenv \<Rightarrow> jval \<Rightarrow> jval res" where
  "buildArtifactLifecycleInstance E arg =
     ebind (defaulted arg) (\<lambda>input.
     let constitution = fld input ''constitution'' in
     ebind (validateArtifactTypeConstitution E constitution) (\<lambda>_.
     ebind (exactRef (fld input ''requestRef'') ''requestRef'') (\<lambda>requestRef.
     ebind (normalizeScope (fld input ''subjectScope'')) (\<lambda>subjectScope.
     ebind (sameScope (fld constitution ''semanticScope'') subjectScope) (\<lambda>same.
     if \<not> same then fail ''world_manager_artifact_lifecycle_scope_mismatch'' []
     else
     let lifecycleRevision = JNum (to_number E (js_or (fld input ''lifecycleRevision'') (num 1))) in
     if \<not> isInteger lifecycleRevision \<or> js_less E lifecycleRevision 1
     then fail ''world_manager_artifact_lifecycle_revision_invalid'' []
     else
     ebind (optionalRef (fld input ''predecessorRef'') ''lifecycle.predecessorRef'') (\<lambda>predecessorRef.
     if strict_eq lifecycleRevision (num 1) = truthy predecessorRef
     then fail ''world_manager_artifact_lifecycle_lineage_invalid'' []
     else
     ebind (artifactTypeConstitutionRef E constitution) (\<lambda>constitutionRef.
     let lifecycleId = js_text (fld input ''lifecycleId'') (stableId E ''wm_artifact_lifecycle'' (JObj [
           (''constitutionRef'', constitutionRef), (''requestRef'', requestRef),
           (''subjectScope'', subjectScope)]));
         state = js_text (fld input ''state'') ''requested'' in
     if state \<notin> set LIFECYCLE_STATES
     then fail ''world_manager_artifact_lifecycle_state_invalid'' state
     else
     ebind (optionalRef (fld input ''producerAssignmentRef'') ''producerAssignmentRef'')
       (\<lambda>producerAssignmentRef.
     ebind (optionalRef (fld input ''currentArtifactRevisionRef'') ''currentArtifactRevisionRef'')
       (\<lambda>currentArtifactRevisionRef.
     ebind (exactRef (fld input ''assuranceGraphRef'') ''assuranceGraphRef'') (\<lambda>assuranceGraphRef.
     ebind (optionalRef (fld input ''gateDecisionRef'') ''gateDecisionRef'') (\<lambda>gateDecisionRef.
     ebind (stamped E input) (\<lambda>createdAt.
     let v = artifact E ARTIFACT_LIFECYCLE_INSTANCE_SCHEMA ''lifecycleInstanceRevisionId''
       (js_text (fld input ''lifecycleInstanceRevisionId'') (stableId E ''wm_artifact_lifecycle_revision''
          (JObj [(''lifecycleId'', JStr lifecycleId), (''lifecycleRevision'', lifecycleRevision),
            (''state'', JStr state), (''predecessorRef'', predecessorRef)])))
       [(''lifecycleId'', JStr lifecycleId),
        (''lifecycleRevision'', lifecycleRevision),
        (''predecessorRef'', predecessorRef),
        (''artifactTypeConstitutionRef'', constitutionRef),
        (''pinnedConstitutionRevision'', fld constitution ''revision''),
        (''requestRef'', requestRef),
        (''subjectScope'', subjectScope),
        (''producerAssignmentRef'', producerAssignmentRef),
        (''currentArtifactRevisionRef'', currentArtifactRevisionRef),
        (''assuranceGraphRef'', assuranceGraphRef),
        (''gateDecisionRef'', gateDecisionRef),
        (''state'', JStr state),
        (''remandCount'', count_field E (fld input ''remandCount'')),
        (''budgetUsage'', JObj [
          (''attempts'', count_field E (fld (fld input ''budgetUsage'') ''attempts'')),
          (''remands'', count_field E (fld (fld input ''budgetUsage'') ''remands'')),
          (''audits'', count_field E (fld (fld input ''budgetUsage'') ''audits''))]),
        (''terminal'', JBool (state \<in> set TERMINAL_LIFECYCLE_STATES)),
        (''canonicalAdmissionEffect'', JBool (state = ''admitted'')),
        (''createdAt'', createdAt)] in
     ebind (validateArtifactLifecycleInstance E v) (\<lambda>_. Inr v)))))))))))))"

definition artifactLifecycleInstanceRef :: "jsenv \<Rightarrow> jval \<Rightarrow> jval res" where
  "artifactLifecycleInstanceRef E v =
     ebind (validateArtifactLifecycleInstance E v) (\<lambda>_.
     ebind (getp (fld v ''subjectScope'') ''projectId'') (\<lambda>projectId.
     artifactExactRef ''artifact_lifecycle_instance'' v ''lifecycleInstanceRevisionId'' projectId))"

definition own_or :: "jval \<Rightarrow> jval \<Rightarrow> string \<Rightarrow> jval" where
  "own_or input previous k = (if has_own input k then fld input k else fld previous k)"

definition revisedLifecycleInput :: "jsenv \<Rightarrow> jval \<Rightarrow> jval \<Rightarrow> jval \<Rightarrow> jval" where
  \<comment> \<open>the argument that a revision passes to \<open>buildArtifactLifecycleInstance\<close>\<close>
  "revisedLifecycleInput E previous input predecessorRef =
     JObj [
       (''constitution'', fld input ''constitution''),
       (''lifecycleId'', fld previous ''lifecycleId''),
       (''lifecycleRevision'', js_plus1 E (fld previous ''lifecycleRevision'')),
       (''predecessorRef'', predecessorRef),
       (''requestRef'', fld previous ''requestRef''),
       (''subjectScope'', fld previous ''subjectScope''),
       (''producerAssignmentRef'', own_or input previous ''producerAssignmentRef''),
       (''currentArtifactRevisionRef'', own_or input previous ''currentArtifactRevisionRef''),
       (''assuranceGraphRef'', own_or input previous ''assuranceGraphRef''),
       (''gateDecisionRef'', own_or input previous ''gateDecisionRef''),
       (''state'', coalesce (fld input ''state'') (fld previous ''state'')),
       (''remandCount'', coalesce (fld input ''remandCount'') (fld previous ''remandCount'')),
       (''budgetUsage'', coalesce (fld input ''budgetUsage'') (fld previous ''budgetUsage'')),
       (''createdAt'', fld input ''createdAt''),
       (''now'', fld input ''now'')]"

definition reviseArtifactLifecycleInstance :: "jsenv \<Rightarrow> jval \<Rightarrow> jval \<Rightarrow> jval res" where
  "reviseArtifactLifecycleInstance E previous arg =
     ebind (validateArtifactLifecycleInstance E previous) (\<lambda>_.
     if one_of (fld previous ''state'') TERMINAL_LIFECYCLE_STATES
     then fail ''world_manager_artifact_lifecycle_terminal_revision_forbidden''
       (detail_text E (fld previous ''state''))
     else
     ebind (defaulted arg) (\<lambda>input.
     let constitution = fld input ''constitution'' in
     ebind (validateArtifactTypeConstitution E constitution) (\<lambda>_.
     ebind (artifactTypeConstitutionRef E constitution) (\<lambda>pinned.
     if \<not> exactRefMatches (fld previous ''artifactTypeConstitutionRef'') pinned
     then fail ''world_manager_artifact_lifecycle_constitution_migration_required'' []
     else
     ebind (artifactLifecycleInstanceRef E previous) (\<lambda>predecessorRef.
     buildArtifactLifecycleInstance E (revisedLifecycleInput E previous input predecessorRef))))))"

subsection \<open>What the operations establish\<close>

lemma validateArtifactLifecycleInstance_Inr:
  assumes "validateArtifactLifecycleInstance E v = Inr b"
  shows "isPlainObject v" "js_text (fld v ''lifecycleId'') [] \<noteq> []" "isInteger (fld v ''lifecycleRevision'')"
    "\<not> js_less E (fld v ''lifecycleRevision'') 1" "one_of (fld v ''state'') LIFECYCLE_STATES"
    "fld v ''terminal'' = JBool (one_of (fld v ''state'') TERMINAL_LIFECYCLE_STATES)"
    "fld v ''canonicalAdmissionEffect'' = JBool (fld v ''state'' = JStr ''admitted'')"
    "strict_eq (fld v ''lifecycleRevision'') (num 1) \<noteq> truthy (fld v ''predecessorRef'')"
  using assms unfolding validateArtifactLifecycleInstance_def by (auto simp: monad)

lemma buildArtifactLifecycleInstance_valid:
  "buildArtifactLifecycleInstance E input = Inr v \<Longrightarrow> validateArtifactLifecycleInstance E v = Inr True"
  unfolding buildArtifactLifecycleInstance_def
  by (elim run_elims, drule lifecycle_instance.validated, hypsubst_thin, assumption)

lemma buildArtifactLifecycleInstance_Inr:
  assumes "buildArtifactLifecycleInstance E input = Inr v"
  shows "fld v ''lifecycleRevision'' = JNum (to_number E (js_or (fld input ''lifecycleRevision'') (num 1)))
    \<and> fld v ''state'' = JStr (js_text (fld input ''state'') ''requested'')
    \<and> (\<exists>fb. fld v ''lifecycleId'' = JStr (js_text (fld input ''lifecycleId'') fb))
    \<and> optionalRef (fld input ''predecessorRef'') ''lifecycle.predecessorRef'' = Inr (fld v ''predecessorRef'')
    \<and> artifactTypeConstitutionRef E (fld input ''constitution'') = Inr (fld v ''artifactTypeConstitutionRef'')
    \<and> exactRef (fld input ''requestRef'') ''requestRef'' = Inr (fld v ''requestRef'')
    \<and> normalizeScope (fld input ''subjectScope'') = Inr (fld v ''subjectScope'')
    \<and> optionalRef (fld input ''producerAssignmentRef'') ''producerAssignmentRef'' = Inr (fld v ''producerAssignmentRef'')
    \<and> optionalRef (fld input ''currentArtifactRevisionRef'') ''currentArtifactRevisionRef'' = Inr (fld v ''currentArtifactRevisionRef'')
    \<and> exactRef (fld input ''assuranceGraphRef'') ''assuranceGraphRef'' = Inr (fld v ''assuranceGraphRef'')
    \<and> optionalRef (fld input ''gateDecisionRef'') ''gateDecisionRef'' = Inr (fld v ''gateDecisionRef'')
    \<and> fld v ''remandCount'' = count_field E (fld input ''remandCount'')
    \<and> fld (fld v ''budgetUsage'') ''attempts'' = count_field E (fld (fld input ''budgetUsage'') ''attempts'')
    \<and> fld (fld v ''budgetUsage'') ''remands'' = count_field E (fld (fld input ''budgetUsage'') ''remands'')"
  using assms unfolding buildArtifactLifecycleInstance_def ebind_defaulted fld_dflt
  apply (elim run_elims)
  apply hypsubst_thin
  apply (simp (no_asm_simp) add: fld_artifact)
  apply blast
  done

lemma artifactLifecycleInstanceRef_Inr:
  assumes "artifactLifecycleInstanceRef E v = Inr r"
  shows "truthy r" "exactRef r l = Inr r"
    "\<exists>p. artifactExactRef ''artifact_lifecycle_instance'' v ''lifecycleInstanceRevisionId'' p = Inr r"
  using assms by (auto simp: artifactLifecycleInstanceRef_def monad dest: artifactExactRef_truthy artifactExactRef_again)

lemma reviseArtifactLifecycleInstance_Inr:
  assumes "reviseArtifactLifecycleInstance E previous input = Inr v"
  shows "validateArtifactLifecycleInstance E previous = Inr True"
    "\<not> one_of (fld previous ''state'') TERMINAL_LIFECYCLE_STATES"
    "validateArtifactLifecycleInstance E v = Inr True"
    "\<exists>i \<ge> 1. fld previous ''lifecycleRevision'' = num i \<and> fld v ''lifecycleRevision'' = num (i + 1)"
    "fld v ''lifecycleId'' = JStr (js_text (fld previous ''lifecycleId'') [])"
    "artifactLifecycleInstanceRef E previous = Inr (fld v ''predecessorRef'')"
    "exactRefMatches (fld previous ''artifactTypeConstitutionRef'') (fld v ''artifactTypeConstitutionRef'')"
    "exactRef (fld previous ''requestRef'') ''requestRef'' = Inr (fld v ''requestRef'')"
    "normalizeScope (fld previous ''subjectScope'') = Inr (fld v ''subjectScope'')"
    "fld v ''state'' = JStr (js_text (coalesce (fld input ''state'') (fld previous ''state'')) ''requested'')"
    "optionalRef (own_or (dflt input) previous ''gateDecisionRef'') ''gateDecisionRef'' = Inr (fld v ''gateDecisionRef'')"
    "exactRef (own_or (dflt input) previous ''assuranceGraphRef'') ''assuranceGraphRef'' = Inr (fld v ''assuranceGraphRef'')"
    "optionalRef (own_or (dflt input) previous ''currentArtifactRevisionRef'') ''currentArtifactRevisionRef'' = Inr (fld v ''currentArtifactRevisionRef'')"
    "optionalRef (own_or (dflt input) previous ''producerAssignmentRef'') ''producerAssignmentRef'' = Inr (fld v ''producerAssignmentRef'')"
    "fld v ''remandCount'' = count_field E (coalesce (fld input ''remandCount'') (fld previous ''remandCount''))"
    "fld (fld v ''budgetUsage'') ''attempts'' =
       count_field E (fld (coalesce (fld input ''budgetUsage'') (fld previous ''budgetUsage'')) ''attempts'')"
proof -
  have inv: "\<exists>pinned predecessorRef. validateArtifactLifecycleInstance E previous = Inr True
     \<and> \<not> one_of (fld previous ''state'') TERMINAL_LIFECYCLE_STATES
     \<and> artifactTypeConstitutionRef E (fld input ''constitution'') = Inr pinned
     \<and> exactRefMatches (fld previous ''artifactTypeConstitutionRef'') pinned
     \<and> artifactLifecycleInstanceRef E previous = Inr predecessorRef
     \<and> buildArtifactLifecycleInstance E (revisedLifecycleInput E previous (dflt input) predecessorRef) = Inr v"
    using assms unfolding reviseArtifactLifecycleInstance_def ebind_defaulted fld_dflt Let_def
    by (elim run_elims) (drule lifecycle_instance.validated, blast)
  then obtain pinned predecessorRef where
    p: "validateArtifactLifecycleInstance E previous = Inr True"
    and t: "\<not> one_of (fld previous ''state'') TERMINAL_LIFECYCLE_STATES"
    and c: "artifactTypeConstitutionRef E (fld input ''constitution'') = Inr pinned"
    and m: "exactRefMatches (fld previous ''artifactTypeConstitutionRef'') pinned"
    and r: "artifactLifecycleInstanceRef E previous = Inr predecessorRef"
    and v: "buildArtifactLifecycleInstance E (revisedLifecycleInput E previous (dflt input) predecessorRef) = Inr v"
    by blast
  show "validateArtifactLifecycleInstance E previous = Inr True"
    "\<not> one_of (fld previous ''state'') TERMINAL_LIFECYCLE_STATES" by fact+
  show "validateArtifactLifecycleInstance E v = Inr True"
    using v by (rule buildArtifactLifecycleInstance_valid)
  note f = buildArtifactLifecycleInstance_Inr [OF v, unfolded revisedLifecycleInput_def, simplified]
  note q = validateArtifactLifecycleInstance_Inr [OF p]
  obtain i where i: "fld previous ''lifecycleRevision'' = num i" "i \<ge> 1"
    using q(3,4) by (auto dest!: isIntegerE)
  with f show "\<exists>i \<ge> 1. fld previous ''lifecycleRevision'' = num i \<and> fld v ''lifecycleRevision'' = num (i + 1)"
    by (auto simp: js_or_num)
  show "fld v ''lifecycleId'' = JStr (js_text (fld previous ''lifecycleId'') [])"
    using f js_text_fallback [OF q(2)] by auto
  show "artifactLifecycleInstanceRef E previous = Inr (fld v ''predecessorRef'')"
    using f r artifactLifecycleInstanceRef_Inr [OF r] by (auto simp: optionalRef_def)
  show "exactRefMatches (fld previous ''artifactTypeConstitutionRef'') (fld v ''artifactTypeConstitutionRef'')"
    using f m c by simp
  show "exactRef (fld previous ''requestRef'') ''requestRef'' = Inr (fld v ''requestRef'')"
    "normalizeScope (fld previous ''subjectScope'') = Inr (fld v ''subjectScope'')"
    "fld v ''state'' = JStr (js_text (coalesce (fld input ''state'') (fld previous ''state'')) ''requested'')"
    "optionalRef (own_or (dflt input) previous ''gateDecisionRef'') ''gateDecisionRef'' = Inr (fld v ''gateDecisionRef'')"
    "exactRef (own_or (dflt input) previous ''assuranceGraphRef'') ''assuranceGraphRef'' = Inr (fld v ''assuranceGraphRef'')"
    "optionalRef (own_or (dflt input) previous ''currentArtifactRevisionRef'') ''currentArtifactRevisionRef'' = Inr (fld v ''currentArtifactRevisionRef'')"
    "optionalRef (own_or (dflt input) previous ''producerAssignmentRef'') ''producerAssignmentRef'' = Inr (fld v ''producerAssignmentRef'')"
    "fld v ''remandCount'' = count_field E (coalesce (fld input ''remandCount'') (fld previous ''remandCount''))"
    "fld (fld v ''budgetUsage'') ''attempts'' =
       count_field E (fld (coalesce (fld input ''budgetUsage'') (fld previous ''budgetUsage'')) ''attempts'')"
    using f by blast+
qed

subsection \<open>Chains of lifecycle revisions\<close>

inductive lifecycle_step :: "jsenv \<Rightarrow> jval \<Rightarrow> jval \<Rightarrow> bool" for E where
  revise: "reviseArtifactLifecycleInstance E v input = Inr w \<Longrightarrow> lifecycle_step E v w"

inductive_cases lifecycle_stepE: "lifecycle_step E v w"

inductive_simps lifecycle_step_iff: "lifecycle_step E v w"

definition same_lifecycle :: "jval \<Rightarrow> jval \<Rightarrow> bool" where
  \<comment> \<open>the same lifecycle under the same pinned constitution\<close>
  "same_lifecycle v w \<longleftrightarrow>
     js_text (fld w ''lifecycleId'') [] = js_text (fld v ''lifecycleId'') []
     \<and> exactRefMatches (fld v ''artifactTypeConstitutionRef'') (fld w ''artifactTypeConstitutionRef'')"

interpretation lifecycle_chain: revision_chain "lifecycle_step E"
  "revision_number ''lifecycleRevision''" same_lifecycle
  "\<lambda>v w. artifactLifecycleInstanceRef E v = Inr (fld w ''predecessorRef'')" for E
proof unfold_locales
  fix v w assume "lifecycle_step E v w"
  then obtain input where r: "reviseArtifactLifecycleInstance E v input = Inr w" by (rule lifecycle_stepE)
  obtain i where i: "i \<ge> 1" "fld v ''lifecycleRevision'' = num i" "fld w ''lifecycleRevision'' = num (i + 1)"
    using reviseArtifactLifecycleInstance_Inr(4) [OF r] by blast
  then show "revision_number ''lifecycleRevision'' w = revision_number ''lifecycleRevision'' v + 1"
    "1 \<le> revision_number ''lifecycleRevision'' v"
    by (simp_all add: revision_number_num)
  show "same_lifecycle v w"
    using reviseArtifactLifecycleInstance_Inr(5,7) [OF r]
    unfolding same_lifecycle_def by simp
  show "artifactLifecycleInstanceRef E v = Inr (fld w ''predecessorRef'')"
    by (rule reviseArtifactLifecycleInstance_Inr(6) [OF r])
next
  fix u v w assume s: "same_lifecycle u v" "same_lifecycle v w"
  then have "exactRefMatches (fld u ''artifactTypeConstitutionRef'') (fld w ''artifactTypeConstitutionRef'')"
    unfolding same_lifecycle_def by (elim conjE) (rule exactRefMatches_trans)
  with s show "same_lifecycle u w" unfolding same_lifecycle_def by simp
qed

text \<open>C9: After n > 0 revisions of a lifecycle instance its revision number has grown by exactly n, its
identity and pinned constitution are unchanged, no revision recurs, and the last one names an
earlier revision of the chain as its predecessor.\<close>

theorem lifecycle_chain_history:
  assumes "(lifecycle_step E ^^ n) v w" "0 < n"
  shows "revision_number ''lifecycleRevision'' w = revision_number ''lifecycleRevision'' v + int n
    \<and> same_lifecycle v w \<and> v \<noteq> w
    \<and> (\<exists>u. (lifecycle_step E)\<^sup>*\<^sup>* v u \<and> artifactLifecycleInstanceRef E u = Inr (fld w ''predecessorRef''))"
proof -
  from assms have t: "(lifecycle_step E)\<^sup>+\<^sup>+ v w" by (auto simp: tranclp_power)
  obtain u where "(lifecycle_step E)\<^sup>*\<^sup>* v u" "artifactLifecycleInstanceRef E u = Inr (fld w ''predecessorRef'')"
    using t by (rule lifecycle_chain.chain_predecessor)
  then show ?thesis
    using lifecycle_chain.chain_number [OF assms(1)] lifecycle_chain.chain_lineage [OF t]
      lifecycle_chain.no_cycle [of E v] t by blast
qed

text \<open>Nothing is reachable from a terminal lifecycle state by revisions.\<close>

theorem terminal_is_final:
  assumes "(lifecycle_step E)\<^sup>*\<^sup>* v w" "one_of (fld v ''state'') TERMINAL_LIFECYCLE_STATES"
  shows "w = v"
  using assms(1)
proof (cases rule: converse_rtranclpE)
  case (step u)
  from step(1) obtain input where "reviseArtifactLifecycleInstance E v input = Inr u" by (rule lifecycle_stepE)
  from reviseArtifactLifecycleInstance_Inr(2) [OF this] assms(2) show ?thesis by blast
qed simp

text \<open>C27: Revising a valid lifecycle instance in a terminal state fails with the terminal-revision
error and the state as its detail.\<close>

theorem terminal_revision_refused:
  assumes "validateArtifactLifecycleInstance E v = Inr b" "one_of (fld v ''state'') TERMINAL_LIFECYCLE_STATES"
  shows "reviseArtifactLifecycleInstance E v input
    = fail ''world_manager_artifact_lifecycle_terminal_revision_forbidden'' (detail_text E (fld v ''state''))"
  using assms lifecycle_instance.validated [OF assms(1)] by (simp add: reviseArtifactLifecycleInstance_def)

lemma reviseArtifactLifecycleInstance_remands:
  assumes "reviseArtifactLifecycleInstance E previous input = Inr v"
  shows "fld (fld v ''budgetUsage'') ''remands'' =
       count_field E (fld (coalesce (fld input ''budgetUsage'') (fld previous ''budgetUsage'')) ''remands'')"
proof -
  obtain p where v: "buildArtifactLifecycleInstance E (revisedLifecycleInput E previous (dflt input) p) = Inr v"
    using assms unfolding reviseArtifactLifecycleInstance_def ebind_defaulted fld_dflt Let_def by (elim run_elims)
  show ?thesis using buildArtifactLifecycleInstance_Inr [OF v] by (simp add: revisedLifecycleInput_def)
qed

lemma own_or_JObj [simp]:
  "own_or (dflt (JObj fs)) previous k = (if k \<in> fst ` set fs then fld (JObj fs) k else fld previous k)"
  by (simp add: own_or_def has_own_def dflt_def)

lemma count_field_num [simp]: "0 \<le> n \<Longrightarrow> count_field E (num n) = num n"
  by (auto simp: count_field_def num_max0_def num_or_def js_or_def max_def) (auto simp: num_def)

end
