(* ===== verification/ProducerResolution.thy ===== *)
theory ProducerResolution
  imports LifecycleInstance
begin

section \<open>Choosing and assigning a producer\<close>

text \<open>
  \<open>resolveProducer\<close> and \<open>applyProducerAssignment\<close>
  (\<^verbatim>\<open>src/main/direct/worldmanager/artifact-lifecycle-runtime.js\<close>), with the candidate helpers they
  share with audit routing. The runtime repeats \<open>text\<close>, \<open>nowIso\<close>, \<open>stringList\<close> and
  \<open>runtimeArtifact\<close> (the kernel's \<open>artifact\<close>) with the code of the kernel, so the kernel's
  definitions serve for both. Candidates are sorted by load, then by the collation order of
  their identity; a stable insertion sort stands for \<open>Array.prototype.sort\<close>.
\<close>

subsection \<open>Candidates\<close>

definition refIdentity :: "jsenv \<Rightarrow> jval \<Rightarrow> string" where
  "refIdentity E ref = js_string E (js_or (fld ref ''kind'') (JStr [])) @ '':''
     @ js_string E (js_or (fld ref ''id'') (JStr []))"

definition candidateAgentRef :: "jval \<Rightarrow> string \<Rightarrow> jval res" where
  "candidateAgentRef candidate label =
     ebind (getp candidate ''agentRef'') (\<lambda>agentRef.
     exactRef (js_or (js_or agentRef (fld candidate ''actorRef'')) (fld candidate ''roleInstanceRef'')) label)"

definition candidateIsInScope :: "jval \<Rightarrow> jval \<Rightarrow> bool res" where
  "candidateIsInScope candidate sc =
     (let visibleProjects = stringList (fld candidate ''visibleProjectIds'') in
      ebind (getp sc ''projectId'') (\<lambda>projectId.
      Inr (\<not> truthy projectId \<or> ''*'' \<in> set visibleProjects
        \<or> projectId \<in> set (map JStr visibleProjects))))"

definition candidateLoad :: "jsenv \<Rightarrow> jval \<Rightarrow> jnum" where
  "candidateLoad E candidate =
     (case num_max0 0 (num_or (to_number E (js_or (fld candidate ''currentLoad'') (num 0))) 0) of
        JNum n \<Rightarrow> n | _ \<Rightarrow> NaN)"

definition candidateIdentity :: "jsenv \<Rightarrow> jval \<Rightarrow> string" where
  \<comment> \<open>\<open>refIdentity(candidateAgentRef(candidate))\<close> of a candidate whose reference is valid\<close>
  "candidateIdentity E candidate =
     (case candidateAgentRef candidate ''candidate.agentRef'' of Inr r \<Rightarrow> refIdentity E r | Inl e \<Rightarrow> [])"

definition sortsBefore :: "jsenv \<Rightarrow> jval \<Rightarrow> jval \<Rightarrow> bool" where
  \<comment> \<open>the comparator returns a negative number\<close>
  "sortsBefore E left right \<longleftrightarrow> num_less (candidateLoad E left) (candidateLoad E right)
     \<or> \<not> num_less (candidateLoad E right) (candidateLoad E left)
       \<and> locale_less E (candidateIdentity E left) (candidateIdentity E right)"

fun insertCandidate :: "jsenv \<Rightarrow> jval \<Rightarrow> jval list \<Rightarrow> jval list" where
  "insertCandidate E c [] = [c]"
| "insertCandidate E c (d # ds) = (if sortsBefore E c d then c # d # ds else d # insertCandidate E c ds)"

definition sortedCandidates :: "jsenv \<Rightarrow> jval list \<Rightarrow> jval list" where
  "sortedCandidates E candidates = fold (insertCandidate E) candidates []"

definition firstOrNull :: "jval list \<Rightarrow> jval" where
  \<comment> \<open>\<open>xs[0] || null\<close> for a list of objects\<close>
  "firstOrNull xs = (case xs of [] \<Rightarrow> JNull | x # _ \<Rightarrow> x)"

definition refOrNull :: "jval res \<Rightarrow> jval" where
  \<comment> \<open>the value of \<open>agentRef\<close> after \<open>try { agentRef = ... } catch { ... }\<close>\<close>
  "refOrNull r = (case r of Inr v \<Rightarrow> v | Inl e \<Rightarrow> JNull)"

definition reason :: "bool \<Rightarrow> string \<Rightarrow> string list" where
  \<comment> \<open>\<open>if (c) reasons.push(code)\<close>\<close>
  "reason c code = (if c then [code] else [])"

definition availabilityReasons :: "jval \<Rightarrow> string list" where
  "availabilityReasons candidate =
     reason (fld candidate ''active'' = JBool False) ''inactive''
     @ reason (fld candidate ''substrateAvailable'' = JBool False) ''substrate_unavailable''
     @ reason (fld candidate ''budgetAvailable'' = JBool False) ''budget_unavailable''"

subsection \<open>Resolving the producer\<close>

definition ARTIFACT_PRODUCER_RESOLUTION_SCHEMA :: string where
  "ARTIFACT_PRODUCER_RESOLUTION_SCHEMA = ''direct_artifact_producer_resolution@1''"

definition producerReasons :: "jval \<Rightarrow> jval \<Rightarrow> string \<Rightarrow> jval \<Rightarrow> string list res" where
  "producerReasons constitution subjectScope requestedRole candidate =
     ebind (getp candidate ''role'') (\<lambda>role.
     ebind (candidateIsInScope candidate subjectScope) (\<lambda>inScope.
     Inr (reason (isl (candidateAgentRef candidate ''candidate.agentRef'')) ''agent_ref_invalid''
       @ reason (js_text role [] \<noteq> requestedRole) ''role_mismatch''
       @ availabilityReasons candidate
       @ reason (\<not> inScope) ''scope_not_visible''
       @ reason (isArray (fld candidate ''eligibleArtifactTypeIds'')
           \<and> \<not> list_ex (\<lambda>x. same_value_zero x (fld constitution ''artifactTypeId''))
                (elems (fld candidate ''eligibleArtifactTypeIds''))) ''artifact_type_ineligible''
       @ reason (\<not> truthy (fld candidate ''eligibilityReceiptRef'')) ''eligibility_receipt_missing'')))"

definition resolveProducer :: "jsenv \<Rightarrow> jval \<Rightarrow> jval res" where
  "resolveProducer E arg =
     ebind (defaulted arg) (\<lambda>input.
     let constitution = fld input ''constitution''; lifecycle = fld input ''lifecycle'' in
     ebind (validateArtifactTypeConstitution E constitution) (\<lambda>_.
     ebind (validateArtifactLifecycleInstance E lifecycle) (\<lambda>_.
     ebind (artifactTypeConstitutionRef E constitution) (\<lambda>constitutionRef.
     if \<not> exactRefMatches (fld lifecycle ''artifactTypeConstitutionRef'') constitutionRef
     then fail ''world_manager_artifact_producer_constitution_mismatch'' []
     else
     let requestedRole = js_text (fld input ''producerRole'') ''implementation_worker'' in
     ebind (emap (\<lambda>candidate. ebind (producerReasons constitution (fld lifecycle ''subjectScope'')
         requestedRole candidate) (\<lambda>reasons. Inr (candidate, reasons))) (elems (fld input ''candidates'')))
       (\<lambda>judged.
     let eligible = map fst (filter (\<lambda>(candidate, reasons). reasons = []) judged);
         rejected = map (\<lambda>(candidate, reasons). JObj [
             (''agentRef'', refOrNull (candidateAgentRef candidate ''candidate.agentRef'')),
             (''reasons'', strings reasons)])
           (filter (\<lambda>(candidate, reasons). reasons \<noteq> []) judged);
         selected = firstOrNull (sortedCandidates E eligible) in
     ebind (artifactLifecycleInstanceRef E lifecycle) (\<lambda>lifecycleRef.
     ebind (emap (\<lambda>candidate. candidateAgentRef candidate ''candidate.agentRef'') eligible) (\<lambda>eligibleRefs.
     ebind (if truthy selected then candidateAgentRef selected ''candidate.agentRef'' else Inr JNull)
       (\<lambda>selectedRef.
     ebind (stamped E input) (\<lambda>createdAt.
     let resolution = artifact E ARTIFACT_PRODUCER_RESOLUTION_SCHEMA ''producerResolutionId''
       (stableId E ''wm_artifact_producer_resolution'' (JObj [
          (''lifecycleRef'', lifecycleRef), (''requestedRole'', JStr requestedRole),
          (''eligible'', JArr eligibleRefs), (''rejected'', JArr rejected)]))
       [(''lifecycleRef'', lifecycleRef),
        (''producerEligibilityRef'', fld constitution ''producerEligibilityRef''),
        (''requestedRole'', JStr requestedRole),
        (''eligibleAgentRefs'', JArr eligibleRefs),
        (''rejected'', JArr rejected),
        (''selectedAgentRef'', selectedRef),
        (''resolutionState'', JStr (if truthy selected then ''resolved'' else ''unresolved'')),
        (''deterministicSelection'', JBool True),
        (''providerLaunchAuthorized'', JBool False),
        (''canonicalEffect'', JBool False),
        (''createdAt'', createdAt)] in
     ebind (if truthy selected then buildProducerAssignment E (JObj [
         (''lifecycleRef'', lifecycleRef),
         (''lifecycleId'', fld lifecycle ''lifecycleId''),
         (''producerRole'', JStr requestedRole),
         (''producerAgentRef'', selectedRef),
         (''producerRunRef'', fld selected ''agentRunRef''),
         (''eligibilityRef'', fld selected ''eligibilityReceiptRef''),
         (''now'', fld input ''now''),
         (''createdAt'', fld input ''createdAt'')]) else Inr JNull) (\<lambda>assignment.
     Inr (JObj [(''resolution'', resolution), (''assignment'', assignment)])))))))))))"

subsection \<open>Applying an assignment\<close>

definition applyProducerAssignment :: "jsenv \<Rightarrow> jval \<Rightarrow> jval res" where
  "applyProducerAssignment E arg =
     ebind (defaulted arg) (\<lambda>input.
     let constitution = fld input ''constitution''; lifecycle = fld input ''lifecycle'';
         assignment = fld input ''assignment'' in
     ebind (validateArtifactTypeConstitution E constitution) (\<lambda>_.
     ebind (validateArtifactLifecycleInstance E lifecycle) (\<lambda>_.
     ebind (validateProducerAssignment E assignment) (\<lambda>_.
     if \<not> strict_eq (fld assignment ''lifecycleId'') (fld lifecycle ''lifecycleId'')
     then fail ''world_manager_artifact_producer_assignment_lifecycle_mismatch'' []
     else
     ebind (getp (fld lifecycle ''subjectScope'') ''projectId'') (\<lambda>projectId.
     ebind (producerAssignmentRef E assignment projectId) (\<lambda>assignmentRef.
     ebind (getp (fld lifecycle ''budgetUsage'') ''attempts'') (\<lambda>attempts.
     reviseArtifactLifecycleInstance E lifecycle (JObj [
       (''constitution'', constitution),
       (''producerAssignmentRef'', assignmentRef),
       (''state'', JStr ''under_production''),
       (''budgetUsage'', spread (fld lifecycle ''budgetUsage'') [(''attempts'', js_plus1 E attempts)]),
       (''now'', fld input ''now''),
       (''createdAt'', fld input ''createdAt'')]))))))))"

subsection \<open>The order of candidates\<close>

lemma candidateLoad_number: "candidateLoad E c \<noteq> NaN"
  by (auto simp: candidateLoad_def num_max0_def num_or_def split: jnum.splits)

lemma num_not_less_trans: "\<not> num_less b a \<Longrightarrow> \<not> num_less c b \<Longrightarrow> b \<noteq> NaN \<Longrightarrow> \<not> num_less c a"
  by (cases a; cases b; cases c) auto

lemma num_less_asym: "num_less a b \<Longrightarrow> \<not> num_less b a"
  by (cases a; cases b) auto

abbreviation not_heavier :: "jsenv \<Rightarrow> jval \<Rightarrow> jval \<Rightarrow> bool" where
  "not_heavier E c d \<equiv> \<not> num_less (candidateLoad E d) (candidateLoad E c)"

lemma mset_insertCandidate [simp]: "mset (insertCandidate E c ds) = add_mset c (mset ds)"
  by (induction ds) auto

lemma set_insertCandidate [simp]: "set (insertCandidate E c ds) = insert c (set ds)"
  by (induction ds) auto

lemma sorted_insertCandidate:
  "sorted_wrt (not_heavier E) ds \<Longrightarrow> sorted_wrt (not_heavier E) (insertCandidate E c ds)"
proof (induction ds)
  case (Cons d ds)
  have "not_heavier E c d" if "sortsBefore E c d"
    using that by (auto simp: sortsBefore_def dest: num_less_asym)
  moreover have "not_heavier E d c" if "\<not> sortsBefore E c d"
    using that by (auto simp: sortsBefore_def)
  moreover have "not_heavier E c x" if "not_heavier E c d" "not_heavier E d x" for x
    using num_not_less_trans [OF that candidateLoad_number] .
  ultimately show ?case using Cons by auto
qed simp

lemma mset_sortedCandidates [simp]: "mset (sortedCandidates E cs) = mset cs"
proof -
  have "mset (fold (insertCandidate E) cs ds) = mset cs + mset ds" for ds
    by (induction cs arbitrary: ds) auto
  then show ?thesis by (simp add: sortedCandidates_def)
qed

lemma set_sortedCandidates [simp]: "set (sortedCandidates E cs) = set cs"
  by (metis mset_sortedCandidates set_mset_mset)

lemma sorted_sortedCandidates: "sorted_wrt (not_heavier E) (sortedCandidates E cs)"
proof -
  have "sorted_wrt (not_heavier E) ds \<Longrightarrow> sorted_wrt (not_heavier E) (fold (insertCandidate E) cs ds)" for ds
    by (induction cs arbitrary: ds) (auto intro: sorted_insertCandidate)
  then show ?thesis by (simp add: sortedCandidates_def)
qed

lemma sortedCandidates_Nil_iff [simp]: "sortedCandidates E cs = [] \<longleftrightarrow> cs = []"
  by (metis mset_sortedCandidates mset_zero_iff)

lemma firstOrNull_lightest:
  assumes "cs \<noteq> []"
  shows "firstOrNull (sortedCandidates E cs) \<in> set cs"
    "d \<in> set cs \<Longrightarrow> not_heavier E (firstOrNull (sortedCandidates E cs)) d"
proof -
  obtain x xs where s: "sortedCandidates E cs = x # xs" using assms by (cases "sortedCandidates E cs") auto
  have "set cs = insert x (set xs)" by (metis list.simps(15) s set_sortedCandidates)
  moreover have "num_less (candidateLoad E x) (candidateLoad E x) = False" using num_less_asym by blast
  ultimately show "firstOrNull (sortedCandidates E cs) \<in> set cs"
    "d \<in> set cs \<Longrightarrow> not_heavier E (firstOrNull (sortedCandidates E cs)) d"
    using sorted_sortedCandidates [of E cs] by (auto simp: s firstOrNull_def)
qed

theorem candidates_sorted_by_load:
  "mset (sortedCandidates E cs) = mset cs
   \<and> sorted_wrt (\<lambda>c d. \<not> num_less (candidateLoad E d) (candidateLoad E c)) (sortedCandidates E cs)"
  by (simp add: sorted_sortedCandidates)

lemma candidateAgentRef_label: "candidateAgentRef c l = Inr r \<Longrightarrow> candidateAgentRef c l' = Inr r"
  by (auto simp: candidateAgentRef_def monad dest: exactRef_label)

lemma candidateAgentRef_truthy:
  assumes "candidateAgentRef c l = Inr r" shows "truthy c"
proof -
  have "exactRef JUndef l \<noteq> Inr r" using exactRef_object [of JUndef l r] by auto
  then show ?thesis using assms
    by (cases c) (auto simp: candidateAgentRef_def getp_def js_or_def)
qed

lemma candidateAgentRef_again: "candidateAgentRef c l = Inr r \<Longrightarrow> exactRef r l' = Inr r"
  by (auto simp: candidateAgentRef_def monad dest: exactRef_exactRef)

subsection \<open>What resolution promises\<close>

definition eligible_producer :: "jval \<Rightarrow> jval \<Rightarrow> string \<Rightarrow> jval \<Rightarrow> bool" where
  \<comment> \<open>no reason speaks against the candidate\<close>
  "eligible_producer constitution subjectScope requestedRole c \<longleftrightarrow>
     (\<exists>r. candidateAgentRef c ''candidate.agentRef'' = Inr r)
     \<and> js_text (fld c ''role'') [] = requestedRole
     \<and> fld c ''active'' \<noteq> JBool False \<and> fld c ''substrateAvailable'' \<noteq> JBool False
     \<and> fld c ''budgetAvailable'' \<noteq> JBool False
     \<and> candidateIsInScope c subjectScope = Inr True
     \<and> (isArray (fld c ''eligibleArtifactTypeIds'') \<longrightarrow> (\<exists>x\<in>set (elems (fld c ''eligibleArtifactTypeIds'')).
          same_value_zero x (fld constitution ''artifactTypeId'')))
     \<and> truthy (fld c ''eligibilityReceiptRef'')"

lemma reason_Nil [simp]: "reason c code = [] \<longleftrightarrow> \<not> c"
  by (simp add: reason_def)

lemma not_isl_iff: "\<not> isl (m :: 'a res) \<longleftrightarrow> (\<exists>x. m = Inr x)"
  by (cases m) auto

lemma candidateAgentRef_not_nullish: "candidateAgentRef c l = Inr r \<Longrightarrow> \<not> nullish c"
  by (auto simp: candidateAgentRef_def monad)

lemma producerReasons_Nil:
  "producerReasons constitution subjectScope requestedRole c = Inr []
     \<longleftrightarrow> eligible_producer constitution subjectScope requestedRole c"
  by (auto simp: producerReasons_def eligible_producer_def monad availabilityReasons_def not_isl_iff
      list_ex_iff dest: candidateAgentRef_not_nullish)

lemma eligible_truthy: "eligible_producer constitution subjectScope role c \<Longrightarrow> truthy c"
  by (auto simp: eligible_producer_def dest: candidateAgentRef_truthy)

lemma resolveProducer_Inr:
  assumes "resolveProducer E input = Inr out"
  defines "role \<equiv> js_text (fld input ''producerRole'') ''implementation_worker''"
  defines "eligible \<equiv> filter (eligible_producer (fld input ''constitution'')
     (fld (fld input ''lifecycle'') ''subjectScope'') role) (elems (fld input ''candidates''))"
  defines "selected \<equiv> firstOrNull (sortedCandidates E eligible)"
  shows "fld (fld out ''resolution'') ''resolutionState'' = JStr (if truthy selected then ''resolved'' else ''unresolved'')
    \<and> fld (fld out ''resolution'') ''providerLaunchAuthorized'' = JBool False
    \<and> length (elems (fld (fld out ''resolution'') ''rejected'')) = length (elems (fld input ''candidates'')) - length eligible
    \<and> (\<not> truthy selected \<longrightarrow> fld out ''assignment'' = JNull)
    \<and> (truthy selected \<longrightarrow> (\<exists>r lifecycleRef. candidateAgentRef selected ''candidate.agentRef'' = Inr r
       \<and> fld (fld out ''resolution'') ''selectedAgentRef'' = r
       \<and> buildProducerAssignment E (JObj [
         (''lifecycleRef'', lifecycleRef),
         (''lifecycleId'', fld (fld input ''lifecycle'') ''lifecycleId''),
         (''producerRole'', JStr role),
         (''producerAgentRef'', r),
         (''producerRunRef'', fld selected ''agentRunRef''),
         (''eligibilityRef'', fld selected ''eligibilityReceiptRef''),
         (''now'', fld input ''now''),
         (''createdAt'', fld input ''createdAt'')]) = Inr (fld out ''assignment'')))"
  using assms(1) unfolding resolveProducer_def ebind_defaulted fld_dflt
  apply (elim run_elims)
  apply (frule emap_judged(1), drule emap_judged(2))
  apply hypsubst_thin
  apply (simp (no_asm_simp) add: fld_artifact eligible_def [symmetric] role_def [symmetric] producerReasons_Nil)
  apply (simp add: role_def eligible_def selected_def fld_artifact producerReasons_Nil strings_def split: if_splits)
  apply blast
  done

definition rejection :: "jval \<Rightarrow> jval \<Rightarrow> string \<Rightarrow> jval \<Rightarrow> jval \<Rightarrow> bool" where
  \<comment> \<open>\<open>entry\<close> names the candidate and every reason that speaks against it\<close>
  "rejection constitution subjectScope role c entry \<longleftrightarrow> (\<exists>reasons. reasons \<noteq> []
     \<and> producerReasons constitution subjectScope role c = Inr reasons
     \<and> entry = JObj [(''agentRef'', refOrNull (candidateAgentRef c ''candidate.agentRef'')), (''reasons'', strings reasons)])"

lemma judged_rejections:
  assumes "emap (\<lambda>c. ebind (f c) (\<lambda>reasons. Inr (c, reasons))) cs = Inr judged"
  shows "list_all2 (\<lambda>c entry. \<exists>reasons. reasons \<noteq> [] \<and> f c = Inr reasons \<and> entry = g c reasons)
     (filter (\<lambda>c. f c \<noteq> Inr []) cs) (map (\<lambda>(c, reasons). g c reasons) (filter (\<lambda>(c, reasons). reasons \<noteq> []) judged))"
  using assms
  by (induction cs arbitrary: judged) (auto simp: ebind_Inr_iff simp del: emap_Inr_iff)

lemma resolveProducer_rejected:
  assumes "resolveProducer E input = Inr out"
  defines "role \<equiv> js_text (fld input ''producerRole'') ''implementation_worker''"
  shows "list_all2 (rejection (fld input ''constitution'') (fld (fld input ''lifecycle'') ''subjectScope'') role)
     (filter (\<lambda>c. \<not> eligible_producer (fld input ''constitution'') (fld (fld input ''lifecycle'') ''subjectScope'') role c)
        (elems (fld input ''candidates'')))
     (elems (fld (fld out ''resolution'') ''rejected''))"
  using assms(1) unfolding resolveProducer_def ebind_defaulted fld_dflt rejection_def producerReasons_Nil [symmetric] role_def
  apply (elim run_elims)
  apply (drule judged_rejections [where g = "\<lambda>c reasons. JObj [(''agentRef'', refOrNull (candidateAgentRef c ''candidate.agentRef'')), (''reasons'', strings reasons)]"])
  apply hypsubst_thin
  apply (simp (no_asm_simp) add: fld_artifact)
  done

lemma resolveProducer_eligible_refs:
  assumes "resolveProducer E input = Inr out"
  defines "role \<equiv> js_text (fld input ''producerRole'') ''implementation_worker''"
  shows "emap (\<lambda>c. candidateAgentRef c ''candidate.agentRef'') (filter (eligible_producer (fld input ''constitution'')
       (fld (fld input ''lifecycle'') ''subjectScope'') role) (elems (fld input ''candidates'')))
     = Inr (elems (fld (fld out ''resolution'') ''eligibleAgentRefs''))"
  using assms(1) unfolding resolveProducer_def ebind_defaulted fld_dflt role_def
  apply (elim run_elims)
  apply (drule emap_judged(1))
  apply hypsubst_thin
  apply (simp (no_asm_simp) add: fld_artifact)
  apply (simp add: producerReasons_Nil)
  done


subsection \<open>What applying an assignment promises\<close>

theorem producer_assignment_applied:
  assumes "applyProducerAssignment E input = Inr w"
    and "fld (fld (fld input ''lifecycle'') ''budgetUsage'') ''attempts'' = num n" "0 \<le> n"
  shows "lifecycle_step E (fld input ''lifecycle'') w \<and> fld w ''state'' = JStr ''under_production''
    \<and> strict_eq (fld (fld input ''assignment'') ''lifecycleId'') (fld (fld input ''lifecycle'') ''lifecycleId'')
    \<and> (\<exists>p. producerAssignmentRef E (fld input ''assignment'') p = Inr (fld w ''producerAssignmentRef''))
    \<and> fld (fld w ''budgetUsage'') ''attempts'' = num (n + 1)"
proof -
  let ?l = "fld input ''lifecycle''"
  obtain p r where e: "strict_eq (fld (fld input ''assignment'') ''lifecycleId'') (fld ?l ''lifecycleId'')"
    and r: "producerAssignmentRef E (fld input ''assignment'') p = Inr r"
    and v: "reviseArtifactLifecycleInstance E ?l (JObj [
       (''constitution'', fld input ''constitution''),
       (''producerAssignmentRef'', r),
       (''state'', JStr ''under_production''),
       (''budgetUsage'', spread (fld ?l ''budgetUsage'') [(''attempts'', js_plus1 E (num n))]),
       (''now'', fld input ''now''),
       (''createdAt'', fld input ''createdAt'')]) = Inr w"
    using assms(1) unfolding applyProducerAssignment_def ebind_defaulted fld_dflt Let_def
    by (elim run_elims) (auto simp: getp_Inr_iff assms(2))
  note q = reviseArtifactLifecycleInstance_Inr [OF v]
  note pr = producerAssignmentRef_Inr [OF r]
  have "lifecycle_step E ?l w" using v by (rule lifecycle_step.intros)
  moreover have "fld w ''state'' = JStr ''under_production''"
    using q(10) by (simp add: js_text_JStr trim_id is_space_def)
  moreover have "fld w ''producerAssignmentRef'' = r"
    using q(14) pr(1,2) by (simp add: optionalRef_def)
  moreover have "fld (fld w ''budgetUsage'') ''attempts'' = num (n + 1)"
    using q(16) assms(3) by (simp add: fld_spread)
  ultimately show ?thesis using e r by blast
qed

lemma applyProducerAssignment_step:
  assumes "applyProducerAssignment E input = Inr w"
  shows "lifecycle_step E (fld input ''lifecycle'') w" "fld w ''state'' = JStr ''under_production''"
    "optionalRef (fld (fld input ''lifecycle'') ''gateDecisionRef'') ''gateDecisionRef'' = Inr (fld w ''gateDecisionRef'')"
proof -
  let ?l = "fld input ''lifecycle''"
  obtain r u where v: "reviseArtifactLifecycleInstance E ?l (JObj [
       (''constitution'', fld input ''constitution''),
       (''producerAssignmentRef'', r),
       (''state'', JStr ''under_production''),
       (''budgetUsage'', u),
       (''now'', fld input ''now''),
       (''createdAt'', fld input ''createdAt'')]) = Inr w"
    using assms unfolding applyProducerAssignment_def ebind_defaulted fld_dflt Let_def
    by (elim run_elims)
  show "lifecycle_step E ?l w" using v by (rule lifecycle_step.intros)
  show "fld w ''state'' = JStr ''under_production''"
    using reviseArtifactLifecycleInstance_Inr(10) [OF v] by (simp add: js_text_JStr trim_id is_space_def)
  show "optionalRef (fld ?l ''gateDecisionRef'') ''gateDecisionRef'' = Inr (fld w ''gateDecisionRef'')"
    using reviseArtifactLifecycleInstance_Inr(11) [OF v] by simp
qed

end
