(* ===== verification/Publication.thy ===== *)
theory Publication
  imports ProducerResolution
begin

section \<open>Publishing a revision\<close>

text \<open>
  \<open>publishArtifactRevision\<close> (\<^verbatim>\<open>src/main/direct/worldmanager/artifact-lifecycle-runtime.js\<close>): it
  builds the next immutable revision, a fresh assurance graph for it, the revised lifecycle
  that points at both, and one invalidation for every prior assessment of the previous revision.
\<close>

definition needsAudit :: "jval \<Rightarrow> bool" where
  \<comment> \<open>\<open>graph.nodes.some((node) => node.active && node.requirementKind === "semantic_audit")\<close>\<close>
  "needsAudit graph = list_ex (\<lambda>node. truthy (fld node ''active'')
     \<and> fld node ''requirementKind'' = JStr ''semantic_audit'') (elems (fld graph ''nodes''))"

definition checkPreviousRevision :: "jsenv \<Rightarrow> jval \<Rightarrow> jval \<Rightarrow> bool res" where
  \<comment> \<open>the block \<open>if (previousRevision) {...}\<close>\<close>
  "checkPreviousRevision E previousRevision lifecycle =
     (if truthy previousRevision
      then ebind (validateArtifactRevision E previousRevision) (\<lambda>_.
        if \<not> strict_eq (fld previousRevision ''lifecycleId'') (fld lifecycle ''lifecycleId'')
        then fail ''world_manager_artifact_revision_previous_lifecycle_mismatch'' [] else Inr True)
      else Inr True)"

definition publicationInvalidations :: "jsenv \<Rightarrow> jval \<Rightarrow> jval \<Rightarrow> jval \<Rightarrow> jval \<Rightarrow> jval list res" where
  \<comment> \<open>\<open>invalidations\<close> when there is a previous revision\<close>
  "publicationInvalidations E input lifecycle previousRevision revision =
     ebind (efilter (\<lambda>assessment. ebind (validateAuditAssessment E assessment) (\<lambda>_.
         ebind (artifactRevisionRefFor E previousRevision) (\<lambda>previousRef.
         Inr (exactRefMatches (fld assessment ''artifactRevisionRef'') previousRef))))
       (elems (fld input ''priorAuditAssessments''))) (\<lambda>assessments.
     emap (\<lambda>assessment.
       ebind (getp (fld lifecycle ''subjectScope'') ''projectId'') (\<lambda>projectId.
       ebind (auditAssessmentRef E assessment projectId) (\<lambda>assessmentRef.
       ebind (artifactRevisionRefFor E previousRevision) (\<lambda>previousRef.
       ebind (artifactRevisionRefFor E revision) (\<lambda>currentRef.
       buildAuditInvalidation E (JObj [
         (''auditAssessmentRef'', assessmentRef),
         (''previousArtifactRevisionRef'', previousRef),
         (''currentArtifactRevisionRef'', currentRef),
         (''now'', fld input ''now''),
         (''createdAt'', fld input ''createdAt'')])))))) assessments)"

definition publishArtifactRevision :: "jsenv \<Rightarrow> jval \<Rightarrow> jval res" where
  "publishArtifactRevision E arg =
     ebind (defaulted arg) (\<lambda>input.
     let constitution = fld input ''constitution''; lifecycle = fld input ''lifecycle'';
         producerAssignment = fld input ''producerAssignment'' in
     ebind (validateArtifactTypeConstitution E constitution) (\<lambda>_.
     ebind (validateArtifactLifecycleInstance E lifecycle) (\<lambda>_.
     ebind (validateProducerAssignment E producerAssignment) (\<lambda>_.
     ebind (getp (fld lifecycle ''subjectScope'') ''projectId'') (\<lambda>projectId.
     ebind (producerAssignmentRef E producerAssignment projectId) (\<lambda>assignmentRef.
     if \<not> exactRefMatches (fld lifecycle ''producerAssignmentRef'') assignmentRef
       \<or> \<not> strict_eq (fld producerAssignment ''lifecycleId'') (fld lifecycle ''lifecycleId'')
     then fail ''world_manager_artifact_revision_producer_assignment_mismatch'' []
     else
     let previousRevision = js_or (fld input ''previousRevision'') JNull in
     ebind (checkPreviousRevision E previousRevision lifecycle) (\<lambda>_.
     ebind (artifactLifecycleInstanceRef E lifecycle) (\<lambda>lifecycleRef.
     ebind (artifactTypeConstitutionRef E constitution) (\<lambda>constitutionRef.
     ebind (if truthy previousRevision then artifactRevisionRefFor E previousRevision else Inr JNull)
       (\<lambda>predecessorRef.
     ebind (buildArtifactRevision E (JObj [
         (''lifecycleRef'', lifecycleRef),
         (''artifactTypeConstitutionRef'', constitutionRef),
         (''lifecycleId'', fld lifecycle ''lifecycleId''),
         (''artifactId'', JStr (js_text (fld input ''artifactId'')
            (raw_string (fld lifecycle ''lifecycleId'')))),
         (''revision'', if truthy previousRevision
            then js_plus1 E (fld previousRevision ''revision'') else num 1),
         (''predecessorRef'', predecessorRef),
         (''artifactContentRef'', fld input ''artifactContentRef''),
         (''producerAssignmentRef'', assignmentRef),
         (''producerRunRef'', fld producerAssignment ''producerRunRef''),
         (''evidenceRefs'', fld input ''evidenceRefs''),
         (''settledProperties'', fld input ''settledProperties''),
         (''now'', fld input ''now''),
         (''createdAt'', fld input ''createdAt'')])) (\<lambda>revision.
     ebind (buildAssuranceGraph E (JObj [
         (''constitution'', constitution),
         (''lifecycleId'', fld lifecycle ''lifecycleId''),
         (''artifactRevision'', revision),
         (''settledProperties'', fld revision ''settledProperties''),
         (''now'', fld input ''now''),
         (''createdAt'', fld input ''createdAt'')])) (\<lambda>graph.
     ebind (artifactRevisionRefFor E revision) (\<lambda>revisionRef.
     ebind (assuranceGraphRef E graph projectId) (\<lambda>graphRef.
     ebind (reviseArtifactLifecycleInstance E lifecycle (JObj [
         (''constitution'', constitution),
         (''currentArtifactRevisionRef'', revisionRef),
         (''assuranceGraphRef'', graphRef),
         (''gateDecisionRef'', JNull),
         (''state'', JStr (if needsAudit graph then ''under_audit'' else ''candidate'')),
         (''now'', fld input ''now''),
         (''createdAt'', fld input ''createdAt'')])) (\<lambda>revisedLifecycle.
     ebind (if truthy previousRevision
         then publicationInvalidations E input lifecycle previousRevision revision else Inr [])
       (\<lambda>invalidations.
     Inr (JObj [(''revision'', revision), (''graph'', graph), (''lifecycle'', revisedLifecycle),
       (''invalidations'', JArr invalidations)])))))))))))))))))"

subsection \<open>What publication promises\<close>

lemma publishArtifactRevision_Inr:
  assumes "publishArtifactRevision E input = Inr out"
  defines "lifecycle \<equiv> fld input ''lifecycle''" and "previous \<equiv> js_or (fld input ''previousRevision'') JNull"
  shows "\<exists>assignmentRef predecessorRef revisionRef graphRef projectId lifecycleRef constitutionRef invalidations.
     producerAssignmentRef E (fld input ''producerAssignment'') projectId = Inr assignmentRef
   \<and> buildArtifactRevision E (JObj [
         (''lifecycleRef'', lifecycleRef),
         (''artifactTypeConstitutionRef'', constitutionRef),
         (''lifecycleId'', fld lifecycle ''lifecycleId''),
         (''artifactId'', JStr (js_text (fld input ''artifactId'') (raw_string (fld lifecycle ''lifecycleId'')))),
         (''revision'', if truthy previous then js_plus1 E (fld previous ''revision'') else num 1),
         (''predecessorRef'', predecessorRef),
         (''artifactContentRef'', fld input ''artifactContentRef''),
         (''producerAssignmentRef'', assignmentRef),
         (''producerRunRef'', fld (fld input ''producerAssignment'') ''producerRunRef''),
         (''evidenceRefs'', fld input ''evidenceRefs''),
         (''settledProperties'', fld input ''settledProperties''),
         (''now'', fld input ''now''),
         (''createdAt'', fld input ''createdAt'')]) = Inr (fld out ''revision'')
   \<and> buildAssuranceGraph E (JObj [
         (''constitution'', fld input ''constitution''),
         (''lifecycleId'', fld lifecycle ''lifecycleId''),
         (''artifactRevision'', fld out ''revision''),
         (''settledProperties'', fld (fld out ''revision'') ''settledProperties''),
         (''now'', fld input ''now''),
         (''createdAt'', fld input ''createdAt'')]) = Inr (fld out ''graph'')
   \<and> artifactRevisionRefFor E (fld out ''revision'') = Inr revisionRef
   \<and> assuranceGraphRef E (fld out ''graph'') projectId = Inr graphRef
   \<and> reviseArtifactLifecycleInstance E lifecycle (JObj [
         (''constitution'', fld input ''constitution''),
         (''currentArtifactRevisionRef'', revisionRef),
         (''assuranceGraphRef'', graphRef),
         (''gateDecisionRef'', JNull),
         (''state'', JStr (if needsAudit (fld out ''graph'') then ''under_audit'' else ''candidate'')),
         (''now'', fld input ''now''),
         (''createdAt'', fld input ''createdAt'')]) = Inr (fld out ''lifecycle'')
   \<and> fld out ''invalidations'' = JArr invalidations
   \<and> (if truthy previous then publicationInvalidations E (dflt input) lifecycle previous (fld out ''revision'') else Inr [])
       = Inr invalidations
   \<and> exactRefMatches (fld lifecycle ''producerAssignmentRef'') assignmentRef
   \<and> (truthy previous \<longrightarrow> artifactRevisionRefFor E previous = Inr predecessorRef
        \<and> strict_eq (fld previous ''lifecycleId'') (fld lifecycle ''lifecycleId''))
   \<and> (\<not> truthy previous \<longrightarrow> predecessorRef = JNull)"
  using assms(1) unfolding publishArtifactRevision_def ebind_defaulted fld_dflt checkPreviousRevision_def
    lifecycle_def [symmetric] previous_def [symmetric]
  apply (elim run_elims)
  apply hypsubst_thin
  apply (simp (no_asm) split del: if_split)
  apply (intro exI conjI)
  apply (assumption | rule refl)+
  apply (auto split: if_splits simp: monad)
  done

lemma optionalRef_fix: "truthy r \<Longrightarrow> exactRef r l = Inr r \<Longrightarrow> optionalRef r l' = Inr r"
  using exactRef_label [of r l r l'] by (simp add: optionalRef_def)

lemma publication_restarts:
  assumes "publishArtifactRevision E input = Inr out"
  shows "artifactRevisionRefFor E (fld out ''revision'') = Inr (fld (fld out ''graph'') ''artifactRevisionRef'')
    \<and> fld (fld out ''lifecycle'') ''currentArtifactRevisionRef'' = fld (fld out ''graph'') ''artifactRevisionRef''
    \<and> (\<exists>p. assuranceGraphRef E (fld out ''graph'') p = Inr (fld (fld out ''lifecycle'') ''assuranceGraphRef''))
    \<and> fld (fld out ''lifecycle'') ''gateDecisionRef'' = JNull
    \<and> fld (fld out ''lifecycle'') ''state'' = JStr (if needsAudit (fld out ''graph'') then ''under_audit'' else ''candidate'')
    \<and> lifecycle_step E (fld input ''lifecycle'') (fld out ''lifecycle'')
    \<and> fld (fld out ''graph'') ''joinState'' = JStr ''pending''
    \<and> (\<forall>n\<in>set (elems (fld (fld out ''graph'') ''nodes'')).
         fld n ''state'' = (if truthy (fld n ''active'') then JStr ''pending'' else JStr ''inactive''))"
proof -
  let ?l = "fld input ''lifecycle''"
  obtain revisionRef graphRef projectId where
    b: "buildAssuranceGraph E (JObj [
         (''constitution'', fld input ''constitution''),
         (''lifecycleId'', fld ?l ''lifecycleId''),
         (''artifactRevision'', fld out ''revision''),
         (''settledProperties'', fld (fld out ''revision'') ''settledProperties''),
         (''now'', fld input ''now''),
         (''createdAt'', fld input ''createdAt'')]) = Inr (fld out ''graph'')"
    and r: "artifactRevisionRefFor E (fld out ''revision'') = Inr revisionRef"
    and g: "assuranceGraphRef E (fld out ''graph'') projectId = Inr graphRef"
    and l: "reviseArtifactLifecycleInstance E ?l (JObj [
         (''constitution'', fld input ''constitution''),
         (''currentArtifactRevisionRef'', revisionRef),
         (''assuranceGraphRef'', graphRef),
         (''gateDecisionRef'', JNull),
         (''state'', JStr (if needsAudit (fld out ''graph'') then ''under_audit'' else ''candidate'')),
         (''now'', fld input ''now''),
         (''createdAt'', fld input ''createdAt'')]) = Inr (fld out ''lifecycle'')"
    using publishArtifactRevision_Inr [OF assms] by (elim exE conjE) (rule that; assumption)
  note rr = artifactRevisionRefFor_Inr [OF r] and gr = assuranceGraphRef_Inr [OF g]
  have "truthy (fld out ''revision'')"
    using validateArtifactRevision_Inr(2) [OF rr(3)] by (auto dest: isPlainObjectE)
  with buildAssuranceGraph_Inr [OF b] r have gref: "fld (fld out ''graph'') ''artifactRevisionRef'' = revisionRef"
    and pending: "fld (fld out ''graph'') ''joinState'' = JStr ''pending''"
    using rr(1) by simp_all
  obtain rules evaluations requirements where
    "fld (fld out ''graph'') ''nodes'' = JArr (map (graphNode rules evaluations revisionRef) requirements)"
    using buildAssuranceGraph_Inr [OF b] unfolding gref by blast
  then have nodes: "\<forall>n\<in>set (elems (fld (fld out ''graph'') ''nodes'')).
         fld n ''state'' = (if truthy (fld n ''active'') then JStr ''pending'' else JStr ''inactive'')"
    by (simp add: graphNode_def Let_def)
  note q = reviseArtifactLifecycleInstance_Inr [OF l]
  have "fld (fld out ''lifecycle'') ''currentArtifactRevisionRef'' = revisionRef"
    using q(13) optionalRef_fix [OF rr(1) rr(2)] by simp
  moreover have "fld (fld out ''lifecycle'') ''assuranceGraphRef'' = graphRef"
    using q(12) gr(2) by simp
  moreover have "fld (fld out ''lifecycle'') ''gateDecisionRef'' = JNull"
    using q(11) by (simp add: optionalRef_def)
  moreover have "fld (fld out ''lifecycle'') ''state'' =
      JStr (if needsAudit (fld out ''graph'') then ''under_audit'' else ''candidate'')"
    using q(10) by (simp add: js_text_JStr trim_id is_space_def split: if_splits)
  ultimately show ?thesis
    using r g gref pending nodes lifecycle_step.intros [OF l] by simp blast
qed

text \<open>C14: Publishing a revision binds a fresh assurance graph to it with every active node pending,
points the lifecycle at both and withdraws the previous gate decision.\<close>

theorem publication_restarts_assurance:
  assumes "publishArtifactRevision E input = Inr out"
  shows "artifactRevisionRefFor E (fld out ''revision'') = Inr (fld (fld out ''graph'') ''artifactRevisionRef'')
    \<and> fld (fld out ''lifecycle'') ''currentArtifactRevisionRef'' = fld (fld out ''graph'') ''artifactRevisionRef''
    \<and> (\<exists>p. assuranceGraphRef E (fld out ''graph'') p = Inr (fld (fld out ''lifecycle'') ''assuranceGraphRef''))
    \<and> fld (fld out ''lifecycle'') ''gateDecisionRef'' = JNull
    \<and> fld (fld out ''lifecycle'') ''state'' = JStr (if needsAudit (fld out ''graph'') then ''under_audit'' else ''candidate'')
    \<and> lifecycle_step E (fld input ''lifecycle'') (fld out ''lifecycle'')
    \<and> fld (fld out ''graph'') ''joinState'' = JStr ''pending''
    \<and> (\<forall>n\<in>set (elems (fld (fld out ''graph'') ''nodes'')).
         fld n ''state'' = (if truthy (fld n ''active'') then JStr ''pending'' else JStr ''inactive''))"
  by (rule publication_restarts [OF assms])

theorem publication_extends_lineage:
  assumes "publishArtifactRevision E input = Inr out"
  shows "if truthy (fld input ''previousRevision'')
    then (\<exists>i\<ge>1. fld (fld input ''previousRevision'') ''revision'' = num i \<and> fld (fld out ''revision'') ''revision'' = num (i + 1))
      \<and> artifactRevisionRefFor E (fld input ''previousRevision'') = Inr (fld (fld out ''revision'') ''predecessorRef'')
      \<and> strict_eq (fld (fld input ''previousRevision'') ''lifecycleId'') (fld (fld input ''lifecycle'') ''lifecycleId'')
    else fld (fld out ''revision'') ''revision'' = num 1 \<and> fld (fld out ''revision'') ''predecessorRef'' = JNull"
proof -
  let ?p = "js_or (fld input ''previousRevision'') JNull"
  obtain lifecycleRef constitutionRef assignmentRef predecessorRef where
    b: "buildArtifactRevision E (JObj [
         (''lifecycleRef'', lifecycleRef),
         (''artifactTypeConstitutionRef'', constitutionRef),
         (''lifecycleId'', fld (fld input ''lifecycle'') ''lifecycleId''),
         (''artifactId'', JStr (js_text (fld input ''artifactId'') (raw_string (fld (fld input ''lifecycle'') ''lifecycleId'')))),
         (''revision'', if truthy ?p then js_plus1 E (fld ?p ''revision'') else num 1),
         (''predecessorRef'', predecessorRef),
         (''artifactContentRef'', fld input ''artifactContentRef''),
         (''producerAssignmentRef'', assignmentRef),
         (''producerRunRef'', fld (fld input ''producerAssignment'') ''producerRunRef''),
         (''evidenceRefs'', fld input ''evidenceRefs''),
         (''settledProperties'', fld input ''settledProperties''),
         (''now'', fld input ''now''),
         (''createdAt'', fld input ''createdAt'')]) = Inr (fld out ''revision'')"
    and t: "truthy ?p \<longrightarrow> artifactRevisionRefFor E ?p = Inr predecessorRef
        \<and> strict_eq (fld ?p ''lifecycleId'') (fld (fld input ''lifecycle'') ''lifecycleId'')"
    and n: "\<not> truthy ?p \<longrightarrow> predecessorRef = JNull"
    using publishArtifactRevision_Inr [OF assms] by (elim exE conjE) (rule that; assumption)
  note f = buildArtifactRevision_Inr [OF b, simplified]
  show ?thesis
  proof (cases "truthy (fld input ''previousRevision'')")
    case True
    with t have r: "artifactRevisionRefFor E (fld input ''previousRevision'') = Inr predecessorRef"
      "strict_eq (fld (fld input ''previousRevision'') ''lifecycleId'') (fld (fld input ''lifecycle'') ''lifecycleId'')" by simp_all
    note rr = artifactRevisionRefFor_Inr [OF r(1)]
    obtain i where i: "i \<ge> 1" "fld (fld input ''previousRevision'') ''revision'' = num i"
      using validateArtifactRevision_Inr(1) [OF rr(3)] by blast
    have "fld (fld out ''revision'') ''predecessorRef'' = predecessorRef"
      using f optionalRef_fix [OF rr(1) rr(2)] by simp
    moreover have "fld (fld out ''revision'') ''revision'' = num (i + 1)"
      using f True i by (simp add: js_or_num)
    ultimately show ?thesis using True r i by auto
  next
    case False
    then show ?thesis using f n by (simp add: optionalRef_def js_or_num num_def)
  qed
qed

text \<open>C39: Publishing over a previous revision invalidates exactly the prior assessments about that
revision: each becomes stale and names the old and the new revision.\<close>

theorem replaced_revision_audits_go_stale:
  assumes "publishArtifactRevision E input = Inr out" "truthy (fld input ''previousRevision'')"
  shows "\<exists>previousRef invalidations. artifactRevisionRefFor E (fld input ''previousRevision'') = Inr previousRef
    \<and> fld out ''invalidations'' = JArr invalidations
    \<and> list_all2 (\<lambda>a i. (\<exists>p. auditAssessmentRef E a p = Inr (fld i ''auditAssessmentRef''))
          \<and> fld i ''previousArtifactRevisionRef'' = previousRef
          \<and> artifactRevisionRefFor E (fld out ''revision'') = Inr (fld i ''currentArtifactRevisionRef'')
          \<and> \<not> exactRefMatches previousRef (fld i ''currentArtifactRevisionRef'')
          \<and> fld i ''priorAssessmentStanding'' = JStr ''stale'')
        (filter (\<lambda>a. exactRefMatches (fld a ''artifactRevisionRef'') previousRef)
          (elems (fld input ''priorAuditAssessments''))) invalidations"
proof -
  let ?l = "fld input ''lifecycle''" and ?v = "fld input ''previousRevision''"
  obtain previousRef revisionRef invalidations where r: "artifactRevisionRefFor E ?v = Inr previousRef"
    and n: "artifactRevisionRefFor E (fld out ''revision'') = Inr revisionRef"
    and o: "fld out ''invalidations'' = JArr invalidations"
    and p: "publicationInvalidations E (dflt input) ?l ?v (fld out ''revision'') = Inr invalidations"
    using publishArtifactRevision_Inr [OF assms(1)] assms(2) by (elim exE conjE) (simp split: if_splits)
  obtain as where f: "efilter (\<lambda>assessment. ebind (validateAuditAssessment E assessment) (\<lambda>_.
         ebind (artifactRevisionRefFor E ?v) (\<lambda>previousRef.
         Inr (exactRefMatches (fld assessment ''artifactRevisionRef'') previousRef))))
       (elems (fld input ''priorAuditAssessments'')) = Inr as"
    and a: "emap (\<lambda>assessment.
       ebind (getp (fld ?l ''subjectScope'') ''projectId'') (\<lambda>projectId.
       ebind (auditAssessmentRef E assessment projectId) (\<lambda>assessmentRef.
       ebind (artifactRevisionRefFor E ?v) (\<lambda>previousRef.
       ebind (artifactRevisionRefFor E (fld out ''revision'')) (\<lambda>currentRef.
       buildAuditInvalidation E (JObj [
         (''auditAssessmentRef'', assessmentRef),
         (''previousArtifactRevisionRef'', previousRef),
         (''currentArtifactRevisionRef'', currentRef),
         (''now'', fld input ''now''),
         (''createdAt'', fld input ''createdAt'')])))))) as = Inr invalidations"
    using p unfolding publicationInvalidations_def fld_dflt by (auto simp: ebind_Inr_iff simp del: emap_Inr_iff)
  have as: "as = filter (\<lambda>a. exactRefMatches (fld a ''artifactRevisionRef'') previousRef) (elems (fld input ''priorAuditAssessments''))"
    using efilter_Inr [OF f] by (auto simp: r ebind_Inr_iff intro!: filter_cong)
  note rr = artifactRevisionRefFor_Inr [OF r] and nn = artifactRevisionRefFor_Inr [OF n]
  have step: "(\<exists>p. auditAssessmentRef E x p = Inr (fld i ''auditAssessmentRef''))
          \<and> fld i ''previousArtifactRevisionRef'' = previousRef
          \<and> fld i ''currentArtifactRevisionRef'' = revisionRef
          \<and> \<not> exactRefMatches previousRef revisionRef
          \<and> fld i ''priorAssessmentStanding'' = JStr ''stale''"
    if "auditAssessmentRef E x p = Inr s" and b: "buildAuditInvalidation E (JObj [
         (''auditAssessmentRef'', s), (''previousArtifactRevisionRef'', previousRef),
         (''currentArtifactRevisionRef'', revisionRef), (''now'', fld input ''now''),
         (''createdAt'', fld input ''createdAt'')]) = Inr i" for x p s i
    using buildAuditInvalidation_Inr [OF b] auditAssessmentRef_Inr(2) [OF that(1)] rr(2) nn(2) that(1) by auto
  have "list_all2 (\<lambda>x i. (\<exists>p. auditAssessmentRef E x p = Inr (fld i ''auditAssessmentRef''))
          \<and> fld i ''previousArtifactRevisionRef'' = previousRef
          \<and> fld i ''currentArtifactRevisionRef'' = revisionRef
          \<and> \<not> exactRefMatches previousRef revisionRef
          \<and> fld i ''priorAssessmentStanding'' = JStr ''stale'') as invalidations"
    using a unfolding emap_Inr_iff
  proof (rule list_all2_mono)
    fix x i
    assume "ebind (getp (fld ?l ''subjectScope'') ''projectId'') (\<lambda>projectId.
       ebind (auditAssessmentRef E x projectId) (\<lambda>assessmentRef.
       ebind (artifactRevisionRefFor E ?v) (\<lambda>previousRef.
       ebind (artifactRevisionRefFor E (fld out ''revision'')) (\<lambda>currentRef.
       buildAuditInvalidation E (JObj [
         (''auditAssessmentRef'', assessmentRef),
         (''previousArtifactRevisionRef'', previousRef),
         (''currentArtifactRevisionRef'', currentRef),
         (''now'', fld input ''now''),
         (''createdAt'', fld input ''createdAt'')]))))) = Inr i"
    then obtain p s where "auditAssessmentRef E x p = Inr s" "buildAuditInvalidation E (JObj [
         (''auditAssessmentRef'', s), (''previousArtifactRevisionRef'', previousRef),
         (''currentArtifactRevisionRef'', revisionRef), (''now'', fld input ''now''),
         (''createdAt'', fld input ''createdAt'')]) = Inr i"
      unfolding r n ebind_simps ebind_Inr_iff by blast
    then show "(\<exists>p. auditAssessmentRef E x p = Inr (fld i ''auditAssessmentRef''))
          \<and> fld i ''previousArtifactRevisionRef'' = previousRef
          \<and> fld i ''currentArtifactRevisionRef'' = revisionRef
          \<and> \<not> exactRefMatches previousRef revisionRef
          \<and> fld i ''priorAssessmentStanding'' = JStr ''stale''" by (rule step)
  qed
  then have "list_all2 (\<lambda>a i. (\<exists>p. auditAssessmentRef E a p = Inr (fld i ''auditAssessmentRef''))
          \<and> fld i ''previousArtifactRevisionRef'' = previousRef
          \<and> artifactRevisionRefFor E (fld out ''revision'') = Inr (fld i ''currentArtifactRevisionRef'')
          \<and> \<not> exactRefMatches previousRef (fld i ''currentArtifactRevisionRef'')
          \<and> fld i ''priorAssessmentStanding'' = JStr ''stale'') as invalidations"
    by (rule list_all2_mono) (use n in auto)
  with r o show ?thesis unfolding as by blast
qed

end
