(* ===== verification/AuditRouting.thy ===== *)
theory AuditRouting
  imports Publication
begin

section \<open>Routing audits to independent auditors\<close>

text \<open>
  \<open>candidateConflictsWithProducer\<close> and \<open>resolveAuditRouting\<close>
  (\<^verbatim>\<open>src/main/direct/worldmanager/artifact-lifecycle-runtime.js\<close>): every pending semantic audit of
  the graph gets the first eligible auditor that is independent of the producer, or is reported
  as unresolved.
\<close>

subsection \<open>Independence\<close>

definition candidateConflictsWithProducer :: "jsenv \<Rightarrow> jval \<Rightarrow> jval \<Rightarrow> bool res" where
  "candidateConflictsWithProducer E candidate producerAssignment =
     (let agentRef = fld producerAssignment ''producerAgentRef'';
          runRef = fld producerAssignment ''producerRunRef'' in
     ebind (candidateAgentRef candidate ''candidate.agentRef'') (\<lambda>auditorRef.
     if exactRefMatches auditorRef agentRef then Inr True
     else if truthy (fld candidate ''agentRunRef'') \<and> truthy runRef
       \<and> exactRefMatches (fld candidate ''agentRunRef'') runRef then Inr True
     else ebind (emap (\<lambda>ref. exactRef ref ''auditor.conflictRef'') (elems (fld candidate ''conflictRefs'')))
       (\<lambda>conflictRefs.
     Inr (list_ex (\<lambda>ref. refIdentity E ref = refIdentity E agentRef
       \<or> (truthy runRef \<and> refIdentity E ref = refIdentity E runRef)) conflictRefs))))"

definition auditorReasons :: "jsenv \<Rightarrow> jval \<Rightarrow> jval \<Rightarrow> jval \<Rightarrow> jval \<Rightarrow> string list res" where
  "auditorReasons E subjectScope requirement producerAssignment candidate =
     ebind (getp candidate ''role'') (\<lambda>role.
     ebind (candidateIsInScope candidate subjectScope) (\<lambda>inScope.
     ebind (if isl (candidateAgentRef candidate ''auditor.agentRef'') then Inr False
         else candidateConflictsWithProducer E candidate producerAssignment) (\<lambda>conflicts.
     Inr (reason (isl (candidateAgentRef candidate ''auditor.agentRef'')) ''agent_ref_invalid''
       @ reason (js_text role [] \<noteq> ''review_auditor'' \<and> js_text role [] \<noteq> ''audit_worker'') ''role_mismatch''
       @ availabilityReasons candidate
       @ reason (\<not> inScope) ''scope_not_visible''
       @ reason (isArray (fld candidate ''auditTypes'')
           \<and> \<not> list_ex (\<lambda>x. same_value_zero x (fld requirement ''auditType''))
                (elems (fld candidate ''auditTypes''))) ''audit_type_ineligible''
       @ reason (\<not> truthy (fld candidate ''independenceReceiptRef'')) ''independence_receipt_missing''
       @ reason conflicts ''producer_auditor_independence_violation''))))"

subsection \<open>Routing one requirement\<close>

definition boundedCapabilities :: "string list" where
  "boundedCapabilities = [''ledger.challenge_claim'', ''ledger.request_evidence'',
     ''ledger.submit_audit_verdict'', ''ledger.validate_closure_candidate'']"

definition eligibleAuditors :: "jsenv \<Rightarrow> jval \<Rightarrow> jval \<Rightarrow> jval \<Rightarrow> jval list \<Rightarrow> (jval \<times> string list) list res" where
  \<comment> \<open>the loop over the candidates: each with the reasons against it\<close>
  "eligibleAuditors E subjectScope requirement producerAssignment candidates =
     emap (\<lambda>candidate. ebind (auditorReasons E subjectScope requirement producerAssignment candidate)
       (\<lambda>reasons. Inr (candidate, reasons))) candidates"

definition auditAssignmentFor ::
    "jsenv \<Rightarrow> jval \<Rightarrow> jval \<Rightarrow> jval \<Rightarrow> jval \<Rightarrow> jval \<Rightarrow> jval \<Rightarrow> jval res" where
  "auditAssignmentFor E input constitution lifecycle revisionRef requirement selected =
     ebind (artifactLifecycleInstanceRef E lifecycle) (\<lambda>lifecycleRef.
     ebind (candidateAgentRef selected ''candidate.agentRef'') (\<lambda>agentRef.
     buildAuditAssignment E (JObj [
       (''lifecycleId'', fld lifecycle ''lifecycleId''),
       (''lifecycleRef'', lifecycleRef),
       (''artifactRevisionRef'', revisionRef),
       (''requirementId'', fld requirement ''requirementId''),
       (''auditType'', fld requirement ''auditType''),
       (''auditorRole'', JStr (js_text (fld selected ''role'') ''review_auditor'')),
       (''auditorAgentRef'', agentRef),
       (''auditorRunRef'', fld selected ''agentRunRef''),
       (''independenceReceiptRef'', fld selected ''independenceReceiptRef''),
       (''independenceRuleRef'', fld constitution ''auditorIndependenceRuleRef''),
       (''boundedCapabilityNames'', strings (filter (\<lambda>name. name \<in> set boundedCapabilities)
          (stringList (fld selected ''boundedCapabilityNames'')))),
       (''now'', fld input ''now''),
       (''createdAt'', fld input ''createdAt'')])))"

record routing =
  assignments :: "jval list"
  unresolved :: "jval list"
  rejected :: "jval list"

definition routeNode ::
    "jsenv \<Rightarrow> jval \<Rightarrow> jval \<Rightarrow> jval \<Rightarrow> jval \<Rightarrow> jval \<Rightarrow> jval \<Rightarrow> routing \<Rightarrow> routing res" where
  \<comment> \<open>the body of the loop over the pending audit nodes\<close>
  "routeNode E input constitution lifecycle revisionRef producerAssignment node st =
     (let requirement = fld node ''requirement'' in
     ebind (eligibleAuditors E (fld lifecycle ''subjectScope'') requirement producerAssignment
         (elems (fld input ''candidates''))) (\<lambda>judged.
     let eligible = map fst (filter (\<lambda>(candidate, reasons). reasons = []) judged);
         refused = map (\<lambda>(candidate, reasons). JObj [
             (''requirementId'', fld requirement ''requirementId''),
             (''agentRef'', refOrNull (candidateAgentRef candidate ''auditor.agentRef'')),
             (''reasons'', strings reasons)])
           (filter (\<lambda>(candidate, reasons). reasons \<noteq> []) judged);
         selected = firstOrNull (sortedCandidates E eligible) in
     if \<not> truthy selected
     then Inr (st \<lparr>rejected := rejected st @ refused,
       unresolved := unresolved st @ [JObj [
         (''requirementId'', fld requirement ''requirementId''),
         (''auditType'', fld requirement ''auditType''),
         (''reason'', JStr ''eligible_independent_auditor_unavailable'')]]\<rparr>)
     else ebind (auditAssignmentFor E input constitution lifecycle revisionRef requirement selected)
       (\<lambda>assignment.
     Inr (st \<lparr>rejected := rejected st @ refused, assignments := assignments st @ [assignment]\<rparr>))))"

definition pendingAuditNodes :: "jval \<Rightarrow> jval list" where
  "pendingAuditNodes graph = filter (\<lambda>node. truthy (fld node ''active'')
     \<and> fld node ''requirementKind'' = JStr ''semantic_audit''
     \<and> fld node ''state'' = JStr ''pending'') (elems (fld graph ''nodes''))"

subsection \<open>The routing plan\<close>

definition ARTIFACT_AUDIT_ROUTING_PLAN_SCHEMA :: string where
  "ARTIFACT_AUDIT_ROUTING_PLAN_SCHEMA = ''direct_artifact_audit_routing_plan@1''"

definition resolveAuditRouting :: "jsenv \<Rightarrow> jval \<Rightarrow> jval res" where
  "resolveAuditRouting E arg =
     ebind (defaulted arg) (\<lambda>input.
     let constitution = fld input ''constitution''; lifecycle = fld input ''lifecycle'';
         revision = fld input ''artifactRevision''; graph = fld input ''assuranceGraph'';
         producerAssignment = fld input ''producerAssignment'' in
     ebind (validateArtifactTypeConstitution E constitution) (\<lambda>_.
     ebind (validateArtifactLifecycleInstance E lifecycle) (\<lambda>_.
     ebind (validateArtifactRevision E revision) (\<lambda>_.
     ebind (validateAssuranceGraph E graph) (\<lambda>_.
     ebind (validateProducerAssignment E producerAssignment) (\<lambda>_.
     ebind (artifactRevisionRefFor E revision) (\<lambda>revisionRef.
     if \<not> exactRefMatches (fld graph ''artifactRevisionRef'') revisionRef
     then fail ''world_manager_artifact_audit_graph_revision_mismatch'' []
     else
     ebind (efold (routeNode E input constitution lifecycle revisionRef producerAssignment)
         (pendingAuditNodes graph) \<lparr>assignments = [], unresolved = [], rejected = []\<rparr>) (\<lambda>routes.
     ebind (artifactLifecycleInstanceRef E lifecycle) (\<lambda>lifecycleRef.
     let projectId = fld (fld lifecycle ''subjectScope'') ''projectId'' in
     ebind (assuranceGraphRef E graph projectId) (\<lambda>graphRef.
     ebind (emap (\<lambda>assignment. exactRef (JObj [
         (''kind'', JStr ''artifact_audit_assignment''),
         (''id'', fld assignment ''auditAssignmentId''),
         (''digest'', fld assignment ''digest''),
         (''projectId'', projectId)]) ''ref'') (assignments routes)) (\<lambda>assignmentRefs.
     ebind (stamped E input) (\<lambda>createdAt.
     let plan = artifact E ARTIFACT_AUDIT_ROUTING_PLAN_SCHEMA ''auditRoutingPlanId''
       (stableId E ''wm_artifact_audit_routing'' (JObj [
          (''lifecycleRef'', lifecycleRef), (''revisionRef'', revisionRef),
          (''assignmentIds'', JArr (map (\<lambda>a. fld a ''auditAssignmentId'') (assignments routes))),
          (''unresolved'', JArr (unresolved routes))]))
       [(''lifecycleRef'', lifecycleRef),
        (''artifactRevisionRef'', revisionRef),
        (''assuranceGraphRef'', graphRef),
        (''assignmentRefs'', JArr assignmentRefs),
        (''unresolved'', JArr (unresolved routes)),
        (''rejected'', JArr (rejected routes)),
        (''producerSelectedAuditor'', JBool False),
        (''providerLaunchAuthorized'', JBool False),
        (''workThreadRegistrationRequired'', JBool (assignments routes \<noteq> [])),
        (''canonicalEffect'', JBool False),
        (''createdAt'', createdAt)] in
     Inr (JObj [(''plan'', plan), (''assignments'', JArr (assignments routes))])))))))))))))"

subsection \<open>What makes an auditor eligible\<close>

definition independent_of :: "jsenv \<Rightarrow> jval \<Rightarrow> jval \<Rightarrow> bool" where
  \<comment> \<open>the candidate neither is the producer, nor runs as it, nor declares a conflict with it\<close>
  "independent_of E producerAssignment c \<longleftrightarrow> (\<exists>r refs.
     candidateAgentRef c ''candidate.agentRef'' = Inr r
     \<and> \<not> exactRefMatches r (fld producerAssignment ''producerAgentRef'')
     \<and> \<not> exactRefMatches (fld c ''agentRunRef'') (fld producerAssignment ''producerRunRef'')
     \<and> emap (\<lambda>ref. exactRef ref ''auditor.conflictRef'') (elems (fld c ''conflictRefs'')) = Inr refs
     \<and> (\<forall>ref\<in>set refs. refIdentity E ref \<noteq> refIdentity E (fld producerAssignment ''producerAgentRef'')
         \<and> (truthy (fld producerAssignment ''producerRunRef'') \<longrightarrow>
              refIdentity E ref \<noteq> refIdentity E (fld producerAssignment ''producerRunRef''))))"

lemma exactRefMatches_truthy: "exactRefMatches a b \<Longrightarrow> truthy a \<and> truthy b"
  by (simp add: exactRefMatches_def)

lemma no_conflict_iff: "candidateConflictsWithProducer E c pa = Inr False \<longleftrightarrow> independent_of E pa c"
  by (auto simp: candidateConflictsWithProducer_def independent_of_def Let_def ebind_Inr_iff list_ex_iff
      dest: exactRefMatches_truthy split: if_splits simp del: emap_Inr_iff)

definition eligible_auditor :: "jsenv \<Rightarrow> jval \<Rightarrow> jval \<Rightarrow> jval \<Rightarrow> jval \<Rightarrow> bool" where
  \<comment> \<open>no reason speaks against the candidate\<close>
  "eligible_auditor E subjectScope requirement producerAssignment c \<longleftrightarrow>
     independent_of E producerAssignment c
     \<and> js_text (fld c ''role'') [] \<in> {''review_auditor'', ''audit_worker''}
     \<and> fld c ''active'' \<noteq> JBool False \<and> fld c ''substrateAvailable'' \<noteq> JBool False
     \<and> fld c ''budgetAvailable'' \<noteq> JBool False
     \<and> candidateIsInScope c subjectScope = Inr True
     \<and> (isArray (fld c ''auditTypes'') \<longrightarrow>
          (\<exists>x\<in>set (elems (fld c ''auditTypes'')). same_value_zero x (fld requirement ''auditType'')))
     \<and> truthy (fld c ''independenceReceiptRef'')"

lemma independent_agent: "independent_of E pa c \<Longrightarrow> \<exists>r. candidateAgentRef c l = Inr r"
  by (auto simp: independent_of_def dest: candidateAgentRef_label)

lemma auditorReasons_Nil:
  "auditorReasons E subjectScope requirement pa c = Inr [] \<longleftrightarrow> eligible_auditor E subjectScope requirement pa c"
proof
  assume "auditorReasons E subjectScope requirement pa c = Inr []"
  then show "eligible_auditor E subjectScope requirement pa c"
    unfolding auditorReasons_def eligible_auditor_def no_conflict_iff [symmetric]
    by (auto simp: ebind_Inr_iff getp_Inr_iff availabilityReasons_def list_ex_iff split: if_splits)
next
  assume e: "eligible_auditor E subjectScope requirement pa c"
  then obtain r where r: "candidateAgentRef c ''auditor.agentRef'' = Inr r"
    by (auto simp: eligible_auditor_def dest: independent_agent)
  with e show "auditorReasons E subjectScope requirement pa c = Inr []"
    unfolding eligible_auditor_def no_conflict_iff [symmetric]
    using candidateAgentRef_not_nullish [OF r]
    by (auto simp: auditorReasons_def getp_def availabilityReasons_def list_ex_iff reason_def)
qed

subsection \<open>What one node is given\<close>

definition assigned_to :: "jsenv \<Rightarrow> jval \<Rightarrow> jval \<Rightarrow> jval \<Rightarrow> jval \<Rightarrow> jval \<Rightarrow> jval \<Rightarrow> jval \<Rightarrow> bool" where
  \<comment> \<open>the assignment \<open>a\<close> discharges the node \<open>n\<close> with an eligible auditor\<close>
  "assigned_to E input constitution lifecycle revisionRef pa n a \<longleftrightarrow>
     (\<exists>c\<in>set (elems (fld input ''candidates'')).
        eligible_auditor E (fld lifecycle ''subjectScope'') (fld n ''requirement'') pa c
        \<and> auditAssignmentFor E input constitution lifecycle revisionRef (fld n ''requirement'') c = Inr a)"

definition left_open :: "jsenv \<Rightarrow> jval \<Rightarrow> jval \<Rightarrow> jval \<Rightarrow> jval \<Rightarrow> jval \<Rightarrow> bool" where
  \<comment> \<open>\<open>u\<close> reports the node \<open>n\<close> as unresolved, and no candidate was eligible\<close>
  "left_open E input lifecycle pa n u \<longleftrightarrow>
     fld u ''requirementId'' = fld (fld n ''requirement'') ''requirementId''
     \<and> (\<forall>c\<in>set (elems (fld input ''candidates'')).
          \<not> eligible_auditor E (fld lifecycle ''subjectScope'') (fld n ''requirement'') pa c)"

lemma eligible_auditor_truthy: "eligible_auditor E subjectScope requirement pa c \<Longrightarrow> truthy c"
  unfolding eligible_auditor_def by (metis candidateAgentRef_truthy independent_agent)

lemma routeNode_Inr:
  assumes "routeNode E input constitution lifecycle revisionRef pa n st = Inr t"
  shows "(\<exists>a. assignments t = assignments st @ [a] \<and> unresolved t = unresolved st
           \<and> assigned_to E input constitution lifecycle revisionRef pa n a)
       \<or> (\<exists>u. unresolved t = unresolved st @ [u] \<and> assignments t = assignments st
           \<and> left_open E input lifecycle pa n u)"
proof -
  let ?cs = "elems (fld input ''candidates'')"
  obtain judged where j: "eligibleAuditors E (fld lifecycle ''subjectScope'') (fld n ''requirement'') pa ?cs = Inr judged"
    using assms by (auto simp: routeNode_def Let_def ebind_Inr_iff)
  define eligible where "eligible = filter (eligible_auditor E (fld lifecycle ''subjectScope'') (fld n ''requirement'') pa) ?cs"
  have e: "map fst (filter (\<lambda>(candidate, reasons). reasons = []) judged) = eligible"
    using emap_judged(1) [OF j [unfolded eligibleAuditors_def]] by (simp add: eligible_def auditorReasons_Nil)
  let ?c = "firstOrNull (sortedCandidates E eligible)"
  have c: "?c \<in> set eligible" if "eligible \<noteq> []" using that by (rule firstOrNull_lightest(1))
  show ?thesis
  proof (cases "eligible = []")
    case True
    then have "\<not> truthy ?c" by (simp add: firstOrNull_def sortedCandidates_def)
    moreover have "\<forall>x\<in>set ?cs. \<not> eligible_auditor E (fld lifecycle ''subjectScope'') (fld n ''requirement'') pa x"
      using True by (simp add: eligible_def filter_empty_conv)
    ultimately show ?thesis using assms by (auto simp: routeNode_def j e Let_def left_open_def)
  next
    case False
    then have "truthy ?c" "?c \<in> set eligible" using c by (auto simp: eligible_def dest: eligible_auditor_truthy)
    then show ?thesis using assms
      by (auto simp: routeNode_def j e Let_def ebind_Inr_iff assigned_to_def eligible_def)
  qed
qed

lemma routes_complete:
  assumes "efold (routeNode E input constitution lifecycle revisionRef pa) ns st = Inr t"
  shows "\<exists>as us. assignments t = assignments st @ as \<and> unresolved t = unresolved st @ us
    \<and> length as + length us = length ns
    \<and> (\<forall>a\<in>set as. \<exists>n\<in>set ns. assigned_to E input constitution lifecycle revisionRef pa n a)
    \<and> (\<forall>u\<in>set us. \<exists>n\<in>set ns. left_open E input lifecycle pa n u)
    \<and> (\<forall>n\<in>set ns. (\<exists>a\<in>set as. assigned_to E input constitution lifecycle revisionRef pa n a)
         \<or> (\<exists>u\<in>set us. left_open E input lifecycle pa n u))"
  using assms
proof (induction ns arbitrary: st)
  case Nil
  then show ?case by simp
next
  case (Cons n ns)
  then obtain s where s: "routeNode E input constitution lifecycle revisionRef pa n st = Inr s"
    and f: "efold (routeNode E input constitution lifecycle revisionRef pa) ns s = Inr t"
    by (auto simp: ebind_Inr_iff)
  from Cons.IH [OF f] obtain as us where i: "assignments t = assignments s @ as" "unresolved t = unresolved s @ us"
    "length as + length us = length ns"
    "\<forall>a\<in>set as. \<exists>n\<in>set ns. assigned_to E input constitution lifecycle revisionRef pa n a"
    "\<forall>u\<in>set us. \<exists>n\<in>set ns. left_open E input lifecycle pa n u"
    "\<forall>n\<in>set ns. (\<exists>a\<in>set as. assigned_to E input constitution lifecycle revisionRef pa n a)
         \<or> (\<exists>u\<in>set us. left_open E input lifecycle pa n u)" by blast
  from routeNode_Inr [OF s] show ?case
  proof (elim disjE exE conjE)
    fix a assume a: "assignments s = assignments st @ [a]" "unresolved s = unresolved st"
      "assigned_to E input constitution lifecycle revisionRef pa n a"
    show ?thesis by (rule exI [of _ "a # as"], rule exI [of _ us]) (use i a in auto)
  next
    fix u assume u: "unresolved s = unresolved st @ [u]" "assignments s = assignments st"
      "left_open E input lifecycle pa n u"
    show ?thesis by (rule exI [of _ as], rule exI [of _ "u # us"]) (use i u in auto)
  qed
qed

subsection \<open>What the routing plan promises\<close>

lemma resolveAuditRouting_Inr:
  assumes "resolveAuditRouting E input = Inr out"
  shows "\<exists>revisionRef routes. artifactRevisionRefFor E (fld input ''artifactRevision'') = Inr revisionRef
    \<and> exactRefMatches (fld (fld input ''assuranceGraph'') ''artifactRevisionRef'') revisionRef
    \<and> efold (routeNode E (dflt input) (fld input ''constitution'') (fld input ''lifecycle'') revisionRef
         (fld input ''producerAssignment'')) (pendingAuditNodes (fld input ''assuranceGraph''))
         \<lparr>assignments = [], unresolved = [], rejected = []\<rparr> = Inr routes
    \<and> fld out ''assignments'' = JArr (assignments routes)
    \<and> fld (fld out ''plan'') ''unresolved'' = JArr (unresolved routes)
    \<and> fld (fld out ''plan'') ''artifactRevisionRef'' = revisionRef
    \<and> fld (fld out ''plan'') ''producerSelectedAuditor'' = JBool False
    \<and> fld (fld out ''plan'') ''providerLaunchAuthorized'' = JBool False"
  using assms unfolding resolveAuditRouting_def ebind_defaulted fld_dflt
  apply (elim run_elims)
  apply hypsubst_thin
  apply (simp (no_asm) add: fld_artifact split del: if_split)
  apply (intro exI conjI)
  apply (assumption | rule refl)+
  done

lemma auditAssignmentFor_Inr:
  assumes "auditAssignmentFor E input constitution lifecycle revisionRef requirement c = Inr a"
  shows "candidateAgentRef c ''candidate.agentRef'' = Inr (fld a ''auditorAgentRef'')
    \<and> fld a ''requirementId'' = JStr (js_text (fld requirement ''requirementId'') [])
    \<and> exactRef revisionRef ''auditAssignment.artifactRevisionRef'' = Inr (fld a ''artifactRevisionRef'')
    \<and> validateAuditAssignment E a = Inr True \<and> fld a ''providerLaunchAuthorized'' = JBool False
    \<and> (\<exists>names. fld a ''boundedCapabilityNames'' = strings names \<and> set names \<subseteq> set boundedCapabilities)"
proof -
  let ?names = "filter (\<lambda>name. name \<in> set boundedCapabilities) (stringList (fld c ''boundedCapabilityNames''))"
  obtain lifecycleRef r where r: "candidateAgentRef c ''candidate.agentRef'' = Inr r"
    and b: "buildAuditAssignment E (JObj [
       (''lifecycleId'', fld lifecycle ''lifecycleId''),
       (''lifecycleRef'', lifecycleRef),
       (''artifactRevisionRef'', revisionRef),
       (''requirementId'', fld requirement ''requirementId''),
       (''auditType'', fld requirement ''auditType''),
       (''auditorRole'', JStr (js_text (fld c ''role'') ''review_auditor'')),
       (''auditorAgentRef'', r),
       (''auditorRunRef'', fld c ''agentRunRef''),
       (''independenceReceiptRef'', fld c ''independenceReceiptRef''),
       (''independenceRuleRef'', fld constitution ''auditorIndependenceRuleRef''),
       (''boundedCapabilityNames'', strings ?names),
       (''now'', fld input ''now''),
       (''createdAt'', fld input ''createdAt'')]) = Inr a"
    using assms unfolding auditAssignmentFor_def by (auto simp: ebind_Inr_iff)
  have "set (stringList (strings ?names)) \<subseteq> trim ` set ?names" by (rule stringList_strings)
  also have "\<dots> \<subseteq> set boundedCapabilities" using stringList_props(3) by fastforce
  finally have names: "set (stringList (strings ?names)) \<subseteq> set boundedCapabilities" .
  show ?thesis
    using buildAuditAssignment_Inr [OF b] buildAuditAssignment_valid [OF b]
      candidateAgentRef_again [OF r, of "''auditorAgentRef''"] r names by auto
qed

text \<open>C13: Every audit assignment of the routing names an eligible candidate that is not the producer,
concerns the revision being routed, authorizes no launch and bounds its capabilities.\<close>

theorem auditors_are_independent:
  assumes "resolveAuditRouting E input = Inr out" "a \<in> set (elems (fld out ''assignments''))"
  shows "\<exists>c\<in>set (elems (fld input ''candidates'')). \<exists>n\<in>set (pendingAuditNodes (fld input ''assuranceGraph'')).
     candidateAgentRef c ''candidate.agentRef'' = Inr (fld a ''auditorAgentRef'')
   \<and> eligible_auditor E (fld (fld input ''lifecycle'') ''subjectScope'') (fld n ''requirement'')
       (fld input ''producerAssignment'') c
   \<and> \<not> exactRefMatches (fld a ''auditorAgentRef'') (fld (fld input ''producerAssignment'') ''producerAgentRef'')
   \<and> fld a ''requirementId'' = JStr (js_text (fld (fld n ''requirement'') ''requirementId'') [])
   \<and> artifactRevisionRefFor E (fld input ''artifactRevision'') = Inr (fld a ''artifactRevisionRef'')
   \<and> validateAuditAssignment E a = Inr True \<and> fld a ''providerLaunchAuthorized'' = JBool False
   \<and> (\<exists>names. fld a ''boundedCapabilityNames'' = strings names \<and> set names \<subseteq> set boundedCapabilities)"
proof -
  obtain revisionRef and routes :: routing where r: "artifactRevisionRefFor E (fld input ''artifactRevision'') = Inr revisionRef"
    and f: "efold (routeNode E (dflt input) (fld input ''constitution'') (fld input ''lifecycle'') revisionRef
         (fld input ''producerAssignment'')) (pendingAuditNodes (fld input ''assuranceGraph''))
         \<lparr>assignments = [], unresolved = [], rejected = []\<rparr> = Inr routes"
    and o: "fld out ''assignments'' = JArr (assignments routes)"
    using resolveAuditRouting_Inr [OF assms(1)] by blast
  obtain n where n: "n \<in> set (pendingAuditNodes (fld input ''assuranceGraph''))"
    and "assigned_to E (dflt input) (fld input ''constitution'') (fld input ''lifecycle'') revisionRef
      (fld input ''producerAssignment'') n a"
    using routes_complete [OF f] assms(2) unfolding o by auto
  then obtain c where c: "c \<in> set (elems (fld input ''candidates''))"
    and e: "eligible_auditor E (fld (fld input ''lifecycle'') ''subjectScope'') (fld n ''requirement'') (fld input ''producerAssignment'') c"
    and a: "auditAssignmentFor E (dflt input) (fld input ''constitution'') (fld input ''lifecycle'') revisionRef (fld n ''requirement'') c = Inr a"
    unfolding assigned_to_def fld_dflt by blast
  note i = auditAssignmentFor_Inr [OF a]
  have "\<not> exactRefMatches (fld a ''auditorAgentRef'') (fld (fld input ''producerAssignment'') ''producerAgentRef'')"
    using e i unfolding eligible_auditor_def independent_of_def by auto
  moreover have "fld a ''artifactRevisionRef'' = revisionRef"
    using i artifactRevisionRefFor_Inr(2) [OF r] by simp
  ultimately show ?thesis using c n e i r by blast
qed

text \<open>C37: Every pending audit node is either assigned or reported unresolved, and a node is unresolved
only when no candidate is eligible for it.\<close>

theorem routing_is_complete:
  assumes "resolveAuditRouting E input = Inr out"
  shows "length (elems (fld out ''assignments'')) + length (elems (fld (fld out ''plan'') ''unresolved''))
       = length (pendingAuditNodes (fld input ''assuranceGraph''))
    \<and> (\<forall>n\<in>set (pendingAuditNodes (fld input ''assuranceGraph'')).
         (\<exists>a\<in>set (elems (fld out ''assignments'')).
            fld a ''requirementId'' = JStr (js_text (fld (fld n ''requirement'') ''requirementId'') []))
       \<or> (\<exists>u\<in>set (elems (fld (fld out ''plan'') ''unresolved'')).
            fld u ''requirementId'' = fld (fld n ''requirement'') ''requirementId''
          \<and> (\<forall>c\<in>set (elems (fld input ''candidates'')).
              \<not> eligible_auditor E (fld (fld input ''lifecycle'') ''subjectScope'') (fld n ''requirement'')
                 (fld input ''producerAssignment'') c)))"
proof -
  obtain revisionRef and routes :: routing where
    f: "efold (routeNode E (dflt input) (fld input ''constitution'') (fld input ''lifecycle'') revisionRef
         (fld input ''producerAssignment'')) (pendingAuditNodes (fld input ''assuranceGraph''))
         \<lparr>assignments = [], unresolved = [], rejected = []\<rparr> = Inr routes"
    and o: "fld out ''assignments'' = JArr (assignments routes)"
      "fld (fld out ''plan'') ''unresolved'' = JArr (unresolved routes)"
    using resolveAuditRouting_Inr [OF assms] by blast
  show ?thesis
  proof (intro conjI ballI)
    show "length (elems (fld out ''assignments'')) + length (elems (fld (fld out ''plan'') ''unresolved''))
       = length (pendingAuditNodes (fld input ''assuranceGraph''))"
      using routes_complete [OF f] by (auto simp: o)
  next
    fix n assume "n \<in> set (pendingAuditNodes (fld input ''assuranceGraph''))"
    with routes_complete [OF f] consider
      a where "a \<in> set (assignments routes)" "assigned_to E (dflt input) (fld input ''constitution'')
        (fld input ''lifecycle'') revisionRef (fld input ''producerAssignment'') n a"
    | u where "u \<in> set (unresolved routes)" "left_open E (dflt input) (fld input ''lifecycle'') (fld input ''producerAssignment'') n u"
      by auto
    then show "(\<exists>a\<in>set (elems (fld out ''assignments'')).
            fld a ''requirementId'' = JStr (js_text (fld (fld n ''requirement'') ''requirementId'') []))
       \<or> (\<exists>u\<in>set (elems (fld (fld out ''plan'') ''unresolved'')).
            fld u ''requirementId'' = fld (fld n ''requirement'') ''requirementId''
          \<and> (\<forall>c\<in>set (elems (fld input ''candidates'')).
              \<not> eligible_auditor E (fld (fld input ''lifecycle'') ''subjectScope'') (fld n ''requirement'')
                 (fld input ''producerAssignment'') c))"
    proof cases
      case (1 a)
      then show ?thesis unfolding assigned_to_def o elems_simps by (metis auditAssignmentFor_Inr)
    next
      case (2 u)
      then show ?thesis unfolding left_open_def o elems_simps fld_dflt by blast
    qed
  qed
qed

end
