(* ===== verification/AssuranceEvaluation.thy ===== *)
theory AssuranceEvaluation
  imports AuditRouting
begin

section \<open>Evaluating assurance and opening the gate\<close>

text \<open>
  \<open>evaluateAssurance\<close> (\<^verbatim>\<open>src/main/direct/worldmanager/artifact-lifecycle-runtime.js\<close>) and its
  helpers. From the mechanical witnesses and audit assessments that name the exact revision it
  computes the state of every node of the graph, the blockers and the reasons to escalate, and
  then the revised graph, the gate decision, the assurance join, the revised lifecycle and, when
  the assurance is supported, the admission candidate.
\<close>

subsection \<open>The evidence for one revision\<close>

definition latestByRequirement ::
    "jval \<Rightarrow> jval \<Rightarrow> (jval \<Rightarrow> bool res) \<Rightarrow> (jval \<times> jval) list res" where
  "latestByRequirement values revisionRef validator =
     efold (\<lambda>v byRequirement. ebind (validator v) (\<lambda>_.
       Inr (if exactRefMatches (fld v ''artifactRevisionRef'') revisionRef
         then AList.update (fld v ''requirementId'') v byRequirement else byRequirement)))
       (elems values) []"

definition addVerdict :: "jval \<Rightarrow> (jval \<times> jval list) list \<Rightarrow> (jval \<times> jval list) list" where
  "addVerdict assessment verdictsByRequirement =
     (let requirementId = fld assessment ''requirementId'';
          verdicts = (case map_of verdictsByRequirement requirementId of Some vs \<Rightarrow> vs | None \<Rightarrow> []) in
      AList.update requirementId (List.insert (fld assessment ''verdict'') verdicts) verdictsByRequirement)"

definition conflictingAuditRequirementIds :: "jsenv \<Rightarrow> jval \<Rightarrow> jval \<Rightarrow> jval list res" where
  "conflictingAuditRequirementIds E values revisionRef =
     ebind (efold (\<lambda>assessment byRequirement. ebind (validateAuditAssessment E assessment) (\<lambda>_.
         Inr (if exactRefMatches (fld assessment ''artifactRevisionRef'') revisionRef
           then addVerdict assessment byRequirement else byRequirement))) (elems values) [])
       (\<lambda>byRequirement.
     Inr (map fst (filter (\<lambda>(requirementId, verdicts). 1 < length verdicts) byRequirement)))"

subsection \<open>Node states and blockers\<close>

definition assign_prop :: "string \<Rightarrow> jval \<Rightarrow> (string \<times> jval) list \<Rightarrow> (string \<times> jval) list" where
  \<comment> \<open>\<open>o[k] = v\<close> for a value \<open>v\<close> that is not an object\<close>
  "assign_prop k v fs = (if k = ''__proto__'' then fs else AList.update k v fs)"

record evaluation =
  nodeStates :: "(string \<times> jval) list"
  blockerCodes :: "string list"
  remandAssessmentRefs :: "jval list"

definition settleNode ::
    "jsenv \<Rightarrow> jval \<Rightarrow> (jval \<times> jval) list \<Rightarrow> (jval \<times> jval) list \<Rightarrow> jval \<Rightarrow> evaluation \<Rightarrow> evaluation res" where
  \<comment> \<open>the body of \<open>for (const node of graph.nodes)\<close>\<close>
  "settleNode E lifecycle mechanical audits node st =
     (let nodeId = js_string E (fld node ''nodeId'') in
     if \<not> truthy (fld node ''active'')
     then Inr (st \<lparr>nodeStates := assign_prop nodeId (JStr ''inactive'') (nodeStates st)\<rparr>)
     else if fld node ''requirementKind'' = JStr ''mechanical_witness''
     then (case map_of mechanical (fld node ''nodeId'') of
         None \<Rightarrow> Inr (st \<lparr>nodeStates := assign_prop nodeId (JStr ''pending'') (nodeStates st),
           blockerCodes := blockerCodes st
             @ reason (truthy (fld node ''required'')) (''mechanical_witness_missing:'' @ nodeId)\<rparr>)
       | Some witness \<Rightarrow> Inr (st \<lparr>
           nodeStates := assign_prop nodeId (js_or (fld witness ''state'') (JStr ''pending'')) (nodeStates st),
           blockerCodes := blockerCodes st
             @ reason (fld witness ''state'' \<noteq> JStr ''supported'' \<and> truthy (fld node ''required''))
               (''mechanical_witness_'' @ js_string E (fld witness ''state'') @ '':'' @ nodeId)\<rparr>))
     else (case map_of audits (fld node ''nodeId'') of
         None \<Rightarrow> Inr (st \<lparr>nodeStates := assign_prop nodeId (JStr ''pending'') (nodeStates st),
           blockerCodes := blockerCodes st
             @ reason (truthy (fld node ''required'')) (''semantic_audit_missing:'' @ nodeId)\<rparr>)
       | Some assessment \<Rightarrow>
         let blocked = fld assessment ''verdict'' \<noteq> JStr ''supported'' \<and> truthy (fld node ''required'');
             st' = st \<lparr>
           nodeStates := assign_prop nodeId (js_or (fld assessment ''verdict'') (JStr ''pending'')) (nodeStates st),
           blockerCodes := blockerCodes st
             @ reason blocked (''semantic_audit_'' @ js_string E (fld assessment ''verdict'') @ '':'' @ nodeId)\<rparr> in
         if blocked \<and> fld assessment ''verdict'' = JStr ''requires_revision''
         then ebind (getp (fld lifecycle ''subjectScope'') ''projectId'') (\<lambda>projectId.
           ebind (auditAssessmentRef E assessment projectId) (\<lambda>ref.
           Inr (st' \<lparr>remandAssessmentRefs := remandAssessmentRefs st' @ [ref]\<rparr>)))
         else Inr st'))"

definition nodeSupported :: "jsenv \<Rightarrow> (string \<times> jval) list \<Rightarrow> jval \<Rightarrow> bool" where
  \<comment> \<open>\<open>nodeStates[id] === "supported"\<close>\<close>
  "nodeSupported E states nodeId \<longleftrightarrow> map_of states (js_string E nodeId) = Some (JStr ''supported'')"

definition conditionalBlockers :: "jsenv \<Rightarrow> jval \<Rightarrow> string list res" where
  "conditionalBlockers E graph =
     ebind (iter_elems (fld graph ''conditionalEvaluations'')) (\<lambda>evaluations.
     ebind (emap (\<lambda>evaluation. ebind (getp evaluation ''evaluationState'') (\<lambda>state.
       Inr (reason (state \<noteq> JStr ''evaluated'')
         (''conditional_audit_indeterminate:'' @ js_string E (fld evaluation ''ruleId''))))) evaluations)
       (\<lambda>codes. Inr (concat codes)))"

definition dependencyBlockers :: "jsenv \<Rightarrow> jval \<Rightarrow> (string \<times> jval) list \<Rightarrow> string list res" where
  "dependencyBlockers E graph states =
     ebind (emap (\<lambda>node. ebind (iter_elems (fld node ''dependencyNodeIds'')) (\<lambda>dependencies.
       Inr (map (\<lambda>dependencyId. ''assurance_dependency_unsatisfied:'' @ js_string E (fld node ''nodeId'')
           @ '':'' @ js_string E dependencyId)
         (filter (\<lambda>dependencyId. \<not> nodeSupported E states dependencyId) dependencies))))
       (filter (\<lambda>node. truthy (fld node ''active'')) (elems (fld graph ''nodes''))))
       (\<lambda>codes. Inr (concat codes))"

definition remandBlockers :: "jval \<Rightarrow> string list res" where
  "remandBlockers obligations =
     ebind (efilter (\<lambda>obligation. ebind (getp obligation ''state'') (\<lambda>state.
       Inr (state = JStr ''open'' \<and> fld obligation ''blocking'' \<noteq> JBool False))) (elems obligations))
       (\<lambda>open. Inr (reason (open \<noteq> []) ''open_remand_obligations''))"

subsection \<open>Escalation\<close>

definition threshold :: "jsenv \<Rightarrow> jval \<Rightarrow> int \<Rightarrow> jnum" where
  \<comment> \<open>\<open>Math.max(1, Number(v || d) || d)\<close>\<close>
  "threshold E v d = (case num_max0 1 (num_or (to_number E (js_or v (num d))) (of_int d)) of
     JNum n \<Rightarrow> n | _ \<Rightarrow> NaN)"

definition at_least :: "jsenv \<Rightarrow> jval \<Rightarrow> jnum \<Rightarrow> bool" where
  \<comment> \<open>\<open>v >= n\<close> for a number \<open>n\<close>\<close>
  "at_least E v n \<longleftrightarrow> to_number E v \<noteq> NaN \<and> n \<noteq> NaN \<and> \<not> num_less (to_number E v) n"

definition escalationReasonsFor :: "jsenv \<Rightarrow> jval \<Rightarrow> jval \<Rightarrow> jval list \<Rightarrow> string list res" where
  "escalationReasonsFor E input lifecycle disagreements =
     (let thresholds = fld input ''escalationThresholds'' in
     ebind (getp (fld lifecycle ''budgetUsage'') ''attempts'') (\<lambda>attempts.
     Inr (reason (at_least E (fld lifecycle ''remandCount'') (threshold E (fld thresholds ''remandCount'') 3))
           ''repeated_remand_threshold_reached''
       @ reason (at_least E attempts (threshold E (fld thresholds ''attemptCount'') 6))
           ''attempt_budget_exhausted''
       @ reason (fld input ''auditDisagreement'' = JBool True \<or> disagreements \<noteq> []) ''auditor_disagreement''
       @ reason (fld input ''authorityResolvable'' \<noteq> JBool True) ''admission_authority_unresolved'')))"

subsection \<open>The verdict\<close>

record assurance_verdict =
  uniqueBlockers :: "string list"
  escalationReasons :: "string list"
  assuranceSupported :: bool
  joinState :: string
  decisionState :: string

definition assuranceVerdict ::
    "jsenv \<Rightarrow> jval \<Rightarrow> (string \<times> jval) list \<Rightarrow> string list \<Rightarrow> jval list \<Rightarrow> string list \<Rightarrow> assurance_verdict" where
  "assuranceVerdict E graph states blockers remands escalation =
     (let supported = dedup id blockers = [] \<and> escalation = []
        \<and> list_all (\<lambda>node. nodeSupported E states (fld node ''nodeId''))
            (filter (\<lambda>node. truthy (fld node ''active'') \<and> truthy (fld node ''required''))
              (elems (fld graph ''nodes''))) in
      \<lparr>uniqueBlockers = dedup id blockers,
       escalationReasons = escalation,
       assuranceSupported = supported,
       joinState = (if supported then ''supported'' else if remands \<noteq> [] then ''remanded'' else ''blocked''),
       decisionState = (if escalation \<noteq> [] then ''escalation_required''
         else if supported then ''gate_ready'' else ''blocked'')\<rparr>)"

definition evaluatedState :: "assurance_verdict \<Rightarrow> jval list \<Rightarrow> jval \<Rightarrow> string" where
  \<comment> \<open>the state of the revised lifecycle\<close>
  "evaluatedState verdict remands revisedGraph =
     (if assuranceSupported verdict then ''gate_ready''
      else if remands \<noteq> [] then ''remanded''
      else if needsAudit revisedGraph then ''under_audit'' else ''candidate'')"

subsection \<open>The evaluation\<close>

definition ARTIFACT_ASSURANCE_JOIN_SCHEMA :: string where
  "ARTIFACT_ASSURANCE_JOIN_SCHEMA = ''direct_artifact_assurance_join@1''"

definition settleGraph ::
    "jsenv \<Rightarrow> jval \<Rightarrow> jval \<Rightarrow> (jval \<times> jval) list \<Rightarrow> (jval \<times> jval) list \<Rightarrow> evaluation res" where
  \<comment> \<open>from \<open>const nodeStates = {}\<close> to the blockers of open remands\<close>
  "settleGraph E input lifecycle mechanical audits =
     (let graph = fld input ''assuranceGraph'' in
     ebind (efold (settleNode E lifecycle mechanical audits) (elems (fld graph ''nodes''))
         \<lparr>nodeStates = [], blockerCodes = [], remandAssessmentRefs = []\<rparr>) (\<lambda>st.
     ebind (conditionalBlockers E graph) (\<lambda>conditional.
     ebind (dependencyBlockers E graph (nodeStates st)) (\<lambda>dependency.
     ebind (remandBlockers (fld input ''remandObligations'')) (\<lambda>remand.
     Inr (st \<lparr>blockerCodes := blockerCodes st @ conditional @ dependency @ remand\<rparr>))))))"

definition evaluatedGate ::
    "jsenv \<Rightarrow> jval \<Rightarrow> jval \<Rightarrow> jval \<Rightarrow> jval \<Rightarrow> jval \<Rightarrow> jval \<Rightarrow> assurance_verdict \<Rightarrow> jval res" where
  "evaluatedGate E input constitution lifecycle lifecycleRef revisionRef graphRef verdict =
     buildArtifactGateDecision E (JObj [
       (''lifecycleRef'', lifecycleRef),
       (''artifactRevisionRef'', revisionRef),
       (''assuranceGraphRef'', graphRef),
       (''decisionState'', JStr (decisionState verdict)),
       (''assuranceSupported'', JBool (assuranceSupported verdict)),
       (''blockerCodes'', strings (uniqueBlockers verdict @ escalationReasons verdict)),
       (''targetAdmissionScope'', js_or (fld input ''targetAdmissionScope'') (fld lifecycle ''subjectScope'')),
       (''admissionAuthorityRef'', fld constitution ''admissionAuthorityRef''),
       (''authorityResolvable'', JBool (fld input ''authorityResolvable'' = JBool True)),
       (''now'', fld input ''now''),
       (''createdAt'', fld input ''createdAt'')])"

definition assuranceJoin ::
    "jsenv \<Rightarrow> jval \<Rightarrow> jval \<Rightarrow> jval \<Rightarrow> jval \<Rightarrow> jval list \<Rightarrow> jval list \<Rightarrow> jval list \<Rightarrow> jval list
      \<Rightarrow> assurance_verdict \<Rightarrow> jval" where
  "assuranceJoin E lifecycleRef revisionRef graphRef createdAt witnessRefs assessmentRefs remands
       disagreements verdict =
     artifact E ARTIFACT_ASSURANCE_JOIN_SCHEMA ''assuranceJoinId''
       (stableId E ''wm_artifact_assurance_join'' (JObj [
          (''revisionRef'', revisionRef), (''graphRef'', graphRef),
          (''decisionState'', JStr (decisionState verdict)),
          (''blockerCodes'', strings (uniqueBlockers verdict)),
          (''escalationReasons'', strings (escalationReasons verdict)),
          (''disagreementRequirementIds'', JArr disagreements)]))
       [(''lifecycleRef'', lifecycleRef),
        (''artifactRevisionRef'', revisionRef),
        (''assuranceGraphRef'', graphRef),
        (''mechanicalWitnessRefs'', JArr witnessRefs),
        (''auditAssessmentRefs'', JArr assessmentRefs),
        (''remandAssessmentRefs'', JArr remands),
        (''blockerCodes'', strings (uniqueBlockers verdict)),
        (''escalationReasons'', strings (escalationReasons verdict)),
        (''disagreementRequirementIds'', JArr disagreements),
        (''joinState'', JStr (joinState verdict)),
        (''gateReady'', JBool (assuranceSupported verdict)),
        (''admitted'', JBool False),
        (''canonicalEffect'', JBool False),
        (''createdAt'', createdAt)]"

definition evaluationUpdate :: "jval \<Rightarrow> jval \<Rightarrow> jval \<Rightarrow> string \<Rightarrow> jval" where
  \<comment> \<open>the argument of \<open>reviseArtifactLifecycleInstance\<close>\<close>
  "evaluationUpdate input graphRef gateRef state = JObj [
     (''constitution'', fld input ''constitution''),
     (''assuranceGraphRef'', graphRef),
     (''gateDecisionRef'', gateRef),
     (''state'', JStr state),
     (''now'', fld input ''now''),
     (''createdAt'', fld input ''createdAt'')]"

definition evaluateAssurance :: "jsenv \<Rightarrow> jval \<Rightarrow> jval res" where
  "evaluateAssurance E arg =
     ebind (defaulted arg) (\<lambda>input.
     let constitution = fld input ''constitution''; lifecycle = fld input ''lifecycle'';
         revision = fld input ''artifactRevision''; graph = fld input ''assuranceGraph'' in
     ebind (validateArtifactTypeConstitution E constitution) (\<lambda>_.
     ebind (validateArtifactLifecycleInstance E lifecycle) (\<lambda>_.
     ebind (validateArtifactRevision E revision) (\<lambda>_.
     ebind (validateAssuranceGraph E graph) (\<lambda>_.
     ebind (artifactRevisionRefFor E revision) (\<lambda>revisionRef.
     if \<not> exactRefMatches (fld graph ''artifactRevisionRef'') revisionRef
     then fail ''world_manager_artifact_assurance_exact_revision_required'' []
     else
     ebind (latestByRequirement (fld input ''mechanicalWitnesses'') revisionRef
         (validateMechanicalWitnessJoin E)) (\<lambda>mechanical.
     ebind (latestByRequirement (fld input ''auditAssessments'') revisionRef
         (validateAuditAssessment E)) (\<lambda>audits.
     ebind (conflictingAuditRequirementIds E (fld input ''auditAssessments'') revisionRef) (\<lambda>disagreements.
     ebind (settleGraph E input lifecycle mechanical audits) (\<lambda>st.
     ebind (escalationReasonsFor E input lifecycle disagreements) (\<lambda>escalation.
     let remands = remandAssessmentRefs st;
         verdict = assuranceVerdict E graph (nodeStates st) (blockerCodes st) remands escalation in
     ebind (reviseAssuranceGraph E graph (JObj [
         (''nodeStates'', JObj (nodeStates st)),
         (''joinState'', JStr (joinState verdict)),
         (''now'', fld input ''now''),
         (''createdAt'', fld input ''createdAt'')])) (\<lambda>revisedGraph.
     ebind (artifactLifecycleInstanceRef E lifecycle) (\<lambda>lifecycleRef.
     let projectId = fld (fld lifecycle ''subjectScope'') ''projectId'' in
     ebind (assuranceGraphRef E revisedGraph projectId) (\<lambda>graphRef.
     ebind (evaluatedGate E input constitution lifecycle lifecycleRef revisionRef graphRef verdict)
       (\<lambda>gateDecision.
     ebind (emap (\<lambda>witness. exactRef (JObj [
         (''kind'', JStr ''artifact_mechanical_witness_join''),
         (''id'', fld witness ''mechanicalWitnessJoinId''),
         (''digest'', fld witness ''digest''),
         (''projectId'', projectId)]) ''ref'') (map snd mechanical)) (\<lambda>witnessRefs.
     ebind (emap (\<lambda>assessment. auditAssessmentRef E assessment projectId) (map snd audits))
       (\<lambda>assessmentRefs.
     ebind (stamped E input) (\<lambda>createdAt.
     ebind (artifactGateDecisionRef E gateDecision projectId) (\<lambda>gateRef.
     ebind (reviseArtifactLifecycleInstance E lifecycle (evaluationUpdate input graphRef gateRef
         (evaluatedState verdict remands revisedGraph))) (\<lambda>revisedLifecycle.
     ebind (if assuranceSupported verdict then buildAdmissionReceiptCandidate E (JObj [
         (''gateDecision'', gateDecision),
         (''expectedCanonicalRevisionRefs'', fld input ''expectedCanonicalRevisionRefs''),
         (''now'', fld input ''now''),
         (''createdAt'', fld input ''createdAt'')]) else Inr JNull) (\<lambda>admissionReceiptCandidate.
     Inr (JObj [
       (''join'', assuranceJoin E lifecycleRef revisionRef graphRef createdAt witnessRefs assessmentRefs
          remands disagreements verdict),
       (''graph'', revisedGraph),
       (''gateDecision'', gateDecision),
       (''lifecycle'', revisedLifecycle),
       (''admissionReceiptCandidate'', admissionReceiptCandidate)]))))))))))))))))))))))"

subsection \<open>The evidence that counts\<close>

text \<open>
  \<open>latestByRequirement\<close> keeps, for each requirement, the last record of the list that names the
  evaluated revision.
\<close>

definition about :: "jval \<Rightarrow> jval \<Rightarrow> jval list \<Rightarrow> jval list" where
  \<comment> \<open>the records about a requirement of the revision\<close>
  "about revisionRef requirementId vs = filter (\<lambda>v. exactRefMatches (fld v ''artifactRevisionRef'') revisionRef
     \<and> fld v ''requirementId'' = requirementId) vs"

lemma about_snoc: "about revisionRef k (vs @ [v]) = about revisionRef k vs
    @ (if exactRefMatches (fld v ''artifactRevisionRef'') revisionRef \<and> fld v ''requirementId'' = k then [v] else [])"
  by (simp add: about_def)

lemma map_of_addVerdict: "map_of (addVerdict v m) k = (if k = fld v ''requirementId''
    then Some (List.insert (fld v ''verdict'') (case map_of m k of Some vs \<Rightarrow> vs | None \<Rightarrow> [])) else map_of m k)"
  by (simp add: addVerdict_def Let_def update_conv')

lemma latest_fold:
  "efold (\<lambda>v m. ebind (validator v) (\<lambda>_.
       Inr (if exactRefMatches (fld v ''artifactRevisionRef'') revisionRef
         then AList.update (fld v ''requirementId'') v m else m))) vs [] = Inr m \<Longrightarrow>
   (\<forall>v\<in>set vs. \<exists>b. validator v = Inr b)
   \<and> map_of m k = (if about revisionRef k vs = [] then None else Some (last (about revisionRef k vs)))"
proof (induction vs arbitrary: m rule: rev_induct)
  case Nil
  then show ?case by (simp add: about_def)
next
  case (snoc v vs)
  from snoc.prems obtain u b where u: "efold (\<lambda>v m. ebind (validator v) (\<lambda>_.
       Inr (if exactRefMatches (fld v ''artifactRevisionRef'') revisionRef
         then AList.update (fld v ''requirementId'') v m else m))) vs [] = Inr u"
    and v: "validator v = Inr b" and m: "m = (if exactRefMatches (fld v ''artifactRevisionRef'') revisionRef
         then AList.update (fld v ''requirementId'') v u else u)"
    by (auto simp: efold_snoc_Inr monad)
  from snoc.IH [OF u] v show ?case
    by (auto simp: m about_def update_conv')
qed

lemma latestByRequirement_Inr:
  assumes "latestByRequirement values revisionRef validator = Inr m"
  shows "\<forall>v\<in>set (elems values). \<exists>b. validator v = Inr b"
    "map_of m k = (if about revisionRef k (elems values) = [] then None
      else Some (last (about revisionRef k (elems values))))"
  using latest_fold [OF assms [unfolded latestByRequirement_def]] by blast+

lemma latestByRequirement_Some:
  assumes "latestByRequirement values revisionRef validator = Inr m" "map_of m k = Some v"
  shows "v \<in> set (elems values)" "\<exists>b. validator v = Inr b" "fld v ''requirementId'' = k"
    "exactRefMatches (fld v ''artifactRevisionRef'') revisionRef"
proof -
  from assms(2) have "v \<in> set (about revisionRef k (elems values))"
    unfolding latestByRequirement_Inr(2) [OF assms(1)] by (auto split: if_splits)
  then show "v \<in> set (elems values)" "fld v ''requirementId'' = k"
    "exactRefMatches (fld v ''artifactRevisionRef'') revisionRef" by (auto simp: about_def)
  then show "\<exists>b. validator v = Inr b" using latestByRequirement_Inr(1) [OF assms(1)] by blast
qed

lemma verdicts_fold:
  "efold (\<lambda>a m. ebind (validateAuditAssessment E a) (\<lambda>_.
       Inr (if exactRefMatches (fld a ''artifactRevisionRef'') revisionRef then addVerdict a m else m))) vs [] = Inr m \<Longrightarrow>
   distinct (map fst m) \<and> (case map_of m k of
      None \<Rightarrow> about revisionRef k vs = []
    | Some ws \<Rightarrow> distinct ws \<and> set ws = (\<lambda>a. fld a ''verdict'') ` set (about revisionRef k vs))"
proof (induction vs arbitrary: m rule: rev_induct)
  case Nil
  then show ?case by (simp add: about_def)
next
  case (snoc v vs)
  from snoc.prems obtain u b where u: "efold (\<lambda>a m. ebind (validateAuditAssessment E a) (\<lambda>_.
       Inr (if exactRefMatches (fld a ''artifactRevisionRef'') revisionRef then addVerdict a m else m))) vs [] = Inr u"
    and m: "m = (if exactRefMatches (fld v ''artifactRevisionRef'') revisionRef then addVerdict v u else u)"
    by (auto simp: efold_snoc_Inr monad)
  note ih = snoc.IH [OF u]
  from ih have "distinct (map fst m)" by (simp add: m addVerdict_def Let_def distinct_update)
  moreover have "case map_of m k of None \<Rightarrow> about revisionRef k (vs @ [v]) = []
    | Some ws \<Rightarrow> distinct ws \<and> set ws = (\<lambda>a. fld a ''verdict'') ` set (about revisionRef k (vs @ [v]))"
  proof (cases "exactRefMatches (fld v ''artifactRevisionRef'') revisionRef \<and> fld v ''requirementId'' = k")
    case True
    with ih show ?thesis by (cases "map_of u k") (simp_all add: m map_of_addVerdict about_snoc)
  next
    case False
    then have "map_of m k = map_of u k" "about revisionRef k (vs @ [v]) = about revisionRef k vs"
      by (auto simp: m map_of_addVerdict about_snoc)
    with ih show ?thesis by (simp only:)
  qed
  ultimately show ?case by blast
qed

lemma conflictingAuditRequirementIds_Inr:
  assumes "conflictingAuditRequirementIds E values revisionRef = Inr ids"
  shows "k \<in> set ids \<longleftrightarrow> (\<exists>a\<in>set (about revisionRef k (elems values)). \<exists>b\<in>set (about revisionRef k (elems values)).
     fld a ''verdict'' \<noteq> fld b ''verdict'')"
proof -
  from assms obtain m where f: "efold (\<lambda>a m. ebind (validateAuditAssessment E a) (\<lambda>_.
       Inr (if exactRefMatches (fld a ''artifactRevisionRef'') revisionRef then addVerdict a m else m)))
       (elems values) [] = Inr m"
    and ids: "ids = map fst (filter (\<lambda>(requirementId, verdicts). 1 < length verdicts) m)"
    by (auto simp: conflictingAuditRequirementIds_def monad)
  note v = verdicts_fold [OF f]
  have "k \<in> set ids \<longleftrightarrow> (\<exists>ws. map_of m k = Some ws \<and> 1 < length ws)"
    using v by (force simp: ids)
  also have "\<dots> \<longleftrightarrow> (\<exists>a\<in>set (about revisionRef k (elems values)). \<exists>b\<in>set (about revisionRef k (elems values)).
     fld a ''verdict'' \<noteq> fld b ''verdict'')"
  proof (cases "map_of m k")
    case None
    with v [of k] show ?thesis by simp
  next
    case (Some ws)
    with v [of k] have d: "distinct ws" and s: "set ws = (\<lambda>a. fld a ''verdict'') ` set (about revisionRef k (elems values))"
      by simp_all
    have "1 < length ws \<longleftrightarrow> (\<exists>x\<in>set ws. \<exists>y\<in>set ws. x \<noteq> y)"
      using d by (metis (no_types) One_nat_def card_le_Suc0_iff_eq distinct_card finite_set not_le)
    then show ?thesis using Some s by auto
  qed
  finally show ?thesis .
qed

subsection \<open>What the loop over the nodes computes\<close>

definition nodeEvidence :: "(jval \<times> jval) list \<Rightarrow> (jval \<times> jval) list \<Rightarrow> jval \<Rightarrow> jval" where
  \<comment> \<open>the state that the evidence gives an active node; undefined when there is none\<close>
  "nodeEvidence mechanical audits node =
     (if fld node ''requirementKind'' = JStr ''mechanical_witness''
      then (case map_of mechanical (fld node ''nodeId'') of Some w \<Rightarrow> fld w ''state'' | None \<Rightarrow> JUndef)
      else (case map_of audits (fld node ''nodeId'') of Some a \<Rightarrow> fld a ''verdict'' | None \<Rightarrow> JUndef))"

definition unsupportedNode :: "(jval \<times> jval) list \<Rightarrow> (jval \<times> jval) list \<Rightarrow> jval \<Rightarrow> bool" where
  "unsupportedNode mechanical audits node \<longleftrightarrow> truthy (fld node ''active'') \<and> truthy (fld node ''required'')
     \<and> nodeEvidence mechanical audits node \<noteq> JStr ''supported''"

definition nodeStateOf :: "(jval \<times> jval) list \<Rightarrow> (jval \<times> jval) list \<Rightarrow> jval \<Rightarrow> jval" where
  "nodeStateOf mechanical audits node =
     (if truthy (fld node ''active'') then js_or (nodeEvidence mechanical audits node) (JStr ''pending'')
      else JStr ''inactive'')"

lemma settleNode_Inr:
  assumes "settleNode E lifecycle mechanical audits node st = Inr st'"
  shows "nodeStates st' = assign_prop (js_string E (fld node ''nodeId''))
      (nodeStateOf mechanical audits node) (nodeStates st)"
    and "\<exists>codes. blockerCodes st' = blockerCodes st @ codes \<and> (codes = [] \<longleftrightarrow> \<not> unsupportedNode mechanical audits node)"
    and "remandAssessmentRefs st' \<noteq> [] \<longleftrightarrow> remandAssessmentRefs st \<noteq> []
      \<or> unsupportedNode mechanical audits node \<and> fld node ''requirementKind'' \<noteq> JStr ''mechanical_witness''
        \<and> nodeEvidence mechanical audits node = JStr ''requires_revision''"
  using assms unfolding settleNode_def Let_def
  by (auto simp: nodeEvidence_def nodeStateOf_def unsupportedNode_def reason_def monad
      split: if_splits option.splits)

lemma settleNodes_blockers:
  "efold (settleNode E lifecycle mechanical audits) nodes st = Inr st' \<Longrightarrow>
   \<exists>codes. blockerCodes st' = blockerCodes st @ codes
     \<and> (codes = [] \<longleftrightarrow> (\<forall>n\<in>set nodes. \<not> unsupportedNode mechanical audits n))"
proof (induction nodes arbitrary: st)
  case (Cons n nodes)
  then obtain u where u: "settleNode E lifecycle mechanical audits n st = Inr u"
    "efold (settleNode E lifecycle mechanical audits) nodes u = Inr st'" by (auto simp: monad)
  from settleNode_Inr(2) [OF u(1)] Cons.IH [OF u(2)] show ?case by fastforce
qed simp

lemma settleNodes_states:
  "efold (settleNode E lifecycle mechanical audits) nodes st = Inr st' \<Longrightarrow>
   nodeStates st' = fold (\<lambda>n. assign_prop (js_string E (fld n ''nodeId'')) (nodeStateOf mechanical audits n)) nodes (nodeStates st)"
proof (induction nodes arbitrary: st)
  case (Cons n nodes)
  then obtain u where u: "settleNode E lifecycle mechanical audits n st = Inr u"
    "efold (settleNode E lifecycle mechanical audits) nodes u = Inr st'" by (auto simp: monad)
  from settleNode_Inr(1) [OF u(1)] Cons.IH [OF u(2)] show ?case by simp
qed simp

lemma settleGraph_Inr:
  assumes "settleGraph E input lifecycle mechanical audits = Inr st"
  shows "\<exists>conditional dependency remand st0.
      efold (settleNode E lifecycle mechanical audits) (elems (fld (fld input ''assuranceGraph'') ''nodes''))
        \<lparr>nodeStates = [], blockerCodes = [], remandAssessmentRefs = []\<rparr> = Inr st0
    \<and> nodeStates st = nodeStates st0 \<and> remandAssessmentRefs st = remandAssessmentRefs st0
    \<and> conditionalBlockers E (fld input ''assuranceGraph'') = Inr conditional
    \<and> dependencyBlockers E (fld input ''assuranceGraph'') (nodeStates st) = Inr dependency
    \<and> remandBlockers (fld input ''remandObligations'') = Inr remand
    \<and> blockerCodes st = blockerCodes st0 @ conditional @ dependency @ remand"
  using assms unfolding settleGraph_def by (elim run_elims) auto

lemma emap_concat_Nil:
  assumes "ebind (emap f xs) (\<lambda>codes. Inr (concat codes)) = Inr []" "x \<in> set xs"
  shows "f x = Inr []"
proof -
  from assms(1) obtain codes where c: "emap f xs = Inr codes" "concat codes = []" by (elim run_elims) auto
  obtain y where "y \<in> set codes" "f x = Inr y" using emap_member [OF c(1) assms(2)] by blast
  with c(2) show ?thesis by auto
qed

lemma conditionalBlockers_Nil:
  assumes "conditionalBlockers E graph = Inr []"
  shows "\<exists>evaluations. iter_elems (fld graph ''conditionalEvaluations'') = Inr evaluations
    \<and> (\<forall>e\<in>set evaluations. fld e ''evaluationState'' = JStr ''evaluated'')"
proof -
  from assms obtain evaluations where e: "iter_elems (fld graph ''conditionalEvaluations'') = Inr evaluations"
    and c: "ebind (emap (\<lambda>evaluation. ebind (getp evaluation ''evaluationState'') (\<lambda>state.
       Inr (reason (state \<noteq> JStr ''evaluated'')
         (''conditional_audit_indeterminate:'' @ js_string E (fld evaluation ''ruleId''))))) evaluations)
       (\<lambda>codes. Inr (concat codes)) = Inr []"
    unfolding conditionalBlockers_def by (rule ebind_InrE)
  have "fld x ''evaluationState'' = JStr ''evaluated''" if "x \<in> set evaluations" for x
    using emap_concat_Nil [OF c that] by (auto simp: monad reason_def split: if_splits)
  with e show ?thesis by blast
qed

lemma dependencyBlockers_Nil:
  assumes "dependencyBlockers E graph states = Inr []" "n \<in> set (elems (fld graph ''nodes''))" "truthy (fld n ''active'')"
  shows "\<exists>ds. iter_elems (fld n ''dependencyNodeIds'') = Inr ds \<and> (\<forall>d\<in>set ds. nodeSupported E states d)"
proof -
  from assms(2,3) have "n \<in> set (filter (\<lambda>node. truthy (fld node ''active'')) (elems (fld graph ''nodes'')))" by simp
  from emap_concat_Nil [OF assms(1) [unfolded dependencyBlockers_def] this] show ?thesis
    by (auto simp: monad filter_empty_conv)
qed

lemma remandBlockers_Nil:
  assumes "remandBlockers obligations = Inr []"
  shows "\<forall>r\<in>set (elems obligations). fld r ''state'' = JStr ''open'' \<longrightarrow> fld r ''blocking'' = JBool False"
proof -
  from assms obtain os where
    "efilter (\<lambda>obligation. ebind (getp obligation ''state'') (\<lambda>state.
       Inr (state = JStr ''open'' \<and> fld obligation ''blocking'' \<noteq> JBool False))) (elems obligations) = Inr os"
    and n: "os = []"
    unfolding remandBlockers_def by (elim run_elims) (auto simp: reason_def split: if_splits)
  note f = efilter_Nil [OF this(1) [unfolded n]]
  show ?thesis
  proof (intro ballI impI)
    fix r assume "r \<in> set (elems obligations)" "fld r ''state'' = JStr ''open''"
    with f [of r] show "fld r ''blocking'' = JBool False" by (auto simp: getp_def split: if_splits)
  qed
qed

subsection \<open>The evaluation, taken apart\<close>

lemma evaluateAssurance_Inr:
  assumes "evaluateAssurance E input = Inr out"
  shows "\<exists>revisionRef mechanical audits disagreements st escalation lifecycleRef graphRef gateRef.
    let verdict = assuranceVerdict E (fld input ''assuranceGraph'') (nodeStates st) (blockerCodes st)
        (remandAssessmentRefs st) escalation in
    validateArtifactTypeConstitution E (fld input ''constitution'') = Inr True
    \<and> validateArtifactLifecycleInstance E (fld input ''lifecycle'') = Inr True
    \<and> validateAssuranceGraph E (fld input ''assuranceGraph'') = Inr True
    \<and> artifactRevisionRefFor E (fld input ''artifactRevision'') = Inr revisionRef
    \<and> exactRefMatches (fld (fld input ''assuranceGraph'') ''artifactRevisionRef'') revisionRef
    \<and> latestByRequirement (fld input ''mechanicalWitnesses'') revisionRef (validateMechanicalWitnessJoin E) = Inr mechanical
    \<and> latestByRequirement (fld input ''auditAssessments'') revisionRef (validateAuditAssessment E) = Inr audits
    \<and> conflictingAuditRequirementIds E (fld input ''auditAssessments'') revisionRef = Inr disagreements
    \<and> settleGraph E (dflt input) (fld input ''lifecycle'') mechanical audits = Inr st
    \<and> escalationReasonsFor E (dflt input) (fld input ''lifecycle'') disagreements = Inr escalation
    \<and> reviseAssuranceGraph E (fld input ''assuranceGraph'') (JObj [
         (''nodeStates'', JObj (nodeStates st)), (''joinState'', JStr (joinState verdict)),
         (''now'', fld input ''now''), (''createdAt'', fld input ''createdAt'')]) = Inr (fld out ''graph'')
    \<and> evaluatedGate E (dflt input) (fld input ''constitution'') (fld input ''lifecycle'') lifecycleRef revisionRef
        graphRef verdict = Inr (fld out ''gateDecision'')
    \<and> artifactGateDecisionRef E (fld out ''gateDecision'')
        (fld (fld (fld input ''lifecycle'') ''subjectScope'') ''projectId'') = Inr gateRef
    \<and> reviseArtifactLifecycleInstance E (fld input ''lifecycle'') (evaluationUpdate (dflt input) graphRef gateRef
        (evaluatedState verdict (remandAssessmentRefs st) (fld out ''graph''))) = Inr (fld out ''lifecycle'')
    \<and> (if assuranceSupported verdict then buildAdmissionReceiptCandidate E (JObj [
         (''gateDecision'', fld out ''gateDecision''),
         (''expectedCanonicalRevisionRefs'', fld input ''expectedCanonicalRevisionRefs''),
         (''now'', fld input ''now''),
         (''createdAt'', fld input ''createdAt'')]) else Inr JNull) = Inr (fld out ''admissionReceiptCandidate'')
    \<and> fld (fld out ''join'') ''gateReady'' = JBool (assuranceSupported verdict)
    \<and> fld (fld out ''join'') ''admitted'' = JBool False
    \<and> fld (fld out ''join'') ''joinState'' = JStr (joinState verdict)
    \<and> fld (fld out ''join'') ''artifactRevisionRef'' = revisionRef"
  using assms unfolding evaluateAssurance_def ebind_defaulted fld_dflt
  apply (elim run_elims)
  apply (drule constitution.validated, drule lifecycle_instance.validated, drule assurance_graph.validated)
  apply hypsubst_thin
  apply (simp (no_asm) add: fld_artifact assuranceJoin_def Let_def cong: if_cong split del: if_split)
  apply (intro exI conjI)
  apply (assumption | rule refl)+
  done

subsection \<open>What an open gate guarantees\<close>

definition evidenceFor :: "jval \<Rightarrow> jval \<Rightarrow> jval \<Rightarrow> bool" where
  \<comment> \<open>the specification: the last record about the node's requirement and this revision is a
    valid one and says supported\<close>
  "evidenceFor input revisionRef node =
     (if fld node ''requirementKind'' = JStr ''mechanical_witness''
      then (\<exists>w. about revisionRef (fld node ''nodeId'') (elems (fld input ''mechanicalWitnesses'')) \<noteq> []
        \<and> w = last (about revisionRef (fld node ''nodeId'') (elems (fld input ''mechanicalWitnesses'')))
        \<and> fld w ''state'' = JStr ''supported'')
      else (\<exists>a. about revisionRef (fld node ''nodeId'') (elems (fld input ''auditAssessments'')) \<noteq> []
        \<and> a = last (about revisionRef (fld node ''nodeId'') (elems (fld input ''auditAssessments'')))
        \<and> fld a ''verdict'' = JStr ''supported''))"

lemma evidenceFor_iff:
  assumes "latestByRequirement (fld input ''mechanicalWitnesses'') revisionRef (validateMechanicalWitnessJoin E) = Inr mechanical"
    and "latestByRequirement (fld input ''auditAssessments'') revisionRef (validateAuditAssessment E) = Inr audits"
  shows "nodeEvidence mechanical audits node = JStr ''supported'' \<longleftrightarrow> evidenceFor input revisionRef node"
  by (simp add: nodeEvidence_def evidenceFor_def latestByRequirement_Inr(2) [OF assms(1)]
      latestByRequirement_Inr(2) [OF assms(2)])

lemma dedup_Nil_iff [simp]: "dedup key xs = [] \<longleftrightarrow> xs = []"
  using dedup_keys [of key xs] by auto

lemma assuranceVerdict_supported:
  assumes "assuranceSupported (assuranceVerdict E graph states blockers remands escalation)"
  shows "blockers = []" "escalation = []"
  using assms by (simp_all add: assuranceVerdict_def Let_def)

lemma assuranceVerdict_states:
  "joinState (assuranceVerdict E graph states blockers remands escalation) \<in> set [''supported'', ''remanded'', ''blocked'']"
  "joinState (assuranceVerdict E graph states blockers remands escalation) = ''supported''
     \<longleftrightarrow> assuranceSupported (assuranceVerdict E graph states blockers remands escalation)"
  "decisionState (assuranceVerdict E graph states blockers remands escalation) = ''gate_ready''
     \<longleftrightarrow> assuranceSupported (assuranceVerdict E graph states blockers remands escalation)"
  "decisionState (assuranceVerdict E graph states blockers remands escalation)
     \<in> set [''gate_ready'', ''blocked'', ''escalation_required'']"
  by (auto simp: assuranceVerdict_def Let_def)

lemma settleGraph_supported:
  assumes s: "settleGraph E input lifecycle mechanical audits = Inr st" and b: "blockerCodes st = []"
  shows "n \<in> set (elems (fld (fld input ''assuranceGraph'') ''nodes'')) \<Longrightarrow> truthy (fld n ''active'') \<Longrightarrow>
      truthy (fld n ''required'') \<Longrightarrow> nodeEvidence mechanical audits n = JStr ''supported''"
    and "\<exists>evaluations. iter_elems (fld (fld input ''assuranceGraph'') ''conditionalEvaluations'') = Inr evaluations
      \<and> (\<forall>e\<in>set evaluations. fld e ''evaluationState'' = JStr ''evaluated'')"
    and "n \<in> set (elems (fld (fld input ''assuranceGraph'') ''nodes'')) \<Longrightarrow> truthy (fld n ''active'') \<Longrightarrow>
      \<exists>ds. iter_elems (fld n ''dependencyNodeIds'') = Inr ds \<and> (\<forall>d\<in>set ds. nodeSupported E (nodeStates st) d)"
    and "\<forall>r\<in>set (elems (fld input ''remandObligations'')).
      fld r ''state'' = JStr ''open'' \<longrightarrow> fld r ''blocking'' = JBool False"
proof -
  obtain conditional dependency remand st0 where
    f: "efold (settleNode E lifecycle mechanical audits) (elems (fld (fld input ''assuranceGraph'') ''nodes''))
        \<lparr>nodeStates = [], blockerCodes = [], remandAssessmentRefs = []\<rparr> = Inr st0"
    and c: "conditionalBlockers E (fld input ''assuranceGraph'') = Inr conditional"
    and d: "dependencyBlockers E (fld input ''assuranceGraph'') (nodeStates st) = Inr dependency"
    and r: "remandBlockers (fld input ''remandObligations'') = Inr remand"
    and sum: "blockerCodes st = blockerCodes st0 @ conditional @ dependency @ remand"
    using settleGraph_Inr [OF s] by blast
  from b sum have n: "blockerCodes st0 = []" "conditional = []" "dependency = []" "remand = []" by simp_all
  from settleNodes_blockers [OF f] n(1)
  have "\<forall>n\<in>set (elems (fld (fld input ''assuranceGraph'') ''nodes'')). \<not> unsupportedNode mechanical audits n"
    by auto
  then show "n \<in> set (elems (fld (fld input ''assuranceGraph'') ''nodes'')) \<Longrightarrow> truthy (fld n ''active'') \<Longrightarrow>
      truthy (fld n ''required'') \<Longrightarrow> nodeEvidence mechanical audits n = JStr ''supported''"
    by (auto simp: unsupportedNode_def)
  show "\<exists>evaluations. iter_elems (fld (fld input ''assuranceGraph'') ''conditionalEvaluations'') = Inr evaluations
      \<and> (\<forall>e\<in>set evaluations. fld e ''evaluationState'' = JStr ''evaluated'')"
    using conditionalBlockers_Nil c n(2) by blast
  show "n \<in> set (elems (fld (fld input ''assuranceGraph'') ''nodes'')) \<Longrightarrow> truthy (fld n ''active'') \<Longrightarrow>
      \<exists>ds. iter_elems (fld n ''dependencyNodeIds'') = Inr ds \<and> (\<forall>d\<in>set ds. nodeSupported E (nodeStates st) d)"
    using dependencyBlockers_Nil d n(3) by blast
  show "\<forall>r\<in>set (elems (fld input ''remandObligations'')).
      fld r ''state'' = JStr ''open'' \<longrightarrow> fld r ''blocking'' = JBool False"
    using remandBlockers_Nil r n(4) by blast
qed

lemma escalationReasonsFor_Nil:
  assumes "escalationReasonsFor E input lifecycle disagreements = Inr []"
  shows "disagreements = []" "fld input ''authorityResolvable'' = JBool True"
    "fld input ''auditDisagreement'' \<noteq> JBool True"
    "\<not> at_least E (fld lifecycle ''remandCount'') (threshold E (fld (fld input ''escalationThresholds'') ''remandCount'') 3)"
    "\<not> at_least E (fld (fld lifecycle ''budgetUsage'') ''attempts'')
        (threshold E (fld (fld input ''escalationThresholds'') ''attemptCount'') 6)"
  using assms unfolding escalationReasonsFor_def Let_def
  by (auto simp: monad reason_def split: if_splits)

lemma evaluatedState_ready: "evaluatedState verdict remands g = ''gate_ready'' \<longleftrightarrow> assuranceSupported verdict"
  by (simp add: evaluatedState_def)

lemma evaluatedState_cases:
  "evaluatedState verdict remands g \<in> set [''gate_ready'', ''remanded'', ''under_audit'', ''candidate'']"
  by (simp add: evaluatedState_def)

lemma trim_states [simp]:
  "trim ''gate_ready'' = ''gate_ready''" "trim ''remanded'' = ''remanded''" "trim ''under_audit'' = ''under_audit''"
  "trim ''candidate'' = ''candidate''" "trim ''blocked'' = ''blocked''" "trim ''supported'' = ''supported''"
  "trim ''escalation_required'' = ''escalation_required''" "trim ''under_production'' = ''under_production''"
  by (simp_all add: trim_id is_space_def)

lemma evaluateAssurance_lifecycle:
  assumes "reviseArtifactLifecycleInstance E lifecycle (evaluationUpdate input graphRef gateRef s) = Inr v"
    and "s \<in> set [''gate_ready'', ''remanded'', ''under_audit'', ''candidate'']"
  shows "fld v ''state'' = JStr s"
  using reviseArtifactLifecycleInstance_Inr(10) [OF assms(1)] assms(2)
  by (auto simp: evaluationUpdate_def js_text_JStr)

lemma evaluatedGate_state:
  assumes "evaluatedGate E input constitution lifecycle lifecycleRef revisionRef graphRef
      (assuranceVerdict E graph states blockers remands escalation) = Inr v"
  shows "fld v ''decisionState'' = JStr (decisionState (assuranceVerdict E graph states blockers remands escalation))"
proof -
  let ?s = "decisionState (assuranceVerdict E graph states blockers remands escalation)"
  have "trim ?s = ?s \<and> ?s \<noteq> []" using assuranceVerdict_states(4) [of E graph states blockers remands escalation] by auto
  with buildArtifactGateDecision_Inr [OF assms [unfolded evaluatedGate_def]] show ?thesis
    by (simp add: js_text_JStr)
qed

subsection \<open>Properties of the gate\<close>

lemma buildAdmissionReceiptCandidate_object:
  "buildAdmissionReceiptCandidate E input = Inr v \<Longrightarrow> isPlainObject v"
  unfolding buildAdmissionReceiptCandidate_def by (elim run_elims) simp

text \<open>C17: The graph, join, gate decision, lifecycle and admission candidate that evaluateAssurance
returns agree with one abstract verdict: they are all ready or none is, and nothing is admitted.\<close>

lemma evaluateAssurance_outputs:
  assumes "evaluateAssurance E input = Inr out"
  shows "\<exists>supported. fld (fld out ''join'') ''gateReady'' = JBool supported
    \<and> (fld (fld out ''lifecycle'') ''state'' = JStr ''gate_ready'' \<longleftrightarrow> supported)
    \<and> (fld (fld out ''gateDecision'') ''decisionState'' = JStr ''gate_ready'' \<longleftrightarrow> supported)
    \<and> (fld (fld out ''graph'') ''joinState'' = JStr ''supported'' \<longleftrightarrow> supported)
    \<and> (fld out ''admissionReceiptCandidate'' \<noteq> JNull \<longleftrightarrow> supported)
    \<and> (\<exists>s\<in>set [''gate_ready'', ''remanded'', ''under_audit'', ''candidate'']. fld (fld out ''lifecycle'') ''state'' = JStr s)
    \<and> (supported \<longrightarrow> (\<exists>i. buildAdmissionReceiptCandidate E i = Inr (fld out ''admissionReceiptCandidate'')
          \<and> fld i ''gateDecision'' = fld out ''gateDecision''))
    \<and> (\<exists>i. buildArtifactGateDecision E i = Inr (fld out ''gateDecision''))
    \<and> fld (fld out ''join'') ''admitted'' = JBool False"
proof -
  obtain revisionRef mechanical audits disagreements and st :: evaluation and escalation lifecycleRef graphRef gateRef where
    g: "reviseAssuranceGraph E (fld input ''assuranceGraph'') (JObj [
         (''nodeStates'', JObj (nodeStates st)), (''joinState'', JStr (joinState
            (assuranceVerdict E (fld input ''assuranceGraph'') (nodeStates st) (blockerCodes st)
               (remandAssessmentRefs st) escalation))),
         (''now'', fld input ''now''), (''createdAt'', fld input ''createdAt'')]) = Inr (fld out ''graph'')"
    and d: "evaluatedGate E (dflt input) (fld input ''constitution'') (fld input ''lifecycle'') lifecycleRef revisionRef
        graphRef (assuranceVerdict E (fld input ''assuranceGraph'') (nodeStates st) (blockerCodes st)
               (remandAssessmentRefs st) escalation) = Inr (fld out ''gateDecision'')"
    and l: "reviseArtifactLifecycleInstance E (fld input ''lifecycle'') (evaluationUpdate (dflt input) graphRef gateRef
        (evaluatedState (assuranceVerdict E (fld input ''assuranceGraph'') (nodeStates st) (blockerCodes st)
               (remandAssessmentRefs st) escalation) (remandAssessmentRefs st) (fld out ''graph''))) = Inr (fld out ''lifecycle'')"
    and c: "(if assuranceSupported (assuranceVerdict E (fld input ''assuranceGraph'') (nodeStates st) (blockerCodes st)
               (remandAssessmentRefs st) escalation) then buildAdmissionReceiptCandidate E (JObj [
         (''gateDecision'', fld out ''gateDecision''),
         (''expectedCanonicalRevisionRefs'', fld input ''expectedCanonicalRevisionRefs''),
         (''now'', fld input ''now''),
         (''createdAt'', fld input ''createdAt'')]) else Inr JNull) = Inr (fld out ''admissionReceiptCandidate'')"
    and j: "fld (fld out ''join'') ''gateReady'' = JBool (assuranceSupported (assuranceVerdict E (fld input ''assuranceGraph'') (nodeStates st) (blockerCodes st)
               (remandAssessmentRefs st) escalation))" "fld (fld out ''join'') ''admitted'' = JBool False"
    using evaluateAssurance_Inr [OF assms, unfolded Let_def] by (elim exE conjE) (rule that; assumption)
  let ?v = "assuranceVerdict E (fld input ''assuranceGraph'') (nodeStates st) (blockerCodes st)
               (remandAssessmentRefs st) escalation"
  have l': "fld (fld out ''lifecycle'') ''state'' = JStr (evaluatedState ?v (remandAssessmentRefs st) (fld out ''graph''))"
    by (rule evaluateAssurance_lifecycle [OF l evaluatedState_cases])
  have g': "fld (fld out ''graph'') ''joinState'' = JStr (joinState ?v)"
  proof -
    have "trim (joinState ?v) = joinState ?v \<and> joinState ?v \<noteq> []"
      using assuranceVerdict_states(1) [of E "fld input ''assuranceGraph''" "nodeStates st" "blockerCodes st"
          "remandAssessmentRefs st" escalation] by auto
    with reviseAssuranceGraph_Inr [OF g] show ?thesis by (simp add: js_text_JStr)
  qed
  have c': "fld out ''admissionReceiptCandidate'' \<noteq> JNull \<longleftrightarrow> assuranceSupported ?v"
    using c buildAdmissionReceiptCandidate_object by (fastforce split: if_splits)
  show ?thesis
  proof (intro exI [of _ "assuranceSupported ?v"] conjI)
    show "fld (fld out ''lifecycle'') ''state'' = JStr ''gate_ready'' \<longleftrightarrow> assuranceSupported ?v"
      by (simp add: l' evaluatedState_ready)
    show "fld (fld out ''gateDecision'') ''decisionState'' = JStr ''gate_ready'' \<longleftrightarrow> assuranceSupported ?v"
      by (simp add: evaluatedGate_state [OF d] assuranceVerdict_states(3))
    show "fld (fld out ''graph'') ''joinState'' = JStr ''supported'' \<longleftrightarrow> assuranceSupported ?v"
      by (simp add: g' assuranceVerdict_states(2))
    show "\<exists>s\<in>set [''gate_ready'', ''remanded'', ''under_audit'', ''candidate'']. fld (fld out ''lifecycle'') ''state'' = JStr s"
      using l' evaluatedState_cases by blast
    show "assuranceSupported ?v \<longrightarrow> (\<exists>i. buildAdmissionReceiptCandidate E i = Inr (fld out ''admissionReceiptCandidate'')
          \<and> fld i ''gateDecision'' = fld out ''gateDecision'')"
      using c by (auto intro!: exI)
    show "\<exists>i. buildArtifactGateDecision E i = Inr (fld out ''gateDecision'')"
      using d unfolding evaluatedGate_def by blast
  qed (fact j c')+
qed

text \<open>C1: When evaluateAssurance moves a lifecycle to gate_ready, every active required node of the
assurance graph has accepted evidence about exactly the evaluated revision, no two assessments of
a requirement disagree, every conditional rule was evaluated, no open remand blocks, the authority
is resolvable and the remand count is below the escalation threshold.\<close>

theorem gate_opens_only_on_evidence:
  assumes "evaluateAssurance E input = Inr out"
    and "fld (fld out ''lifecycle'') ''state'' = JStr ''gate_ready''"
  shows "\<exists>revisionRef evaluations. artifactRevisionRefFor E (fld input ''artifactRevision'') = Inr revisionRef
    \<and> exactRefMatches (fld (fld input ''assuranceGraph'') ''artifactRevisionRef'') revisionRef
    \<and> (\<forall>n\<in>set (elems (fld (fld input ''assuranceGraph'') ''nodes'')).
        truthy (fld n ''active'') \<and> truthy (fld n ''required'') \<longrightarrow> evidenceFor input revisionRef n)
    \<and> (\<forall>a\<in>set (elems (fld input ''auditAssessments'')). \<forall>b\<in>set (elems (fld input ''auditAssessments'')).
        exactRefMatches (fld a ''artifactRevisionRef'') revisionRef \<and> exactRefMatches (fld b ''artifactRevisionRef'') revisionRef
        \<and> fld a ''requirementId'' = fld b ''requirementId'' \<longrightarrow> fld a ''verdict'' = fld b ''verdict'')
    \<and> iter_elems (fld (fld input ''assuranceGraph'') ''conditionalEvaluations'') = Inr evaluations
    \<and> (\<forall>e\<in>set evaluations. fld e ''evaluationState'' = JStr ''evaluated'')
    \<and> (\<forall>r\<in>set (elems (fld input ''remandObligations'')).
        fld r ''state'' = JStr ''open'' \<longrightarrow> fld r ''blocking'' = JBool False)
    \<and> fld input ''authorityResolvable'' = JBool True
    \<and> \<not> at_least E (fld (fld input ''lifecycle'') ''remandCount'')
        (threshold E (fld (fld input ''escalationThresholds'') ''remandCount'') 3)"
proof -
  obtain revisionRef mechanical audits disagreements and st :: evaluation and escalation lifecycleRef graphRef gateRef where
    r: "artifactRevisionRefFor E (fld input ''artifactRevision'') = Inr revisionRef"
      "exactRefMatches (fld (fld input ''assuranceGraph'') ''artifactRevisionRef'') revisionRef"
    and m: "latestByRequirement (fld input ''mechanicalWitnesses'') revisionRef (validateMechanicalWitnessJoin E) = Inr mechanical"
    and a: "latestByRequirement (fld input ''auditAssessments'') revisionRef (validateAuditAssessment E) = Inr audits"
    and d: "conflictingAuditRequirementIds E (fld input ''auditAssessments'') revisionRef = Inr disagreements"
    and s: "settleGraph E (dflt input) (fld input ''lifecycle'') mechanical audits = Inr st"
    and e: "escalationReasonsFor E (dflt input) (fld input ''lifecycle'') disagreements = Inr escalation"
    and l: "reviseArtifactLifecycleInstance E (fld input ''lifecycle'') (evaluationUpdate (dflt input) graphRef gateRef
        (evaluatedState (assuranceVerdict E (fld input ''assuranceGraph'') (nodeStates st) (blockerCodes st)
               (remandAssessmentRefs st) escalation) (remandAssessmentRefs st) (fld out ''graph''))) = Inr (fld out ''lifecycle'')"
    using evaluateAssurance_Inr [OF assms(1), unfolded Let_def] by (elim exE conjE) (rule that; assumption)
  let ?v = "assuranceVerdict E (fld input ''assuranceGraph'') (nodeStates st) (blockerCodes st)
               (remandAssessmentRefs st) escalation"
  have "JStr (evaluatedState ?v (remandAssessmentRefs st) (fld out ''graph'')) = JStr ''gate_ready''"
    using evaluateAssurance_lifecycle [OF l evaluatedState_cases] assms(2) by (rule trans [OF sym])
  then have "assuranceSupported ?v" by (simp only: jval.inject evaluatedState_ready)
  note n = assuranceVerdict_supported [OF this]
  note q = settleGraph_supported [OF s n(1), unfolded fld_dflt]
  note p = escalationReasonsFor_Nil [OF e [unfolded n(2)], unfolded fld_dflt]
  obtain evaluations where ev: "iter_elems (fld (fld input ''assuranceGraph'') ''conditionalEvaluations'') = Inr evaluations"
    "\<forall>e\<in>set evaluations. fld e ''evaluationState'' = JStr ''evaluated''" using q(2) by blast
  have agree: "fld x ''verdict'' = fld y ''verdict''" if "x \<in> set (elems (fld input ''auditAssessments''))"
      "y \<in> set (elems (fld input ''auditAssessments''))"
      "exactRefMatches (fld x ''artifactRevisionRef'') revisionRef" "exactRefMatches (fld y ''artifactRevisionRef'') revisionRef"
      "fld x ''requirementId'' = fld y ''requirementId''" for x y
  proof (rule ccontr)
    assume ne: "fld x ''verdict'' \<noteq> fld y ''verdict''"
    let ?s = "about revisionRef (fld y ''requirementId'') (elems (fld input ''auditAssessments''))"
    from that have "x \<in> set ?s" "y \<in> set ?s" by (simp_all only: about_def set_filter mem_Collect_eq)
    with ne have "\<exists>a\<in>set ?s. \<exists>b\<in>set ?s. fld a ''verdict'' \<noteq> fld b ''verdict''" by (intro bexI)
    then have "fld y ''requirementId'' \<in> set disagreements"
      by (rule iffD2 [OF conflictingAuditRequirementIds_Inr [OF d]])
    then show False by (simp only: p(1) list.set empty_iff)
  qed
  have evidence: "evidenceFor input revisionRef n" if "n \<in> set (elems (fld (fld input ''assuranceGraph'') ''nodes''))"
      "truthy (fld n ''active'')" "truthy (fld n ''required'')" for n
    using q(1) [OF that] by (simp add: evidenceFor_iff [OF m a])
  show ?thesis
  proof (intro exI [of _ revisionRef] exI [of _ evaluations] conjI ballI impI, goal_cases)
    case (3 n) then show ?case using evidence by blast
  next case (4 a b) then show ?case using agree by blast
  qed (use r ev q(4) p(2,4) in \<open>simp_all\<close>)
qed

text \<open>C28: latestByRequirement maps a requirement to the last record about it that refers to the
evaluated revision, and only returns when every record passes its validator.\<close>

theorem latest_evidence_counts:
  assumes "latestByRequirement values revisionRef validator = Inr m"
  shows "map_of m k = (if about revisionRef k (elems values) = [] then None
      else Some (last (about revisionRef k (elems values))))
    \<and> (\<forall>v\<in>set (elems values). \<exists>b. validator v = Inr b)"
  using latestByRequirement_Inr [OF assms] by blast

text \<open>C29: conflictingAuditRequirementIds returns exactly the requirements with two assessments of the
evaluated revision whose verdicts differ.\<close>

theorem disagreement_detected:
  assumes "conflictingAuditRequirementIds E values revisionRef = Inr ids"
  shows "k \<in> set ids \<longleftrightarrow> (\<exists>a\<in>set (about revisionRef k (elems values)). \<exists>b\<in>set (about revisionRef k (elems values)).
     fld a ''verdict'' \<noteq> fld b ''verdict'')"
  by (rule conflictingAuditRequirementIds_Inr [OF assms])

lemma evaluateAssurance_step:
  assumes "evaluateAssurance E input = Inr out"
  shows "lifecycle_step E (fld input ''lifecycle'') (fld out ''lifecycle'')
    \<and> (\<exists>s\<in>set [''gate_ready'', ''remanded'', ''under_audit'', ''candidate'']. fld (fld out ''lifecycle'') ''state'' = JStr s)
    \<and> (fld (fld out ''lifecycle'') ''state'' = JStr ''gate_ready'' \<longrightarrow> fld (fld out ''join'') ''gateReady'' = JBool True)"
proof -
  obtain st :: evaluation and escalation graphRef gateRef where
    l: "reviseArtifactLifecycleInstance E (fld input ''lifecycle'') (evaluationUpdate (dflt input) graphRef gateRef
        (evaluatedState (assuranceVerdict E (fld input ''assuranceGraph'') (nodeStates st) (blockerCodes st)
               (remandAssessmentRefs st) escalation) (remandAssessmentRefs st) (fld out ''graph''))) = Inr (fld out ''lifecycle'')"
    and j: "fld (fld out ''join'') ''gateReady'' = JBool (assuranceSupported (assuranceVerdict E (fld input ''assuranceGraph'') (nodeStates st) (blockerCodes st)
               (remandAssessmentRefs st) escalation))"
    using evaluateAssurance_Inr [OF assms, unfolded Let_def] by (elim exE conjE) (rule that; assumption)
  let ?v = "assuranceVerdict E (fld input ''assuranceGraph'') (nodeStates st) (blockerCodes st)
               (remandAssessmentRefs st) escalation"
  have s: "fld (fld out ''lifecycle'') ''state'' = JStr (evaluatedState ?v (remandAssessmentRefs st) (fld out ''graph''))"
    by (rule evaluateAssurance_lifecycle [OF l evaluatedState_cases])
  have "fld (fld out ''join'') ''gateReady'' = JBool True" if "fld (fld out ''lifecycle'') ''state'' = JStr ''gate_ready''"
    using that j unfolding s by (simp only: jval.inject evaluatedState_ready)
  moreover have "\<exists>s\<in>set [''gate_ready'', ''remanded'', ''under_audit'', ''candidate'']. fld (fld out ''lifecycle'') ''state'' = JStr s"
    using s evaluatedState_cases by blast
  ultimately show ?thesis using lifecycle_step.intros [OF l] by blast
qed

end
