(* ===== verification/RemandRouting.thy ===== *)
theory RemandRouting
  imports AssuranceEvaluation
begin

section \<open>Routing remands\<close>

text \<open>
  \<open>createRemandRouting\<close> (\<^verbatim>\<open>src/main/direct/worldmanager/artifact-lifecycle-runtime.js\<close>): the
  assessments of the exact revision that require a revision become obligations of the producer,
  the lifecycle is remanded once more, and past a threshold the remand goes to the manager
  instead of the producer.
\<close>

definition ARTIFACT_REMAND_ROUTING_SCHEMA :: string where
  "ARTIFACT_REMAND_ROUTING_SCHEMA = ''direct_artifact_remand_routing@1''"

definition ARTIFACT_ESCALATION_CANDIDATE_SCHEMA :: string where
  "ARTIFACT_ESCALATION_CANDIDATE_SCHEMA = ''direct_artifact_escalation_candidate@1''"

definition remandingAssessments :: "jsenv \<Rightarrow> jval \<Rightarrow> jval list \<Rightarrow> jval list res" where
  "remandingAssessments E revisionRef assessments =
     efilter (\<lambda>assessment. ebind (validateAuditAssessment E assessment) (\<lambda>_.
       Inr (exactRefMatches (fld assessment ''artifactRevisionRef'') revisionRef
         \<and> fld assessment ''verdict'' = JStr ''requires_revision''))) assessments"

definition remandObligationsOf :: "jsenv \<Rightarrow> jval \<Rightarrow> jval \<Rightarrow> jval \<Rightarrow> jval \<Rightarrow> jval list res" where
  \<comment> \<open>the callback of \<open>remanding.flatMap\<close>\<close>
  "remandObligationsOf E input lifecycle revisionRef assessment =
     ebind (method_elems (fld assessment ''remandObligations'')) (\<lambda>obligations.
     emap (\<lambda>obligation.
       ebind (artifactLifecycleInstanceRef E lifecycle) (\<lambda>lifecycleRef.
       ebind (auditAssessmentRef E assessment (fld (fld lifecycle ''subjectScope'') ''projectId'')) (\<lambda>ref.
       buildRemandObligation E (JObj [
         (''lifecycleRef'', lifecycleRef),
         (''artifactRevisionRef'', revisionRef),
         (''sourceAssessmentRef'', ref),
         (''obligation'', obligation),
         (''now'', fld input ''now''),
         (''createdAt'', fld input ''createdAt'')])))) obligations)"

definition escalationCandidate :: "jsenv \<Rightarrow> jval \<Rightarrow> jval \<Rightarrow> jval \<Rightarrow> jval \<Rightarrow> jval res" where
  "escalationCandidate E input constitution revisionRef revisedLifecycle =
     ebind (artifactLifecycleInstanceRef E revisedLifecycle) (\<lambda>lifecycleRef.
     ebind (stamped E input) (\<lambda>createdAt.
     Inr (artifact E ARTIFACT_ESCALATION_CANDIDATE_SCHEMA ''escalationCandidateId''
       (stableId E ''wm_artifact_escalation_candidate'' (JObj [
          (''lifecycleRef'', lifecycleRef),
          (''reason'', JStr ''repeated_remand_threshold_reached'')]))
       [(''lifecycleRef'', lifecycleRef),
        (''artifactRevisionRef'', revisionRef),
        (''reasonCodes'', strings [''repeated_remand_threshold_reached'']),
        (''notificationStandingRefs'', fld constitution ''notificationStandingRefs''),
        (''authorityActRequired'', JBool True),
        (''canonicalEffect'', JBool False),
        (''createdAt'', createdAt)])))"

definition createRemandRouting :: "jsenv \<Rightarrow> jval \<Rightarrow> jval res" where
  "createRemandRouting E arg =
     ebind (defaulted arg) (\<lambda>input.
     let constitution = fld input ''constitution''; lifecycle = fld input ''lifecycle'';
         revision = fld input ''artifactRevision'' in
     ebind (validateArtifactTypeConstitution E constitution) (\<lambda>_.
     ebind (validateArtifactLifecycleInstance E lifecycle) (\<lambda>_.
     ebind (validateArtifactRevision E revision) (\<lambda>_.
     ebind (artifactRevisionRefFor E revision) (\<lambda>revisionRef.
     ebind (remandingAssessments E revisionRef (elems (fld input ''auditAssessments''))) (\<lambda>remanding.
     ebind (emap (remandObligationsOf E input lifecycle revisionRef) remanding) (\<lambda>obligationLists.
     let obligations = concat obligationLists;
         nextRemandCount = js_plus1 E (fld lifecycle ''remandCount'');
         escalationRequired = at_least E nextRemandCount (threshold E (fld input ''remandThreshold'') 3) in
     ebind (artifactLifecycleInstanceRef E lifecycle) (\<lambda>lifecycleRef.
     ebind (emap (\<lambda>obligation. exactRef (JObj [
         (''kind'', JStr ''artifact_remand_obligation''),
         (''id'', fld obligation ''remandObligationId''),
         (''digest'', fld obligation ''digest''),
         (''projectId'', fld (fld lifecycle ''subjectScope'') ''projectId'')]) ''ref'') obligations)
       (\<lambda>obligationRefs.
     ebind (stamped E input) (\<lambda>createdAt.
     let routing = artifact E ARTIFACT_REMAND_ROUTING_SCHEMA ''remandRoutingId''
       (stableId E ''wm_artifact_remand_routing'' (JObj [
          (''lifecycleRef'', lifecycleRef), (''revisionRef'', revisionRef),
          (''obligations'', JArr (map (\<lambda>obligation. fld obligation ''digest'') obligations)),
          (''nextRemandCount'', nextRemandCount)]))
       [(''lifecycleRef'', lifecycleRef),
        (''artifactRevisionRef'', revisionRef),
        (''producerAssignmentRef'', fld lifecycle ''producerAssignmentRef''),
        (''obligationRefs'', JArr obligationRefs),
        (''nextRemandCount'', nextRemandCount),
        (''escalationRequired'', JBool escalationRequired),
        (''routeToProducer'', JBool (\<not> escalationRequired)),
        (''managerWakeRequired'', JBool escalationRequired),
        (''providerLaunchAuthorized'', JBool False),
        (''canonicalEffect'', JBool False),
        (''createdAt'', createdAt)] in
     ebind (getp (fld lifecycle ''budgetUsage'') ''remands'') (\<lambda>remands.
     ebind (reviseArtifactLifecycleInstance E lifecycle (JObj [
         (''constitution'', constitution),
         (''state'', JStr ''remanded''),
         (''remandCount'', nextRemandCount),
         (''budgetUsage'', spread (fld lifecycle ''budgetUsage'') [(''remands'', js_plus1 E remands)]),
         (''now'', fld input ''now''),
         (''createdAt'', fld input ''createdAt'')])) (\<lambda>revisedLifecycle.
     ebind (if escalationRequired
         then escalationCandidate E input constitution revisionRef revisedLifecycle else Inr JNull)
       (\<lambda>escalation.
     Inr (JObj [(''routing'', routing), (''obligations'', JArr obligations),
       (''lifecycle'', revisedLifecycle), (''escalation'', escalation)]))))))))))))))"

subsection \<open>What a remand promises\<close>

lemma createRemandRouting_Inr:
  assumes "createRemandRouting E input = Inr out"
  defines "lifecycle \<equiv> fld input ''lifecycle''"
  defines "nextCount \<equiv> js_plus1 E (fld lifecycle ''remandCount'')"
  defines "escalates \<equiv> at_least E nextCount (threshold E (fld input ''remandThreshold'') 3)"
  shows "\<exists>revisionRef remanding obligationLists remands.
     artifactRevisionRefFor E (fld input ''artifactRevision'') = Inr revisionRef
   \<and> remandingAssessments E revisionRef (elems (fld input ''auditAssessments'')) = Inr remanding
   \<and> emap (remandObligationsOf E (dflt input) lifecycle revisionRef) remanding = Inr obligationLists
   \<and> fld out ''obligations'' = JArr (concat obligationLists)
   \<and> getp (fld lifecycle ''budgetUsage'') ''remands'' = Inr remands
   \<and> reviseArtifactLifecycleInstance E lifecycle (JObj [
         (''constitution'', fld input ''constitution''),
         (''state'', JStr ''remanded''),
         (''remandCount'', nextCount),
         (''budgetUsage'', spread (fld lifecycle ''budgetUsage'') [(''remands'', js_plus1 E remands)]),
         (''now'', fld input ''now''),
         (''createdAt'', fld input ''createdAt'')]) = Inr (fld out ''lifecycle'')
   \<and> fld (fld out ''routing'') ''escalationRequired'' = JBool escalates
   \<and> fld (fld out ''routing'') ''routeToProducer'' = JBool (\<not> escalates)
   \<and> fld (fld out ''routing'') ''managerWakeRequired'' = JBool escalates
   \<and> fld (fld out ''routing'') ''nextRemandCount'' = nextCount
   \<and> (if escalates then escalationCandidate E (dflt input) (fld input ''constitution'') revisionRef (fld out ''lifecycle'')
        else Inr JNull) = Inr (fld out ''escalation'')"
  using assms(1) unfolding createRemandRouting_def ebind_defaulted fld_dflt
    lifecycle_def [symmetric]
  apply (elim run_elims)
  apply hypsubst_thin
  apply (simp (no_asm) add: fld_artifact escalates_def nextCount_def cong: if_cong split del: if_split)
  apply (intro exI conjI)
  apply (assumption | rule refl)+
  done

lemma escalationCandidate_object:
  "escalationCandidate E input constitution revisionRef lifecycle = Inr v \<Longrightarrow> v \<noteq> JNull"
  by (auto simp: escalationCandidate_def ebind_Inr_iff) (metis isPlainObject_artifact isPlainObject_simps(3))

lemma at_least_num: "at_least E (num m) (Fin (of_int k)) \<longleftrightarrow> k \<le> m"
  by (auto simp: at_least_def)

text \<open>C22: A remand moves the lifecycle to remanded and counts it; it goes back to the producer below
the threshold and wakes the manager with an escalation from the threshold on.\<close>

theorem remand_counts_and_escalates:
  assumes "createRemandRouting E input = Inr out"
    and "fld (fld input ''lifecycle'') ''remandCount'' = num n" "0 \<le> n"
    and "threshold E (fld input ''remandThreshold'') 3 = Fin (of_int k)"
  shows "lifecycle_step E (fld input ''lifecycle'') (fld out ''lifecycle'')
    \<and> fld (fld out ''lifecycle'') ''state'' = JStr ''remanded''
    \<and> fld (fld out ''lifecycle'') ''remandCount'' = num (n + 1)
    \<and> fld (fld out ''routing'') ''nextRemandCount'' = num (n + 1)
    \<and> fld (fld out ''routing'') ''routeToProducer'' = JBool (n + 1 < k)
    \<and> fld (fld out ''routing'') ''managerWakeRequired'' = JBool (k \<le> n + 1)
    \<and> (fld out ''escalation'' \<noteq> JNull \<longleftrightarrow> k \<le> n + 1)"
proof -
  let ?l = "fld input ''lifecycle''"
  have a: "at_least E (num (n + 1)) (Fin (of_int k)) \<longleftrightarrow> k \<le> n + 1" by (rule at_least_num)
  obtain revisionRef remands where
    v: "reviseArtifactLifecycleInstance E ?l (JObj [
         (''constitution'', fld input ''constitution''),
         (''state'', JStr ''remanded''),
         (''remandCount'', num (n + 1)),
         (''budgetUsage'', spread (fld ?l ''budgetUsage'') [(''remands'', js_plus1 E remands)]),
         (''now'', fld input ''now''),
         (''createdAt'', fld input ''createdAt'')]) = Inr (fld out ''lifecycle'')"
    and o: "fld (fld out ''routing'') ''routeToProducer'' = JBool (\<not> k \<le> n + 1)"
      "fld (fld out ''routing'') ''managerWakeRequired'' = JBool (k \<le> n + 1)"
      "fld (fld out ''routing'') ''nextRemandCount'' = num (n + 1)"
    and e: "(if k \<le> n + 1 then escalationCandidate E (dflt input) (fld input ''constitution'') revisionRef (fld out ''lifecycle'')
        else Inr JNull) = Inr (fld out ''escalation'')"
    using createRemandRouting_Inr [OF assms(1), unfolded assms(2,4) js_plus1_num a]
    by (elim exE conjE) (rule that; assumption)
  note q = reviseArtifactLifecycleInstance_Inr [OF v]
  have "fld (fld out ''lifecycle'') ''state'' = JStr ''remanded''"
    using q(10) by (simp add: js_text_JStr trim_id is_space_def)
  moreover have "fld (fld out ''lifecycle'') ''remandCount'' = num (n + 1)"
    using q(15) assms(3) by simp
  moreover have "fld out ''escalation'' \<noteq> JNull \<longleftrightarrow> k \<le> n + 1"
    using e escalationCandidate_object by (auto split: if_splits)
  moreover have "lifecycle_step E ?l (fld out ''lifecycle'')" using v by (rule lifecycle_step.intros)
  ultimately show ?thesis using o by (simp add: not_le)
qed

theorem remand_obligations_from_audits:
  assumes "createRemandRouting E input = Inr out"
  shows "\<exists>revisionRef obligations. artifactRevisionRefFor E (fld input ''artifactRevision'') = Inr revisionRef
    \<and> fld out ''obligations'' = JArr obligations
    \<and> (\<forall>ob\<in>set obligations. fld ob ''state'' = JStr ''open'' \<and> fld ob ''blocking'' = JBool True
        \<and> fld ob ''artifactRevisionRef'' = revisionRef
        \<and> (\<exists>a\<in>set (elems (fld input ''auditAssessments'')). \<exists>t\<in>set (elems (fld a ''remandObligations'')).
             exactRefMatches (fld a ''artifactRevisionRef'') revisionRef \<and> fld a ''verdict'' = JStr ''requires_revision''
             \<and> fld ob ''obligation'' = JStr (bounded t [] 800)))
    \<and> (\<forall>a\<in>set (elems (fld input ''auditAssessments'')). \<forall>t\<in>set (elems (fld a ''remandObligations'')).
        exactRefMatches (fld a ''artifactRevisionRef'') revisionRef \<and> fld a ''verdict'' = JStr ''requires_revision''
          \<longrightarrow> (\<exists>ob\<in>set obligations. fld ob ''obligation'' = JStr (bounded t [] 800)))"
proof -
  let ?l = "fld input ''lifecycle''" and ?as = "elems (fld input ''auditAssessments'')"
  obtain revisionRef remanding lists where r: "artifactRevisionRefFor E (fld input ''artifactRevision'') = Inr revisionRef"
    and m: "remandingAssessments E revisionRef ?as = Inr remanding"
    and l: "emap (remandObligationsOf E (dflt input) ?l revisionRef) remanding = Inr lists"
    and o: "fld out ''obligations'' = JArr (concat lists)"
    using createRemandRouting_Inr [OF assms] by blast
  have mem: "a \<in> set remanding \<longleftrightarrow> a \<in> set ?as \<and> exactRefMatches (fld a ''artifactRevisionRef'') revisionRef
      \<and> fld a ''verdict'' = JStr ''requires_revision''" for a
    using efilter_Inr [OF m [unfolded remandingAssessments_def]] by (auto simp: ebind_Inr_iff)
  have item: "list_all2 (\<lambda>t ob. fld ob ''state'' = JStr ''open'' \<and> fld ob ''blocking'' = JBool True
        \<and> fld ob ''artifactRevisionRef'' = revisionRef \<and> fld ob ''obligation'' = JStr (bounded t [] 800))
      (elems (fld a ''remandObligations'')) os"
    if "remandObligationsOf E (dflt input) ?l revisionRef a = Inr os" for a os
  proof -
    from that obtain ts where ts: "fld a ''remandObligations'' = JArr ts"
      and e: "list_all2 (\<lambda>t ob. \<exists>lifecycleRef ref. buildRemandObligation E (JObj [
         (''lifecycleRef'', lifecycleRef),
         (''artifactRevisionRef'', revisionRef),
         (''sourceAssessmentRef'', ref),
         (''obligation'', t),
         (''now'', fld input ''now''),
         (''createdAt'', fld input ''createdAt'')]) = Inr ob) ts os"
      unfolding remandObligationsOf_def fld_dflt ebind_Inr_iff method_elems_Inr_iff emap_Inr_iff
      by (elim exE conjE) (rule that, assumption, erule list_all2_mono, blast)
    from e show ?thesis unfolding ts elems_simps
    proof (rule list_all2_mono)
      fix t ob assume "\<exists>lifecycleRef ref. buildRemandObligation E (JObj [
         (''lifecycleRef'', lifecycleRef), (''artifactRevisionRef'', revisionRef), (''sourceAssessmentRef'', ref),
         (''obligation'', t), (''now'', fld input ''now''), (''createdAt'', fld input ''createdAt'')]) = Inr ob"
      then show "fld ob ''state'' = JStr ''open'' \<and> fld ob ''blocking'' = JBool True
        \<and> fld ob ''artifactRevisionRef'' = revisionRef \<and> fld ob ''obligation'' = JStr (bounded t [] 800)"
        using artifactRevisionRefFor_Inr(2) [OF r] by (auto dest!: buildRemandObligation_Inr)
    qed
  qed
  have from_audit: "\<exists>a\<in>set remanding. \<exists>t\<in>set (elems (fld a ''remandObligations'')). fld ob ''state'' = JStr ''open''
      \<and> fld ob ''blocking'' = JBool True \<and> fld ob ''artifactRevisionRef'' = revisionRef
      \<and> fld ob ''obligation'' = JStr (bounded t [] 800)" if "ob \<in> set (concat lists)" for ob
  proof -
    from that obtain os where os: "os \<in> set lists" "ob \<in> set os" by auto
    then obtain a where a: "a \<in> set remanding" "remandObligationsOf E (dflt input) ?l revisionRef a = Inr os"
      using emap_origin [OF l os(1)] by blast
    from item [OF a(2)] os(2) a(1) show ?thesis by (fastforce simp: list_all2_conv_all_nth in_set_conv_nth)
  qed
  have to_obligation: "\<exists>ob\<in>set (concat lists). fld ob ''obligation'' = JStr (bounded t [] 800)"
    if "a \<in> set remanding" "t \<in> set (elems (fld a ''remandObligations''))" for a t
  proof -
    from emap_member [OF l that(1)] obtain os where os: "os \<in> set lists"
      "remandObligationsOf E (dflt input) ?l revisionRef a = Inr os" by blast
    from item [OF os(2)] that(2) obtain ob where "ob \<in> set os" "fld ob ''obligation'' = JStr (bounded t [] 800)"
      by (fastforce simp: list_all2_conv_all_nth in_set_conv_nth)
    with os(1) show ?thesis by auto
  qed
  show ?thesis
  proof (intro exI [of _ revisionRef] exI [of _ "concat lists"] conjI ballI impI, goal_cases)
    case (3 ob) from from_audit [OF 3] show ?case by blast
  next
    case (4 ob) from from_audit [OF 4] show ?case by blast
  next
    case (5 ob) from from_audit [OF 5] show ?case by blast
  next
    case (6 ob) from from_audit [OF 6] mem show ?case by blast
  next
    case (7 a t)
    then have "a \<in> set remanding" using mem by blast
    from to_obligation [OF this 7(2)] show ?case .
  qed (use r o in simp_all)
qed

lemma createRemandRouting_step:
  assumes "createRemandRouting E input = Inr out"
  shows "lifecycle_step E (fld input ''lifecycle'') (fld out ''lifecycle'')"
    "fld (fld out ''lifecycle'') ''state'' = JStr ''remanded''"
proof -
  obtain u c where v: "reviseArtifactLifecycleInstance E (fld input ''lifecycle'') (JObj [
         (''constitution'', fld input ''constitution''),
         (''state'', JStr ''remanded''),
         (''remandCount'', c),
         (''budgetUsage'', u),
         (''now'', fld input ''now''),
         (''createdAt'', fld input ''createdAt'')]) = Inr (fld out ''lifecycle'')"
    using createRemandRouting_Inr [OF assms] by (elim exE conjE) (rule that; assumption)
  show "lifecycle_step E (fld input ''lifecycle'') (fld out ''lifecycle'')" using v by (rule lifecycle_step.intros)
  show "fld (fld out ''lifecycle'') ''state'' = JStr ''remanded''"
    using reviseArtifactLifecycleInstance_Inr(10) [OF v] by (simp add: js_text_JStr trim_id is_space_def)
qed

end
