(* ===== verification/LifecycleRuntime.thy ===== *)
theory LifecycleRuntime
  imports RemandRouting
begin

section \<open>The lifecycle runtime and its compatibility adapters\<close>

text \<open>
  \<open>adaptMetaOrchestratorShadow\<close>, \<open>adaptSc8Artifacts\<close> and the class
  \<open>DirectArtifactLifecycleRuntime\<close>
  (\<^verbatim>\<open>src/main/direct/worldmanager/artifact-lifecycle-runtime.js\<close>). The state of the class is its
  clock; every method passes it on as \<open>now\<close>. An absent clock (\<open>JUndef\<close>) stands for \<open>Date.now\<close>.
\<close>

subsection \<open>Adapters\<close>

definition META_ORCHESTRATOR_ADAPTER_SCHEMA :: string where
  "META_ORCHESTRATOR_ADAPTER_SCHEMA = ''direct_meta_orchestrator_lifecycle_adapter@1''"

definition SC8_ARTIFACT_ADAPTER_SCHEMA :: string where
  "SC8_ARTIFACT_ADAPTER_SCHEMA = ''direct_sc8_artifact_lifecycle_adapter@1''"

definition legacyArtifactRef :: "jval \<Rightarrow> string \<Rightarrow> jval res" where
  "legacyArtifactRef v fallbackKind =
     exactRef (JObj [
       (''kind'', JStr (js_text (js_or (fld v ''artifactClass'') (fld v ''schema'')) fallbackKind)),
       (''id'', js_or (js_or (js_or (fld v ''artifactId'') (fld v ''closureCandidateId''))
          (fld v ''evidenceBundleId'')) (fld v ''workerConstitutionId'')),
       (''digest'', js_or (fld v ''artifactDigest'') (fld v ''digest'')),
       (''projectId'', fld v ''projectId'')]) fallbackKind"

definition legacyProducerAssignment :: "jsenv \<Rightarrow> jval \<Rightarrow> jval \<Rightarrow> jval \<Rightarrow> jval \<Rightarrow> jval \<Rightarrow> jval \<Rightarrow> jval res" where
  \<comment> \<open>\<open>buildProducerAssignment\<close> of \<open>adaptMetaOrchestratorShadow\<close>\<close>
  "legacyProducerAssignment E input requestedLifecycle planPointer legacyArtifact requestRef contentRef =
     (let producerRole = js_text (fld legacyArtifact ''producerRole'') ''implementation_worker'' in
     ebind (artifactLifecycleInstanceRef E requestedLifecycle) (\<lambda>lifecycleRef.
     ebind (exactRef (JObj [
         (''kind'', JStr ''legacy_role_instance''),
         (''id'', JStr (js_text (js_or (fld legacyArtifact ''workerThreadId'')
            (fld legacyArtifact ''auditorThreadId'')) (producerRole @ ''_legacy''))),
         (''digest'', JStr (digestFor E ''legacy_role_instance'' (JObj [
            (''requestRef'', requestRef), (''producerRole'', fld legacyArtifact ''producerRole'')]) [])),
         (''projectId'', fld planPointer ''projectId'')]) ''ref'') (\<lambda>agentRef.
     ebind (exactRef (JObj [
         (''kind'', JStr ''compatibility_eligibility_receipt''),
         (''id'', JStr (''meta_orchestrator_'' @ js_string E (fld planPointer ''currentStepId''))),
         (''digest'', JStr (digestFor E ''compatibility_eligibility_receipt'' (JObj [
            (''requestRef'', requestRef), (''contentRef'', contentRef)]) [])),
         (''projectId'', fld planPointer ''projectId'')]) ''ref'') (\<lambda>eligibilityRef.
     buildProducerAssignment E (JObj [
       (''lifecycleRef'', lifecycleRef),
       (''lifecycleId'', fld requestedLifecycle ''lifecycleId''),
       (''producerRole'', JStr producerRole),
       (''producerAgentRef'', agentRef),
       (''eligibilityRef'', eligibilityRef),
       (''now'', fld input ''now'')])))))"

definition adaptLegacyArtifact :: "jsenv \<Rightarrow> jval \<Rightarrow> jval \<Rightarrow> jval \<Rightarrow> jval \<Rightarrow> jval \<Rightarrow> jval list \<Rightarrow> (jval \<times> jval) res" where
  \<comment> \<open>the block \<open>if (legacyArtifact) {...}\<close>: the producer assignment and the publication\<close>
  "adaptLegacyArtifact E input requestedLifecycle planPointer legacyArtifact requestRef sourceRefs =
     (let constitution = fld input ''constitution'' in
     ebind (legacyArtifactRef legacyArtifact ''legacy_artifact'') (\<lambda>contentRef.
     ebind (legacyProducerAssignment E input requestedLifecycle planPointer legacyArtifact requestRef
         contentRef) (\<lambda>producerAssignment.
     ebind (applyProducerAssignment E (JObj [
         (''constitution'', constitution),
         (''lifecycle'', requestedLifecycle),
         (''assignment'', producerAssignment),
         (''now'', fld input ''now'')])) (\<lambda>lifecycle.
     ebind (publishArtifactRevision E (JObj [
         (''constitution'', constitution),
         (''lifecycle'', lifecycle),
         (''producerAssignment'', producerAssignment),
         (''artifactId'', fld legacyArtifact ''artifactId''),
         (''artifactContentRef'', contentRef),
         (''evidenceRefs'', JArr sourceRefs),
         (''settledProperties'', JObj [
           (''compatibilitySource'', JStr ''direct_meta_orchestrator_shadow''),
           (''legacyArtifactClass'', JStr (js_text (fld legacyArtifact ''artifactClass'') ''unknown''))]),
         (''now'', fld input ''now'')])) (\<lambda>publication.
     Inr (producerAssignment, publication))))))"

definition adaptMetaOrchestratorShadow :: "jsenv \<Rightarrow> jval \<Rightarrow> jval res" where
  "adaptMetaOrchestratorShadow E arg =
     ebind (defaulted arg) (\<lambda>input.
     let constitution = fld input ''constitution''; planPointer = fld input ''planPointer'';
         legacyArtifact = js_or (fld input ''artifact'') JNull in
     ebind (validateArtifactTypeConstitution E constitution) (\<lambda>_.
     if \<not> isPlainObject planPointer
       \<or> fld planPointer ''schema'' \<noteq> JStr ''direct_meta_orchestrator_plan_pointer@1''
       \<or> js_text (fld planPointer ''pointerDigest'') [] = []
     then fail ''world_manager_artifact_meta_orchestrator_pointer_invalid'' []
     else
     ebind (exactRef (JObj [
         (''kind'', JStr ''direct_meta_orchestrator_plan_pointer''),
         (''id'', fld planPointer ''planPointerId''),
         (''digest'', fld planPointer ''pointerDigest''),
         (''projectId'', fld planPointer ''projectId'')]) ''ref'') (\<lambda>requestRef.
     ebind (buildAssuranceGraph E (JObj [
         (''constitution'', constitution),
         (''lifecycleId'', JStr (js_text (fld input ''lifecycleId'')
            (stableId E ''wm_meta_orchestrator_artifact_lifecycle'' requestRef))),
         (''settledProperties'', JObj []),
         (''now'', fld input ''now'')])) (\<lambda>initialGraph.
     ebind (assuranceGraphRef E initialGraph (fld planPointer ''projectId'')) (\<lambda>graphRef.
     ebind (buildArtifactLifecycleInstance E (JObj [
         (''constitution'', constitution),
         (''lifecycleId'', fld initialGraph ''lifecycleId''),
         (''requestRef'', requestRef),
         (''subjectScope'', JObj [
           (''kind'', JStr ''workthread''),
           (''projectId'', fld planPointer ''projectId''),
           (''workThreadId'', fld planPointer ''workThreadId''),
           (''taskType'', JStr ''implementation'')]),
         (''assuranceGraphRef'', graphRef),
         (''state'', JStr ''requested''),
         (''now'', fld input ''now'')])) (\<lambda>requestedLifecycle.
     ebind (if truthy legacyArtifact
         then ebind (legacyArtifactRef legacyArtifact ''legacy_artifact'') (\<lambda>r. Inr [r]) else Inr [])
       (\<lambda>legacyRefs.
     ebind (if truthy legacyArtifact
         then ebind (adaptLegacyArtifact E input requestedLifecycle planPointer legacyArtifact requestRef
             (requestRef # legacyRefs)) (\<lambda>(producerAssignment, publication).
           Inr (fld publication ''lifecycle'', fld publication ''graph'', fld publication ''revision'',
             producerAssignment))
         else Inr (requestedLifecycle, initialGraph, JNull, JNull))
       (\<lambda>(lifecycle, assuranceGraph, artifactRevision, producerAssignment).
     ebind (artifactLifecycleInstanceRef E lifecycle) (\<lambda>lifecycleRef.
     ebind (if truthy artifactRevision then artifactRevisionRefFor E artifactRevision else Inr JNull)
       (\<lambda>revisionRef.
     ebind (buildCompatibilityAdapterReceipt E (JObj [
         (''sourceKind'', JStr ''direct_meta_orchestrator_shadow''),
         (''sourceRefs'', JArr (requestRef # legacyRefs)),
         (''lifecycleRef'', lifecycleRef),
         (''artifactRevisionRef'', revisionRef),
         (''rendererSafeSummary'', JStr ''Meta-orchestrator shadow objects registered by exact digest; shallow transition state was not upgraded into semantic assurance.''),
         (''now'', fld input ''now'')])) (\<lambda>adapterReceipt.
     Inr (JObj [
       (''schema'', JStr META_ORCHESTRATOR_ADAPTER_SCHEMA),
       (''requestRef'', requestRef),
       (''lifecycle'', lifecycle),
       (''assuranceGraph'', assuranceGraph),
       (''producerAssignment'', producerAssignment),
       (''artifactRevision'', artifactRevision),
       (''sourceArtifactRef'', case legacyRefs of [] \<Rightarrow> JNull | r # _ \<Rightarrow> r),
       (''compatibilityAdapterReceipt'', adapterReceipt),
       (''sourceBodyCopied'', JBool False),
       (''sourceClaimUpgraded'', JBool False),
       (''canonicalEffect'', JBool False)]))))))))))))"

definition sc8SourcesValid :: "jval \<Rightarrow> jval \<Rightarrow> bool" where
  "sc8SourcesValid workerConstitution evidenceBundle \<longleftrightarrow>
     isPlainObject workerConstitution
     \<and> fld workerConstitution ''schema'' = JStr ''direct_aro_worker_constitution@1''
     \<and> js_text (fld workerConstitution ''digest'') [] \<noteq> []
     \<and> isPlainObject evidenceBundle
     \<and> fld evidenceBundle ''schema'' = JStr ''direct_aro_execution_evidence_bundle@1''
     \<and> js_text (fld evidenceBundle ''digest'') [] \<noteq> []"

definition sc8Production ::
    "jsenv \<Rightarrow> jval \<Rightarrow> jval \<Rightarrow> jval \<Rightarrow> jval \<Rightarrow> jval \<Rightarrow> jval list \<Rightarrow> string \<Rightarrow> (jval \<times> jval) res" where
  \<comment> \<open>the producer assignment, its application and the publication of the evidence\<close>
  "sc8Production E input requestedLifecycle closureCandidate workerRef evidenceRef sourceRefs projectId =
     (let constitution = fld input ''constitution''; workerConstitution = fld input ''workerConstitution'';
          evidenceBundle = fld input ''evidenceBundle'';
          closureId = js_text (fld closureCandidate ''closureCandidateId'') [] in
     ebind (artifactLifecycleInstanceRef E requestedLifecycle) (\<lambda>lifecycleRef.
     ebind (exactRef (JObj [
         (''kind'', JStr ''compatibility_eligibility_receipt''),
         (''id'', JStr (js_string E (fld workerConstitution ''workerConstitutionId'') @ ''_eligible'')),
         (''digest'', JStr (digestFor E ''compatibility_eligibility_receipt'' (JObj [
            (''workerRef'', workerRef), (''evidenceRef'', evidenceRef)]) [])),
         (''projectId'', JStr projectId)]) ''ref'') (\<lambda>eligibilityRef.
     ebind (buildProducerAssignment E (JObj [
         (''lifecycleRef'', lifecycleRef),
         (''lifecycleId'', fld requestedLifecycle ''lifecycleId''),
         (''producerRole'', JStr ''implementation_worker''),
         (''producerAgentRef'', workerRef),
         (''eligibilityRef'', eligibilityRef),
         (''now'', fld input ''now'')])) (\<lambda>producerAssignment.
     ebind (applyProducerAssignment E (JObj [
         (''constitution'', constitution),
         (''lifecycle'', requestedLifecycle),
         (''assignment'', producerAssignment),
         (''now'', fld input ''now'')])) (\<lambda>underProductionLifecycle.
     ebind (publishArtifactRevision E (JObj [
         (''constitution'', constitution),
         (''lifecycle'', underProductionLifecycle),
         (''producerAssignment'', producerAssignment),
         (''artifactId'', if closureId \<noteq> [] then JStr closureId else fld evidenceBundle ''evidenceBundleId''),
         (''artifactContentRef'', evidenceRef),
         (''evidenceRefs'', JArr sourceRefs),
         (''settledProperties'', JObj [
           (''compatibilitySource'', JStr ''world_manager_sc8''),
           (''sc8GateDisposition'', JStr (js_text (fld closureCandidate ''gateDisposition'') ''unsettled''))]),
         (''now'', fld input ''now'')])) (\<lambda>publication.
     Inr (producerAssignment, publication)))))))"

definition adaptSc8Artifacts :: "jsenv \<Rightarrow> jval \<Rightarrow> jval res" where
  "adaptSc8Artifacts E arg =
     ebind (defaulted arg) (\<lambda>input.
     let constitution = fld input ''constitution''; workerConstitution = fld input ''workerConstitution'';
         evidenceBundle = fld input ''evidenceBundle'';
         closureCandidate = js_or (fld input ''closureCandidate'') JNull in
     ebind (validateArtifactTypeConstitution E constitution) (\<lambda>_.
     if \<not> sc8SourcesValid workerConstitution evidenceBundle
     then fail ''world_manager_artifact_sc8_source_invalid'' []
     else if truthy closureCandidate
       \<and> (fld closureCandidate ''schema'' \<noteq> JStr ''direct_aro_closure_candidate@1''
          \<or> js_text (fld closureCandidate ''digest'') [] = [])
     then fail ''world_manager_artifact_sc8_closure_candidate_invalid'' []
     else
     let projectId = js_text (js_or (fld workerConstitution ''projectId'') (fld evidenceBundle ''projectId'')) [];
         workThreadId = js_text (fld workerConstitution ''workThreadId'') [] in
     ebind (legacyArtifactRef workerConstitution ''aro_worker_constitution'') (\<lambda>workerRef.
     ebind (legacyArtifactRef evidenceBundle ''aro_execution_evidence_bundle'') (\<lambda>evidenceRef.
     ebind (if truthy closureCandidate
         then ebind (legacyArtifactRef closureCandidate ''aro_closure_candidate'') (\<lambda>r. Inr [r]) else Inr [])
       (\<lambda>closureRefs.
     ebind (exactRef (js_or (fld input ''requestRef'') workerRef) ''sc8.requestRef'') (\<lambda>requestRef.
     let lifecycleId = js_text (fld input ''lifecycleId'') (stableId E ''wm_sc8_artifact_lifecycle'' (JObj [
           (''workerRef'', workerRef), (''evidenceRef'', evidenceRef)])) in
     ebind (buildAssuranceGraph E (JObj [
         (''constitution'', constitution),
         (''lifecycleId'', JStr lifecycleId),
         (''settledProperties'', JObj []),
         (''now'', fld input ''now'')])) (\<lambda>initialGraph.
     ebind (assuranceGraphRef E initialGraph (JStr projectId)) (\<lambda>graphRef.
     ebind (buildArtifactLifecycleInstance E (JObj [
         (''constitution'', constitution),
         (''lifecycleId'', JStr lifecycleId),
         (''requestRef'', requestRef),
         (''subjectScope'', JObj [
           (''kind'', JStr (if workThreadId \<noteq> [] then ''workthread'' else ''project'')),
           (''projectId'', JStr projectId),
           (''workThreadId'', JStr workThreadId),
           (''taskType'', JStr ''implementation'')]),
         (''assuranceGraphRef'', graphRef),
         (''state'', JStr ''requested''),
         (''now'', fld input ''now'')])) (\<lambda>requestedLifecycle.
     let sourceRefs = workerRef # evidenceRef # closureRefs in
     ebind (sc8Production E input requestedLifecycle closureCandidate workerRef evidenceRef sourceRefs
         projectId) (\<lambda>(producerAssignment, publication).
     let lifecycle = fld publication ''lifecycle'' in
     ebind (artifactLifecycleInstanceRef E lifecycle) (\<lambda>lifecycleRef.
     ebind (artifactRevisionRefFor E (fld publication ''revision'')) (\<lambda>revisionRef.
     ebind (buildCompatibilityAdapterReceipt E (JObj [
         (''sourceKind'', JStr ''world_manager_sc8''),
         (''sourceRefs'', JArr sourceRefs),
         (''lifecycleRef'', lifecycleRef),
         (''artifactRevisionRef'', revisionRef),
         (''rendererSafeSummary'', JStr ''SC8 worker, evidence, and closure candidates registered by exact refs; ready_for_review remains non-canonical and unaudited in SC11.''),
         (''now'', fld input ''now'')])) (\<lambda>adapterReceipt.
     Inr (JObj [
       (''schema'', JStr SC8_ARTIFACT_ADAPTER_SCHEMA),
       (''lifecycle'', lifecycle),
       (''assuranceGraph'', fld publication ''graph''),
       (''producerAssignment'', producerAssignment),
       (''artifactRevision'', fld publication ''revision''),
       (''sourceRefs'', JArr sourceRefs),
       (''compatibilityAdapterReceipt'', adapterReceipt),
       (''sc8ReadyForReviewObserved'', JBool (fld closureCandidate ''gateDisposition'' = JStr ''ready_for_review'')),
       (''sc8ReadyForReviewUpgradedToGateReady'', JBool False),
       (''sourceBodyCopied'', JBool False),
       (''canonicalEffect'', JBool False)]))))))))))))))"

subsection \<open>The runtime class\<close>

record lifecycle_runtime =
  clock :: jval

definition newRuntime :: "jval \<Rightarrow> lifecycle_runtime res" where
  "newRuntime options = ebind (defaulted options) (\<lambda>opts.
     Inr \<lparr>clock = js_or (fld opts ''now'') JUndef\<rparr>)"

definition withClock :: "lifecycle_runtime \<Rightarrow> jval \<Rightarrow> jval" where
  \<comment> \<open>\<open>{...input, now: this.now}\<close>\<close>
  "withClock runtime input = spread input [(''now'', clock runtime)]"

definition runtimeInitialize :: "jsenv \<Rightarrow> lifecycle_runtime \<Rightarrow> jval \<Rightarrow> jval res" where
  "runtimeInitialize E runtime arg =
     ebind (defaulted arg) (\<lambda>input.
     let constitution = fld input ''constitution'' in
     ebind (validateArtifactTypeConstitution E constitution) (\<lambda>_.
     ebind (artifactTypeConstitutionRef E constitution) (\<lambda>constitutionRef.
     let lifecycleId = js_text (fld input ''lifecycleId'') (stableId E ''wm_artifact_lifecycle'' (JObj [
           (''constitutionRef'', constitutionRef), (''requestRef'', fld input ''requestRef'')])) in
     ebind (buildAssuranceGraph E (JObj [
         (''constitution'', constitution),
         (''lifecycleId'', JStr lifecycleId),
         (''settledProperties'', JObj []),
         (''now'', clock runtime)])) (\<lambda>graph.
     ebind (assuranceGraphRef E graph (fld (fld constitution ''semanticScope'') ''projectId'')) (\<lambda>graphRef.
     ebind (buildArtifactLifecycleInstance E (JObj [
         (''constitution'', constitution),
         (''lifecycleId'', JStr lifecycleId),
         (''requestRef'', fld input ''requestRef''),
         (''subjectScope'', fld input ''subjectScope''),
         (''assuranceGraphRef'', graphRef),
         (''state'', JStr ''requested''),
         (''now'', clock runtime)])) (\<lambda>lifecycle.
     Inr (JObj [(''lifecycle'', lifecycle), (''graph'', graph)])))))))"

definition runtimeResolveProducer :: "jsenv \<Rightarrow> lifecycle_runtime \<Rightarrow> jval \<Rightarrow> jval res" where
  "runtimeResolveProducer E runtime input = resolveProducer E (withClock runtime input)"

definition runtimeApplyProducerAssignment :: "jsenv \<Rightarrow> lifecycle_runtime \<Rightarrow> jval \<Rightarrow> jval res" where
  "runtimeApplyProducerAssignment E runtime input = applyProducerAssignment E (withClock runtime input)"

definition runtimePublishRevision :: "jsenv \<Rightarrow> lifecycle_runtime \<Rightarrow> jval \<Rightarrow> jval res" where
  "runtimePublishRevision E runtime input = publishArtifactRevision E (withClock runtime input)"

definition runtimeRouteAudits :: "jsenv \<Rightarrow> lifecycle_runtime \<Rightarrow> jval \<Rightarrow> jval res" where
  "runtimeRouteAudits E runtime input = resolveAuditRouting E (withClock runtime input)"

definition runtimeEvaluateAssurance :: "jsenv \<Rightarrow> lifecycle_runtime \<Rightarrow> jval \<Rightarrow> jval res" where
  "runtimeEvaluateAssurance E runtime input = evaluateAssurance E (withClock runtime input)"

definition runtimeCreateRemand :: "jsenv \<Rightarrow> lifecycle_runtime \<Rightarrow> jval \<Rightarrow> jval res" where
  "runtimeCreateRemand E runtime input = createRemandRouting E (withClock runtime input)"

subsection \<open>Histories of the runtime\<close>

text \<open>
  One call of a method that moves the lifecycle. The caller chooses the order of the calls, so
  a history is any sequence of them, each on the lifecycle that the one before returned.
\<close>

inductive runtime_step :: "jsenv \<Rightarrow> lifecycle_runtime \<Rightarrow> jval \<Rightarrow> jval \<Rightarrow> bool" for E R where
  assign: "runtimeApplyProducerAssignment E R input = Inr w \<Longrightarrow> runtime_step E R (fld input ''lifecycle'') w"
| publish: "runtimePublishRevision E R input = Inr out
     \<Longrightarrow> runtime_step E R (fld input ''lifecycle'') (fld out ''lifecycle'')"
| evaluate: "runtimeEvaluateAssurance E R input = Inr out
     \<Longrightarrow> runtime_step E R (fld input ''lifecycle'') (fld out ''lifecycle'')"
| remand: "runtimeCreateRemand E R input = Inr out
     \<Longrightarrow> runtime_step E R (fld input ''lifecycle'') (fld out ''lifecycle'')"

inductive_cases runtime_stepE: "runtime_step E R v w"

definition working_states :: "string list" where
  \<comment> \<open>the states the runtime puts a lifecycle in\<close>
  "working_states = [''under_production'', ''under_audit'', ''candidate'', ''remanded'', ''gate_ready'']"

lemma fld_withClock: "fld (withClock R input) k = (if k = ''now'' then clock R else fld input k)"
  by (simp add: withClock_def fld_spread)

lemma runtime_step_lifecycle:
  assumes "runtime_step E R v w" shows "lifecycle_step E v w"
  using assms
proof (cases rule: runtime_step.cases)
  case (assign input)
  then show ?thesis using applyProducerAssignment_step(1) by (fastforce simp: runtimeApplyProducerAssignment_def fld_withClock)
next
  case (publish input out)
  then show ?thesis using publication_restarts by (fastforce simp: runtimePublishRevision_def fld_withClock)
next
  case (evaluate input out)
  then show ?thesis using evaluateAssurance_step by (fastforce simp: runtimeEvaluateAssurance_def fld_withClock)
next
  case (remand input out)
  then show ?thesis using createRemandRouting_step(1) by (fastforce simp: runtimeCreateRemand_def fld_withClock)
qed

lemma runtime_step_state:
  assumes "runtime_step E R v w" shows "one_of (fld w ''state'') working_states"
  using assms
proof (cases rule: runtime_step.cases)
  case (assign input)
  then show ?thesis using applyProducerAssignment_step(2) [of E "withClock R input" w]
    by (simp add: runtimeApplyProducerAssignment_def one_of_def working_states_def)
next
  case (publish input out)
  then have "fld w ''state'' = JStr (if needsAudit (fld out ''graph'') then ''under_audit'' else ''candidate'')"
    using publication_restarts [of E "withClock R input" out] by (simp add: runtimePublishRevision_def)
  then show ?thesis by (simp add: one_of_def working_states_def)
next
  case (evaluate input out)
  then have "\<exists>s\<in>set [''gate_ready'', ''remanded'', ''under_audit'', ''candidate'']. fld w ''state'' = JStr s"
    using evaluateAssurance_step [of E "withClock R input" out] by (simp add: runtimeEvaluateAssurance_def)
  then show ?thesis by (auto simp: one_of_def working_states_def)
next
  case (remand input out)
  then show ?thesis using createRemandRouting_step(2) [of E "withClock R input" out]
    by (simp add: runtimeCreateRemand_def one_of_def working_states_def)
qed

lemma runtime_history_lifecycle: "(runtime_step E R ^^ n) v w \<Longrightarrow> (lifecycle_step E ^^ n) v w"
  by (induction n arbitrary: w) (auto intro: runtime_step_lifecycle)

lemma runtime_history_state: "(runtime_step E R ^^ n) v w \<Longrightarrow> 0 < n \<Longrightarrow> one_of (fld w ''state'') working_states"
  by (cases n) (auto intro: runtime_step_state)

lemma runtimeInitialize_Inr:
  assumes "runtimeInitialize E R input = Inr out"
  shows "\<exists>lifecycleId graphRef. buildArtifactLifecycleInstance E (JObj [
         (''constitution'', fld input ''constitution''),
         (''lifecycleId'', JStr lifecycleId),
         (''requestRef'', fld input ''requestRef''),
         (''subjectScope'', fld input ''subjectScope''),
         (''assuranceGraphRef'', graphRef),
         (''state'', JStr ''requested''),
         (''now'', clock R)]) = Inr (fld out ''lifecycle'')"
  using assms unfolding runtimeInitialize_def ebind_defaulted fld_dflt
  by (elim run_elims) (hypsubst_thin, simp, blast)

text \<open>C10: From the lifecycle a runtime initialises, any n operations of the runtime give a valid
lifecycle revision 1 + n with the same identity, in a working state that is never terminal and
never admitted.\<close>

theorem runtime_never_admits:
  assumes "runtimeInitialize E R input = Inr out" "(runtime_step E R ^^ n) (fld out ''lifecycle'') w"
  shows "revision_number ''lifecycleRevision'' w = 1 + int n \<and> same_lifecycle (fld out ''lifecycle'') w
    \<and> validateArtifactLifecycleInstance E w = Inr True
    \<and> one_of (fld w ''state'') (''requested'' # working_states)
    \<and> fld w ''terminal'' = JBool False \<and> fld w ''canonicalAdmissionEffect'' = JBool False"
proof -
  let ?l = "fld out ''lifecycle''"
  obtain lifecycleId graphRef where b: "buildArtifactLifecycleInstance E (JObj [
         (''constitution'', fld input ''constitution''),
         (''lifecycleId'', JStr lifecycleId),
         (''requestRef'', fld input ''requestRef''),
         (''subjectScope'', fld input ''subjectScope''),
         (''assuranceGraphRef'', graphRef),
         (''state'', JStr ''requested''),
         (''now'', clock R)]) = Inr ?l"
    using runtimeInitialize_Inr [OF assms(1)] by blast
  note v = buildArtifactLifecycleInstance_valid [OF b]
  have s: "fld ?l ''state'' = JStr ''requested''"
    using buildArtifactLifecycleInstance_Inr [OF b] by (simp add: js_text_JStr trim_id is_space_def)
  have r: "fld ?l ''lifecycleRevision'' = num 1"
    using buildArtifactLifecycleInstance_Inr [OF b] by (simp add: js_or_num num_def)
  have h: "(lifecycle_step E ^^ n) ?l w" using runtime_history_lifecycle [OF assms(2)] .
  have w: "validateArtifactLifecycleInstance E w = Inr True \<and> one_of (fld w ''state'') (''requested'' # working_states)
     \<and> same_lifecycle ?l w"
  proof (cases n)
    case 0
    with assms(2) have "w = ?l" by simp
    moreover obtain p where "artifactExactRef ''artifact_type_constitution'' (fld input ''constitution'')
        ''artifactTypeConstitutionId'' p = Inr (fld ?l ''artifactTypeConstitutionRef'')"
      using buildArtifactLifecycleInstance_Inr [OF b] by (auto simp: artifactTypeConstitutionRef_def ebind_Inr_iff)
    then have "same_lifecycle ?l ?l"
      using artifactExactRef_again exactRefMatches_refl by (simp add: same_lifecycle_def) blast
    ultimately show ?thesis using v s by (simp add: one_of_def)
  next
    case (Suc m)
    with h have t: "(lifecycle_step E)\<^sup>+\<^sup>+ ?l w" unfolding tranclp_power by blast
    from h Suc obtain u where "lifecycle_step E u w" by auto
    then have "validateArtifactLifecycleInstance E w = Inr True"
      by (auto elim!: lifecycle_stepE dest: reviseArtifactLifecycleInstance_Inr(3))
    with runtime_history_state [OF assms(2)] Suc lifecycle_chain.chain_lineage [OF t] show ?thesis
      by (auto dest!: one_ofE)
  qed
  then obtain st where st: "st \<in> set (''requested'' # working_states)" "fld w ''state'' = JStr st"
    by (blast dest: one_ofE)
  have "st \<notin> set TERMINAL_LIFECYCLE_STATES" "st \<noteq> ''admitted''"
    using st(1) by (auto simp: working_states_def TERMINAL_LIFECYCLE_STATES_def)
  then have "fld w ''terminal'' = JBool False" "fld w ''canonicalAdmissionEffect'' = JBool False"
    using validateArtifactLifecycleInstance_Inr(6,7) [of E w True] w st(2) by simp_all
  with w lifecycle_chain.chain_number [OF h] r show ?thesis by (simp add: revision_number_num)
qed

theorem gate_ready_only_by_evaluation:
  assumes "runtime_step E R v w" "fld w ''state'' = JStr ''gate_ready''"
  shows "\<exists>input out. runtimeEvaluateAssurance E R input = Inr out \<and> fld input ''lifecycle'' = v
    \<and> fld out ''lifecycle'' = w \<and> fld (fld out ''join'') ''gateReady'' = JBool True"
  using assms(1)
proof (cases rule: runtime_step.cases)
  case (assign input)
  with assms(2) show ?thesis using applyProducerAssignment_step(2) [of E "withClock R input" w]
    by (simp add: runtimeApplyProducerAssignment_def)
next
  case (publish input out)
  with assms(2) show ?thesis
    using publication_restarts [of E "withClock R input" out]
    by (simp add: runtimePublishRevision_def split: if_splits)
next
  case (evaluate input out)
  with assms(2) have "fld (fld out ''join'') ''gateReady'' = JBool True"
    using evaluateAssurance_step [of E "withClock R input" out] by (simp add: runtimeEvaluateAssurance_def)
  with evaluate show ?thesis by blast
next
  case (remand input out)
  with assms(2) show ?thesis using createRemandRouting_step(2) [of E "withClock R input" out]
    by (simp add: runtimeCreateRemand_def)
qed

subsection \<open>Adapters upgrade nothing\<close>

lemma buildLifecycle_requested:
  assumes "buildArtifactLifecycleInstance E (JObj [
         (''constitution'', c), (''lifecycleId'', i), (''requestRef'', r), (''subjectScope'', sc),
         (''assuranceGraphRef'', g), (''state'', JStr ''requested''), (''now'', now)]) = Inr v"
  shows "fld v ''state'' = JStr ''requested''" "fld v ''gateDecisionRef'' = JNull"
  using buildArtifactLifecycleInstance_Inr [OF assms]
  by (simp_all add: js_text_JStr trim_id is_space_def optionalRef_def)

theorem shadow_adapter_upgrades_nothing:
  assumes "adaptMetaOrchestratorShadow E input = Inr out"
  shows "one_of (fld (fld out ''lifecycle'') ''state'') [''requested'', ''under_audit'', ''candidate'']
    \<and> fld (fld out ''lifecycle'') ''gateDecisionRef'' = JNull
    \<and> fld out ''sourceClaimUpgraded'' = JBool False \<and> fld out ''sourceBodyCopied'' = JBool False
    \<and> fld out ''canonicalEffect'' = JBool False
    \<and> (\<not> truthy (fld input ''artifact'') \<longrightarrow> fld (fld out ''lifecycle'') ''state'' = JStr ''requested''
         \<and> fld out ''artifactRevision'' = JNull \<and> fld out ''producerAssignment'' = JNull)"
proof -
  let ?a = "js_or (fld input ''artifact'') JNull"
  have "\<exists>requestedLifecycle initialGraph requestRef legacyRefs c i r sc g now.
     buildArtifactLifecycleInstance E (JObj [
         (''constitution'', c), (''lifecycleId'', i), (''requestRef'', r), (''subjectScope'', sc),
         (''assuranceGraphRef'', g), (''state'', JStr ''requested''), (''now'', now)]) = Inr requestedLifecycle
   \<and> (if truthy ?a
         then ebind (adaptLegacyArtifact E (dflt input) requestedLifecycle (fld input ''planPointer'') ?a requestRef
             (requestRef # legacyRefs)) (\<lambda>(producerAssignment, publication).
           Inr (fld publication ''lifecycle'', fld publication ''graph'', fld publication ''revision'',
             producerAssignment))
         else Inr (requestedLifecycle, initialGraph, JNull, JNull))
      = Inr (fld out ''lifecycle'', fld out ''assuranceGraph'', fld out ''artifactRevision'', fld out ''producerAssignment'')
   \<and> fld out ''sourceClaimUpgraded'' = JBool False \<and> fld out ''sourceBodyCopied'' = JBool False
   \<and> fld out ''canonicalEffect'' = JBool False"
    using assms unfolding adaptMetaOrchestratorShadow_def ebind_defaulted fld_dflt
    apply (elim run_elims)
    apply (simp only: split_paired_all prod.case)
    apply (elim run_elims)
    apply hypsubst_thin
    apply (simp (no_asm) cong: if_cong split del: if_split)
    apply (intro exI conjI)
     apply assumption+
    done
  then obtain requestedLifecycle initialGraph requestRef legacyRefs c i r sc g now where
    b: "buildArtifactLifecycleInstance E (JObj [
         (''constitution'', c), (''lifecycleId'', i), (''requestRef'', r), (''subjectScope'', sc),
         (''assuranceGraphRef'', g), (''state'', JStr ''requested''), (''now'', now)]) = Inr requestedLifecycle"
    and l: "(if truthy ?a
         then ebind (adaptLegacyArtifact E (dflt input) requestedLifecycle (fld input ''planPointer'') ?a requestRef
             (requestRef # legacyRefs)) (\<lambda>(producerAssignment, publication).
           Inr (fld publication ''lifecycle'', fld publication ''graph'', fld publication ''revision'',
             producerAssignment))
         else Inr (requestedLifecycle, initialGraph, JNull, JNull))
      = Inr (fld out ''lifecycle'', fld out ''assuranceGraph'', fld out ''artifactRevision'', fld out ''producerAssignment'')"
    and f: "fld out ''sourceClaimUpgraded'' = JBool False" "fld out ''sourceBodyCopied'' = JBool False"
      "fld out ''canonicalEffect'' = JBool False"
    by blast
  show ?thesis
  proof (cases "truthy ?a")
    case True
    then obtain i publication where p: "publishArtifactRevision E i = Inr publication"
      and o: "fld out ''lifecycle'' = fld publication ''lifecycle''"
      using l by (auto simp: adaptLegacyArtifact_def Let_def ebind_Inr_iff)
    have "fld out ''lifecycle'' = fld publication ''lifecycle'' \<Longrightarrow>
       one_of (fld (fld out ''lifecycle'') ''state'') [''requested'', ''under_audit'', ''candidate'']
       \<and> fld (fld out ''lifecycle'') ''gateDecisionRef'' = JNull"
      using publication_restarts [OF p] by (simp add: one_of_def)
    with o f True show ?thesis by (auto simp: js_or_def)
  next
    case False
    then show ?thesis using l f buildLifecycle_requested [OF b] by (auto simp: one_of_def js_or_def split: if_splits)
  qed
qed

theorem sc8_adapter_upgrades_nothing:
  assumes "adaptSc8Artifacts E input = Inr out"
  shows "one_of (fld (fld out ''lifecycle'') ''state'') [''under_audit'', ''candidate'']
    \<and> fld (fld out ''lifecycle'') ''gateDecisionRef'' = JNull
    \<and> fld out ''sc8ReadyForReviewUpgradedToGateReady'' = JBool False
    \<and> fld out ''sourceBodyCopied'' = JBool False \<and> fld out ''canonicalEffect'' = JBool False"
proof -
  have "\<exists>a b c d e f g pa publication. sc8Production E a b c d e f g = Inr (pa, publication)
     \<and> fld out ''lifecycle'' = fld publication ''lifecycle''
     \<and> fld out ''sc8ReadyForReviewUpgradedToGateReady'' = JBool False
     \<and> fld out ''sourceBodyCopied'' = JBool False \<and> fld out ''canonicalEffect'' = JBool False"
    using assms unfolding adaptSc8Artifacts_def ebind_defaulted fld_dflt
    apply (elim run_elims)
    apply (simp only: split_paired_all prod.case)
    apply (elim run_elims)
    apply hypsubst_thin
    apply (simp (no_asm) cong: if_cong split del: if_split)
    apply (intro exI conjI)
     apply (assumption | rule refl)+
    done
  then obtain a b c d e f g pa publication where p: "sc8Production E a b c d e f g = Inr (pa, publication)"
    and o: "fld out ''lifecycle'' = fld publication ''lifecycle''"
      "fld out ''sc8ReadyForReviewUpgradedToGateReady'' = JBool False"
      "fld out ''sourceBodyCopied'' = JBool False" "fld out ''canonicalEffect'' = JBool False"
    by blast
  from p obtain i where "publishArtifactRevision E i = Inr publication"
    by (auto simp: sc8Production_def Let_def ebind_Inr_iff)
  from publication_restarts [OF this] o show ?thesis by (simp add: one_of_def)
qed

end
