(* ===== verification/AroRefs.thy ===== *)
theory AroRefs
  imports Requirements
begin

section \<open>Abstract reasoning objects: vocabulary and references\<close>

text \<open>
  The head of \<^verbatim>\<open>src/main/direct/worldmanager/aro-kernel.js\<close>: the schemas and closed vocabularies
  of abstract reasoning objects (AROs), its own \<open>exactRef\<close> (which knows no aliases for identifier
  and digest) and \<open>uniqueRefs\<close>, the identity digest, and the references of the sealed records.
  Text, digests and identifiers are those of \<^theory_text>\<open>ArtifactRefs\<close> and \<^theory_text>\<open>Canonical\<close>: the two
  kernels define them by the same code.
\<close>

subsection \<open>Schemas and vocabularies\<close>

definition ABSTRACT_REASONING_OBJECT_SCHEMA :: string where
  "ABSTRACT_REASONING_OBJECT_SCHEMA = ''direct_abstract_reasoning_object@1''"

definition ARO_BRANCH_SCHEMA :: string where
  "ARO_BRANCH_SCHEMA = ''direct_aro_branch@1''"

definition ARO_EDGE_SCHEMA :: string where
  "ARO_EDGE_SCHEMA = ''direct_aro_edge@1''"

definition ARO_REALIZATION_BINDING_SCHEMA :: string where
  "ARO_REALIZATION_BINDING_SCHEMA = ''direct_aro_realization_binding@1''"

definition ARO_COVERAGE_WITNESS_SCHEMA :: string where
  "ARO_COVERAGE_WITNESS_SCHEMA = ''direct_aro_coverage_witness@1''"

definition ARO_RECONSTRUCTION_CANDIDATE_SCHEMA :: string where
  "ARO_RECONSTRUCTION_CANDIDATE_SCHEMA = ''direct_aro_reconstruction_candidate@1''"

definition ARO_REVIEW_RECEIPT_SCHEMA :: string where
  "ARO_REVIEW_RECEIPT_SCHEMA = ''direct_aro_reconstruction_review_receipt@1''"

definition ARO_ADMISSION_RECEIPT_SCHEMA :: string where
  "ARO_ADMISSION_RECEIPT_SCHEMA = ''direct_aro_admission_receipt@1''"

definition ARO_CURRENT_TARGET_COMPARISON_SCHEMA :: string where
  "ARO_CURRENT_TARGET_COMPARISON_SCHEMA = ''direct_aro_current_target_comparison@1''"

definition ARO_POSTURES :: "string list" where
  "ARO_POSTURES = [''current'', ''target'']"

definition ARO_LIFECYCLES :: "string list" where
  "ARO_LIFECYCLES = [''candidate'', ''active'', ''stale'', ''conflicted'', ''superseded'']"

definition ARO_BRANCH_MODALITIES :: "string list" where
  "ARO_BRANCH_MODALITIES = [''required'', ''possible'', ''counterfactual'']"

definition ARO_BRANCH_STATES :: "string list" where
  "ARO_BRANCH_STATES = [''supported'', ''missing'', ''contradicted'', ''unknown'']"

definition ARO_EDGE_RELATIONS :: "string list" where
  "ARO_EDGE_RELATIONS = [''requires'', ''excludes'', ''causes'', ''refines'', ''alternative_to'',
     ''counterfactual_of'']"

definition ARO_REALIZATION_KINDS :: "string list" where
  "ARO_REALIZATION_KINDS = [''source'', ''test'', ''documentation'', ''runtime_witness'']"

definition ARO_COVERAGE_STATES :: "string list" where
  "ARO_COVERAGE_STATES = [''realized'', ''partial'', ''absent'', ''stale'', ''contradicted'']"

definition ARO_REVIEW_STATES :: "string list" where
  "ARO_REVIEW_STATES = [''pending'', ''reviewed'']"

definition ARO_CANDIDATE_LIFECYCLES :: "string list" where
  "ARO_CANDIDATE_LIFECYCLES = [''candidate'', ''admitted'', ''rejected'']"

subsection \<open>References\<close>

definition aroExactRef :: "jval \<Rightarrow> string \<Rightarrow> jval res" where
  "aroExactRef arg label =
     ebind (defaulted arg) (\<lambda>v.
       let kind = js_text (fld v ''kind'') [];
           id = js_text (fld v ''id'') [];
           digest = js_text (fld v ''digest'') [];
           refLabel = js_text (fld v ''label'') [];
           projectId = js_text (fld v ''projectId'') []
       in if kind = [] \<or> id = [] \<or> digest = []
          then fail ''aro_exact_ref_invalid'' label
          else Inr (JObj ([(''kind'', JStr kind), (''id'', JStr id), (''digest'', JStr digest)]
            @ (if refLabel = [] then [] else [(''label'', JStr (bounded (JStr refLabel) [] 240))])
            @ (if projectId = [] then [] else [(''projectId'', JStr projectId)]))))"

definition aroOptionalRef :: "jval \<Rightarrow> string \<Rightarrow> jval res" where
  \<comment> \<open>\<open>v ? exactRef(v, label) : null\<close>\<close>
  "aroOptionalRef v label = (if truthy v then aroExactRef v label else Inr JNull)"

definition aroUniqueRefs :: "jsenv \<Rightarrow> jval \<Rightarrow> jval list res" where
  "aroUniqueRefs E values =
     ebind (emapi (\<lambda>index v. aroExactRef v (''refs.'' @ nat_text index)) 0 (elems values))
       (\<lambda>refs. Inr (dedup (exactRefKey E) refs))"

definition checkRefs :: "jval \<Rightarrow> string \<Rightarrow> bool res" where
  \<comment> \<open>\<open>v.forEach((ref, index) => exactRef(ref, `prefix.${index}`))\<close>\<close>
  "checkRefs v prefix = ebind (method_elems v) (\<lambda>refs.
     eforeachi (\<lambda>index ref. aroExactRef ref (prefix @ ''.'' @ nat_text index)) refs)"

definition checkOptionalRef :: "jval \<Rightarrow> string \<Rightarrow> bool res" where
  \<comment> \<open>\<open>if (v) exactRef(v, label)\<close>\<close>
  "checkOptionalRef v label = (if truthy v then ebind (aroExactRef v label) (\<lambda>_. Inr True) else Inr True)"

definition aroIdentityDigest :: "jsenv \<Rightarrow> jval \<Rightarrow> string res" where
  "aroIdentityDigest E arg = ebind (defaulted arg) (\<lambda>input.
     Inr (digestFor E ''direct_aro_identity@1'' (JObj [
       (''aroId'', fld input ''aroId''), (''projectId'', fld input ''projectId''),
       (''conceptKey'', fld input ''conceptKey''), (''posture'', fld input ''posture'')]) []))"

definition branchRef :: "jval \<Rightarrow> jval res" where
  "branchRef branch =
     ebind (getp branch ''branchId'') (\<lambda>branchId.
     aroExactRef (JObj [(''kind'', JStr ''aro_branch''), (''id'', branchId),
       (''digest'', fld branch ''digest'')]) ''ref'')"

definition realizationBindingRef :: "jval \<Rightarrow> jval res" where
  "realizationBindingRef binding =
     ebind (getp binding ''realizationBindingId'') (\<lambda>bindingId.
     aroExactRef (JObj [(''kind'', JStr ''aro_realization_binding''), (''id'', bindingId),
       (''digest'', fld binding ''digest'')]) ''ref'')"

definition abstractReasoningObjectRef :: "jval \<Rightarrow> jval res" where
  "abstractReasoningObjectRef aro =
     ebind (getp aro ''aroId'') (\<lambda>aroId.
     aroExactRef (JObj [(''kind'', JStr ''abstract_reasoning_object''), (''id'', aroId),
       (''digest'', fld aro ''digest''), (''projectId'', fld aro ''projectId'')]) ''ref'')"

definition aroReconstructionCandidateRef :: "jval \<Rightarrow> jval res" where
  "aroReconstructionCandidateRef candidate =
     ebind (getp candidate ''candidateId'') (\<lambda>candidateId.
     aroExactRef (JObj [(''kind'', JStr ''aro_reconstruction_candidate''), (''id'', candidateId),
       (''digest'', fld candidate ''digest''), (''projectId'', fld candidate ''projectId'')]) ''ref'')"

definition coverageWitnessRef :: "jval \<Rightarrow> jval res" where
  "coverageWitnessRef witness =
     ebind (getp witness ''coverageWitnessId'') (\<lambda>witnessId.
     aroExactRef (JObj [(''kind'', JStr ''aro_coverage_witness''), (''id'', witnessId),
       (''digest'', fld witness ''digest'')]) ''ref'')"

subsection \<open>Sealing a record\<close>

definition seal :: "jsenv \<Rightarrow> string \<Rightarrow> (string \<times> jval) list \<Rightarrow> jval" where
  \<comment> \<open>\<open>const r = {schema, ...}; r.digest = digestFor(schema, r, ["digest"])\<close>\<close>
  "seal E schema body =
     (let v = JObj ((''schema'', JStr schema) # body)
      in set_fld ''digest'' (JStr (digestFor E schema v [''digest''])) v)"

definition stampedAs :: "jsenv \<Rightarrow> jval \<Rightarrow> string \<Rightarrow> jval res" where
  \<comment> \<open>\<open>text(input[k], nowIso(input.now))\<close>\<close>
  "stampedAs E input k = ebind (nowIso E (fld input ''now''))
     (\<lambda>iso. Inr (JStr (js_text (fld input k) iso)))"

subsection \<open>Laws\<close>

lemma aroExactRef_Inr:
  assumes "aroExactRef v l = Inr r"
  obtains kind id digest label projectId where
    "r = JObj ([(''kind'', JStr kind), (''id'', JStr id), (''digest'', JStr digest)]
            @ (if label = [] then [] else [(''label'', JStr label)])
            @ (if projectId = [] then [] else [(''projectId'', JStr projectId)]))"
    "kind \<noteq> []" "id \<noteq> []" "digest \<noteq> []" "trim kind = kind" "trim id = id" "trim digest = digest"
    "trim projectId = projectId" "trim label = label" "length label \<le> 240"
    "kind = js_text (fld v ''kind'') []" "id = js_text (fld v ''id'') []"
    "digest = js_text (fld v ''digest'') []"
  using assms
proof (cases "defaulted v")
  case (Inr w)
  have f: "fld w k = fld v k" for k using Inr by (rule defaulted_Inr_fld)
  let ?l = "js_text (fld v ''label'') []"
  have l: "?l = [] \<longleftrightarrow> bounded (JStr ?l) [] 240 = []"
    by (auto simp: bounded_def Let_def js_text_JStr)
  from assms Inr l show thesis
    by (intro that [of "js_text (fld v ''kind'') []" "js_text (fld v ''id'') []"
        "js_text (fld v ''digest'') []" "bounded (JStr ?l) [] 240" "js_text (fld v ''projectId'') []"])
      (auto simp: aroExactRef_def Let_def f js_text_trimmed bounded_trimmed bounded_length split: if_splits)
qed (simp add: aroExactRef_def)

lemma aroExactRef_again: "aroExactRef v l = Inr r \<Longrightarrow> aroExactRef r l' = Inr r"
  by (erule aroExactRef_Inr) (auto simp: aroExactRef_def Let_def js_text_JStr bounded_JStr)

lemma aroUniqueRefs_Inr:
  assumes "aroUniqueRefs E v = Inr rs"
  shows "distinct (map (exactRefKey E) rs)"
    and "r \<in> set rs \<Longrightarrow> \<exists>e\<in>set (elems v). \<exists>l. aroExactRef e l = Inr r"
proof -
  from assms obtain refs where
    r: "emapi (\<lambda>i e. aroExactRef e (''refs.'' @ nat_text i)) 0 (elems v) = Inr refs"
    and rs: "rs = dedup (exactRefKey E) refs"
    by (auto simp: aroUniqueRefs_def monad)
  show "distinct (map (exactRefKey E) rs)" by (simp add: rs dedup_from_distinct)
  assume "r \<in> set rs"
  then have "r \<in> set refs" using dedup_from_subset rs by (metis subsetD)
  from emapi_Inr_mem [OF r this] show "\<exists>e\<in>set (elems v). \<exists>l. aroExactRef e l = Inr r" by blast
qed

lemma checkRefs_refs:
  "(\<And>r. r \<in> set rs \<Longrightarrow> \<exists>e l. aroExactRef e l = Inr r) \<Longrightarrow> checkRefs (JArr rs) p = Inr True"
  unfolding checkRefs_def method_elems_JArr ebind_simps
  by (rule eforeachi_InrI) (blast intro: aroExactRef_again)

lemma isPlainObject_seal [simp]: "isPlainObject (seal E schema body)"
  by (simp add: seal_def Let_def set_fld_def)

lemma fld_seal:
  "fld (seal E schema body) k =
     (if k = ''digest'' then JStr (digestFor E schema (seal E schema body) [''digest''])
      else fld (JObj ((''schema'', JStr schema) # body)) k)"
  by (simp add: seal_def Let_def digestFor_set_omitted)

lemma eforeachi_True: "eforeachi f xs = Inr b \<Longrightarrow> b"
  by (auto simp: eforeachi_def ebind_Inr_iff)

lemma checkRefs_True: "checkRefs v p = Inr b \<Longrightarrow> b"
  by (auto simp: checkRefs_def ebind_Inr_iff dest: eforeachi_True)

lemma checkOptionalRef_True: "checkOptionalRef v p = Inr b \<Longrightarrow> b"
  by (auto simp: checkOptionalRef_def ebind_Inr_iff split: if_splits)

lemma aroExactRef_object: "aroExactRef v l = Inr r \<Longrightarrow> isPlainObject r"
  by (erule aroExactRef_Inr) auto

lemma aroExactRef_truthy: "aroExactRef v l = Inr r \<Longrightarrow> truthy r"
  by (auto dest!: aroExactRef_object isPlainObjectE)

end
