(* ===== verification/AroBranches.thy ===== *)
theory AroBranches
  imports AroRefs
begin

section \<open>Branches, edges and realization bindings of an ARO\<close>

text \<open>
  \<open>buildAroBranch\<close>, \<open>buildAroEdge\<close>, \<open>buildAroRealizationBinding\<close> and their validators
  (\<^verbatim>\<open>src/main/direct/worldmanager/aro-kernel.js\<close>). The builders read the branches built so far from
  the \<open>branchByKey\<close> map of their context, here an association list from branch keys to branches.
\<close>

type_synonym branch_map = "(jval \<times> jval) list"

definition branch_at :: "branch_map \<Rightarrow> string \<Rightarrow> jval" where
  \<comment> \<open>\<open>context.branchByKey?.get(key)\<close>\<close>
  "branch_at branchByKey key = (case map_of branchByKey (JStr key) of Some b \<Rightarrow> b | None \<Rightarrow> JUndef)"

subsection \<open>Branches\<close>

definition validateAroBranch :: "jsenv \<Rightarrow> jval \<Rightarrow> bool res" where
  "validateAroBranch E v =
     (if \<not> isPlainObject v
       \<or> fld v ''schema'' \<noteq> JStr ARO_BRANCH_SCHEMA
       \<or> js_text (fld v ''branchId'') [] = []
       \<or> js_text (fld v ''branchKey'') [] = []
       \<or> js_text (fld v ''branchKind'') [] = []
       \<or> \<not> one_of (fld v ''modality'') ARO_BRANCH_MODALITIES
       \<or> js_text (fld v ''statement'') [] = []
       \<or> \<not> one_of (fld v ''semanticState'') ARO_BRANCH_STATES
       \<or> \<not> isArray (fld v ''provenanceRefs'')
       \<or> fld v ''grantsAuthority'' \<noteq> JBool False
       \<or> fld v ''digest'' \<noteq> JStr (digestFor E ARO_BRANCH_SCHEMA v [''digest''])
      then fail ''aro_branch_invalid'' []
      else ebind (checkOptionalRef (fld v ''parentBranchRef'') ''aroBranch.parentBranchRef'') (\<lambda>_.
      checkRefs (fld v ''provenanceRefs'') ''aroBranch.provenanceRefs''))"

definition buildAroBranch :: "jsenv \<Rightarrow> jval \<Rightarrow> jval \<Rightarrow> branch_map \<Rightarrow> jval res" where
  "buildAroBranch E arg aroId branchByKey =
     ebind (defaulted arg) (\<lambda>input.
     let branchKey = js_text (js_or (js_or (fld input ''branchKey'') (fld input ''key''))
           (fld input ''branchId'')) [];
         modality = js_text (fld input ''modality'') ''required'';
         semanticState = js_text (js_or (fld input ''semanticState'') (fld input ''state'')) ''unknown'' in
     if branchKey = [] \<or> modality \<notin> set ARO_BRANCH_MODALITIES \<or> semanticState \<notin> set ARO_BRANCH_STATES
     then fail ''aro_branch_invalid'' []
     else
     let branchId = js_text (fld input ''branchId'') (stableId E ''wm_aro_branch'' (JObj [
           (''aroId'', aroId), (''branchKey'', JStr branchKey)]));
         parentBranchKey = js_text (fld input ''parentBranchKey'') [];
         parentBranch = (if parentBranchKey \<noteq> [] then branch_at branchByKey parentBranchKey else JNull) in
     if parentBranchKey \<noteq> [] \<and> \<not> truthy parentBranch
     then fail ''aro_branch_parent_unavailable'' parentBranchKey
     else
     ebind (if truthy parentBranch then branchRef parentBranch else Inr JNull) (\<lambda>parentBranchRef.
     ebind (aroUniqueRefs E (fld input ''provenanceRefs'')) (\<lambda>provenanceRefs.
     let branch = seal E ARO_BRANCH_SCHEMA
       [(''branchId'', JStr branchId),
        (''branchKey'', JStr branchKey),
        (''branchKind'', JStr (js_text (fld input ''branchKind'') ''semantic_requirement'')),
        (''modality'', JStr modality),
        (''statement'', JStr (bounded (fld input ''statement'') branchKey 1200)),
        (''condition'', JStr (bounded (fld input ''condition'') [] 800)),
        (''expectedOutcome'', JStr (bounded (fld input ''expectedOutcome'') [] 800)),
        (''semanticState'', JStr semanticState),
        (''parentBranchRef'', parentBranchRef),
        (''provenanceRefs'', JArr provenanceRefs),
        (''grantsAuthority'', JBool False)] in
     ebind (validateAroBranch E branch) (\<lambda>_. Inr branch))))"

subsection \<open>Edges\<close>

definition validateAroEdge :: "jsenv \<Rightarrow> jval \<Rightarrow> bool res" where
  "validateAroEdge E v =
     (if \<not> isPlainObject v
       \<or> fld v ''schema'' \<noteq> JStr ARO_EDGE_SCHEMA
       \<or> js_text (fld v ''edgeId'') [] = []
       \<or> \<not> one_of (fld v ''relationKind'') ARO_EDGE_RELATIONS
       \<or> fld v ''grantsAuthority'' \<noteq> JBool False
       \<or> fld v ''digest'' \<noteq> JStr (digestFor E ARO_EDGE_SCHEMA v [''digest''])
      then fail ''aro_edge_invalid'' []
      else ebind (aroExactRef (fld v ''fromBranchRef'') ''aroEdge.fromBranchRef'') (\<lambda>_.
      ebind (aroExactRef (fld v ''toBranchRef'') ''aroEdge.toBranchRef'') (\<lambda>_.
      Inr True)))"

definition buildAroEdge :: "jsenv \<Rightarrow> jval \<Rightarrow> jval \<Rightarrow> branch_map \<Rightarrow> jval res" where
  "buildAroEdge E arg aroId branchByKey =
     ebind (defaulted arg) (\<lambda>input.
     let fromBranch = branch_at branchByKey
           (js_text (js_or (fld input ''fromBranchKey'') (fld input ''from'')) []);
         toBranch = branch_at branchByKey
           (js_text (js_or (fld input ''toBranchKey'') (fld input ''to'')) []);
         relationKind = js_text (fld input ''relationKind'') [] in
     if \<not> truthy fromBranch \<or> \<not> truthy toBranch \<or> relationKind \<notin> set ARO_EDGE_RELATIONS
     then fail ''aro_edge_invalid'' []
     else
     ebind (branchRef fromBranch) (\<lambda>fromBranchRef.
     ebind (branchRef toBranch) (\<lambda>toBranchRef.
     let edge = seal E ARO_EDGE_SCHEMA
       [(''edgeId'', JStr (js_text (fld input ''edgeId'') (stableId E ''wm_aro_edge'' (JObj [
           (''aroId'', aroId), (''fromBranchId'', fld fromBranch ''branchId''),
           (''toBranchId'', fld toBranch ''branchId''), (''relationKind'', JStr relationKind)])))),
        (''fromBranchRef'', fromBranchRef),
        (''toBranchRef'', toBranchRef),
        (''relationKind'', JStr relationKind),
        (''rationale'', JStr (bounded (fld input ''rationale'') [] 800)),
        (''grantsAuthority'', JBool False)] in
     ebind (validateAroEdge E edge) (\<lambda>_. Inr edge))))"

subsection \<open>Realization bindings\<close>

definition validateAroRealizationBinding :: "jsenv \<Rightarrow> jval \<Rightarrow> bool res" where
  "validateAroRealizationBinding E v =
     (if \<not> isPlainObject v
       \<or> fld v ''schema'' \<noteq> JStr ARO_REALIZATION_BINDING_SCHEMA
       \<or> js_text (fld v ''realizationBindingId'') [] = []
       \<or> \<not> one_of (fld v ''realizationKind'') ARO_REALIZATION_KINDS
       \<or> js_text (fld v ''locator'') [] = []
       \<or> \<not> one_of (fld v ''coverageState'') ARO_COVERAGE_STATES
       \<or> \<not> isArray (fld v ''evidenceRefs'')
       \<or> fld v ''grantsAuthority'' \<noteq> JBool False
       \<or> fld v ''digest'' \<noteq> JStr (digestFor E ARO_REALIZATION_BINDING_SCHEMA v [''digest''])
      then fail ''aro_realization_binding_invalid'' []
      else ebind (aroExactRef (fld v ''branchRef'') ''aroRealization.branchRef'') (\<lambda>_.
      ebind (aroExactRef (fld v ''sourceRef'') ''aroRealization.sourceRef'') (\<lambda>_.
      ebind (checkRefs (fld v ''evidenceRefs'') ''aroRealization.evidenceRefs'') (\<lambda>_.
      checkOptionalRef (fld v ''observedRevisionRef'') ''aroRealization.observedRevisionRef''))))"

definition buildAroRealizationBinding :: "jsenv \<Rightarrow> jval \<Rightarrow> jval \<Rightarrow> branch_map \<Rightarrow> jval res" where
  "buildAroRealizationBinding E arg aroId branchByKey =
     ebind (defaulted arg) (\<lambda>input.
     let branch = branch_at branchByKey (js_text (fld input ''branchKey'') []);
         realizationKind = js_text (fld input ''realizationKind'') [];
         coverageState = js_text (fld input ''coverageState'') ''absent'' in
     if \<not> truthy branch \<or> realizationKind \<notin> set ARO_REALIZATION_KINDS
       \<or> coverageState \<notin> set ARO_COVERAGE_STATES
     then fail ''aro_realization_binding_invalid'' []
     else
     ebind (aroExactRef (fld input ''sourceRef'') ''aroRealization.sourceRef'') (\<lambda>sourceRef.
     ebind (branchRef branch) (\<lambda>bindingBranchRef.
     ebind (aroUniqueRefs E (fld input ''evidenceRefs'')) (\<lambda>evidenceRefs.
     ebind (aroOptionalRef (fld input ''observedRevisionRef'') ''aroRealization.observedRevisionRef'')
       (\<lambda>observedRevisionRef.
     let binding = seal E ARO_REALIZATION_BINDING_SCHEMA
       [(''realizationBindingId'', JStr (js_text (fld input ''realizationBindingId'')
          (stableId E ''wm_aro_realization_binding'' (JObj [
            (''aroId'', aroId), (''branchId'', fld branch ''branchId''),
            (''realizationKind'', JStr realizationKind), (''locator'', fld input ''locator''),
            (''sourceRef'', sourceRef)])))),
        (''branchRef'', bindingBranchRef),
        (''realizationKind'', JStr realizationKind),
        (''locator'', JStr (bounded (fld input ''locator'') (raw_string (fld sourceRef ''id'')) 1000)),
        (''sourceRef'', sourceRef),
        (''coverageState'', JStr coverageState),
        (''evidenceRefs'', JArr evidenceRefs),
        (''observedRevisionRef'', observedRevisionRef),
        (''grantsAuthority'', JBool False)] in
     ebind (validateAroRealizationBinding E binding) (\<lambda>_. Inr binding))))))"

subsection \<open>What the builders return\<close>

lemma validateAroBranch_True: "validateAroBranch E v = Inr b \<Longrightarrow> validateAroBranch E v = Inr True"
  unfolding validateAroBranch_def by (auto simp: ebind_Inr_iff dest: checkRefs_True split: if_splits)

lemma buildAroBranch_valid: "buildAroBranch E input aroId m = Inr v \<Longrightarrow> validateAroBranch E v = Inr True"
  unfolding buildAroBranch_def
  by (elim run_elims, drule validateAroBranch_True, hypsubst_thin, assumption)

lemma buildAroBranch_Inr:
  assumes "buildAroBranch E input aroId m = Inr v"
  defines "key \<equiv> js_text (js_or (js_or (fld input ''branchKey'') (fld input ''key'')) (fld input ''branchId'')) []"
  shows "key \<noteq> [] \<and> fld v ''branchKey'' = JStr key
    \<and> fld v ''branchId'' = JStr (js_text (fld input ''branchId'')
         (stableId E ''wm_aro_branch'' (JObj [(''aroId'', aroId), (''branchKey'', JStr key)])))
    \<and> fld v ''branchKind'' = JStr (js_text (fld input ''branchKind'') ''semantic_requirement'')
    \<and> fld v ''modality'' = JStr (js_text (fld input ''modality'') ''required'')
    \<and> fld v ''semanticState'' = JStr (js_text (js_or (fld input ''semanticState'') (fld input ''state'')) ''unknown'')
    \<and> fld v ''statement'' = JStr (bounded (fld input ''statement'') key 1200)
    \<and> (if js_text (fld input ''parentBranchKey'') [] = [] then fld v ''parentBranchRef'' = JNull
       else branchRef (branch_at m (js_text (fld input ''parentBranchKey'') [])) = Inr (fld v ''parentBranchRef'')
          \<and> truthy (branch_at m (js_text (fld input ''parentBranchKey'') [])))
    \<and> (\<exists>refs. aroUniqueRefs E (fld input ''provenanceRefs'') = Inr refs \<and> fld v ''provenanceRefs'' = JArr refs)"
  using assms(1) unfolding buildAroBranch_def ebind_defaulted fld_dflt key_def [symmetric]
  apply (elim run_elims)
  apply hypsubst_thin
  apply (simp (no_asm) add: fld_seal cong: if_cong split del: if_split)
  apply (auto split: if_splits)
  done

lemma validateAroEdge_True: "validateAroEdge E v = Inr b \<Longrightarrow> validateAroEdge E v = Inr True"
  unfolding validateAroEdge_def by (auto simp: ebind_Inr_iff split: if_splits)

lemma buildAroEdge_valid: "buildAroEdge E input aroId m = Inr v \<Longrightarrow> validateAroEdge E v = Inr True"
  unfolding buildAroEdge_def
  by (elim run_elims, drule validateAroEdge_True, hypsubst_thin, assumption)

lemma buildAroEdge_Inr:
  assumes "buildAroEdge E input aroId m = Inr v"
  shows "branchRef (branch_at m (js_text (js_or (fld input ''fromBranchKey'') (fld input ''from'')) [])) = Inr (fld v ''fromBranchRef'')
    \<and> branchRef (branch_at m (js_text (js_or (fld input ''toBranchKey'') (fld input ''to'')) [])) = Inr (fld v ''toBranchRef'')
    \<and> truthy (branch_at m (js_text (js_or (fld input ''fromBranchKey'') (fld input ''from'')) []))
    \<and> truthy (branch_at m (js_text (js_or (fld input ''toBranchKey'') (fld input ''to'')) []))
    \<and> fld v ''relationKind'' = JStr (js_text (fld input ''relationKind'') [])"
  using assms unfolding buildAroEdge_def ebind_defaulted fld_dflt
  apply (elim run_elims)
  apply hypsubst_thin
  apply (simp add: fld_seal)
  done

lemma validateAroRealizationBinding_True:
  "validateAroRealizationBinding E v = Inr b \<Longrightarrow> validateAroRealizationBinding E v = Inr True"
  unfolding validateAroRealizationBinding_def
  by (auto simp: ebind_Inr_iff dest: checkOptionalRef_True split: if_splits)

lemma buildAroRealizationBinding_valid:
  "buildAroRealizationBinding E input aroId m = Inr v \<Longrightarrow> validateAroRealizationBinding E v = Inr True"
  unfolding buildAroRealizationBinding_def
  by (elim run_elims, drule validateAroRealizationBinding_True, hypsubst_thin, assumption)

lemma buildAroRealizationBinding_Inr:
  assumes "buildAroRealizationBinding E input aroId m = Inr v"
  shows "branchRef (branch_at m (js_text (fld input ''branchKey'') [])) = Inr (fld v ''branchRef'')
    \<and> truthy (branch_at m (js_text (fld input ''branchKey'') []))
    \<and> fld v ''realizationKind'' = JStr (js_text (fld input ''realizationKind'') [])
    \<and> fld v ''coverageState'' = JStr (js_text (fld input ''coverageState'') ''absent'')
    \<and> aroExactRef (fld input ''sourceRef'') ''aroRealization.sourceRef'' = Inr (fld v ''sourceRef'')
    \<and> aroOptionalRef (fld input ''observedRevisionRef'') ''aroRealization.observedRevisionRef'' = Inr (fld v ''observedRevisionRef'')
    \<and> (\<exists>refs. aroUniqueRefs E (fld input ''evidenceRefs'') = Inr refs \<and> fld v ''evidenceRefs'' = JArr refs)"
  using assms unfolding buildAroRealizationBinding_def ebind_defaulted fld_dflt
  apply (elim run_elims)
  apply hypsubst_thin
  apply (simp add: fld_seal)
  done

lemma buildAroRealizationBinding_id:
  assumes "buildAroRealizationBinding E input aroId m = Inr v"
  shows "\<exists>fb. fld v ''realizationBindingId'' = JStr (js_text (fld input ''realizationBindingId'') fb)"
  using assms unfolding buildAroRealizationBinding_def ebind_defaulted fld_dflt
  apply (elim run_elims)
  apply hypsubst_thin
  apply (simp (no_asm) add: fld_seal)
  apply (rule exI, rule refl)
  done

lemma coverage_state_text:
  assumes "one_of v ARO_COVERAGE_STATES"
  shows "JStr (js_text v fb) = v"
proof -
  have "\<forall>s\<in>set ARO_COVERAGE_STATES. trim s = s \<and> s \<noteq> []"
    by (simp add: ARO_COVERAGE_STATES_def trim_id is_space_def)
  with assms show ?thesis by (auto simp: one_of_def js_text_JStr split: jval.splits)
qed

lemma validateAroRealizationBinding_Inr:
  assumes "validateAroRealizationBinding E v = Inr b"
  shows "js_text (fld v ''realizationBindingId'') [] \<noteq> []" "one_of (fld v ''coverageState'') ARO_COVERAGE_STATES"
  using assms unfolding validateAroRealizationBinding_def by (auto split: if_splits)

end
