(* ===== verification/AroCoverage.thy ===== *)
theory AroCoverage
  imports AroBranches
begin

section \<open>Coverage witnesses\<close>

text \<open>
  \<open>coverageStateForBranch\<close>, \<open>buildAroCoverageWitness\<close> and its validator
  (\<^verbatim>\<open>src/main/direct/worldmanager/aro-kernel.js\<close>): which branches of an ARO are realized by its
  bindings, and the single posture (complete, partial, gapped, stale, contradicted) of the whole.
\<close>

subsection \<open>The state of one branch\<close>

definition coverageStateForBranch :: "jval \<Rightarrow> jval list \<Rightarrow> string" where
  "coverageStateForBranch branch bindings =
     (let states = dedup id (map (\<lambda>binding. fld binding ''coverageState'') bindings) in
      if JStr ''contradicted'' \<in> set states then ''contradicted''
      else if JStr ''realized'' \<in> set states
      then (if length states = 1 then ''realized'' else ''partial'')
      else if JStr ''partial'' \<in> set states then ''partial''
      else if JStr ''stale'' \<in> set states then ''stale''
      else if fld branch ''semanticState'' = JStr ''supported'' then ''partial'' else ''absent'')"

type_synonym coverage_entry = "jval \<times> jval list \<times> string"

definition bindingsOf :: "jval \<Rightarrow> jval list \<Rightarrow> jval list res" where
  \<comment> \<open>\<open>bindings.filter((binding) => binding.branchRef.id === branchId)\<close>\<close>
  "bindingsOf branchId bindings =
     efilter (\<lambda>binding. ebind (getp binding ''branchRef'') (\<lambda>ref.
       ebind (getp ref ''id'') (\<lambda>id. Inr (strict_eq id branchId)))) bindings"

definition branchCoverage :: "jval list \<Rightarrow> jval list \<Rightarrow> coverage_entry list res" where
  "branchCoverage branches bindings =
     emap (\<lambda>branch. ebind (getp branch ''branchId'') (\<lambda>branchId.
       ebind (bindingsOf branchId bindings) (\<lambda>branchBindings.
       Inr (branch, branchBindings, coverageStateForBranch branch branchBindings)))) branches"

definition bindingsIn :: "string \<Rightarrow> jval list \<Rightarrow> jval list res" where
  \<comment> \<open>\<open>bindings.filter((binding) => binding.coverageState === state)\<close>\<close>
  "bindingsIn state bindings =
     efilter (\<lambda>binding. ebind (getp binding ''coverageState'') (\<lambda>s. Inr (s = JStr state))) bindings"

definition entriesIn :: "string \<Rightarrow> coverage_entry list \<Rightarrow> coverage_entry list" where
  "entriesIn state coverage = filter (\<lambda>(branch, bs, s). s = state) coverage"

subsection \<open>The witness\<close>

definition coveragePosture :: "jval list \<Rightarrow> jval list \<Rightarrow> jval list \<Rightarrow> jval list \<Rightarrow> string" where
  "coveragePosture contradictionRefs staleBindingRefs absentBranchRefs partialBranchRefs =
     (if contradictionRefs \<noteq> [] then ''contradicted''
      else if staleBindingRefs \<noteq> [] then ''stale''
      else if absentBranchRefs \<noteq> [] then ''gapped''
      else if partialBranchRefs \<noteq> [] then ''partial'' else ''complete'')"

definition coverageEntry :: "coverage_entry \<Rightarrow> jval res" where
  "coverageEntry = (\<lambda>(branch, bindings, state).
     ebind (branchRef branch) (\<lambda>ref.
     ebind (emap realizationBindingRef bindings) (\<lambda>bindingRefs.
     Inr (JObj [(''branchRef'', ref), (''coverageState'', JStr state),
       (''realizationBindingRefs'', JArr bindingRefs), (''grantsAuthority'', JBool False)]))))"

definition flat_elems :: "jval \<Rightarrow> jval list" where
  \<comment> \<open>what \<open>flatMap\<close> adds for one returned value\<close>
  "flat_elems v = (case v of JArr vs \<Rightarrow> vs | _ \<Rightarrow> [v])"

definition validateCoverageEntry :: "jval \<Rightarrow> bool res" where
  "validateCoverageEntry entry =
     ebind (getp entry ''branchRef'') (\<lambda>ref.
     ebind (aroExactRef ref ''aroCoverage.branchRef'') (\<lambda>_.
     ebind (checkRefs (fld entry ''realizationBindingRefs'') ''aroCoverage.realizationBindingRefs'') (\<lambda>_.
     if \<not> one_of (fld entry ''coverageState'') ARO_COVERAGE_STATES
       \<or> fld entry ''grantsAuthority'' \<noteq> JBool False
     then fail ''aro_coverage_entry_invalid'' [] else Inr True)))"

definition coverage_postures :: "string list" where
  "coverage_postures = [''complete'', ''partial'', ''gapped'', ''stale'', ''contradicted'']"

definition validateAroCoverageWitness :: "jsenv \<Rightarrow> jval \<Rightarrow> bool res" where
  "validateAroCoverageWitness E v =
     (if \<not> isPlainObject v
       \<or> fld v ''schema'' \<noteq> JStr ARO_COVERAGE_WITNESS_SCHEMA
       \<or> js_text (fld v ''coverageWitnessId'') [] = []
       \<or> \<not> isInteger (JNum (to_number E (fld v ''branchCount'')))
       \<or> \<not> isInteger (JNum (to_number E (fld v ''requiredBranchCount'')))
       \<or> \<not> isArray (fld v ''absentBranchRefs'')
       \<or> \<not> isArray (fld v ''partialBranchRefs'')
       \<or> \<not> isArray (fld v ''staleBindingRefs'')
       \<or> \<not> isArray (fld v ''contradictionRefs'')
       \<or> \<not> isArray (fld v ''branchCoverage'')
       \<or> \<not> one_of (fld v ''coveragePosture'') coverage_postures
       \<or> fld v ''canonical'' \<noteq> JBool False
       \<or> fld v ''grantsAuthority'' \<noteq> JBool False
       \<or> fld v ''digest'' \<noteq> JStr (digestFor E ARO_COVERAGE_WITNESS_SCHEMA v [''digest''])
      then fail ''aro_coverage_witness_invalid'' []
      else ebind (aroExactRef (fld v ''aroIdentityRef'') ''aroCoverage.aroIdentityRef'') (\<lambda>_.
      ebind (eforeach (\<lambda>refs. checkRefs refs ''aroCoverage.refs'')
        [fld v ''absentBranchRefs'', fld v ''partialBranchRefs'', fld v ''staleBindingRefs'',
         fld v ''contradictionRefs'', fld v ''sourceRevisionRefs'']) (\<lambda>_.
      eforeach validateCoverageEntry (elems (fld v ''branchCoverage'')))))"

definition buildAroCoverageWitness :: "jsenv \<Rightarrow> jval \<Rightarrow> jval res" where
  "buildAroCoverageWitness E arg =
     ebind (defaulted arg) (\<lambda>input.
     ebind (method_elems (js_or (fld input ''branches'') (JArr []))) (\<lambda>branches.
     ebind (method_elems (js_or (fld input ''realizationBindings'') (JArr []))) (\<lambda>bindings.
     ebind (branchCoverage branches bindings) (\<lambda>coverage.
     ebind (emap (\<lambda>(branch, bs, s). branchRef branch) (entriesIn ''absent'' coverage)) (\<lambda>absentBranchRefs.
     ebind (emap (\<lambda>(branch, bs, s). branchRef branch) (entriesIn ''partial'' coverage)) (\<lambda>partialBranchRefs.
     ebind (bindingsIn ''stale'' bindings) (\<lambda>staleBindings.
     ebind (emap realizationBindingRef staleBindings) (\<lambda>staleBindingRefs.
     ebind (emap (\<lambda>(branch, bs, s). branchRef branch)
         (filter (\<lambda>(branch, bs, s). s = ''contradicted''
            \<or> fld branch ''semanticState'' = JStr ''contradicted'') coverage)) (\<lambda>contradictedBranchRefs.
     ebind (bindingsIn ''contradicted'' bindings) (\<lambda>contradictedBindings.
     ebind (emap realizationBindingRef contradictedBindings) (\<lambda>contradictedBindingRefs.
     let contradictionRefs = contradictedBranchRefs @ contradictedBindingRefs in
     ebind (aroExactRef (JObj [(''kind'', JStr ''aro_identity''), (''id'', fld input ''aroId''),
         (''digest'', fld input ''aroIdentityDigest''), (''projectId'', fld input ''projectId'')]) ''ref'')
       (\<lambda>aroIdentityRef.
     ebind (emap coverageEntry coverage) (\<lambda>coverageEntries.
     ebind (iter_elems (js_or (fld input ''provenanceRefs'') (JArr []))) (\<lambda>provenanceRefs.
     ebind (aroUniqueRefs E (JArr (provenanceRefs
         @ map (\<lambda>binding. fld binding ''sourceRef'') bindings
         @ concat (map (\<lambda>binding. flat_elems (fld binding ''evidenceRefs'')) bindings)))) (\<lambda>sourceRevisionRefs.
     let witness = seal E ARO_COVERAGE_WITNESS_SCHEMA
       [(''coverageWitnessId'', JStr (stableId E ''wm_aro_coverage_witness'' (JObj [
           (''aroId'', fld input ''aroId''),
           (''branchDigests'', JArr (map (\<lambda>branch. fld branch ''digest'') branches)),
           (''bindingDigests'', JArr (map (\<lambda>binding. fld binding ''digest'') bindings))]))),
        (''aroIdentityRef'', aroIdentityRef),
        (''branchCount'', num (int (length branches))),
        (''requiredBranchCount'', num (int (length
           (filter (\<lambda>branch. fld branch ''modality'' = JStr ''required'') branches)))),
        (''realizedBranchCount'', num (int (length (entriesIn ''realized'' coverage)))),
        (''partialBranchCount'', num (int (length partialBranchRefs))),
        (''absentBranchRefs'', JArr absentBranchRefs),
        (''partialBranchRefs'', JArr partialBranchRefs),
        (''staleBindingRefs'', JArr staleBindingRefs),
        (''contradictionRefs'', JArr contradictionRefs),
        (''branchCoverage'', JArr coverageEntries),
        (''coveragePosture'', JStr (coveragePosture contradictionRefs staleBindingRefs
           absentBranchRefs partialBranchRefs)),
        (''sourceRevisionRefs'', JArr sourceRevisionRefs),
        (''canonical'', JBool False),
        (''grantsAuthority'', JBool False)] in
     ebind (validateAroCoverageWitness E witness) (\<lambda>_. Inr witness))))))))))))))))"

subsection \<open>What the state of a branch means\<close>

abbreviation some_in :: "string \<Rightarrow> jval list \<Rightarrow> bool" where
  \<comment> \<open>some binding has the coverage state\<close>
  "some_in state bindings \<equiv> \<exists>r\<in>set bindings. fld r ''coverageState'' = JStr state"

lemma realized_only:
  assumes "some_in ''realized'' bindings"
  shows "length (dedup id (map (\<lambda>r. fld r ''coverageState'') bindings)) = 1
     \<longleftrightarrow> (\<forall>r\<in>set bindings. fld r ''coverageState'' = JStr ''realized'')"
proof -
  let ?S = "(\<lambda>r. fld r ''coverageState'') ` set bindings"
  from assms obtain r where "r \<in> set bindings" "fld r ''coverageState'' = JStr ''realized''" by blast
  then have "JStr ''realized'' \<in> ?S" using imageI [of r "set bindings" "\<lambda>r. fld r ''coverageState''"] by simp
  then have "card ?S = 1 \<longleftrightarrow> ?S \<subseteq> {JStr ''realized''}" by (rule card_1_member)
  then show ?thesis by (simp add: length_dedup_id image_subset_iff)
qed

lemma coverageStateForBranch_cases:
  "coverageStateForBranch branch bindings =
     (if some_in ''contradicted'' bindings then ''contradicted''
      else if some_in ''realized'' bindings
      then (if \<forall>r\<in>set bindings. fld r ''coverageState'' = JStr ''realized'' then ''realized'' else ''partial'')
      else if some_in ''partial'' bindings then ''partial''
      else if some_in ''stale'' bindings then ''stale''
      else if fld branch ''semanticState'' = JStr ''supported'' then ''partial'' else ''absent'')"
proof -
  have m: "JStr s \<in> set (dedup id (map (\<lambda>r. fld r ''coverageState'') bindings)) \<longleftrightarrow> some_in s bindings" for s
    unfolding set_dedup_id set_map image_iff by (rule bex_cong [OF refl]) (rule eq_commute)
  show ?thesis
    unfolding coverageStateForBranch_def Let_def m by (simp only: realized_only cong: if_cong)
qed

theorem branch_coverage_table:
  "(coverageStateForBranch branch bindings = ''realized'' \<longleftrightarrow>
      bindings \<noteq> [] \<and> (\<forall>r\<in>set bindings. fld r ''coverageState'' = JStr ''realized''))
   \<and> (coverageStateForBranch branch bindings = ''contradicted'' \<longleftrightarrow> some_in ''contradicted'' bindings)
   \<and> (coverageStateForBranch branch bindings = ''stale'' \<longleftrightarrow> some_in ''stale'' bindings
       \<and> \<not> some_in ''contradicted'' bindings \<and> \<not> some_in ''realized'' bindings \<and> \<not> some_in ''partial'' bindings)
   \<and> (coverageStateForBranch branch bindings = ''absent'' \<longleftrightarrow> fld branch ''semanticState'' \<noteq> JStr ''supported''
       \<and> (\<forall>s\<in>set [''contradicted'', ''realized'', ''partial'', ''stale'']. \<not> some_in s bindings))
   \<and> coverageStateForBranch branch bindings \<in> set ARO_COVERAGE_STATES"
  unfolding coverageStateForBranch_cases ARO_COVERAGE_STATES_def
  by (cases bindings) auto

subsection \<open>What the posture of the witness means\<close>

lemma bindingsOf_Inr:
  assumes "bindingsOf branchId bindings = Inr bs"
  shows "bs = filter (\<lambda>r. strict_eq (fld (fld r ''branchRef'') ''id'') branchId) bindings"
  using efilter_Inr [OF assms [unfolded bindingsOf_def]]
  by (auto simp: ebind_Inr_iff getp_Inr_iff intro!: filter_cong)

lemma bindingsIn_Inr:
  assumes "bindingsIn state bindings = Inr bs"
  shows "bs = filter (\<lambda>r. fld r ''coverageState'' = JStr state) bindings"
  using efilter_Inr [OF assms [unfolded bindingsIn_def]]
  by (auto simp: ebind_Inr_iff getp_Inr_iff intro!: filter_cong)

definition realized_by :: "jval list \<Rightarrow> jval \<Rightarrow> jval list" where
  \<comment> \<open>the bindings that name the branch\<close>
  "realized_by bindings branch =
     filter (\<lambda>r. strict_eq (fld (fld r ''branchRef'') ''id'') (fld branch ''branchId'')) bindings"

lemma branchCoverage_Inr:
  assumes "branchCoverage branches bindings = Inr coverage"
  shows "coverage = map (\<lambda>b. (b, realized_by bindings b, coverageStateForBranch b (realized_by bindings b))) branches"
  using assms unfolding branchCoverage_def emap_Inr_iff
  by (induction branches arbitrary: coverage)
    (auto simp: list_all2_Cons1 ebind_Inr_iff getp_Inr_iff realized_by_def dest!: bindingsOf_Inr)

lemma emap_Nil_iff: "emap f xs = Inr ys \<Longrightarrow> ys = [] \<longleftrightarrow> xs = []"
  by (cases xs) (auto simp: ebind_Inr_iff simp del: emap_Inr_iff)

lemma buildAroCoverageWitness_Inr:
  assumes "buildAroCoverageWitness E input = Inr w"
  shows "\<exists>branches bindings absentRefs partialRefs staleRefs contradictedBranches contradictedBindings.
      js_or (fld input ''branches'') (JArr []) = JArr branches
    \<and> js_or (fld input ''realizationBindings'') (JArr []) = JArr bindings
    \<and> (\<exists>coverage staleBindings contradicted. branchCoverage branches bindings = Inr coverage
      \<and> emap (\<lambda>(branch, bs, s). branchRef branch) (entriesIn ''absent'' coverage) = Inr absentRefs
      \<and> emap (\<lambda>(branch, bs, s). branchRef branch) (entriesIn ''partial'' coverage) = Inr partialRefs
      \<and> bindingsIn ''stale'' bindings = Inr staleBindings
      \<and> emap realizationBindingRef staleBindings = Inr staleRefs
      \<and> emap (\<lambda>(branch, bs, s). branchRef branch)
         (filter (\<lambda>(branch, bs, s). s = ''contradicted''
            \<or> fld branch ''semanticState'' = JStr ''contradicted'') coverage) = Inr contradictedBranches
      \<and> bindingsIn ''contradicted'' bindings = Inr contradicted
      \<and> emap realizationBindingRef contradicted = Inr contradictedBindings
      \<and> fld w ''realizedBranchCount'' = num (int (length (entriesIn ''realized'' coverage))))
    \<and> fld w ''branchCount'' = num (int (length branches))
    \<and> fld w ''absentBranchRefs'' = JArr absentRefs \<and> fld w ''partialBranchRefs'' = JArr partialRefs
    \<and> fld w ''partialBranchCount'' = num (int (length partialRefs))
    \<and> fld w ''staleBindingRefs'' = JArr staleRefs
    \<and> fld w ''contradictionRefs'' = JArr (contradictedBranches @ contradictedBindings)
    \<and> fld w ''coveragePosture'' = JStr (coveragePosture (contradictedBranches @ contradictedBindings) staleRefs
         absentRefs partialRefs)
    \<and> fld w ''canonical'' = JBool False \<and> fld w ''grantsAuthority'' = JBool False"
  using assms unfolding buildAroCoverageWitness_def ebind_defaulted fld_dflt
  apply (elim run_elims)
  apply (drule method_elems_InrD)+
  apply hypsubst_thin
  apply (simp (no_asm) add: fld_seal split del: if_split)
  apply (intro exI conjI)
                     apply (assumption | rule refl)+
  done

lemma coveragePosture_complete: "coveragePosture cs ss as ps = ''complete'' \<longleftrightarrow> cs = [] \<and> ss = [] \<and> as = [] \<and> ps = []"
  by (simp add: coveragePosture_def)

lemma state_realized_iff:
  "coverageStateForBranch b rs = ''realized'' \<longleftrightarrow> rs \<noteq> [] \<and> (\<forall>r\<in>set rs. fld r ''coverageState'' = JStr ''realized'')"
  unfolding coverageStateForBranch_cases by (cases rs) auto

lemma state_realized_otherwise:
  assumes "coverageStateForBranch b rs \<notin> set [''absent'', ''partial'', ''contradicted'']" "\<not> some_in ''stale'' rs"
  shows "coverageStateForBranch b rs = ''realized''"
  using assms unfolding coverageStateForBranch_cases by (auto split: if_splits)

text \<open>C35: A coverage witness is complete exactly when no branch is contradicted, every branch is
realized by all of its bindings and no binding is stale or contradicted.\<close>

theorem coverage_complete_iff:
  assumes "buildAroCoverageWitness E input = Inr w"
    and "fld input ''branches'' = JArr branches" "fld input ''realizationBindings'' = JArr bindings"
  shows "fld w ''branchCount'' = num (int (length branches))
    \<and> (fld w ''coveragePosture'' = JStr ''complete'' \<longleftrightarrow>
      (\<forall>b\<in>set branches. fld b ''semanticState'' \<noteq> JStr ''contradicted'' \<and> realized_by bindings b \<noteq> []
         \<and> (\<forall>r\<in>set (realized_by bindings b). fld r ''coverageState'' = JStr ''realized''))
    \<and> (\<forall>r\<in>set bindings. fld r ''coverageState'' \<noteq> JStr ''stale'' \<and> fld r ''coverageState'' \<noteq> JStr ''contradicted''))"
proof -
  let ?cov = "map (\<lambda>b. (b, realized_by bindings b, coverageStateForBranch b (realized_by bindings b))) branches"
  obtain absentRefs partialRefs staleRefs contradictedBranches contradictedBindings staleBindings contradicted where
      a: "emap (\<lambda>(branch, bs, s). branchRef branch) (entriesIn ''absent'' ?cov) = Inr absentRefs"
    and p: "emap (\<lambda>(branch, bs, s). branchRef branch) (entriesIn ''partial'' ?cov) = Inr partialRefs"
    and s: "bindingsIn ''stale'' bindings = Inr staleBindings" "emap realizationBindingRef staleBindings = Inr staleRefs"
    and cb: "emap (\<lambda>(branch, bs, s). branchRef branch)
         (filter (\<lambda>(branch, bs, s). s = ''contradicted''
            \<or> fld branch ''semanticState'' = JStr ''contradicted'') ?cov) = Inr contradictedBranches"
    and cr: "bindingsIn ''contradicted'' bindings = Inr contradicted"
      "emap realizationBindingRef contradicted = Inr contradictedBindings"
    and n: "fld w ''branchCount'' = num (int (length branches))"
    and w: "fld w ''coveragePosture'' = JStr (coveragePosture (contradictedBranches @ contradictedBindings) staleRefs
         absentRefs partialRefs)"
    using buildAroCoverageWitness_Inr [OF assms(1)] assms(2,3) by (auto dest!: branchCoverage_Inr)
  let ?st = "\<lambda>b. coverageStateForBranch b (realized_by bindings b)"
  have "fld w ''coveragePosture'' = JStr ''complete'' \<longleftrightarrow>
      (\<forall>b\<in>set branches. ?st b \<noteq> ''contradicted'' \<and> fld b ''semanticState'' \<noteq> JStr ''contradicted'')
    \<and> (\<forall>r\<in>set bindings. fld r ''coverageState'' \<noteq> JStr ''contradicted'')
    \<and> (\<forall>r\<in>set bindings. fld r ''coverageState'' \<noteq> JStr ''stale'')
    \<and> (\<forall>b\<in>set branches. ?st b \<noteq> ''absent'') \<and> (\<forall>b\<in>set branches. ?st b \<noteq> ''partial'')"
    unfolding w jval.inject coveragePosture_complete append_is_Nil_conv
      emap_Nil_iff [OF a] emap_Nil_iff [OF p] emap_Nil_iff [OF s(2)] emap_Nil_iff [OF cb] emap_Nil_iff [OF cr(2)]
      bindingsIn_Inr [OF s(1)] bindingsIn_Inr [OF cr(1)] entriesIn_def
    by (simp add: filter_empty_conv)
  also have "\<dots> \<longleftrightarrow> (\<forall>b\<in>set branches. fld b ''semanticState'' \<noteq> JStr ''contradicted'' \<and> ?st b = ''realized'')
    \<and> (\<forall>r\<in>set bindings. fld r ''coverageState'' \<noteq> JStr ''stale'' \<and> fld r ''coverageState'' \<noteq> JStr ''contradicted'')"
  proof -
    have "?st b = ''realized''" if "?st b \<noteq> ''contradicted''" "?st b \<noteq> ''absent''" "?st b \<noteq> ''partial''"
      "\<forall>r\<in>set bindings. fld r ''coverageState'' \<noteq> JStr ''stale''" for b
      by (rule state_realized_otherwise) (use that in \<open>auto simp: realized_by_def\<close>)
    moreover have "?st b \<noteq> ''contradicted'' \<and> ?st b \<noteq> ''absent'' \<and> ?st b \<noteq> ''partial''" if "?st b = ''realized''" for b
      using that by simp
    ultimately show ?thesis by blast
  qed
  finally show ?thesis using n unfolding state_realized_iff by blast
qed

end
