(* ===== verification/AroObjects.thy ===== *)
theory AroObjects
  imports AroCoverage
begin

section \<open>Abstract reasoning objects\<close>

text \<open>
  \<open>validateAbstractReasoningObject\<close>, \<open>buildAbstractReasoningObject\<close> and \<open>aroInputFromExisting\<close>
  (\<^verbatim>\<open>src/main/direct/worldmanager/aro-kernel.js\<close>). An ARO is one revision of a project concept in
  a posture (current or target): a set of keyed branches, edges between them, bindings to what
  realizes them, and the coverage witness computed from these.
\<close>

subsection \<open>Validation\<close>

definition branchIdentity :: "jsenv \<Rightarrow> jval \<Rightarrow> string" where
  \<comment> \<open>\<open>`${ref.id}:${ref.digest}`\<close>\<close>
  "branchIdentity E ref = js_string E (fld ref ''id'') @ '':'' @ js_string E (fld ref ''digest'')"

definition branchIdentities :: "jsenv \<Rightarrow> jval list \<Rightarrow> string list" where
  "branchIdentities E branches = map (\<lambda>branch. js_string E (fld branch ''branchId'') @ '':''
     @ js_string E (fld branch ''digest'')) branches"

definition checkEdgeBranches :: "jsenv \<Rightarrow> string list \<Rightarrow> jval \<Rightarrow> bool res" where
  "checkEdgeBranches E branchRefs edge =
     (if branchIdentity E (fld edge ''fromBranchRef'') \<notin> set branchRefs
       \<or> branchIdentity E (fld edge ''toBranchRef'') \<notin> set branchRefs
      then fail ''aro_edge_branch_identity_mismatch'' [] else Inr True)"

definition checkBindingBranch :: "jsenv \<Rightarrow> string list \<Rightarrow> jval \<Rightarrow> bool res" where
  "checkBindingBranch E branchRefs binding =
     (if branchIdentity E (fld binding ''branchRef'') \<notin> set branchRefs
      then fail ''aro_realization_branch_identity_mismatch'' [] else Inr True)"

definition aroBoundaryOk :: "jsenv \<Rightarrow> jval \<Rightarrow> bool" where
  \<comment> \<open>the negation of the first guard\<close>
  "aroBoundaryOk E v \<longleftrightarrow> isPlainObject v
     \<and> fld v ''schema'' = JStr ABSTRACT_REASONING_OBJECT_SCHEMA
     \<and> js_text (fld v ''aroId'') [] \<noteq> []
     \<and> js_text (fld v ''aroIdentityDigest'') [] \<noteq> []
     \<and> js_text (fld v ''projectId'') [] \<noteq> []
     \<and> js_text (fld v ''conceptKey'') [] \<noteq> []
     \<and> js_text (fld v ''semanticIdentity'') [] \<noteq> []
     \<and> one_of (fld v ''posture'') ARO_POSTURES
     \<and> isInteger (JNum (to_number E (fld v ''revision'')))
     \<and> \<not> js_less E (fld v ''revision'') 1
     \<and> one_of (fld v ''lifecycle'') ARO_LIFECYCLES
     \<and> isArray (fld v ''branches'') \<and> elems (fld v ''branches'') \<noteq> []
     \<and> isArray (fld v ''edges'')
     \<and> isArray (fld v ''realizationBindings'')
     \<and> isArray (fld v ''provenanceRefs'')
     \<and> fld v ''grantsAuthority'' = JBool False
     \<and> fld v ''digest'' = JStr (digestFor E ABSTRACT_REASONING_OBJECT_SCHEMA v [''digest''])"

definition validateAroBody :: "jsenv \<Rightarrow> jval \<Rightarrow> bool res" where
  \<comment> \<open>from \<open>value.branches.forEach(validateAroBranch)\<close> to the end\<close>
  "validateAroBody E v =
     ebind (eforeach (validateAroBranch E) (elems (fld v ''branches''))) (\<lambda>_.
     ebind (eforeach (validateAroEdge E) (elems (fld v ''edges''))) (\<lambda>_.
     ebind (eforeach (validateAroRealizationBinding E) (elems (fld v ''realizationBindings''))) (\<lambda>_.
     ebind (validateAroCoverageWitness E (fld v ''coverageWitness'')) (\<lambda>_.
     let branchRefs = branchIdentities E (elems (fld v ''branches'')) in
     ebind (eforeach (checkEdgeBranches E branchRefs) (elems (fld v ''edges''))) (\<lambda>_.
     ebind (eforeach (checkBindingBranch E branchRefs) (elems (fld v ''realizationBindings''))) (\<lambda>_.
     ebind (aroExactRef (fld v ''coverageWitnessRef'') ''aro.coverageWitnessRef'') (\<lambda>_.
     if \<not> strict_eq (fld (fld v ''coverageWitnessRef'') ''id'')
           (fld (fld v ''coverageWitness'') ''coverageWitnessId'')
       \<or> \<not> strict_eq (fld (fld v ''coverageWitnessRef'') ''digest'')
           (fld (fld v ''coverageWitness'') ''digest'')
     then fail ''aro_coverage_ref_mismatch'' []
     else
     ebind (checkOptionalRef (fld v ''predecessorRef'') ''aro.predecessorRef'') (\<lambda>_.
     ebind (checkOptionalRef (fld v ''counterpartRef'') ''aro.counterpartRef'') (\<lambda>_.
     ebind (checkOptionalRef (fld v ''admittedFromCandidateRef'') ''aro.admittedFromCandidateRef'') (\<lambda>_.
     checkRefs (fld v ''provenanceRefs'') ''aro.provenanceRefs''))))))))))"

definition validateAbstractReasoningObject :: "jsenv \<Rightarrow> jval \<Rightarrow> bool res" where
  "validateAbstractReasoningObject E v =
     (if \<not> aroBoundaryOk E v then fail ''abstract_reasoning_object_invalid'' []
      else ebind (aroIdentityDigest E v) (\<lambda>identity.
      if fld v ''aroIdentityDigest'' \<noteq> JStr identity
      then fail ''aro_identity_digest_mismatch'' []
      else if fld v ''canonical'' = JBool True \<and> fld v ''lifecycle'' = JStr ''candidate''
      then fail ''aro_candidate_canonical_invalid'' []
      else if (to_number E (fld v ''revision'') = Fin 1) = truthy (fld v ''predecessorRef'')
      then fail ''aro_revision_lineage_invalid'' []
      else validateAroBody E v))"

subsection \<open>Construction\<close>

definition addAroBranch :: "jsenv \<Rightarrow> jval \<Rightarrow> jval \<Rightarrow> branch_map \<times> jval list \<Rightarrow> (branch_map \<times> jval list) res" where
  \<comment> \<open>the body of \<open>input.branches.map\<close>; the state is the map \<open>branchByKey\<close> and the branches so far\<close>
  "addAroBranch E aroId branchInput = (\<lambda>(branchByKey, branches).
     ebind (buildAroBranch E branchInput aroId branchByKey) (\<lambda>branch.
     let branchKey = fld branch ''branchKey'' in
     if branchKey \<in> fst ` set branchByKey
     then fail ''aro_branch_key_duplicate'' (raw_string branchKey)
     else Inr (AList.update branchKey branch branchByKey, branches @ [branch])))"

definition buildAbstractReasoningObject :: "jsenv \<Rightarrow> jval \<Rightarrow> jval res" where
  "buildAbstractReasoningObject E arg =
     ebind (defaulted arg) (\<lambda>input.
     let projectId = js_text (fld input ''projectId'') [];
         conceptKey = js_text (fld input ''conceptKey'') [];
         posture = js_text (fld input ''posture'') [];
         revision = JNum (to_number E (js_or (fld input ''revision'') (num 1)));
         lifecycle = js_text (fld input ''lifecycle'')
           (if fld input ''canonical'' = JBool True then ''active'' else ''candidate'') in
     if projectId = [] \<or> conceptKey = [] \<or> posture \<notin> set ARO_POSTURES
       \<or> \<not> isInteger revision \<or> js_less E revision 1 \<or> lifecycle \<notin> set ARO_LIFECYCLES
     then fail ''abstract_reasoning_object_invalid'' []
     else
     let aroId = JStr (js_text (fld input ''aroId'') (stableId E ''wm_abstract_reasoning_object'' (JObj [
           (''projectId'', JStr projectId), (''conceptKey'', JStr conceptKey),
           (''posture'', JStr posture)]))) in
     ebind (aroIdentityDigest E (JObj [(''aroId'', aroId), (''projectId'', JStr projectId),
         (''conceptKey'', JStr conceptKey), (''posture'', JStr posture)])) (\<lambda>identityDigest.
     ebind (efold (addAroBranch E aroId) (elems (fld input ''branches'')) ([], [])) (\<lambda>(branchByKey, branches).
     if branches = []
     then fail ''abstract_reasoning_object_branches_required'' []
     else
     ebind (emap (\<lambda>edgeInput. buildAroEdge E edgeInput aroId branchByKey) (elems (fld input ''edges'')))
       (\<lambda>edges.
     ebind (emap (\<lambda>bindingInput. buildAroRealizationBinding E bindingInput aroId branchByKey)
         (elems (fld input ''realizationBindings''))) (\<lambda>realizationBindings.
     ebind (aroUniqueRefs E (fld input ''provenanceRefs'')) (\<lambda>provenanceRefs.
     ebind (buildAroCoverageWitness E (JObj [
         (''aroId'', aroId),
         (''aroIdentityDigest'', JStr identityDigest),
         (''projectId'', JStr projectId),
         (''branches'', JArr branches),
         (''realizationBindings'', JArr realizationBindings),
         (''provenanceRefs'', JArr provenanceRefs)])) (\<lambda>coverageWitness.
     ebind (aroOptionalRef (fld input ''predecessorRef'') ''aro.predecessorRef'') (\<lambda>predecessorRef.
     if strict_eq revision (num 1) = truthy predecessorRef
     then fail ''aro_revision_lineage_invalid'' []
     else
     ebind (coverageWitnessRef coverageWitness) (\<lambda>witnessRef.
     ebind (aroOptionalRef (fld input ''counterpartRef'') ''aro.counterpartRef'') (\<lambda>counterpartRef.
     ebind (aroOptionalRef (fld input ''admittedFromCandidateRef'') ''aro.admittedFromCandidateRef'')
       (\<lambda>admittedFromCandidateRef.
     ebind (stampedAs E input ''createdAt'') (\<lambda>createdAt.
     let aro = seal E ABSTRACT_REASONING_OBJECT_SCHEMA
       [(''aroId'', aroId),
        (''aroIdentityDigest'', JStr identityDigest),
        (''projectId'', JStr projectId),
        (''conceptKey'', JStr conceptKey),
        (''semanticIdentity'', JStr (bounded (fld input ''semanticIdentity'') conceptKey 300)),
        (''purpose'', JStr (bounded (fld input ''purpose'') [] 1200)),
        (''posture'', JStr posture),
        (''revision'', revision),
        (''lifecycle'', JStr lifecycle),
        (''predecessorRef'', predecessorRef),
        (''branches'', JArr branches),
        (''edges'', JArr edges),
        (''realizationBindings'', JArr realizationBindings),
        (''coverageWitness'', coverageWitness),
        (''coverageWitnessRef'', witnessRef),
        (''counterpartRef'', counterpartRef),
        (''admittedFromCandidateRef'', admittedFromCandidateRef),
        (''provenanceRefs'', JArr provenanceRefs),
        (''canonical'', JBool (fld input ''canonical'' = JBool True)),
        (''grantsAuthority'', JBool False),
        (''createdAt'', createdAt)] in
     ebind (validateAbstractReasoningObject E aro) (\<lambda>_. Inr aro)))))))))))))"

subsection \<open>The input that rebuilds an object\<close>

definition keyOfBranch :: "jval list \<Rightarrow> jval \<Rightarrow> jval" where
  \<comment> \<open>\<open>aro.branches.find((branch) => branch.branchId === branchId)?.branchKey\<close>\<close>
  "keyOfBranch branches branchId =
     (case find (\<lambda>branch. strict_eq (fld branch ''branchId'') branchId) branches of
        Some branch \<Rightarrow> fld branch ''branchKey'' | None \<Rightarrow> JUndef)"

definition branchInputFrom :: "jval list \<Rightarrow> jval \<Rightarrow> jval" where
  "branchInputFrom branches branch = JObj [
     (''branchId'', fld branch ''branchId''),
     (''branchKey'', fld branch ''branchKey''),
     (''branchKind'', fld branch ''branchKind''),
     (''modality'', fld branch ''modality''),
     (''statement'', fld branch ''statement''),
     (''condition'', fld branch ''condition''),
     (''expectedOutcome'', fld branch ''expectedOutcome''),
     (''semanticState'', fld branch ''semanticState''),
     (''parentBranchKey'', if truthy (fld branch ''parentBranchRef'')
        then js_or (keyOfBranch branches (fld (fld branch ''parentBranchRef'') ''id'')) (JStr [])
        else JStr []),
     (''provenanceRefs'', fld branch ''provenanceRefs'')]"

definition edgeInputFrom :: "jval list \<Rightarrow> jval \<Rightarrow> jval" where
  "edgeInputFrom branches edge = JObj [
     (''edgeId'', fld edge ''edgeId''),
     (''fromBranchKey'', keyOfBranch branches (fld (fld edge ''fromBranchRef'') ''id'')),
     (''toBranchKey'', keyOfBranch branches (fld (fld edge ''toBranchRef'') ''id'')),
     (''relationKind'', fld edge ''relationKind''),
     (''rationale'', fld edge ''rationale'')]"

definition bindingInputFrom :: "jval list \<Rightarrow> jval \<Rightarrow> jval" where
  "bindingInputFrom branches binding = JObj [
     (''realizationBindingId'', fld binding ''realizationBindingId''),
     (''branchKey'', keyOfBranch branches (fld (fld binding ''branchRef'') ''id'')),
     (''realizationKind'', fld binding ''realizationKind''),
     (''locator'', fld binding ''locator''),
     (''sourceRef'', fld binding ''sourceRef''),
     (''coverageState'', fld binding ''coverageState''),
     (''evidenceRefs'', fld binding ''evidenceRefs''),
     (''observedRevisionRef'', fld binding ''observedRevisionRef'')]"

definition aroInputFromExisting :: "jval \<Rightarrow> (string \<times> jval) list \<Rightarrow> jval" where
  \<comment> \<open>\<open>aro\<close> is an object that \<open>validateAbstractReasoningObject\<close> accepts, so no property read throws\<close>
  "aroInputFromExisting aro overrides =
     (let branches = elems (fld aro ''branches'') in
      spread (JObj [
       (''aroId'', fld aro ''aroId''),
       (''projectId'', fld aro ''projectId''),
       (''conceptKey'', fld aro ''conceptKey''),
       (''semanticIdentity'', fld aro ''semanticIdentity''),
       (''purpose'', fld aro ''purpose''),
       (''posture'', fld aro ''posture''),
       (''revision'', fld aro ''revision''),
       (''lifecycle'', fld aro ''lifecycle''),
       (''predecessorRef'', fld aro ''predecessorRef''),
       (''branches'', JArr (map (branchInputFrom branches) branches)),
       (''edges'', JArr (map (edgeInputFrom branches) (elems (fld aro ''edges'')))),
       (''realizationBindings'', JArr (map (bindingInputFrom branches)
          (elems (fld aro ''realizationBindings'')))),
       (''counterpartRef'', fld aro ''counterpartRef''),
       (''admittedFromCandidateRef'', fld aro ''admittedFromCandidateRef''),
       (''provenanceRefs'', fld aro ''provenanceRefs''),
       (''canonical'', fld aro ''canonical''),
       (''createdAt'', fld aro ''createdAt'')]) overrides)"

subsection \<open>The branches of a built object\<close>

definition keyed :: "jval list \<Rightarrow> branch_map" where
  \<comment> \<open>the map from keys to branches after the branches were added\<close>
  "keyed branches = map (\<lambda>b. (fld b ''branchKey'', b)) branches"

fun parents_in :: "jval list \<Rightarrow> jval list \<Rightarrow> bool" where
  \<comment> \<open>the parent of every branch of the second list is before it, or in the first list\<close>
  "parents_in seen [] = True"
| "parents_in seen (b # bs) = ((fld b ''parentBranchRef'' = JNull
     \<or> list_ex (\<lambda>p. branchRef p = Inr (fld b ''parentBranchRef'')) seen) \<and> parents_in (seen @ [b]) bs)"

lemma parents_in_append: "parents_in seen (xs @ ys) \<longleftrightarrow> parents_in seen xs \<and> parents_in (seen @ xs) ys"
  by (induction xs arbitrary: seen) auto

lemma map_of_keyed: "map_of (keyed bs) k = Some b \<Longrightarrow> b \<in> set bs \<and> fld b ''branchKey'' = k"
  by (auto simp: keyed_def dest!: map_of_SomeD)

lemma branch_at_keyed:
  assumes "truthy (branch_at (keyed bs) key)"
  shows "branch_at (keyed bs) key \<in> set bs \<and> fld (branch_at (keyed bs) key) ''branchKey'' = JStr key"
  using assms by (auto simp: branch_at_def dest: map_of_keyed split: option.splits)

lemma update_fresh: "k \<notin> fst ` set m \<Longrightarrow> AList.update k v m = m @ [(k, v)]"
  by (induction m) auto

lemma addAroBranch_Inr:
  assumes "addAroBranch E aroId input (keyed bs, bs) = Inr s"
  shows "\<exists>b. s = (keyed (bs @ [b]), bs @ [b]) \<and> buildAroBranch E input aroId (keyed bs) = Inr b
    \<and> fld b ''branchKey'' \<notin> (\<lambda>b. fld b ''branchKey'') ` set bs"
  using assms by (auto simp: addAroBranch_def ebind_Inr_iff Let_def update_fresh keyed_def image_image split: if_splits)

lemma branches_added:
  assumes "efold (addAroBranch E aroId) inputs (keyed bs, bs) = Inr (m, bs')"
    and "distinct (map (\<lambda>b. fld b ''branchKey'') bs)" "parents_in [] bs" "\<forall>b\<in>set bs. validateAroBranch E b = Inr True"
  shows "m = keyed bs' \<and> distinct (map (\<lambda>b. fld b ''branchKey'') bs') \<and> parents_in [] bs'
    \<and> (\<forall>b\<in>set bs'. validateAroBranch E b = Inr True) \<and> length bs' = length bs + length inputs"
  using assms
proof (induction inputs arbitrary: bs)
  case Nil
  then show ?case by auto
next
  case (Cons input inputs)
  from Cons.prems(1) obtain s where s: "addAroBranch E aroId input (keyed bs, bs) = Inr s"
    and f: "efold (addAroBranch E aroId) inputs s = Inr (m, bs')" by (auto simp: ebind_Inr_iff)
  from addAroBranch_Inr [OF s] obtain b where b: "s = (keyed (bs @ [b]), bs @ [b])"
    "buildAroBranch E input aroId (keyed bs) = Inr b" "fld b ''branchKey'' \<notin> (\<lambda>b. fld b ''branchKey'') ` set bs" by blast
  have "fld b ''parentBranchRef'' = JNull \<or> (\<exists>p\<in>set bs. branchRef p = Inr (fld b ''parentBranchRef''))"
    using buildAroBranch_Inr [OF b(2)] branch_at_keyed by (auto split: if_splits)
  with Cons.prems(3) have "parents_in [] (bs @ [b])" by (simp add: parents_in_append list_ex_iff)
  with Cons.IH [OF f [unfolded b(1)]] Cons.prems(2,4) b(3) buildAroBranch_valid [OF b(2)] show ?case by auto
qed

lemma buildAbstractReasoningObject_Inr:
  assumes "buildAbstractReasoningObject E input = Inr aro"
  shows "\<exists>aroId m branches edges bindings provenance identity.
      efold (addAroBranch E aroId) (elems (fld input ''branches'')) ([], []) = Inr (m, branches)
    \<and> fld aro ''branches'' = JArr branches \<and> branches \<noteq> []
    \<and> emap (\<lambda>edgeInput. buildAroEdge E edgeInput aroId m) (elems (fld input ''edges'')) = Inr edges
    \<and> fld aro ''edges'' = JArr edges
    \<and> emap (\<lambda>bindingInput. buildAroRealizationBinding E bindingInput aroId m)
        (elems (fld input ''realizationBindings'')) = Inr bindings
    \<and> fld aro ''realizationBindings'' = JArr bindings
    \<and> aroUniqueRefs E (fld input ''provenanceRefs'') = Inr provenance \<and> fld aro ''provenanceRefs'' = JArr provenance
    \<and> aroId = JStr (js_text (fld input ''aroId'') (stableId E ''wm_abstract_reasoning_object'' (JObj [
           (''projectId'', JStr (js_text (fld input ''projectId'') [])),
           (''conceptKey'', JStr (js_text (fld input ''conceptKey'') [])),
           (''posture'', JStr (js_text (fld input ''posture'') []))])))
    \<and> fld aro ''aroId'' = aroId
    \<and> fld aro ''projectId'' = JStr (js_text (fld input ''projectId'') [])
    \<and> fld aro ''conceptKey'' = JStr (js_text (fld input ''conceptKey'') [])
    \<and> fld aro ''posture'' = JStr (js_text (fld input ''posture'') [])
    \<and> js_text (fld input ''projectId'') [] \<noteq> [] \<and> js_text (fld input ''conceptKey'') [] \<noteq> []
    \<and> aroIdentityDigest E (JObj [(''aroId'', fld aro ''aroId''), (''projectId'', fld aro ''projectId''),
        (''conceptKey'', fld aro ''conceptKey''), (''posture'', fld aro ''posture'')]) = Inr identity
    \<and> fld aro ''aroIdentityDigest'' = JStr identity
    \<and> fld aro ''revision'' = JNum (to_number E (js_or (fld input ''revision'') (num 1)))
    \<and> isInteger (fld aro ''revision'') \<and> \<not> js_less E (fld aro ''revision'') 1
    \<and> fld aro ''lifecycle'' = JStr (js_text (fld input ''lifecycle'')
           (if fld input ''canonical'' = JBool True then ''active'' else ''candidate''))
    \<and> aroOptionalRef (fld input ''predecessorRef'') ''aro.predecessorRef'' = Inr (fld aro ''predecessorRef'')
    \<and> strict_eq (fld aro ''revision'') (num 1) \<noteq> truthy (fld aro ''predecessorRef'')
    \<and> aroOptionalRef (fld input ''admittedFromCandidateRef'') ''aro.admittedFromCandidateRef'' = Inr (fld aro ''admittedFromCandidateRef'')
    \<and> fld aro ''canonical'' = JBool (fld input ''canonical'' = JBool True)
    \<and> fld aro ''grantsAuthority'' = JBool False
    \<and> coverageWitnessRef (fld aro ''coverageWitness'') = Inr (fld aro ''coverageWitnessRef'')
    \<and> buildAroCoverageWitness E (JObj [
         (''aroId'', aroId), (''aroIdentityDigest'', JStr identity), (''projectId'', fld aro ''projectId''),
         (''branches'', JArr branches), (''realizationBindings'', JArr bindings),
         (''provenanceRefs'', JArr provenance)]) = Inr (fld aro ''coverageWitness'')"
  using assms unfolding buildAbstractReasoningObject_def ebind_defaulted fld_dflt
  apply (elim run_elims)
  apply (simp only: split_paired_all prod.case)
  apply (elim run_elims)
  apply hypsubst_thin
  apply (simp (no_asm) add: fld_seal cong: if_cong split del: if_split)
  apply (intro exI conjI)
                      apply (assumption | rule refl)+
          apply auto
  done

lemma validateAbstractReasoningObject_True:
  "validateAbstractReasoningObject E v = Inr b \<Longrightarrow> validateAbstractReasoningObject E v = Inr True"
  unfolding validateAbstractReasoningObject_def validateAroBody_def Let_def
  by (auto simp: ebind_Inr_iff dest: checkRefs_True split: if_splits)

lemma buildAbstractReasoningObject_valid:
  "buildAbstractReasoningObject E input = Inr v \<Longrightarrow> validateAbstractReasoningObject E v = Inr True"
  unfolding buildAbstractReasoningObject_def
  apply (elim run_elims)
  apply (simp only: split_paired_all prod.case)
  apply (elim run_elims)
  apply (drule validateAbstractReasoningObject_True)
  apply hypsubst_thin
  apply assumption
  done

lemma branches_of_built:
  assumes "efold (addAroBranch E aroId) inputs ([], []) = Inr (m, bs)"
  shows "m = keyed bs \<and> distinct (map (\<lambda>b. fld b ''branchKey'') bs) \<and> parents_in [] bs
    \<and> (\<forall>b\<in>set bs. validateAroBranch E b = Inr True) \<and> length bs = length inputs"
  using branches_added [of E aroId inputs "[]" m bs] assms by (simp add: keyed_def)

text \<open>C24: An abstract reasoning object that was built is well formed: distinct branch keys, parents
before children, and every edge and realization binding valid and attached to branches of the
object.\<close>

theorem built_object_is_closed:
  assumes "buildAbstractReasoningObject E input = Inr aro"
  shows "\<exists>branches. fld aro ''branches'' = JArr branches \<and> branches \<noteq> []
    \<and> distinct (map (\<lambda>b. fld b ''branchKey'') branches) \<and> parents_in [] branches
    \<and> (\<forall>b\<in>set branches. validateAroBranch E b = Inr True)
    \<and> (\<forall>e\<in>set (elems (fld aro ''edges'')). validateAroEdge E e = Inr True
        \<and> (\<exists>b\<in>set branches. branchRef b = Inr (fld e ''fromBranchRef''))
        \<and> (\<exists>b\<in>set branches. branchRef b = Inr (fld e ''toBranchRef'')))
    \<and> (\<forall>r\<in>set (elems (fld aro ''realizationBindings'')). validateAroRealizationBinding E r = Inr True
        \<and> (\<exists>b\<in>set branches. branchRef b = Inr (fld r ''branchRef'')))
    \<and> validateAbstractReasoningObject E aro = Inr True"
proof -
  obtain aroId m branches edges bindings where
    f: "efold (addAroBranch E aroId) (elems (fld input ''branches'')) ([], []) = Inr (m, branches)"
    and b: "fld aro ''branches'' = JArr branches" "branches \<noteq> []"
    and e: "emap (\<lambda>edgeInput. buildAroEdge E edgeInput aroId m) (elems (fld input ''edges'')) = Inr edges"
      "fld aro ''edges'' = JArr edges"
    and r: "emap (\<lambda>bindingInput. buildAroRealizationBinding E bindingInput aroId m)
        (elems (fld input ''realizationBindings'')) = Inr bindings" "fld aro ''realizationBindings'' = JArr bindings"
    using buildAbstractReasoningObject_Inr [OF assms] by (elim exE conjE) (rule that)
  note bs = branches_of_built [OF f]
  have edge: "validateAroEdge E x = Inr True \<and> (\<exists>b\<in>set branches. branchRef b = Inr (fld x ''fromBranchRef''))
        \<and> (\<exists>b\<in>set branches. branchRef b = Inr (fld x ''toBranchRef''))" if "x \<in> set edges" for x
  proof -
    from emap_origin [OF e(1) that] obtain i where i: "buildAroEdge E i aroId (keyed branches) = Inr x" using bs by auto
    show ?thesis using buildAroEdge_valid [OF i] buildAroEdge_Inr [OF i] branch_at_keyed by blast
  qed
  have binding: "validateAroRealizationBinding E x = Inr True \<and> (\<exists>b\<in>set branches. branchRef b = Inr (fld x ''branchRef''))"
    if "x \<in> set bindings" for x
  proof -
    from emap_origin [OF r(1) that] obtain i where
      i: "buildAroRealizationBinding E i aroId (keyed branches) = Inr x" using bs by auto
    show ?thesis using buildAroRealizationBinding_valid [OF i] buildAroRealizationBinding_Inr [OF i] branch_at_keyed
      by blast
  qed
  show ?thesis
    using b bs edge binding buildAbstractReasoningObject_valid [OF assms] unfolding e(2) r(2) elems_simps
    by (intro exI [of _ branches]) blast
qed

lemma abstractReasoningObjectRef_Inr:
  assumes "abstractReasoningObjectRef v = Inr r"
  shows "aroExactRef r l = Inr r" "truthy r"
  using assms by (auto simp: abstractReasoningObjectRef_def ebind_Inr_iff dest: aroExactRef_again aroExactRef_truthy)

lemma aroOptionalRef_fix: "truthy r \<Longrightarrow> (\<And>l. aroExactRef r l = Inr r) \<Longrightarrow> aroOptionalRef r l' = Inr r"
  by (simp add: aroOptionalRef_def)

lemma fld_aroInputFromExisting:
  "fld (aroInputFromExisting aro []) ''aroId'' = fld aro ''aroId''"
  "fld (aroInputFromExisting aro []) ''projectId'' = fld aro ''projectId''"
  "fld (aroInputFromExisting aro []) ''conceptKey'' = fld aro ''conceptKey''"
  "fld (aroInputFromExisting aro []) ''posture'' = fld aro ''posture''"
  "fld (aroInputFromExisting aro []) ''canonical'' = fld aro ''canonical''"
  "fld (aroInputFromExisting aro []) ''branches'' = JArr (map (branchInputFrom (elems (fld aro ''branches''))) (elems (fld aro ''branches'')))"
  "fld (aroInputFromExisting aro []) ''realizationBindings''
     = JArr (map (bindingInputFrom (elems (fld aro ''branches''))) (elems (fld aro ''realizationBindings'')))"
  "fld (aroInputFromExisting aro []) ''provenanceRefs'' = fld aro ''provenanceRefs''"
  by (simp_all add: aroInputFromExisting_def fld_spread Let_def)

lemma validateAbstractReasoningObject_texts:
  assumes "validateAbstractReasoningObject E aro = Inr b"
  shows "js_text (fld aro ''aroId'') [] \<noteq> []" "js_text (fld aro ''projectId'') [] \<noteq> []"
    "js_text (fld aro ''conceptKey'') [] \<noteq> []" "isPlainObject aro" "isArray (fld aro ''branches'')"
    "isArray (fld aro ''realizationBindings'')"
  using assms unfolding validateAbstractReasoningObject_def aroBoundaryOk_def Let_def
  by (auto simp: ebind_Inr_iff split: if_splits)

lemma validateAbstractReasoningObject_bindings:
  assumes "validateAbstractReasoningObject E aro = Inr b" "binding \<in> set (elems (fld aro ''realizationBindings''))"
  shows "validateAroRealizationBinding E binding = Inr True"
  using assms unfolding validateAbstractReasoningObject_def validateAroBody_def Let_def
  by (auto simp: ebind_Inr_iff eforeach_Inr_iff dest: validateAroRealizationBinding_True split: if_splits)

end
