(* ===== verification/AroCandidates.thy ===== *)
theory AroCandidates
  imports AroObjects
begin

section \<open>Reconstruction candidates, their review and their admission\<close>

text \<open>
  \<open>buildAroReconstructionCandidate\<close>, \<open>reviewAroReconstructionCandidate\<close>,
  \<open>admitAroReconstructionCandidate\<close> and the validators of candidates and receipts
  (\<^verbatim>\<open>src/main/direct/worldmanager/aro-kernel.js\<close>). A candidate ARO becomes canonical only through
  an admission, and only after an operator reviewed both its evidence and its contradictions.
\<close>

subsection \<open>Candidates\<close>

definition validateAroReconstructionCandidate :: "jsenv \<Rightarrow> jval \<Rightarrow> bool res" where
  "validateAroReconstructionCandidate E v =
     (if \<not> isPlainObject v
       \<or> fld v ''schema'' \<noteq> JStr ARO_RECONSTRUCTION_CANDIDATE_SCHEMA
       \<or> js_text (fld v ''candidateId'') [] = []
       \<or> \<not> isInteger (JNum (to_number E (fld v ''candidateRevision'')))
       \<or> js_text (fld v ''projectId'') [] = []
       \<or> js_text (fld v ''reconstructionMethod'') [] = []
       \<or> \<not> isArray (fld v ''evidenceRefs'')
       \<or> \<not> isArray (fld v ''contradictionRefs'')
       \<or> \<not> one_of (fld v ''evidenceReviewState'') ARO_REVIEW_STATES
       \<or> \<not> one_of (fld v ''contradictionReviewState'') ARO_REVIEW_STATES
       \<or> \<not> one_of (fld v ''lifecycle'') ARO_CANDIDATE_LIFECYCLES
       \<or> fld v ''canonical'' \<noteq> JBool False
       \<or> fld v ''grantsAuthority'' \<noteq> JBool False
       \<or> fld v ''digest'' \<noteq> JStr (digestFor E ARO_RECONSTRUCTION_CANDIDATE_SCHEMA v [''digest''])
      then fail ''aro_reconstruction_candidate_invalid'' []
      else ebind (validateAbstractReasoningObject E (fld v ''candidateAro'')) (\<lambda>_.
      let candidateAro = fld v ''candidateAro'' in
      if fld candidateAro ''canonical'' \<noteq> JBool False
        \<or> fld candidateAro ''lifecycle'' \<noteq> JStr ''candidate''
        \<or> \<not> strict_eq (fld candidateAro ''projectId'') (fld v ''projectId'')
        \<or> (to_number E (fld v ''candidateRevision'') = Fin 1) = truthy (fld v ''predecessorRef'')
      then fail ''aro_candidate_identity_invalid'' []
      else ebind (aroExactRef (fld v ''repositorySnapshotRef'') ''aroCandidate.repositorySnapshotRef'') (\<lambda>_.
      ebind (checkRefs (fld v ''evidenceRefs'') ''aroCandidate.evidenceRefs'') (\<lambda>_.
      ebind (checkRefs (fld v ''contradictionRefs'') ''aroCandidate.contradictionRefs'') (\<lambda>_.
      ebind (checkOptionalRef (fld v ''predecessorRef'') ''aroCandidate.predecessorRef'') (\<lambda>_.
      ebind (checkOptionalRef (fld v ''sourceSemanticEventRef'') ''aroCandidate.sourceSemanticEventRef'') (\<lambda>_.
      checkOptionalRef (fld v ''admittedAroRef'') ''aroCandidate.admittedAroRef'')))))))"

definition member_or :: "jval \<Rightarrow> string list \<Rightarrow> string \<Rightarrow> jval" where
  \<comment> \<open>\<open>SET.has(v) ? v : fallback\<close>\<close>
  "member_or v members fallback = (if one_of v members then v else JStr fallback)"

definition candidateAroInput :: "jval \<Rightarrow> jval" where
  \<comment> \<open>the argument of \<open>buildAbstractReasoningObject\<close>\<close>
  "candidateAroInput input =
     spread (js_or (fld input ''candidateAro'') (fld input ''aro'')) [
       (''projectId'', js_or (js_or (fld input ''projectId'') (fld (fld input ''candidateAro'') ''projectId''))
          (fld (fld input ''aro'') ''projectId'')),
       (''lifecycle'', JStr ''candidate''),
       (''canonical'', JBool False),
       (''revision'', js_or (js_or (fld (fld input ''candidateAro'') ''revision'')
          (fld (fld input ''aro'') ''revision'')) (num 1)),
       (''now'', fld input ''now'')]"

definition buildAroReconstructionCandidate :: "jsenv \<Rightarrow> jval \<Rightarrow> jval res" where
  "buildAroReconstructionCandidate E arg =
     ebind (defaulted arg) (\<lambda>input.
     ebind (aroExactRef (fld input ''repositorySnapshotRef'') ''aroCandidate.repositorySnapshotRef'')
       (\<lambda>repositorySnapshotRef.
     ebind (buildAbstractReasoningObject E (candidateAroInput input)) (\<lambda>candidateAro.
     let candidateId = js_text (fld input ''candidateId'')
           (stableId E ''wm_aro_reconstruction_candidate'' (JObj [
             (''projectId'', fld candidateAro ''projectId''), (''aroId'', fld candidateAro ''aroId''),
             (''repositorySnapshotRef'', repositorySnapshotRef)]));
         candidateRevision = JNum (to_number E (js_or (fld input ''candidateRevision'') (num 1))) in
     ebind (aroOptionalRef (fld input ''predecessorRef'') ''aroCandidate.predecessorRef'') (\<lambda>predecessorRef.
     if \<not> isInteger candidateRevision \<or> js_less E candidateRevision 1
       \<or> strict_eq candidateRevision (num 1) = truthy predecessorRef
     then fail ''aro_candidate_revision_invalid'' []
     else
     ebind (emap branchRef (filter (\<lambda>branch. fld branch ''semanticState'' = JStr ''contradicted'')
         (elems (fld candidateAro ''branches'')))) (\<lambda>branchContradictions.
     ebind (emap realizationBindingRef
         (filter (\<lambda>binding. fld binding ''coverageState'' = JStr ''contradicted'')
           (elems (fld candidateAro ''realizationBindings'')))) (\<lambda>bindingContradictions.
     ebind (iter_elems (js_or (fld input ''evidenceRefs'') (JArr []))) (\<lambda>inputEvidence.
     ebind (aroUniqueRefs E (JArr (repositorySnapshotRef # inputEvidence
         @ elems (fld candidateAro ''provenanceRefs'')))) (\<lambda>evidenceRefs.
     ebind (iter_elems (js_or (fld input ''contradictionRefs'') (JArr []))) (\<lambda>inputContradictions.
     ebind (aroUniqueRefs E (JArr (inputContradictions @ branchContradictions @ bindingContradictions)))
       (\<lambda>contradictionRefs.
     ebind (aroOptionalRef (fld input ''sourceSemanticEventRef'') ''aroCandidate.sourceSemanticEventRef'')
       (\<lambda>sourceSemanticEventRef.
     ebind (aroOptionalRef (fld input ''admittedAroRef'') ''aroCandidate.admittedAroRef'')
       (\<lambda>admittedAroRef.
     ebind (stampedAs E input ''createdAt'') (\<lambda>createdAt.
     let candidate = seal E ARO_RECONSTRUCTION_CANDIDATE_SCHEMA
       [(''candidateId'', JStr candidateId),
        (''candidateRevision'', candidateRevision),
        (''predecessorRef'', predecessorRef),
        (''projectId'', fld candidateAro ''projectId''),
        (''candidateAro'', candidateAro),
        (''repositorySnapshotRef'', repositorySnapshotRef),
        (''reconstructionMethod'', JStr (js_text (fld input ''reconstructionMethod'')
           ''semantic_repository_reconstruction'')),
        (''evidenceRefs'', JArr evidenceRefs),
        (''contradictionRefs'', JArr contradictionRefs),
        (''evidenceReviewState'', member_or (fld input ''evidenceReviewState'') ARO_REVIEW_STATES ''pending''),
        (''contradictionReviewState'', member_or (fld input ''contradictionReviewState'') ARO_REVIEW_STATES
           ''pending''),
        (''lifecycle'', member_or (fld input ''lifecycle'') ARO_CANDIDATE_LIFECYCLES ''candidate''),
        (''sourceSemanticEventRef'', sourceSemanticEventRef),
        (''reviewedAt'', JStr (js_text (fld input ''reviewedAt'') [])),
        (''admittedAroRef'', admittedAroRef),
        (''canonical'', JBool False),
        (''grantsAuthority'', JBool False),
        (''createdAt'', createdAt)] in
     ebind (validateAroReconstructionCandidate E candidate) (\<lambda>_. Inr candidate))))))))))))))"

definition candidateInputFrom :: "jsenv \<Rightarrow> jval \<Rightarrow> jval \<Rightarrow> (string \<times> jval) list \<Rightarrow> (string \<times> jval) list \<Rightarrow> jval" where
  \<comment> \<open>the literal that both the review and the admission pass to \<open>buildAroReconstructionCandidate\<close>\<close>
  "candidateInputFrom E candidate candidateRef aroOverrides rest = JObj ([
     (''candidateId'', fld candidate ''candidateId''),
     (''candidateRevision'', js_plus1 E (fld candidate ''candidateRevision'')),
     (''predecessorRef'', candidateRef),
     (''projectId'', fld candidate ''projectId''),
     (''candidateAro'', aroInputFromExisting (fld candidate ''candidateAro'') aroOverrides),
     (''repositorySnapshotRef'', fld candidate ''repositorySnapshotRef''),
     (''reconstructionMethod'', fld candidate ''reconstructionMethod''),
     (''evidenceRefs'', fld candidate ''evidenceRefs''),
     (''contradictionRefs'', fld candidate ''contradictionRefs''),
     (''evidenceReviewState'', JStr ''reviewed''),
     (''contradictionReviewState'', JStr ''reviewed''),
     (''sourceSemanticEventRef'', fld candidate ''sourceSemanticEventRef''),
     (''createdAt'', fld candidate ''createdAt'')] @ rest)"

subsection \<open>Review\<close>

definition validateAroReviewReceipt :: "jsenv \<Rightarrow> jval \<Rightarrow> bool res" where
  "validateAroReviewReceipt E v =
     (if \<not> isPlainObject v
       \<or> fld v ''schema'' \<noteq> JStr ARO_REVIEW_RECEIPT_SCHEMA
       \<or> js_text (fld v ''reviewReceiptId'') [] = []
       \<or> js_text (fld v ''actorId'') [] = []
       \<or> fld v ''actorRole'' \<noteq> JStr ''operator''
       \<or> fld v ''evidenceInspected'' \<noteq> JBool True
       \<or> fld v ''contradictionsInspected'' \<noteq> JBool True
       \<or> fld v ''semanticValidityGranted'' \<noteq> JBool False
       \<or> fld v ''executionAuthorityGranted'' \<noteq> JBool False
       \<or> fld v ''canonicalMutation'' \<noteq> JBool False
       \<or> fld v ''grantsAuthority'' \<noteq> JBool False
       \<or> js_text (fld v ''reviewedAt'') [] = []
       \<or> fld v ''digest'' \<noteq> JStr (digestFor E ARO_REVIEW_RECEIPT_SCHEMA v [''digest''])
      then fail ''aro_review_receipt_invalid'' []
      else ebind (aroExactRef (fld v ''candidateRef'') ''aroReview.candidateRef'') (\<lambda>_.
      ebind (aroExactRef (fld v ''predecessorCandidateRef'') ''aroReview.predecessorCandidateRef'') (\<lambda>_.
      Inr True)))"

definition reviewAroReconstructionCandidate :: "jsenv \<Rightarrow> jval \<Rightarrow> jval \<Rightarrow> jval res" where
  "reviewAroReconstructionCandidate E candidate arg =
     (let input = (if arg = JUndef then JObj [] else arg) in
     ebind (validateAroReconstructionCandidate E candidate) (\<lambda>_.
     if fld candidate ''lifecycle'' \<noteq> JStr ''candidate''
     then fail ''aro_candidate_review_lifecycle_invalid'' []
     else if fld candidate ''evidenceReviewState'' = JStr ''reviewed''
       \<and> fld candidate ''contradictionReviewState'' = JStr ''reviewed''
     then Inr (JObj [(''candidate'', candidate), (''receipt'', JNull), (''reused'', JBool True)])
     else
     ebind (getp input ''reviewedAt'') (\<lambda>_.
     ebind (stampedAs E input ''reviewedAt'') (\<lambda>reviewedAt.
     ebind (aroReconstructionCandidateRef candidate) (\<lambda>candidateRef.
     ebind (buildAroReconstructionCandidate E (candidateInputFrom E candidate candidateRef
         [(''lifecycle'', JStr ''candidate''), (''canonical'', JBool False),
          (''predecessorRef'', fld (fld candidate ''candidateAro'') ''predecessorRef'')]
         [(''lifecycle'', JStr ''candidate''), (''reviewedAt'', reviewedAt)])) (\<lambda>reviewed.
     ebind (aroReconstructionCandidateRef reviewed) (\<lambda>reviewedRef.
     let actorId = JStr (js_text (fld input ''actorId'') ''operator'');
         receipt = seal E ARO_REVIEW_RECEIPT_SCHEMA
       [(''reviewReceiptId'', JStr (stableId E ''wm_aro_review_receipt'' (JObj [
           (''candidateRef'', reviewedRef), (''actorId'', actorId)]))),
        (''candidateRef'', reviewedRef),
        (''predecessorCandidateRef'', candidateRef),
        (''actorId'', actorId),
        (''actorRole'', JStr ''operator''),
        (''evidenceInspected'', JBool True),
        (''contradictionsInspected'', JBool True),
        (''semanticValidityGranted'', JBool False),
        (''executionAuthorityGranted'', JBool False),
        (''canonicalMutation'', JBool False),
        (''grantsAuthority'', JBool False),
        (''reviewedAt'', reviewedAt)] in
     ebind (validateAroReviewReceipt E receipt) (\<lambda>_.
     Inr (JObj [(''candidate'', reviewed), (''receipt'', receipt), (''reused'', JBool False)])))))))))"

subsection \<open>Admission\<close>

definition validateAroAdmissionReceipt :: "jsenv \<Rightarrow> jval \<Rightarrow> bool res" where
  "validateAroAdmissionReceipt E v =
     (if \<not> isPlainObject v
       \<or> fld v ''schema'' \<noteq> JStr ARO_ADMISSION_RECEIPT_SCHEMA
       \<or> js_text (fld v ''admissionReceiptId'') [] = []
       \<or> js_text (fld v ''actorId'') [] = []
       \<or> fld v ''actorRole'' \<noteq> JStr ''operator''
       \<or> fld v ''semanticRegistryMutation'' \<noteq> JBool True
       \<or> fld v ''codeMutationPerformed'' \<noteq> JBool False
       \<or> fld v ''downstreamEffectsExecuted'' \<noteq> JBool False
       \<or> fld v ''executionAuthorityGranted'' \<noteq> JBool False
       \<or> fld v ''grantsAuthority'' \<noteq> JBool False
       \<or> js_text (fld v ''admittedAt'') [] = []
       \<or> fld v ''digest'' \<noteq> JStr (digestFor E ARO_ADMISSION_RECEIPT_SCHEMA v [''digest''])
      then fail ''aro_admission_receipt_invalid'' []
      else ebind (aroExactRef (fld v ''candidateRef'') ''aroAdmission.candidateRef'') (\<lambda>_.
      ebind (aroExactRef (fld v ''aroRef'') ''aroAdmission.aroRef'') (\<lambda>_.
      Inr True)))"

definition checkCurrentAro :: "jsenv \<Rightarrow> jval \<Rightarrow> jval \<Rightarrow> bool res" where
  \<comment> \<open>the block \<open>if (currentAro) {...}\<close>\<close>
  "checkCurrentAro E currentAro candidate =
     (if truthy currentAro
      then ebind (validateAbstractReasoningObject E currentAro) (\<lambda>_.
        if \<not> strict_eq (fld currentAro ''aroId'') (fld (fld candidate ''candidateAro'') ''aroId'')
        then fail ''aro_candidate_admission_identity_conflict'' []
        else Inr True)
      else Inr True)"

definition admitAroReconstructionCandidate :: "jsenv \<Rightarrow> jval \<Rightarrow> jval \<Rightarrow> jval res" where
  "admitAroReconstructionCandidate E candidate arg =
     (let input = (if arg = JUndef then JObj [] else arg) in
     ebind (validateAroReconstructionCandidate E candidate) (\<lambda>_.
     if fld candidate ''lifecycle'' \<noteq> JStr ''candidate''
       \<or> fld candidate ''evidenceReviewState'' \<noteq> JStr ''reviewed''
       \<or> fld candidate ''contradictionReviewState'' \<noteq> JStr ''reviewed''
     then fail ''aro_candidate_admission_gate_blocked'' []
     else
     ebind (getp input ''currentAro'') (\<lambda>givenAro.
     let currentAro = js_or givenAro JNull in
     ebind (checkCurrentAro E currentAro candidate) (\<lambda>_.
     ebind (stampedAs E input ''admittedAt'') (\<lambda>admittedAt.
     ebind (if truthy currentAro then abstractReasoningObjectRef currentAro else Inr JNull)
       (\<lambda>predecessorRef.
     ebind (aroReconstructionCandidateRef candidate) (\<lambda>candidateRef.
     ebind (buildAbstractReasoningObject E (spread (aroInputFromExisting (fld candidate ''candidateAro'') [])
         [(''revision'', if truthy currentAro then js_plus1 E (fld currentAro ''revision'') else num 1),
          (''lifecycle'', JStr ''active''),
          (''predecessorRef'', predecessorRef),
          (''admittedFromCandidateRef'', candidateRef),
          (''canonical'', JBool True),
          (''createdAt'', admittedAt)])) (\<lambda>aro.
     ebind (abstractReasoningObjectRef aro) (\<lambda>aroRef.
     let actorId = JStr (js_text (fld input ''actorId'') ''operator'');
         receipt = seal E ARO_ADMISSION_RECEIPT_SCHEMA
       [(''admissionReceiptId'', JStr (stableId E ''wm_aro_admission_receipt'' (JObj [
           (''candidateRef'', candidateRef), (''aroRef'', aroRef), (''actorId'', actorId)]))),
        (''candidateRef'', candidateRef),
        (''aroRef'', aroRef),
        (''actorId'', actorId),
        (''actorRole'', JStr ''operator''),
        (''semanticRegistryMutation'', JBool True),
        (''codeMutationPerformed'', JBool False),
        (''downstreamEffectsExecuted'', JBool False),
        (''executionAuthorityGranted'', JBool False),
        (''grantsAuthority'', JBool False),
        (''admittedAt'', admittedAt)] in
     ebind (validateAroAdmissionReceipt E receipt) (\<lambda>_.
     ebind (buildAroReconstructionCandidate E (candidateInputFrom E candidate candidateRef
         [(''lifecycle'', JStr ''candidate''), (''canonical'', JBool False)]
         [(''lifecycle'', JStr ''admitted''),
          (''reviewedAt'', fld candidate ''reviewedAt''),
          (''admittedAroRef'', aroRef)])) (\<lambda>admittedCandidate.
     Inr (JObj [(''aro'', aro), (''candidate'', admittedCandidate), (''receipt'', receipt)]))))))))))))"

subsection \<open>What a candidate promises\<close>

lemma validateAroReconstructionCandidate_True:
  "validateAroReconstructionCandidate E v = Inr b \<Longrightarrow> validateAroReconstructionCandidate E v = Inr True"
  unfolding validateAroReconstructionCandidate_def Let_def
  by (auto simp: ebind_Inr_iff dest: checkOptionalRef_True split: if_splits)

lemma validateAroReconstructionCandidate_Inr:
  assumes "validateAroReconstructionCandidate E v = Inr b"
  shows "validateAbstractReasoningObject E (fld v ''candidateAro'') = Inr True"
    "fld (fld v ''candidateAro'') ''canonical'' = JBool False" "fld (fld v ''candidateAro'') ''lifecycle'' = JStr ''candidate''"
    "isPlainObject v" "fld v ''canonical'' = JBool False" "js_text (fld v ''candidateId'') [] \<noteq> []"
  using assms unfolding validateAroReconstructionCandidate_def Let_def
  by (auto simp: ebind_Inr_iff dest: validateAbstractReasoningObject_True split: if_splits)

lemma buildAroReconstructionCandidate_valid:
  "buildAroReconstructionCandidate E input = Inr v \<Longrightarrow> validateAroReconstructionCandidate E v = Inr True"
  unfolding buildAroReconstructionCandidate_def
  by (elim run_elims, drule validateAroReconstructionCandidate_True, hypsubst_thin, assumption)

lemma buildAroReconstructionCandidate_Inr:
  assumes "buildAroReconstructionCandidate E input = Inr v"
  shows "buildAbstractReasoningObject E (candidateAroInput (dflt input)) = Inr (fld v ''candidateAro'')
    \<and> (\<exists>fb. fld v ''candidateId'' = JStr (js_text (fld input ''candidateId'') fb))
    \<and> fld v ''candidateRevision'' = JNum (to_number E (js_or (fld input ''candidateRevision'') (num 1)))
    \<and> aroOptionalRef (fld input ''predecessorRef'') ''aroCandidate.predecessorRef'' = Inr (fld v ''predecessorRef'')
    \<and> fld v ''evidenceReviewState'' = member_or (fld input ''evidenceReviewState'') ARO_REVIEW_STATES ''pending''
    \<and> fld v ''contradictionReviewState'' = member_or (fld input ''contradictionReviewState'') ARO_REVIEW_STATES ''pending''
    \<and> fld v ''lifecycle'' = member_or (fld input ''lifecycle'') ARO_CANDIDATE_LIFECYCLES ''candidate''
    \<and> aroOptionalRef (fld input ''admittedAroRef'') ''aroCandidate.admittedAroRef'' = Inr (fld v ''admittedAroRef'')
    \<and> fld v ''canonical'' = JBool False \<and> fld v ''grantsAuthority'' = JBool False"
  using assms unfolding buildAroReconstructionCandidate_def ebind_defaulted fld_dflt
  apply (elim run_elims)
  apply hypsubst_thin
  apply (simp (no_asm) add: fld_seal split del: if_split)
  apply (intro exI conjI)
        apply (assumption | rule refl)+
  done

lemma aroReconstructionCandidateRef_Inr:
  assumes "aroReconstructionCandidateRef v = Inr r"
  shows "aroExactRef r l = Inr r" "truthy r"
  using assms by (auto simp: aroReconstructionCandidateRef_def ebind_Inr_iff dest: aroExactRef_again aroExactRef_truthy)

lemma member_or_member [simp]: "s \<in> set ms \<Longrightarrow> member_or (JStr s) ms fb = JStr s"
  by (simp add: member_or_def one_of_def)

lemma reviewed_word [simp]: "''reviewed'' \<in> set ARO_REVIEW_STATES" "''candidate'' \<in> set ARO_CANDIDATE_LIFECYCLES"
  "''admitted'' \<in> set ARO_CANDIDATE_LIFECYCLES"
  by (simp_all add: ARO_REVIEW_STATES_def ARO_CANDIDATE_LIFECYCLES_def)

lemma fld_candidateInputFrom:
  "fld (candidateInputFrom E c ref ov rest) ''candidateId'' = fld c ''candidateId''"
  "fld (candidateInputFrom E c ref ov rest) ''predecessorRef'' = ref"
  "fld (candidateInputFrom E c ref ov rest) ''evidenceReviewState'' = JStr ''reviewed''"
  "fld (candidateInputFrom E c ref ov rest) ''contradictionReviewState'' = JStr ''reviewed''"
  "fld (candidateInputFrom E c ref ov rest) ''candidateRevision'' = js_plus1 E (fld c ''candidateRevision'')"
  "fld (candidateInputFrom E c ref ov rest) ''lifecycle'' = fld (JObj rest) ''lifecycle''"
  "fld (candidateInputFrom E c ref ov rest) ''admittedAroRef'' = fld (JObj rest) ''admittedAroRef''"
  by (simp_all add: candidateInputFrom_def)

lemma rebuilt_candidate:
  assumes "buildAroReconstructionCandidate E (candidateInputFrom E c r ov rest) = Inr v"
    and "validateAroReconstructionCandidate E c = Inr True" "aroReconstructionCandidateRef c = Inr r"
    and "fld (JObj rest) ''lifecycle'' = JStr s" "s \<in> set ARO_CANDIDATE_LIFECYCLES"
  shows "validateAroReconstructionCandidate E v = Inr True \<and> fld v ''predecessorRef'' = r
    \<and> fld v ''evidenceReviewState'' = JStr ''reviewed'' \<and> fld v ''contradictionReviewState'' = JStr ''reviewed''
    \<and> fld v ''lifecycle'' = JStr s \<and> fld v ''canonical'' = JBool False
    \<and> fld v ''candidateId'' = JStr (js_text (fld c ''candidateId'') [])
    \<and> fld v ''candidateRevision'' = JNum (to_number E (js_or (js_plus1 E (fld c ''candidateRevision'')) (num 1)))
    \<and> aroOptionalRef (fld (JObj rest) ''admittedAroRef'') ''aroCandidate.admittedAroRef'' = Inr (fld v ''admittedAroRef'')"
proof -
  note b = buildAroReconstructionCandidate_Inr [OF assms(1), unfolded fld_candidateInputFrom]
  have "fld v ''predecessorRef'' = r"
    using b aroReconstructionCandidateRef_Inr [OF assms(3)] aroOptionalRef_fix [of r] by auto
  moreover have "fld v ''candidateId'' = JStr (js_text (fld c ''candidateId'') [])"
    using b js_text_fallback [OF validateAroReconstructionCandidate_Inr(6) [OF assms(2)]] by auto
  ultimately show ?thesis
    using b buildAroReconstructionCandidate_valid [OF assms(1)] assms(4,5) by simp
qed

subsection \<open>What a review promises\<close>

definition reviewed_candidate :: "jval \<Rightarrow> bool" where
  "reviewed_candidate c \<longleftrightarrow> fld c ''evidenceReviewState'' = JStr ''reviewed''
     \<and> fld c ''contradictionReviewState'' = JStr ''reviewed''"

lemma review_Inr:
  assumes "reviewAroReconstructionCandidate E c arg = Inr out" "\<not> reviewed_candidate c"
  shows "\<exists>r reviewedRef ov reviewedAt. validateAroReconstructionCandidate E c = Inr True
    \<and> fld c ''lifecycle'' = JStr ''candidate'' \<and> aroReconstructionCandidateRef c = Inr r
    \<and> buildAroReconstructionCandidate E (candidateInputFrom E c r ov
         [(''lifecycle'', JStr ''candidate''), (''reviewedAt'', reviewedAt)]) = Inr (fld out ''candidate'')
    \<and> aroReconstructionCandidateRef (fld out ''candidate'') = Inr reviewedRef
    \<and> fld (fld out ''receipt'') ''candidateRef'' = reviewedRef \<and> fld (fld out ''receipt'') ''predecessorCandidateRef'' = r
    \<and> fld (fld out ''receipt'') ''semanticValidityGranted'' = JBool False
    \<and> fld (fld out ''receipt'') ''canonicalMutation'' = JBool False
    \<and> fld out ''reused'' = JBool False"
  using assms(1) unfolding reviewAroReconstructionCandidate_def reviewed_candidate_def [symmetric]
    if_not_P [OF assms(2)]
  apply (elim run_elims)
  apply (drule validateAroReconstructionCandidate_True)
  apply hypsubst_thin
  apply (simp (no_asm) add: fld_seal split del: if_split)
  apply (intro exI conjI)
      apply (assumption | rule refl)+
  done

lemma review_reused:
  assumes "reviewed_candidate c" "validateAroReconstructionCandidate E c = Inr True" "fld c ''lifecycle'' = JStr ''candidate''"
  shows "reviewAroReconstructionCandidate E c arg
    = Inr (JObj [(''candidate'', c), (''receipt'', JNull), (''reused'', JBool True)])"
  using assms by (simp add: reviewAroReconstructionCandidate_def reviewed_candidate_def Let_def)

text \<open>C38: Reviewing a candidate yields a valid, non-canonical candidate linked to the one reviewed, and
reviewing the result again returns it unchanged without a new receipt.\<close>

theorem review_is_idempotent:
  assumes "reviewAroReconstructionCandidate E c arg = Inr out"
  shows "reviewed_candidate (fld out ''candidate'') \<and> validateAroReconstructionCandidate E (fld out ''candidate'') = Inr True
    \<and> fld (fld out ''candidate'') ''lifecycle'' = JStr ''candidate''
    \<and> fld (fld out ''candidate'') ''canonical'' = JBool False
    \<and> fld (fld (fld out ''candidate'') ''candidateAro'') ''canonical'' = JBool False
    \<and> (if reviewed_candidate c then fld out ''candidate'' = c \<and> fld out ''receipt'' = JNull
       else aroReconstructionCandidateRef c = Inr (fld (fld out ''candidate'') ''predecessorRef'')
         \<and> aroReconstructionCandidateRef (fld out ''candidate'') = Inr (fld (fld out ''receipt'') ''candidateRef'')
         \<and> fld (fld out ''candidate'') ''candidateId'' = JStr (js_text (fld c ''candidateId'') [])
         \<and> fld (fld out ''receipt'') ''semanticValidityGranted'' = JBool False)
    \<and> reviewAroReconstructionCandidate E (fld out ''candidate'') again
        = Inr (JObj [(''candidate'', fld out ''candidate''), (''receipt'', JNull), (''reused'', JBool True)])"
proof (cases "reviewed_candidate c")
  case True
  have "validateAroReconstructionCandidate E c = Inr True" "fld c ''lifecycle'' = JStr ''candidate''"
    using assms by (auto simp: reviewAroReconstructionCandidate_def Let_def ebind_Inr_iff
      dest: validateAroReconstructionCandidate_True split: if_splits)
  moreover from this have "out = JObj [(''candidate'', c), (''receipt'', JNull), (''reused'', JBool True)]"
    using assms review_reused [OF True, of E arg] by simp
  then have "fld out ''candidate'' = c" "fld out ''receipt'' = JNull" by simp_all
  ultimately show ?thesis
    using True validateAroReconstructionCandidate_Inr(2,5) review_reused [OF True] by simp
next
  case False
  obtain r reviewedRef ov reviewedAt where v: "validateAroReconstructionCandidate E c = Inr True"
    and r: "aroReconstructionCandidateRef c = Inr r"
    and b: "buildAroReconstructionCandidate E (candidateInputFrom E c r ov
         [(''lifecycle'', JStr ''candidate''), (''reviewedAt'', reviewedAt)]) = Inr (fld out ''candidate'')"
    and n: "aroReconstructionCandidateRef (fld out ''candidate'') = Inr reviewedRef"
      "fld (fld out ''receipt'') ''candidateRef'' = reviewedRef" "fld (fld out ''receipt'') ''semanticValidityGranted'' = JBool False"
    using review_Inr [OF assms False] by blast
  have c: "validateAroReconstructionCandidate E (fld out ''candidate'') = Inr True
    \<and> fld (fld out ''candidate'') ''predecessorRef'' = r
    \<and> fld (fld out ''candidate'') ''evidenceReviewState'' = JStr ''reviewed''
    \<and> fld (fld out ''candidate'') ''contradictionReviewState'' = JStr ''reviewed''
    \<and> fld (fld out ''candidate'') ''lifecycle'' = JStr ''candidate'' \<and> fld (fld out ''candidate'') ''canonical'' = JBool False
    \<and> fld (fld out ''candidate'') ''candidateId'' = JStr (js_text (fld c ''candidateId'') [])"
    using rebuilt_candidate [OF b v r] by simp
  then have w: "reviewed_candidate (fld out ''candidate'')" by (simp add: reviewed_candidate_def)
  show ?thesis
    using c w n r False validateAroReconstructionCandidate_Inr(2) [of E "fld out ''candidate''"] review_reused [OF w]
    by simp
qed

subsection \<open>What an admission promises\<close>

lemma admit_Inr:
  assumes "admitAroReconstructionCandidate E c arg = Inr out"
  defines "currentAro \<equiv> js_or (fld (if arg = JUndef then JObj [] else arg) ''currentAro'') JNull"
  shows "\<exists>predecessorRef candidateRef admittedAt aroRef ok. validateAroReconstructionCandidate E c = Inr True
    \<and> fld c ''lifecycle'' = JStr ''candidate'' \<and> reviewed_candidate c
    \<and> checkCurrentAro E currentAro c = Inr ok
    \<and> (if truthy currentAro then abstractReasoningObjectRef currentAro else Inr JNull) = Inr predecessorRef
    \<and> aroReconstructionCandidateRef c = Inr candidateRef
    \<and> buildAbstractReasoningObject E (spread (aroInputFromExisting (fld c ''candidateAro'') [])
         [(''revision'', if truthy currentAro then js_plus1 E (fld currentAro ''revision'') else num 1),
          (''lifecycle'', JStr ''active''),
          (''predecessorRef'', predecessorRef),
          (''admittedFromCandidateRef'', candidateRef),
          (''canonical'', JBool True),
          (''createdAt'', admittedAt)]) = Inr (fld out ''aro'')
    \<and> abstractReasoningObjectRef (fld out ''aro'') = Inr aroRef
    \<and> buildAroReconstructionCandidate E (candidateInputFrom E c candidateRef
         [(''lifecycle'', JStr ''candidate''), (''canonical'', JBool False)]
         [(''lifecycle'', JStr ''admitted''),
          (''reviewedAt'', fld c ''reviewedAt''),
          (''admittedAroRef'', aroRef)]) = Inr (fld out ''candidate'')
    \<and> fld (fld out ''receipt'') ''candidateRef'' = candidateRef \<and> fld (fld out ''receipt'') ''aroRef'' = aroRef
    \<and> fld (fld out ''receipt'') ''codeMutationPerformed'' = JBool False
    \<and> fld (fld out ''receipt'') ''executionAuthorityGranted'' = JBool False"
  using assms(1) unfolding admitAroReconstructionCandidate_def reviewed_candidate_def
  apply (elim run_elims)
  apply (drule validateAroReconstructionCandidate_True)
  apply (simp only: getp_Inr_iff de_Morgan_disj not_not)
  apply (elim conjE)
  apply hypsubst_thin
  apply (fold currentAro_def)
  apply (simp (no_asm) add: fld_seal split del: if_split)
  apply (intro exI conjI)
      apply (assumption | rule refl)+
  done

lemma admission_input:
  "fld (spread v [(''revision'', rv), (''lifecycle'', JStr ''active''), (''predecessorRef'', pr),
      (''admittedFromCandidateRef'', cr), (''canonical'', JBool True), (''createdAt'', ca)]) k
    = (if k = ''revision'' then rv else if k = ''lifecycle'' then JStr ''active'' else if k = ''predecessorRef'' then pr
       else if k = ''admittedFromCandidateRef'' then cr else if k = ''canonical'' then JBool True else if k = ''createdAt'' then ca
       else fld v k)"
  by (simp add: fld_spread)

text \<open>C18: Only a valid reviewed candidate is admitted; the admitted object is canonical, active and
valid, keeps the identity of the candidate and succeeds the current object when there is one.\<close>

theorem admission_makes_canonical:
  assumes "admitAroReconstructionCandidate E c arg = Inr out"
  shows "validateAroReconstructionCandidate E c = Inr True \<and> reviewed_candidate c \<and> fld c ''lifecycle'' = JStr ''candidate''
    \<and> validateAbstractReasoningObject E (fld out ''aro'') = Inr True
    \<and> fld (fld out ''aro'') ''canonical'' = JBool True \<and> fld (fld out ''aro'') ''lifecycle'' = JStr ''active''
    \<and> fld (fld out ''aro'') ''aroId'' = JStr (js_text (fld (fld c ''candidateAro'') ''aroId'') [])
    \<and> fld (fld out ''aro'') ''projectId'' = JStr (js_text (fld (fld c ''candidateAro'') ''projectId'') [])
    \<and> fld (fld out ''aro'') ''conceptKey'' = JStr (js_text (fld (fld c ''candidateAro'') ''conceptKey'') [])
    \<and> aroReconstructionCandidateRef c = Inr (fld (fld out ''aro'') ''admittedFromCandidateRef'')
    \<and> (let currentAro = js_or (fld (if arg = JUndef then JObj [] else arg) ''currentAro'') JNull in
       if truthy currentAro
       then strict_eq (fld currentAro ''aroId'') (fld (fld c ''candidateAro'') ''aroId'')
         \<and> abstractReasoningObjectRef currentAro = Inr (fld (fld out ''aro'') ''predecessorRef'')
         \<and> fld (fld out ''aro'') ''revision'' = JNum (to_number E (js_or (js_plus1 E (fld currentAro ''revision'')) (num 1)))
       else fld (fld out ''aro'') ''predecessorRef'' = JNull \<and> fld (fld out ''aro'') ''revision'' = num 1)"
proof -
  let ?cur = "js_or (fld (if arg = JUndef then JObj [] else arg) ''currentAro'') JNull"
  obtain predecessorRef candidateRef admittedAt aroRef ok where v: "validateAroReconstructionCandidate E c = Inr True"
    and l: "fld c ''lifecycle'' = JStr ''candidate''" "reviewed_candidate c"
    and k: "checkCurrentAro E ?cur c = Inr ok"
    and p: "(if truthy ?cur then abstractReasoningObjectRef ?cur else Inr JNull) = Inr predecessorRef"
    and r: "aroReconstructionCandidateRef c = Inr candidateRef"
    and b: "buildAbstractReasoningObject E (spread (aroInputFromExisting (fld c ''candidateAro'') [])
         [(''revision'', if truthy ?cur then js_plus1 E (fld ?cur ''revision'') else num 1),
          (''lifecycle'', JStr ''active''),
          (''predecessorRef'', predecessorRef),
          (''admittedFromCandidateRef'', candidateRef),
          (''canonical'', JBool True),
          (''createdAt'', admittedAt)]) = Inr (fld out ''aro'')"
    using admit_Inr [OF assms] by (elim exE conjE) (rule that; assumption)
  obtain aroId where f: "aroId = JStr (js_text (fld (fld c ''candidateAro'') ''aroId'') (stableId E ''wm_abstract_reasoning_object'' (JObj [
           (''projectId'', JStr (js_text (fld (fld c ''candidateAro'') ''projectId'') [])),
           (''conceptKey'', JStr (js_text (fld (fld c ''candidateAro'') ''conceptKey'') [])),
           (''posture'', JStr (js_text (fld (fld c ''candidateAro'') ''posture'') []))])))"
      "fld (fld out ''aro'') ''aroId'' = aroId"
    and g: "fld (fld out ''aro'') ''projectId'' = JStr (js_text (fld (fld c ''candidateAro'') ''projectId'') [])"
      "fld (fld out ''aro'') ''conceptKey'' = JStr (js_text (fld (fld c ''candidateAro'') ''conceptKey'') [])"
      "fld (fld out ''aro'') ''lifecycle'' = JStr (js_text (JStr ''active'') ''active'')"
      "fld (fld out ''aro'') ''canonical'' = JBool True"
      "fld (fld out ''aro'') ''revision'' = JNum (to_number E (js_or (if truthy ?cur then js_plus1 E (fld ?cur ''revision'') else num 1) (num 1)))"
      "aroOptionalRef predecessorRef ''aro.predecessorRef'' = Inr (fld (fld out ''aro'') ''predecessorRef'')"
      "aroOptionalRef candidateRef ''aro.admittedFromCandidateRef'' = Inr (fld (fld out ''aro'') ''admittedFromCandidateRef'')"
    using buildAbstractReasoningObject_Inr [OF b]
    apply (simp only: admission_input fld_aroInputFromExisting char.inject list.inject simp_thms if_True if_False)
    apply (elim exE conjE)
    apply (rule that)
    apply assumption+
    done
  note a = validateAroReconstructionCandidate_Inr(1) [OF v]
  have "fld (fld out ''aro'') ''admittedFromCandidateRef'' = candidateRef"
    using g(7) aroReconstructionCandidateRef_Inr [OF r] aroOptionalRef_fix [of candidateRef] by auto
  moreover have "fld (fld out ''aro'') ''predecessorRef'' = predecessorRef"
    using g(6) p abstractReasoningObjectRef_Inr aroOptionalRef_fix [of predecessorRef]
    by (auto simp: aroOptionalRef_def split: if_splits)
  moreover have "JNum (Fin 1) = num 1" by (simp add: num_def)
  moreover have "js_text (JStr ''active'') ''active'' = ''active''" by (simp add: js_text_JStr trim_id is_space_def)
  ultimately show ?thesis
    using v l k p r f(2) g js_text_fallback [OF validateAbstractReasoningObject_texts(1) [OF a]] f(1)
      buildAbstractReasoningObject_valid [OF b]
    by (auto simp: Let_def checkCurrentAro_def ebind_Inr_iff js_or_num split: if_splits)
qed

theorem admission_needs_review:
  assumes "validateAroReconstructionCandidate E c = Inr True" "\<not> reviewed_candidate c \<or> fld c ''lifecycle'' \<noteq> JStr ''candidate''"
  shows "admitAroReconstructionCandidate E c arg = fail ''aro_candidate_admission_gate_blocked'' []"
  using assms unfolding admitAroReconstructionCandidate_def reviewed_candidate_def Let_def by auto

end
