(* ===== verification/AroRevisions.thy ===== *)
theory AroRevisions
  imports AroObjects
begin

section \<open>Freshness revisions and current/target comparisons\<close>

text \<open>
  \<open>reviseAroRealizationFreshness\<close>, \<open>buildAroCurrentTargetComparison\<close> and
  \<open>validateAroCurrentTargetComparison\<close> (\<^verbatim>\<open>src/main/direct/worldmanager/aro-kernel.js\<close>): marking
  the realizations of changed sources stale in a new revision, and the branch-wise difference
  between the current and the target ARO of a concept.
\<close>

subsection \<open>Freshness\<close>

definition sourceKey :: "jsenv \<Rightarrow> jval \<Rightarrow> string" where
  \<comment> \<open>\<open>`${ref.kind}:${ref.id}`\<close>\<close>
  "sourceKey E ref = js_string E (fld ref ''kind'') @ '':'' @ js_string E (fld ref ''id'')"

definition changedSource :: "jsenv \<Rightarrow> jval list \<Rightarrow> jval \<Rightarrow> jval option" where
  \<comment> \<open>the changed source of a binding, if its digest really differs\<close>
  "changedSource E changedSourceRefs binding =
     (case find (\<lambda>ref. sourceKey E ref = sourceKey E (fld binding ''sourceRef'')) changedSourceRefs of
        None \<Rightarrow> None
      | Some current \<Rightarrow> if strict_eq (fld current ''digest'') (fld (fld binding ''sourceRef'') ''digest'')
          then None else Some current)"

definition freshBindingInput :: "jsenv \<Rightarrow> jval list \<Rightarrow> jval list \<Rightarrow> jval \<Rightarrow> jval" where
  "freshBindingInput E changedSourceRefs branches binding =
     (case changedSource E changedSourceRefs binding of
        None \<Rightarrow> bindingInputFrom branches binding
      | Some current \<Rightarrow> JObj [
         (''realizationBindingId'', fld binding ''realizationBindingId''),
         (''branchKey'', keyOfBranch branches (fld (fld binding ''branchRef'') ''id'')),
         (''realizationKind'', fld binding ''realizationKind''),
         (''locator'', fld binding ''locator''),
         (''sourceRef'', current),
         (''coverageState'', JStr ''stale''),
         (''evidenceRefs'', fld binding ''evidenceRefs''),
         (''observedRevisionRef'', current)])"

definition reviseAroRealizationFreshness :: "jsenv \<Rightarrow> jval \<Rightarrow> jval \<Rightarrow> jval res" where
  "reviseAroRealizationFreshness E aro arg =
     (let input = (if arg = JUndef then JObj [] else arg) in
     ebind (validateAbstractReasoningObject E aro) (\<lambda>_.
     if fld aro ''canonical'' \<noteq> JBool True
     then fail ''aro_freshness_revision_requires_canonical'' []
     else
     ebind (getp input ''changedSourceRefs'') (\<lambda>changedArg.
     ebind (aroUniqueRefs E changedArg) (\<lambda>changedSourceRefs.
     let branches = elems (fld aro ''branches'');
         bindings = elems (fld aro ''realizationBindings'') in
     if \<not> list_ex (\<lambda>binding. changedSource E changedSourceRefs binding \<noteq> None) bindings
     then Inr (JObj [(''changed'', JBool False), (''aro'', aro)])
     else
     ebind (abstractReasoningObjectRef aro) (\<lambda>predecessorRef.
     ebind (stampedAs E input ''changedAt'') (\<lambda>createdAt.
     ebind (buildAbstractReasoningObject E (spread (aroInputFromExisting aro [])
         [(''revision'', js_plus1 E (fld aro ''revision'')),
          (''lifecycle'', JStr ''stale''),
          (''predecessorRef'', predecessorRef),
          (''realizationBindings'', JArr (map (freshBindingInput E changedSourceRefs branches) bindings)),
          (''createdAt'', createdAt)])) (\<lambda>revised.
     Inr (JObj [(''changed'', JBool True), (''aro'', revised)]))))))))"

subsection \<open>Comparing the current and the target object of a concept\<close>

definition branchesByKey :: "jval list \<Rightarrow> branch_map" where
  \<comment> \<open>\<open>new Map(branches.map((branch) => [branch.branchKey, branch]))\<close>\<close>
  "branchesByKey branches = assign_all [] (map (\<lambda>branch. (fld branch ''branchKey'', branch)) branches)"

definition distinctions :: "jval \<Rightarrow> jval \<Rightarrow> string list" where
  "distinctions current target =
     (if strict_eq (fld current ''statement'') (fld target ''statement'') then [] else [''statement''])
     @ (if strict_eq (fld current ''semanticState'') (fld target ''semanticState'') then []
        else [''semantic_state''])
     @ (if strict_eq (fld current ''modality'') (fld target ''modality'') then [] else [''modality''])"

definition onlyIn :: "branch_map \<Rightarrow> branch_map \<Rightarrow> jval list" where
  \<comment> \<open>the branches of the first map whose key is not in the second\<close>
  "onlyIn left right = map snd (filter (\<lambda>(key, branch). map_of right key = None) left)"

definition conflictPair :: "branch_map \<Rightarrow> branch_map \<Rightarrow> jval \<Rightarrow> jval option res" where
  "conflictPair currentByKey targetByKey branchKey =
     (let current = the (map_of currentByKey branchKey);
          target = the (map_of targetByKey branchKey) in
      if distinctions current target = [] then Inr None
      else ebind (branchRef current) (\<lambda>currentBranchRef.
        ebind (branchRef target) (\<lambda>targetBranchRef.
        Inr (Some (JObj [(''branchKey'', branchKey),
          (''currentBranchRef'', currentBranchRef), (''targetBranchRef'', targetBranchRef),
          (''distinctions'', strings (distinctions current target)),
          (''grantsAuthority'', JBool False)])))))"

definition validateConflictPair :: "jval \<Rightarrow> bool res" where
  "validateConflictPair pair =
     ebind (getp pair ''currentBranchRef'') (\<lambda>currentBranchRef.
     ebind (aroExactRef currentBranchRef ''aroComparison.currentBranchRef'') (\<lambda>_.
     ebind (aroExactRef (fld pair ''targetBranchRef'') ''aroComparison.targetBranchRef'') (\<lambda>_.
     if \<not> isArray (fld pair ''distinctions'') \<or> fld pair ''grantsAuthority'' \<noteq> JBool False
     then fail ''aro_comparison_conflict_invalid'' [] else Inr True)))"

definition validateAroCurrentTargetComparison :: "jsenv \<Rightarrow> jval \<Rightarrow> bool res" where
  "validateAroCurrentTargetComparison E v =
     (if \<not> isPlainObject v
       \<or> fld v ''schema'' \<noteq> JStr ARO_CURRENT_TARGET_COMPARISON_SCHEMA
       \<or> js_text (fld v ''comparisonId'') [] = []
       \<or> js_text (fld v ''projectId'') [] = []
       \<or> js_text (fld v ''conceptKey'') [] = []
       \<or> \<not> isArray (fld v ''sharedBranchKeys'')
       \<or> \<not> isArray (fld v ''currentOnlyBranchRefs'')
       \<or> \<not> isArray (fld v ''targetOnlyBranchRefs'')
       \<or> \<not> isArray (fld v ''conflictPairs'')
       \<or> fld v ''candidateImplementationObligation'' \<noteq> JBool False
       \<or> fld v ''codeMutationAuthorized'' \<noteq> JBool False
       \<or> fld v ''canonical'' \<noteq> JBool False
       \<or> fld v ''grantsAuthority'' \<noteq> JBool False
       \<or> fld v ''digest'' \<noteq> JStr (digestFor E ARO_CURRENT_TARGET_COMPARISON_SCHEMA v [''digest''])
      then fail ''aro_current_target_comparison_invalid'' []
      else ebind (aroExactRef (fld v ''currentAroRef'') ''aroComparison.currentAroRef'') (\<lambda>_.
      ebind (aroExactRef (fld v ''targetAroRef'') ''aroComparison.targetAroRef'') (\<lambda>_.
      ebind (aroExactRef (fld v ''currentCoverageWitnessRef'') ''aroComparison.currentCoverageWitnessRef'') (\<lambda>_.
      ebind (aroExactRef (fld v ''targetCoverageWitnessRef'') ''aroComparison.targetCoverageWitnessRef'') (\<lambda>_.
      ebind (checkRefs (fld v ''currentOnlyBranchRefs'') ''aroComparison.currentOnly'') (\<lambda>_.
      ebind (checkRefs (fld v ''targetOnlyBranchRefs'') ''aroComparison.targetOnly'') (\<lambda>_.
      eforeach validateConflictPair (elems (fld v ''conflictPairs'')))))))))"

definition buildAroCurrentTargetComparison :: "jsenv \<Rightarrow> jval \<Rightarrow> jval \<Rightarrow> jval res" where
  "buildAroCurrentTargetComparison E currentAro targetAro =
     ebind (validateAbstractReasoningObject E currentAro) (\<lambda>_.
     ebind (validateAbstractReasoningObject E targetAro) (\<lambda>_.
     if fld currentAro ''posture'' \<noteq> JStr ''current''
       \<or> fld targetAro ''posture'' \<noteq> JStr ''target''
       \<or> \<not> strict_eq (fld currentAro ''projectId'') (fld targetAro ''projectId'')
       \<or> \<not> strict_eq (fld currentAro ''conceptKey'') (fld targetAro ''conceptKey'')
     then fail ''aro_current_target_comparison_scope_invalid'' []
     else
     let currentByKey = branchesByKey (elems (fld currentAro ''branches''));
         targetByKey = branchesByKey (elems (fld targetAro ''branches''));
         sharedBranchKeys = filter (\<lambda>key. map_of currentByKey key \<noteq> None) (map fst targetByKey) in
     ebind (emap branchRef (onlyIn currentByKey targetByKey)) (\<lambda>currentOnlyBranchRefs.
     ebind (emap branchRef (onlyIn targetByKey currentByKey)) (\<lambda>targetOnlyBranchRefs.
     ebind (emap (conflictPair currentByKey targetByKey) sharedBranchKeys) (\<lambda>pairs.
     ebind (abstractReasoningObjectRef currentAro) (\<lambda>currentAroRef.
     ebind (abstractReasoningObjectRef targetAro) (\<lambda>targetAroRef.
     let comparison = seal E ARO_CURRENT_TARGET_COMPARISON_SCHEMA
       [(''comparisonId'', JStr (stableId E ''wm_aro_current_target_comparison'' (JObj [
           (''currentAroRef'', currentAroRef), (''targetAroRef'', targetAroRef)]))),
        (''projectId'', fld currentAro ''projectId''),
        (''conceptKey'', fld currentAro ''conceptKey''),
        (''currentAroRef'', currentAroRef),
        (''targetAroRef'', targetAroRef),
        (''sharedBranchKeys'', JArr sharedBranchKeys),
        (''currentOnlyBranchRefs'', JArr currentOnlyBranchRefs),
        (''targetOnlyBranchRefs'', JArr targetOnlyBranchRefs),
        (''conflictPairs'', JArr (List.map_filter id pairs)),
        (''currentCoverageWitnessRef'', fld currentAro ''coverageWitnessRef''),
        (''targetCoverageWitnessRef'', fld targetAro ''coverageWitnessRef''),
        (''currentCoveragePosture'', fld (fld currentAro ''coverageWitness'') ''coveragePosture''),
        (''targetCoveragePosture'', fld (fld targetAro ''coverageWitness'') ''coveragePosture''),
        (''candidateImplementationObligation'', JBool False),
        (''codeMutationAuthorized'', JBool False),
        (''canonical'', JBool False),
        (''grantsAuthority'', JBool False)] in
     ebind (validateAroCurrentTargetComparison E comparison) (\<lambda>_. Inr comparison))))))))"

subsection \<open>What a freshness revision promises\<close>

abbreviation freshInput :: "jsenv \<Rightarrow> jval list \<Rightarrow> jval \<Rightarrow> jval \<Rightarrow> jval \<Rightarrow> jval" where
  "freshInput E changed aro predecessorRef createdAt \<equiv> spread (aroInputFromExisting aro [])
     [(''revision'', js_plus1 E (fld aro ''revision'')),
      (''lifecycle'', JStr ''stale''),
      (''predecessorRef'', predecessorRef),
      (''realizationBindings'', JArr (map (freshBindingInput E changed (elems (fld aro ''branches'')))
         (elems (fld aro ''realizationBindings'')))),
      (''createdAt'', createdAt)]"

lemma fld_freshInput:
  "fld (freshInput E changed aro pr ca) ''aroId'' = fld aro ''aroId''"
  "fld (freshInput E changed aro pr ca) ''projectId'' = fld aro ''projectId''"
  "fld (freshInput E changed aro pr ca) ''conceptKey'' = fld aro ''conceptKey''"
  "fld (freshInput E changed aro pr ca) ''posture'' = fld aro ''posture''"
  "fld (freshInput E changed aro pr ca) ''canonical'' = fld aro ''canonical''"
  "fld (freshInput E changed aro pr ca) ''revision'' = js_plus1 E (fld aro ''revision'')"
  "fld (freshInput E changed aro pr ca) ''lifecycle'' = JStr ''stale''"
  "fld (freshInput E changed aro pr ca) ''predecessorRef'' = pr"
  "fld (freshInput E changed aro pr ca) ''realizationBindings'' = JArr (map (freshBindingInput E changed (elems (fld aro ''branches'')))
         (elems (fld aro ''realizationBindings'')))"
  by (simp_all add: fld_spread fld_aroInputFromExisting)

lemma freshness_Inr:
  assumes "reviseAroRealizationFreshness E aro arg = Inr out"
  shows "\<exists>changed. validateAbstractReasoningObject E aro = Inr True \<and> fld aro ''canonical'' = JBool True
    \<and> aroUniqueRefs E (fld (if arg = JUndef then JObj [] else arg) ''changedSourceRefs'') = Inr changed
    \<and> (if \<not> list_ex (\<lambda>binding. changedSource E changed binding \<noteq> None) (elems (fld aro ''realizationBindings''))
       then out = JObj [(''changed'', JBool False), (''aro'', aro)]
       else \<exists>predecessorRef createdAt. fld out ''changed'' = JBool True \<and> abstractReasoningObjectRef aro = Inr predecessorRef
         \<and> buildAbstractReasoningObject E (freshInput E changed aro predecessorRef createdAt) = Inr (fld out ''aro''))"
  using assms unfolding reviseAroRealizationFreshness_def Let_def
  apply (elim run_elims)
  apply (drule validateAbstractReasoningObject_True)
  apply (simp only: getp_Inr_iff not_not)
  apply (elim conjE)
  apply hypsubst_thin
  apply (rule exI, intro conjI, rule refl, rule refl, rule refl)
  apply (auto simp: ebind_Inr_iff split: if_splits)
  done

lemma branch_keys_added:
  assumes "efold (addAroBranch E aroId) inputs (keyed bs, bs) = Inr (m, bs')"
  shows "map (\<lambda>b. fld b ''branchKey'') bs' = map (\<lambda>b. fld b ''branchKey'') bs @ map (\<lambda>input. JStr (js_text
     (js_or (js_or (fld input ''branchKey'') (fld input ''key'')) (fld input ''branchId'')) [])) inputs"
  using assms
proof (induction inputs arbitrary: bs)
  case (Cons input inputs)
  from Cons.prems obtain s where s: "addAroBranch E aroId input (keyed bs, bs) = Inr s"
    and f: "efold (addAroBranch E aroId) inputs s = Inr (m, bs')" by (auto simp: ebind_Inr_iff)
  from addAroBranch_Inr [OF s] obtain b where b: "s = (keyed (bs @ [b]), bs @ [b])" "buildAroBranch E input aroId (keyed bs) = Inr b" by blast
  show ?case using Cons.IH [OF f [unfolded b(1)]] buildAroBranch_Inr [OF b(2)] by simp
qed simp

lemma validateAbstractReasoningObject_branches:
  assumes "validateAbstractReasoningObject E aro = Inr b" "branch \<in> set (elems (fld aro ''branches''))"
  shows "js_text (fld branch ''branchKey'') [] \<noteq> []"
  using assms unfolding validateAbstractReasoningObject_def validateAroBody_def Let_def validateAroBranch_def
  by (auto simp: ebind_Inr_iff eforeach_Inr_iff split: if_splits)

lemma js_text_truthy: "js_text v [] \<noteq> [] \<Longrightarrow> truthy v"
  by (auto simp: js_text_nonempty_iff)

lemma buildAroRealizationBinding_locator:
  assumes "buildAroRealizationBinding E input aroId m = Inr v"
  shows "fld v ''locator'' = JStr (bounded (fld input ''locator'') (raw_string (fld (fld v ''sourceRef'') ''id'')) 1000)"
  using assms unfolding buildAroRealizationBinding_def ebind_defaulted fld_dflt
  apply (elim run_elims)
  apply hypsubst_thin
  apply (simp add: fld_seal)
  done

definition rebound :: "jsenv \<Rightarrow> jval list \<Rightarrow> jval list \<Rightarrow> jval \<Rightarrow> jval \<Rightarrow> bool" where
  \<comment> \<open>a binding of the branches \<open>bs\<close> and its copy among the branches \<open>bs'\<close>: up to the normalisation of
    texts and references, only the coverage, the source and the observed revision may differ\<close>
  "rebound E bs bs' old new \<longleftrightarrow> validateAroRealizationBinding E new = Inr True
     \<and> fld new ''realizationBindingId'' = JStr (js_text (fld old ''realizationBindingId'') [])
     \<and> (\<exists>b\<in>set bs'. branchRef b = Inr (fld new ''branchRef'')
          \<and> fld b ''branchKey'' = JStr (js_text (keyOfBranch bs (fld (fld old ''branchRef'') ''id'')) []))
     \<and> fld new ''realizationKind'' = fld old ''realizationKind''
     \<and> fld new ''locator'' = JStr (bounded (fld old ''locator'') [] 1000)
     \<and> (\<exists>refs. aroUniqueRefs E (fld old ''evidenceRefs'') = Inr refs \<and> fld new ''evidenceRefs'' = JArr refs)"

definition refreshed :: "jsenv \<Rightarrow> jval list \<Rightarrow> jval list \<Rightarrow> jval list \<Rightarrow> jval \<Rightarrow> jval \<Rightarrow> bool" where
  \<comment> \<open>a binding and its successor\<close>
  "refreshed E changed bs bs' old new \<longleftrightarrow> rebound E bs bs' old new
     \<and> (case changedSource E changed old of
          Some source \<Rightarrow> fld new ''coverageState'' = JStr ''stale'' \<and> fld new ''sourceRef'' = source
            \<and> fld new ''observedRevisionRef'' = source
        | None \<Rightarrow> fld new ''coverageState'' = fld old ''coverageState''
            \<and> aroExactRef (fld old ''sourceRef'') ''aroRealization.sourceRef'' = Inr (fld new ''sourceRef'')
            \<and> aroOptionalRef (fld old ''observedRevisionRef'') ''aroRealization.observedRevisionRef'' = Inr (fld new ''observedRevisionRef''))"

lemma freshBindingInput_fields:
  "fld (freshBindingInput E changed bs old) ''realizationBindingId'' = fld old ''realizationBindingId''"
  "fld (freshBindingInput E changed bs old) ''branchKey'' = keyOfBranch bs (fld (fld old ''branchRef'') ''id'')"
  "fld (freshBindingInput E changed bs old) ''realizationKind'' = fld old ''realizationKind''"
  "fld (freshBindingInput E changed bs old) ''locator'' = fld old ''locator''"
  "fld (freshBindingInput E changed bs old) ''evidenceRefs'' = fld old ''evidenceRefs''"
  by (simp_all add: freshBindingInput_def bindingInputFrom_def split: option.split)

lemma fresh_rebound:
  assumes b: "buildAroRealizationBinding E (freshBindingInput E changed bs old) aroId (keyed bs') = Inr new"
    and old: "validateAroRealizationBinding E old = Inr ok"
  shows "rebound E bs bs' old new"
proof -
  have t: "js_text (fld old ''realizationBindingId'') [] \<noteq> []" "js_text (fld old ''locator'') [] \<noteq> []"
    "one_of (fld old ''realizationKind'') ARO_REALIZATION_KINDS"
    using old unfolding validateAroRealizationBinding_def by (auto split: if_splits)
  have k: "JStr (js_text (fld old ''realizationKind'') []) = fld old ''realizationKind''"
    using t(3) by (auto dest!: one_ofE simp: ARO_REALIZATION_KINDS_def trim_id is_space_def)
  have id: "fld new ''realizationBindingId'' = JStr (js_text (fld old ''realizationBindingId'') [])"
    using buildAroRealizationBinding_id [OF b] js_text_fallback [OF t(1)] by (auto simp: freshBindingInput_fields)
  have l: "fld new ''locator'' = JStr (bounded (fld old ''locator'') [] 1000)"
    using buildAroRealizationBinding_locator [OF b] js_text_fallback [OF t(2), of "raw_string (fld (fld new ''sourceRef'') ''id'')"]
    by (simp add: freshBindingInput_fields bounded_def)
  note i = buildAroRealizationBinding_Inr [OF b, unfolded freshBindingInput_fields]
  show ?thesis
    unfolding rebound_def using buildAroRealizationBinding_valid [OF b] id l i k branch_at_keyed by auto
qed

lemma freshBindingInput_refreshed:
  assumes b: "buildAroRealizationBinding E (freshBindingInput E changed bs old) aroId (keyed bs') = Inr new"
    and old: "validateAroRealizationBinding E old = Inr ok" and c: "aroUniqueRefs E v = Inr changed"
  shows "refreshed E changed bs bs' old new"
proof -
  note r = fresh_rebound [OF b old] and i = buildAroRealizationBinding_Inr [OF b]
  note state = coverage_state_text [OF validateAroRealizationBinding_Inr(2) [OF old]]
  show ?thesis
  proof (cases "changedSource E changed old")
    case None
    then show ?thesis using r i state by (simp add: refreshed_def freshBindingInput_def bindingInputFrom_def)
  next
    case (Some source)
    then have "source \<in> set changed"
      by (auto simp: changedSource_def find_Some_iff split: option.splits if_splits)
    then obtain e l where e: "aroExactRef e l = Inr source" using aroUniqueRefs_Inr(2) [OF c] by blast
    have s: "aroExactRef source l' = Inr source" "truthy source" for l'
      using aroExactRef_again [OF e] aroExactRef_truthy [OF e] by auto
    have "js_text (JStr ''stale'') ''absent'' = ''stale''" by (simp add: js_text_JStr trim_id is_space_def)
    with Some show ?thesis
      using r i s aroOptionalRef_fix [OF s(2) s(1)]
      by (simp add: refreshed_def freshBindingInput_def) (elim conjE, erule trans [OF sym], assumption)
  qed
qed

lemma fld_freshInput_branches:
  "fld (freshInput E changed aro pr ca) ''branches'' = JArr (map (branchInputFrom (elems (fld aro ''branches''))) (elems (fld aro ''branches'')))"
  by (simp add: fld_spread fld_aroInputFromExisting)

lemma fresh_bindings:
  assumes b: "buildAbstractReasoningObject E (freshInput E changed aro pr ca) = Inr new"
    and v: "validateAbstractReasoningObject E aro = Inr True" and c: "aroUniqueRefs E arg = Inr changed"
  shows "map (\<lambda>b. fld b ''branchKey'') (elems (fld new ''branches''))
       = map (\<lambda>b. JStr (js_text (fld b ''branchKey'') [])) (elems (fld aro ''branches''))
    \<and> list_all2 (refreshed E changed (elems (fld aro ''branches'')) (elems (fld new ''branches'')))
        (elems (fld aro ''realizationBindings'')) (elems (fld new ''realizationBindings''))"
proof -
  let ?bs = "elems (fld aro ''branches'')"
  obtain aroId m bs' bindings where f: "efold (addAroBranch E aroId) (map (branchInputFrom ?bs) ?bs) ([], []) = Inr (m, bs')"
    and bs': "fld new ''branches'' = JArr bs'" "fld new ''realizationBindings'' = JArr bindings"
    and n: "emap (\<lambda>i. buildAroRealizationBinding E i aroId m)
       (map (freshBindingInput E changed ?bs) (elems (fld aro ''realizationBindings''))) = Inr bindings"
    using buildAbstractReasoningObject_Inr [OF b, unfolded fld_freshInput fld_freshInput_branches elems_simps]
    by (elim exE conjE) (rule that; assumption)
  have m: "m = keyed bs'" using branches_of_built [OF f] by blast
  have k: "map (\<lambda>b. fld b ''branchKey'') bs' = map (\<lambda>b. JStr (js_text (fld b ''branchKey'') [])) ?bs"
  proof -
    have f': "efold (addAroBranch E aroId) (map (branchInputFrom ?bs) ?bs) (keyed [], []) = Inr (m, bs')" using f by (simp add: keyed_def)
    have key: "js_text (js_or (js_or (fld (branchInputFrom ?bs b) ''branchKey'') (fld (branchInputFrom ?bs b) ''key''))
        (fld (branchInputFrom ?bs b) ''branchId'')) [] = js_text (fld b ''branchKey'') []" if "b \<in> set ?bs" for b
      using js_text_truthy [OF validateAbstractReasoningObject_branches [OF v that]]
      by (simp add: branchInputFrom_def js_or_def)
    show ?thesis using branch_keys_added [OF f'] by (simp add: key cong: map_cong)
  qed
  have "list_all2 (refreshed E changed ?bs bs') (elems (fld aro ''realizationBindings'')) bindings"
    using n validateAbstractReasoningObject_bindings [OF v] freshBindingInput_refreshed c unfolding m
    by (simp only: emap_Inr_iff list.rel_map) (rule list.rel_mono_strong, assumption, blast)
  with k show ?thesis by (simp add: bs')
qed

lemma fresh_scalars:
  assumes b: "buildAbstractReasoningObject E (freshInput E changed aro predecessorRef createdAt) = Inr new"
    and v: "validateAbstractReasoningObject E aro = Inr True" "fld aro ''canonical'' = JBool True"
    and r: "abstractReasoningObjectRef aro = Inr predecessorRef"
  shows "fld new ''predecessorRef'' = predecessorRef" "fld new ''lifecycle'' = JStr ''stale''" "fld new ''canonical'' = JBool True"
    "fld new ''revision'' = JNum (to_number E (js_or (js_plus1 E (fld aro ''revision'')) (num 1)))"
    "fld new ''aroId'' = JStr (js_text (fld aro ''aroId'') [])"
proof -
  obtain aroId where i: "aroId = JStr (js_text (fld aro ''aroId'') (stableId E ''wm_abstract_reasoning_object'' (JObj [
           (''projectId'', JStr (js_text (fld aro ''projectId'') [])),
           (''conceptKey'', JStr (js_text (fld aro ''conceptKey'') [])),
           (''posture'', JStr (js_text (fld aro ''posture'') []))])))" "fld new ''aroId'' = aroId"
    and rv: "fld new ''revision'' = JNum (to_number E (js_or (js_plus1 E (fld aro ''revision'')) (num 1)))"
    and l: "fld new ''lifecycle'' = JStr (js_text (JStr ''stale'') (if fld aro ''canonical'' = JBool True then ''active'' else ''candidate''))"
    and p: "aroOptionalRef predecessorRef ''aro.predecessorRef'' = Inr (fld new ''predecessorRef'')"
    and ca: "fld new ''canonical'' = JBool (fld aro ''canonical'' = JBool True)"
    using buildAbstractReasoningObject_Inr [OF b, unfolded fld_freshInput elems_simps]
    by (elim exE conjE) (rule that; assumption)
  have "js_text (JStr ''stale'') fb = ''stale''" for fb by (simp add: js_text_JStr trim_id is_space_def)
  then show "fld new ''lifecycle'' = JStr ''stale''" using l by simp
  show "fld new ''predecessorRef'' = predecessorRef"
    using p abstractReasoningObjectRef_Inr [OF r] aroOptionalRef_fix [of predecessorRef] by auto
  show "fld new ''aroId'' = JStr (js_text (fld aro ''aroId'') [])"
    unfolding i by (rule arg_cong [where f = JStr], rule js_text_fallback [OF validateAbstractReasoningObject_texts(1) [OF v(1)]])
  show "fld new ''canonical'' = JBool True" "fld new ''revision'' = JNum (to_number E (js_or (js_plus1 E (fld aro ''revision'')) (num 1)))"
    using ca rv v(2) by simp_all
qed

text \<open>C21: A freshness revision changes an object exactly when one of its bindings cites a changed
source; it then marks those bindings and the object stale in a linked valid successor with the
same branch keys. Every binding keeps its identifier, branch, kind, locator and evidence, and a
binding that cites no changed source also keeps its coverage, source and observed revision.\<close>

theorem freshness_marks_changed_sources_stale:
  assumes "reviseAroRealizationFreshness E aro arg = Inr out"
  shows "\<exists>changed. fld aro ''canonical'' = JBool True
    \<and> aroUniqueRefs E (fld (if arg = JUndef then JObj [] else arg) ''changedSourceRefs'') = Inr changed
    \<and> (if \<forall>b\<in>set (elems (fld aro ''realizationBindings'')). changedSource E changed b = None
       then out = JObj [(''changed'', JBool False), (''aro'', aro)]
       else fld out ''changed'' = JBool True
         \<and> validateAbstractReasoningObject E (fld out ''aro'') = Inr True
         \<and> abstractReasoningObjectRef aro = Inr (fld (fld out ''aro'') ''predecessorRef'')
         \<and> fld (fld out ''aro'') ''lifecycle'' = JStr ''stale'' \<and> fld (fld out ''aro'') ''canonical'' = JBool True
         \<and> fld (fld out ''aro'') ''revision'' = JNum (to_number E (js_or (js_plus1 E (fld aro ''revision'')) (num 1)))
         \<and> fld (fld out ''aro'') ''aroId'' = JStr (js_text (fld aro ''aroId'') [])
         \<and> map (\<lambda>b. fld b ''branchKey'') (elems (fld (fld out ''aro'') ''branches''))
             = map (\<lambda>b. JStr (js_text (fld b ''branchKey'') [])) (elems (fld aro ''branches''))
         \<and> list_all2 (refreshed E changed (elems (fld aro ''branches'')) (elems (fld (fld out ''aro'') ''branches'')))
             (elems (fld aro ''realizationBindings'')) (elems (fld (fld out ''aro'') ''realizationBindings'')))"
proof -
  let ?bs = "elems (fld aro ''realizationBindings'')"
  obtain changed where v: "validateAbstractReasoningObject E aro = Inr True" "fld aro ''canonical'' = JBool True"
    and c: "aroUniqueRefs E (fld (if arg = JUndef then JObj [] else arg) ''changedSourceRefs'') = Inr changed"
    and out: "if \<not> list_ex (\<lambda>binding. changedSource E changed binding \<noteq> None) ?bs
       then out = JObj [(''changed'', JBool False), (''aro'', aro)]
       else \<exists>predecessorRef createdAt. fld out ''changed'' = JBool True \<and> abstractReasoningObjectRef aro = Inr predecessorRef
         \<and> buildAbstractReasoningObject E (freshInput E changed aro predecessorRef createdAt) = Inr (fld out ''aro'')"
    using freshness_Inr [OF assms] by blast
  show ?thesis
  proof (cases "list_ex (\<lambda>binding. changedSource E changed binding \<noteq> None) ?bs")
    case False
    with v c out show ?thesis by (intro exI [of _ changed]) (simp add: list_ex_iff)
  next
    case True
    with out obtain predecessorRef createdAt where f: "fld out ''changed'' = JBool True"
      and r: "abstractReasoningObjectRef aro = Inr predecessorRef"
      and b: "buildAbstractReasoningObject E (freshInput E changed aro predecessorRef createdAt) = Inr (fld out ''aro'')"
      by auto
    have "\<not> (\<forall>b\<in>set ?bs. changedSource E changed b = None)" using True by (auto simp: list_ex_iff)
    then show ?thesis
      using v c f r fresh_scalars [OF b v r] fresh_bindings [OF b v(1) c] buildAbstractReasoningObject_valid [OF b]
      by (intro exI [of _ changed]) (simp only: if_False simp_thms)
  qed
qed
subsection \<open>What a comparison promises\<close>

definition branch_with :: "jval \<Rightarrow> jval \<Rightarrow> jval option" where
  \<comment> \<open>the last branch with a key\<close>
  "branch_with aro key = find (\<lambda>b. fld b ''branchKey'' = key) (rev (elems (fld aro ''branches'')))"

lemma map_of_pairs: "map_of (map (\<lambda>x. (f x, x)) xs) k = find (\<lambda>x. f x = k) xs"
  by (induction xs) auto

lemma map_of_branchesByKey: "map_of (branchesByKey (elems (fld aro ''branches''))) = branch_with aro"
  by (rule ext) (simp add: branchesByKey_def map_of_assign_all branch_with_def rev_map map_of_pairs)

lemma distinct_branchesByKey: "distinct (map fst (branchesByKey bs))"
  by (simp add: branchesByKey_def distinct_assign_all)

lemma mem_by_key: "distinct (map fst m) \<Longrightarrow> (k, b) \<in> set m \<longleftrightarrow> map_of m k = Some b"
  by (auto dest: map_of_SomeD)

lemma validateAroCurrentTargetComparison_True:
  "validateAroCurrentTargetComparison E v = Inr b \<Longrightarrow> validateAroCurrentTargetComparison E v = Inr True"
  unfolding validateAroCurrentTargetComparison_def
  by (auto simp: ebind_Inr_iff eforeach_Inr_iff split: if_splits)

lemma comparison_Inr:
  assumes "buildAroCurrentTargetComparison E cur tgt = Inr v"
  defines "C \<equiv> branchesByKey (elems (fld cur ''branches''))" and "T \<equiv> branchesByKey (elems (fld tgt ''branches''))"
  defines "K \<equiv> filter (\<lambda>key. map_of C key \<noteq> None) (map fst T)"
  shows "\<exists>onlyC onlyT pairs ref ref'. fld cur ''posture'' = JStr ''current'' \<and> fld tgt ''posture'' = JStr ''target''
    \<and> fld v ''sharedBranchKeys'' = JArr K
    \<and> emap branchRef (onlyIn C T) = Inr onlyC \<and> fld v ''currentOnlyBranchRefs'' = JArr onlyC
    \<and> emap branchRef (onlyIn T C) = Inr onlyT \<and> fld v ''targetOnlyBranchRefs'' = JArr onlyT
    \<and> emap (conflictPair C T) K = Inr pairs \<and> fld v ''conflictPairs'' = JArr (List.map_filter id pairs)
    \<and> abstractReasoningObjectRef cur = Inr ref \<and> fld v ''currentAroRef'' = ref
    \<and> abstractReasoningObjectRef tgt = Inr ref' \<and> fld v ''targetAroRef'' = ref'
    \<and> fld v ''candidateImplementationObligation'' = JBool False \<and> fld v ''codeMutationAuthorized'' = JBool False
    \<and> validateAroCurrentTargetComparison E v = Inr True"
  using assms(1) unfolding buildAroCurrentTargetComparison_def Let_def C_def [symmetric] T_def [symmetric] K_def [symmetric]
  apply (elim run_elims)
  apply (drule validateAroCurrentTargetComparison_True)
  apply (simp only: de_Morgan_disj not_not)
  apply (elim conjE)
  apply hypsubst_thin
  apply (simp (no_asm) add: fld_seal split del: if_split)
  done

lemma only_refs:
  assumes "emap branchRef (onlyIn C T) = Inr rs" "distinct (map fst C)"
  shows "r \<in> set rs \<longleftrightarrow> (\<exists>k b. map_of C k = Some b \<and> map_of T k = None \<and> branchRef b = Inr r)"
proof -
  have "r \<in> set rs \<longleftrightarrow> (\<exists>b\<in>set (onlyIn C T). branchRef b = Inr r)"
    by (rule emap_mem [OF assms(1)])
  also have "\<dots> \<longleftrightarrow> (\<exists>k b. (k, b) \<in> set C \<and> map_of T k = None \<and> branchRef b = Inr r)"
    by (force simp: onlyIn_def)
  finally show ?thesis unfolding mem_by_key [OF assms(2)] .
qed

definition conflict_record :: "jval \<Rightarrow> jval \<Rightarrow> jval \<Rightarrow> jval \<Rightarrow> bool" where
  \<comment> \<open>the record of a conflict between two branches with the same key\<close>
  "conflict_record key current target p \<longleftrightarrow> fld p ''branchKey'' = key
     \<and> branchRef current = Inr (fld p ''currentBranchRef'') \<and> branchRef target = Inr (fld p ''targetBranchRef'')
     \<and> fld p ''distinctions'' = strings (distinctions current target) \<and> fld p ''grantsAuthority'' = JBool False"

lemma conflictPair_Inr:
  assumes "conflictPair C T k = Inr r"
  shows "case r of None \<Rightarrow> distinctions (the (map_of C k)) (the (map_of T k)) = []
    | Some p \<Rightarrow> distinctions (the (map_of C k)) (the (map_of T k)) \<noteq> []
        \<and> conflict_record k (the (map_of C k)) (the (map_of T k)) p"
  using assms by (auto simp: conflictPair_def Let_def conflict_record_def ebind_Inr_iff split: if_splits)

text \<open>C36: The current/target comparison lists exactly the branch keys both objects share, the branches
only one of them has, and one conflict for every shared branch whose distinctions differ.\<close>

theorem comparison_is_exact:
  assumes "buildAroCurrentTargetComparison E cur tgt = Inr v"
  shows "fld cur ''posture'' = JStr ''current'' \<and> fld tgt ''posture'' = JStr ''target''
    \<and> set (elems (fld v ''sharedBranchKeys'')) = dom (branch_with cur) \<inter> dom (branch_with tgt)
    \<and> set (elems (fld v ''currentOnlyBranchRefs''))
        = {r. \<exists>k b. branch_with cur k = Some b \<and> branch_with tgt k = None \<and> branchRef b = Inr r}
    \<and> set (elems (fld v ''targetOnlyBranchRefs''))
        = {r. \<exists>k b. branch_with tgt k = Some b \<and> branch_with cur k = None \<and> branchRef b = Inr r}
    \<and> set (map (\<lambda>p. fld p ''branchKey'') (elems (fld v ''conflictPairs'')))
        = {k. \<exists>c t. branch_with cur k = Some c \<and> branch_with tgt k = Some t \<and> distinctions c t \<noteq> []}
    \<and> (\<forall>p\<in>set (elems (fld v ''conflictPairs'')). \<exists>k c t. branch_with cur k = Some c \<and> branch_with tgt k = Some t
        \<and> conflict_record k c t p)
    \<and> fld v ''codeMutationAuthorized'' = JBool False \<and> validateAroCurrentTargetComparison E v = Inr True"
proof -
  let ?C = "branchesByKey (elems (fld cur ''branches''))" and ?T = "branchesByKey (elems (fld tgt ''branches''))"
  let ?K = "filter (\<lambda>key. map_of ?C key \<noteq> None) (map fst ?T)"
  note by_key = map_of_branchesByKey distinct_branchesByKey
  obtain onlyC onlyT pairs ref ref' where post: "fld cur ''posture'' = JStr ''current''" "fld tgt ''posture'' = JStr ''target''"
    and K: "fld v ''sharedBranchKeys'' = JArr ?K"
    and C: "emap branchRef (onlyIn ?C ?T) = Inr onlyC" "fld v ''currentOnlyBranchRefs'' = JArr onlyC"
    and T: "emap branchRef (onlyIn ?T ?C) = Inr onlyT" "fld v ''targetOnlyBranchRefs'' = JArr onlyT"
    and P: "emap (conflictPair ?C ?T) ?K = Inr pairs" "fld v ''conflictPairs'' = JArr (List.map_filter id pairs)"
    and R: "abstractReasoningObjectRef cur = Inr ref" "fld v ''currentAroRef'' = ref"
       "abstractReasoningObjectRef tgt = Inr ref'" "fld v ''targetAroRef'' = ref'"
    and a: "fld v ''candidateImplementationObligation'' = JBool False" "fld v ''codeMutationAuthorized'' = JBool False"
    and V: "validateAroCurrentTargetComparison E v = Inr True"
    using comparison_Inr [OF assms] by (elim exE conjE) (rule that; assumption)
  have keys: "set ?K = dom (branch_with cur) \<inter> dom (branch_with tgt)"
    by (simp only: by_key(1) [symmetric] set_filter set_map dom_map_of_conv_image_fst) (auto simp: dom_map_of_conv_image_fst map_of_eq_None_iff)
  have mem: "p \<in> set (List.map_filter id pairs) \<longleftrightarrow> (\<exists>k\<in>set ?K. conflictPair ?C ?T k = Inr (Some p))" for p
    by (simp only: emap_mem [OF P(1), symmetric]) (force simp: List.map_filter_def)
  show ?thesis
    unfolding K C(2) T(2) P(2) elems_simps keys set_map
  proof (intro conjI)
    have found: "\<exists>c t. branch_with cur k = Some c \<and> branch_with tgt k = Some t" if "k \<in> set ?K" for k
      using that unfolding keys by blast
    have rec: "\<exists>k c t. branch_with cur k = Some c \<and> branch_with tgt k = Some t
        \<and> distinctions c t \<noteq> [] \<and> conflict_record k c t p" if p: "p \<in> set (List.map_filter id pairs)" for p
    proof -
      from p obtain k where k: "k \<in> set ?K" "conflictPair ?C ?T k = Inr (Some p)" unfolding mem by blast
      obtain c t where ct: "branch_with cur k = Some c" "branch_with tgt k = Some t" using found [OF k(1)] by blast
      with conflictPair_Inr [OF k(2)] have "distinctions c t \<noteq> [] \<and> conflict_record k c t p" by (simp add: by_key(1))
      with ct show ?thesis by blast
    qed
    then show "\<forall>p\<in>set (List.map_filter id pairs). \<exists>k c t. branch_with cur k = Some c \<and> branch_with tgt k = Some t
        \<and> conflict_record k c t p" by blast
    show "(\<lambda>p. fld p ''branchKey'') ` set (List.map_filter id pairs)
      = {k. \<exists>c t. branch_with cur k = Some c \<and> branch_with tgt k = Some t \<and> distinctions c t \<noteq> []}" (is "?L = ?R")
    proof
      show "?L \<subseteq> ?R" using rec unfolding conflict_record_def by blast
      show "?R \<subseteq> ?L"
      proof
        fix k assume "k \<in> ?R"
        then obtain c t where ct: "branch_with cur k = Some c" "branch_with tgt k = Some t" "distinctions c t \<noteq> []" by blast
        then have k: "k \<in> set ?K" unfolding keys by blast
        with emap_member [OF P(1)] obtain r where r: "conflictPair ?C ?T k = Inr r" by blast
        then obtain p where p: "r = Some p" "conflict_record k c t p"
          using conflictPair_Inr [OF r] ct by (auto simp: by_key(1) split: option.splits)
        then have "p \<in> set (List.map_filter id pairs)" using mem k r by blast
        with p show "k \<in> ?L" unfolding conflict_record_def by force
      qed
    qed
  qed (rule refl post a V set_eqI | simp only: only_refs [OF C(1) by_key(2)] only_refs [OF T(1) by_key(2)] by_key(1)
    mem_Collect_eq)+
qed

end
