(* ===== verification/SearchDepth.thy ===== *)
theory SearchDepth
  imports Requirements
begin

section \<open>How deep the search for cycles goes\<close>

text \<open>
  \<open>visit\<close> of \<open>assertAcyclicRequirements\<close> once more, now with the depth of its recursion as an
  argument: \<open>None\<close> stands for a call that goes deeper. One frame more than there are requirements
  is always enough, so the search returns and does so on a stack of that size.
\<close>

fun visitWithin :: "nat \<Rightarrow> jsenv \<Rightarrow> (jval \<times> jval) list \<Rightarrow> jval list \<Rightarrow> jval list \<Rightarrow> jval \<Rightarrow> jval list res option" and
  visitAllWithin :: "nat \<Rightarrow> jsenv \<Rightarrow> (jval \<times> jval) list \<Rightarrow> jval list \<Rightarrow> jval list \<Rightarrow> jval list \<Rightarrow> jval list res option"
where
  "visitWithin 0 E byId path visited requirementId = None"
| "visitWithin (Suc n) E byId path visited requirementId =
     (if requirementId \<in> set path
      then Some (fail cycle_code (join_vals E ''->'' (path @ [requirementId])))
      else if requirementId \<in> set visited then Some (Inr visited)
      else case map_of byId requirementId of
        None \<Rightarrow> Some (Inl TypeError)
      | Some requirement \<Rightarrow>
          (case iter_elems (fld requirement ''dependencyRequirementIds'') of
            Inl e \<Rightarrow> Some (Inl e)
          | Inr deps \<Rightarrow> map_option (\<lambda>r. ebind r (\<lambda>visited'. Inr (requirementId # visited')))
              (visitAllWithin n E byId (path @ [requirementId]) visited deps)))"
| "visitAllWithin n E byId path visited [] = Some (Inr visited)"
| "visitAllWithin n E byId path visited (d # ds) =
     (case visitWithin n E byId path visited d of
        None \<Rightarrow> None
      | Some (Inl e) \<Rightarrow> Some (Inl e)
      | Some (Inr visited') \<Rightarrow> visitAllWithin n E byId path visited' ds)"

declare visitWithin.simps(2) [simp del]

lemma visit_within:
  "card (fst ` set byId - set path) < n \<Longrightarrow> visitWithin n E byId path visited r = Some (visit E byId path visited r)"
  "card (fst ` set byId - set path) < n \<Longrightarrow> visitAllWithin n E byId path visited ds = Some (visit_all E byId path visited ds)"
proof (induction n E byId path visited r and n E byId path visited ds rule: visitWithin_visitAllWithin.induct)
  case (2 n E byId path visited r)
  show ?case
  proof (cases "r \<in> set path \<or> r \<in> set visited \<or> map_of byId r = None")
    case True
    then show ?thesis by (auto simp: visitWithin.simps(2) visit.simps)
  next
    case False
    then obtain req where req: "map_of byId r = Some req" by blast
    then have "r \<in> fst ` set byId - set path" using False by (force dest: map_of_SomeD)
    then have "fst ` set byId - set (path @ [r]) \<subset> fst ` set byId - set path" by auto
    then have "card (fst ` set byId - set (path @ [r])) < card (fst ` set byId - set path)" by (simp add: psubset_card_mono)
    then have n: "card (fst ` set byId - set (path @ [r])) < n" using 2(2) by linarith
    show ?thesis
    proof (cases "iter_elems (fld req ''dependencyRequirementIds'')")
      case (Inr deps)
      with 2(1) [OF _ _ req Inr n] False req show ?thesis by (simp add: visitWithin.simps(2) visit.simps)
    qed (use False req in \<open>simp add: visitWithin.simps(2) visit.simps\<close>)
  qed
next
  case (4 n E byId path visited d ds)
  then show ?case by (cases "visit E byId path visited d") auto
qed auto

definition assertAcyclicWithin :: "nat \<Rightarrow> jsenv \<Rightarrow> jval list \<Rightarrow> bool res option" where
  "assertAcyclicWithin n E requirements =
     (case assertUniqueRequirementIds E requirements of
        Inl e \<Rightarrow> Some (Inl e)
      | Inr _ \<Rightarrow>
          let byId = map (\<lambda>r. (fld r ''requirementId'', r)) requirements in
          (case eforeach (checkDependencies E byId) requirements of
             Inl e \<Rightarrow> Some (Inl e)
           | Inr _ \<Rightarrow> map_option (\<lambda>r. ebind r (\<lambda>_. Inr True)) (visitAllWithin n E byId [] [] (map fst byId))))"

text \<open>C7: The search for cycles returns for every list of requirements, on a call stack no deeper than
the number of requirements plus one: the search limited to that depth gives the same result.\<close>

theorem search_depth_is_bounded:
  "assertAcyclicWithin (Suc (length requirements)) E requirements = Some (assertAcyclicRequirements E requirements)"
proof -
  let ?byId = "map (\<lambda>r. (fld r ''requirementId'', r)) requirements"
  have "card (set (map (\<lambda>r. fld r ''requirementId'') requirements)) \<le> length requirements" using card_length by (metis length_map)
  then have "card (fst ` set ?byId - set []) < Suc (length requirements)" by (simp add: image_image)
  from visit_within(2) [OF this] show ?thesis
    by (simp add: assertAcyclicWithin_def assertAcyclicRequirements_def Let_def split: sum.split)
qed

end
