(* ===== verification/LedgerRefs.thy ===== *)
theory LedgerRefs
  imports Requirements
begin

section \<open>Epistemic ledger: vocabularies, references, streams and scopes\<close>

text \<open>
  The head of \<^verbatim>\<open>src/main/direct/worldmanager/epistemic-ledger-kernel.js\<close>: the closed vocabularies,
  bounded text, exact references, stream references, semantic scopes and revision vectors that
  every record of the ledger is made of. Digests are those of \<open>control-plane.js\<close>, the same
  functions as in \<open>Canonical\<close>. Names that the artifact kernel uses with another meaning carry
  the prefix \<open>ledger\<close>. The \<open>now\<close> option of a builder is a number or absent: where the code
  passes a function, the model passes the value that it returns.
\<close>

definition LEDGER_ACT_TYPE_CONSTITUTION_SCHEMA :: string where
  "LEDGER_ACT_TYPE_CONSTITUTION_SCHEMA = ''direct_ledger_act_type_constitution@1''"

definition LEDGER_STREAM_REF_SCHEMA :: string where
  "LEDGER_STREAM_REF_SCHEMA = ''direct_ledger_stream_ref@1''"

definition EPISTEMIC_LEDGER_EVENT_SCHEMA :: string where
  "EPISTEMIC_LEDGER_EVENT_SCHEMA = ''direct_epistemic_ledger_event@1''"

definition LEDGER_WRITE_RECEIPT_SCHEMA :: string where
  "LEDGER_WRITE_RECEIPT_SCHEMA = ''direct_ledger_write_receipt@1''"

definition MATERIALIZED_EPISTEMIC_PROJECTION_SCHEMA :: string where
  "MATERIALIZED_EPISTEMIC_PROJECTION_SCHEMA = ''direct_materialized_epistemic_projection@1''"

definition LEDGER_DELIVERY_OUTBOX_SEED_SCHEMA :: string where
  "LEDGER_DELIVERY_OUTBOX_SEED_SCHEMA = ''direct_ledger_delivery_outbox_seed@1''"

definition LEDGER_GENESIS_DIGEST :: "jsenv \<Rightarrow> string" where
  "LEDGER_GENESIS_DIGEST E = digestFor E ''direct_epistemic_ledger_genesis@1''
     (JObj [(''semanticIdentity'', JStr ''direct_world_manager_epistemic_ledger'')]) []"

definition ACT_CLASSES :: "string list" where
  "ACT_CLASSES = [''observation'', ''proposal'', ''challenge'', ''assessment'', ''request'',
     ''authorization'', ''admission'', ''retraction'', ''mechanical_witness'']"

definition AUTHORSHIP_KINDS :: "string list" where
  "AUTHORSHIP_KINDS = [''semantic_role'', ''harness_mechanical'', ''operator'']"

definition EPISTEMIC_POSTURES :: "string list" where
  "EPISTEMIC_POSTURES = [''observed'', ''candidate'', ''challenged'', ''supported'', ''contradicted'',
     ''remanded'', ''admitted'', ''superseded'', ''stale'']"

definition AUTHORITY_POSTURES :: "string list" where
  "AUTHORITY_POSTURES = [''descriptive'', ''proposal_only'', ''scoped_authority_act'',
     ''canonical_admission_receipt'']"

definition STREAM_TYPES :: "string list" where
  "STREAM_TYPES = [''world'', ''project'', ''workthread'', ''artifact'', ''agent_run'']"

definition SCOPE_KINDS :: "string list" where
  "SCOPE_KINDS = [''user_world'', ''project'', ''task'', ''workthread'', ''artifact'']"

definition LEDGER_RIGHTS :: "string list" where
  "LEDGER_RIGHTS = [''observe'', ''propose'', ''challenge'', ''assess'', ''admit'', ''authorize'',
     ''execute'', ''subscribe'', ''acknowledge'']"

definition DELIVERY_POLICIES :: "string list" where
  "DELIVERY_POLICIES = [''immediate_delta'', ''safe_boundary'', ''coalesced_digest'']"

subsection \<open>Text, time, JSON\<close>

definition ledgerBounded :: "jval \<Rightarrow> string \<Rightarrow> nat \<Rightarrow> string" where
  "ledgerBounded v fallback mx = take mx (js_text v fallback)"

definition isoAt :: "jsenv \<Rightarrow> rat \<Rightarrow> string res" where
  \<comment> \<open>\<open>new Date(ms).toISOString()\<close>\<close>
  "isoAt E ms = (if \<bar>ms\<bar> \<le> 8640000000000000 then Inr (iso_text E ms) else Inl RangeError)"

definition ledgerNowIso :: "jsenv \<Rightarrow> jval \<Rightarrow> string res" where
  "ledgerNowIso E now =
     (let value = (if now = JUndef then JNum (Fin (date_now E 0)) else now) in
      case to_number E value of
        Fin ms \<Rightarrow> if \<bar>ms\<bar> \<le> 8640000000000000 then Inr (iso_text E ms)
                  else fail ''epistemic_ledger_timestamp_invalid'' []
      | _ \<Rightarrow> fail ''epistemic_ledger_timestamp_invalid'' [])"

fun cloneJson :: "jval \<Rightarrow> jval" where
  \<comment> \<open>\<open>JSON.parse(JSON.stringify(v))\<close>: own properties in enumeration order, undefined ones dropped,
     undefined entries of arrays and non-finite numbers turned into null\<close>
  "cloneJson (JNum n) = (case n of Fin r \<Rightarrow> JNum (Fin r) | _ \<Rightarrow> JNull)"
| "cloneJson (JArr vs) = JArr (map (\<lambda>v. if v = JUndef then JNull else cloneJson v) vs)"
| "cloneJson (JObj fs) = JObj (own_entries (map (\<lambda>(k, v). (k, cloneJson v)) (filter (\<lambda>(k, v). v \<noteq> JUndef) fs)))"
| "cloneJson v = v"

definition requirePlainObject :: "jval \<Rightarrow> string \<Rightarrow> jval res" where
  "requirePlainObject v label =
     (if isPlainObject v then Inr v else fail ''epistemic_ledger_plain_object_required'' label)"

definition stableIdN :: "jsenv \<Rightarrow> string \<Rightarrow> jval \<Rightarrow> nat \<Rightarrow> string" where
  \<comment> \<open>\<open>stableId(prefix, value, length)\<close> of \<open>control-plane.js\<close>\<close>
  "stableIdN E prefix v n = prefix @ ''_'' @ take n (drop 7 (digestFor E (prefix @ ''@1'') v []))"

subsection \<open>Exact references\<close>

definition ledgerExactRef :: "jsenv \<Rightarrow> jval \<Rightarrow> string \<Rightarrow> jval res" where
  "ledgerExactRef E v label =
     (if \<not> isPlainObject v then fail ''epistemic_ledger_exact_ref_invalid'' label
      else let kind = js_text (fld v ''kind'') [];
               id = js_text (fld v ''id'') [];
               digest = js_text (fld v ''digest'') [] in
      if kind = [] \<or> id = [] \<or> digest = []
      then fail ''epistemic_ledger_exact_ref_invalid'' label
      else let refLabel = ledgerBounded (fld v ''label'') [] 240;
               projectId = js_text (fld v ''projectId'') [];
               revision = JNum (to_number E (fld v ''revision'')) in
      Inr (JObj ([(''kind'', JStr kind), (''id'', JStr id), (''digest'', JStr digest)]
        @ (if refLabel \<noteq> [] then [(''label'', JStr refLabel)] else [])
        @ (if projectId \<noteq> [] then [(''projectId'', JStr projectId)] else [])
        @ (if isInteger revision \<and> num_less (Fin 0) (to_number E revision)
           then [(''revision'', revision)] else []))))"

definition ledgerOptionalRef :: "jsenv \<Rightarrow> jval \<Rightarrow> string \<Rightarrow> jval res" where
  \<comment> \<open>\<open>v ? exactRef(v, label) : null\<close>\<close>
  "ledgerOptionalRef E v label = (if truthy v then ledgerExactRef E v label else Inr JNull)"

definition refIdentityKey :: "jval \<Rightarrow> string" where
  \<comment> \<open>the key of a normalised reference without its digest\<close>
  "refIdentityKey ref = raw_string (fld ref ''kind'') @ '':'' @ raw_string (fld ref ''id'')"

definition refDigestKey :: "jval \<Rightarrow> string" where
  "refDigestKey ref = refIdentityKey ref @ '':'' @ raw_string (fld ref ''digest'')"

definition ledgerExactRefKey :: "jsenv \<Rightarrow> jval \<Rightarrow> bool \<Rightarrow> string res" where
  \<comment> \<open>\<open>exactRefKey(value, {includeDigest})\<close>\<close>
  "ledgerExactRefKey E v includeDigest = ebind (ledgerExactRef E v ''ref'') (\<lambda>ref.
     Inr (if includeDigest then refDigestKey ref else refIdentityKey ref))"

definition ledgerUniqueRefs :: "jsenv \<Rightarrow> jval \<Rightarrow> string \<Rightarrow> jval list res" where
  \<comment> \<open>a value is kept when the key of its normalised reference was not seen before\<close>
  "ledgerUniqueRefs E v label =
     (if v \<noteq> JUndef \<and> \<not> isArray v then fail ''epistemic_ledger_ref_list_invalid'' label
      else ebind (emapi (\<lambda>index entry. ledgerExactRef E entry (label @ ''.'' @ nat_text index)) 0 (take 128 (elems v)))
        (\<lambda>refs. Inr (dedup refDigestKey refs)))"

definition orEmpty :: "jval \<Rightarrow> jval" where
  \<comment> \<open>\<open>v || []\<close>\<close>
  "orEmpty v = js_or v (JArr [])"

subsection \<open>Streams\<close>

definition splitStreamKey :: "string \<Rightarrow> jval" where
  \<comment> \<open>the object a string \<open>"type:id"\<close> stands for\<close>
  "splitStreamKey s = (let separator = length (takeWhile (\<lambda>c. c \<noteq> CHR '':'') s) in
     if separator < length s \<and> 0 < separator
     then JObj [(''streamType'', JStr (take separator s)), (''streamId'', JStr (drop (Suc separator) s))]
     else JObj [])"

definition buildLedgerStreamRef :: "jval \<Rightarrow> string \<Rightarrow> jval res" where
  "buildLedgerStreamRef arg label =
     ebind (defaulted arg) (\<lambda>v0.
     let v = (case v0 of JStr s \<Rightarrow> splitStreamKey s | _ \<Rightarrow> v0);
         streamType = js_text (js_or (fld v ''streamType'') (fld v ''kind'')) [];
         streamId = js_text (js_or (fld v ''streamId'') (fld v ''id'')) [] in
     if streamType \<notin> set STREAM_TYPES \<or> streamId = []
     then fail ''epistemic_ledger_stream_ref_invalid'' label
     else Inr (JObj [(''schema'', JStr LEDGER_STREAM_REF_SCHEMA), (''streamType'', JStr streamType),
       (''streamId'', JStr streamId), (''streamKey'', JStr (streamType @ '':'' @ streamId))]))"

definition validateLedgerStreamRef :: "jval \<Rightarrow> string \<Rightarrow> bool res" where
  "validateLedgerStreamRef v label = ebind (buildLedgerStreamRef v label) (\<lambda>expected.
     if fld v ''schema'' \<noteq> JStr LEDGER_STREAM_REF_SCHEMA \<or> fld v ''streamKey'' \<noteq> fld expected ''streamKey''
     then fail ''epistemic_ledger_stream_ref_invalid'' label else Inr True)"

definition uniqueStreamRefs :: "jval \<Rightarrow> jval list res" where
  "uniqueStreamRefs v =
     (if elems v = [] then fail ''epistemic_ledger_stream_refs_required'' []
      else ebind (emapi (\<lambda>index entry. buildLedgerStreamRef entry (''streamRefs.'' @ nat_text index)) 0 (take 64 (elems v)))
        (\<lambda>refs. Inr (dedup (\<lambda>ref. fld ref ''streamKey'') refs)))"

subsection \<open>Scopes and revision vectors\<close>

definition normalizeSemanticScope :: "jval \<Rightarrow> jval res" where
  "normalizeSemanticScope arg =
     (let v = dflt arg in
     ebind (requirePlainObject v ''subjectScope'') (\<lambda>_.
     let kind = js_text (fld v ''kind'') (if js_text (fld v ''projectId'') [] \<noteq> [] then ''project'' else ''user_world'');
         projectId = js_text (fld v ''projectId'') [];
         taskType = js_text (fld v ''taskType'') [];
         taskId = js_text (fld v ''taskId'') [];
         workThreadId = js_text (fld v ''workThreadId'') [];
         artifactLifecycleId = js_text (fld v ''artifactLifecycleId'') [] in
     if kind \<notin> set SCOPE_KINDS then fail ''epistemic_ledger_scope_invalid'' kind
     else if kind = ''project'' \<and> projectId = [] then fail ''epistemic_ledger_scope_invalid'' ''projectId''
     else if kind = ''task'' \<and> taskId = [] \<and> taskType = [] then fail ''epistemic_ledger_scope_invalid'' ''task identity''
     else if kind = ''workthread'' \<and> workThreadId = [] then fail ''epistemic_ledger_scope_invalid'' ''workThreadId''
     else if kind = ''artifact'' \<and> artifactLifecycleId = [] then fail ''epistemic_ledger_scope_invalid'' ''artifactLifecycleId''
     else Inr (JObj [(''kind'', JStr kind),
       (''userWorldId'', JStr (js_text (fld v ''userWorldId'') ''user_world_local'')),
       (''projectId'', JStr projectId), (''taskType'', JStr taskType), (''taskId'', JStr taskId),
       (''workThreadId'', JStr workThreadId), (''artifactLifecycleId'', JStr artifactLifecycleId)])))"

fun revisionEntries :: "jsenv \<Rightarrow> nat \<Rightarrow> string list \<Rightarrow> jval list \<Rightarrow> jval list res" where
  \<comment> \<open>the callback of \<open>map\<close> from an index on, with the keys already \<open>seen\<close>\<close>
  "revisionEntries E index seen [] = Inr []"
| "revisionEntries E index seen (entry # entries) =
     (if \<not> isPlainObject entry then fail ''epistemic_ledger_revision_ref_invalid'' (nat_text index)
      else ebind (ledgerExactRef E
          (js_or (js_or (fld entry ''scopeRef'') (fld entry ''objectRef'')) (fld entry ''ref''))
          (''expectedRevisionVector.'' @ nat_text index @ ''.scopeRef'')) (\<lambda>scopeRef.
      let revision = JNum (to_number E (fld entry ''revision'')); key = refIdentityKey scopeRef in
      if \<not> isInteger revision \<or> js_less E revision 0
      then fail ''epistemic_ledger_revision_ref_invalid'' (''expectedRevisionVector.'' @ nat_text index @ ''.revision'')
      else if key \<in> set seen then fail ''epistemic_ledger_revision_ref_duplicate'' key
      else ebind (revisionEntries E (Suc index) (key # seen) entries) (\<lambda>rest.
        Inr (JObj [(''scopeRef'', scopeRef), (''revision'', revision)] # rest))))"

definition normalizeRevisionVector :: "jsenv \<Rightarrow> jval \<Rightarrow> jval list res" where
  "normalizeRevisionVector E v =
     (if v \<noteq> JUndef \<and> \<not> isArray v then fail ''epistemic_ledger_revision_vector_invalid'' []
      else revisionEntries E 0 [] (take 128 (elems v)))"

end
