(* ===== verification/LedgerActs.thy ===== *)
theory LedgerActs
  imports LedgerRefs
begin

section \<open>Epistemic ledger: act type constitutions\<close>

text \<open>
  \<open>buildLedgerActTypeConstitution\<close>, its validator and its reference. A constitution fixes which
  class of act an event of its type performs, who may author it and with which postures.
\<close>

definition vocabulary :: "jval \<Rightarrow> string list \<Rightarrow> string list \<Rightarrow> string list" where
  \<comment> \<open>\<open>Array.from(new Set((Array.isArray(v) ? v : fallback).map(text).filter(in terms)))\<close>\<close>
  "vocabulary v fallback terms = dedup id (filter (\<lambda>s. s \<in> set terms)
     (if isArray v then map (\<lambda>e. js_text e []) (elems v) else fallback))"

definition sealWith :: "jsenv \<Rightarrow> string \<Rightarrow> string \<Rightarrow> jval \<Rightarrow> jval" where
  \<comment> \<open>\<open>v[field] = digestFor(schema, v, [field])\<close>\<close>
  "sealWith E schema field v = set_fld field (JStr (digestFor E schema v [field])) v"

definition ledgerStamp :: "jsenv \<Rightarrow> jval \<Rightarrow> jval \<Rightarrow> string res" where
  \<comment> \<open>\<open>text(createdAt, nowIso(now))\<close>: the default is computed first and may throw\<close>
  "ledgerStamp E createdAt now = ebind (ledgerNowIso E now) (\<lambda>iso. Inr (js_text createdAt iso))"

definition validateLedgerActTypeConstitution :: "jsenv \<Rightarrow> jval \<Rightarrow> bool res" where
  "validateLedgerActTypeConstitution E v =
     (if \<not> isPlainObject v
       \<or> fld v ''schema'' \<noteq> JStr LEDGER_ACT_TYPE_CONSTITUTION_SCHEMA
       \<or> js_text (fld v ''actTypeId'') [] = []
       \<or> \<not> isInteger (JNum (to_number E (fld v ''revision'')))
       \<or> js_less E (fld v ''revision'') 1
       \<or> js_text (fld v ''operationName'') [] = []
       \<or> \<not> one_of (fld v ''actClass'') ACT_CLASSES
       \<or> \<not> isArray (fld v ''authorshipKinds'')
       \<or> elems (fld v ''authorshipKinds'') = []
       \<or> list_ex (\<lambda>e. \<not> one_of e AUTHORSHIP_KINDS) (elems (fld v ''authorshipKinds''))
       \<or> \<not> isArray (fld v ''allowedRights'')
       \<or> list_ex (\<lambda>e. \<not> one_of e LEDGER_RIGHTS) (elems (fld v ''allowedRights''))
       \<or> \<not> isArray (fld v ''allowedRoleLanes'')
       \<or> \<not> one_of (fld v ''defaultEpistemicPosture'') EPISTEMIC_POSTURES
       \<or> \<not> one_of (fld v ''defaultAuthorityPosture'') AUTHORITY_POSTURES
       \<or> (fld v ''canonicalAdmissionCapable'' \<noteq> JBool True \<and> fld v ''canonicalAdmissionCapable'' \<noteq> JBool False)
       \<or> fld v ''rawChainOfThoughtIncluded'' \<noteq> JBool False
       \<or> fld v ''rawSecretIncluded'' \<noteq> JBool False
       \<or> js_text (fld v ''createdAt'') [] = []
       \<or> fld v ''digest'' \<noteq> JStr (digestFor E LEDGER_ACT_TYPE_CONSTITUTION_SCHEMA v [''digest''])
      then fail ''ledger_act_type_constitution_invalid'' []
      else if truthy (fld v ''admittedByRef'')
      then ebind (ledgerExactRef E (fld v ''admittedByRef'') ''ref'') (\<lambda>_. Inr True)
      else Inr True)"

definition buildLedgerActTypeConstitution :: "jsenv \<Rightarrow> jval \<Rightarrow> jval \<Rightarrow> jval res" where
  "buildLedgerActTypeConstitution E arg opts =
     ebind (defaulted arg) (\<lambda>input.
     let actTypeId = js_text (fld input ''actTypeId'') [];
         revision = JNum (to_number E (js_or (fld input ''revision'') (num 1)));
         operationName = js_text (fld input ''operationName'') [];
         actClass = js_text (fld input ''actClass'') [] in
     if actTypeId = [] \<or> \<not> isInteger revision \<or> js_less E revision 1 \<or> operationName = []
       \<or> actClass \<notin> set ACT_CLASSES
     then fail ''ledger_act_type_constitution_invalid'' []
     else
     let authorshipKinds = vocabulary (fld input ''authorshipKinds'') [''semantic_role''] AUTHORSHIP_KINDS;
         allowedRights = vocabulary (fld input ''allowedRights'') [] LEDGER_RIGHTS in
     if authorshipKinds = []
     then fail ''ledger_act_type_constitution_invalid'' ''authorshipKinds''
     else
     let allowedRoleLanes = take 64 (dedup id (filter (\<lambda>s. s \<noteq> [])
           (map (\<lambda>e. js_text e []) (elems (fld input ''allowedRoleLanes'')))));
         epistemic = js_text (fld input ''defaultEpistemicPosture'')
           (if actClass = ''proposal'' then ''candidate'' else ''observed'');
         authority = js_text (fld input ''defaultAuthorityPosture'')
           (if actClass = ''proposal'' then ''proposal_only'' else ''descriptive'') in
     ebind (ledgerOptionalRef E (fld input ''admittedByRef'') ''admittedByRef'') (\<lambda>admittedByRef.
     ebind (defaulted opts) (\<lambda>options.
     ebind (ledgerStamp E (fld input ''createdAt'') (fld options ''now'')) (\<lambda>createdAt.
     let constitution = JObj [
       (''schema'', JStr LEDGER_ACT_TYPE_CONSTITUTION_SCHEMA),
       (''actTypeId'', JStr actTypeId),
       (''revision'', revision),
       (''operationName'', JStr operationName),
       (''actClass'', JStr actClass),
       (''authorshipKinds'', strings authorshipKinds),
       (''allowedRights'', strings allowedRights),
       (''allowedRoleLanes'', strings allowedRoleLanes),
       (''typedPayloadSchema'', JStr (js_text (fld input ''typedPayloadSchema'') [])),
       (''defaultEpistemicPosture'', JStr epistemic),
       (''defaultAuthorityPosture'', JStr authority),
       (''rendererSafeLabel'', JStr (ledgerBounded (fld input ''rendererSafeLabel'') operationName 240)),
       (''canonicalAdmissionCapable'', JBool (fld input ''canonicalAdmissionCapable'' = JBool True)),
       (''admittedByRef'', admittedByRef),
       (''createdAt'', JStr createdAt),
       (''rawChainOfThoughtIncluded'', JBool False),
       (''rawSecretIncluded'', JBool False)] in
     if epistemic \<notin> set EPISTEMIC_POSTURES
     then fail ''ledger_act_type_constitution_invalid'' ''epistemic posture''
     else if authority \<notin> set AUTHORITY_POSTURES
     then fail ''ledger_act_type_constitution_invalid'' ''authority posture''
     else let sealed = sealWith E LEDGER_ACT_TYPE_CONSTITUTION_SCHEMA ''digest'' constitution in
     ebind (validateLedgerActTypeConstitution E sealed) (\<lambda>_. Inr sealed)))))"

definition ledgerActTypeConstitutionRef :: "jsenv \<Rightarrow> jval \<Rightarrow> jval res" where
  "ledgerActTypeConstitutionRef E v =
     ebind (validateLedgerActTypeConstitution E v) (\<lambda>_.
     ledgerExactRef E (JObj [
       (''kind'', JStr ''ledger_act_type_constitution''),
       (''id'', JStr (js_string E (fld v ''actTypeId'') @ ''@'' @ js_string E (fld v ''revision''))),
       (''digest'', fld v ''digest''),
       (''label'', fld v ''rendererSafeLabel''),
       (''revision'', fld v ''revision'')]) ''ref'')"

end
