(* ===== verification/LedgerEvents.thy ===== *)
theory LedgerEvents
  imports LedgerActs
begin

section \<open>Epistemic ledger: append intents and events\<close>

text \<open>
  \<open>normalizeLedgerAppendIntent\<close>, which brings the input of an append to its normal form, the
  digest of that form, and the builder, validator and reference of ledger events. An event
  carries its global sequence number and the digest of the event before it.
\<close>

definition normalizeLedgerAppendIntent :: "jsenv \<Rightarrow> jval \<Rightarrow> jval res" where
  "normalizeLedgerAppendIntent E arg =
     ebind (defaulted arg) (\<lambda>input.
     ebind (uniqueStreamRefs (fld input ''streamRefs'')) (\<lambda>streamRefs.
     ebind (ledgerExactRef E (fld input ''actTypeRef'') ''actTypeRef'') (\<lambda>actTypeRef.
     ebind (ledgerExactRef E (fld input ''actorRef'') ''actorRef'') (\<lambda>actorRef.
     ebind (ledgerExactRef E (fld input ''roleLaneRef'') ''roleLaneRef'') (\<lambda>roleLaneRef.
     ebind (ledgerOptionalRef E (fld input ''agentRunRef'') ''agentRunRef'') (\<lambda>agentRunRef.
     ebind (normalizeSemanticScope (fld input ''subjectScope'')) (\<lambda>subjectScope.
     ebind (ledgerUniqueRefs E (orEmpty (fld input ''objectRefs'')) ''objectRefs'') (\<lambda>objectRefs.
     ebind (ledgerOptionalRef E (fld input ''artifactLifecycleRef'') ''artifactLifecycleRef'') (\<lambda>artifactLifecycleRef.
     ebind (ledgerUniqueRefs E (orEmpty (fld input ''evidenceRefs'')) ''evidenceRefs'') (\<lambda>evidenceRefs.
     ebind (ledgerUniqueRefs E (orEmpty (fld input ''affectsRefs'')) ''affectsRefs'') (\<lambda>affectsRefs.
     ebind (ledgerUniqueRefs E (orEmpty (fld input ''sourceEventRefs'')) ''sourceEventRefs'') (\<lambda>sourceEventRefs.
     ebind (normalizeRevisionVector E (orEmpty (fld input ''expectedRevisionVector''))) (\<lambda>expectedRevisionVector.
     ebind (requirePlainObject (fld input ''typedPayload'') ''typedPayload'') (\<lambda>typedPayload.
     ebind (ledgerUniqueRefs E (orEmpty (fld input ''affectedContextRefs'')) ''affectedContextRefs'') (\<lambda>affectedContextRefs.
     ebind (ledgerUniqueRefs E (orEmpty (fld input ''lifecycleTransitionRefs'')) ''lifecycleTransitionRefs'') (\<lambda>lifecycleTransitionRefs.
     let actClass = js_text (fld input ''actClass'') [];
         authorshipKind = js_text (fld input ''authorshipKind'') [];
         epistemicPosture = js_text (fld input ''epistemicPosture'') [];
         authorityPosture = js_text (fld input ''authorityPosture'') [];
         typedPayloadSchema = js_text (fld input ''typedPayloadSchema'') [];
         idempotencyKey = js_text (fld input ''idempotencyKey'') [];
         operationScope = js_text (fld input ''operationScope'') (js_text (fld (fld input ''actTypeRef'') ''id'') []) in
     if actClass \<notin> set ACT_CLASSES \<or> authorshipKind \<notin> set AUTHORSHIP_KINDS
       \<or> epistemicPosture \<notin> set EPISTEMIC_POSTURES \<or> authorityPosture \<notin> set AUTHORITY_POSTURES
       \<or> typedPayloadSchema = [] \<or> idempotencyKey = [] \<or> operationScope = []
     then fail ''epistemic_ledger_append_intent_invalid'' []
     else Inr (JObj [
       (''streamRefs'', JArr streamRefs),
       (''actTypeRef'', actTypeRef),
       (''actClass'', JStr actClass),
       (''authorshipKind'', JStr authorshipKind),
       (''actorRef'', actorRef),
       (''roleLaneRef'', roleLaneRef),
       (''agentRunRef'', agentRunRef),
       (''subjectScope'', subjectScope),
       (''objectRefs'', JArr objectRefs),
       (''artifactLifecycleRef'', artifactLifecycleRef),
       (''evidenceRefs'', JArr evidenceRefs),
       (''affectsRefs'', JArr affectsRefs),
       (''sourceEventRefs'', JArr sourceEventRefs),
       (''expectedRevisionVector'', JArr expectedRevisionVector),
       (''epistemicPosture'', JStr epistemicPosture),
       (''authorityPosture'', JStr authorityPosture),
       (''typedPayloadSchema'', JStr typedPayloadSchema),
       (''typedPayload'', cloneJson typedPayload),
       (''rendererSafeSummary'', JStr (ledgerBounded (fld input ''rendererSafeSummary'') ''Ledger event'' 1200)),
       (''idempotencyKey'', JStr idempotencyKey),
       (''operationScope'', JStr operationScope),
       (''affectedContextRefs'', JArr affectedContextRefs),
       (''lifecycleTransitionRefs'', JArr lifecycleTransitionRefs)])))))))))))))))))"

definition ledgerAppendIntentDigest :: "jsenv \<Rightarrow> jval \<Rightarrow> string res" where
  "ledgerAppendIntentDigest E input = ebind (normalizeLedgerAppendIntent E input) (\<lambda>intent.
     Inr (digestFor E ''direct_epistemic_ledger_append_intent@1'' intent []))"

definition validateEpistemicLedgerEvent :: "jsenv \<Rightarrow> jval \<Rightarrow> bool res" where
  "validateEpistemicLedgerEvent E v =
     (if \<not> isPlainObject v
       \<or> fld v ''schema'' \<noteq> JStr EPISTEMIC_LEDGER_EVENT_SCHEMA
       \<or> js_text (fld v ''ledgerEventId'') [] = []
       \<or> \<not> isInteger (JNum (to_number E (fld v ''globalSequence'')))
       \<or> js_less E (fld v ''globalSequence'') 1
       \<or> \<not> isArray (fld v ''streamRefs'')
       \<or> elems (fld v ''streamRefs'') = []
       \<or> \<not> one_of (fld v ''actClass'') ACT_CLASSES
       \<or> \<not> one_of (fld v ''authorshipKind'') AUTHORSHIP_KINDS
       \<or> \<not> isArray (fld v ''objectRefs'')
       \<or> \<not> isArray (fld v ''evidenceRefs'')
       \<or> \<not> isArray (fld v ''affectsRefs'')
       \<or> \<not> isArray (fld v ''sourceEventRefs'')
       \<or> \<not> isArray (fld v ''expectedRevisionVector'')
       \<or> \<not> one_of (fld v ''epistemicPosture'') EPISTEMIC_POSTURES
       \<or> \<not> one_of (fld v ''authorityPosture'') AUTHORITY_POSTURES
       \<or> js_text (fld v ''typedPayloadSchema'') [] = []
       \<or> \<not> isPlainObject (fld v ''typedPayload'')
       \<or> js_text (fld v ''rendererSafeSummary'') [] = []
       \<or> js_text (fld v ''idempotencyKey'') [] = []
       \<or> js_text (fld v ''previousLedgerDigest'') [] = []
       \<or> js_text (fld v ''createdAt'') [] = []
       \<or> fld v ''rawChainOfThoughtIncluded'' \<noteq> JBool False
       \<or> fld v ''rawSecretIncluded'' \<noteq> JBool False
      then fail ''epistemic_ledger_event_invalid'' []
      else
      ebind (eforeachi (\<lambda>index ref. validateLedgerStreamRef ref (''streamRefs.'' @ nat_text index))
          (elems (fld v ''streamRefs''))) (\<lambda>_.
      ebind (ledgerExactRef E (fld v ''actTypeRef'') ''actTypeRef'') (\<lambda>_.
      ebind (ledgerExactRef E (fld v ''actorRef'') ''actorRef'') (\<lambda>_.
      ebind (ledgerExactRef E (fld v ''roleLaneRef'') ''roleLaneRef'') (\<lambda>_.
      ebind (ledgerOptionalRef E (fld v ''agentRunRef'') ''agentRunRef'') (\<lambda>_.
      ebind (normalizeSemanticScope (fld v ''subjectScope'')) (\<lambda>_.
      ebind (ledgerUniqueRefs E (fld v ''objectRefs'') ''objectRefs'') (\<lambda>_.
      ebind (ledgerOptionalRef E (fld v ''artifactLifecycleRef'') ''artifactLifecycleRef'') (\<lambda>_.
      ebind (ledgerUniqueRefs E (fld v ''evidenceRefs'') ''evidenceRefs'') (\<lambda>_.
      ebind (ledgerUniqueRefs E (fld v ''affectsRefs'') ''affectsRefs'') (\<lambda>_.
      ebind (ledgerUniqueRefs E (fld v ''sourceEventRefs'') ''sourceEventRefs'') (\<lambda>_.
      ebind (normalizeRevisionVector E (fld v ''expectedRevisionVector'')) (\<lambda>_.
      if fld v ''eventDigest'' \<noteq> JStr (digestFor E EPISTEMIC_LEDGER_EVENT_SCHEMA v [''eventDigest''])
      then fail ''epistemic_ledger_event_digest_invalid'' (detail_text E (fld v ''ledgerEventId''))
      else Inr True)))))))))))))"

definition buildEpistemicLedgerEvent :: "jsenv \<Rightarrow> jval \<Rightarrow> jval \<Rightarrow> jval res" where
  "buildEpistemicLedgerEvent E input sys =
     ebind (normalizeLedgerAppendIntent E input) (\<lambda>intent.
     ebind (defaulted sys) (\<lambda>system.
     let globalSequence = JNum (to_number E (fld system ''globalSequence''));
         previousLedgerDigest = js_text (fld system ''previousLedgerDigest'') [] in
     if \<not> isInteger globalSequence \<or> js_less E globalSequence 1 \<or> previousLedgerDigest = []
     then fail ''epistemic_ledger_sequence_assignment_invalid'' []
     else
     ebind (ledgerStamp E (fld system ''createdAt'') (fld system ''now'')) (\<lambda>createdAt.
     let ledgerEventId = js_text (fld system ''ledgerEventId'') (stableIdN E ''ledger_event'' (JObj [
           (''globalSequence'', globalSequence), (''previousLedgerDigest'', JStr previousLedgerDigest),
           (''intentDigest'', JStr (digestFor E ''direct_epistemic_ledger_event_intent@1'' intent []))]) 32);
         event = sealWith E EPISTEMIC_LEDGER_EVENT_SCHEMA ''eventDigest'' (JObj [
           (''schema'', JStr EPISTEMIC_LEDGER_EVENT_SCHEMA),
           (''ledgerEventId'', JStr ledgerEventId),
           (''globalSequence'', globalSequence),
           (''streamRefs'', fld intent ''streamRefs''),
           (''actTypeRef'', fld intent ''actTypeRef''),
           (''actClass'', fld intent ''actClass''),
           (''authorshipKind'', fld intent ''authorshipKind''),
           (''actorRef'', fld intent ''actorRef''),
           (''roleLaneRef'', fld intent ''roleLaneRef''),
           (''agentRunRef'', fld intent ''agentRunRef''),
           (''subjectScope'', fld intent ''subjectScope''),
           (''objectRefs'', fld intent ''objectRefs''),
           (''artifactLifecycleRef'', fld intent ''artifactLifecycleRef''),
           (''evidenceRefs'', fld intent ''evidenceRefs''),
           (''affectsRefs'', fld intent ''affectsRefs''),
           (''sourceEventRefs'', fld intent ''sourceEventRefs''),
           (''expectedRevisionVector'', fld intent ''expectedRevisionVector''),
           (''epistemicPosture'', fld intent ''epistemicPosture''),
           (''authorityPosture'', fld intent ''authorityPosture''),
           (''typedPayloadSchema'', fld intent ''typedPayloadSchema''),
           (''typedPayload'', fld intent ''typedPayload''),
           (''rendererSafeSummary'', fld intent ''rendererSafeSummary''),
           (''idempotencyKey'', fld intent ''idempotencyKey''),
           (''previousLedgerDigest'', JStr previousLedgerDigest),
           (''eventDigest'', JStr []),
           (''createdAt'', JStr createdAt),
           (''rawChainOfThoughtIncluded'', JBool False),
           (''rawSecretIncluded'', JBool False)]) in
     ebind (validateEpistemicLedgerEvent E event) (\<lambda>_. Inr event))))"

definition epistemicLedgerEventRef :: "jsenv \<Rightarrow> jval \<Rightarrow> jval res" where
  "epistemicLedgerEventRef E v =
     ebind (validateEpistemicLedgerEvent E v) (\<lambda>_.
     ledgerExactRef E (JObj [
       (''kind'', JStr ''epistemic_ledger_event''),
       (''id'', fld v ''ledgerEventId''),
       (''digest'', fld v ''eventDigest''),
       (''label'', fld v ''rendererSafeSummary'')]) ''ref'')"

end
