(* ===== verification/LedgerReceipts.thy ===== *)
theory LedgerReceipts
  imports LedgerEvents
begin

section \<open>Epistemic ledger: receipts, projections and outbox seeds\<close>

text \<open>
  The records derived from an event: the receipt of its write and the receipt of a replay, the
  keys and the content of its materialized projections, the seeds of its deliveries, and the
  adapter that turns an event of the world manager into an append intent.
\<close>

subsection \<open>Write receipts\<close>

definition append_states :: "string list" where
  "append_states = [''appended'', ''idempotent_replay'']"

definition dispatch_postures :: "string list" where
  "dispatch_postures = [''none'', ''outbox_committed'']"

definition validateLedgerWriteReceipt :: "jsenv \<Rightarrow> jval \<Rightarrow> bool res" where
  "validateLedgerWriteReceipt E v =
     (if \<not> isPlainObject v
       \<or> fld v ''schema'' \<noteq> JStr LEDGER_WRITE_RECEIPT_SCHEMA
       \<or> js_text (fld v ''receiptId'') [] = []
       \<or> js_text (fld v ''actorIdentity'') [] = []
       \<or> js_text (fld v ''operationScope'') [] = []
       \<or> js_text (fld v ''idempotencyKey'') [] = []
       \<or> js_text (fld v ''appendRequestDigest'') [] = []
       \<or> \<not> one_of (fld v ''appendState'') append_states
       \<or> \<not> one_of (fld v ''epistemicPosture'') EPISTEMIC_POSTURES
       \<or> fld v ''canonicalEffect'' \<noteq> JBool False
       \<or> \<not> isArray (fld v ''affectedContextRefs'')
       \<or> \<not> isArray (fld v ''lifecycleTransitionRefs'')
       \<or> \<not> one_of (fld v ''deliveryDispatchState'') dispatch_postures
       \<or> js_text (fld v ''rendererSafeSummary'') [] = []
       \<or> js_text (fld v ''createdAt'') [] = []
      then fail ''ledger_write_receipt_invalid'' []
      else
      ebind (ledgerExactRef E (fld v ''ledgerEventRef'') ''ledgerEventRef'') (\<lambda>_.
      ebind (ledgerUniqueRefs E (fld v ''affectedContextRefs'') ''affectedContextRefs'') (\<lambda>_.
      ebind (ledgerUniqueRefs E (fld v ''lifecycleTransitionRefs'') ''lifecycleTransitionRefs'') (\<lambda>_.
      if fld v ''receiptDigest'' \<noteq> JStr (digestFor E LEDGER_WRITE_RECEIPT_SCHEMA v [''receiptDigest''])
      then fail ''ledger_write_receipt_digest_invalid'' (detail_text E (fld v ''receiptId''))
      else Inr True))))"

definition buildLedgerWriteReceipt :: "jsenv \<Rightarrow> jval \<Rightarrow> jval \<Rightarrow> jval res" where
  "buildLedgerWriteReceipt E arg opts =
     ebind (defaulted arg) (\<lambda>input.
     let event = fld input ''event'' in
     ebind (validateEpistemicLedgerEvent E event) (\<lambda>_.
     let appendState = js_text (fld input ''appendState'') ''appended'';
         deliveryDispatchState = js_text (fld input ''deliveryDispatchState'') ''none'' in
     if appendState \<notin> set append_states \<or> deliveryDispatchState \<notin> set dispatch_postures
     then fail ''ledger_write_receipt_invalid'' []
     else
     let actorIdentity = js_text (fld input ''actorIdentity'') [];
         operationScope = js_text (fld input ''operationScope'') [];
         appendRequestDigest = js_text (fld input ''appendRequestDigest'') [] in
     if actorIdentity = [] \<or> operationScope = [] \<or> appendRequestDigest = []
     then fail ''ledger_write_receipt_idempotency_scope_invalid'' []
     else
     ebind (epistemicLedgerEventRef E event) (\<lambda>ledgerEventRef.
     ebind (ledgerUniqueRefs E (orEmpty (fld input ''affectedContextRefs'')) ''affectedContextRefs'') (\<lambda>affectedContextRefs.
     ebind (ledgerUniqueRefs E (orEmpty (fld input ''lifecycleTransitionRefs'')) ''lifecycleTransitionRefs'') (\<lambda>lifecycleTransitionRefs.
     ebind (defaulted opts) (\<lambda>options.
     ebind (ledgerStamp E (fld input ''createdAt'') (fld options ''now'')) (\<lambda>createdAt.
     let receipt = sealWith E LEDGER_WRITE_RECEIPT_SCHEMA ''receiptDigest'' (JObj [
       (''schema'', JStr LEDGER_WRITE_RECEIPT_SCHEMA),
       (''receiptId'', JStr (js_text (fld input ''receiptId'') (stableIdN E ''ledger_receipt'' (JObj [
          (''ledgerEventId'', fld event ''ledgerEventId''), (''appendState'', JStr appendState)]) 32))),
       (''ledgerEventRef'', ledgerEventRef),
       (''actorIdentity'', JStr actorIdentity),
       (''operationScope'', JStr operationScope),
       (''idempotencyKey'', fld event ''idempotencyKey''),
       (''appendRequestDigest'', JStr appendRequestDigest),
       (''appendState'', JStr appendState),
       (''epistemicPosture'', fld event ''epistemicPosture''),
       (''canonicalEffect'', JBool False),
       (''affectedContextRefs'', JArr affectedContextRefs),
       (''lifecycleTransitionRefs'', JArr lifecycleTransitionRefs),
       (''deliveryDispatchState'', JStr deliveryDispatchState),
       (''rendererSafeSummary'', JStr (ledgerBounded (fld input ''rendererSafeSummary'')
          (raw_string (fld event ''rendererSafeSummary'')) 1200)),
       (''createdAt'', JStr createdAt)]) in
     ebind (validateLedgerWriteReceipt E receipt) (\<lambda>_. Inr receipt))))))))"

definition replayLedgerWriteReceipt :: "jsenv \<Rightarrow> jval \<Rightarrow> jval \<Rightarrow> jval res" where
  "replayLedgerWriteReceipt E v opts =
     ebind (validateLedgerWriteReceipt E v) (\<lambda>_.
     if fld v ''appendState'' = JStr ''idempotent_replay'' then Inr v
     else ebind (defaulted opts) (\<lambda>options.
     let replay = sealWith E LEDGER_WRITE_RECEIPT_SCHEMA ''receiptDigest'' (spread (cloneJson v) [
       (''receiptId'', JStr (stableIdN E ''ledger_receipt_replay'' (JObj [
          (''originalReceiptId'', fld v ''receiptId''), (''ledgerEventRef'', fld v ''ledgerEventRef'')]) 32)),
       (''appendState'', JStr ''idempotent_replay''),
       (''createdAt'', if js_text (fld options ''createdAt'') [] \<noteq> []
          then JStr (js_text (fld options ''createdAt'') []) else fld v ''createdAt'')]) in
     ebind (validateLedgerWriteReceipt E replay) (\<lambda>_. Inr replay)))"

subsection \<open>Projections\<close>

definition projectionKeysForEvent :: "jsenv \<Rightarrow> jval \<Rightarrow> string list res" where
  "projectionKeysForEvent E event =
     ebind (validateEpistemicLedgerEvent E event) (\<lambda>_.
     ebind (method_elems (fld event ''streamRefs'')) (\<lambda>streamRefs.
     ebind (method_elems (fld event ''objectRefs'')) (\<lambda>objectRefs.
     ebind (emap (\<lambda>ref. ledgerExactRefKey E ref False) objectRefs) (\<lambda>objectKeys.
     ebind (if truthy (fld event ''artifactLifecycleRef'')
         then ebind (ledgerExactRefKey E (fld event ''artifactLifecycleRef'') False) (\<lambda>key. Inr [''artifact:'' @ key])
         else Inr []) (\<lambda>artifactKeys.
     Inr (dedup id ([''ledger:global'']
       @ map (\<lambda>ref. ''stream:'' @ js_string E (fld ref ''streamKey'')) streamRefs
       @ map (\<lambda>key. ''object:'' @ key) objectKeys
       @ artifactKeys)))))))"

definition validateMaterializedEpistemicProjection :: "jsenv \<Rightarrow> jval \<Rightarrow> bool res" where
  "validateMaterializedEpistemicProjection E v =
     (if \<not> isPlainObject v
       \<or> fld v ''schema'' \<noteq> JStr MATERIALIZED_EPISTEMIC_PROJECTION_SCHEMA
       \<or> js_text (fld v ''projectionKey'') [] = []
       \<or> \<not> isInteger (JNum (to_number E (fld v ''headSequence'')))
       \<or> js_less E (fld v ''headSequence'') 1
       \<or> \<not> one_of (fld v ''epistemicPosture'') EPISTEMIC_POSTURES
       \<or> \<not> one_of (fld v ''authorityPosture'') AUTHORITY_POSTURES
       \<or> \<not> isArray (fld v ''objectRefs'')
       \<or> js_text (fld v ''rendererSafeSummary'') [] = []
       \<or> js_text (fld v ''updatedAt'') [] = []
      then fail ''epistemic_ledger_projection_invalid'' []
      else
      ebind (ledgerExactRef E (fld v ''headEventRef'') ''headEventRef'') (\<lambda>_.
      ebind (normalizeSemanticScope (fld v ''subjectScope'')) (\<lambda>_.
      ebind (ledgerUniqueRefs E (fld v ''objectRefs'') ''objectRefs'') (\<lambda>_.
      ebind (ledgerOptionalRef E (fld v ''artifactLifecycleRef'') ''artifactLifecycleRef'') (\<lambda>_.
      if fld v ''projectionDigest'' \<noteq> JStr (digestFor E MATERIALIZED_EPISTEMIC_PROJECTION_SCHEMA v [''projectionDigest''])
      then fail ''epistemic_ledger_projection_digest_invalid'' (detail_text E (fld v ''projectionKey''))
      else Inr True)))))"

definition buildMaterializedEpistemicProjection :: "jsenv \<Rightarrow> jval \<Rightarrow> string \<Rightarrow> jval res" where
  "buildMaterializedEpistemicProjection E event projectionKey =
     ebind (validateEpistemicLedgerEvent E event) (\<lambda>_.
     let key = js_text (JStr projectionKey) [] in
     if key = [] then fail ''epistemic_ledger_projection_key_invalid'' key
     else ebind (projectionKeysForEvent E event) (\<lambda>keys.
     if key \<notin> set keys then fail ''epistemic_ledger_projection_key_invalid'' key
     else ebind (epistemicLedgerEventRef E event) (\<lambda>headEventRef.
     let projection = sealWith E MATERIALIZED_EPISTEMIC_PROJECTION_SCHEMA ''projectionDigest'' (JObj [
       (''schema'', JStr MATERIALIZED_EPISTEMIC_PROJECTION_SCHEMA),
       (''projectionKey'', JStr key),
       (''headSequence'', fld event ''globalSequence''),
       (''headEventRef'', headEventRef),
       (''epistemicPosture'', fld event ''epistemicPosture''),
       (''authorityPosture'', fld event ''authorityPosture''),
       (''subjectScope'', fld event ''subjectScope''),
       (''objectRefs'', fld event ''objectRefs''),
       (''artifactLifecycleRef'', fld event ''artifactLifecycleRef''),
       (''rendererSafeSummary'', fld event ''rendererSafeSummary''),
       (''updatedAt'', fld event ''createdAt'')]) in
     ebind (validateMaterializedEpistemicProjection E projection) (\<lambda>_. Inr projection))))"

subsection \<open>Outbox seeds\<close>

definition normalizeOutboxSeedIntents :: "jsenv \<Rightarrow> jval \<Rightarrow> jval list res" where
  "normalizeOutboxSeedIntents E v =
     (if v \<noteq> JUndef \<and> \<not> isArray v then fail ''ledger_outbox_seed_intents_invalid'' []
      else emapi (\<lambda>index entry.
        if \<not> isPlainObject entry then fail ''ledger_outbox_seed_intent_invalid'' (nat_text index)
        else
        ebind (ledgerExactRef E (fld entry ''subscriptionRef'') (''outboxSeedIntents.'' @ nat_text index @ ''.subscriptionRef'')) (\<lambda>subscriptionRef.
        ebind (ledgerExactRef E (fld entry ''recipientRef'') (''outboxSeedIntents.'' @ nat_text index @ ''.recipientRef'')) (\<lambda>recipientRef.
        let deliveryPolicy = js_text (fld entry ''deliveryPolicy'') ''safe_boundary'' in
        if deliveryPolicy \<notin> set DELIVERY_POLICIES then fail ''ledger_outbox_seed_intent_invalid'' ''deliveryPolicy''
        else Inr (JObj [
          (''subscriptionRef'', subscriptionRef),
          (''recipientRef'', recipientRef),
          (''deliveryPolicy'', JStr deliveryPolicy),
          (''matchReason'', JStr (ledgerBounded (fld entry ''matchReason'') ''subscription_match'' 480)),
          (''materiality'', JStr (js_text (fld entry ''materiality'') ''ordinary''))])))) 0 (take 128 (elems v)))"

definition validateLedgerDeliveryOutboxSeed :: "jsenv \<Rightarrow> jval \<Rightarrow> bool res" where
  "validateLedgerDeliveryOutboxSeed E v =
     (if \<not> isPlainObject v
       \<or> fld v ''schema'' \<noteq> JStr LEDGER_DELIVERY_OUTBOX_SEED_SCHEMA
       \<or> js_text (fld v ''outboxSeedId'') [] = []
       \<or> \<not> one_of (fld v ''deliveryPolicy'') DELIVERY_POLICIES
       \<or> js_text (fld v ''matchReason'') [] = []
       \<or> js_text (fld v ''materiality'') [] = []
       \<or> fld v ''dispatchState'' \<noteq> JStr ''pending''
       \<or> js_text (fld v ''createdAt'') [] = []
      then fail ''ledger_delivery_outbox_seed_invalid'' []
      else
      ebind (ledgerExactRef E (fld v ''ledgerEventRef'') ''ledgerEventRef'') (\<lambda>_.
      ebind (ledgerExactRef E (fld v ''subscriptionRef'') ''subscriptionRef'') (\<lambda>_.
      ebind (ledgerExactRef E (fld v ''recipientRef'') ''recipientRef'') (\<lambda>_.
      if fld v ''seedDigest'' \<noteq> JStr (digestFor E LEDGER_DELIVERY_OUTBOX_SEED_SCHEMA v [''seedDigest''])
      then fail ''ledger_delivery_outbox_seed_digest_invalid'' (detail_text E (fld v ''outboxSeedId''))
      else Inr True))))"

definition buildLedgerDeliveryOutboxSeed :: "jsenv \<Rightarrow> jval \<Rightarrow> jval \<Rightarrow> jval \<Rightarrow> jval res" where
  "buildLedgerDeliveryOutboxSeed E arg event opts =
     ebind (validateEpistemicLedgerEvent E event) (\<lambda>_.
     ebind (normalizeOutboxSeedIntents E (JArr [dflt arg])) (\<lambda>normalizedList.
     let normalized = hd normalizedList; input = dflt arg in
     ebind (epistemicLedgerEventRef E event) (\<lambda>ledgerEventRef.
     ebind (defaulted opts) (\<lambda>options.
     ebind (ledgerStamp E (fld input ''createdAt'') (fld options ''now'')) (\<lambda>createdAt.
     let seed = sealWith E LEDGER_DELIVERY_OUTBOX_SEED_SCHEMA ''seedDigest'' (JObj [
       (''schema'', JStr LEDGER_DELIVERY_OUTBOX_SEED_SCHEMA),
       (''outboxSeedId'', JStr (js_text (fld input ''outboxSeedId'') (stableIdN E ''ledger_outbox'' (JObj [
          (''ledgerEventId'', fld event ''ledgerEventId''),
          (''subscriptionRef'', fld normalized ''subscriptionRef''),
          (''recipientRef'', fld normalized ''recipientRef'')]) 32))),
       (''ledgerEventRef'', ledgerEventRef),
       (''subscriptionRef'', fld normalized ''subscriptionRef''),
       (''recipientRef'', fld normalized ''recipientRef''),
       (''deliveryPolicy'', fld normalized ''deliveryPolicy''),
       (''matchReason'', fld normalized ''matchReason''),
       (''materiality'', fld normalized ''materiality''),
       (''dispatchState'', JStr ''pending''),
       (''createdAt'', JStr createdAt)]) in
     ebind (validateLedgerDeliveryOutboxSeed E seed) (\<lambda>_. Inr seed))))))"

subsection \<open>Events of the world manager\<close>

definition worldManagerEventLedgerIntent :: "jsenv \<Rightarrow> jval \<Rightarrow> jval \<Rightarrow> jval res" where
  "worldManagerEventLedgerIntent E arg opts =
     ebind (defaulted arg) (\<lambda>sourceEvent.
     let semanticEventId = js_text (fld sourceEvent ''semanticEventId'') [];
         eventDigest = js_text (fld sourceEvent ''eventDigest'') [];
         eventKind = js_text (fld sourceEvent ''eventKind'') [] in
     if semanticEventId = [] \<or> eventDigest = [] \<or> eventKind = []
     then fail ''world_manager_event_ledger_adapter_invalid'' []
     else
     let projectId = js_text (fld sourceEvent ''projectId'') [] in
     ebind (ledgerExactRef E (JObj [(''kind'', JStr ''world_manager_semantic_event''), (''id'', JStr semanticEventId),
         (''digest'', JStr eventDigest), (''label'', JStr eventKind), (''projectId'', JStr projectId)]) ''ref'') (\<lambda>sourceEventRef.
     ebind (defaulted opts) (\<lambda>options.
     let userWorldId = js_text (fld options ''userWorldId'') ''user_world_local'' in
     normalizeLedgerAppendIntent E (JObj [
       (''streamRefs'', js_or (fld options ''streamRefs'') (JArr [JObj [
          (''streamType'', JStr (if projectId \<noteq> [] then ''project'' else ''world'')),
          (''streamId'', JStr (if projectId \<noteq> [] then projectId else userWorldId))]])),
       (''actTypeRef'', fld options ''actTypeRef''),
       (''actClass'', JStr ''mechanical_witness''),
       (''authorshipKind'', JStr ''harness_mechanical''),
       (''actorRef'', fld options ''actorRef''),
       (''roleLaneRef'', fld options ''roleLaneRef''),
       (''agentRunRef'', fld options ''agentRunRef''),
       (''subjectScope'', if projectId \<noteq> []
          then JObj [(''kind'', JStr ''project''), (''userWorldId'', JStr userWorldId), (''projectId'', JStr projectId)]
          else JObj [(''kind'', JStr ''user_world''), (''userWorldId'', JStr userWorldId)]),
       (''objectRefs'', JArr [sourceEventRef]),
       (''sourceEventRefs'', JArr [sourceEventRef]),
       (''evidenceRefs'', JArr []),
       (''affectsRefs'', JArr []),
       (''expectedRevisionVector'', JArr []),
       (''epistemicPosture'', JStr ''observed''),
       (''authorityPosture'', JStr ''descriptive''),
       (''typedPayloadSchema'', JStr ''direct_world_manager_event_ledger_adapter_payload@1''),
       (''typedPayload'', JObj [
          (''sourceEventRef'', sourceEventRef),
          (''eventKind'', JStr eventKind),
          (''presentationState'', JStr (js_text (fld sourceEvent ''presentationState'') ''unknown'')),
          (''projectId'', JStr projectId),
          (''lineageRootId'', JStr (js_text (fld sourceEvent ''lineageRootId'') [])),
          (''rawEventBodyIncluded'', JBool False)]),
       (''rendererSafeSummary'', JStr (ledgerBounded (fld options ''rendererSafeSummary'')
          (''WorldManager event observed: '' @ eventKind) 1200)),
       (''idempotencyKey'', JStr (js_text (fld options ''idempotencyKey'')
          (''wm-event:'' @ semanticEventId @ '':'' @ eventDigest))),
       (''operationScope'', JStr (js_text (fld options ''operationScope'') ''world_manager_event_adapter''))]))))"

end
