(* ===== verification/LedgerStore.thy ===== *)
theory LedgerStore
  imports LedgerReceipts
begin

section \<open>Epistemic ledger: the store\<close>

text \<open>
  \<open>DirectEpistemicLedgerStore\<close> of \<^verbatim>\<open>src/main/direct/worldmanager/epistemic-ledger-store.js\<close>. The
  SQLite tables are lists of rows in insertion order, with the columns that some query reads; an
  insert checks the primary key, the unique and the foreign key constraints of the schema and
  fails with the error of \<open>node:sqlite\<close> otherwise. A column that holds JSON text is the value
  that the text stands for (\<open>JsonOf\<close>), the empty text or a text that is not JSON. A method
  returns its result and the new tables; a method that throws leaves them unchanged, which is
  what the transaction around its statements ensures. The clock of the store is the host's.
  Opening and closing the database file and creating its schema are not modelled.
\<close>

datatype json_column = NoText | NotJson | JsonOf jval

record act_row =
  act_type_ref_id :: string
  act_type_id :: jval
  act_revision :: jval
  constitution_digest :: jval
  constitution_json :: json_column

record event_row =
  global_sequence :: int
  ledger_event_id :: string
  event_act_type_ref_id :: string
  act_class :: string
  authorship_kind :: string
  epistemic_posture :: string
  authority_posture :: string
  event_idempotency_key :: string
  previous_ledger_digest :: string
  event_digest :: string
  event_json :: json_column
  event_created_at :: string

record membership_row =
  member_sequence :: int
  stream_position :: nat
  stream_key :: string
  stream_ref_json :: json_column

record head_row =
  projection_key :: string
  head_sequence :: int
  projection_json :: json_column

record receipt_row =
  receipt_id :: string
  receipt_event_id :: string
  actor_identity :: string
  operation_scope :: string
  idempotency_key :: string
  append_request_digest :: string
  receipt_digest :: string
  receipt_json :: json_column
  receipt_created_at :: string

record outbox_row =
  outbox_seed_id :: string
  outbox_event_id :: string
  subscription_identity :: string
  recipient_identity :: string
  dispatch_state :: string
  seed_digest :: string
  seed_json :: json_column
  attempt_count :: int
  delivery_ref_json :: json_column
  delivery_ref_digest :: string
  last_failure_json :: json_column
  outbox_created_at :: string
  outbox_updated_at :: string

record ledger_store =
  act_rows :: "act_row list"
  event_rows :: "event_row list"
  membership_rows :: "membership_row list"
  head_rows :: "head_row list"
  receipt_rows :: "receipt_row list"
  outbox_rows :: "outbox_row list"
  readOnlyDiagnosis :: jval

definition emptyStore :: ledger_store where
  "emptyStore = \<lparr>act_rows = [], event_rows = [], membership_rows = [], head_rows = [], receipt_rows = [],
     outbox_rows = [], readOnlyDiagnosis = JNull\<rparr>"

subsection \<open>Columns and constraints\<close>

definition json :: "jval \<Rightarrow> json_column" where
  \<comment> \<open>\<open>JSON.stringify(value ?? null)\<close>\<close>
  "json v = JsonOf (cloneJson (coalesce v JNull))"

definition parseJson :: "json_column \<Rightarrow> string \<Rightarrow> jval res" where
  "parseJson c label = (case c of JsonOf v \<Rightarrow> Inr v | _ \<Rightarrow> fail ''epistemic_ledger_persisted_json_invalid'' label)"

definition jsonEqual :: "jsenv \<Rightarrow> jval \<Rightarrow> jval \<Rightarrow> bool" where
  "jsonEqual E a b \<longleftrightarrow> json_text E (coalesce a JNull) = json_text E (coalesce b JNull)"

definition insertRow :: "bool \<Rightarrow> 'r \<Rightarrow> 'r list \<Rightarrow> 'r list res" where
  \<comment> \<open>\<open>ok\<close> says that the constraints of the table hold for the new row\<close>
  "insertRow ok row rows = (if ok then Inr (rows @ [row]) else fail ''ERR_SQLITE_ERROR'' ''constraint failed'')"

definition int_of :: "jval \<Rightarrow> int" where
  "int_of v = (case v of JNum (Fin r) \<Rightarrow> \<lfloor>r\<rfloor> | _ \<Rightarrow> 0)"

definition exactEventRefMatches :: "jval \<Rightarrow> jval \<Rightarrow> bool" where
  "exactEventRefMatches ref event \<longleftrightarrow> truthy ref \<and> truthy event
     \<and> fld ref ''kind'' = JStr ''epistemic_ledger_event''
     \<and> strict_eq (fld ref ''id'') (fld event ''ledgerEventId'')
     \<and> strict_eq (fld ref ''digest'') (fld event ''eventDigest'')"

definition assertWritable :: "ledger_store \<Rightarrow> bool res" where
  "assertWritable s = (if truthy (readOnlyDiagnosis s)
     then fail ''epistemic_ledger_integrity_failed''
       (raw_string (js_or (fld (readOnlyDiagnosis s) ''issue'') (JStr ''diagnostic_read_only'')))
     else Inr True)"

subsection \<open>Act type constitutions\<close>

definition constitutionRow :: "jsenv \<Rightarrow> jval \<Rightarrow> jval \<Rightarrow> act_row" where
  \<comment> \<open>the revision is an integer column\<close>
  "constitutionRow E ref constitution = \<lparr>act_type_ref_id = raw_string (fld ref ''id''),
     act_type_id = fld constitution ''actTypeId'', act_revision = JNum (to_number E (fld constitution ''revision'')),
     constitution_digest = fld constitution ''digest'', constitution_json = json constitution\<rparr>"

definition registerActTypeConstitution :: "jsenv \<Rightarrow> ledger_store \<Rightarrow> jval \<Rightarrow> (jval \<times> ledger_store) res" where
  "registerActTypeConstitution E s arg =
     ebind (assertWritable s) (\<lambda>_.
     ebind (defaulted arg) (\<lambda>input.
     ebind (if truthy (fld input ''schema'') then Inr input
            else buildLedgerActTypeConstitution E input (JObj [(''now'', JNum (Fin (date_now E 0)))])) (\<lambda>constitution.
     ebind (validateLedgerActTypeConstitution E constitution) (\<lambda>_.
     ebind (ledgerActTypeConstitutionRef E constitution) (\<lambda>ref.
     let refId = raw_string (fld ref ''id'') in
     case find (\<lambda>row. act_type_ref_id row = refId) (act_rows s) of
       Some existing \<Rightarrow>
         ebind (parseJson (constitution_json existing) (''act-type:'' @ refId)) (\<lambda>persisted.
         ebind (validateLedgerActTypeConstitution E persisted) (\<lambda>_.
         if \<not> strict_eq (fld persisted ''digest'') (fld constitution ''digest'')
         then fail ''ledger_act_type_revision_conflict'' refId
         else Inr (JObj [(''constitution'', persisted), (''ref'', ref), (''changed'', JBool False)], s)))
     | None \<Rightarrow>
         ebind (insertRow (\<forall>row\<in>set (act_rows s).
             constitution_digest row \<noteq> fld constitution ''digest''
             \<and> (act_type_id row, act_revision row) \<noteq> (fld constitution ''actTypeId'', JNum (to_number E (fld constitution ''revision''))))
           (constitutionRow E ref constitution) (act_rows s)) (\<lambda>rows.
         Inr (JObj [(''constitution'', constitution), (''ref'', ref), (''changed'', JBool True)],
           s\<lparr>act_rows := rows\<rparr>)))))))"

definition getActTypeConstitution :: "jsenv \<Rightarrow> ledger_store \<Rightarrow> jval \<Rightarrow> jval res" where
  \<comment> \<open>\<open>null\<close> when there is none\<close>
  "getActTypeConstitution E s refOrId =
     (let refId = (case refOrId of JStr _ \<Rightarrow> js_text refOrId [] | _ \<Rightarrow> js_text (fld refOrId ''id'') []) in
      if refId = [] then Inr JNull
      else case find (\<lambda>row. act_type_ref_id row = refId) (act_rows s) of
        None \<Rightarrow> Inr JNull
      | Some row \<Rightarrow>
          ebind (parseJson (constitution_json row) (''act-type:'' @ refId)) (\<lambda>constitution.
          ebind (validateLedgerActTypeConstitution E constitution) (\<lambda>_.
          if js_text (fld refOrId ''digest'') [] \<noteq> []
             \<and> \<not> strict_eq (fld constitution ''digest'') (fld refOrId ''digest'')
          then fail ''ledger_act_type_ref_stale'' refId
          else Inr constitution)))"

definition listActTypeConstitutions :: "jsenv \<Rightarrow> ledger_store \<Rightarrow> jval list res" where
  \<comment> \<open>in insertion order: the order of the listing only decides which invalid row is reported\<close>
  "listActTypeConstitutions E s = emap (\<lambda>row.
     ebind (parseJson (constitution_json row) ''act-type-list'') (\<lambda>v.
     ebind (validateLedgerActTypeConstitution E v) (\<lambda>_. Inr v))) (act_rows s)"

subsection \<open>Reading events, receipts, heads and outbox rows\<close>

definition eventFromRow :: "jsenv \<Rightarrow> event_row \<Rightarrow> jval res" where
  "eventFromRow E row =
     ebind (parseJson (event_json row) (''event:'' @ ledger_event_id row)) (\<lambda>event.
     ebind (validateEpistemicLedgerEvent E event) (\<lambda>_.
     if fld event ''globalSequence'' \<noteq> num (global_sequence row)
       \<or> fld event ''ledgerEventId'' \<noteq> JStr (ledger_event_id row)
       \<or> fld (fld event ''actTypeRef'') ''id'' \<noteq> JStr (event_act_type_ref_id row)
       \<or> fld event ''actClass'' \<noteq> JStr (act_class row)
       \<or> fld event ''authorshipKind'' \<noteq> JStr (authorship_kind row)
       \<or> fld event ''epistemicPosture'' \<noteq> JStr (epistemic_posture row)
       \<or> fld event ''authorityPosture'' \<noteq> JStr (authority_posture row)
       \<or> fld event ''idempotencyKey'' \<noteq> JStr (event_idempotency_key row)
       \<or> fld event ''previousLedgerDigest'' \<noteq> JStr (previous_ledger_digest row)
       \<or> fld event ''eventDigest'' \<noteq> JStr (event_digest row)
       \<or> fld event ''createdAt'' \<noteq> JStr (event_created_at row)
     then fail ''epistemic_ledger_event_row_mismatch'' (detail_text E (fld event ''ledgerEventId''))
     else Inr event))"

definition eventsInOrder :: "ledger_store \<Rightarrow> event_row list" where
  \<comment> \<open>\<open>order by global_sequence asc\<close>\<close>
  "eventsInOrder s = sort_key global_sequence (event_rows s)"

definition getEvent :: "jsenv \<Rightarrow> ledger_store \<Rightarrow> string \<Rightarrow> jval res" where
  "getEvent E s ledgerEventId =
     (case find (\<lambda>row. ledger_event_id row = js_text (JStr ledgerEventId) []) (event_rows s) of
        None \<Rightarrow> Inr JNull | Some row \<Rightarrow> eventFromRow E row)"

definition getEventBySequence :: "jsenv \<Rightarrow> ledger_store \<Rightarrow> int \<Rightarrow> jval res" where
  "getEventBySequence E s globalSequence =
     (case find (\<lambda>row. global_sequence row = globalSequence) (event_rows s) of
        None \<Rightarrow> Inr JNull | Some row \<Rightarrow> eventFromRow E row)"

definition listEvents :: "jsenv \<Rightarrow> ledger_store \<Rightarrow> nat \<Rightarrow> nat \<Rightarrow> jval list res" where
  \<comment> \<open>\<open>afterSequence\<close> and \<open>limit\<close> are whole numbers; 0 stands for an absent limit\<close>
  "listEvents E s afterSequence limit =
     emap (eventFromRow E) (take (if limit = 0 then 1000 else min 10000 limit)
       (filter (\<lambda>row. int afterSequence < global_sequence row) (eventsInOrder s)))"

definition listStreamEvents :: "jsenv \<Rightarrow> ledger_store \<Rightarrow> string \<Rightarrow> nat \<Rightarrow> nat \<Rightarrow> jval list res" where
  "listStreamEvents E s streamKey afterSequence limit =
     emap (eventFromRow E) (take (if limit = 0 then 1000 else min 10000 limit)
       (filter (\<lambda>row. int afterSequence < global_sequence row
          \<and> list_ex (\<lambda>m. member_sequence m = global_sequence row \<and> stream_key m = js_text (JStr streamKey) [])
              (membership_rows s)) (eventsInOrder s)))"

definition getWriteReceipt :: "jsenv \<Rightarrow> ledger_store \<Rightarrow> string \<Rightarrow> jval res" where
  "getWriteReceipt E s ledgerEventId =
     (case find (\<lambda>row. receipt_event_id row = js_text (JStr ledgerEventId) []) (receipt_rows s) of
        None \<Rightarrow> Inr JNull
      | Some row \<Rightarrow>
          ebind (parseJson (receipt_json row) (''receipt:'' @ ledgerEventId)) (\<lambda>receipt.
          ebind (validateLedgerWriteReceipt E receipt) (\<lambda>_. Inr receipt)))"

definition getProjectionHead :: "jsenv \<Rightarrow> ledger_store \<Rightarrow> string \<Rightarrow> jval res" where
  "getProjectionHead E s projectionKey =
     (case find (\<lambda>row. projection_key row = js_text (JStr projectionKey) []) (head_rows s) of
        None \<Rightarrow> Inr JNull
      | Some row \<Rightarrow>
          ebind (parseJson (projection_json row) (''projection:'' @ projectionKey)) (\<lambda>projection.
          ebind (validateMaterializedEpistemicProjection E projection) (\<lambda>_. Inr projection)))"

definition listProjectionHeads :: "jsenv \<Rightarrow> ledger_store \<Rightarrow> jval list res" where
  "listProjectionHeads E s = emap (\<lambda>row.
     ebind (parseJson (projection_json row) ''projection-list'') (\<lambda>projection.
     ebind (validateMaterializedEpistemicProjection E projection) (\<lambda>_. Inr projection)))
     (sort_key projection_key (head_rows s))"

definition outboxInOrder :: "outbox_row list \<Rightarrow> outbox_row list" where
  \<comment> \<open>\<open>order by created_at asc, outbox_seed_id asc\<close>\<close>
  "outboxInOrder rows = sort_key outbox_created_at (sort_key outbox_seed_id rows)"

definition listOutboxSeeds :: "jsenv \<Rightarrow> ledger_store \<Rightarrow> string \<Rightarrow> string \<Rightarrow> jval list res" where
  \<comment> \<open>an empty event identifier or state selects every row\<close>
  "listOutboxSeeds E s ledgerEventId dispatchState = emap (\<lambda>row.
     ebind (parseJson (seed_json row) ''outbox-seed-list'') (\<lambda>seed.
     ebind (validateLedgerDeliveryOutboxSeed E seed) (\<lambda>_. Inr seed)))
     (outboxInOrder (filter (\<lambda>row. (ledgerEventId = [] \<or> outbox_event_id row = ledgerEventId)
        \<and> (dispatchState = [] \<or> dispatch_state row = dispatchState)) (outbox_rows s)))"

definition outboxEntry :: "jsenv \<Rightarrow> outbox_row \<Rightarrow> jval res" where
  "outboxEntry E row =
     ebind (parseJson (seed_json row) (''outbox-seed:'' @ outbox_seed_id row)) (\<lambda>seed.
     ebind (validateLedgerDeliveryOutboxSeed E seed) (\<lambda>_.
     ebind (if delivery_ref_json row = NoText then Inr JNull
            else ebind (parseJson (delivery_ref_json row) (''outbox-delivery-ref:'' @ outbox_seed_id row))
              (\<lambda>ref. ledgerExactRef E ref ''deliveryRef'')) (\<lambda>deliveryRef.
     ebind (if last_failure_json row = NoText then Inr JNull
            else parseJson (last_failure_json row) (''outbox-failure:'' @ outbox_seed_id row)) (\<lambda>lastFailure.
     Inr (JObj [(''seed'', seed), (''dispatchState'', JStr (dispatch_state row)),
       (''attemptCount'', num (attempt_count row)), (''deliveryRef'', deliveryRef),
       (''lastFailure'', lastFailure), (''updatedAt'', JStr (outbox_updated_at row))])))))"

definition listOutboxEntries :: "jsenv \<Rightarrow> ledger_store \<Rightarrow> string \<Rightarrow> bool \<Rightarrow> string \<Rightarrow> jval list res" where
  "listOutboxEntries E s ledgerEventId pendingOnly dispatchState = emap (outboxEntry E) (outboxInOrder
     (filter (\<lambda>row. (ledgerEventId = [] \<or> outbox_event_id row = ledgerEventId)
        \<and> (if pendingOnly then dispatch_state row \<in> {''pending'', ''retry_pending''}
           else dispatchState = [] \<or> dispatch_state row = dispatchState)) (outbox_rows s)))"

definition listPendingOutboxEntries :: "jsenv \<Rightarrow> ledger_store \<Rightarrow> jval list res" where
  "listPendingOutboxEntries E s = listOutboxEntries E s [] True []"

subsection \<open>Appending an event\<close>

definition prepareAppendInput :: "jsenv \<Rightarrow> ledger_store \<Rightarrow> jval \<Rightarrow> jval res" where
  \<comment> \<open>the normalised intent\<close>
  "prepareAppendInput E s input =
     (let actTypeRef = fld input ''actTypeRef'' in
     ebind (getActTypeConstitution E s actTypeRef) (\<lambda>constitution.
     if \<not> truthy constitution
     then fail ''ledger_act_type_constitution_unknown'' (js_text (fld actTypeRef ''id'') [])
     else
     let prepared = spread input [
       (''actClass'', JStr (js_text (fld input ''actClass'') (raw_string (fld constitution ''actClass'')))),
       (''epistemicPosture'', JStr (js_text (fld input ''epistemicPosture'') (raw_string (fld constitution ''defaultEpistemicPosture'')))),
       (''authorityPosture'', JStr (js_text (fld input ''authorityPosture'') (raw_string (fld constitution ''defaultAuthorityPosture'')))),
       (''typedPayloadSchema'', JStr (js_text (fld input ''typedPayloadSchema'') (raw_string (fld constitution ''typedPayloadSchema''))))] in
     ebind (normalizeLedgerAppendIntent E prepared) (\<lambda>intent.
     if \<not> strict_eq (fld intent ''actClass'') (fld constitution ''actClass'')
       \<or> fld intent ''authorshipKind'' \<notin> set (elems (fld constitution ''authorshipKinds''))
       \<or> (truthy (fld constitution ''typedPayloadSchema'')
          \<and> \<not> strict_eq (fld intent ''typedPayloadSchema'') (fld constitution ''typedPayloadSchema''))
       \<or> (elems (fld constitution ''allowedRoleLanes'') \<noteq> []
          \<and> fld (fld intent ''roleLaneRef'') ''id'' \<notin> set (elems (fld constitution ''allowedRoleLanes'')))
       \<or> (fld intent ''authorityPosture'' = JStr ''canonical_admission_receipt''
          \<and> \<not> truthy (fld constitution ''canonicalAdmissionCapable''))
     then fail ''epistemic_ledger_act_constitution_mismatch'' (detail_text E (fld constitution ''actTypeId''))
     else Inr intent)))"

definition eventRow :: "jval \<Rightarrow> event_row" where
  "eventRow event = \<lparr>
     global_sequence = int_of (fld event ''globalSequence''),
     ledger_event_id = raw_string (fld event ''ledgerEventId''),
     event_act_type_ref_id = raw_string (fld (fld event ''actTypeRef'') ''id''),
     act_class = raw_string (fld event ''actClass''),
     authorship_kind = raw_string (fld event ''authorshipKind''),
     epistemic_posture = raw_string (fld event ''epistemicPosture''),
     authority_posture = raw_string (fld event ''authorityPosture''),
     event_idempotency_key = raw_string (fld event ''idempotencyKey''),
     previous_ledger_digest = raw_string (fld event ''previousLedgerDigest''),
     event_digest = raw_string (fld event ''eventDigest''),
     event_json = json event,
     event_created_at = raw_string (fld event ''createdAt'')\<rparr>"

definition insertEvent :: "ledger_store \<Rightarrow> jval \<Rightarrow> ledger_store res" where
  "insertEvent s event = (let row = eventRow event in
     ebind (insertRow (event_act_type_ref_id row \<in> act_type_ref_id ` set (act_rows s)
         \<and> (\<forall>r\<in>set (event_rows s). global_sequence r \<noteq> global_sequence row
              \<and> ledger_event_id r \<noteq> ledger_event_id row \<and> event_digest r \<noteq> event_digest row))
       row (event_rows s)) (\<lambda>rows. Inr (s\<lparr>event_rows := rows\<rparr>)))"

definition membershipRow :: "jval \<Rightarrow> nat \<Rightarrow> jval \<Rightarrow> membership_row" where
  "membershipRow event index streamRef = \<lparr>member_sequence = int_of (fld event ''globalSequence''),
     stream_position = index, stream_key = raw_string (fld streamRef ''streamKey''),
     stream_ref_json = json streamRef\<rparr>"

fun insertMemberships :: "jval \<Rightarrow> nat \<Rightarrow> jval list \<Rightarrow> membership_row list \<Rightarrow> membership_row list res" where
  "insertMemberships event index [] rows = Inr rows"
| "insertMemberships event index (streamRef # streamRefs) rows =
     (let row = membershipRow event index streamRef in
     ebind (insertRow (\<forall>r\<in>set rows. (member_sequence r, stream_key r) \<noteq> (member_sequence row, stream_key row)
         \<and> (member_sequence r, stream_position r) \<noteq> (member_sequence row, stream_position row)) row rows)
       (insertMemberships event (Suc index) streamRefs))"

definition headRow :: "jval \<Rightarrow> head_row" where
  "headRow projection = \<lparr>projection_key = raw_string (fld projection ''projectionKey''),
     head_sequence = int_of (fld projection ''headSequence''), projection_json = json projection\<rparr>"

fun upsertHead :: "head_row \<Rightarrow> head_row list \<Rightarrow> head_row list" where
  \<comment> \<open>\<open>on conflict(projection_key) do update ... where excluded.head_sequence > head_sequence\<close>\<close>
  "upsertHead row [] = [row]"
| "upsertHead row (r # rows) =
     (if projection_key r = projection_key row
      then (if head_sequence r < head_sequence row then row else r) # rows
      else r # upsertHead row rows)"

definition applyProjectionHeadsForEvent :: "jsenv \<Rightarrow> jval \<Rightarrow> head_row list \<Rightarrow> head_row list res" where
  "applyProjectionHeadsForEvent E event heads =
     ebind (validateEpistemicLedgerEvent E event) (\<lambda>_.
     ebind (projectionKeysForEvent E event) (\<lambda>keys.
     efold (\<lambda>key rows. ebind (buildMaterializedEpistemicProjection E event key) (\<lambda>projection.
       Inr (upsertHead (headRow projection) rows))) keys heads))"

definition outboxRow :: "jval \<Rightarrow> jval \<Rightarrow> outbox_row" where
  "outboxRow event seed = \<lparr>
     outbox_seed_id = raw_string (fld seed ''outboxSeedId''),
     outbox_event_id = raw_string (fld event ''ledgerEventId''),
     subscription_identity = refIdentityKey (fld seed ''subscriptionRef''),
     recipient_identity = refIdentityKey (fld seed ''recipientRef''),
     dispatch_state = raw_string (fld seed ''dispatchState''),
     seed_digest = raw_string (fld seed ''seedDigest''),
     seed_json = json seed,
     attempt_count = 0,
     delivery_ref_json = NoText,
     delivery_ref_digest = [],
     last_failure_json = NoText,
     outbox_created_at = raw_string (fld seed ''createdAt''),
     outbox_updated_at = raw_string (fld seed ''createdAt'')\<rparr>"

definition insertOutbox :: "outbox_row \<Rightarrow> outbox_row list \<Rightarrow> outbox_row list res" where
  "insertOutbox row rows = insertRow (\<forall>r\<in>set rows. outbox_seed_id r \<noteq> outbox_seed_id row
     \<and> seed_digest r \<noteq> seed_digest row
     \<and> (outbox_event_id r, subscription_identity r, recipient_identity r)
       \<noteq> (outbox_event_id row, subscription_identity row, recipient_identity row)) row rows"

definition receiptRow :: "jval \<Rightarrow> jval \<Rightarrow> receipt_row" where
  "receiptRow event receipt = \<lparr>
     receipt_id = raw_string (fld receipt ''receiptId''),
     receipt_event_id = raw_string (fld event ''ledgerEventId''),
     actor_identity = raw_string (fld receipt ''actorIdentity''),
     operation_scope = raw_string (fld receipt ''operationScope''),
     idempotency_key = raw_string (fld event ''idempotencyKey''),
     append_request_digest = raw_string (fld receipt ''appendRequestDigest''),
     receipt_digest = raw_string (fld receipt ''receiptDigest''),
     receipt_json = json receipt,
     receipt_created_at = raw_string (fld receipt ''createdAt'')\<rparr>"

definition insertReceipt :: "receipt_row \<Rightarrow> receipt_row list \<Rightarrow> receipt_row list res" where
  "insertReceipt row rows = insertRow (\<forall>r\<in>set rows. receipt_id r \<noteq> receipt_id row
     \<and> receipt_event_id r \<noteq> receipt_event_id row \<and> receipt_digest r \<noteq> receipt_digest row
     \<and> (actor_identity r, operation_scope r, idempotency_key r)
       \<noteq> (actor_identity row, operation_scope row, idempotency_key row)) row rows"

definition replayAppend :: "jsenv \<Rightarrow> ledger_store \<Rightarrow> receipt_row \<Rightarrow> string \<Rightarrow> string \<Rightarrow> (jval \<times> ledger_store) res" where
  \<comment> \<open>the branch \<open>if (prior)\<close> of \<open>appendEvent\<close>\<close>
  "replayAppend E s prior appendRequestDigest conflict =
     ebind (getEvent E s (receipt_event_id prior)) (\<lambda>event.
     ebind (parseJson (receipt_json prior) (''receipt:'' @ receipt_event_id prior)) (\<lambda>persistedReceipt.
     ebind (validateLedgerWriteReceipt E persistedReceipt) (\<lambda>_.
     ebind (ledgerAppendIntentDigest E (spread event [
         (''operationScope'', fld persistedReceipt ''operationScope''),
         (''affectedContextRefs'', fld persistedReceipt ''affectedContextRefs''),
         (''lifecycleTransitionRefs'', fld persistedReceipt ''lifecycleTransitionRefs'')])) (\<lambda>persistedSemanticDigest.
     if persistedSemanticDigest \<noteq> appendRequestDigest
     then fail ''epistemic_ledger_idempotency_conflict'' conflict
     else
     ebind (replayLedgerWriteReceipt E persistedReceipt JUndef) (\<lambda>receipt.
     ebind (listOutboxSeeds E s (js_text (fld event ''ledgerEventId'') []) []) (\<lambda>outboxSeeds.
     Inr (JObj [(''event'', event), (''receipt'', receipt), (''persistedReceipt'', persistedReceipt),
       (''outboxSeeds'', JArr outboxSeeds)], s)))))))"

definition commitEvent :: "jsenv \<Rightarrow> ledger_store \<Rightarrow> jval \<Rightarrow> jval list \<Rightarrow> string \<Rightarrow> string \<Rightarrow> (jval \<times> ledger_store) res" where
  \<comment> \<open>the rest of \<open>appendEvent\<close>: a new event at the head of the ledger; the clock is read for the event
    and then once for each outbox seed\<close>
  "commitEvent E s intent outboxSeedIntents appendRequestDigest actor =
     (let rows = eventsInOrder s;
          globalSequence = (if rows = [] then 1 else global_sequence (last rows) + 1);
          previousLedgerDigest = (if rows = [] then LEDGER_GENESIS_DIGEST E else event_digest (last rows)) in
     ebind (isoAt E (date_now E 0)) (\<lambda>createdAt.
     ebind (buildEpistemicLedgerEvent E intent (JObj [(''globalSequence'', num globalSequence),
         (''previousLedgerDigest'', JStr previousLedgerDigest), (''createdAt'', JStr createdAt)])) (\<lambda>event.
     ebind (insertEvent s event) (\<lambda>s1.
     ebind (insertMemberships event 0 (elems (fld event ''streamRefs'')) (membership_rows s1)) (\<lambda>memberships.
     ebind (applyProjectionHeadsForEvent E event (head_rows s1)) (\<lambda>heads.
     ebind (emap (\<lambda>(i, seedInput). buildLedgerDeliveryOutboxSeed E seedInput event
         (JObj [(''now'', JNum (Fin (date_now E (i + 1))))])) (enumerate 0 outboxSeedIntents)) (\<lambda>outboxSeeds.
     ebind (efold (\<lambda>seed. insertOutbox (outboxRow event seed)) outboxSeeds (outbox_rows s1)) (\<lambda>outbox.
     ebind (buildLedgerWriteReceipt E (JObj [
         (''event'', event),
         (''actorIdentity'', JStr actor),
         (''operationScope'', fld intent ''operationScope''),
         (''appendRequestDigest'', JStr appendRequestDigest),
         (''appendState'', JStr ''appended''),
         (''affectedContextRefs'', fld intent ''affectedContextRefs''),
         (''lifecycleTransitionRefs'', fld intent ''lifecycleTransitionRefs''),
         (''deliveryDispatchState'', JStr (if outboxSeeds \<noteq> [] then ''outbox_committed'' else ''none'')),
         (''rendererSafeSummary'', fld event ''rendererSafeSummary''),
         (''createdAt'', fld event ''createdAt'')]) JUndef) (\<lambda>receipt.
     ebind (insertReceipt (receiptRow event receipt) (receipt_rows s1)) (\<lambda>receipts.
     Inr (JObj [(''event'', event), (''receipt'', receipt), (''persistedReceipt'', receipt),
         (''outboxSeeds'', JArr outboxSeeds)],
       s1\<lparr>membership_rows := memberships, head_rows := heads, outbox_rows := outbox,
         receipt_rows := receipts\<rparr>)))))))))))"

definition appendEvent :: "jsenv \<Rightarrow> ledger_store \<Rightarrow> jval \<Rightarrow> jval \<Rightarrow> (jval \<times> ledger_store) res" where
  "appendEvent E s arg opts =
     ebind (assertWritable s) (\<lambda>_.
     ebind (defaulted arg) (\<lambda>input.
     ebind (prepareAppendInput E s input) (\<lambda>intent.
     ebind (defaulted opts) (\<lambda>options.
     ebind (normalizeOutboxSeedIntents E (orEmpty (js_or (fld options ''outboxSeeds'') (fld input ''outboxSeeds'')))) (\<lambda>outboxSeedIntents.
     ebind (ledgerAppendIntentDigest E intent) (\<lambda>appendRequestDigest.
     ebind (ledgerExactRefKey E (fld intent ''actorRef'') False) (\<lambda>actor.
     let scope = raw_string (fld intent ''operationScope''); key = raw_string (fld intent ''idempotencyKey'') in
     case find (\<lambda>row. actor_identity row = actor \<and> operation_scope row = scope \<and> idempotency_key row = key) (receipt_rows s) of
       Some prior \<Rightarrow> replayAppend E s prior appendRequestDigest (actor @ '':'' @ scope @ '':'' @ key)
     | None \<Rightarrow> commitEvent E s intent outboxSeedIntents appendRequestDigest actor)))))))"

definition appendWorldManagerEvent :: "jsenv \<Rightarrow> ledger_store \<Rightarrow> jval \<Rightarrow> jval \<Rightarrow> (jval \<times> ledger_store) res" where
  "appendWorldManagerEvent E s sourceEvent opts =
     ebind (worldManagerEventLedgerIntent E sourceEvent opts) (\<lambda>intent.
     appendEvent E s intent (JObj [(''outboxSeeds'', orEmpty (fld opts ''outboxSeeds''))]))"

subsection \<open>Delivering the outbox\<close>

definition updateOutbox :: "string \<Rightarrow> (outbox_row \<Rightarrow> outbox_row) \<Rightarrow> ledger_store \<Rightarrow> ledger_store" where
  \<comment> \<open>\<open>update wm_ledger_delivery_outbox set ... where outbox_seed_id = ?\<close>\<close>
  "updateOutbox seedId f s = s\<lparr>outbox_rows := map (\<lambda>row. if outbox_seed_id row = seedId then f row else row) (outbox_rows s)\<rparr>"

definition markOutboxDispatched :: "jsenv \<Rightarrow> ledger_store \<Rightarrow> string \<Rightarrow> jval \<Rightarrow> (jval \<times> ledger_store) res" where
  "markOutboxDispatched E s outboxSeedId deliveryRefInput =
     ebind (assertWritable s) (\<lambda>_.
     let seedId = js_text (JStr outboxSeedId) [] in
     ebind (ledgerExactRef E deliveryRefInput ''deliveryRef'') (\<lambda>deliveryRef.
     case find (\<lambda>row. outbox_seed_id row = seedId) (outbox_rows s) of
       None \<Rightarrow> fail ''ledger_outbox_seed_unknown'' seedId
     | Some row \<Rightarrow>
         if dispatch_state row = ''dispatched''
         then ebind (parseJson (delivery_ref_json row) (''outbox-delivery-ref:'' @ seedId)) (\<lambda>parsed.
           ebind (ledgerExactRef E parsed ''deliveryRef'') (\<lambda>persistedRef.
           ebind (ledgerExactRefKey E persistedRef True) (\<lambda>persistedKey.
           ebind (ledgerExactRefKey E deliveryRef True) (\<lambda>deliveryKey.
           if persistedKey \<noteq> deliveryKey then fail ''ledger_outbox_dispatch_conflict'' seedId
           else Inr (JObj [(''outboxSeedId'', JStr seedId), (''dispatchState'', JStr ''dispatched''),
             (''deliveryRef'', persistedRef), (''changed'', JBool False)], s)))))
         else if dispatch_state row \<notin> {''pending'', ''retry_pending''}
         then fail ''ledger_outbox_transition_invalid'' (dispatch_state row)
         else ebind (isoAt E (date_now E 0)) (\<lambda>updatedAt.
           Inr (JObj [(''outboxSeedId'', JStr seedId), (''dispatchState'', JStr ''dispatched''),
               (''deliveryRef'', deliveryRef), (''changed'', JBool True)],
             updateOutbox seedId (\<lambda>r. r\<lparr>dispatch_state := ''dispatched'', delivery_ref_json := json deliveryRef,
               delivery_ref_digest := digestFor E ''direct_ledger_outbox_delivery_ref@1'' deliveryRef [],
               last_failure_json := NoText, outbox_updated_at := updatedAt\<rparr>) s))))"

definition dispatchFailure :: "jsenv \<Rightarrow> string \<Rightarrow> jval \<Rightarrow> bool \<Rightarrow> int \<Rightarrow> string \<Rightarrow> jval" where
  "dispatchFailure E failureCode summary retryable attempts observedAt =
     sealWith E ''direct_ledger_outbox_dispatch_failure@1'' ''failureDigest'' (JObj [
       (''schema'', JStr ''direct_ledger_outbox_dispatch_failure@1''),
       (''failureCode'', JStr failureCode),
       (''rendererSafeSummary'', JStr (ledgerBounded summary ''Delivery dispatch failed.'' 480)),
       (''retryable'', JBool retryable),
       (''attemptCount'', num attempts),
       (''observedAt'', JStr observedAt)])"

definition markOutboxDispatchFailed :: "jsenv \<Rightarrow> ledger_store \<Rightarrow> string \<Rightarrow> jval \<Rightarrow> (jval \<times> ledger_store) res" where
  "markOutboxDispatchFailed E s outboxSeedId arg =
     ebind (assertWritable s) (\<lambda>_.
     ebind (defaulted arg) (\<lambda>input.
     let seedId = js_text (JStr outboxSeedId) [];
         failureCode = js_text (js_or (fld input ''failureCode'') (fld input ''code'')) [] in
     if failureCode = [] then fail ''ledger_outbox_failure_code_required'' []
     else let retryable = fld input ''retryable'' \<noteq> JBool False in
     case find (\<lambda>row. outbox_seed_id row = seedId) (outbox_rows s) of
       None \<Rightarrow> fail ''ledger_outbox_seed_unknown'' seedId
     | Some row \<Rightarrow>
         if dispatch_state row = ''dispatched'' then fail ''ledger_outbox_transition_invalid'' ''dispatched''
         else if dispatch_state row = ''failed_terminal'' \<and> retryable
         then fail ''ledger_outbox_transition_invalid'' ''failed_terminal''
         else ebind (isoAt E (date_now E 0)) (\<lambda>updatedAt.
           let attempts = attempt_count row + 1;
               failure = dispatchFailure E failureCode (fld input ''rendererSafeSummary'') retryable attempts updatedAt;
               next = (if retryable then ''retry_pending'' else ''failed_terminal'') in
           Inr (JObj [(''outboxSeedId'', JStr seedId), (''dispatchState'', JStr next),
               (''attemptCount'', num attempts), (''failure'', failure)],
             updateOutbox seedId (\<lambda>r. r\<lparr>dispatch_state := next, attempt_count := attempts,
               last_failure_json := json failure, outbox_updated_at := updatedAt\<rparr>) s))))"

end
