(* ===== verification/LedgerVerify.thy ===== *)
theory LedgerVerify
  imports LedgerStore
begin

section \<open>Epistemic ledger: integrity, projections and restart\<close>

text \<open>
  The verification of a store: the hash chain of the events with their stream memberships,
  receipts and outbox rows (\<open>verifyLedgerIntegrity\<close>), the projection heads against the events
  (\<open>verifyProjectionHeads\<close>), their repair and what a restart does with the outcome. The checks
  are computations that may throw; \<open>caught\<close> turns a throw into the reported issue. The texts of
  the errors of the engine and of SQLite are the parameter \<open>msg\<close>.
\<close>

definition caught :: "(err \<Rightarrow> string) \<Rightarrow> string \<Rightarrow> jval res \<Rightarrow> jval" where
  \<comment> \<open>\<open>catch (error) { return { ok: false, issue: error.code || fallback, detail: error.detail || error.message } }\<close>\<close>
  "caught msg fallback r = (case r of Inr v \<Rightarrow> v
     | Inl e \<Rightarrow> JObj [(''ok'', JBool False),
         (''issue'', JStr (case e of Fail c d \<Rightarrow> c | _ \<Rightarrow> fallback)),
         (''detail'', JStr (case e of Fail c d \<Rightarrow>
            if c = ''ERR_SQLITE_ERROR'' then msg e else if d \<noteq> [] then d else c | _ \<Rightarrow> msg e))])"

subsection \<open>Projection heads\<close>

definition expectedProjectionMap :: "jsenv \<Rightarrow> jval list \<Rightarrow> (string \<times> jval) list res" where
  "expectedProjectionMap E events = efold (\<lambda>event m.
     ebind (projectionKeysForEvent E event) (\<lambda>keys.
     efold (\<lambda>key m. ebind (buildMaterializedEpistemicProjection E event key) (\<lambda>projection.
       Inr (AList.update key projection m))) keys m)) events []"

definition projectionCheck :: "jsenv \<Rightarrow> ledger_store \<Rightarrow> jval res" where
  \<comment> \<open>the body of the \<open>try\<close> of \<open>verifyProjectionHeads\<close>\<close>
  "projectionCheck E s =
     ebind (listEvents E s 0 10000) (\<lambda>events.
     ebind (expectedProjectionMap E events) (\<lambda>expected.
     ebind (listProjectionHeads E s) (\<lambda>heads.
     let actual = assign_all [] (map (\<lambda>p. (raw_string (fld p ''projectionKey''), p)) heads) in
     if length expected \<noteq> length actual
     then Inr (JObj [(''ok'', JBool False), (''issue'', JStr ''projection_head_count_mismatch''),
       (''expectedCount'', num (int (length expected))), (''actualCount'', num (int (length actual)))])
     else case find (\<lambda>(key, projection). case map_of actual key of None \<Rightarrow> True
         | Some p \<Rightarrow> \<not> jsonEqual E p projection) expected of
       Some (key, projection) \<Rightarrow> Inr (JObj [(''ok'', JBool False), (''issue'', JStr ''projection_head_mismatch''),
         (''projectionKey'', JStr key)])
     | None \<Rightarrow> Inr (JObj [(''ok'', JBool True), (''projectionCount'', num (int (length expected)))]))))"

definition verifyProjectionHeads :: "jsenv \<Rightarrow> (err \<Rightarrow> string) \<Rightarrow> ledger_store \<Rightarrow> jval" where
  "verifyProjectionHeads E msg s = caught msg ''projection_verification_failed'' (projectionCheck E s)"

subsection \<open>The chain of events\<close>

definition constitutionsByRef :: "jsenv \<Rightarrow> ledger_store \<Rightarrow> (jval \<times> jval) list res" where
  "constitutionsByRef E s =
     ebind (listActTypeConstitutions E s) (\<lambda>constitutions.
     emap (\<lambda>v. ebind (ledgerActTypeConstitutionRef E v) (\<lambda>ref. Inr (fld ref ''id'', v))) constitutions)"

definition membershipsOf :: "ledger_store \<Rightarrow> jval \<Rightarrow> membership_row list" where
  "membershipsOf s event = sort_key stream_position
     (filter (\<lambda>m. num (member_sequence m) = fld event ''globalSequence'') (membership_rows s))"

definition checkEvent :: "jsenv \<Rightarrow> ledger_store \<Rightarrow> (jval \<times> jval) list \<Rightarrow> event_row \<Rightarrow> string \<times> int \<Rightarrow> (string \<times> int) res" where
  \<comment> \<open>one turn of the loop over the events, with \<open>priorDigest\<close> and \<open>expectedSequence\<close>\<close>
  "checkEvent E s constitutionByRef row st = (case st of (priorDigest, expectedSequence) \<Rightarrow>
     ebind (eventFromRow E row) (\<lambda>event.
     if fld event ''globalSequence'' \<noteq> num expectedSequence
     then fail ''epistemic_ledger_sequence_gap''
       (int_text expectedSequence @ ''->'' @ js_string E (fld event ''globalSequence''))
     else if fld event ''previousLedgerDigest'' \<noteq> JStr priorDigest
     then fail ''epistemic_ledger_digest_chain_invalid'' (detail_text E (fld event ''ledgerEventId''))
     else if (case map_of (rev constitutionByRef) (fld (fld event ''actTypeRef'') ''id'') of
         None \<Rightarrow> True | Some c \<Rightarrow> fld c ''digest'' \<noteq> fld (fld event ''actTypeRef'') ''digest'')
     then fail ''epistemic_ledger_act_type_ref_invalid'' (detail_text E (fld (fld event ''actTypeRef'') ''id''))
     else ebind (emap (\<lambda>m. parseJson (stream_ref_json m)
         (''stream-membership:'' @ js_string E (fld event ''ledgerEventId''))) (membershipsOf s event)) (\<lambda>memberships.
     if \<not> jsonEqual E (JArr memberships) (fld event ''streamRefs'')
     then fail ''epistemic_ledger_stream_membership_mismatch'' (detail_text E (fld event ''ledgerEventId''))
     else Inr (raw_string (fld event ''eventDigest''), expectedSequence + 1))))"

definition eventsById :: "jsenv \<Rightarrow> ledger_store \<Rightarrow> (string \<times> jval) list res" where
  "eventsById E s = emap (\<lambda>row. ebind (eventFromRow E row) (\<lambda>event. Inr (ledger_event_id row, event))) (eventsInOrder s)"

definition checkReceipt :: "jsenv \<Rightarrow> (string \<times> jval) list \<Rightarrow> receipt_row \<Rightarrow> bool res" where
  "checkReceipt E eventById row =
     ebind (parseJson (receipt_json row) (''receipt:'' @ receipt_id row)) (\<lambda>receipt.
     ebind (validateLedgerWriteReceipt E receipt) (\<lambda>_.
     case map_of (rev eventById) (receipt_event_id row) of
       None \<Rightarrow> fail ''epistemic_ledger_receipt_row_mismatch'' (receipt_id row)
     | Some event \<Rightarrow>
         if \<not> exactEventRefMatches (fld receipt ''ledgerEventRef'') event
           \<or> fld receipt ''receiptId'' \<noteq> JStr (receipt_id row)
           \<or> fld receipt ''receiptDigest'' \<noteq> JStr (receipt_digest row)
           \<or> fld receipt ''appendRequestDigest'' \<noteq> JStr (append_request_digest row)
         then fail ''epistemic_ledger_receipt_row_mismatch'' (receipt_id row)
         else ebind (ledgerExactRefKey E (fld event ''actorRef'') False) (\<lambda>actor.
         if actor_identity row \<noteq> actor
           \<or> fld receipt ''actorIdentity'' \<noteq> JStr (actor_identity row)
           \<or> fld receipt ''operationScope'' \<noteq> JStr (operation_scope row)
           \<or> fld receipt ''idempotencyKey'' \<noteq> JStr (idempotency_key row)
           \<or> fld event ''idempotencyKey'' \<noteq> JStr (idempotency_key row)
         then fail ''epistemic_ledger_receipt_row_mismatch'' (receipt_id row)
         else Inr True)))"

definition dispatch_states :: "string list" where
  "dispatch_states = [''pending'', ''retry_pending'', ''dispatched'', ''failed_terminal'']"

definition checkOutbox :: "jsenv \<Rightarrow> (string \<times> jval) list \<Rightarrow> outbox_row \<Rightarrow> bool res" where
  "checkOutbox E eventById row =
     ebind (parseJson (seed_json row) (''outbox-seed:'' @ outbox_seed_id row)) (\<lambda>seed.
     ebind (validateLedgerDeliveryOutboxSeed E seed) (\<lambda>_.
     if (case map_of (rev eventById) (outbox_event_id row) of None \<Rightarrow> True
         | Some event \<Rightarrow> \<not> exactEventRefMatches (fld seed ''ledgerEventRef'') event)
       \<or> fld seed ''outboxSeedId'' \<noteq> JStr (outbox_seed_id row)
       \<or> fld seed ''seedDigest'' \<noteq> JStr (seed_digest row)
       \<or> dispatch_state row \<notin> set dispatch_states
     then fail ''epistemic_ledger_outbox_row_mismatch'' (outbox_seed_id row)
     else
     ebind (if dispatch_state row = ''dispatched''
       then ebind (parseJson (delivery_ref_json row) (''outbox-delivery-ref:'' @ outbox_seed_id row)) (\<lambda>parsed.
         ebind (ledgerExactRef E parsed ''deliveryRef'') (\<lambda>deliveryRef.
         if delivery_ref_digest row \<noteq> digestFor E ''direct_ledger_outbox_delivery_ref@1'' deliveryRef []
         then fail ''epistemic_ledger_outbox_delivery_ref_mismatch'' (outbox_seed_id row)
         else Inr True))
       else Inr True) (\<lambda>_.
     if dispatch_state row \<in> {''retry_pending'', ''failed_terminal''}
     then ebind (parseJson (last_failure_json row) (''outbox-failure:'' @ outbox_seed_id row)) (\<lambda>failure.
       if fld failure ''schema'' \<noteq> JStr ''direct_ledger_outbox_dispatch_failure@1''
         \<or> js_text (fld failure ''failureCode'') [] = []
         \<or> to_number E (fld failure ''attemptCount'') \<noteq> Fin (of_int (attempt_count row))
         \<or> fld failure ''failureDigest'' \<noteq> JStr (digestFor E ''direct_ledger_outbox_dispatch_failure@1'' failure [''failureDigest''])
       then fail ''epistemic_ledger_outbox_failure_mismatch'' (outbox_seed_id row)
       else Inr True)
     else Inr True)))"

definition integrityCheck :: "jsenv \<Rightarrow> ledger_store \<Rightarrow> jval res" where
  \<comment> \<open>the body of the \<open>try\<close> of \<open>verifyLedgerIntegrity\<close>\<close>
  "integrityCheck E s =
     ebind (constitutionsByRef E s) (\<lambda>constitutionByRef.
     ebind (efold (checkEvent E s constitutionByRef) (eventsInOrder s) (LEDGER_GENESIS_DIGEST E, 1)) (\<lambda>final.
     ebind (eventsById E s) (\<lambda>eventById.
     ebind (eforeach (checkReceipt E eventById) (sort_key receipt_created_at (receipt_rows s))) (\<lambda>_.
     if length (receipt_rows s) \<noteq> length (event_rows s)
     then fail ''epistemic_ledger_receipt_count_mismatch''
       (nat_text (length (receipt_rows s)) @ '':'' @ nat_text (length (event_rows s)))
     else
     ebind (eforeach (checkOutbox E eventById) (sort_key outbox_created_at (outbox_rows s))) (\<lambda>_.
     Inr (JObj [(''ok'', JBool True),
       (''eventCount'', num (int (length (event_rows s)))),
       (''receiptCount'', num (int (length (receipt_rows s)))),
       (''outboxSeedCount'', num (int (length (outbox_rows s)))),
       (''headSequence'', num (int (length (event_rows s)))),
       (''headDigest'', JStr (fst final))]))))))"

definition verifyLedgerIntegrity :: "jsenv \<Rightarrow> (err \<Rightarrow> string) \<Rightarrow> ledger_store \<Rightarrow> jval" where
  "verifyLedgerIntegrity E msg s =
     caught msg ''epistemic_ledger_integrity_verification_failed'' (integrityCheck E s)"

subsection \<open>Repair and restart\<close>

definition rebuildProjectionHeads :: "jsenv \<Rightarrow> (err \<Rightarrow> string) \<Rightarrow> ledger_store \<Rightarrow> (jval \<times> ledger_store) res" where
  "rebuildProjectionHeads E msg s =
     (let chain = verifyLedgerIntegrity E msg s in
     if fld chain ''ok'' \<noteq> JBool True
     then fail ''epistemic_ledger_projection_rebuild_blocked'' (raw_string (fld chain ''issue''))
     else
     ebind (listEvents E s 0 10000) (\<lambda>events.
     ebind (efold (applyProjectionHeadsForEvent E) events []) (\<lambda>heads.
     let s' = s\<lparr>head_rows := heads\<rparr>; verification = verifyProjectionHeads E msg s' in
     if fld verification ''ok'' \<noteq> JBool True
     then fail ''epistemic_ledger_projection_rebuild_failed'' (raw_string (fld verification ''issue''))
     else Inr (JObj [(''rebuilt'', JBool True), (''eventCount'', num (int (length events))),
       (''projectionCount'', fld verification ''projectionCount'')], s'))))"

definition verifyRestartState :: "jsenv \<Rightarrow> (err \<Rightarrow> string) \<Rightarrow> bool \<Rightarrow> ledger_store \<Rightarrow> (jval \<times> ledger_store) res" where
  \<comment> \<open>\<open>repair\<close> is \<open>options.repairProjections !== false\<close>\<close>
  "verifyRestartState E msg repair s =
     (let chain = verifyLedgerIntegrity E msg s in
     if fld chain ''ok'' \<noteq> JBool True
     then Inr (JObj [(''ok'', JBool False), (''writable'', JBool False), (''chain'', chain),
         (''projections'', JObj [(''ok'', JBool False), (''issue'', JStr ''not_checked'')])],
       s\<lparr>readOnlyDiagnosis := chain\<rparr>)
     else
     let first = verifyProjectionHeads E msg s in
     ebind (if fld first ''ok'' \<noteq> JBool True \<and> repair
         then ebind (rebuildProjectionHeads E msg s) (\<lambda>(r, s'). Inr (r, s', verifyProjectionHeads E msg s'))
         else Inr (JNull, s, first)) (\<lambda>(rebuild, s', projections).
     if fld projections ''ok'' \<noteq> JBool True
     then Inr (JObj [(''ok'', JBool False), (''writable'', JBool False), (''chain'', chain),
         (''projections'', projections), (''rebuild'', rebuild)], s'\<lparr>readOnlyDiagnosis := projections\<rparr>)
     else Inr (JObj [(''ok'', JBool True), (''writable'', JBool True), (''chain'', chain),
         (''projections'', projections), (''rebuild'', rebuild)], s'\<lparr>readOnlyDiagnosis := JNull\<rparr>)))"

definition descriptor :: "jsenv \<Rightarrow> (err \<Rightarrow> string) \<Rightarrow> string \<Rightarrow> ledger_store \<Rightarrow> jval" where
  "descriptor E msg dbPath s =
     (let chain = verifyLedgerIntegrity E msg s;
          projections = (if truthy (fld chain ''ok'') then verifyProjectionHeads E msg s
            else JObj [(''ok'', JBool False), (''issue'', JStr ''not_checked'')]) in
     JObj [(''schema'', JStr ''direct_epistemic_ledger_store@1''),
       (''persistence'', JStr ''sqlite_wal_same_control_plane_custody''),
       (''dbPath'', JStr dbPath), (''writable'', JBool (\<not> truthy (readOnlyDiagnosis s))),
       (''chain'', chain), (''projections'', projections),
       (''actTypeConstitutionCount'', num (int (length (act_rows s)))),
       (''rawChainOfThoughtStored'', JBool False), (''rawSecretStored'', JBool False),
       (''canonicalWorldstateWriter'', JBool False)])"

end
