(* ===== verification/LedgerNormal.thy ===== *)
theory LedgerNormal
  imports LedgerVerify
begin

section \<open>Epistemic ledger: normal forms\<close>

text \<open>
  What the normalisers of the ledger return and what a second normalisation of it does. A
  reference, an intent and every record of the ledger survive being written as JSON text and read
  back. Nothing but the clock reading of a builder depends on the clock.
\<close>

subsection \<open>JSON data\<close>

lemma cloneJson_JUndef_iff [simp]: "cloneJson v = JUndef \<longleftrightarrow> v = JUndef"
  by (cases v) (auto split: jnum.splits)

lemma own_entries_map_snd:
  "own_entries (map (\<lambda>(k, v). (k, f v)) fs) = map (\<lambda>(k, v). (k, f v)) (own_entries fs)"
proof -
  have "sort_key (\<lambda>(k, v). decimal k) (map (\<lambda>(k, v). (k, f v)) gs)
      = map (\<lambda>(k, v). (k, f v)) (sort_key (\<lambda>(k, v). decimal k) gs)" for gs
  proof (induction gs)
    case (Cons g gs)
    have "insort_key (\<lambda>(k, v). decimal k) (fst g, f (snd g)) (map (\<lambda>(k, v). (k, f v)) hs)
       = map (\<lambda>(k, v). (k, f v)) (insort_key (\<lambda>(k, v). decimal k) g hs)" for hs
      by (induction hs) (auto simp: case_prod_unfold)
    with Cons show ?case by (simp add: case_prod_unfold)
  qed simp
  then show ?thesis
    by (simp add: own_entries_def filter_map comp_def case_prod_unfold)
qed

lemma own_entries_idem [simp]: "own_entries (own_entries fs) = own_entries fs"
proof -
  let ?A = "sort_key (\<lambda>(k, v). decimal k) (filter (\<lambda>(k, v). is_index k) fs)"
  let ?B = "filter (\<lambda>(k, v). \<not> is_index k) fs"
  have "filter (\<lambda>(k, v). is_index k) ?A = ?A" "filter (\<lambda>(k, v). \<not> is_index k) ?A = []"
    by (auto simp: filter_empty_conv intro: filter_True)
  moreover have "filter (\<lambda>(k, v). is_index k) ?B = []" by (auto simp: filter_empty_conv)
  moreover have "sort_key (\<lambda>(k, v). decimal k) ?A = ?A"
    by (rule sort_key_id_if_sorted) (rule sorted_sort_key)
  ultimately show ?thesis by (simp add: own_entries_def)
qed

lemma own_entries_names: "(\<forall>e\<in>set fs. \<not> is_index (fst e)) \<Longrightarrow> own_entries fs = fs"
proof -
  assume a: "\<forall>e\<in>set fs. \<not> is_index (fst e)"
  then have "filter (\<lambda>(k, v). is_index k) fs = []" "filter (\<lambda>(k, v). \<not> is_index k) fs = fs"
    by (auto simp: filter_empty_conv intro!: filter_True)
  then show ?thesis by (simp add: own_entries_def)
qed

lemma cloneJson_idem [simp]: "cloneJson (cloneJson v) = cloneJson v"
proof (induction v rule: cloneJson.induct)
  case (1 n)
  then show ?case by (cases n) auto
next
  case (2 vs)
  then show ?case by auto
next
  case (3 fs)
  let ?gs = "map (\<lambda>(k, v). (k, cloneJson v)) (filter (\<lambda>(k, v). v \<noteq> JUndef) fs)"
  let ?m = "map (\<lambda>(k, v). (k, cloneJson v))"
  have f: "filter (\<lambda>(k, v). v \<noteq> JUndef) (own_entries ?gs) = own_entries ?gs"
    by (rule filter_True) auto
  have m: "?m ?gs = ?gs" using 3 by auto
  have "cloneJson (JObj (own_entries ?gs)) = JObj (own_entries (?m (own_entries ?gs)))"
    by (simp only: cloneJson.simps f)
  also have "\<dots> = JObj (own_entries (own_entries (?m ?gs)))" by (simp only: own_entries_map_snd)
  finally show ?case by (simp only: m own_entries_idem cloneJson.simps)
qed auto

definition jsonic :: "jval \<Rightarrow> bool" where
  \<comment> \<open>a value that JSON text can carry\<close>
  "jsonic v \<longleftrightarrow> cloneJson v = v \<and> v \<noteq> JUndef"

definition jsonic_entries :: "(string \<times> jval) list \<Rightarrow> bool" where
  "jsonic_entries fs \<longleftrightarrow> (\<forall>e\<in>set fs. \<not> is_index (fst e) \<and> jsonic (snd e))"

lemma jsonic_clone: "v \<noteq> JUndef \<Longrightarrow> jsonic (cloneJson v)"
  by (simp add: jsonic_def)

lemma jsonic_simps [simp]:
  "jsonic JNull" "jsonic (JBool b)" "jsonic (JStr s)" "jsonic (JNum (Fin r))" "\<not> jsonic JUndef"
  by (simp_all add: jsonic_def)

lemma jsonic_num [simp]: "jsonic (num i)"
  by (simp add: num_def)

lemma jsonic_JArr [simp]: "jsonic (JArr vs) \<longleftrightarrow> (\<forall>v\<in>set vs. jsonic v)"
proof
  assume "jsonic (JArr vs)"
  then have m: "map (\<lambda>v. if v = JUndef then JNull else cloneJson v) vs = vs" by (simp add: jsonic_def)
  show "\<forall>v\<in>set vs. jsonic v"
  proof
    fix v assume "v \<in> set vs"
    with m have "(if v = JUndef then JNull else cloneJson v) = v" by (induction vs) auto
    then show "jsonic v" by (auto simp: jsonic_def split: if_splits)
  qed
qed (auto simp: jsonic_def intro!: map_idI)

lemma jsonic_JObj: "jsonic_entries fs \<Longrightarrow> jsonic (JObj fs)"
proof -
  assume a: "jsonic_entries fs"
  then have "filter (\<lambda>(k, v). v \<noteq> JUndef) fs = fs" "map (\<lambda>(k, v). (k, cloneJson v)) fs = fs"
    by (auto simp: jsonic_entries_def jsonic_def intro!: filter_True map_idI)
  with a show ?thesis by (simp add: jsonic_def own_entries_names jsonic_entries_def)
qed

lemma jsonic_entries_simps [simp]:
  "jsonic_entries []" "jsonic_entries ((k, v) # fs) \<longleftrightarrow> \<not> is_index k \<and> jsonic v \<and> jsonic_entries fs"
  "jsonic_entries (fs @ gs) \<longleftrightarrow> jsonic_entries fs \<and> jsonic_entries gs"
  by (auto simp: jsonic_entries_def)

lemma jsonic_entries_update [simp]:
  "jsonic_entries fs \<Longrightarrow> \<not> is_index k \<Longrightarrow> jsonic v \<Longrightarrow> jsonic_entries (AList.update k v fs)"
  by (induction fs) auto

lemma jsonic_entries_assign_all:
  "jsonic_entries fs \<Longrightarrow> jsonic_entries gs \<Longrightarrow> jsonic_entries (assign_all fs gs)"
  unfolding assign_all_def by (induction gs arbitrary: fs) auto

lemma is_index_Cons: "\<not> is_digit c \<Longrightarrow> \<not> is_index (c # cs)"
  by (simp add: is_index_def)

lemma letter_index [simp]: "97 \<le> (of_char c :: nat) \<Longrightarrow> \<not> is_index (c # cs)"
  by (rule is_index_Cons) (simp add: is_digit_def)

lemma json_jsonic: "jsonic v \<Longrightarrow> json v = JsonOf v"
  by (cases v) (simp_all add: json_def jsonic_def)

lemma parse_json [simp]: "jsonic v \<Longrightarrow> parseJson (json v) l = Inr v"
  by (simp add: json_jsonic parseJson_def)

lemma isPlainObject_clone [simp]: "isPlainObject (cloneJson v) = isPlainObject v"
  by (cases v) (auto split: jnum.splits)

subsection \<open>The clock\<close>

lemma json_text_clock [simp]: "json_text (E\<lparr>date_now := t\<rparr>) v = json_text E v"
proof (induction E v rule: json_text.induct)
  case (4 E n)
  then show ?case by (auto simp: rat_text_def split: jnum.splits)
next
  case (6 E vs)
  then have m: "map (json_text (E\<lparr>date_now := t\<rparr>)) vs = map (json_text E) vs" by auto
  show ?case by (simp only: json_text.simps m)
next
  case (7 E fs)
  then have m: "map (\<lambda>(k, v). (k, json_text (E\<lparr>date_now := t\<rparr>) v)) (filter (\<lambda>(k, v). v \<noteq> JUndef) fs)
     = map (\<lambda>(k, v). (k, json_text E v)) (filter (\<lambda>(k, v). v \<noteq> JUndef) fs)" by auto
  show ?case by (simp only: json_text.simps m)
qed auto

lemma digestFor_clock [simp]: "digestFor (E\<lparr>date_now := t\<rparr>) = digestFor E"
  by (intro ext) (simp add: digestFor_def stringified_def)

lemma js_string_clock [simp]: "js_string (E\<lparr>date_now := t\<rparr>) v = js_string E v"
proof (induction E v rule: js_string.induct)
  case (9 E vs)
  then have m: "map (\<lambda>v. if nullish v then [] else js_string (E\<lparr>date_now := t\<rparr>) v) vs
     = map (\<lambda>v. if nullish v then [] else js_string E v) vs" by auto
  show ?case by (simp only: js_string.simps m)
qed (auto simp: rat_text_def)

lemma to_number_clock [simp]: "to_number (E\<lparr>date_now := t\<rparr>) v = to_number E v"
  by (cases v) (simp_all add: to_number_def del: js_string.simps)

lemma js_less_clock [simp]: "js_less (E\<lparr>date_now := t\<rparr>) v c = js_less E v c"
  by (simp add: js_less_def)

lemma detail_text_clock [simp]: "detail_text (E\<lparr>date_now := t\<rparr>) v = detail_text E v"
  by (simp add: detail_text_def)

lemma stableIdN_clock [simp]: "stableIdN (E\<lparr>date_now := t\<rparr>) p v n = stableIdN E p v n"
  by (simp add: stableIdN_def)

lemma sealWith_clock [simp]: "sealWith (E\<lparr>date_now := t\<rparr>) sch f v = sealWith E sch f v"
  by (simp add: sealWith_def)

lemma genesis_clock [simp]: "LEDGER_GENESIS_DIGEST (E\<lparr>date_now := t\<rparr>) = LEDGER_GENESIS_DIGEST E"
  by (simp add: LEDGER_GENESIS_DIGEST_def)

lemma jsonEqual_clock [simp]: "jsonEqual (E\<lparr>date_now := t\<rparr>) a b = jsonEqual E a b"
  by (simp add: jsonEqual_def)

lemma ledgerExactRef_clock [simp]: "ledgerExactRef (E\<lparr>date_now := t\<rparr>) v l = ledgerExactRef E v l"
  by (simp add: ledgerExactRef_def Let_def)

lemma ledgerOptionalRef_clock [simp]: "ledgerOptionalRef (E\<lparr>date_now := t\<rparr>) v l = ledgerOptionalRef E v l"
  by (simp add: ledgerOptionalRef_def)

lemma ledgerExactRefKey_clock [simp]: "ledgerExactRefKey (E\<lparr>date_now := t\<rparr>) v b = ledgerExactRefKey E v b"
  by (simp add: ledgerExactRefKey_def)

lemma ledgerUniqueRefs_clock [simp]: "ledgerUniqueRefs (E\<lparr>date_now := t\<rparr>) v l = ledgerUniqueRefs E v l"
  by (simp add: ledgerUniqueRefs_def)

lemma revisionEntries_clock [simp]: "revisionEntries (E\<lparr>date_now := t\<rparr>) i seen vs = revisionEntries E i seen vs"
  by (induction vs arbitrary: i seen) (simp_all add: Let_def cong: if_cong)

lemma normalizeRevisionVector_clock [simp]: "normalizeRevisionVector (E\<lparr>date_now := t\<rparr>) v = normalizeRevisionVector E v"
  by (simp add: normalizeRevisionVector_def)

lemma validators_clock [simp]:
  "validateLedgerActTypeConstitution (E\<lparr>date_now := t\<rparr>) v = validateLedgerActTypeConstitution E v"
  "validateEpistemicLedgerEvent (E\<lparr>date_now := t\<rparr>) v = validateEpistemicLedgerEvent E v"
  "validateLedgerWriteReceipt (E\<lparr>date_now := t\<rparr>) v = validateLedgerWriteReceipt E v"
  "validateMaterializedEpistemicProjection (E\<lparr>date_now := t\<rparr>) v = validateMaterializedEpistemicProjection E v"
  "validateLedgerDeliveryOutboxSeed (E\<lparr>date_now := t\<rparr>) v = validateLedgerDeliveryOutboxSeed E v"
  by (simp_all add: validateLedgerActTypeConstitution_def validateEpistemicLedgerEvent_def validateLedgerWriteReceipt_def
    validateMaterializedEpistemicProjection_def validateLedgerDeliveryOutboxSeed_def Let_def cong: if_cong split del: if_split)

lemma references_clock [simp]:
  "ledgerActTypeConstitutionRef (E\<lparr>date_now := t\<rparr>) v = ledgerActTypeConstitutionRef E v"
  "epistemicLedgerEventRef (E\<lparr>date_now := t\<rparr>) v = epistemicLedgerEventRef E v"
  "projectionKeysForEvent (E\<lparr>date_now := t\<rparr>) v = projectionKeysForEvent E v"
  "normalizeLedgerAppendIntent (E\<lparr>date_now := t\<rparr>) v = normalizeLedgerAppendIntent E v"
  "ledgerAppendIntentDigest (E\<lparr>date_now := t\<rparr>) v = ledgerAppendIntentDigest E v"
  "normalizeOutboxSeedIntents (E\<lparr>date_now := t\<rparr>) v = normalizeOutboxSeedIntents E v"
  by (simp_all add: ledgerActTypeConstitutionRef_def epistemicLedgerEventRef_def projectionKeysForEvent_def
    normalizeLedgerAppendIntent_def ledgerAppendIntentDigest_def normalizeOutboxSeedIntents_def Let_def cong: if_cong split del: if_split)

lemma projections_clock [simp]:
  "buildMaterializedEpistemicProjection (E\<lparr>date_now := t\<rparr>) v k = buildMaterializedEpistemicProjection E v k"
  by (simp add: buildMaterializedEpistemicProjection_def Let_def cong: if_cong split del: if_split)

end
