(* ===== verification/LedgerStable.thy ===== *)
theory LedgerStable
  imports LedgerNormal
begin

section \<open>Epistemic ledger: normalising twice is enough\<close>

text \<open>
  Cutting a label or a summary can leave blanks at its end, which the next normalisation trims:
  one pass over an intent need not be a fixed point, two passes are. The references, scopes,
  streams and intents that a normaliser returns are \<open>normal\<close>; normalising a normal value gives a
  \<open>stable\<close> one, and stable values are fixed.
\<close>

subsection \<open>Bounded text\<close>

definition no_lead :: "string \<Rightarrow> bool" where
  "no_lead s \<longleftrightarrow> s = [] \<or> \<not> is_space (hd s)"

lemma js_text_empty [simp]: "trim (js_text v []) = js_text v []"
  by simp

lemma no_lead_trim: "no_lead (trim s)"
  using trim_ends [of s] by (auto simp: no_lead_def)

lemma no_lead_take: "no_lead s \<Longrightarrow> no_lead (take n s)"
  by (cases s; cases n) (auto simp: no_lead_def)

lemma no_lead_text: "no_lead (js_text v [])"
  using no_lead_trim [of "js_text v []"] by simp

lemma trimEnd_take: "\<exists>n. trimEnd s = take n s"
proof -
  have "s = trimEnd s @ rev (takeWhile is_space (rev s))"
    by (metis rev_append rev_rev_ident takeWhile_dropWhile_id trimEnd_def)
  then have "trimEnd s = take (length (trimEnd s)) s" by (metis append_eq_conv_conj)
  then show ?thesis ..
qed

lemma trim_no_lead: "no_lead s \<Longrightarrow> trim s = trimEnd s"
  by (cases s) (auto simp: no_lead_def trim_def)

lemma trim_no_lead_Nil: "no_lead s \<Longrightarrow> trim s = [] \<longleftrightarrow> s = []"
  by (metis hd_in_set no_lead_def trim_Nil trim_not_Nil)

lemma trim_length: "length (trim s) \<le> length s"
  using trimEnd_length [of "dropWhile is_space s"] length_dropWhile_le [of is_space s] by (simp add: trim_def)

lemma js_text_no_lead: "no_lead s \<Longrightarrow> s \<noteq> [] \<Longrightarrow> js_text (JStr s) fb = trim s"
  by (simp add: js_text_JStr trim_no_lead_Nil)

subsection \<open>References\<close>

definition madeRef :: "string \<Rightarrow> string \<Rightarrow> string \<Rightarrow> string \<Rightarrow> string \<Rightarrow> int \<Rightarrow> jval" where
  "madeRef kind ident digest label projectId n = JObj ([(''kind'', JStr kind), (''id'', JStr ident), (''digest'', JStr digest)]
     @ (if label \<noteq> [] then [(''label'', JStr label)] else [])
     @ (if projectId \<noteq> [] then [(''projectId'', JStr projectId)] else [])
     @ (if 0 < n then [(''revision'', num n)] else []))"

lemma fld_madeRef [simp]:
  "fld (madeRef k i d l p n) ''kind'' = JStr k" "fld (madeRef k i d l p n) ''id'' = JStr i"
  "fld (madeRef k i d l p n) ''digest'' = JStr d"
  "fld (madeRef k i d l p n) ''label'' = (if l = [] then JUndef else JStr l)"
  "fld (madeRef k i d l p n) ''projectId'' = (if p = [] then JUndef else JStr p)"
  "fld (madeRef k i d l p n) ''revision'' = (if 0 < n then num n else JUndef)"
  "isPlainObject (madeRef k i d l p n)" "truthy (madeRef k i d l p n)"
  by (auto simp: madeRef_def)

lemma jsonic_madeRef [simp]: "jsonic (madeRef k i d l p n)"
  by (auto simp: madeRef_def intro!: jsonic_JObj)

definition normal_ref :: "(string \<Rightarrow> bool) \<Rightarrow> jval \<Rightarrow> bool" where
  \<comment> \<open>\<open>ok\<close> is a condition on the label\<close>
  "normal_ref ok r \<longleftrightarrow> (\<exists>k i d l p n. r = madeRef k i d l p n \<and> k \<noteq> [] \<and> i \<noteq> [] \<and> d \<noteq> [] \<and> trim k = k \<and> trim i = i
     \<and> trim d = d \<and> trim p = p \<and> no_lead l \<and> length l \<le> 240 \<and> 0 \<le> n \<and> ok l)"

abbreviation cut_ref :: "jval \<Rightarrow> bool" where
  "cut_ref \<equiv> normal_ref (\<lambda>l. True)"

abbreviation stable_ref :: "jval \<Rightarrow> bool" where
  "stable_ref \<equiv> normal_ref (\<lambda>l. trim l = l)"

definition restab :: "jval \<Rightarrow> jval" where
  \<comment> \<open>a normalised reference with its label trimmed\<close>
  "restab r = madeRef (raw_string (fld r ''kind'')) (raw_string (fld r ''id'')) (raw_string (fld r ''digest''))
     (trim (raw_string (fld r ''label''))) (raw_string (fld r ''projectId'')) (int_of (fld r ''revision''))"

lemma int_of_num [simp]: "int_of (num n) = n" "int_of JUndef = 0"
  by (simp_all add: int_of_def num_def)

lemma raw_string_simps [simp]: "raw_string (JStr s) = s" "raw_string JUndef = []" "raw_string JNull = []"
  by (simp_all add: raw_string_def)

lemma restab_madeRef: "0 \<le> n \<Longrightarrow> restab (madeRef k i d l p n) = madeRef k i d (trim l) p n"
  by (auto simp: restab_def)

lemma ledgerExactRef_madeRef:
  assumes "k \<noteq> []" "i \<noteq> []" "d \<noteq> []" "trim k = k" "trim i = i" "trim d = d" "trim p = p" "no_lead l" "length l \<le> 240" "0 \<le> n"
  shows "ledgerExactRef E (madeRef k i d l p n) lab = Inr (madeRef k i d (trim l) p n)"
proof -
  have "take 240 (trim l) = trim l" using assms(9) trim_length [of l] by simp
  then have l: "ledgerBounded (if l = [] then JUndef else JStr l) [] 240 = trim l"
    using assms(8) by (auto simp: ledgerBounded_def js_text_no_lead)
  have p: "js_text (if p = [] then JUndef else JStr p) [] = p" using assms(7) by simp
  have n: "(if isInteger (JNum (to_number E (if 0 < n then num n else JUndef)))
      \<and> num_less (Fin 0) (to_number E (JNum (to_number E (if 0 < n then num n else JUndef))))
     then [(''revision'', JNum (to_number E (if 0 < n then num n else JUndef)))] else [])
     = (if 0 < n then [(''revision'', num n)] else [])"
    by (simp add: num_def isInteger_def)
  show ?thesis using assms(1-6)
    by (simp add: ledgerExactRef_def Let_def l p n madeRef_def [of k i d "trim l"] del: to_number_simps)
qed

lemma ledgerExactRef_cut: "ledgerExactRef E v l = Inr r \<Longrightarrow> cut_ref r"
proof -
  assume "ledgerExactRef E v l = Inr r"
  then obtain x where x: "x = to_number E (fld v ''revision'')" and r: "js_text (fld v ''kind'') [] \<noteq> []"
    "js_text (fld v ''id'') [] \<noteq> []" "js_text (fld v ''digest'') [] \<noteq> []"
    "r = JObj ([(''kind'', JStr (js_text (fld v ''kind'') [])), (''id'', JStr (js_text (fld v ''id'') [])), (''digest'', JStr (js_text (fld v ''digest'') []))]
        @ (if ledgerBounded (fld v ''label'') [] 240 \<noteq> [] then [(''label'', JStr (ledgerBounded (fld v ''label'') [] 240))] else [])
        @ (if js_text (fld v ''projectId'') [] \<noteq> [] then [(''projectId'', JStr (js_text (fld v ''projectId'') []))] else [])
        @ (if isInteger (JNum x) \<and> num_less (Fin 0) x then [(''revision'', JNum x)] else []))"
    by (auto simp: ledgerExactRef_def Let_def split: if_splits)
  obtain n where n: "0 \<le> n" "(if isInteger (JNum x) \<and> num_less (Fin 0) x then [(''revision'', JNum x)] else [])
     = (if 0 < n then [(''revision'', num n)] else [])"
  proof (cases "isInteger (JNum x) \<and> num_less (Fin 0) x")
    case True
    then obtain i where i: "JNum x = num i" by (auto dest: isIntegerE)
    with True have "0 < i" by (simp add: num_def)
    with True i show thesis by (intro that [of i]) auto
  next
    case False
    then show thesis by (intro that [of 0]) auto
  qed
  show ?thesis unfolding normal_ref_def
    by (intro exI [of _ "js_text (fld v ''kind'') []"] exI [of _ "js_text (fld v ''id'') []"] exI [of _ "js_text (fld v ''digest'') []"]
        exI [of _ "ledgerBounded (fld v ''label'') [] 240"] exI [of _ "js_text (fld v ''projectId'') []"] exI [of _ n])
      (simp add: r madeRef_def n ledgerBounded_def no_lead_take no_lead_text)
qed

lemma ledgerExactRef_restab:
  assumes "normal_ref ok r"
  shows "ledgerExactRef E r l = Inr (restab r)" "stable_ref (restab r)"
    "refIdentityKey (restab r) = refIdentityKey r" "refDigestKey (restab r) = refDigestKey r"
    "fld (restab r) ''id'' = fld r ''id''" "fld (restab r) ''digest'' = fld r ''digest''"
proof -
  obtain k i d lb p n where r: "r = madeRef k i d lb p n" "k \<noteq> []" "i \<noteq> []" "d \<noteq> []" "trim k = k" "trim i = i"
     "trim d = d" "trim p = p" "no_lead lb" "length lb \<le> 240" "0 \<le> n"
    using assms by (auto simp: normal_ref_def)
  show "ledgerExactRef E r l = Inr (restab r)"
    using r by (simp add: restab_madeRef ledgerExactRef_madeRef)
  have "length (trim lb) \<le> 240" using r(10) trim_length [of lb] by simp
  with r show "stable_ref (restab r)"
    unfolding normal_ref_def restab_madeRef [OF r(11)] r(1)
    by (intro exI [of _ k] exI [of _ i] exI [of _ d] exI [of _ "trim lb"] exI [of _ p] exI [of _ n]) (simp add: no_lead_trim)
  show "refIdentityKey (restab r) = refIdentityKey r" "refDigestKey (restab r) = refDigestKey r"
    "fld (restab r) ''id'' = fld r ''id''" "fld (restab r) ''digest'' = fld r ''digest''"
    using r by (simp_all add: restab_madeRef refIdentityKey_def refDigestKey_def)
qed

lemma restab_stable: "stable_ref r \<Longrightarrow> restab r = r"
  by (auto simp: normal_ref_def restab_madeRef)

lemma stable_cut: "normal_ref ok r \<Longrightarrow> cut_ref r"
  unfolding normal_ref_def by blast

lemma normal_ref_simps:
  assumes "normal_ref ok r"
  shows "isPlainObject r" "truthy r" "jsonic r" "\<exists>i. fld r ''id'' = JStr i \<and> i \<noteq> [] \<and> trim i = i"
    "\<exists>i. fld r ''digest'' = JStr i \<and> i \<noteq> [] \<and> trim i = i" "\<exists>i. fld r ''kind'' = JStr i \<and> i \<noteq> [] \<and> trim i = i"
  using assms by (auto simp: normal_ref_def)

lemma ledgerExactRefKey_cut: "cut_ref r \<Longrightarrow> ledgerExactRefKey E r b = Inr (if b then refDigestKey r else refIdentityKey r)"
  by (simp add: ledgerExactRefKey_def ledgerExactRef_restab)

definition normal_opt :: "(string \<Rightarrow> bool) \<Rightarrow> jval \<Rightarrow> bool" where
  "normal_opt ok r \<longleftrightarrow> r = JNull \<or> normal_ref ok r"

definition restabOpt :: "jval \<Rightarrow> jval" where
  "restabOpt r = (if r = JNull then JNull else restab r)"

lemma ledgerOptionalRef_cut: "ledgerOptionalRef E v l = Inr r \<Longrightarrow> normal_opt (\<lambda>_. True) r"
  by (auto simp: ledgerOptionalRef_def normal_opt_def dest: ledgerExactRef_cut split: if_splits)

lemma ledgerOptionalRef_restab:
  assumes "normal_opt ok r"
  shows "ledgerOptionalRef E r l = Inr (restabOpt r)" "normal_opt (\<lambda>l. trim l = l) (restabOpt r)"
  using assms by (auto simp: ledgerOptionalRef_def normal_opt_def restabOpt_def ledgerExactRef_restab
      dest: normal_ref_simps(2))

lemma restabOpt_stable: "normal_opt (\<lambda>l. trim l = l) r \<Longrightarrow> restabOpt r = r"
  by (auto simp: normal_opt_def restabOpt_def restab_stable)

lemma normal_opt_jsonic: "normal_opt ok r \<Longrightarrow> jsonic r"
  by (auto simp: normal_opt_def dest: normal_ref_simps(3))

definition normal_refs :: "(string \<Rightarrow> bool) \<Rightarrow> jval \<Rightarrow> bool" where
  "normal_refs ok v \<longleftrightarrow> (\<exists>rs. v = JArr rs \<and> (\<forall>r\<in>set rs. normal_ref ok r) \<and> length rs \<le> 128 \<and> distinct (map refDigestKey rs))"

definition restabs :: "jval \<Rightarrow> jval" where
  "restabs v = JArr (map restab (elems v))"

lemma emapi_restab: "\<forall>r\<in>set rs. normal_ref ok r \<Longrightarrow>
   emapi (\<lambda>index entry. ledgerExactRef E entry (f index)) n rs = Inr (map restab rs)"
  by (rule emapi_total) (blast intro: ledgerExactRef_restab(1))

lemma ledgerUniqueRefs_cut: "ledgerUniqueRefs E v l = Inr rs \<Longrightarrow> normal_refs (\<lambda>_. True) (JArr rs)"
proof -
  assume "ledgerUniqueRefs E v l = Inr rs"
  then obtain refs where e: "emapi (\<lambda>index entry. ledgerExactRef E entry (l @ ''.'' @ nat_text index)) 0 (take 128 (elems v)) = Inr refs"
    and rs: "rs = dedup refDigestKey refs"
    by (auto simp: ledgerUniqueRefs_def ebind_Inr_iff split: if_splits)
  from emapi_Inr_length [OF e] have "length refs \<le> 128" by simp
  then have "length rs \<le> 128" using dedup_from_length [of refDigestKey "[]" refs] by (simp add: rs)
  moreover have "\<forall>r\<in>set rs. cut_ref r"
    using dedup_from_subset [of refDigestKey "[]" refs] emapi_Inr_mem [OF e] by (auto simp: rs dest: ledgerExactRef_cut)
  ultimately show ?thesis unfolding normal_refs_def rs by (auto simp: dedup_from_distinct)
qed

lemma restab_keys: "\<forall>r\<in>set rs. normal_ref ok r \<Longrightarrow> map refDigestKey (map restab rs) = map refDigestKey rs"
  by (auto intro: ledgerExactRef_restab(4))

lemma ledgerUniqueRefs_restab:
  assumes "normal_refs ok v"
  shows "ledgerUniqueRefs E v l = Inr (map restab (elems v))" "normal_refs (\<lambda>l. trim l = l) (restabs v)"
proof -
  obtain rs where v: "v = JArr rs" and n: "\<forall>r\<in>set rs. normal_ref ok r" and l: "length rs \<le> 128" and d: "distinct (map refDigestKey rs)"
    using assms by (auto simp: normal_refs_def)
  have d': "distinct (map refDigestKey (map restab rs))" using d by (simp only: restab_keys [OF n])
  then have "dedup refDigestKey (map restab rs) = map restab rs" by (intro dedup_from_id) auto
  with l show "ledgerUniqueRefs E v l = Inr (map restab (elems v))"
    by (simp add: v ledgerUniqueRefs_def emapi_restab [OF n])
  from l n d' show "normal_refs (\<lambda>l. trim l = l) (restabs v)"
    unfolding normal_refs_def restabs_def v
    by (intro exI [of _ "map restab rs"]) (auto intro: ledgerExactRef_restab(2) simp del: map_map)
qed

lemma restabs_stable: "normal_refs (\<lambda>l. trim l = l) v \<Longrightarrow> restabs v = v"
  by (auto simp: normal_refs_def restabs_def restab_stable intro!: map_idI)

lemma normal_refs_jsonic: "normal_refs ok v \<Longrightarrow> jsonic v"
  by (auto simp: normal_refs_def) (blast intro: normal_ref_simps(3))

end
