(* ===== verification/LedgerIntents.thy ===== *)
theory LedgerIntents
  imports LedgerStable
begin

section \<open>Epistemic ledger: the normal form of an append intent\<close>

text \<open>
  The fields of an intent are normal after one normalisation and stable after two; what the
  normaliser does depends on these fields only, so an event, which repeats most of them, can be
  normalised back into the intent it was built from. The idempotency of appends rests on this.
\<close>

subsection \<open>Streams, scopes and revision vectors\<close>

definition normal_stream :: "jval \<Rightarrow> bool" where
  "normal_stream s \<longleftrightarrow> (\<exists>t i. t \<in> set STREAM_TYPES \<and> trim t = t \<and> t \<noteq> [] \<and> i \<noteq> [] \<and> trim i = i
     \<and> s = JObj [(''schema'', JStr LEDGER_STREAM_REF_SCHEMA), (''streamType'', JStr t), (''streamId'', JStr i),
         (''streamKey'', JStr (t @ '':'' @ i))])"

lemma normal_stream_fixed:
  assumes "normal_stream s"
  shows "buildLedgerStreamRef s l = Inr s" "validateLedgerStreamRef s l = Inr True" "jsonic s"
    "\<exists>k. fld s ''streamKey'' = JStr k"
proof -
  show b: "buildLedgerStreamRef s l = Inr s"
    using assms by (auto simp: normal_stream_def buildLedgerStreamRef_def Let_def)
  show "validateLedgerStreamRef s l = Inr True"
    using assms by (auto simp: validateLedgerStreamRef_def b normal_stream_def)
  show "jsonic s" "\<exists>k. fld s ''streamKey'' = JStr k"
    using assms by (auto simp: normal_stream_def intro!: jsonic_JObj)
qed

lemma empty_stream [simp]: "[] \<notin> set STREAM_TYPES"
  by (simp add: STREAM_TYPES_def)

lemma buildLedgerStreamRef_normal: "buildLedgerStreamRef v l = Inr s \<Longrightarrow> normal_stream s"
  by (cases v) (auto simp: buildLedgerStreamRef_def normal_stream_def Let_def split: if_splits)

definition normal_streams :: "jval \<Rightarrow> bool" where
  "normal_streams v \<longleftrightarrow> (\<exists>rs. v = JArr rs \<and> rs \<noteq> [] \<and> length rs \<le> 64 \<and> (\<forall>r\<in>set rs. normal_stream r)
     \<and> distinct (map (\<lambda>r. fld r ''streamKey'') rs))"

lemma uniqueStreamRefs_normal: "uniqueStreamRefs v = Inr rs \<Longrightarrow> normal_streams (JArr rs)"
proof -
  assume "uniqueStreamRefs v = Inr rs"
  then obtain refs where n: "elems v \<noteq> []"
    and e: "emapi (\<lambda>index entry. buildLedgerStreamRef entry (''streamRefs.'' @ nat_text index)) 0 (take 64 (elems v)) = Inr refs"
    and rs: "rs = dedup (\<lambda>ref. fld ref ''streamKey'') refs"
    by (auto simp: uniqueStreamRefs_def ebind_Inr_iff split: if_splits)
  from emapi_Inr_length [OF e] n have "length refs \<le> 64" "refs \<noteq> []" by (cases "elems v"; auto)+
  then have "length rs \<le> 64" using dedup_from_length [of "\<lambda>ref. fld ref ''streamKey''" "[]" refs] by (simp add: rs)
  moreover have "rs \<noteq> []" using dedup_keys [of "\<lambda>ref. fld ref ''streamKey''" refs] \<open>refs \<noteq> []\<close> by (auto simp: rs)
  moreover have "\<forall>r\<in>set rs. normal_stream r"
    using dedup_from_subset [of "\<lambda>ref. fld ref ''streamKey''" "[]" refs] emapi_Inr_mem [OF e]
    by (auto simp: rs dest: buildLedgerStreamRef_normal)
  ultimately show ?thesis unfolding normal_streams_def rs by (auto simp: dedup_from_distinct)
qed

lemma uniqueStreamRefs_fixed:
  assumes "normal_streams v" shows "uniqueStreamRefs v = Inr (elems v)"
proof -
  obtain rs where v: "v = JArr rs" "rs \<noteq> []" "length rs \<le> 64" "\<forall>r\<in>set rs. normal_stream r"
     "distinct (map (\<lambda>r. fld r ''streamKey'') rs)"
    using assms by (auto simp: normal_streams_def)
  have "emapi (\<lambda>index entry. buildLedgerStreamRef entry (''streamRefs.'' @ nat_text index)) 0 rs = Inr (map (\<lambda>x. x) rs)"
    by (rule emapi_total) (simp add: v(4) normal_stream_fixed)
  moreover have "dedup (\<lambda>ref. fld ref ''streamKey'') rs = rs" using v(5) by (intro dedup_from_id) auto
  ultimately show ?thesis using v by (simp add: uniqueStreamRefs_def)
qed

lemma normal_streams_elems: "normal_streams v \<Longrightarrow> v = JArr (elems v)" "normal_streams v \<Longrightarrow> elems v \<noteq> []"
  "normal_streams v \<Longrightarrow> jsonic v"
  by (auto simp: normal_streams_def normal_stream_fixed)

definition normal_scope :: "jval \<Rightarrow> bool" where
  "normal_scope s \<longleftrightarrow> normalizeSemanticScope s = Inr s \<and> isPlainObject s \<and> jsonic s"

lemma normalizeSemanticScope_normal: "normalizeSemanticScope v = Inr s \<Longrightarrow> normal_scope s"
proof -
  assume a: "normalizeSemanticScope v = Inr s"
  let ?f = "\<lambda>k. js_text (fld v k) []"
  obtain kind world where s: "s = JObj [(''kind'', JStr kind), (''userWorldId'', JStr world), (''projectId'', JStr (?f ''projectId'')),
      (''taskType'', JStr (?f ''taskType'')), (''taskId'', JStr (?f ''taskId'')), (''workThreadId'', JStr (?f ''workThreadId'')),
      (''artifactLifecycleId'', JStr (?f ''artifactLifecycleId''))]"
    and k: "kind \<in> set SCOPE_KINDS" "trim kind = kind" "world \<noteq> []" "trim world = world"
    and c: "\<not> (kind = ''project'' \<and> ?f ''projectId'' = [])" "\<not> (kind = ''task'' \<and> ?f ''taskId'' = [] \<and> ?f ''taskType'' = [])"
      "\<not> (kind = ''workthread'' \<and> ?f ''workThreadId'' = [])" "\<not> (kind = ''artifact'' \<and> ?f ''artifactLifecycleId'' = [])"
  proof -
    have "trim ''project'' = ''project''" "trim ''user_world'' = ''user_world''" "trim ''user_world_local'' = ''user_world_local''"
      by (simp_all add: trim_id is_space_def)
    with a show thesis
      by (intro that [of "js_text (fld v ''kind'') (if js_text (fld v ''projectId'') [] \<noteq> [] then ''project'' else ''user_world'')"
          "js_text (fld v ''userWorldId'') ''user_world_local''"])
        (auto simp: normalizeSemanticScope_def Let_def ebind_Inr_iff js_text_nonempty split: if_splits)
  qed
  have "kind \<noteq> []" using k(1) by (auto simp: SCOPE_KINDS_def)
  with k c show ?thesis unfolding normal_scope_def s
    by (auto simp: normalizeSemanticScope_def requirePlainObject_def dflt_def Let_def intro!: jsonic_JObj)
qed

definition normal_entry :: "(string \<Rightarrow> bool) \<Rightarrow> jval \<Rightarrow> bool" where
  "normal_entry ok e \<longleftrightarrow> (\<exists>r n. e = JObj [(''scopeRef'', r), (''revision'', num n)] \<and> normal_ref ok r \<and> 0 \<le> n)"

definition entryKey :: "jval \<Rightarrow> string" where
  "entryKey e = refIdentityKey (fld e ''scopeRef'')"

definition restabEntry :: "jval \<Rightarrow> jval" where
  "restabEntry e = JObj [(''scopeRef'', restab (fld e ''scopeRef'')), (''revision'', fld e ''revision'')]"

definition normal_vector :: "(string \<Rightarrow> bool) \<Rightarrow> jval \<Rightarrow> bool" where
  "normal_vector ok v \<longleftrightarrow> (\<exists>es. v = JArr es \<and> (\<forall>e\<in>set es. normal_entry ok e) \<and> length es \<le> 128 \<and> distinct (map entryKey es))"

definition restabVector :: "jval \<Rightarrow> jval" where
  "restabVector v = JArr (map restabEntry (elems v))"

lemma restabEntry:
  assumes "normal_entry ok e"
  shows "normal_entry (\<lambda>l. trim l = l) (restabEntry e)" "entryKey (restabEntry e) = entryKey e" "jsonic e" "isPlainObject e"
  using assms by (auto simp: normal_entry_def restabEntry_def entryKey_def ledgerExactRef_restab normal_ref_simps intro!: jsonic_JObj)

lemma revisionEntries_normal:
  "revisionEntries E i seen vs = Inr es \<Longrightarrow> (\<forall>e\<in>set es. normal_entry (\<lambda>_. True) e) \<and> length es = length vs
     \<and> distinct (map entryKey es) \<and> entryKey ` set es \<inter> set seen = {}"
proof (induction vs arbitrary: i seen es)
  case (Cons v vs)
  from Cons.prems obtain r x rest where r: "ledgerExactRef E (js_or (js_or (fld v ''scopeRef'') (fld v ''objectRef'')) (fld v ''ref''))
          (''expectedRevisionVector.'' @ nat_text i @ ''.scopeRef'') = Inr r"
    and x: "isInteger (JNum x)" "\<not> js_less E (JNum x) 0" and k: "refIdentityKey r \<notin> set seen"
    and rest: "revisionEntries E (Suc i) (refIdentityKey r # seen) vs = Inr rest"
    and es: "es = JObj [(''scopeRef'', r), (''revision'', JNum x)] # rest"
    by (auto simp: ebind_Inr_iff Let_def split: if_splits)
  from x(1) obtain n where n: "JNum x = num n" by (auto dest: isIntegerE)
  with x(2) have "0 \<le> n" by (auto simp: js_less_def num_def)
  with r n have "normal_entry (\<lambda>_. True) (JObj [(''scopeRef'', r), (''revision'', JNum x)])"
    by (auto simp: normal_entry_def dest: ledgerExactRef_cut)
  with Cons.IH [OF rest] k show ?case by (auto simp: es entryKey_def)
qed auto

lemma JNum_of_int: "JNum (Fin (of_int n)) = num n"
  by (simp add: num_def)

lemma revisionEntries_restab:
  "\<forall>e\<in>set es. normal_entry ok e \<Longrightarrow> distinct (map entryKey es) \<Longrightarrow> entryKey ` set es \<inter> set seen = {} \<Longrightarrow>
   revisionEntries E i seen es = Inr (map restabEntry es)"
proof (induction es arbitrary: i seen)
  case (Cons e es)
  then obtain r n where e: "e = JObj [(''scopeRef'', r), (''revision'', num n)]" "normal_ref ok r" "0 \<le> n"
    by (auto simp: normal_entry_def)
  have t: "truthy r" using e(2) by (rule normal_ref_simps)
  have "revisionEntries E (Suc i) (refIdentityKey r # seen) es = Inr (map restabEntry es)"
    using Cons.prems by (intro Cons.IH) (auto simp: entryKey_def e)
  then show ?case using e(3) Cons.prems(3)
    by (simp add: e(1) t ledgerExactRef_restab [OF e(2)] Let_def restabEntry_def entryKey_def js_less_def JNum_of_int)
qed simp

lemma normalizeRevisionVector_normal: "normalizeRevisionVector E v = Inr es \<Longrightarrow> normal_vector (\<lambda>_. True) (JArr es)"
  by (auto simp: normalizeRevisionVector_def normal_vector_def dest: revisionEntries_normal split: if_splits)

lemma normalizeRevisionVector_restab:
  assumes "normal_vector ok v"
  shows "normalizeRevisionVector E v = Inr (map restabEntry (elems v))" "normal_vector (\<lambda>l. trim l = l) (restabVector v)"
proof -
  obtain es where v: "v = JArr es" and n: "\<forall>e\<in>set es. normal_entry ok e" and l: "length es \<le> 128" and d: "distinct (map entryKey es)"
    using assms by (auto simp: normal_vector_def)
  show "normalizeRevisionVector E v = Inr (map restabEntry (elems v))"
    using l revisionEntries_restab [OF n d, of "[]"] by (simp add: v normalizeRevisionVector_def)
  have "map entryKey (map restabEntry es) = map entryKey es" using n by (auto intro: restabEntry(2))
  with d have "distinct (map entryKey (map restabEntry es))" by (simp only:)
  with l n show "normal_vector (\<lambda>l. trim l = l) (restabVector v)"
    unfolding normal_vector_def restabVector_def v
    by (intro exI [of _ "map restabEntry es"]) (auto intro: restabEntry(1) simp del: map_map)
qed

lemma restabEntry_stable: "normal_entry (\<lambda>l. trim l = l) e \<Longrightarrow> restabEntry e = e"
  by (auto simp: normal_entry_def restabEntry_def restab_stable)

lemma restabVector_stable: "normal_vector (\<lambda>l. trim l = l) v \<Longrightarrow> restabVector v = v"
  by (auto simp: normal_vector_def restabVector_def intro!: map_idI) (metis restabEntry_stable)

lemma normal_vector_jsonic: "normal_vector ok v \<Longrightarrow> jsonic v"
  by (auto simp: normal_vector_def) (blast intro: restabEntry(3))

subsection \<open>Intents\<close>

definition normal_text :: "jval \<Rightarrow> bool" where
  "normal_text v \<longleftrightarrow> (\<exists>s. v = JStr s \<and> s \<noteq> [] \<and> trim s = s)"

definition normal_summary :: "(string \<Rightarrow> bool) \<Rightarrow> jval \<Rightarrow> bool" where
  "normal_summary ok v \<longleftrightarrow> (\<exists>s. v = JStr s \<and> s \<noteq> [] \<and> no_lead s \<and> length s \<le> 1200 \<and> ok s)"

definition shaped :: "(string \<Rightarrow> bool) \<Rightarrow> (string \<Rightarrow> bool) \<Rightarrow> jval \<Rightarrow> bool" where
  \<comment> \<open>the fields of an intent; \<open>ok\<close> and \<open>sm\<close> are conditions on its labels and its summary\<close>
  "shaped ok sm v \<longleftrightarrow>
     normal_streams (fld v ''streamRefs'') \<and>
     normal_ref ok (fld v ''actTypeRef'') \<and>
     one_of (fld v ''actClass'') ACT_CLASSES \<and>
     one_of (fld v ''authorshipKind'') AUTHORSHIP_KINDS \<and>
     normal_ref ok (fld v ''actorRef'') \<and>
     normal_ref ok (fld v ''roleLaneRef'') \<and>
     normal_opt ok (fld v ''agentRunRef'') \<and>
     normal_scope (fld v ''subjectScope'') \<and>
     normal_refs ok (fld v ''objectRefs'') \<and>
     normal_opt ok (fld v ''artifactLifecycleRef'') \<and>
     normal_refs ok (fld v ''evidenceRefs'') \<and>
     normal_refs ok (fld v ''affectsRefs'') \<and>
     normal_refs ok (fld v ''sourceEventRefs'') \<and>
     normal_vector ok (fld v ''expectedRevisionVector'') \<and>
     one_of (fld v ''epistemicPosture'') EPISTEMIC_POSTURES \<and>
     one_of (fld v ''authorityPosture'') AUTHORITY_POSTURES \<and>
     normal_text (fld v ''typedPayloadSchema'') \<and>
     isPlainObject (fld v ''typedPayload'') \<and> jsonic (fld v ''typedPayload'') \<and>
     normal_summary sm (fld v ''rendererSafeSummary'') \<and>
     normal_text (fld v ''idempotencyKey'') \<and>
     normal_text (fld v ''operationScope'') \<and>
     normal_refs ok (fld v ''affectedContextRefs'') \<and>
     normal_refs ok (fld v ''lifecycleTransitionRefs'')"

definition restabIntent :: "jval \<Rightarrow> jval" where
  "restabIntent v = JObj [
     (''streamRefs'', fld v ''streamRefs''),
     (''actTypeRef'', restab (fld v ''actTypeRef'')),
     (''actClass'', fld v ''actClass''),
     (''authorshipKind'', fld v ''authorshipKind''),
     (''actorRef'', restab (fld v ''actorRef'')),
     (''roleLaneRef'', restab (fld v ''roleLaneRef'')),
     (''agentRunRef'', restabOpt (fld v ''agentRunRef'')),
     (''subjectScope'', fld v ''subjectScope''),
     (''objectRefs'', restabs (fld v ''objectRefs'')),
     (''artifactLifecycleRef'', restabOpt (fld v ''artifactLifecycleRef'')),
     (''evidenceRefs'', restabs (fld v ''evidenceRefs'')),
     (''affectsRefs'', restabs (fld v ''affectsRefs'')),
     (''sourceEventRefs'', restabs (fld v ''sourceEventRefs'')),
     (''expectedRevisionVector'', restabVector (fld v ''expectedRevisionVector'')),
     (''epistemicPosture'', fld v ''epistemicPosture''),
     (''authorityPosture'', fld v ''authorityPosture''),
     (''typedPayloadSchema'', fld v ''typedPayloadSchema''),
     (''typedPayload'', fld v ''typedPayload''),
     (''rendererSafeSummary'', JStr (trim (raw_string (fld v ''rendererSafeSummary'')))),
     (''idempotencyKey'', fld v ''idempotencyKey''),
     (''operationScope'', fld v ''operationScope''),
     (''affectedContextRefs'', restabs (fld v ''affectedContextRefs'')),
     (''lifecycleTransitionRefs'', restabs (fld v ''lifecycleTransitionRefs''))]"

abbreviation stable_intent :: "jval \<Rightarrow> bool" where
  "stable_intent \<equiv> shaped (\<lambda>l. trim l = l) (\<lambda>s. trim s = s)"

lemma vocabulary_words:
  "s \<in> set ACT_CLASSES \<Longrightarrow> trim s = s \<and> s \<noteq> []" "s \<in> set AUTHORSHIP_KINDS \<Longrightarrow> trim s = s \<and> s \<noteq> []"
  "s \<in> set EPISTEMIC_POSTURES \<Longrightarrow> trim s = s \<and> s \<noteq> []" "s \<in> set AUTHORITY_POSTURES \<Longrightarrow> trim s = s \<and> s \<noteq> []"
  "s \<in> set DELIVERY_POLICIES \<Longrightarrow> trim s = s \<and> s \<noteq> []"
  by (auto simp: ACT_CLASSES_def AUTHORSHIP_KINDS_def EPISTEMIC_POSTURES_def AUTHORITY_POSTURES_def DELIVERY_POLICIES_def
    trim_id is_space_def)

lemma one_of_text:
  "one_of v ACT_CLASSES \<Longrightarrow> js_text v fb \<in> set ACT_CLASSES \<and> JStr (js_text v fb) = v"
  "one_of v AUTHORSHIP_KINDS \<Longrightarrow> js_text v fb \<in> set AUTHORSHIP_KINDS \<and> JStr (js_text v fb) = v"
  "one_of v EPISTEMIC_POSTURES \<Longrightarrow> js_text v fb \<in> set EPISTEMIC_POSTURES \<and> JStr (js_text v fb) = v"
  "one_of v AUTHORITY_POSTURES \<Longrightarrow> js_text v fb \<in> set AUTHORITY_POSTURES \<and> JStr (js_text v fb) = v"
  "one_of v DELIVERY_POLICIES \<Longrightarrow> js_text v fb \<in> set DELIVERY_POLICIES \<and> JStr (js_text v fb) = v"
  by (cases v; simp add: js_text_JStr vocabulary_words)+

lemma normal_text_id: "normal_text v \<Longrightarrow> js_text v fb \<noteq> [] \<and> JStr (js_text v fb) = v"
  by (auto simp: normal_text_def)

lemma normal_text_JStr: "js_text v [] \<noteq> [] \<Longrightarrow> normal_text (JStr (js_text v []))"
  by (simp add: normal_text_def)

lemma normal_summary_restab:
  assumes "normal_summary ok v"
  shows "JStr (ledgerBounded v fb 1200) = JStr (trim (raw_string v))" "normal_summary (\<lambda>s. trim s = s) (JStr (trim (raw_string v)))"
proof -
  obtain s where s: "v = JStr s" "s \<noteq> []" "no_lead s" "length s \<le> 1200" using assms by (auto simp: normal_summary_def)
  then have l: "length (trim s) \<le> 1200" using trim_length [of s] by simp
  with s show "JStr (ledgerBounded v fb 1200) = JStr (trim (raw_string v))"
    by (simp add: ledgerBounded_def js_text_no_lead)
  from s l show "normal_summary (\<lambda>s. trim s = s) (JStr (trim (raw_string v)))"
    by (auto simp: normal_summary_def no_lead_trim trim_no_lead_Nil)
qed

lemma normal_summary_bounded: "trim fb = fb \<Longrightarrow> fb \<noteq> [] \<Longrightarrow> normal_summary (\<lambda>_. True) (JStr (ledgerBounded v fb 1200))"
proof -
  assume a: "trim fb = fb" "fb \<noteq> []"
  then have t: "trim (js_text v fb) = js_text v fb" "js_text v fb \<noteq> []" by (simp_all add: js_text_nonempty)
  then have "no_lead (js_text v fb)" using no_lead_trim [of "js_text v fb"] by simp
  with t show ?thesis by (simp add: normal_summary_def ledgerBounded_def no_lead_take)
qed

lemma orEmpty_JArr [simp]: "orEmpty (JArr vs) = JArr vs"
  by (simp add: orEmpty_def)

lemma normal_arrays: "normal_refs ok v \<Longrightarrow> orEmpty v = v" "normal_vector ok v \<Longrightarrow> orEmpty v = v"
  by (auto simp: normal_refs_def normal_vector_def)

lemma restabs_elems: "JArr (map restab (elems v)) = restabs v" "JArr (map restabEntry (elems v)) = restabVector v"
  by (simp_all add: restabs_def restabVector_def)

lemma normalize_shaped:
  assumes "isPlainObject v" "shaped ok sm v"
  shows "normalizeLedgerAppendIntent E v = Inr (restabIntent v)"
proof -
  have d: "defaulted v = Inr v" using assms(1) by (auto dest!: isPlainObjectE)
  note f = assms(2) [unfolded shaped_def]
  from f have refs: "ledgerExactRef E (fld v ''actTypeRef'') l = Inr (restab (fld v ''actTypeRef''))"
    "ledgerExactRef E (fld v ''actorRef'') l = Inr (restab (fld v ''actorRef''))"
    "ledgerExactRef E (fld v ''roleLaneRef'') l = Inr (restab (fld v ''roleLaneRef''))"
    "ledgerOptionalRef E (fld v ''agentRunRef'') l = Inr (restabOpt (fld v ''agentRunRef''))"
    "ledgerOptionalRef E (fld v ''artifactLifecycleRef'') l = Inr (restabOpt (fld v ''artifactLifecycleRef''))" for l
    by (simp_all add: ledgerExactRef_restab [where ok = ok] ledgerOptionalRef_restab [where ok = ok])
  from f have lists: "ledgerUniqueRefs E (fld v ''objectRefs'') l = Inr (map restab (elems (fld v ''objectRefs'')))"
    "ledgerUniqueRefs E (fld v ''evidenceRefs'') l = Inr (map restab (elems (fld v ''evidenceRefs'')))"
    "ledgerUniqueRefs E (fld v ''affectsRefs'') l = Inr (map restab (elems (fld v ''affectsRefs'')))"
    "ledgerUniqueRefs E (fld v ''sourceEventRefs'') l = Inr (map restab (elems (fld v ''sourceEventRefs'')))"
    "ledgerUniqueRefs E (fld v ''affectedContextRefs'') l = Inr (map restab (elems (fld v ''affectedContextRefs'')))"
    "ledgerUniqueRefs E (fld v ''lifecycleTransitionRefs'') l = Inr (map restab (elems (fld v ''lifecycleTransitionRefs'')))" for l
    by (simp_all add: ledgerUniqueRefs_restab [where ok = ok])
  from f have arrays: "orEmpty (fld v ''objectRefs'') = fld v ''objectRefs''" "orEmpty (fld v ''evidenceRefs'') = fld v ''evidenceRefs''"
    "orEmpty (fld v ''affectsRefs'') = fld v ''affectsRefs''" "orEmpty (fld v ''sourceEventRefs'') = fld v ''sourceEventRefs''"
    "orEmpty (fld v ''affectedContextRefs'') = fld v ''affectedContextRefs''"
    "orEmpty (fld v ''lifecycleTransitionRefs'') = fld v ''lifecycleTransitionRefs''"
    "orEmpty (fld v ''expectedRevisionVector'') = fld v ''expectedRevisionVector''"
    by (simp_all add: normal_arrays [where ok = ok])
  from f have other: "uniqueStreamRefs (fld v ''streamRefs'') = Inr (elems (fld v ''streamRefs''))"
    "normalizeSemanticScope (fld v ''subjectScope'') = Inr (fld v ''subjectScope'')"
    "normalizeRevisionVector E (fld v ''expectedRevisionVector'') = Inr (map restabEntry (elems (fld v ''expectedRevisionVector'')))"
    "requirePlainObject (fld v ''typedPayload'') ''typedPayload'' = Inr (fld v ''typedPayload'')"
    "cloneJson (fld v ''typedPayload'') = fld v ''typedPayload''"
    "JStr (ledgerBounded (fld v ''rendererSafeSummary'') ''Ledger event'' 1200) = JStr (trim (raw_string (fld v ''rendererSafeSummary'')))"
    "JArr (elems (fld v ''streamRefs'')) = fld v ''streamRefs''"
    by (simp_all add: uniqueStreamRefs_fixed normal_scope_def normalizeRevisionVector_restab [where ok = ok] requirePlainObject_def jsonic_def
      normal_summary_restab(1) [where ok = sm] normal_streams_elems(1) [symmetric])
  from f have words: "js_text (fld v ''actClass'') fb \<in> set ACT_CLASSES \<and> JStr (js_text (fld v ''actClass'') fb) = fld v ''actClass''"
    "js_text (fld v ''authorshipKind'') fb \<in> set AUTHORSHIP_KINDS \<and> JStr (js_text (fld v ''authorshipKind'') fb) = fld v ''authorshipKind''"
    "js_text (fld v ''epistemicPosture'') fb \<in> set EPISTEMIC_POSTURES \<and> JStr (js_text (fld v ''epistemicPosture'') fb) = fld v ''epistemicPosture''"
    "js_text (fld v ''authorityPosture'') fb \<in> set AUTHORITY_POSTURES \<and> JStr (js_text (fld v ''authorityPosture'') fb) = fld v ''authorityPosture''"
    "js_text (fld v ''typedPayloadSchema'') fb \<noteq> [] \<and> JStr (js_text (fld v ''typedPayloadSchema'') fb) = fld v ''typedPayloadSchema''"
    "js_text (fld v ''idempotencyKey'') fb \<noteq> [] \<and> JStr (js_text (fld v ''idempotencyKey'') fb) = fld v ''idempotencyKey''"
    "js_text (fld v ''operationScope'') fb \<noteq> [] \<and> JStr (js_text (fld v ''operationScope'') fb) = fld v ''operationScope''" for fb
    by (simp_all add: one_of_text normal_text_id)
  show ?thesis
    by (simp only: normalizeLedgerAppendIntent_def d ebind_simps other refs arrays lists Let_def words simp_thms if_False
      not_not restabs_elems restabIntent_def)
qed

lemma restabIntent_fields [simp]:
  "fld (restabIntent v) ''streamRefs'' = fld v ''streamRefs''"
  "fld (restabIntent v) ''actTypeRef'' = restab (fld v ''actTypeRef'')"
  "fld (restabIntent v) ''actClass'' = fld v ''actClass''"
  "fld (restabIntent v) ''authorshipKind'' = fld v ''authorshipKind''"
  "fld (restabIntent v) ''actorRef'' = restab (fld v ''actorRef'')"
  "fld (restabIntent v) ''roleLaneRef'' = restab (fld v ''roleLaneRef'')"
  "fld (restabIntent v) ''agentRunRef'' = restabOpt (fld v ''agentRunRef'')"
  "fld (restabIntent v) ''subjectScope'' = fld v ''subjectScope''"
  "fld (restabIntent v) ''objectRefs'' = restabs (fld v ''objectRefs'')"
  "fld (restabIntent v) ''artifactLifecycleRef'' = restabOpt (fld v ''artifactLifecycleRef'')"
  "fld (restabIntent v) ''evidenceRefs'' = restabs (fld v ''evidenceRefs'')"
  "fld (restabIntent v) ''affectsRefs'' = restabs (fld v ''affectsRefs'')"
  "fld (restabIntent v) ''sourceEventRefs'' = restabs (fld v ''sourceEventRefs'')"
  "fld (restabIntent v) ''expectedRevisionVector'' = restabVector (fld v ''expectedRevisionVector'')"
  "fld (restabIntent v) ''epistemicPosture'' = fld v ''epistemicPosture''"
  "fld (restabIntent v) ''authorityPosture'' = fld v ''authorityPosture''"
  "fld (restabIntent v) ''typedPayloadSchema'' = fld v ''typedPayloadSchema''"
  "fld (restabIntent v) ''typedPayload'' = fld v ''typedPayload''"
  "fld (restabIntent v) ''rendererSafeSummary'' = JStr (trim (raw_string (fld v ''rendererSafeSummary'')))"
  "fld (restabIntent v) ''idempotencyKey'' = fld v ''idempotencyKey''"
  "fld (restabIntent v) ''operationScope'' = fld v ''operationScope''"
  "fld (restabIntent v) ''affectedContextRefs'' = restabs (fld v ''affectedContextRefs'')"
  "fld (restabIntent v) ''lifecycleTransitionRefs'' = restabs (fld v ''lifecycleTransitionRefs'')"
  "isPlainObject (restabIntent v)" "truthy (restabIntent v)"
  by (simp_all add: restabIntent_def)

lemma restabIntent_shaped:
  assumes "shaped ok sm v"
  shows "stable_intent (restabIntent v)"
  using assms unfolding shaped_def restabIntent_fields
  by (intro conjI; elim conjE)
    (simp_all add: ledgerExactRef_restab [where ok = ok] ledgerOptionalRef_restab [where ok = ok] ledgerUniqueRefs_restab [where ok = ok]
      normalizeRevisionVector_restab [where ok = ok] normal_summary_restab [where ok = sm])

lemma restabIntent_twice:
  assumes "shaped ok sm v"
  shows "restabIntent (restabIntent v) = restabIntent v"
proof -
  note c = restab_stable [OF ledgerExactRef_restab(2) [where ok = ok]] restabOpt_stable [OF ledgerOptionalRef_restab(2) [where ok = ok]]
    restabs_stable [OF ledgerUniqueRefs_restab(2) [where ok = ok]] restabVector_stable [OF normalizeRevisionVector_restab(2) [where ok = ok]]
  from assms have f: "restab (restab (fld v ''actTypeRef'')) = restab (fld v ''actTypeRef'')"
    "restab (restab (fld v ''actorRef'')) = restab (fld v ''actorRef'')"
    "restab (restab (fld v ''roleLaneRef'')) = restab (fld v ''roleLaneRef'')"
    "restabOpt (restabOpt (fld v ''agentRunRef'')) = restabOpt (fld v ''agentRunRef'')"
    "restabOpt (restabOpt (fld v ''artifactLifecycleRef'')) = restabOpt (fld v ''artifactLifecycleRef'')"
    "restabs (restabs (fld v ''objectRefs'')) = restabs (fld v ''objectRefs'')"
    "restabs (restabs (fld v ''evidenceRefs'')) = restabs (fld v ''evidenceRefs'')"
    "restabs (restabs (fld v ''affectsRefs'')) = restabs (fld v ''affectsRefs'')"
    "restabs (restabs (fld v ''sourceEventRefs'')) = restabs (fld v ''sourceEventRefs'')"
    "restabs (restabs (fld v ''affectedContextRefs'')) = restabs (fld v ''affectedContextRefs'')"
    "restabs (restabs (fld v ''lifecycleTransitionRefs'')) = restabs (fld v ''lifecycleTransitionRefs'')"
    "restabVector (restabVector (fld v ''expectedRevisionVector'')) = restabVector (fld v ''expectedRevisionVector'')"
    by (simp_all add: shaped_def c)
  show ?thesis
    by (simp only: restabIntent_def [of "restabIntent v"] restabIntent_fields f raw_string_simps trim_idem)
      (simp only: restabIntent_def)
qed

lemma jsonic_clone_object: "isPlainObject v \<Longrightarrow> jsonic (cloneJson v)"
  by (rule jsonic_clone) auto

lemma normalize_Inr:
  assumes "normalizeLedgerAppendIntent E x = Inr a"
  shows "isPlainObject a" "shaped (\<lambda>_. True) (\<lambda>_. True) a"
proof -
  have s: "trim ''Ledger event'' = ''Ledger event''" by (simp add: trim_id is_space_def)
  have "isPlainObject a \<and> shaped (\<lambda>_. True) (\<lambda>_. True) a"
    using assms unfolding normalizeLedgerAppendIntent_def
    apply (elim run_elims)
    apply hypsubst_thin
    apply (simp only: de_Morgan_disj not_not)
    apply (elim conjE)
    apply (unfold shaped_def)
    apply (simp add: uniqueStreamRefs_normal ledgerExactRef_cut ledgerOptionalRef_cut ledgerUniqueRefs_cut normalizeRevisionVector_normal
      normalizeSemanticScope_normal normal_text_def requirePlainObject_def jsonic_clone_object normal_summary_bounded s split: if_splits)
    done
  then show "isPlainObject a" "shaped (\<lambda>_. True) (\<lambda>_. True) a" by blast+
qed

lemma normalize_twice:
  assumes "normalizeLedgerAppendIntent E x = Inr a"
  shows "normalizeLedgerAppendIntent E a = Inr (restabIntent a)" "stable_intent (restabIntent a)"
    "normalizeLedgerAppendIntent E (restabIntent a) = Inr (restabIntent a)"
proof -
  note n = normalize_Inr [OF assms]
  show "normalizeLedgerAppendIntent E a = Inr (restabIntent a)" by (rule normalize_shaped [OF n])
  show st: "stable_intent (restabIntent a)" by (rule restabIntent_shaped [OF n(2)])
  have "normalizeLedgerAppendIntent E (restabIntent a) = Inr (restabIntent (restabIntent a))"
    by (rule normalize_shaped [OF _ st]) simp
  moreover have "restabIntent (restabIntent a) = restabIntent a" by (rule restabIntent_twice [OF n(2)])
  ultimately show "normalizeLedgerAppendIntent E (restabIntent a) = Inr (restabIntent a)" by simp
qed

end
