(* ===== verification/LedgerRecords.thy ===== *)
theory LedgerRecords
  imports LedgerIntents
begin

section \<open>Epistemic ledger: what the builders return\<close>

text \<open>
  The facts about events, receipts, projections and outbox seeds that the store relies on: a
  record that a builder returned passes its validator, is JSON data, and carries the fields of
  what it was built from.
\<close>

subsection \<open>Derived identifiers\<close>

lemma hex_not_space: "c \<in> set ''0123456789abcdef'' \<Longrightarrow> \<not> is_space c"
  by (auto simp: is_space_def)

lemma stableIdN_trimmed:
  assumes "sha_ok E" "p \<noteq> []" "\<not> is_space (hd p)" "0 < n"
  shows "trim (stableIdN E p v n) = stableIdN E p v n" "stableIdN E p v n \<noteq> []"
proof -
  let ?h = "sha256hex E ((p @ ''@1'') @ [CHR 0x00] @ stringified E (stableValue [] v))"
  have e: "stableIdN E p v n = p @ ''_'' @ take n ?h" by (simp add: stableIdN_def digestFor_def)
  show "stableIdN E p v n \<noteq> []" by (simp add: e)
  from assms(1) have l: "length ?h = 64" and s: "set ?h \<subseteq> set ''0123456789abcdef''" by (auto simp: sha_ok_def)
  have "take n ?h \<noteq> []" using l assms(4) by auto
  then have "last (take n ?h) \<in> set (take n ?h)" by (rule last_in_set)
  then have "last (take n ?h) \<in> set ''0123456789abcdef''" using s in_set_takeD by fastforce
  then have "\<not> is_space (last (take n ?h))" by (rule hex_not_space)
  then show "trim (stableIdN E p v n) = stableIdN E p v n"
    using assms(2,3) \<open>take n ?h \<noteq> []\<close> unfolding e by (intro trim_id disjI2) (simp add: hd_append)
qed

lemma digestFor_nonempty [simp]: "digestFor E d v om \<noteq> []"
  by (simp add: digestFor_def)

lemma digest_text: "sha_ok E \<Longrightarrow> normal_text (JStr (digestFor E d v om))"
  by (simp add: normal_text_def digest_trimmed)

lemma fld_sealWith [simp]: "fld (sealWith E s f v) k = (if k = f then JStr (digestFor E s v [f]) else fld v k)"
  by (simp add: sealWith_def)

lemma sealWith_object [simp]: "isPlainObject (sealWith E s f v)" "truthy (sealWith E s f v)"
  by (simp_all add: sealWith_def set_fld_def)

lemma sealWith_digest [simp]: "isPlainObject v \<Longrightarrow> digestFor E s (sealWith E s f v) [f] = digestFor E s v [f]"
  unfolding sealWith_def by (rule digestFor_set_omitted) auto

lemma jsonic_sealWith: "jsonic_entries fs \<Longrightarrow> \<not> is_index f \<Longrightarrow> jsonic (sealWith E s f (JObj fs))"
  by (simp add: sealWith_def set_fld_def jsonic_JObj)

lemma jsonic_kinds:
  "one_of x ws \<Longrightarrow> jsonic x" "normal_text x \<Longrightarrow> jsonic x" "normal_summary sm x \<Longrightarrow> jsonic x"
  "normal_ref ok x \<Longrightarrow> jsonic x" "normal_scope x \<Longrightarrow> jsonic x"
proof -
  show "one_of x ws \<Longrightarrow> jsonic x" by (cases x) auto
  show "normal_ref ok x \<Longrightarrow> jsonic x" by (rule normal_ref_simps)
qed (auto simp: normal_text_def normal_summary_def normal_scope_def)

lemma shaped_jsonic:
  assumes "shaped ok sm v"
  shows
    "jsonic (fld v ''streamRefs'')"
    "jsonic (fld v ''actTypeRef'')"
    "jsonic (fld v ''actClass'')"
    "jsonic (fld v ''authorshipKind'')"
    "jsonic (fld v ''actorRef'')"
    "jsonic (fld v ''roleLaneRef'')"
    "jsonic (fld v ''agentRunRef'')"
    "jsonic (fld v ''subjectScope'')"
    "jsonic (fld v ''objectRefs'')"
    "jsonic (fld v ''artifactLifecycleRef'')"
    "jsonic (fld v ''evidenceRefs'')"
    "jsonic (fld v ''affectsRefs'')"
    "jsonic (fld v ''sourceEventRefs'')"
    "jsonic (fld v ''expectedRevisionVector'')"
    "jsonic (fld v ''epistemicPosture'')"
    "jsonic (fld v ''authorityPosture'')"
    "jsonic (fld v ''typedPayloadSchema'')"
    "jsonic (fld v ''typedPayload'')"
    "jsonic (fld v ''rendererSafeSummary'')"
    "jsonic (fld v ''idempotencyKey'')"
    "jsonic (fld v ''operationScope'')"
    "jsonic (fld v ''affectedContextRefs'')"
    "jsonic (fld v ''lifecycleTransitionRefs'')"
  using assms by (simp_all only: shaped_def jsonic_kinds(1) [where ws = ACT_CLASSES] jsonic_kinds(1) [where ws = AUTHORSHIP_KINDS]
    jsonic_kinds(1) [where ws = EPISTEMIC_POSTURES] jsonic_kinds(1) [where ws = AUTHORITY_POSTURES] jsonic_kinds(2)
    jsonic_kinds(3) [where sm = sm] jsonic_kinds(4) [where ok = ok] jsonic_kinds(5) normal_streams_elems(3)
    normal_opt_jsonic [where ok = ok] normal_refs_jsonic [where ok = ok] normal_vector_jsonic [where ok = ok] simp_thms)

lemma validators_True:
  "validateLedgerActTypeConstitution E v = Inr b \<Longrightarrow> b = True"
  "validateEpistemicLedgerEvent E v = Inr b \<Longrightarrow> b = True"
  "validateLedgerWriteReceipt E v = Inr b \<Longrightarrow> b = True"
  "validateMaterializedEpistemicProjection E v = Inr b \<Longrightarrow> b = True"
  "validateLedgerDeliveryOutboxSeed E v = Inr b \<Longrightarrow> b = True"
  by (simp_all add: validateLedgerActTypeConstitution_def validateEpistemicLedgerEvent_def validateLedgerWriteReceipt_def
      validateMaterializedEpistemicProjection_def validateLedgerDeliveryOutboxSeed_def ebind_Inr_iff split: if_splits)

subsection \<open>Events\<close>

definition eventEntries :: "jsenv \<Rightarrow> jval \<Rightarrow> int \<Rightarrow> string \<Rightarrow> string \<Rightarrow> (string \<times> jval) list" where
  \<comment> \<open>the fields of the event that is built from the intent \<open>b\<close>\<close>
  "eventEntries E b n p c = [
     (''schema'', JStr EPISTEMIC_LEDGER_EVENT_SCHEMA),
     (''ledgerEventId'', JStr (stableIdN E ''ledger_event'' (JObj [
           (''globalSequence'', num n), (''previousLedgerDigest'', JStr p),
           (''intentDigest'', JStr (digestFor E ''direct_epistemic_ledger_event_intent@1'' b []))]) 32)),
     (''globalSequence'', num n),
     (''streamRefs'', fld b ''streamRefs''), (''actTypeRef'', fld b ''actTypeRef''), (''actClass'', fld b ''actClass''),
     (''authorshipKind'', fld b ''authorshipKind''), (''actorRef'', fld b ''actorRef''), (''roleLaneRef'', fld b ''roleLaneRef''),
     (''agentRunRef'', fld b ''agentRunRef''), (''subjectScope'', fld b ''subjectScope''), (''objectRefs'', fld b ''objectRefs''),
     (''artifactLifecycleRef'', fld b ''artifactLifecycleRef''), (''evidenceRefs'', fld b ''evidenceRefs''),
     (''affectsRefs'', fld b ''affectsRefs''), (''sourceEventRefs'', fld b ''sourceEventRefs''),
     (''expectedRevisionVector'', fld b ''expectedRevisionVector''), (''epistemicPosture'', fld b ''epistemicPosture''),
     (''authorityPosture'', fld b ''authorityPosture''), (''typedPayloadSchema'', fld b ''typedPayloadSchema''),
     (''typedPayload'', fld b ''typedPayload''), (''rendererSafeSummary'', fld b ''rendererSafeSummary''),
     (''idempotencyKey'', fld b ''idempotencyKey''), (''previousLedgerDigest'', JStr p), (''eventDigest'', JStr []),
     (''createdAt'', JStr c), (''rawChainOfThoughtIncluded'', JBool False), (''rawSecretIncluded'', JBool False)]"

definition event_of :: "jsenv \<Rightarrow> jval \<Rightarrow> int \<Rightarrow> string \<Rightarrow> string \<Rightarrow> jval" where
  "event_of E b n p c = sealWith E EPISTEMIC_LEDGER_EVENT_SCHEMA ''eventDigest'' (JObj (eventEntries E b n p c))"

definition event_ok :: "jsenv \<Rightarrow> jval \<Rightarrow> bool" where
  \<comment> \<open>a valid event built from an intent in stable form\<close>
  "event_ok E e \<longleftrightarrow> validateEpistemicLedgerEvent E e = Inr True
     \<and> (\<exists>b n p c. e = event_of E b n p c \<and> stable_intent b \<and> isPlainObject b \<and> normal_text (JStr p))"

lemma event_of_fields [simp]:
  "fld (event_of E b n p c) ''schema'' = JStr EPISTEMIC_LEDGER_EVENT_SCHEMA"
  "fld (event_of E b n p c) ''globalSequence'' = num n"
  "fld (event_of E b n p c) ''streamRefs'' = fld b ''streamRefs''"
  "fld (event_of E b n p c) ''actTypeRef'' = fld b ''actTypeRef''"
  "fld (event_of E b n p c) ''actClass'' = fld b ''actClass''"
  "fld (event_of E b n p c) ''authorshipKind'' = fld b ''authorshipKind''"
  "fld (event_of E b n p c) ''actorRef'' = fld b ''actorRef''"
  "fld (event_of E b n p c) ''roleLaneRef'' = fld b ''roleLaneRef''"
  "fld (event_of E b n p c) ''agentRunRef'' = fld b ''agentRunRef''"
  "fld (event_of E b n p c) ''subjectScope'' = fld b ''subjectScope''"
  "fld (event_of E b n p c) ''objectRefs'' = fld b ''objectRefs''"
  "fld (event_of E b n p c) ''artifactLifecycleRef'' = fld b ''artifactLifecycleRef''"
  "fld (event_of E b n p c) ''evidenceRefs'' = fld b ''evidenceRefs''"
  "fld (event_of E b n p c) ''affectsRefs'' = fld b ''affectsRefs''"
  "fld (event_of E b n p c) ''sourceEventRefs'' = fld b ''sourceEventRefs''"
  "fld (event_of E b n p c) ''expectedRevisionVector'' = fld b ''expectedRevisionVector''"
  "fld (event_of E b n p c) ''epistemicPosture'' = fld b ''epistemicPosture''"
  "fld (event_of E b n p c) ''authorityPosture'' = fld b ''authorityPosture''"
  "fld (event_of E b n p c) ''typedPayloadSchema'' = fld b ''typedPayloadSchema''"
  "fld (event_of E b n p c) ''typedPayload'' = fld b ''typedPayload''"
  "fld (event_of E b n p c) ''rendererSafeSummary'' = fld b ''rendererSafeSummary''"
  "fld (event_of E b n p c) ''idempotencyKey'' = fld b ''idempotencyKey''"
  "fld (event_of E b n p c) ''previousLedgerDigest'' = JStr p"
  "fld (event_of E b n p c) ''createdAt'' = JStr c"
  "isPlainObject (event_of E b n p c)" "truthy (event_of E b n p c)"
  by (simp_all add: event_of_def eventEntries_def)

lemma event_of_id: "\<exists>v. fld (event_of E b n p c) ''ledgerEventId'' = JStr (stableIdN E ''ledger_event'' v 32)"
  by (simp add: event_of_def eventEntries_def) (rule exI, rule refl)

lemma event_of_digest: "\<exists>v. fld (event_of E b n p c) ''eventDigest'' = JStr (digestFor E EPISTEMIC_LEDGER_EVENT_SCHEMA v [''eventDigest''])"
  by (simp add: event_of_def) (rule exI, rule refl)

lemma event_of_jsonic: "stable_intent b \<Longrightarrow> jsonic (event_of E b n p c)"
  unfolding event_of_def
  by (rule jsonic_sealWith) (simp_all add: eventEntries_def shaped_jsonic)

lemma event_ok_texts:
  assumes "sha_ok E" "event_ok E e"
  shows "normal_text (fld e ''ledgerEventId'')" "normal_text (fld e ''eventDigest'')" "normal_text (fld e ''previousLedgerDigest'')"
    "\<exists>c. fld e ''createdAt'' = JStr c" "normal_text (fld e ''idempotencyKey'')" "jsonic e" "isPlainObject e" "truthy e"
    "validateEpistemicLedgerEvent E e = Inr True" "\<exists>n. fld e ''globalSequence'' = num n"
    "stable_ref (fld e ''actTypeRef'')" "stable_ref (fld e ''actorRef'')" "normal_streams (fld e ''streamRefs'')"
    "one_of (fld e ''actClass'') ACT_CLASSES" "one_of (fld e ''authorshipKind'') AUTHORSHIP_KINDS"
    "one_of (fld e ''epistemicPosture'') EPISTEMIC_POSTURES" "one_of (fld e ''authorityPosture'') AUTHORITY_POSTURES"
    "normal_summary (\<lambda>s. trim s = s) (fld e ''rendererSafeSummary'')" "normal_refs (\<lambda>l. trim l = l) (fld e ''objectRefs'')"
    "normal_opt (\<lambda>l. trim l = l) (fld e ''artifactLifecycleRef'')" "normal_scope (fld e ''subjectScope'')"
proof -
  obtain b n p c where e: "e = event_of E b n p c" "stable_intent b" "isPlainObject b" "normal_text (JStr p)"
    and v: "validateEpistemicLedgerEvent E e = Inr True"
    using assms(2) by (auto simp: event_ok_def)
  have h: "\<not> is_space (hd ''ledger_event'')" by (simp add: is_space_def)
  have i: "normal_text (JStr (stableIdN E ''ledger_event'' x 32))" for x
    using stableIdN_trimmed [OF assms(1) _ h, of 32 x] by (simp add: normal_text_def)
  show "normal_text (fld e ''ledgerEventId'')" using event_of_id [of E b n p c] i by (auto simp: e(1))
  show "normal_text (fld e ''eventDigest'')" using event_of_digest [of E b n p c] digest_text [OF assms(1)] by (auto simp: e(1))
  show "jsonic e" unfolding e(1) by (rule event_of_jsonic [OF e(2)])
  show "validateEpistemicLedgerEvent E e = Inr True" by (rule v)
qed (use assms(2) in \<open>auto simp: event_ok_def shaped_def\<close>)

lemma buildEpistemicLedgerEvent_Inr:
  assumes "normalizeLedgerAppendIntent E x = Inr a"
    and "buildEpistemicLedgerEvent E a (JObj [(''globalSequence'', num n), (''previousLedgerDigest'', JStr p), (''createdAt'', JStr c)]) = Inr e"
    and "normal_text (JStr p)"
  shows "event_ok E e" "\<exists>t. e = event_of E (restabIntent a) n p t" "0 < n"
proof -
  note t = normalize_twice [OF assms(1)]
  from assms(3) have p: "js_text (JStr p) [] = p" by (auto simp: normal_text_def)
  have n: "JNum (to_number E (num n)) = num n" by (simp add: num_def)
  let ?sys = "JObj [(''globalSequence'', num n), (''previousLedgerDigest'', JStr p), (''createdAt'', JStr c)]"
  have sys: "defaulted ?sys = Inr ?sys" "fld ?sys ''globalSequence'' = num n" "fld ?sys ''previousLedgerDigest'' = JStr p"
    "fld ?sys ''ledgerEventId'' = JUndef" by simp_all
  have "\<exists>t. e = event_of E (restabIntent a) n p t \<and> validateEpistemicLedgerEvent E e = Inr True \<and> \<not> js_less E (num n) 1"
    using assms(2) unfolding buildEpistemicLedgerEvent_def t(1) ebind_simps sys p n js_text_simps
    apply (elim run_elims)
    apply (simp only: de_Morgan_disj not_not)
    apply (elim conjE)
    apply (frule validators_True)
    subgoal for _ _ t
      by (intro exI [of _ t]) (simp add: event_of_def eventEntries_def del: restabIntent_fields)
    done
  then obtain t where e: "e = event_of E (restabIntent a) n p t" "validateEpistemicLedgerEvent E e = Inr True" "\<not> js_less E (num n) 1"
    by blast
  show "\<exists>t. e = event_of E (restabIntent a) n p t" using e by blast
  show "0 < n" using e by simp
  show "event_ok E e" unfolding event_ok_def using e t(2) assms(3) by (metis restabIntent_fields(24))
qed

subsection \<open>References to events\<close>

lemma normal_text_trims: "normal_text v \<Longrightarrow> \<exists>s. v = JStr s \<and> trim s = s \<and> s \<noteq> [] \<and> js_text v fb = s"
  by (auto simp: normal_text_def)

lemma event_ref:
  assumes "sha_ok E" "event_ok E e"
  shows "\<exists>r. epistemicLedgerEventRef E e = Inr r \<and> cut_ref r \<and> exactEventRefMatches r e"
proof -
  note t = event_ok_texts [OF assms]
  obtain i where i: "fld e ''ledgerEventId'' = JStr i" "trim i = i" "i \<noteq> []" using normal_text_trims [OF t(1)] by blast
  obtain d where d: "fld e ''eventDigest'' = JStr d" "trim d = d" "d \<noteq> []" using normal_text_trims [OF t(2)] by blast
  let ?v = "JObj [(''kind'', JStr ''epistemic_ledger_event''), (''id'', fld e ''ledgerEventId''),
       (''digest'', fld e ''eventDigest''), (''label'', fld e ''rendererSafeSummary'')]"
  have k: "trim ''epistemic_ledger_event'' = ''epistemic_ledger_event''" by (simp add: trim_id is_space_def)
  have "\<exists>r. ledgerExactRef E ?v ''ref'' = Inr r \<and> fld r ''kind'' = JStr ''epistemic_ledger_event'' \<and> fld r ''id'' = JStr i \<and> fld r ''digest'' = JStr d"
    by (simp add: ledgerExactRef_def Let_def k i d)
  then obtain r where r: "ledgerExactRef E ?v ''ref'' = Inr r" "fld r ''kind'' = JStr ''epistemic_ledger_event''" "fld r ''id'' = JStr i" "fld r ''digest'' = JStr d"
    by blast
  have c: "cut_ref r" by (rule ledgerExactRef_cut [OF r(1)])
  have "exactEventRefMatches r e"
    using normal_ref_simps(2) [OF c] t(8) by (simp add: exactEventRefMatches_def r i d)
  moreover have "epistemicLedgerEventRef E e = Inr r" by (simp only: epistemicLedgerEventRef_def t(9) ebind_simps r(1))
  ultimately show ?thesis using c by blast
qed

lemma trim_colon: "trim a = a \<Longrightarrow> a \<noteq> [] \<Longrightarrow> trim b = b \<Longrightarrow> b \<noteq> [] \<Longrightarrow> trim (a @ '':'' @ b) = a @ '':'' @ b"
  using trim_ends [of a] trim_ends [of b] by (intro trim_id) (simp add: hd_append)

lemma refIdentityKey_text: "normal_ref ok r \<Longrightarrow> normal_text (JStr (refIdentityKey r))"
  by (auto simp: normal_ref_def refIdentityKey_def normal_text_def trim_colon [simplified])

subsection \<open>Receipts\<close>

definition intentDigestOf :: "jsenv \<Rightarrow> jval \<Rightarrow> string" where
  \<comment> \<open>the digest of a stable intent\<close>
  "intentDigestOf E b = digestFor E ''direct_epistemic_ledger_append_intent@1'' b []"

definition intentOf :: "jval \<Rightarrow> jval \<Rightarrow> jval" where
  \<comment> \<open>the intent that an event and its receipt stand for\<close>
  "intentOf e r = restabIntent (spread e [(''operationScope'', fld r ''operationScope''),
     (''affectedContextRefs'', fld r ''affectedContextRefs''), (''lifecycleTransitionRefs'', fld r ''lifecycleTransitionRefs'')])"

definition receipt_ok :: "jsenv \<Rightarrow> jval \<Rightarrow> jval \<Rightarrow> bool" where
  "receipt_ok E e r \<longleftrightarrow> validateLedgerWriteReceipt E r = Inr True \<and> jsonic r \<and> isPlainObject r
     \<and> exactEventRefMatches (fld r ''ledgerEventRef'') e
     \<and> (\<exists>i. fld r ''receiptId'' = JStr i) \<and> (\<exists>d. fld r ''receiptDigest'' = JStr d)
     \<and> fld r ''actorIdentity'' = JStr (refIdentityKey (fld e ''actorRef''))
     \<and> normal_text (fld r ''operationScope'') \<and> fld r ''idempotencyKey'' = fld e ''idempotencyKey''
     \<and> fld r ''appendState'' = JStr ''appended''
     \<and> normal_refs (\<lambda>l. trim l = l) (fld r ''affectedContextRefs'')
     \<and> normal_refs (\<lambda>l. trim l = l) (fld r ''lifecycleTransitionRefs'')
     \<and> fld r ''appendRequestDigest'' = JStr (intentDigestOf E (intentOf e r))"

lemma restabIntent_cong:
  assumes "\<And>k. fld v k = fld w k" shows "restabIntent v = restabIntent w"
  by (simp add: restabIntent_def assms)

lemma restabIntent_event:
  assumes "stable_intent b" "os = fld b ''operationScope''" "ac = fld b ''affectedContextRefs''" "lt = fld b ''lifecycleTransitionRefs''"
  shows "restabIntent (spread (event_of E b n p c) [(''operationScope'', os), (''affectedContextRefs'', ac), (''lifecycleTransitionRefs'', lt)])
    = restabIntent b"
  by (simp add: restabIntent_def [of "spread _ _"] restabIntent_def [of b] fld_spread assms(2-4))

lemma spread_object [simp]: "isPlainObject (spread v gs)" "defaulted (spread v gs) = Inr (spread v gs)"
  by (simp_all add: spread_def)

lemma shaped_event:
  assumes "event_ok E e" "normal_text os" "normal_refs (\<lambda>l. trim l = l) ac" "normal_refs (\<lambda>l. trim l = l) lt"
  shows "stable_intent (spread e [(''operationScope'', os), (''affectedContextRefs'', ac), (''lifecycleTransitionRefs'', lt)])"
proof -
  obtain b n p c where e: "e = event_of E b n p c" "stable_intent b" using assms(1) by (auto simp: event_ok_def)
  show ?thesis using e(2) assms(2-4) by (simp add: shaped_def fld_spread e(1))
qed

lemma buildLedgerWriteReceipt_Inr:
  assumes "sha_ok E" "e = event_of E (restabIntent a) n p c" "event_ok E e" "shaped (\<lambda>_. True) (\<lambda>_. True) a"
    and "buildLedgerWriteReceipt E (JObj [
         (''event'', e), (''actorIdentity'', JStr (refIdentityKey (fld a ''actorRef''))),
         (''operationScope'', fld a ''operationScope''), (''appendRequestDigest'', JStr (intentDigestOf E (restabIntent a))),
         (''appendState'', JStr ''appended''),
         (''affectedContextRefs'', fld a ''affectedContextRefs''),
         (''lifecycleTransitionRefs'', fld a ''lifecycleTransitionRefs''),
         (''deliveryDispatchState'', JStr dd),
         (''rendererSafeSummary'', fld e ''rendererSafeSummary''),
         (''createdAt'', fld e ''createdAt'')]) JUndef = Inr r"
  shows "receipt_ok E e r" "intentOf e r = restabIntent a"
proof -
  let ?in = "JObj [
         (''event'', e), (''actorIdentity'', JStr (refIdentityKey (fld a ''actorRef''))),
         (''operationScope'', fld a ''operationScope''), (''appendRequestDigest'', JStr (intentDigestOf E (restabIntent a))),
         (''appendState'', JStr ''appended''),
         (''affectedContextRefs'', fld a ''affectedContextRefs''),
         (''lifecycleTransitionRefs'', fld a ''lifecycleTransitionRefs''),
         (''deliveryDispatchState'', JStr dd),
         (''rendererSafeSummary'', fld e ''rendererSafeSummary''),
         (''createdAt'', fld e ''createdAt'')]"
  have inp: "defaulted ?in = Inr ?in" "fld ?in ''event'' = e" "fld ?in ''actorIdentity'' = JStr (refIdentityKey (fld a ''actorRef''))"
    "fld ?in ''operationScope'' = fld a ''operationScope''" "fld ?in ''appendRequestDigest'' = JStr (intentDigestOf E (restabIntent a))"
    "fld ?in ''appendState'' = JStr ''appended''" "fld ?in ''affectedContextRefs'' = fld a ''affectedContextRefs''"
    "fld ?in ''lifecycleTransitionRefs'' = fld a ''lifecycleTransitionRefs''" "fld ?in ''receiptId'' = JUndef" by simp_all
  note f = assms(4) [unfolded shaped_def]
  note t = event_ok_texts [OF assms(1,3)]
  obtain er where er: "epistemicLedgerEventRef E e = Inr er" "cut_ref er" "exactEventRefMatches er e"
    using event_ref [OF assms(1,3)] by blast
  have lists: "ledgerUniqueRefs E (orEmpty (fld a ''affectedContextRefs'')) l = Inr (map restab (elems (fld a ''affectedContextRefs'')))"
    "ledgerUniqueRefs E (orEmpty (fld a ''lifecycleTransitionRefs'')) l = Inr (map restab (elems (fld a ''lifecycleTransitionRefs'')))" for l
    using f by (simp_all add: ledgerUniqueRefs_restab [where ok = "\<lambda>_. True"] normal_arrays [where ok = "\<lambda>_. True"])
  have texts: "js_text (JStr (refIdentityKey (fld a ''actorRef''))) [] = refIdentityKey (fld a ''actorRef'')"
    "js_text (JStr (intentDigestOf E (restabIntent a))) [] = intentDigestOf E (restabIntent a)"
    "JStr (js_text (fld a ''operationScope'') []) = fld a ''operationScope''"
    using f refIdentityKey_text [of "\<lambda>_. True" "fld a ''actorRef''"] digest_trimmed [OF assms(1)]
    by (auto simp: normal_text_def intentDigestOf_def)
  have ap: "js_text (JStr ''appended'') fb = ''appended''" for fb by (simp add: js_text_JStr trim_id is_space_def)
  obtain summary dds cr where r: "r = sealWith E LEDGER_WRITE_RECEIPT_SCHEMA ''receiptDigest'' (JObj [
       (''schema'', JStr LEDGER_WRITE_RECEIPT_SCHEMA),
       (''receiptId'', JStr (stableIdN E ''ledger_receipt'' (JObj [
          (''ledgerEventId'', fld e ''ledgerEventId''), (''appendState'', JStr ''appended'')]) 32)),
       (''ledgerEventRef'', er),
       (''actorIdentity'', JStr (refIdentityKey (fld a ''actorRef''))),
       (''operationScope'', fld a ''operationScope''),
       (''idempotencyKey'', fld e ''idempotencyKey''),
       (''appendRequestDigest'', JStr (intentDigestOf E (restabIntent a))),
       (''appendState'', JStr ''appended''),
       (''epistemicPosture'', fld e ''epistemicPosture''),
       (''canonicalEffect'', JBool False),
       (''affectedContextRefs'', restabs (fld a ''affectedContextRefs'')),
       (''lifecycleTransitionRefs'', restabs (fld a ''lifecycleTransitionRefs'')),
       (''deliveryDispatchState'', JStr dds),
       (''rendererSafeSummary'', JStr summary),
       (''createdAt'', JStr cr)])" and v: "validateLedgerWriteReceipt E r = Inr True"
    using assms(5) unfolding buildLedgerWriteReceipt_def inp ebind_simps t(9) ap er(1) lists texts restabs_elems js_text_simps Let_def defaulted_simps
    apply (elim run_elims)
    apply (frule validators_True)
    apply (rule that)
     apply (erule sym)
    apply simp
    done
  show i: "intentOf e r = restabIntent a"
  proof -
    have st: "stable_intent (restabIntent a)" by (rule restabIntent_shaped [OF assms(4)])
    have "intentOf e r = restabIntent (restabIntent a)"
      unfolding intentOf_def assms(2) by (rule restabIntent_event [OF st]) (simp_all add: r)
    then show ?thesis by (simp only: restabIntent_twice [OF assms(4)])
  qed
  have ac: "refIdentityKey (fld e ''actorRef'') = refIdentityKey (fld a ''actorRef'')"
    using f by (simp add: assms(2) ledgerExactRef_restab [where ok = "\<lambda>_. True"])
  have j: "jsonic r" unfolding r
    by (rule jsonic_sealWith) (use t(5,16) f normal_ref_simps(3) [OF er(2)] in
      \<open>simp_all add: jsonic_kinds normal_refs_jsonic [OF ledgerUniqueRefs_restab(2) [where ok = "\<lambda>_. True"]]\<close>)
  show "receipt_ok E e r" unfolding receipt_ok_def i
    using v j er(3) f by (simp add: r ac ledgerUniqueRefs_restab(2) [where ok = "\<lambda>_. True"])
qed

subsection \<open>Projections\<close>

definition eventKeys :: "jval \<Rightarrow> string list" where
  "eventKeys e = dedup id ([''ledger:global'']
     @ map (\<lambda>r. ''stream:'' @ raw_string (fld r ''streamKey'')) (elems (fld e ''streamRefs''))
     @ map (\<lambda>r. ''object:'' @ refIdentityKey r) (elems (fld e ''objectRefs''))
     @ (if fld e ''artifactLifecycleRef'' = JNull then [] else [''artifact:'' @ refIdentityKey (fld e ''artifactLifecycleRef'')]))"

lemma projectionKeys_ok:
  assumes "sha_ok E" "event_ok E e"
  shows "projectionKeysForEvent E e = Inr (eventKeys e)"
proof -
  note t = event_ok_texts [OF assms]
  obtain ss where s: "fld e ''streamRefs'' = JArr ss" "\<forall>r\<in>set ss. normal_stream r" using t(13) by (auto simp: normal_streams_def)
  obtain os where o: "fld e ''objectRefs'' = JArr os" "\<forall>r\<in>set os. stable_ref r" using t(19) by (auto simp: normal_refs_def)
  have "emap (\<lambda>ref. ledgerExactRefKey E ref False) os = Inr (map refIdentityKey os)"
    using o(2) by (intro emap_total) (auto simp: ledgerExactRefKey_cut stable_cut)
  moreover have "map (\<lambda>ref. ''stream:'' @ js_string E (fld ref ''streamKey'')) ss = map (\<lambda>r. ''stream:'' @ raw_string (fld r ''streamKey'')) ss"
  proof (rule map_cong [OF refl])
    fix r assume "r \<in> set ss"
    with s(2) obtain k where "fld r ''streamKey'' = JStr k" by (blast dest: normal_stream_fixed(4))
    then show "''stream:'' @ js_string E (fld r ''streamKey'') = ''stream:'' @ raw_string (fld r ''streamKey'')" by simp
  qed
  moreover have "(if truthy (fld e ''artifactLifecycleRef'')
         then ebind (ledgerExactRefKey E (fld e ''artifactLifecycleRef'') False) (\<lambda>key. Inr [''artifact:'' @ key])
         else Inr []) = Inr (if fld e ''artifactLifecycleRef'' = JNull then [] else [''artifact:'' @ refIdentityKey (fld e ''artifactLifecycleRef'')])"
    using t(20) by (auto simp: normal_opt_def ledgerExactRefKey_cut stable_cut dest: normal_ref_simps(2))
  ultimately show ?thesis
    by (simp only: projectionKeysForEvent_def t(9) ebind_simps s(1) o(1) method_elems_JArr eventKeys_def elems_simps map_map comp_def)
qed

lemma eventKeys_distinct: "distinct (eventKeys e)"
proof -
  have "distinct (map id (eventKeys e))" unfolding eventKeys_def by (rule dedup_from_distinct)
  then show ?thesis by (simp only: list.map_id)
qed

lemma eventKeys_set: "set (eventKeys e) = {''ledger:global''}
     \<union> (\<lambda>r. ''stream:'' @ raw_string (fld r ''streamKey'')) ` set (elems (fld e ''streamRefs''))
     \<union> (\<lambda>r. ''object:'' @ refIdentityKey r) ` set (elems (fld e ''objectRefs''))
     \<union> (if fld e ''artifactLifecycleRef'' = JNull then {} else {''artifact:'' @ refIdentityKey (fld e ''artifactLifecycleRef'')})"
  by (simp only: eventKeys_def set_dedup_id set_append set_map list.set Un_assoc if_distrib [of set])

definition projection_ok :: "jsenv \<Rightarrow> jval \<Rightarrow> string \<Rightarrow> jval \<Rightarrow> bool" where
  "projection_ok E e k p \<longleftrightarrow> validateMaterializedEpistemicProjection E p = Inr True \<and> jsonic p \<and> isPlainObject p
     \<and> fld p ''projectionKey'' = JStr k \<and> fld p ''headSequence'' = fld e ''globalSequence''
     \<and> fld p ''epistemicPosture'' = fld e ''epistemicPosture'' \<and> fld p ''authorityPosture'' = fld e ''authorityPosture''
     \<and> epistemicLedgerEventRef E e = Inr (fld p ''headEventRef'')"

lemma normal_stream_key: "normal_stream s \<Longrightarrow> normal_text (JStr (raw_string (fld s ''streamKey'')))"
proof -
  assume "normal_stream s"
  then obtain t i where "fld s ''streamKey'' = JStr (t @ '':'' @ i)" "trim t = t" "t \<noteq> []" "i \<noteq> []" "trim i = i"
    by (auto simp: normal_stream_def)
  with trim_colon [of t i] show ?thesis by (simp add: normal_text_def)
qed

lemma eventKeys_trimmed:
  assumes "sha_ok E" "event_ok E e" "k \<in> set (eventKeys e)"
  shows "js_text (JStr k) [] = k" "k \<noteq> []"
proof -
  note t = event_ok_texts [OF assms(1,2)]
  have a: "trim (p @ s) = p @ s" if "normal_text (JStr s)" "p \<noteq> []" "\<not> is_space (hd p)" for p s
    using that trim_ends [of s] by (intro trim_id) (auto simp: normal_text_def hd_append last_append)
  have p: "\<not> is_space (hd ''stream:'')" "\<not> is_space (hd ''object:'')" "\<not> is_space (hd ''artifact:'')" "trim ''ledger:global'' = ''ledger:global''"
    by (simp_all add: is_space_def trim_id)
  have st: "normal_text (JStr (raw_string (fld r ''streamKey'')))" if "r \<in> set (elems (fld e ''streamRefs''))" for r
    using t(13) that normal_stream_key by (auto simp: normal_streams_def)
  have ob: "normal_text (JStr (refIdentityKey r))" if "r \<in> set (elems (fld e ''objectRefs''))" for r
    using t(19) that refIdentityKey_text by (fastforce simp: normal_refs_def)
  have ar: "normal_text (JStr (refIdentityKey (fld e ''artifactLifecycleRef'')))" if "fld e ''artifactLifecycleRef'' \<noteq> JNull"
    using t(20) that refIdentityKey_text by (auto simp: normal_opt_def)
  consider "k = ''ledger:global''" | r where "r \<in> set (elems (fld e ''streamRefs''))" "k = ''stream:'' @ raw_string (fld r ''streamKey'')"
    | r where "r \<in> set (elems (fld e ''objectRefs''))" "k = ''object:'' @ refIdentityKey r"
    | "fld e ''artifactLifecycleRef'' \<noteq> JNull" "k = ''artifact:'' @ refIdentityKey (fld e ''artifactLifecycleRef'')"
    using assms(3) unfolding eventKeys_set by (auto simp del: append.simps split: if_splits)
  then have "trim k = k \<and> k \<noteq> []"
  proof cases
    case 2
    with a [OF st [OF 2(1)] _ p(1)] show ?thesis by simp
  next
    case 3
    with a [OF ob [OF 3(1)] _ p(2)] show ?thesis by simp
  next
    case 4
    with a [OF ar [OF 4(1)] _ p(3)] show ?thesis by simp
  qed (use p(4) in simp)
  then show "js_text (JStr k) [] = k" "k \<noteq> []" by auto
qed

lemma buildProjection_Inr:
  assumes "sha_ok E" "event_ok E e" "k \<in> set (eventKeys e)" "buildMaterializedEpistemicProjection E e k = Inr p"
  shows "projection_ok E e k p"
proof -
  note t = event_ok_texts [OF assms(1,2)]
  obtain b n q c where e: "e = event_of E b n q c" "stable_intent b" using assms(2) by (auto simp: event_ok_def)
  obtain er where er: "epistemicLedgerEventRef E e = Inr er" "cut_ref er" using event_ref [OF assms(1,2)] by blast
  have p: "p = sealWith E MATERIALIZED_EPISTEMIC_PROJECTION_SCHEMA ''projectionDigest'' (JObj [
       (''schema'', JStr MATERIALIZED_EPISTEMIC_PROJECTION_SCHEMA),
       (''projectionKey'', JStr k),
       (''headSequence'', fld e ''globalSequence''),
       (''headEventRef'', er),
       (''epistemicPosture'', fld e ''epistemicPosture''),
       (''authorityPosture'', fld e ''authorityPosture''),
       (''subjectScope'', fld e ''subjectScope''),
       (''objectRefs'', fld e ''objectRefs''),
       (''artifactLifecycleRef'', fld e ''artifactLifecycleRef''),
       (''rendererSafeSummary'', fld e ''rendererSafeSummary''),
       (''updatedAt'', fld e ''createdAt'')]) \<and> validateMaterializedEpistemicProjection E p = Inr True"
    using assms(4) unfolding buildMaterializedEpistemicProjection_def t(9) ebind_simps projectionKeys_ok [OF assms(1,2)] er(1)
      eventKeys_trimmed(1) [OF assms(1-3)]
    apply (elim run_elims)
    apply (frule validators_True)
    apply simp
    done
  then have v: "validateMaterializedEpistemicProjection E p = Inr True" by blast
  note p' = conjunct1 [OF p]
  have "jsonic p" unfolding p'
    by (rule jsonic_sealWith) (use t(16,17) e(2) normal_ref_simps(3) [OF er(2)] in \<open>simp_all add: jsonic_kinds e(1) shaped_jsonic\<close>)
  then show ?thesis unfolding projection_ok_def using v er(1) by (simp add: p')
qed

subsection \<open>Outbox seeds\<close>

definition seed_ok :: "jsenv \<Rightarrow> jval \<Rightarrow> jval \<Rightarrow> bool" where
  "seed_ok E e sd \<longleftrightarrow> validateLedgerDeliveryOutboxSeed E sd = Inr True \<and> jsonic sd \<and> isPlainObject sd
     \<and> exactEventRefMatches (fld sd ''ledgerEventRef'') e
     \<and> (\<exists>i. fld sd ''outboxSeedId'' = JStr i \<and> trim i = i) \<and> (\<exists>d. fld sd ''seedDigest'' = JStr d)
     \<and> fld sd ''dispatchState'' = JStr ''pending''"

lemma buildOutboxSeed_Inr:
  assumes "sha_ok E" "event_ok E e" "buildLedgerDeliveryOutboxSeed E' arg e opts = Inr sd" "E' = E\<lparr>date_now := t\<rparr> \<or> E' = E"
  shows "seed_ok E e sd"
proof -
  have [simp]: "validateEpistemicLedgerEvent E' v = validateEpistemicLedgerEvent E v" "epistemicLedgerEventRef E' v = epistemicLedgerEventRef E v"
    "normalizeOutboxSeedIntents E' v = normalizeOutboxSeedIntents E v" "stableIdN E' q v k = stableIdN E q v k"
    "sealWith E' q f v = sealWith E q f v" "validateLedgerDeliveryOutboxSeed E' v = validateLedgerDeliveryOutboxSeed E v" for v q k f
    using assms(4) by auto
  note tx = event_ok_texts [OF assms(1,2)]
  obtain er where er: "epistemicLedgerEventRef E e = Inr er" "cut_ref er" "exactEventRefMatches er e"
    using event_ref [OF assms(1,2)] by blast
  obtain ns where ns: "normalizeOutboxSeedIntents E (JArr [dflt arg]) = Inr ns"
    using assms(3) by (auto simp: buildLedgerDeliveryOutboxSeed_def ebind_Inr_iff)
  then obtain x sub rec pol m mat where x: "ns = [x]" "x = JObj [(''subscriptionRef'', sub), (''recipientRef'', rec),
      (''deliveryPolicy'', JStr pol), (''matchReason'', JStr m), (''materiality'', JStr mat)]" "cut_ref sub" "cut_ref rec"
    by (auto simp: normalizeOutboxSeedIntents_def ebind_Inr_iff Let_def dest!: ledgerExactRef_cut split: if_splits)
  have hd: "hd ns = x" by (simp add: x(1))
  have flds: "fld x ''subscriptionRef'' = sub" "fld x ''recipientRef'' = rec" "fld x ''deliveryPolicy'' = JStr pol"
    "fld x ''matchReason'' = JStr m" "fld x ''materiality'' = JStr mat" by (simp_all add: x(2))
  have h: "\<not> is_space (hd ''ledger_outbox'')" by (simp add: is_space_def)
  have tr: "trim (stableIdN E ''ledger_outbox'' v 32) = stableIdN E ''ledger_outbox'' v 32" for v
    by (rule stableIdN_trimmed(1) [OF assms(1) _ h]) simp_all
  obtain i c where sd: "sd = sealWith E LEDGER_DELIVERY_OUTBOX_SEED_SCHEMA ''seedDigest'' (JObj [
       (''schema'', JStr LEDGER_DELIVERY_OUTBOX_SEED_SCHEMA), (''outboxSeedId'', JStr i), (''ledgerEventRef'', er),
       (''subscriptionRef'', sub), (''recipientRef'', rec), (''deliveryPolicy'', JStr pol), (''matchReason'', JStr m),
       (''materiality'', JStr mat), (''dispatchState'', JStr ''pending''), (''createdAt'', JStr c)])"
    and v: "validateLedgerDeliveryOutboxSeed E sd = Inr True" and i: "trim i = i"
    using assms(3) unfolding buildLedgerDeliveryOutboxSeed_def
    apply (simp only: \<open>\<And>v. validateEpistemicLedgerEvent E' v = _ v\<close> \<open>\<And>v. epistemicLedgerEventRef E' v = _ v\<close>
      \<open>\<And>v. normalizeOutboxSeedIntents E' v = _ v\<close> tx(9) ebind_simps ns hd er(1) Let_def flds)
    apply (elim run_elims)
    apply simp
    apply (frule validators_True)
    apply (rule that)
       apply (erule sym)
     apply simp
    apply (simp add: tr)
    done
  have "jsonic sd" unfolding sd
    by (rule jsonic_sealWith) (use normal_ref_simps(3) [OF er(2)] normal_ref_simps(3) [OF x(3)] normal_ref_simps(3) [OF x(4)] in simp_all)
  then show ?thesis unfolding seed_ok_def using v er(3) i by (simp add: sd)
qed

end
