(* ===== verification/LedgerIntegrity.thy ===== *)
theory LedgerIntegrity
  imports LedgerRecords
begin

section \<open>Epistemic ledger: every history keeps the ledger intact\<close>

text \<open>
  The invariant of the store and its preservation by every operation. The events form a chain:
  they are numbered from 1 and each carries the digest of the one before it; every event has its
  memberships, exactly one receipt and an act type that is registered. From the invariant follow
  the verdict of the integrity check, the replay of appends and the content of the projections.
\<close>

subsection \<open>The chain\<close>

fun chained :: "string \<Rightarrow> int \<Rightarrow> jval list \<Rightarrow> bool" where
  "chained d n [] \<longleftrightarrow> True"
| "chained d n (e # es) \<longleftrightarrow> fld e ''globalSequence'' = num n \<and> fld e ''previousLedgerDigest'' = JStr d
     \<and> chained (raw_string (fld e ''eventDigest'')) (n + 1) es"

fun head_digest :: "string \<Rightarrow> jval list \<Rightarrow> string" where
  "head_digest d [] = d"
| "head_digest d (e # es) = head_digest (raw_string (fld e ''eventDigest'')) es"

lemma chained_snoc: "chained d n (es @ [e]) \<longleftrightarrow> chained d n es
   \<and> fld e ''globalSequence'' = num (n + int (length es)) \<and> fld e ''previousLedgerDigest'' = JStr (head_digest d es)"
  by (induction d n es rule: chained.induct) (auto simp: algebra_simps)

lemma head_digest_snoc: "head_digest d (es @ [e]) = raw_string (fld e ''eventDigest'')"
  by (induction es arbitrary: d) auto

lemma chained_nth: "chained d n es \<Longrightarrow> i < length es \<Longrightarrow> fld (es ! i) ''globalSequence'' = num (n + int i)"
  by (induction es arbitrary: d n i) (auto simp: nth_Cons' algebra_simps)

lemma chained_sequences: "chained d n es \<Longrightarrow> map (\<lambda>e. int_of (fld e ''globalSequence'')) es = map (\<lambda>i. n + int i) [0..<length es]"
  by (rule nth_equalityI) (simp_all add: chained_nth)

lemma chained_member: "chained d n es \<Longrightarrow> e \<in> set es \<Longrightarrow> \<exists>i<length es. fld e ''globalSequence'' = num (n + int i)"
  by (auto simp: in_set_conv_nth dest: chained_nth)

lemma sorted_chain: "chained d n es \<Longrightarrow> sorted (map (\<lambda>e. int_of (fld e ''globalSequence'')) es)"
  by (auto simp: chained_sequences sorted_iff_nth_mono)

subsection \<open>The invariant\<close>

definition membershipsFor :: "jval \<Rightarrow> membership_row list" where
  "membershipsFor e = map (\<lambda>i. membershipRow e i (elems (fld e ''streamRefs'') ! i)) [0..<length (elems (fld e ''streamRefs''))]"

definition act_ok :: "jsenv \<Rightarrow> act_row \<Rightarrow> bool" where
  "act_ok E row \<longleftrightarrow> (\<exists>c r. constitution_json row = JsonOf c \<and> validateLedgerActTypeConstitution E c = Inr True
     \<and> ledgerActTypeConstitutionRef E c = Inr r \<and> fld r ''id'' = JStr (act_type_ref_id row) \<and> isPlainObject c)"

definition act_known :: "ledger_store \<Rightarrow> jval \<Rightarrow> bool" where
  "act_known s e \<longleftrightarrow> (\<exists>row\<in>set (act_rows s). \<exists>c. constitution_json row = JsonOf c
     \<and> fld (fld e ''actTypeRef'') ''id'' = JStr (act_type_ref_id row) \<and> fld c ''digest'' = fld (fld e ''actTypeRef'') ''digest'')"

definition outbox_ok :: "jsenv \<Rightarrow> jval list \<Rightarrow> outbox_row \<Rightarrow> bool" where
  "outbox_ok E es row \<longleftrightarrow> (\<exists>e\<in>set es. \<exists>sd. seed_ok E e sd \<and> seed_json row = json sd \<and> fld e ''ledgerEventId'' = JStr (outbox_event_id row)
       \<and> fld sd ''outboxSeedId'' = JStr (outbox_seed_id row) \<and> fld sd ''seedDigest'' = JStr (seed_digest row))
     \<and> dispatch_state row \<in> set dispatch_states
     \<and> (dispatch_state row = ''dispatched'' \<longrightarrow> (\<exists>r. cut_ref r \<and> delivery_ref_json row = json r
          \<and> delivery_ref_digest row = digestFor E ''direct_ledger_outbox_delivery_ref@1'' r []))
     \<and> (dispatch_state row \<in> {''retry_pending'', ''failed_terminal''} \<longrightarrow> (\<exists>code summary retryable at'. code \<noteq> [] \<and> trim code = code
          \<and> last_failure_json row = json (dispatchFailure E code summary retryable (attempt_count row) at')))"

abbreviation requestKey :: "receipt_row \<Rightarrow> string \<times> string \<times> string" where
  "requestKey row \<equiv> (actor_identity row, operation_scope row, idempotency_key row)"

definition ledger_inv :: "jsenv \<Rightarrow> ledger_store \<Rightarrow> jval list \<Rightarrow> jval list \<Rightarrow> bool" where
  \<comment> \<open>the store \<open>s\<close> holds the events \<open>es\<close> with their receipts \<open>rs\<close>\<close>
  "ledger_inv E s es rs \<longleftrightarrow> event_rows s = map eventRow es \<and> (\<forall>e\<in>set es. event_ok E e)
     \<and> chained (LEDGER_GENESIS_DIGEST E) 1 es \<and> distinct (map ledger_event_id (event_rows s))
     \<and> (\<forall>e\<in>set es. act_known s e) \<and> (\<forall>row\<in>set (act_rows s). act_ok E row) \<and> distinct (map act_type_ref_id (act_rows s))
     \<and> membership_rows s = concat (map membershipsFor es)
     \<and> list_all2 (receipt_ok E) es rs \<and> receipt_rows s = map2 receiptRow es rs
     \<and> (\<forall>row\<in>set (outbox_rows s). outbox_ok E es row)
     \<and> distinct (map requestKey (receipt_rows s)) \<and> distinct (map outbox_seed_id (outbox_rows s))"

lemma ledger_inv_empty: "ledger_inv E emptyStore [] []"
  by (simp add: ledger_inv_def emptyStore_def)

subsection \<open>Rows of a ledger that satisfies the invariant\<close>

lemma eventRow_fields:
  assumes "sha_ok E" "event_ok E e"
  shows "num (global_sequence (eventRow e)) = fld e ''globalSequence''"
    "JStr (ledger_event_id (eventRow e)) = fld e ''ledgerEventId''"
    "JStr (event_digest (eventRow e)) = fld e ''eventDigest''"
    "eventFromRow E (eventRow e) = Inr e"
proof -
  note t = event_ok_texts [OF assms]
  obtain i where i: "fld (fld e ''actTypeRef'') ''id'' = JStr i" using normal_ref_simps(4) [OF t(11)] by blast
  obtain n where n: "fld e ''globalSequence'' = num n" using t(10) by blast
  have raw: "JStr (raw_string x) = x" if "normal_text x" for x using that by (auto simp: normal_text_def)
  have word: "JStr (raw_string x) = x" if "one_of x ws" for x ws using that by (auto dest: one_ofE)
  have c: "JStr (raw_string (fld e ''createdAt'')) = fld e ''createdAt''" using t(4) by auto
  show "num (global_sequence (eventRow e)) = fld e ''globalSequence''" by (simp add: eventRow_def n)
  show "JStr (ledger_event_id (eventRow e)) = fld e ''ledgerEventId''" by (simp add: eventRow_def raw [OF t(1)])
  show "JStr (event_digest (eventRow e)) = fld e ''eventDigest''" by (simp add: eventRow_def raw [OF t(2)])
  show "eventFromRow E (eventRow e) = Inr e"
    by (simp add: eventFromRow_def eventRow_def parse_json [OF t(6)] t(9) n i raw [OF t(1)] raw [OF t(2)] raw [OF t(3)] raw [OF t(5)]
      word [OF t(14)] word [OF t(15)] word [OF t(16)] word [OF t(17)] c)
qed

lemma inv_events:
  assumes "sha_ok E" "ledger_inv E s es rs"
  shows "eventsInOrder s = map eventRow es" "length rs = length es" "length (receipt_rows s) = length es"
    "eventsById E s = Inr (map (\<lambda>e. (ledger_event_id (eventRow e), e)) es)"
    "e \<in> set es \<Longrightarrow> map_of (rev (map (\<lambda>e. (ledger_event_id (eventRow e), e)) es)) (raw_string (fld e ''ledgerEventId'')) = Some e"
proof -
  note v = assms(2) [unfolded ledger_inv_def]
  have "map global_sequence (map eventRow es) = map (\<lambda>e. int_of (fld e ''globalSequence'')) es" by (simp add: eventRow_def)
  moreover have "sorted (map (\<lambda>e. int_of (fld e ''globalSequence'')) es)" using v by (intro sorted_chain) blast
  ultimately have "sorted (map global_sequence (map eventRow es))" by (simp only:)
  then have "sort_key global_sequence (map eventRow es) = map eventRow es" by (rule sort_key_id_if_sorted)
  moreover have "event_rows s = map eventRow es" using v by blast
  ultimately show o: "eventsInOrder s = map eventRow es" by (simp only: eventsInOrder_def)
  show "length rs = length es" using v by (auto dest: list_all2_lengthD)
  then show "length (receipt_rows s) = length es" using v by simp
  have ok: "\<forall>e\<in>set es. event_ok E e" using v by blast
  have "emap (\<lambda>row. ebind (eventFromRow E row) (\<lambda>event. Inr (ledger_event_id row, event))) (map eventRow es)
     = Inr (map (\<lambda>e. (ledger_event_id (eventRow e), e)) es)"
    using ok by (induction es) (auto simp: eventRow_fields(4) [OF assms(1)])
  then show "eventsById E s = Inr (map (\<lambda>e. (ledger_event_id (eventRow e), e)) es)" by (simp only: eventsById_def o)
  have r: "event_rows s = map eventRow es" and dr: "distinct (map ledger_event_id (event_rows s))" using v by blast+
  have d: "distinct (map fst (map (\<lambda>e. (ledger_event_id (eventRow e), e)) es))" using dr unfolding r by (simp add: comp_def)
  show "map_of (rev (map (\<lambda>e. (ledger_event_id (eventRow e), e)) es)) (raw_string (fld e ''ledgerEventId'')) = Some e" if "e \<in> set es"
  proof -
    have "ledger_event_id (eventRow e) = raw_string (fld e ''ledgerEventId'')" by (simp add: eventRow_def)
    then show ?thesis unfolding map_of_rev_distinct [OF d] using d that by (intro map_of_is_SomeI) (auto simp: image_iff intro!: bexI [of _ e])
  qed
qed

definition constitutionOf :: "act_row \<Rightarrow> jval" where
  "constitutionOf row = (case constitution_json row of JsonOf c \<Rightarrow> c | _ \<Rightarrow> JNull)"

lemma act_okD:
  assumes "act_ok E row"
  shows "constitution_json row = JsonOf (constitutionOf row)" "validateLedgerActTypeConstitution E (constitutionOf row) = Inr True"
    "\<exists>r. ledgerActTypeConstitutionRef E (constitutionOf row) = Inr r \<and> fld r ''id'' = JStr (act_type_ref_id row)"
    "isPlainObject (constitutionOf row)"
  using assms by (auto simp: act_ok_def constitutionOf_def)

lemma inv_constitutions:
  assumes "\<forall>row\<in>set rows. act_ok E row" "act_rows s = rows"
  shows "constitutionsByRef E s = Inr (map (\<lambda>row. (JStr (act_type_ref_id row), constitutionOf row)) rows)"
proof -
  have "listActTypeConstitutions E s = Inr (map constitutionOf rows)"
    using assms(1) unfolding listActTypeConstitutions_def assms(2)
    by (intro emap_total) (auto simp: act_okD parseJson_def)
  moreover have "emap (\<lambda>v. ebind (ledgerActTypeConstitutionRef E v) (\<lambda>ref. Inr (fld ref ''id'', v))) (map constitutionOf rows)
     = Inr (map (\<lambda>row. (JStr (act_type_ref_id row), constitutionOf row)) rows)"
    using assms(1)
  proof (induction rows)
    case (Cons row rows)
    then obtain r where "ledgerActTypeConstitutionRef E (constitutionOf row) = Inr r" "fld r ''id'' = JStr (act_type_ref_id row)"
      using act_okD(3) by (metis list.set_intros(1))
    with Cons show ?case by simp
  qed simp
  ultimately show ?thesis by (simp add: constitutionsByRef_def)
qed

lemma concat_single: "distinct es \<Longrightarrow> e \<in> set es \<Longrightarrow> (\<And>e'. e' \<in> set es \<Longrightarrow> e' \<noteq> e \<Longrightarrow> f e' = []) \<Longrightarrow> concat (map f es) = f e"
proof (induction es)
  case (Cons x es)
  show ?case
  proof (cases "x = e")
    case True
    then have "\<forall>y\<in>set es. f y = []" using Cons.prems by auto
    then have "concat (map f es) = []" by simp
    with True show ?thesis by simp
  next
    case False
    then have "f x = []" "concat (map f es) = f e" using Cons by auto
    then show ?thesis by simp
  qed
qed simp

lemma chained_distinct: "chained d n es \<Longrightarrow> distinct es"
proof -
  assume "chained d n es"
  then have "distinct (map (\<lambda>e. int_of (fld e ''globalSequence'')) es)"
    by (simp add: chained_sequences distinct_map inj_on_def)
  then show ?thesis by (simp add: distinct_map)
qed

lemma membershipsFor_sequence:
  "m \<in> set (membershipsFor e) \<Longrightarrow> member_sequence m = int_of (fld e ''globalSequence'')"
  by (auto simp: membershipsFor_def membershipRow_def)

lemma chained_inj: "chained d n es \<Longrightarrow> e \<in> set es \<Longrightarrow> e' \<in> set es \<Longrightarrow> fld e ''globalSequence'' = fld e' ''globalSequence'' \<Longrightarrow> e = e'"
  by (auto simp: in_set_conv_nth chained_nth)

lemma inv_memberships:
  assumes "sha_ok E" "ledger_inv E s es rs" "e \<in> set es"
  shows "emap (\<lambda>m. parseJson (stream_ref_json m) (f m)) (membershipsOf s e) = Inr (elems (fld e ''streamRefs''))"
proof -
  have ch: "chained (LEDGER_GENESIS_DIGEST E) 1 es" and m: "membership_rows s = concat (map membershipsFor es)" and ok: "event_ok E e"
    using assms(2,3) by (auto simp: ledger_inv_def)
  let ?P = "\<lambda>m. num (member_sequence m) = fld e ''globalSequence''"
  have seq: "?P m \<longleftrightarrow> fld e' ''globalSequence'' = fld e ''globalSequence''" if "m \<in> set (membershipsFor e')" "e' \<in> set es" for m e'
    using membershipsFor_sequence [OF that(1)] chained_member [OF ch that(2)] by auto
  have "filter ?P (membership_rows s) = concat (map (\<lambda>e'. filter ?P (membershipsFor e')) es)"
    by (simp add: m filter_concat comp_def)
  also have "\<dots> = filter ?P (membershipsFor e)"
  proof (rule concat_single [OF chained_distinct [OF ch] assms(3)])
    fix e' assume "e' \<in> set es" "e' \<noteq> e"
    then have "fld e' ''globalSequence'' \<noteq> fld e ''globalSequence''" using chained_inj [OF ch _ assms(3)] by blast
    with seq [OF _ \<open>e' \<in> set es\<close>] show "filter ?P (membershipsFor e') = []" by (auto simp: filter_empty_conv)
  qed
  also have "\<dots> = membershipsFor e" using seq [OF _ assms(3)] by (auto intro: filter_True)
  finally have f: "filter ?P (membership_rows s) = membershipsFor e" .
  have "sorted (map stream_position (membershipsFor e))" by (simp add: membershipsFor_def membershipRow_def comp_def)
  then have o: "membershipsOf s e = membershipsFor e" unfolding membershipsOf_def f by (rule sort_key_id_if_sorted)
  have st: "normal_streams (fld e ''streamRefs'')" using event_ok_texts(13) [OF assms(1) ok] .
  let ?l = "elems (fld e ''streamRefs'')"
  have "emap (\<lambda>m. parseJson (stream_ref_json m) (f m)) (membershipsFor e) = emap (\<lambda>i. Inr (?l ! i)) [0..<length ?l]"
  proof -
    have "parseJson (stream_ref_json (membershipRow e i (?l ! i))) l = Inr (?l ! i)" if "i < length ?l" for i l
      using st that by (auto simp: membershipRow_def normal_streams_def normal_stream_fixed(3))
    then have "emap (\<lambda>m. parseJson (stream_ref_json m) (f m)) (map (\<lambda>i. membershipRow e i (?l ! i)) is) = emap (\<lambda>i. Inr (?l ! i)) is"
      if "\<forall>i\<in>set is. i < length ?l" for "is"
      using that by (induction "is") auto
    then show ?thesis by (simp add: membershipsFor_def)
  qed
  also have "\<dots> = Inr (map ((!) ?l) [0..<length ?l])" by (rule emap_total) simp
  also have "\<dots> = Inr ?l" by (simp add: map_nth)
  finally show ?thesis by (simp only: o)
qed

lemma jsonEqual_refl [simp]: "jsonEqual E v v"
  by (simp add: jsonEqual_def)

subsection \<open>The verdict of the integrity check\<close>

lemma inv_checkEvents:
  assumes "sha_ok E" "ledger_inv E s es rs" "set es' \<subseteq> set es" "chained d n es'"
  shows "efold (checkEvent E s (map (\<lambda>row. (JStr (act_type_ref_id row), constitutionOf row)) (act_rows s))) (map eventRow es') (d, n)
     = Inr (head_digest d es', n + int (length es'))"
  using assms(3,4)
proof (induction es' arbitrary: d n)
  case (Cons e es')
  let ?cs = "map (\<lambda>row. (JStr (act_type_ref_id row), constitutionOf row)) (act_rows s)"
  have e: "e \<in> set es" "event_ok E e" using Cons.prems assms(2) by (auto simp: ledger_inv_def)
  have a: "act_known s e" "distinct (map act_type_ref_id (act_rows s))" using e assms(2) by (auto simp: ledger_inv_def)
  obtain row c where row: "row \<in> set (act_rows s)" "constitution_json row = JsonOf c"
    "fld (fld e ''actTypeRef'') ''id'' = JStr (act_type_ref_id row)" "fld c ''digest'' = fld (fld e ''actTypeRef'') ''digest''"
    using a(1) by (auto simp: act_known_def)
  have "distinct (map fst ?cs)" using a(2) by (simp add: distinct_map comp_def inj_on_def)
  moreover from this have "map_of ?cs (JStr (act_type_ref_id row)) = Some c"
    using row(1,2) by (intro map_of_is_SomeI) (auto simp: constitutionOf_def intro!: image_eqI [of _ _ row])
  ultimately have look: "map_of (rev ?cs) (fld (fld e ''actTypeRef'') ''id'') = Some c"
    by (simp add: map_of_rev_distinct row(3))
  have st: "JArr (elems (fld e ''streamRefs'')) = fld e ''streamRefs''"
    using event_ok_texts(13) [OF assms(1) e(2)] normal_streams_elems(1) by metis
  have step: "checkEvent E s ?cs (eventRow e) (d, n) = Inr (raw_string (fld e ''eventDigest''), n + 1)"
    using Cons.prems(2)
    by (simp add: checkEvent_def eventRow_fields(4) [OF assms(1) e(2)] look row(4) inv_memberships [OF assms(1,2) e(1)] st)
  have "efold (checkEvent E s ?cs) (map eventRow es') (raw_string (fld e ''eventDigest''), n + 1)
     = Inr (head_digest (raw_string (fld e ''eventDigest'')) es', n + 1 + int (length es'))"
    using Cons.prems by (intro Cons.IH) auto
  with step show ?case by (simp add: algebra_simps)
qed simp

abbreviation byId :: "jval list \<Rightarrow> (string \<times> jval) list" where
  "byId es \<equiv> map (\<lambda>e. (ledger_event_id (eventRow e), e)) es"

lemma inv_checkReceipt:
  assumes "sha_ok E" "ledger_inv E s es rs" "row \<in> set (receipt_rows s)"
  shows "checkReceipt E (byId es) row = Inr True"
proof -
  note v = assms(2) [unfolded ledger_inv_def]
  have "row \<in> set (map2 receiptRow es rs)" using v assms(3) by metis
  then obtain e r where row: "row = receiptRow e r" and m: "(e, r) \<in> set (zip es rs)" by auto
  have e: "e \<in> set es" using m by (rule set_zip_leftD)
  have ro: "receipt_ok E e r" using v m by (auto simp: list_all2_iff)
  have ok: "event_ok E e" using v e by blast
  note t = event_ok_texts [OF assms(1) ok]
  have raw: "JStr (raw_string x) = x" if "normal_text x" for x using that by (auto simp: normal_text_def)
  have key: "ledgerExactRefKey E (fld e ''actorRef'') False = Inr (refIdentityKey (fld e ''actorRef''))"
    using t(12) by (simp add: ledgerExactRefKey_cut stable_cut)
  have look: "map_of (rev (byId es)) (receipt_event_id row) = Some e"
    using inv_events(5) [OF assms(1,2) e] by (simp add: row receiptRow_def)
  note r = ro [unfolded receipt_ok_def]
  have p: "parseJson (receipt_json row) l = Inr r" for l using r by (simp add: row receiptRow_def)
  have f: "fld r ''receiptId'' = JStr (receipt_id row)" "fld r ''receiptDigest'' = JStr (receipt_digest row)"
    "fld r ''appendRequestDigest'' = JStr (append_request_digest row)" "actor_identity row = refIdentityKey (fld e ''actorRef'')"
    "fld r ''actorIdentity'' = JStr (actor_identity row)" "fld r ''operationScope'' = JStr (operation_scope row)"
    "fld e ''idempotencyKey'' = JStr (idempotency_key row)" "fld r ''idempotencyKey'' = JStr (idempotency_key row)"
    using r raw [OF t(5)] by (auto simp: row receiptRow_def normal_text_def)
  show ?thesis
    using r by (simp add: checkReceipt_def p look key f [symmetric] del: list.map)
qed

lemma dispatchFailure_fields [simp]:
  "fld (dispatchFailure E code summary retryable k at') ''schema'' = JStr ''direct_ledger_outbox_dispatch_failure@1''"
  "fld (dispatchFailure E code summary retryable k at') ''failureCode'' = JStr code"
  "fld (dispatchFailure E code summary retryable k at') ''attemptCount'' = num k"
  "fld (dispatchFailure E code summary retryable k at') ''failureDigest''
     = JStr (digestFor E ''direct_ledger_outbox_dispatch_failure@1'' (dispatchFailure E code summary retryable k at') [''failureDigest''])"
  "jsonic (dispatchFailure E code summary retryable k at')"
  unfolding dispatchFailure_def
  by (simp_all add: jsonic_sealWith)

definition settled_delivery :: "jsenv \<Rightarrow> outbox_row \<Rightarrow> bool" where
  \<comment> \<open>the stored digest of a delivery reference is the digest of the stored reference normalised once more\<close>
  "settled_delivery E row \<longleftrightarrow> dispatch_state row \<noteq> ''dispatched''
     \<or> (case delivery_ref_json row of JsonOf r \<Rightarrow> (case ledgerExactRef E r ''deliveryRef'' of
            Inr r' \<Rightarrow> delivery_ref_digest row = digestFor E ''direct_ledger_outbox_delivery_ref@1'' r' [] | Inl _ \<Rightarrow> False)
        | _ \<Rightarrow> False)"

lemma settled_deliveryI:
  assumes "delivery_ref_json row = json r" "ledgerExactRef E r ''deliveryRef'' = Inr r"
    "delivery_ref_digest row = digestFor E ''direct_ledger_outbox_delivery_ref@1'' r []"
  shows "settled_delivery E row"
proof -
  have "jsonic r" using ledgerExactRef_cut [OF assms(2)] by (rule normal_ref_simps(3))
  then show ?thesis by (simp add: settled_delivery_def assms json_jsonic)
qed

lemma inv_checkOutbox:
  assumes "sha_ok E" "ledger_inv E s es rs" "row \<in> set (outbox_rows s)"
  shows "checkOutbox E (byId es) row = (if settled_delivery E row then Inr True
     else fail ''epistemic_ledger_outbox_delivery_ref_mismatch'' (outbox_seed_id row))"
proof -
  have "outbox_ok E es row" using assms(2,3) by (auto simp: ledger_inv_def)
  note o = this [unfolded outbox_ok_def]
  then obtain e sd where e: "e \<in> set es" and sd: "seed_ok E e sd" "seed_json row = json sd"
    "fld e ''ledgerEventId'' = JStr (outbox_event_id row)" "fld sd ''outboxSeedId'' = JStr (outbox_seed_id row)"
    "fld sd ''seedDigest'' = JStr (seed_digest row)" by blast
  have look: "map_of (rev (byId es)) (outbox_event_id row) = Some e"
    using inv_events(5) [OF assms(1,2) e] by (simp add: sd(3))
  note q = sd(1) [unfolded seed_ok_def]
  have p: "parseJson (seed_json row) l = Inr sd" for l using q by (simp add: sd(2))
  have d: "(if dispatch_state row = ''dispatched''
       then ebind (parseJson (delivery_ref_json row) (''outbox-delivery-ref:'' @ outbox_seed_id row)) (\<lambda>parsed.
         ebind (ledgerExactRef E parsed ''deliveryRef'') (\<lambda>deliveryRef.
         if delivery_ref_digest row \<noteq> digestFor E ''direct_ledger_outbox_delivery_ref@1'' deliveryRef []
         then fail ''epistemic_ledger_outbox_delivery_ref_mismatch'' (outbox_seed_id row)
         else Inr True))
       else Inr True) = (if settled_delivery E row then Inr True
         else fail ''epistemic_ledger_outbox_delivery_ref_mismatch'' (outbox_seed_id row))"
  proof (cases "dispatch_state row = ''dispatched''")
    case True
    then obtain r where r: "cut_ref r" "delivery_ref_json row = json r" using o by blast
    have "jsonic r" using r(1) by (rule normal_ref_simps(3))
    moreover have "ledgerExactRef E r l = Inr (restab r)" for l by (rule ledgerExactRef_restab(1) [OF r(1)])
    ultimately show ?thesis using True by (simp add: r(2) settled_delivery_def json_jsonic parseJson_def)
  qed (simp add: settled_delivery_def)
  have f: "(if dispatch_state row \<in> {''retry_pending'', ''failed_terminal''}
     then ebind (parseJson (last_failure_json row) (''outbox-failure:'' @ outbox_seed_id row)) (\<lambda>failure.
       if fld failure ''schema'' \<noteq> JStr ''direct_ledger_outbox_dispatch_failure@1''
         \<or> js_text (fld failure ''failureCode'') [] = []
         \<or> to_number E (fld failure ''attemptCount'') \<noteq> Fin (of_int (attempt_count row))
         \<or> fld failure ''failureDigest'' \<noteq> JStr (digestFor E ''direct_ledger_outbox_dispatch_failure@1'' failure [''failureDigest''])
       then fail ''epistemic_ledger_outbox_failure_mismatch'' (outbox_seed_id row)
       else Inr True)
     else Inr True) = Inr True"
  proof (cases "dispatch_state row \<in> {''retry_pending'', ''failed_terminal''}")
    case True
    then obtain code summary retryable at' where c: "code \<noteq> []" "trim code = code"
      and j: "last_failure_json row = json (dispatchFailure E code summary retryable (attempt_count row) at')" using o by blast
    have "parseJson (last_failure_json row) l = Inr (dispatchFailure E code summary retryable (attempt_count row) at')" for l
      unfolding j by (rule parse_json) simp
    then show ?thesis by (simp add: c)
  qed simp
  show ?thesis unfolding checkOutbox_def p look ebind_simps d f
    using q o by (simp add: sd(4,5))
qed

lemma eforeach_True: "(\<And>x. x \<in> set xs \<Longrightarrow> f x = Inr True) \<Longrightarrow> eforeach f xs = Inr True"
  by (auto simp: eforeach_Inr_iff)

lemma inv_integrity_parts:
  assumes "sha_ok E" "ledger_inv E s es rs"
  shows "integrityCheck E s = ebind (eforeach (checkOutbox E (byId es)) (sort_key outbox_created_at (outbox_rows s)))
     (\<lambda>_. Inr (JObj [(''ok'', JBool True), (''eventCount'', num (int (length es))),
       (''receiptCount'', num (int (length es))), (''outboxSeedCount'', num (int (length (outbox_rows s)))),
       (''headSequence'', num (int (length es))), (''headDigest'', JStr (head_digest (LEDGER_GENESIS_DIGEST E) es))]))"
proof -
  note v = assms(2) [unfolded ledger_inv_def]
  have a: "constitutionsByRef E s = Inr (map (\<lambda>row. (JStr (act_type_ref_id row), constitutionOf row)) (act_rows s))"
    using v by (intro inv_constitutions) blast+
  have ch: "chained (LEDGER_GENESIS_DIGEST E) 1 es" using v by blast
  have n: "length (event_rows s) = length es" using v by simp
  have r: "eforeach (checkReceipt E (byId es)) (sort_key receipt_created_at (receipt_rows s)) = Inr True"
    by (rule eforeach_True) (simp add: inv_checkReceipt [OF assms])
  show ?thesis
    by (simp add: integrityCheck_def a inv_events(1,3,4) [OF assms] inv_checkEvents [OF assms subset_refl ch] r n)
qed

lemma inv_integrity:
  assumes "sha_ok E" "ledger_inv E s es rs" "list_all (settled_delivery E) (outbox_rows s)"
  shows "integrityCheck E s = Inr (JObj [(''ok'', JBool True), (''eventCount'', num (int (length es))),
       (''receiptCount'', num (int (length es))), (''outboxSeedCount'', num (int (length (outbox_rows s)))),
       (''headSequence'', num (int (length es))), (''headDigest'', JStr (head_digest (LEDGER_GENESIS_DIGEST E) es))])"
proof -
  have "eforeach (checkOutbox E (byId es)) (sort_key outbox_created_at (outbox_rows s)) = Inr True"
    using assms(3) by (intro eforeach_True) (simp add: inv_checkOutbox [OF assms(1,2)] list_all_iff)
  then show ?thesis by (simp add: inv_integrity_parts [OF assms(1,2)])
qed

lemma inv_integrity_fails:
  assumes "sha_ok E" "ledger_inv E s es rs" "\<not> list_all (settled_delivery E) (outbox_rows s)"
  shows "\<exists>row\<in>set (outbox_rows s). \<not> settled_delivery E row
     \<and> integrityCheck E s = fail ''epistemic_ledger_outbox_delivery_ref_mismatch'' (outbox_seed_id row)"
proof -
  have "\<exists>row\<in>set rows. \<not> settled_delivery E row
     \<and> eforeach (checkOutbox E (byId es)) rows = fail ''epistemic_ledger_outbox_delivery_ref_mismatch'' (outbox_seed_id row)"
    if "set rows \<subseteq> set (outbox_rows s)" "\<not> list_all (settled_delivery E) rows" for rows
    using that
  proof (induction rows)
    case (Cons row rows)
    have c: "checkOutbox E (byId es) row = (if settled_delivery E row then Inr True
       else fail ''epistemic_ledger_outbox_delivery_ref_mismatch'' (outbox_seed_id row))"
      using Cons.prems(1) by (intro inv_checkOutbox [OF assms(1,2)]) simp
    show ?case
    proof (cases "settled_delivery E row")
      case True
      with Cons obtain q where "q \<in> set rows" "\<not> settled_delivery E q"
        "eforeach (checkOutbox E (byId es)) rows = fail ''epistemic_ledger_outbox_delivery_ref_mismatch'' (outbox_seed_id q)" by auto
      with True c show ?thesis
        by (intro bexI [of _ q]) (auto simp: eforeach_def fail_def ebind_def split: sum.splits)
    qed (simp add: c fail_def eforeach_def)
  qed simp
  from this [of "sort_key outbox_created_at (outbox_rows s)"] assms(3)
  show ?thesis by (auto simp: inv_integrity_parts [OF assms(1,2)] list_all_iff)
qed

end
