(* ===== verification/LedgerAppend.thy ===== *)
theory LedgerAppend
  imports LedgerIntegrity
begin

section \<open>Epistemic ledger: what an append does\<close>

text \<open>
  An append either replays a recorded event or commits a new one at the head of the chain. The
  inversion lemmas of both branches and the invariant of the committed store; the clock decides
  only the time stamps, so the invariant does not depend on it.
\<close>

subsection \<open>The clock does not matter\<close>

lemma event_of_clock [simp]: "event_of (E\<lparr>date_now := t\<rparr>) b n p c = event_of E b n p c"
  by (simp add: event_of_def eventEntries_def)

lemma intentDigestOf_clock [simp]: "intentDigestOf (E\<lparr>date_now := t\<rparr>) b = intentDigestOf E b"
  by (simp add: intentDigestOf_def)

lemma records_clock [simp]:
  "event_ok (E\<lparr>date_now := t\<rparr>) e = event_ok E e"
  "receipt_ok (E\<lparr>date_now := t\<rparr>) e r = receipt_ok E e r"
  "seed_ok (E\<lparr>date_now := t\<rparr>) e sd = seed_ok E e sd"
  "act_ok (E\<lparr>date_now := t\<rparr>) row = act_ok E row"
  by (simp_all add: event_ok_def receipt_ok_def seed_ok_def act_ok_def)

lemma dispatchFailure_clock [simp]:
  "dispatchFailure (E\<lparr>date_now := t\<rparr>) code summary retryable k at' = dispatchFailure E code summary retryable k at'"
  by (simp add: dispatchFailure_def)

lemma ledger_inv_clock [simp]: "ledger_inv (E\<lparr>date_now := t\<rparr>) s es rs = ledger_inv E s es rs"
proof -
  have "receipt_ok (E\<lparr>date_now := t\<rparr>) = receipt_ok E" by (intro ext) simp
  then show ?thesis by (simp add: ledger_inv_def outbox_ok_def)
qed

lemma sha_ok_clock [simp]: "sha_ok (E\<lparr>date_now := t\<rparr>) = sha_ok E"
  by (simp add: sha_ok_def)

subsection \<open>Inserting rows\<close>

lemma insertRow_Inr: "insertRow ok row rows = Inr rows' \<longleftrightarrow> ok \<and> rows' = rows @ [row]"
  by (auto simp: insertRow_def)

lemma insertMemberships_Inr:
  "insertMemberships e i refs rows = Inr rows' \<Longrightarrow> rows' = rows @ map (\<lambda>j. membershipRow e (i + j) (refs ! j)) [0..<length refs]"
proof (induction refs arbitrary: i rows)
  case (Cons r refs)
  let ?rows1 = "rows @ [membershipRow e i r]"
  from Cons.prems have "insertMemberships e (Suc i) refs ?rows1 = Inr rows'"
    by (auto simp: ebind_Inr_iff insertRow_Inr Let_def)
  from Cons.IH [OF this] have "rows' = ?rows1 @ map (\<lambda>j. membershipRow e (Suc i + j) (refs ! j)) [0..<length refs]" .
  also have "\<dots> = rows @ map (\<lambda>j. membershipRow e (i + j) ((r # refs) ! j)) (0 # map Suc [0..<length refs])"
    by simp
  finally show ?case by (simp only: map_Suc_upt upt_conv_Cons [OF zero_less_Suc] list.size add_Suc_right add_0_right One_nat_def)
qed simp

lemma insertOutbox_Inr: "insertOutbox row rows = Inr rows' \<Longrightarrow> rows' = rows @ [row] \<and> outbox_seed_id row \<notin> outbox_seed_id ` set rows"
  by (auto simp: insertOutbox_def insertRow_Inr)

lemma insertOutbox_fold:
  "efold (\<lambda>seed. insertOutbox (outboxRow e seed)) seeds rows = Inr rows' \<Longrightarrow>
     rows' = rows @ map (outboxRow e) seeds \<and> (distinct (map outbox_seed_id rows) \<longrightarrow> distinct (map outbox_seed_id rows'))"
proof (induction seeds arbitrary: rows)
  case (Cons sd seeds)
  then obtain rows1 where r1: "insertOutbox (outboxRow e sd) rows = Inr rows1"
    and "efold (\<lambda>seed. insertOutbox (outboxRow e seed)) seeds rows1 = Inr rows'" by (auto simp: ebind_Inr_iff)
  note ih = Cons.IH [OF this(2)]
  from insertOutbox_Inr [OF r1] have a: "rows1 = rows @ [outboxRow e sd]"
    and "distinct (map outbox_seed_id rows) \<longrightarrow> distinct (map outbox_seed_id rows1)" by auto
  with ih have "distinct (map outbox_seed_id rows) \<longrightarrow> distinct (map outbox_seed_id rows')" by blast
  moreover from ih a have "rows' = rows @ map (outboxRow e) (sd # seeds)" by simp
  ultimately show ?case by blast
qed simp

lemma emap_all:
  assumes "emap f xs = Inr ys" "\<And>x y. f x = Inr y \<Longrightarrow> P y" shows "\<forall>y\<in>set ys. P y"
  using assms(1) by (induction xs arbitrary: ys) (auto simp: ebind_Inr_iff dest: assms(2))

lemma act_known_mono: "set (act_rows s) \<subseteq> set (act_rows s') \<Longrightarrow> act_known s e \<Longrightarrow> act_known s' e"
  by (auto simp: act_known_def)

lemma outbox_ok_mono: "set es \<subseteq> set es' \<Longrightarrow> outbox_ok E es row \<Longrightarrow> outbox_ok E es' row"
  unfolding outbox_ok_def by blast

subsection \<open>A new event\<close>

lemma inv_head:
  assumes "ledger_inv E s es rs" "sha_ok E"
  shows "(if eventsInOrder s = [] then 1 else global_sequence (last (eventsInOrder s)) + 1) = int (length es) + 1"
    "(if eventsInOrder s = [] then LEDGER_GENESIS_DIGEST E else event_digest (last (eventsInOrder s))) = head_digest (LEDGER_GENESIS_DIGEST E) es"
    "normal_text (JStr (head_digest (LEDGER_GENESIS_DIGEST E) es))"
proof -
  note v = assms(1) [unfolded ledger_inv_def]
  note o = inv_events(1) [OF assms(2,1)]
  have ch: "chained (LEDGER_GENESIS_DIGEST E) 1 es" using v by blast
  have g: "normal_text (JStr (LEDGER_GENESIS_DIGEST E))" using assms(2) by (simp add: LEDGER_GENESIS_DIGEST_def digest_text)
  consider "es = []" | es' e where "es = es' @ [e]" by (cases es rule: rev_cases) auto
  then have "(if eventsInOrder s = [] then 1 else global_sequence (last (eventsInOrder s)) + 1) = int (length es) + 1
    \<and> (if eventsInOrder s = [] then LEDGER_GENESIS_DIGEST E else event_digest (last (eventsInOrder s))) = head_digest (LEDGER_GENESIS_DIGEST E) es
    \<and> normal_text (JStr (head_digest (LEDGER_GENESIS_DIGEST E) es))"
  proof cases
    case 2
    have "event_ok E e" using v 2 by auto
    from event_ok_texts(2) [OF assms(2) this] show ?thesis
      using ch by (auto simp: o 2 eventRow_def chained_snoc head_digest_snoc normal_text_def)
  qed (simp add: o g)
  then show "(if eventsInOrder s = [] then 1 else global_sequence (last (eventsInOrder s)) + 1) = int (length es) + 1"
    "(if eventsInOrder s = [] then LEDGER_GENESIS_DIGEST E else event_digest (last (eventsInOrder s))) = head_digest (LEDGER_GENESIS_DIGEST E) es"
    "normal_text (JStr (head_digest (LEDGER_GENESIS_DIGEST E) es))" by blast+
qed

lemma commitEvent_Inr:
  assumes "sha_ok E" "ledger_inv E s es rs" "normalizeLedgerAppendIntent E x = Inr a"
    and "commitEvent E s a seedIntents (intentDigestOf E (restabIntent a)) (refIdentityKey (fld a ''actorRef'')) = Inr (out, s')"
  obtains e r seeds heads outbox c where
    "e = event_of E (restabIntent a) (int (length es) + 1) (head_digest (LEDGER_GENESIS_DIGEST E) es) c"
    "event_ok E e" "receipt_ok E e r" "intentOf e r = restabIntent a"
    "fld out ''event'' = e" "fld out ''persistedReceipt'' = r" "fld out ''outboxSeeds'' = JArr seeds"
    "ledger_event_id (eventRow e) \<notin> ledger_event_id ` set (event_rows s)"
    "requestKey (receiptRow e r) \<notin> requestKey ` set (receipt_rows s)"
    "applyProjectionHeadsForEvent E e (head_rows s) = Inr heads"
    "\<forall>sd\<in>set seeds. seed_ok E e sd"
    "outbox = outbox_rows s @ map (outboxRow e) seeds" "distinct (map outbox_seed_id (outbox_rows s)) \<longrightarrow> distinct (map outbox_seed_id outbox)"
    "s' = s\<lparr>event_rows := event_rows s @ [eventRow e], membership_rows := membership_rows s @ membershipsFor e,
       head_rows := heads, outbox_rows := outbox, receipt_rows := receipt_rows s @ [receiptRow e r]\<rparr>"
proof -
  note h = inv_head [OF assms(2,1)]
  obtain created e s1 memberships heads seeds outbox r receipts where
    b: "buildEpistemicLedgerEvent E a (JObj [(''globalSequence'', num (int (length es) + 1)),
         (''previousLedgerDigest'', JStr (head_digest (LEDGER_GENESIS_DIGEST E) es)), (''createdAt'', JStr created)]) = Inr e"
    and ie: "insertEvent s e = Inr s1" and im: "insertMemberships e 0 (elems (fld e ''streamRefs'')) (membership_rows s1) = Inr memberships"
    and ih: "applyProjectionHeadsForEvent E e (head_rows s1) = Inr heads"
    and isd: "emap (\<lambda>(i, seedInput). buildLedgerDeliveryOutboxSeed E seedInput e (JObj [(''now'', JNum (Fin (date_now E (i + 1))))]))
         (enumerate 0 seedIntents) = Inr seeds"
    and io: "efold (\<lambda>seed. insertOutbox (outboxRow e seed)) seeds (outbox_rows s1) = Inr outbox"
    and br: "buildLedgerWriteReceipt E (JObj [
         (''event'', e), (''actorIdentity'', JStr (refIdentityKey (fld a ''actorRef''))),
         (''operationScope'', fld a ''operationScope''), (''appendRequestDigest'', JStr (intentDigestOf E (restabIntent a))),
         (''appendState'', JStr ''appended''), (''affectedContextRefs'', fld a ''affectedContextRefs''),
         (''lifecycleTransitionRefs'', fld a ''lifecycleTransitionRefs''),
         (''deliveryDispatchState'', JStr (if seeds \<noteq> [] then ''outbox_committed'' else ''none'')),
         (''rendererSafeSummary'', fld e ''rendererSafeSummary''), (''createdAt'', fld e ''createdAt'')]) JUndef = Inr r"
    and ir: "insertReceipt (receiptRow e r) (receipt_rows s1) = Inr receipts"
    and out: "out = JObj [(''event'', e), (''receipt'', r), (''persistedReceipt'', r), (''outboxSeeds'', JArr seeds)]"
    and s': "s' = s1\<lparr>membership_rows := memberships, head_rows := heads, outbox_rows := outbox, receipt_rows := receipts\<rparr>"
    using assms(4) unfolding commitEvent_def Let_def h
    apply (elim run_elims)
    apply (rule that)
    apply assumption+
    apply simp_all
    done
  obtain c where e: "e = event_of E (restabIntent a) (int (length es) + 1) (head_digest (LEDGER_GENESIS_DIGEST E) es) c" and ok: "event_ok E e"
    using buildEpistemicLedgerEvent_Inr [OF assms(3) b h(3)] by blast
  have r: "receipt_ok E e r" "intentOf e r = restabIntent a"
    using buildLedgerWriteReceipt_Inr [OF assms(1) e ok normalize_Inr(2) [OF assms(3)] br] by blast+
  have s1: "s1 = s\<lparr>event_rows := event_rows s @ [eventRow e]\<rparr>"
    and id: "ledger_event_id (eventRow e) \<notin> ledger_event_id ` set (event_rows s)"
    using ie by (auto simp: insertEvent_def insertRow_Inr ebind_Inr_iff Let_def)
  have m: "memberships = membership_rows s @ membershipsFor e"
    using insertMemberships_Inr [OF im] by (simp add: s1 membershipsFor_def)
  have rc: "receipts = receipt_rows s @ [receiptRow e r]" "requestKey (receiptRow e r) \<notin> requestKey ` set (receipt_rows s)"
    using ir by (auto simp: insertReceipt_def insertRow_Inr s1)
  have sds: "\<forall>sd\<in>set seeds. seed_ok E e sd"
    using isd unfolding case_prod_unfold by (rule emap_all) (rule buildOutboxSeed_Inr [OF assms(1) ok], assumption, simp)
  have ob: "outbox = outbox_rows s @ map (outboxRow e) seeds \<and> (distinct (map outbox_seed_id (outbox_rows s)) \<longrightarrow> distinct (map outbox_seed_id outbox))"
  proof -
    have os: "outbox_rows s1 = outbox_rows s" by (simp add: s1)
    show ?thesis using insertOutbox_fold [OF io] unfolding os .
  qed
  have ih': "applyProjectionHeadsForEvent E e (head_rows s) = Inr heads" using ih by (simp add: s1)
  show thesis
    by (rule that [OF e ok r _ _ _ id rc(2) ih' sds conjunct1 [OF ob] conjunct2 [OF ob]]) (simp_all add: out s' s1 m rc(1))
qed

lemma act_known_event:
  assumes "act_known s a" "shaped ok sm a"
  shows "act_known s (event_of E (restabIntent a) n p c)"
proof -
  have "normal_ref ok (fld a ''actTypeRef'')" using assms(2) by (simp add: shaped_def)
  from ledgerExactRef_restab(5,6) [OF this] show ?thesis using assms(1) by (simp add: act_known_def)
qed

lemma map2_snoc: "length xs = length ys \<Longrightarrow> map2 f (xs @ [x]) (ys @ [y]) = map2 f xs ys @ [f x y]"
  by simp

lemma seed_outbox_ok:
  assumes "sha_ok E" "event_ok E e" "seed_ok E e sd" "e \<in> set es" shows "outbox_ok E es (outboxRow e sd)"
proof -
  have "fld e ''ledgerEventId'' = JStr (raw_string (fld e ''ledgerEventId''))"
    using event_ok_texts(1) [OF assms(1,2)] by (auto simp: normal_text_def)
  moreover note q = assms(3) [unfolded seed_ok_def]
  ultimately show ?thesis
    unfolding outbox_ok_def using assms(3,4) by (auto simp: outboxRow_def dispatch_states_def intro!: bexI [of _ e] exI [of _ sd])
qed

lemma commitEvent_inv:
  assumes "sha_ok E" "ledger_inv E s es rs" "normalizeLedgerAppendIntent E x = Inr a" "act_known s a"
    and "commitEvent E s a seedIntents (intentDigestOf E (restabIntent a)) (refIdentityKey (fld a ''actorRef'')) = Inr (out, s')"
  shows "\<exists>r. ledger_inv E s' (es @ [fld out ''event'']) (rs @ [r]) \<and> fld out ''persistedReceipt'' = r \<and> intentOf (fld out ''event'') r = restabIntent a
     \<and> applyProjectionHeadsForEvent E (fld out ''event'') (head_rows s) = Inr (head_rows s') \<and> act_rows s' = act_rows s
     \<and> set (outbox_rows s) \<subseteq> set (outbox_rows s')"
proof -
  obtain e r seeds heads outbox c where
    e: "e = event_of E (restabIntent a) (int (length es) + 1) (head_digest (LEDGER_GENESIS_DIGEST E) es) c" "event_ok E e"
    and r: "receipt_ok E e r" "intentOf e r = restabIntent a"
    and out: "fld out ''event'' = e" "fld out ''persistedReceipt'' = r" and id: "ledger_event_id (eventRow e) \<notin> ledger_event_id ` set (event_rows s)"
    and key: "requestKey (receiptRow e r) \<notin> requestKey ` set (receipt_rows s)" and hs: "applyProjectionHeadsForEvent E e (head_rows s) = Inr heads" and sds: "\<forall>sd\<in>set seeds. seed_ok E e sd"
    and ob: "outbox = outbox_rows s @ map (outboxRow e) seeds" "distinct (map outbox_seed_id (outbox_rows s)) \<longrightarrow> distinct (map outbox_seed_id outbox)"
    and s': "s' = s\<lparr>event_rows := event_rows s @ [eventRow e], membership_rows := membership_rows s @ membershipsFor e,
       head_rows := heads, outbox_rows := outbox, receipt_rows := receipt_rows s @ [receiptRow e r]\<rparr>"
    by (rule commitEvent_Inr [OF assms(1-3,5)]) (rule that; assumption)
  note v = assms(2) [unfolded ledger_inv_def]
  have len: "length rs = length es" by (rule inv_events(2) [OF assms(1,2)])
  have known: "act_known s e" unfolding e(1) by (rule act_known_event [OF assms(4) normalize_Inr(2) [OF assms(3)]])
  have acts: "act_known s' x = act_known s x" for x by (simp add: act_known_def s')
  have rows: "\<forall>row\<in>set outbox. outbox_ok E (es @ [e]) row"
  proof
    fix row assume "row \<in> set outbox"
    then consider "row \<in> set (outbox_rows s)" | sd where "sd \<in> set seeds" "row = outboxRow e sd" unfolding ob(1) by auto
    then show "outbox_ok E (es @ [e]) row"
    proof cases
      case 1
      then have "outbox_ok E es row" using v by blast
      then show ?thesis by (rule outbox_ok_mono [rotated]) auto
    next
      case 2
      with sds show ?thesis using seed_outbox_ok [OF assms(1) e(2)] by simp
    qed
  qed
  have "chained (LEDGER_GENESIS_DIGEST E) 1 (es @ [e])" using v e(1) by (simp add: chained_snoc)
  moreover have "distinct (map ledger_event_id (event_rows s @ [eventRow e]))" using v id by auto
  moreover have "distinct (map requestKey (receipt_rows s @ [receiptRow e r]))" using v key by auto
  moreover have "list_all2 (receipt_ok E) (es @ [e]) (rs @ [r])" using v r(1) by (simp add: list_all2_appendI)
  moreover have "receipt_rows s @ [receiptRow e r] = map2 receiptRow (es @ [e]) (rs @ [r])" using v len by simp
  ultimately have "ledger_inv E s' (es @ [e]) (rs @ [r])"
    unfolding ledger_inv_def acts using v e(2) known rows ob(2) by (simp add: s' len)
  then show ?thesis using r(2) hs by (simp add: out s' ob(1))
qed

subsection \<open>Preparing an append\<close>

lemma ledgerExactRef_fields:
  assumes "ledgerExactRef E v l = Inr r"
  shows "isPlainObject v" "fld r ''id'' = JStr (js_text (fld v ''id'') [])" "fld r ''digest'' = JStr (js_text (fld v ''digest'') [])"
    "js_text (fld v ''digest'') [] \<noteq> []"
  using assms by (auto simp: ledgerExactRef_def Let_def split: if_splits)

lemma validateLedgerActTypeConstitution_digest:
  "validateLedgerActTypeConstitution E c = Inr b \<Longrightarrow> fld c ''digest'' = JStr (digestFor E LEDGER_ACT_TYPE_CONSTITUTION_SCHEMA c [''digest''])"
  by (simp add: validateLedgerActTypeConstitution_def split: if_splits)

lemma normalize_actTypeRef:
  "normalizeLedgerAppendIntent E x = Inr a \<Longrightarrow> ledgerExactRef E (fld x ''actTypeRef'') ''actTypeRef'' = Inr (fld a ''actTypeRef'')"
  unfolding normalizeLedgerAppendIntent_def Let_def
  apply (elim run_elims)
  apply (cases x)
       apply (auto simp: defaulted_def)
  done

lemma prepareAppendInput_Inr:
  assumes "sha_ok E" "\<forall>row\<in>set (act_rows s). act_ok E row" "prepareAppendInput E s input = Inr a"
  shows "\<exists>x. normalizeLedgerAppendIntent E x = Inr a" "act_known s a"
proof -
  let ?t = "fld input ''actTypeRef''"
  obtain c prepared where c: "getActTypeConstitution E s ?t = Inr c" "truthy c"
    and n: "normalizeLedgerAppendIntent E prepared = Inr a" and p: "fld prepared ''actTypeRef'' = ?t"
    using assms(3) unfolding prepareAppendInput_def Let_def
    by (elim run_elims, hypsubst_thin) (rule that, assumption, assumption, assumption, simp add: fld_spread)
  then show "\<exists>x. normalizeLedgerAppendIntent E x = Inr a" by blast
  have t: "ledgerExactRef E ?t ''actTypeRef'' = Inr (fld a ''actTypeRef'')" using normalize_actTypeRef [OF n] by (simp add: p)
  note t = ledgerExactRef_fields [OF this]
  obtain d where d: "fld ?t ''digest'' = JStr d" "trim d \<noteq> []" using t(4) unfolding js_text_nonempty_iff by blast
  let ?id = "js_text (fld ?t ''id'') []"
  obtain fs where o: "?t = JObj fs" using t(1) by (auto dest!: isPlainObjectE)
  have "js_text (fld ?t ''digest'') [] \<noteq> []" by (rule t(4))
  then obtain row where row: "find (\<lambda>row. act_type_ref_id row = ?id) (act_rows s) = Some row"
    and v: "validateLedgerActTypeConstitution E c = Inr True" and j: "parseJson (constitution_json row) (''act-type:'' @ ?id) = Inr c"
    and e: "strict_eq (fld c ''digest'') (fld ?t ''digest'')"
    using c unfolding getActTypeConstitution_def Let_def o
    by (auto simp: ebind_Inr_iff dest: validators_True split: if_splits option.splits)
  from row have m: "row \<in> set (act_rows s)" "act_type_ref_id row = ?id" by (auto simp: find_Some_iff)
  from j have "constitution_json row = JsonOf c" by (auto simp: parseJson_def split: json_column.splits)
  moreover from validateLedgerActTypeConstitution_digest [OF v] e d
  have "fld c ''digest'' = JStr (js_text (fld ?t ''digest'') [])" using digest_trimmed [OF assms(1)] by (auto simp: strict_eq_def)
  ultimately show "act_known s a" unfolding act_known_def using m t(2,3) by (intro bexI [of _ row] exI [of _ c]) simp_all
qed

subsection \<open>Appending\<close>

lemma replayAppend_same: "replayAppend E s prior dg conflict = Inr (out, s') \<Longrightarrow> s' = s"
  unfolding replayAppend_def by (elim run_elims) simp

lemma digest_of_intent: "normalizeLedgerAppendIntent E x = Inr a \<Longrightarrow> ledgerAppendIntentDigest E a = Inr (intentDigestOf E (restabIntent a))"
  using normalize_twice(1) by (simp add: ledgerAppendIntentDigest_def intentDigestOf_def)

lemma key_of_intent: "normalizeLedgerAppendIntent E x = Inr a \<Longrightarrow> ledgerExactRefKey E (fld a ''actorRef'') False = Inr (refIdentityKey (fld a ''actorRef''))"
  using normalize_Inr(2) by (simp add: shaped_def ledgerExactRefKey_cut)

abbreviation intentKey :: "jval \<Rightarrow> string \<times> string \<times> string" where
  "intentKey a \<equiv> (refIdentityKey (fld a ''actorRef''), raw_string (fld a ''operationScope''), raw_string (fld a ''idempotencyKey''))"

abbreviation priorReceipt :: "ledger_store \<Rightarrow> jval \<Rightarrow> receipt_row option" where
  "priorReceipt s a \<equiv> find (\<lambda>row. requestKey row = intentKey a) (receipt_rows s)"

abbreviation conflictText :: "jval \<Rightarrow> string" where
  "conflictText a \<equiv> refIdentityKey (fld a ''actorRef'') @ '':'' @ raw_string (fld a ''operationScope'') @ '':'' @ raw_string (fld a ''idempotencyKey'')"

lemma appendEvent_cases:
  assumes "prepareAppendInput E s input = Inr a" "normalizeLedgerAppendIntent E x = Inr a" "assertWritable s = Inr True"
    and "defaulted arg = Inr input" "defaulted opts = Inr options"
    "normalizeOutboxSeedIntents E (orEmpty (js_or (fld options ''outboxSeeds'') (fld input ''outboxSeeds''))) = Inr seedIntents"
  shows "appendEvent E s arg opts = (case priorReceipt s a of
       Some prior \<Rightarrow> replayAppend E s prior (intentDigestOf E (restabIntent a)) (conflictText a)
     | None \<Rightarrow> commitEvent E s a seedIntents (intentDigestOf E (restabIntent a)) (refIdentityKey (fld a ''actorRef'')))"
  by (simp add: appendEvent_def assms digest_of_intent [OF assms(2)] key_of_intent [OF assms(2)] Let_def)

lemma appendEvent_Inr:
  assumes "sha_ok E" "\<forall>row\<in>set (act_rows s). act_ok E row" "appendEvent E s arg opts = Inr (out, s')"
  obtains input a x seedIntents where "assertWritable s = Inr True" "defaulted arg = Inr input" "prepareAppendInput E s input = Inr a"
    "normalizeLedgerAppendIntent E x = Inr a" "act_known s a"
    "\<exists>prior. priorReceipt s a = Some prior \<and> replayAppend E s prior (intentDigestOf E (restabIntent a)) (conflictText a) = Inr (out, s') \<and> s' = s
     \<or> priorReceipt s a = None \<and> commitEvent E s a seedIntents (intentDigestOf E (restabIntent a)) (refIdentityKey (fld a ''actorRef'')) = Inr (out, s')"
proof -
  obtain input a options seedIntents where
    w: "assertWritable s = Inr True" and i: "defaulted arg = Inr input" and p: "prepareAppendInput E s input = Inr a" and o: "defaulted opts = Inr options"
    and n: "normalizeOutboxSeedIntents E (orEmpty (js_or (fld options ''outboxSeeds'') (fld input ''outboxSeeds''))) = Inr seedIntents"
    using assms(3) unfolding appendEvent_def
    by (elim ebind_InrE) (rule that; simp add: assertWritable_def split: if_splits)
  obtain x where x: "normalizeLedgerAppendIntent E x = Inr a" using prepareAppendInput_Inr(1) [OF assms(1,2) p] by blast
  note a = appendEvent_cases [OF p x w i o n]
  have "\<exists>prior. priorReceipt s a = Some prior \<and> replayAppend E s prior (intentDigestOf E (restabIntent a)) (conflictText a) = Inr (out, s') \<and> s' = s
     \<or> priorReceipt s a = None \<and> commitEvent E s a seedIntents (intentDigestOf E (restabIntent a)) (refIdentityKey (fld a ''actorRef'')) = Inr (out, s')"
    using assms(3) replayAppend_same unfolding a by (cases "priorReceipt s a") auto
  with that [OF w i p x prepareAppendInput_Inr(2) [OF assms(1,2) p]] show thesis by blast
qed

end
