(* ===== verification/LedgerReplay.thy ===== *)
theory LedgerReplay
  imports LedgerAppend
begin

section \<open>Epistemic ledger: replaying an append\<close>

text \<open>
  A receipt of the ledger is found again by the actor, the operation scope and the idempotency
  key of its intent; the intent that the event and the receipt stand for has the digest of the
  intent that was appended. So the same append again returns the recorded event with a replay
  receipt, and an append of another intent under the same key is refused.
\<close>

subsection \<open>Finding what was recorded\<close>

lemma find_unique: "x \<in> set xs \<Longrightarrow> distinct (map f xs) \<Longrightarrow> find (\<lambda>y. f y = f x) xs = Some x"
proof (induction xs)
  case (Cons y ys)
  show ?case
  proof (cases "f y = f x")
    case True
    then have "f x \<notin> f ` set ys" using Cons.prems(2) by simp
    then have "x \<notin> set ys" by blast
    then show ?thesis using Cons.prems(1) by simp
  qed (use Cons in auto)
qed simp

lemma zip_memD: "(x, y) \<in> set (zip xs ys) \<Longrightarrow> x \<in> set xs" "(x, y) \<in> set (zip xs ys) \<Longrightarrow> f x y \<in> set (map2 f xs ys)"
  by (auto dest: set_zip_leftD)

lemma inv_getEvent:
  assumes "sha_ok E" "ledger_inv E s es rs" "e \<in> set es"
  shows "getEvent E s (raw_string (fld e ''ledgerEventId'')) = Inr e"
proof -
  note v = assms(2) [unfolded ledger_inv_def]
  have ok: "event_ok E e" and r: "eventRow e \<in> set (event_rows s)" and d: "distinct (map ledger_event_id (event_rows s))" using v assms(3) by auto
  have i: "ledger_event_id (eventRow e) = raw_string (fld e ''ledgerEventId'')" by (simp add: eventRow_def)
  have "js_text (JStr (raw_string (fld e ''ledgerEventId''))) [] = raw_string (fld e ''ledgerEventId'')"
    using event_ok_texts(1) [OF assms(1) ok] by (auto simp: normal_text_def)
  moreover have "find (\<lambda>row. ledger_event_id row = raw_string (fld e ''ledgerEventId'')) (event_rows s) = Some (eventRow e)"
    using find_unique [OF r d] by (simp only: i)
  ultimately show ?thesis by (simp only: getEvent_def eventRow_fields(4) [OF assms(1) ok] option.case)
qed

lemma inv_outboxSeeds:
  assumes "ledger_inv E s es rs" shows "\<exists>seeds. listOutboxSeeds E s i st = Inr seeds"
proof -
  let ?f = "\<lambda>row. case seed_json row of JsonOf v \<Rightarrow> v | _ \<Rightarrow> JNull"
  have f: "parseJson (seed_json row) l = Inr (?f row) \<and> validateLedgerDeliveryOutboxSeed E (?f row) = Inr True" if "row \<in> set (outbox_rows s)" for row l
  proof -
    have "outbox_ok E es row" using assms that by (auto simp: ledger_inv_def)
    then obtain e sd where "seed_ok E e sd" "seed_json row = json sd" unfolding outbox_ok_def by blast
    then show ?thesis by (auto simp: seed_ok_def json_jsonic parseJson_def)
  qed
  have "listOutboxSeeds E s i st = Inr (map ?f (outboxInOrder (filter (\<lambda>row. (i = [] \<or> outbox_event_id row = i)
        \<and> (st = [] \<or> dispatch_state row = st)) (outbox_rows s))))"
    unfolding listOutboxSeeds_def by (rule emap_total) (use f in \<open>auto simp: outboxInOrder_def\<close>)
  then show ?thesis by blast
qed

subsection \<open>The replay receipt\<close>

lemma replayLedgerWriteReceipt_ok:
  assumes "sha_ok E" "receipt_ok E e r"
  shows "\<exists>q. replayLedgerWriteReceipt E r JUndef = Inr q \<and> fld q ''appendState'' = JStr ''idempotent_replay''
     \<and> fld q ''ledgerEventRef'' = fld r ''ledgerEventRef''"
proof -
  note v = assms(2) [unfolded receipt_ok_def]
  have c: "cloneJson r = r" and val: "validateLedgerWriteReceipt E r = Inr True" and st: "fld r ''appendState'' = JStr ''appended''"
    using v by (auto simp: jsonic_def)
  let ?s = "spread r [(''receiptId'', JStr (stableIdN E ''ledger_receipt_replay'' (JObj [
          (''originalReceiptId'', fld r ''receiptId''), (''ledgerEventRef'', fld r ''ledgerEventRef'')]) 32)),
       (''appendState'', JStr ''idempotent_replay''), (''createdAt'', fld r ''createdAt'')]"
  let ?q = "sealWith E LEDGER_WRITE_RECEIPT_SCHEMA ''receiptDigest'' ?s"
  have id: "js_text (JStr (stableIdN E p x 32)) [] \<noteq> []" if "p \<noteq> []" "\<not> is_space (hd p)" for p x
    using stableIdN_trimmed [OF assms(1) that, of 32 x] by simp
  have "validateLedgerWriteReceipt E ?q = Inr True"
    using val id [of "''ledger_receipt_replay''"] unfolding validateLedgerWriteReceipt_def
    by (auto simp: fld_spread append_states_def is_space_def ebind_Inr_iff split: if_splits)
  then have "replayLedgerWriteReceipt E r JUndef = Inr ?q"
    by (simp add: replayLedgerWriteReceipt_def val st c)
  then show ?thesis by (intro exI [of _ ?q]) (simp add: fld_spread)
qed

subsection \<open>Recorded intents\<close>

definition recorded :: "jsenv \<Rightarrow> ledger_store \<Rightarrow> jval \<Rightarrow> jval \<Rightarrow> jval \<Rightarrow> bool" where
  \<comment> \<open>the store holds the event \<open>e\<close> with the receipt \<open>r\<close>, which stand for the intent \<open>a\<close>\<close>
  "recorded E s a e r \<longleftrightarrow> event_ok E e \<and> receipt_ok E e r \<and> eventRow e \<in> set (event_rows s) \<and> receiptRow e r \<in> set (receipt_rows s)
     \<and> requestKey (receiptRow e r) = intentKey a \<and> intentDigestOf E (intentOf e r) = intentDigestOf E (restabIntent a)"

lemma intentKey_of:
  assumes "event_ok E e" "receipt_ok E e r" "intentOf e r = restabIntent a" "shaped ok sm a"
  shows "requestKey (receiptRow e r) = intentKey a"
proof -
  have n: "normal_ref ok (fld a ''actorRef'')" using assms(4) by (simp add: shaped_def)
  obtain b n p c where e: "e = event_of E b n p c" "stable_intent b" using assms(1) by (auto simp: event_ok_def)
  have m: "normal_ref (\<lambda>l. trim l = l) (fld e ''actorRef'')" using e by (simp add: shaped_def)
  have "fld (intentOf e r) k = fld (restabIntent a) k" for k using assms(3) by simp
  from this [of "''actorRef''"] this [of "''operationScope''"] this [of "''idempotencyKey''"]
  have f: "restab (fld e ''actorRef'') = restab (fld a ''actorRef'')" "fld r ''operationScope'' = fld a ''operationScope''"
    "fld e ''idempotencyKey'' = fld a ''idempotencyKey''"
    by (simp_all add: intentOf_def fld_spread)
  then have "refIdentityKey (fld e ''actorRef'') = refIdentityKey (fld a ''actorRef'')"
    using f(1) ledgerExactRef_restab(3) [OF m] ledgerExactRef_restab(3) [OF n] by simp
  then show ?thesis
    using assms(2) f(2,3) by (simp add: receipt_ok_def receiptRow_def)
qed

lemma digest_of_record:
  assumes "event_ok E e" "receipt_ok E e r"
  shows "ledgerAppendIntentDigest E (spread e [(''operationScope'', fld r ''operationScope''),
     (''affectedContextRefs'', fld r ''affectedContextRefs''), (''lifecycleTransitionRefs'', fld r ''lifecycleTransitionRefs'')])
     = Inr (intentDigestOf E (intentOf e r))"
proof -
  have "stable_intent (spread e [(''operationScope'', fld r ''operationScope''),
     (''affectedContextRefs'', fld r ''affectedContextRefs''), (''lifecycleTransitionRefs'', fld r ''lifecycleTransitionRefs'')])"
    by (rule shaped_event [OF assms(1)]) (use assms(2) in \<open>simp_all add: receipt_ok_def\<close>)
  from normalize_shaped [OF spread_object(1) this] show ?thesis
    by (simp add: ledgerAppendIntentDigest_def intentOf_def intentDigestOf_def)
qed

lemma replayAppend_recorded:
  assumes "sha_ok E" "ledger_inv E s es rs" "event_ok E e" "receipt_ok E e r" "eventRow e \<in> set (event_rows s)"
  shows "intentDigestOf E (intentOf e r) \<noteq> dg \<Longrightarrow>
      replayAppend E s (receiptRow e r) dg conflict = fail ''epistemic_ledger_idempotency_conflict'' conflict"
    "intentDigestOf E (intentOf e r) = dg \<Longrightarrow> \<exists>out. replayAppend E s (receiptRow e r) dg conflict = Inr (out, s) \<and> fld out ''event'' = e
      \<and> fld out ''persistedReceipt'' = r \<and> fld (fld out ''receipt'') ''appendState'' = JStr ''idempotent_replay''"
proof -
  note v = assms(2) [unfolded ledger_inv_def]
  obtain e' where e': "e' \<in> set es" "eventRow e = eventRow e'" using assms(5) v by auto
  have "event_ok E e'" using v e'(1) by blast
  then have "e = e'" using eventRow_fields(4) [OF assms(1,3)] eventRow_fields(4) [OF assms(1)] e'(2) by fastforce
  then have "e \<in> set es" using e'(1) by simp
  from inv_getEvent [OF assms(1,2) this]
  have g: "getEvent E s (receipt_event_id (receiptRow e r)) = Inr e" by (simp add: receiptRow_def)
  have p: "parseJson (receipt_json (receiptRow e r)) l = Inr r" and w: "validateLedgerWriteReceipt E r = Inr True" for l
    using assms(4) by (simp_all add: receipt_ok_def receiptRow_def)
  obtain q where q: "replayLedgerWriteReceipt E r JUndef = Inr q" "fld q ''appendState'' = JStr ''idempotent_replay''"
    using replayLedgerWriteReceipt_ok [OF assms(1,4)] by blast
  obtain seeds where sd: "listOutboxSeeds E s (js_text (fld e ''ledgerEventId'') []) [] = Inr seeds" using inv_outboxSeeds [OF assms(2)] by blast
  note d = digest_of_record [OF assms(3,4)]
  show "replayAppend E s (receiptRow e r) dg conflict = fail ''epistemic_ledger_idempotency_conflict'' conflict"
    if "intentDigestOf E (intentOf e r) \<noteq> dg"
    using that by (simp only: replayAppend_def g p w d ebind_simps simp_thms if_True not_False_eq_True)
  show "\<exists>out. replayAppend E s (receiptRow e r) dg conflict = Inr (out, s) \<and> fld out ''event'' = e
      \<and> fld out ''persistedReceipt'' = r \<and> fld (fld out ''receipt'') ''appendState'' = JStr ''idempotent_replay''"
    if "intentDigestOf E (intentOf e r) = dg"
    using that q(2) unfolding replayAppend_def g p w d ebind_simps by (simp add: q(1) sd)
qed

lemma appendEvent_recorded:
  assumes "sha_ok E" "ledger_inv E s es rs" "appendEvent E s arg opts = Inr (out, s')"
  obtains input a x es' rs' where "defaulted arg = Inr input" "prepareAppendInput E s input = Inr a" "normalizeLedgerAppendIntent E x = Inr a"
    "ledger_inv E s' (es @ es') (rs @ rs')" "recorded E s' a (fld out ''event'') (fld out ''persistedReceipt'')"
    "act_rows s' = act_rows s" "set (outbox_rows s) \<subseteq> set (outbox_rows s')"
    "es' = [] \<and> s' = s \<or> es' = [fld out ''event''] \<and> applyProjectionHeadsForEvent E (fld out ''event'') (head_rows s) = Inr (head_rows s')"
proof -
  have acts: "\<forall>row\<in>set (act_rows s). act_ok E row" using assms(2) [unfolded ledger_inv_def] by blast
  obtain input a x seedIntents where i: "defaulted arg = Inr input" and p: "prepareAppendInput E s input = Inr a"
    and a: "normalizeLedgerAppendIntent E x = Inr a" "act_known s a"
    and c: "(\<exists>prior. priorReceipt s a = Some prior \<and> replayAppend E s prior (intentDigestOf E (restabIntent a)) (conflictText a) = Inr (out, s') \<and> s' = s)
     \<or> commitEvent E s a seedIntents (intentDigestOf E (restabIntent a)) (refIdentityKey (fld a ''actorRef'')) = Inr (out, s')"
    by (rule appendEvent_Inr [OF assms(1) acts assms(3)]) blast
  note sh = normalize_Inr(2) [OF a(1)]
  from c show thesis
  proof
    assume "\<exists>prior. priorReceipt s a = Some prior \<and> replayAppend E s prior (intentDigestOf E (restabIntent a)) (conflictText a) = Inr (out, s') \<and> s' = s"
    then obtain prior where f: "priorReceipt s a = Some prior" and rp: "replayAppend E s prior (intentDigestOf E (restabIntent a)) (conflictText a) = Inr (out, s')"
      and same: "s' = s" by blast
    note v = assms(2) [unfolded ledger_inv_def]
    have pr: "prior \<in> set (receipt_rows s)" "requestKey prior = intentKey a" using f by (auto simp: find_Some_iff)
    then obtain e r where er: "prior = receiptRow e r" and z: "(e, r) \<in> set (zip es rs)" using v by auto
    have ok: "event_ok E e" "receipt_ok E e r" "eventRow e \<in> set (event_rows s)" using v z zip_memD(1) [OF z] by (auto simp: list_all2_iff)
    note rr = replayAppend_recorded [OF assms(1,2) ok, of "intentDigestOf E (restabIntent a)" "conflictText a"]
    have d: "intentDigestOf E (intentOf e r) = intentDigestOf E (restabIntent a)" using rr(1) rp er by force
    have o: "fld out ''event'' = e" "fld out ''persistedReceipt'' = r" using rr(2) [OF d] rp er by auto
    have "recorded E s a e r" unfolding recorded_def using ok pr er d by simp
    with that [OF i p a(1), of "[]" "[]"] assms(2) same o show thesis by simp
  next
    assume "commitEvent E s a seedIntents (intentDigestOf E (restabIntent a)) (refIdentityKey (fld a ''actorRef'')) = Inr (out, s')"
    from commitEvent_inv [OF assms(1,2) a this] obtain r where
      inv: "ledger_inv E s' (es @ [fld out ''event'']) (rs @ [r])" and o: "fld out ''persistedReceipt'' = r" "intentOf (fld out ''event'') r = restabIntent a"
      and h: "applyProjectionHeadsForEvent E (fld out ''event'') (head_rows s) = Inr (head_rows s')" "act_rows s' = act_rows s"
        "set (outbox_rows s) \<subseteq> set (outbox_rows s')" by blast
    note w = inv [unfolded ledger_inv_def]
    have len: "length rs = length es" by (rule inv_events(2) [OF assms(1,2)])
    have ok: "event_ok E (fld out ''event'')" "receipt_ok E (fld out ''event'') r" using w len by (auto simp: list_all2_append)
    have rows: "eventRow (fld out ''event'') \<in> set (event_rows s')" "receiptRow (fld out ''event'') r \<in> set (receipt_rows s')" using w len by auto
    have "recorded E s' a (fld out ''event'') r" unfolding recorded_def
      using ok rows intentKey_of [OF ok o(2) sh] o(2) by simp
    with that [OF i p a(1) inv] o(1) h show thesis by simp
  qed
qed

end
