(* ===== verification/LedgerHistory.thy ===== *)
theory LedgerHistory
  imports LedgerReplay
begin

section \<open>Epistemic ledger: the history of a store\<close>

text \<open>
  The operations of the store as a step relation, with the clock of each step left open, and the
  stores reachable from the empty one. A registration of a ready-made constitution is a step when
  the constitution is JSON data; a delivery is a step when its reference survives a second
  normalisation. The second condition is needed: see \<open>markOutboxDispatched_keeps\<close>.
\<close>

subsection \<open>Registering keeps the invariant\<close>

lemma buildLedgerActTypeConstitution_jsonic:
  assumes "buildLedgerActTypeConstitution E arg opts = Inr c" shows "jsonic c" "isPlainObject c"
proof -
  have s: "jsonic (strings ws)" for ws by (simp add: strings_def)
  have o: "jsonic r" if "ledgerOptionalRef E v l = Inr r" for v l r
    using ledgerOptionalRef_cut [OF that] by (rule normal_opt_jsonic)
  have n: "jsonic (JNum (to_number E v))" if "isInteger (JNum (to_number E v))" for v
    using isIntegerE [OF that] by auto
  have "\<exists>fs. c = sealWith E LEDGER_ACT_TYPE_CONSTITUTION_SCHEMA ''digest'' (JObj fs) \<and> jsonic_entries fs"
    using assms unfolding buildLedgerActTypeConstitution_def
    apply (elim run_elims)
    apply (simp only: de_Morgan_disj not_not)
    apply (elim conjE)
    apply hypsubst_thin
    apply (intro exI conjI)
     apply (rule refl)
    apply (simp add: s o n)
    done
  then show "jsonic c" "isPlainObject c" by (auto intro: jsonic_sealWith)
qed

lemma ledgerActTypeConstitutionRef_id: "ledgerActTypeConstitutionRef E c = Inr r \<Longrightarrow> \<exists>i. fld r ''id'' = JStr i"
  unfolding ledgerActTypeConstitutionRef_def by (elim run_elims) (auto dest: ledgerExactRef_fields(2))

lemma registerActTypeConstitution_Inr:
  assumes "registerActTypeConstitution E s arg = Inr (out, s')" "truthy (fld (dflt arg) ''schema'') \<longrightarrow> jsonic arg"
  shows "s' = s \<or> (\<exists>row. s' = s\<lparr>act_rows := act_rows s @ [row]\<rparr> \<and> act_ok E row \<and> act_type_ref_id row \<notin> act_type_ref_id ` set (act_rows s))"
proof -
  obtain input c ref where
    i: "defaulted arg = Inr input" and b: "(if truthy (fld input ''schema'') then Inr input
            else buildLedgerActTypeConstitution E input (JObj [(''now'', JNum (Fin (date_now E 0)))])) = Inr c"
    and v: "validateLedgerActTypeConstitution E c = Inr True" and r: "ledgerActTypeConstitutionRef E c = Inr ref"
    and rest: "(case find (\<lambda>row. act_type_ref_id row = raw_string (fld ref ''id'')) (act_rows s) of
       Some existing \<Rightarrow>
         ebind (parseJson (constitution_json existing) (''act-type:'' @ raw_string (fld ref ''id''))) (\<lambda>persisted.
         ebind (validateLedgerActTypeConstitution E persisted) (\<lambda>_.
         if \<not> strict_eq (fld persisted ''digest'') (fld c ''digest'')
         then fail ''ledger_act_type_revision_conflict'' (raw_string (fld ref ''id''))
         else Inr (JObj [(''constitution'', persisted), (''ref'', ref), (''changed'', JBool False)], s)))
     | None \<Rightarrow>
         ebind (insertRow (\<forall>row\<in>set (act_rows s).
             constitution_digest row \<noteq> fld c ''digest''
             \<and> (act_type_id row, act_revision row) \<noteq> (fld c ''actTypeId'', JNum (to_number E (fld c ''revision''))))
           (constitutionRow E ref c) (act_rows s)) (\<lambda>rows.
         Inr (JObj [(''constitution'', c), (''ref'', ref), (''changed'', JBool True)], s\<lparr>act_rows := rows\<rparr>))) = Inr (out, s')"
    using assms(1) unfolding registerActTypeConstitution_def Let_def
    apply (elim ebind_InrE)
    apply (frule validators_True(1))
    apply (erule that, assumption)
      apply (simp only:)
     apply assumption
    apply assumption
    done
  have c: "jsonic c \<and> isPlainObject c"
  proof (cases "truthy (fld input ''schema'')")
    case True
    then have "isPlainObject input" using v b by (simp add: validateLedgerActTypeConstitution_def split: if_splits)
    moreover have "input = arg" using i True by (cases arg) (auto simp: defaulted_def)
    ultimately show ?thesis using assms(2) True b by simp
  next
    case False
    then show ?thesis using b buildLedgerActTypeConstitution_jsonic by simp
  qed
  obtain i' where i': "fld ref ''id'' = JStr i'" using ledgerActTypeConstitutionRef_id [OF r] by blast
  show ?thesis
  proof (cases "find (\<lambda>row. act_type_ref_id row = raw_string (fld ref ''id'')) (act_rows s)")
    case None
    then have "act_type_ref_id (constitutionRow E ref c) \<notin> act_type_ref_id ` set (act_rows s)"
      by (auto simp: find_None_iff constitutionRow_def)
    moreover have "act_ok E (constitutionRow E ref c)"
      unfolding act_ok_def using c v r i' by (auto simp: constitutionRow_def json_jsonic)
    ultimately show ?thesis using rest None by (auto simp: ebind_Inr_iff insertRow_Inr)
  next
    case (Some a)
    then show ?thesis using rest by (auto simp: ebind_Inr_iff split: if_splits)
  qed
qed

lemma ledger_inv_register:
  assumes "ledger_inv E s es rs" "act_ok E row" "act_type_ref_id row \<notin> act_type_ref_id ` set (act_rows s)"
  shows "ledger_inv E (s\<lparr>act_rows := act_rows s @ [row]\<rparr>) es rs"
proof -
  note v = assms(1) [unfolded ledger_inv_def]
  have "act_known (s\<lparr>act_rows := act_rows s @ [row]\<rparr>) e" if "act_known s e" for e
    using that by (rule act_known_mono [rotated]) auto
  then show ?thesis unfolding ledger_inv_def using v assms(2,3) by auto
qed

lemma registerActTypeConstitution_keeps:
  assumes "ledger_inv E s es rs" "registerActTypeConstitution E s arg = Inr (out, s')" "truthy (fld (dflt arg) ''schema'') \<longrightarrow> jsonic arg"
  shows "ledger_inv E s' es rs"
  using registerActTypeConstitution_Inr [OF assms(2,3)] assms(1) ledger_inv_register by blast

subsection \<open>Deliveries keep the invariant\<close>

lemma ledger_inv_outbox:
  assumes "ledger_inv E s es rs"
    and eqs: "event_rows s' = event_rows s" "act_rows s' = act_rows s" "membership_rows s' = membership_rows s" "receipt_rows s' = receipt_rows s"
    and "\<forall>row\<in>set (outbox_rows s'). outbox_ok E es row" "distinct (map outbox_seed_id (outbox_rows s'))"
  shows "ledger_inv E s' es rs"
  using assms(1) unfolding ledger_inv_def act_known_def eqs using assms(6,7) by blast

lemma ledger_inv_heads:
  assumes "ledger_inv E s es rs" shows "ledger_inv E (s\<lparr>head_rows := h, readOnlyDiagnosis := d\<rparr>) es rs"
proof -
  have "\<forall>row\<in>set (outbox_rows s). outbox_ok E es row" "distinct (map outbox_seed_id (outbox_rows s))"
    using assms unfolding ledger_inv_def by blast+
  then show ?thesis by (intro ledger_inv_outbox [OF assms]) simp_all
qed

lemma updateOutbox_keeps:
  assumes "ledger_inv E s es rs" "row \<in> set (outbox_rows s)" "outbox_seed_id row = seedId"
    and "\<And>r. outbox_seed_id (f r) = outbox_seed_id r" "outbox_ok E es row \<Longrightarrow> outbox_ok E es (f row)"
  shows "ledger_inv E (updateOutbox seedId f s) es rs"
proof -
  note v = assms(1) [unfolded ledger_inv_def]
  have d: "distinct (map outbox_seed_id (outbox_rows s))" using v by blast
  have "outbox_ok E es r" if "r \<in> set (outbox_rows (updateOutbox seedId f s))" for r
  proof -
    from that obtain q where q: "q \<in> set (outbox_rows s)" "r = (if outbox_seed_id q = seedId then f q else q)"
      by (auto simp: updateOutbox_def)
    have "outbox_ok E es q" using v q(1) by blast
    moreover have "q = row" if "outbox_seed_id q = seedId"
      using d q(1) assms(2,3) that by (simp add: distinct_map inj_on_def)
    ultimately show ?thesis using q(2) assms(5) by auto
  qed
  moreover have "map outbox_seed_id (outbox_rows (updateOutbox seedId f s)) = map outbox_seed_id (outbox_rows s)"
    by (simp add: updateOutbox_def assms(4))
  then have "distinct (map outbox_seed_id (outbox_rows (updateOutbox seedId f s)))" using d by (simp only:)
  ultimately show ?thesis by (intro ledger_inv_outbox [OF assms(1)]) (simp_all add: updateOutbox_def)
qed

lemma markOutboxDispatched_Inr:
  assumes "markOutboxDispatched E s seedId ref = Inr (out, s')"
  obtains row r at' where "row \<in> set (outbox_rows s)" "outbox_seed_id row = js_text (JStr seedId) []" "ledgerExactRef E ref ''deliveryRef'' = Inr r"
    "assertWritable s = Inr True"
    "dispatch_state row = ''dispatched'' \<and> s' = s
     \<or> dispatch_state row \<in> {''pending'', ''retry_pending''} \<and> fld out ''deliveryRef'' = r
       \<and> s' = updateOutbox (outbox_seed_id row) (\<lambda>q. q\<lparr>dispatch_state := ''dispatched'', delivery_ref_json := json r,
               delivery_ref_digest := digestFor E ''direct_ledger_outbox_delivery_ref@1'' r [],
               last_failure_json := NoText, outbox_updated_at := at'\<rparr>) s"
proof -
  obtain r where w: "assertWritable s = Inr True" and r: "ledgerExactRef E ref ''deliveryRef'' = Inr r"
    using assms by (auto simp: markOutboxDispatched_def ebind_Inr_iff Let_def assertWritable_def split: if_splits)
  note u = assms [unfolded markOutboxDispatched_def Let_def w ebind_simps r]
  show thesis
  proof (cases "find (\<lambda>row. outbox_seed_id row = js_text (JStr seedId) []) (outbox_rows s)")
    case (Some row)
    then have m: "row \<in> set (outbox_rows s)" "outbox_seed_id row = js_text (JStr seedId) []" by (auto simp: find_Some_iff)
    show thesis
    proof (cases "dispatch_state row = ''dispatched''")
      case True
      with u Some have "s' = s" by (auto simp: ebind_Inr_iff split: if_splits)
      with that [OF m r w] True show thesis by blast
    next
      case False
      with u Some obtain at' where "dispatch_state row \<in> {''pending'', ''retry_pending''}" "fld out ''deliveryRef'' = r"
        "s' = updateOutbox (outbox_seed_id row) (\<lambda>q. q\<lparr>dispatch_state := ''dispatched'', delivery_ref_json := json r,
               delivery_ref_digest := digestFor E ''direct_ledger_outbox_delivery_ref@1'' r [],
               last_failure_json := NoText, outbox_updated_at := at'\<rparr>) s"
        by (auto simp: ebind_Inr_iff m(2) split: if_splits)
      with that [OF m r w] show thesis by blast
    qed
  qed (use u in simp)
qed

lemma markOutboxDispatched_keeps:
  assumes "ledger_inv E s es rs" "markOutboxDispatched E s seedId ref = Inr (out, s')"
  shows "ledger_inv E s' es rs"
proof -
  obtain row r at' where m: "row \<in> set (outbox_rows s)" and r: "ledgerExactRef E ref ''deliveryRef'' = Inr r"
    and c: "dispatch_state row = ''dispatched'' \<and> s' = s
     \<or> dispatch_state row \<in> {''pending'', ''retry_pending''} \<and> fld out ''deliveryRef'' = r
       \<and> s' = updateOutbox (outbox_seed_id row) (\<lambda>q. q\<lparr>dispatch_state := ''dispatched'', delivery_ref_json := json r,
               delivery_ref_digest := digestFor E ''direct_ledger_outbox_delivery_ref@1'' r [],
               last_failure_json := NoText, outbox_updated_at := at'\<rparr>) s"
    by (rule markOutboxDispatched_Inr [OF assms(2)])
  from c show ?thesis
  proof
    assume *: "dispatch_state row \<in> {''pending'', ''retry_pending''} \<and> fld out ''deliveryRef'' = r
       \<and> s' = updateOutbox (outbox_seed_id row) (\<lambda>q. q\<lparr>dispatch_state := ''dispatched'', delivery_ref_json := json r,
               delivery_ref_digest := digestFor E ''direct_ledger_outbox_delivery_ref@1'' r [],
               last_failure_json := NoText, outbox_updated_at := at'\<rparr>) s"
    have st: "cut_ref r" using r by (rule ledgerExactRef_cut)
    have "outbox_ok E es (row\<lparr>dispatch_state := ''dispatched'', delivery_ref_json := json r,
               delivery_ref_digest := digestFor E ''direct_ledger_outbox_delivery_ref@1'' r [],
               last_failure_json := NoText, outbox_updated_at := at'\<rparr>)" if "outbox_ok E es row"
      using that st unfolding outbox_ok_def by (auto simp: dispatch_states_def)
    then show ?thesis using * by (simp only:) (rule updateOutbox_keeps [OF assms(1) m refl]; simp)
  qed (use assms(1) in simp)
qed

lemma markOutboxDispatchFailed_Inr:
  assumes "markOutboxDispatchFailed E s seedId arg = Inr (out, s')"
  obtains row code summary retryable at' where "row \<in> set (outbox_rows s)" "outbox_seed_id row = js_text (JStr seedId) []"
    "assertWritable s = Inr True" "dispatch_state row \<noteq> ''dispatched''" "code \<noteq> []" "trim code = code"
    "s' = updateOutbox (outbox_seed_id row) (\<lambda>q. q\<lparr>dispatch_state := (if retryable then ''retry_pending'' else ''failed_terminal''),
       attempt_count := attempt_count row + 1,
       last_failure_json := json (dispatchFailure E code summary retryable (attempt_count row + 1) at'), outbox_updated_at := at'\<rparr>) s"
proof -
  obtain input where w: "assertWritable s = Inr True" and i: "defaulted arg = Inr input"
    using assms by (auto simp: markOutboxDispatchFailed_def ebind_Inr_iff assertWritable_def split: if_splits)
  let ?code = "js_text (js_or (fld input ''failureCode'') (fld input ''code'')) []"
  note u = assms [unfolded markOutboxDispatchFailed_def Let_def w i ebind_simps]
  then have c: "?code \<noteq> []" by (auto split: if_splits)
  show thesis
  proof (cases "find (\<lambda>row. outbox_seed_id row = js_text (JStr seedId) []) (outbox_rows s)")
    case (Some row)
    then have m: "row \<in> set (outbox_rows s)" "outbox_seed_id row = js_text (JStr seedId) []" by (auto simp: find_Some_iff)
    from u c Some obtain at' where "dispatch_state row \<noteq> ''dispatched''"
      "s' = updateOutbox (outbox_seed_id row) (\<lambda>q. q\<lparr>dispatch_state := (if fld input ''retryable'' \<noteq> JBool False then ''retry_pending'' else ''failed_terminal''),
       attempt_count := attempt_count row + 1,
       last_failure_json := json (dispatchFailure E ?code (fld input ''rendererSafeSummary'') (fld input ''retryable'' \<noteq> JBool False) (attempt_count row + 1) at'),
       outbox_updated_at := at'\<rparr>) s"
      unfolding m(2) by (auto simp: ebind_Inr_iff split: if_splits)
    with that [OF m w _ c js_text_empty] show thesis by blast
  qed (use u c in simp)
qed

lemma markOutboxDispatchFailed_keeps:
  assumes "ledger_inv E s es rs" "markOutboxDispatchFailed E s seedId arg = Inr (out, s')"
  shows "ledger_inv E s' es rs"
proof -
  obtain row code summary retryable at' where m: "row \<in> set (outbox_rows s)" and c: "code \<noteq> []" "trim code = code"
    and s': "s' = updateOutbox (outbox_seed_id row) (\<lambda>q. q\<lparr>dispatch_state := (if retryable then ''retry_pending'' else ''failed_terminal''),
       attempt_count := attempt_count row + 1,
       last_failure_json := json (dispatchFailure E code summary retryable (attempt_count row + 1) at'), outbox_updated_at := at'\<rparr>) s"
    by (rule markOutboxDispatchFailed_Inr [OF assms(2)])
  have "outbox_ok E es (row\<lparr>dispatch_state := (if retryable then ''retry_pending'' else ''failed_terminal''),
       attempt_count := attempt_count row + 1,
       last_failure_json := json (dispatchFailure E code summary retryable (attempt_count row + 1) at'), outbox_updated_at := at'\<rparr>)"
    if "outbox_ok E es row"
    using that c unfolding outbox_ok_def by (auto simp: dispatch_states_def)
  then show ?thesis unfolding s' by (intro updateOutbox_keeps [OF assms(1) m refl]) simp_all
qed

subsection \<open>Restart keeps the invariant\<close>

lemma rebuildProjectionHeads_Inr:
  "rebuildProjectionHeads E msg s = Inr (out, s') \<Longrightarrow> \<exists>events h. listEvents E s 0 10000 = Inr events
     \<and> efold (applyProjectionHeadsForEvent E) events [] = Inr h \<and> s' = s\<lparr>head_rows := h\<rparr>"
  unfolding rebuildProjectionHeads_def Let_def by (elim run_elims) (auto split: if_splits simp: ebind_Inr_iff)

lemma verifyRestartState_Inr:
  assumes "verifyRestartState E msg repair s = Inr (out, s')"
  shows "\<exists>h d. s' = s\<lparr>head_rows := h, readOnlyDiagnosis := d\<rparr>
     \<and> (h = head_rows s \<or> (\<exists>events. listEvents E s 0 10000 = Inr events \<and> efold (applyProjectionHeadsForEvent E) events [] = Inr h))"
proof -
  have same: "s\<lparr>readOnlyDiagnosis := d\<rparr> = s\<lparr>head_rows := head_rows s, readOnlyDiagnosis := d\<rparr>" for d by simp
  show ?thesis
  proof (cases "fld (verifyLedgerIntegrity E msg s) ''ok'' \<noteq> JBool True")
    case True
    then have "s' = s\<lparr>readOnlyDiagnosis := verifyLedgerIntegrity E msg s\<rparr>" using assms by (simp add: verifyRestartState_def Let_def)
    then show ?thesis using same by blast
  next
    case False
    then obtain r s1 p where "(if fld (verifyProjectionHeads E msg s) ''ok'' \<noteq> JBool True \<and> repair
         then ebind (rebuildProjectionHeads E msg s) (\<lambda>(r, s'). Inr (r, s', verifyProjectionHeads E msg s'))
         else Inr (JNull, s, verifyProjectionHeads E msg s)) = Inr (r, s1, p)"
      and s': "\<exists>d. s' = s1\<lparr>readOnlyDiagnosis := d\<rparr>"
      using assms unfolding verifyRestartState_def Let_def by (auto simp: ebind_Inr_iff split: if_splits)
    then have "s1 = s \<or> (\<exists>r. rebuildProjectionHeads E msg s = Inr (r, s1))" by (auto simp: ebind_Inr_iff split: if_splits)
    then show ?thesis
    proof
      assume "s1 = s"
      then show ?thesis using s' same by blast
    next
      assume "\<exists>r. rebuildProjectionHeads E msg s = Inr (r, s1)"
      then show ?thesis using s' rebuildProjectionHeads_Inr by fastforce
    qed
  qed
qed

subsection \<open>Steps and reachable stores\<close>

inductive ledger_op :: "jsenv \<Rightarrow> (err \<Rightarrow> string) \<Rightarrow> ledger_store \<Rightarrow> ledger_store \<Rightarrow> bool"
  for E :: jsenv and msg :: "err \<Rightarrow> string" where
  register: "registerActTypeConstitution (E\<lparr>date_now := t\<rparr>) s arg = Inr (out, s') \<Longrightarrow>
     truthy (fld (dflt arg) ''schema'') \<longrightarrow> jsonic arg \<Longrightarrow> ledger_op E msg s s'"
| append: "appendEvent (E\<lparr>date_now := t\<rparr>) s arg opts = Inr (out, s') \<Longrightarrow> ledger_op E msg s s'"
| appendWorldManager: "appendWorldManagerEvent (E\<lparr>date_now := t\<rparr>) s sourceEvent opts = Inr (out, s') \<Longrightarrow> ledger_op E msg s s'"
| dispatched: "markOutboxDispatched (E\<lparr>date_now := t\<rparr>) s seedId ref = Inr (out, s') \<Longrightarrow> ledger_op E msg s s'"
| dispatchFailed: "markOutboxDispatchFailed (E\<lparr>date_now := t\<rparr>) s seedId arg = Inr (out, s') \<Longrightarrow> ledger_op E msg s s'"
| rebuild: "rebuildProjectionHeads E msg s = Inr (out, s') \<Longrightarrow> ledger_op E msg s s'"
| restart: "verifyRestartState E msg repair s = Inr (out, s') \<Longrightarrow> ledger_op E msg s s'"

abbreviation ledger_history :: "jsenv \<Rightarrow> (err \<Rightarrow> string) \<Rightarrow> ledger_store \<Rightarrow> ledger_store \<Rightarrow> bool" where
  "ledger_history E msg \<equiv> (ledger_op E msg)\<^sup>*\<^sup>*"

definition heads_inv :: "jsenv \<Rightarrow> ledger_store \<Rightarrow> jval list \<Rightarrow> bool" where
  \<comment> \<open>up to the limit of a listing, the projection heads are those of all events\<close>
  "heads_inv E s es \<longleftrightarrow> (length es \<le> 10000 \<longrightarrow> efold (applyProjectionHeadsForEvent E) es [] = Inr (head_rows s))"

lemma applyProjectionHeads_clock [simp]: "applyProjectionHeadsForEvent (E\<lparr>date_now := t\<rparr>) = applyProjectionHeadsForEvent E"
  by (intro ext) (simp add: applyProjectionHeadsForEvent_def)

lemma inv_listEvents:
  assumes "sha_ok E" "ledger_inv E s es rs" shows "listEvents E s 0 10000 = Inr (take 10000 es)"
proof -
  note v = assms(2) [unfolded ledger_inv_def]
  have ch: "chained (LEDGER_GENESIS_DIGEST E) 1 es" using v by blast
  have "0 < global_sequence (eventRow e)" if "e \<in> set es" for e
    using chained_member [OF ch that] by (auto simp: eventRow_def)
  then have "filter (\<lambda>row. int 0 < global_sequence row) (map eventRow es) = map eventRow es"
    by (intro filter_True) auto
  moreover have "emap (eventFromRow E) (map eventRow xs) = Inr xs" if "set xs \<subseteq> set es" for xs
    using that v eventRow_fields(4) [OF assms(1)] by (induction xs) auto
  ultimately show ?thesis
    using set_take_subset [of 10000 es] by (simp add: listEvents_def inv_events(1) [OF assms] take_map)
qed

definition extends :: "ledger_store \<Rightarrow> ledger_store \<Rightarrow> bool" where
  \<comment> \<open>what is recorded stays recorded\<close>
  "extends s s' \<longleftrightarrow> (\<exists>xs. act_rows s' = act_rows s @ xs) \<and> (\<exists>xs. event_rows s' = event_rows s @ xs)
     \<and> (\<exists>xs. membership_rows s' = membership_rows s @ xs) \<and> (\<exists>xs. receipt_rows s' = receipt_rows s @ xs)
     \<and> (\<forall>row\<in>set (outbox_rows s). dispatch_state row = ''dispatched'' \<longrightarrow> row \<in> set (outbox_rows s'))"

lemma extends_refl [simp]: "extends s s"
  by (simp add: extends_def)

lemma extends_trans [trans]: "extends s t \<Longrightarrow> extends t u \<Longrightarrow> extends s u"
  unfolding extends_def by fastforce

lemma inv_rows_extend:
  assumes "ledger_inv E s es rs" "ledger_inv E s' (es @ es') (rs @ rs')" "length rs = length es"
  shows "\<exists>xs. event_rows s' = event_rows s @ xs" "\<exists>xs. membership_rows s' = membership_rows s @ xs" "\<exists>xs. receipt_rows s' = receipt_rows s @ xs"
proof -
  note v = assms(1) [unfolded ledger_inv_def] and w = assms(2) [unfolded ledger_inv_def]
  have "event_rows s' = event_rows s @ map eventRow es'" using v w by simp
  then show "\<exists>xs. event_rows s' = event_rows s @ xs" by blast
  have "membership_rows s' = membership_rows s @ concat (map membershipsFor es')" using v w by simp
  then show "\<exists>xs. membership_rows s' = membership_rows s @ xs" by blast
  have "receipt_rows s' = receipt_rows s @ map2 receiptRow es' rs'" using v w assms(3) by simp
  then show "\<exists>xs. receipt_rows s' = receipt_rows s @ xs" by blast
qed

definition follows :: "jsenv \<Rightarrow> ledger_store \<Rightarrow> jval list \<Rightarrow> jval list \<Rightarrow> ledger_store \<Rightarrow> bool" where
  "follows E s es rs s' \<longleftrightarrow> (\<exists>es' rs'. ledger_inv E s' (es @ es') (rs @ rs') \<and> heads_inv E s' (es @ es')) \<and> extends s s'"

lemma appendEvent_follows:
  assumes "sha_ok E" "ledger_inv E s es rs" "heads_inv E s es" "appendEvent (E\<lparr>date_now := t\<rparr>) s arg opts = Inr (out, s')"
  shows "follows E s es rs s'"
proof -
  let ?E = "E\<lparr>date_now := t\<rparr>"
  have sh: "sha_ok ?E" and inv: "ledger_inv ?E s es rs" using assms(1,2) by simp_all
  obtain es' rs' where i': "ledger_inv E s' (es @ es') (rs @ rs')" and f: "act_rows s' = act_rows s" "set (outbox_rows s) \<subseteq> set (outbox_rows s')"
    and c: "es' = [] \<and> s' = s \<or> es' = [fld out ''event''] \<and> applyProjectionHeadsForEvent E (fld out ''event'') (head_rows s) = Inr (head_rows s')"
  proof (rule appendEvent_recorded [OF sh inv assms(4)])
    fix es' rs'
    assume "ledger_inv ?E s' (es @ es') (rs @ rs')" "act_rows s' = act_rows s" "set (outbox_rows s) \<subseteq> set (outbox_rows s')"
      "es' = [] \<and> s' = s \<or> es' = [fld out ''event''] \<and> applyProjectionHeadsForEvent ?E (fld out ''event'') (head_rows s) = Inr (head_rows s')"
    then show thesis by (intro that [of es' rs']) simp_all
  qed
  have "heads_inv E s' (es @ es')"
    using c assms(3) by (auto simp: heads_inv_def efold_snoc_Inr)
  moreover have "extends s s'"
    unfolding extends_def using inv_rows_extend [OF assms(2) i' inv_events(2) [OF assms(1,2)]] f by auto
  ultimately show ?thesis unfolding follows_def using i' by blast
qed

lemma extends_outbox:
  assumes "act_rows s' = act_rows s" "event_rows s' = event_rows s" "membership_rows s' = membership_rows s" "receipt_rows s' = receipt_rows s"
    "\<forall>row\<in>set (outbox_rows s). dispatch_state row = ''dispatched'' \<longrightarrow> row \<in> set (outbox_rows s')"
  shows "extends s s'"
  using assms by (simp add: extends_def)

lemma follows_outbox:
  assumes "ledger_inv E s' es rs" "heads_inv E s es" "head_rows s' = head_rows s" "extends s s'"
  shows "follows E s es rs s'"
proof -
  have "heads_inv E s' es" using assms(2,3) by (simp add: heads_inv_def)
  then show ?thesis unfolding follows_def using assms(1,4) by (metis append_Nil2)
qed

lemma updateOutbox_extends:
  assumes "distinct (map outbox_seed_id (outbox_rows s))" "row \<in> set (outbox_rows s)" "dispatch_state row \<noteq> ''dispatched''"
  shows "extends s (updateOutbox (outbox_seed_id row) f s)"
proof (rule extends_outbox)
  show "\<forall>q\<in>set (outbox_rows s). dispatch_state q = ''dispatched'' \<longrightarrow> q \<in> set (outbox_rows (updateOutbox (outbox_seed_id row) f s))"
  proof (intro ballI impI)
    fix q assume q: "q \<in> set (outbox_rows s)" "dispatch_state q = ''dispatched''"
    then have "outbox_seed_id q \<noteq> outbox_seed_id row"
      using assms by (auto simp: distinct_map inj_on_def)
    then show "q \<in> set (outbox_rows (updateOutbox (outbox_seed_id row) f s))"
      using q(1) by (auto simp: updateOutbox_def image_iff intro!: bexI [of _ q])
  qed
qed (simp_all add: updateOutbox_def)

lemma ledger_op_follows:
  assumes "ledger_op E msg s s'" "sha_ok E" "ledger_inv E s es rs" "heads_inv E s es"
  shows "follows E s es rs s'"
  using assms(1)
proof cases
  case (register t arg out)
  have "ledger_inv (E\<lparr>date_now := t\<rparr>) s es rs" using assms(3) by simp
  from registerActTypeConstitution_keeps [OF this register] have "ledger_inv E s' es rs" by simp
  moreover have "extends s s'" "head_rows s' = head_rows s"
    using registerActTypeConstitution_Inr [OF register] by (auto simp: extends_def)
  ultimately show ?thesis by (intro follows_outbox [OF _ assms(4)])
next
  case (append t arg opts out)
  then show ?thesis by (rule appendEvent_follows [OF assms(2-4)])
next
  case (appendWorldManager t sourceEvent opts out)
  then obtain intent where "appendEvent (E\<lparr>date_now := t\<rparr>) s intent (JObj [(''outboxSeeds'', orEmpty (fld opts ''outboxSeeds''))]) = Inr (out, s')"
    by (auto simp: appendWorldManagerEvent_def ebind_Inr_iff)
  then show ?thesis by (rule appendEvent_follows [OF assms(2-4)])
next
  case (dispatched t seedId ref out)
  have "ledger_inv (E\<lparr>date_now := t\<rparr>) s es rs" using assms(3) by simp
  from markOutboxDispatched_keeps [OF this dispatched] have "ledger_inv E s' es rs" by simp
  moreover have d: "distinct (map outbox_seed_id (outbox_rows s))" using assms(3) unfolding ledger_inv_def by blast
  have "extends s s' \<and> head_rows s' = head_rows s"
  proof (rule markOutboxDispatched_Inr [OF dispatched])
    fix row r at'
    assume m: "row \<in> set (outbox_rows s)" and "dispatch_state row = ''dispatched'' \<and> s' = s
     \<or> dispatch_state row \<in> {''pending'', ''retry_pending''} \<and> fld out ''deliveryRef'' = r
       \<and> s' = updateOutbox (outbox_seed_id row) (\<lambda>q. q\<lparr>dispatch_state := ''dispatched'', delivery_ref_json := json r,
               delivery_ref_digest := digestFor (E\<lparr>date_now := t\<rparr>) ''direct_ledger_outbox_delivery_ref@1'' r [],
               last_failure_json := NoText, outbox_updated_at := at'\<rparr>) s"
    then show ?thesis using updateOutbox_extends [OF d m] by (auto simp: updateOutbox_def [where s = s])
  qed
  ultimately show ?thesis by (intro follows_outbox [OF _ assms(4)]) blast+
next
  case (dispatchFailed t seedId arg out)
  have "ledger_inv (E\<lparr>date_now := t\<rparr>) s es rs" using assms(3) by simp
  from markOutboxDispatchFailed_keeps [OF this dispatchFailed] have i: "ledger_inv E s' es rs" by simp
  have d: "distinct (map outbox_seed_id (outbox_rows s))" using assms(3) unfolding ledger_inv_def by blast
  have "\<exists>row f. row \<in> set (outbox_rows s) \<and> dispatch_state row \<noteq> ''dispatched'' \<and> s' = updateOutbox (outbox_seed_id row) f s"
    by (rule markOutboxDispatchFailed_Inr [OF dispatchFailed]) blast
  then obtain row f where m: "row \<in> set (outbox_rows s)" "dispatch_state row \<noteq> ''dispatched''" "s' = updateOutbox (outbox_seed_id row) f s" by blast
  show ?thesis using i updateOutbox_extends [OF d m(1,2)] m(3) by (intro follows_outbox [OF _ assms(4)]) (simp_all add: updateOutbox_def)
next
  case (rebuild out)
  then obtain h where h: "efold (applyProjectionHeadsForEvent E) (take 10000 es) [] = Inr h" "s' = s\<lparr>head_rows := h\<rparr>"
    using rebuildProjectionHeads_Inr inv_listEvents [OF assms(2,3)] by fastforce
  then have "heads_inv E s' es" unfolding heads_inv_def by (auto simp: take_all)
  moreover have "ledger_inv E s' es rs" using ledger_inv_heads [OF assms(3), where h = h and d = "readOnlyDiagnosis s"] h(2) by simp
  moreover have "extends s s'" by (simp add: h(2) extends_def)
  ultimately show ?thesis unfolding follows_def by (metis append_Nil2)
next
  case (restart repair out)
  then obtain h d where s': "s' = s\<lparr>head_rows := h, readOnlyDiagnosis := d\<rparr>"
    and h: "h = head_rows s \<or> efold (applyProjectionHeadsForEvent E) (take 10000 es) [] = Inr h"
    using verifyRestartState_Inr inv_listEvents [OF assms(2,3)] by fastforce
  then have "heads_inv E s' es" using assms(4) by (auto simp: heads_inv_def)
  moreover have "ledger_inv E s' es rs" using ledger_inv_heads [OF assms(3)] s' by simp
  moreover have "extends s s'" by (simp add: s' extends_def)
  ultimately show ?thesis unfolding follows_def by (metis append_Nil2)
qed

lemma ledger_history_follows:
  assumes "ledger_history E msg s s'" "sha_ok E" "ledger_inv E s es rs" "heads_inv E s es"
  shows "follows E s es rs s'"
  using assms(1)
proof (induction rule: rtranclp_induct)
  case base
  show ?case unfolding follows_def using assms(3,4) by (metis append_Nil2 extends_refl)
next
  case (step s1 s2)
  then obtain es1 rs1 where i: "ledger_inv E s1 (es @ es1) (rs @ rs1)" "heads_inv E s1 (es @ es1)" and x: "extends s s1"
    by (auto simp: follows_def)
  from ledger_op_follows [OF step(2) assms(2) i] obtain es2 rs2 where
    "ledger_inv E s2 ((es @ es1) @ es2) ((rs @ rs1) @ rs2)" "heads_inv E s2 ((es @ es1) @ es2)" "extends s1 s2"
    unfolding follows_def by blast
  then show ?case unfolding follows_def using extends_trans [OF x] by (metis append.assoc)
qed

lemma reachable_inv:
  assumes "sha_ok E" "ledger_history E msg emptyStore s"
  shows "\<exists>es rs. ledger_inv E s es rs \<and> heads_inv E s es"
proof -
  have "heads_inv E emptyStore []" by (simp add: heads_inv_def emptyStore_def)
  from ledger_history_follows [OF assms(2,1) ledger_inv_empty this] show ?thesis unfolding follows_def by simp
qed

end
