(* ===== verification/LedgerProjection.thy ===== *)
theory LedgerProjection
  imports LedgerHistory
begin

section \<open>Epistemic ledger: projections are the latest events\<close>

text \<open>
  The abstract content of the projection heads is a map from keys to events: the latest event that
  has the key. The rows that the store updates event by event and the map that the verification
  computes from all events both implement it, so the verification and the restart accept a store
  with at most 10000 events.
\<close>

subsection \<open>The abstract map\<close>

definition latest :: "jval list \<Rightarrow> string \<Rightarrow> jval option" where
  "latest es k = find (\<lambda>e. k \<in> set (eventKeys e)) (rev es)"

lemma latest_Nil [simp]: "latest [] k = None"
  by (simp add: latest_def)

lemma latest_snoc: "latest (es @ [e]) k = (if k \<in> set (eventKeys e) then Some e else latest es k)"
  by (simp add: latest_def)

definition projectionOf :: "jsenv \<Rightarrow> jval \<Rightarrow> string \<Rightarrow> jval" where
  "projectionOf E e k = (case buildMaterializedEpistemicProjection E e k of Inr p \<Rightarrow> p | Inl _ \<Rightarrow> JUndef)"

definition projects :: "jsenv \<Rightarrow> jval \<Rightarrow> bool" where
  \<comment> \<open>every projection of the event can be built\<close>
  "projects E e \<longleftrightarrow> event_ok E e \<and> (\<forall>k\<in>set (eventKeys e). buildMaterializedEpistemicProjection E e k = Inr (projectionOf E e k))"

lemma projects_ok: "sha_ok E \<Longrightarrow> projects E e \<Longrightarrow> k \<in> set (eventKeys e) \<Longrightarrow> projection_ok E e k (projectionOf E e k)"
  unfolding projects_def by (blast intro: buildProjection_Inr)

subsection \<open>The rows of the store\<close>

abbreviation headMap :: "head_row list \<Rightarrow> string \<Rightarrow> head_row option" where
  "headMap rows \<equiv> map_of (map (\<lambda>r. (projection_key r, r)) rows)"

lemma upsertHead_keys: "projection_key ` set (upsertHead r rows) = insert (projection_key r) (projection_key ` set rows)"
  by (induction r rows rule: upsertHead.induct) auto

lemma upsertHead_distinct: "distinct (map projection_key rows) \<Longrightarrow> distinct (map projection_key (upsertHead r rows))"
proof (induction r rows rule: upsertHead.induct)
  case (2 row r rows)
  then show ?case using upsertHead_keys [of row rows] by auto
qed simp

lemma upsertHead_map:
  assumes "\<And>q. headMap rows (projection_key r) = Some q \<Longrightarrow> head_sequence q < head_sequence r"
  shows "headMap (upsertHead r rows) = (headMap rows)(projection_key r \<mapsto> r)"
  using assms by (induction r rows rule: upsertHead.induct) (auto simp: fun_eq_iff)

definition heads_of :: "jsenv \<Rightarrow> jval list \<Rightarrow> head_row list \<Rightarrow> bool" where
  "heads_of E es rows \<longleftrightarrow> distinct (map projection_key rows)
     \<and> (\<forall>k. headMap rows k = map_option (\<lambda>e. headRow (projectionOf E e k)) (latest es k))"

lemma applyProjectionHeads_Inr:
  assumes "sha_ok E" "event_ok E e" "applyProjectionHeadsForEvent E e rows = Inr rows'"
  shows "projects E e" "rows' = fold (\<lambda>k. upsertHead (headRow (projectionOf E e k))) (eventKeys e) rows"
proof -
  have f: "efold (\<lambda>key rows. ebind (buildMaterializedEpistemicProjection E e key) (\<lambda>projection.
       Inr (upsertHead (headRow projection) rows))) (eventKeys e) rows = Inr rows'"
    using assms(3) by (simp add: applyProjectionHeadsForEvent_def event_ok_texts(9) [OF assms(1,2)] projectionKeys_ok [OF assms(1,2)])
  have "(\<forall>k\<in>set ks. buildMaterializedEpistemicProjection E e k = Inr (projectionOf E e k))
     \<and> rows' = fold (\<lambda>k. upsertHead (headRow (projectionOf E e k))) ks rows"
    if "efold (\<lambda>key rows. ebind (buildMaterializedEpistemicProjection E e key) (\<lambda>projection.
       Inr (upsertHead (headRow projection) rows))) ks rows = Inr rows'" for ks rows
    using that by (induction ks arbitrary: rows) (auto simp: ebind_Inr_iff projectionOf_def)
  from this [OF f] assms(2)
  show "projects E e" "rows' = fold (\<lambda>k. upsertHead (headRow (projectionOf E e k))) (eventKeys e) rows"
    by (auto simp: projects_def)
qed

lemma headRow_projection:
  assumes "sha_ok E" "projects E e" "k \<in> set (eventKeys e)"
  shows "projection_key (headRow (projectionOf E e k)) = k" "num (head_sequence (headRow (projectionOf E e k))) = fld e ''globalSequence''"
proof -
  note p = projects_ok [OF assms, unfolded projection_ok_def]
  obtain n where "fld e ''globalSequence'' = num n" using event_ok_texts(10) [OF assms(1)] assms(2) by (auto simp: projects_def)
  with p show "projection_key (headRow (projectionOf E e k)) = k" "num (head_sequence (headRow (projectionOf E e k))) = fld e ''globalSequence''"
    by (auto simp: headRow_def)
qed

lemma fold_upsert:
  assumes "sha_ok E" "projects E e" "fld e ''globalSequence'' = num n" "set ks \<subseteq> set (eventKeys e)" "distinct ks"
    and "distinct (map projection_key rows)" "\<And>k q. k \<in> set ks \<Longrightarrow> headMap rows k = Some q \<Longrightarrow> head_sequence q < n"
  shows "distinct (map projection_key (fold (\<lambda>k. upsertHead (headRow (projectionOf E e k))) ks rows))"
    "headMap (fold (\<lambda>k. upsertHead (headRow (projectionOf E e k))) ks rows) k
     = (if k \<in> set ks then Some (headRow (projectionOf E e k)) else headMap rows k)"
proof -
  have "distinct (map projection_key (fold (\<lambda>k. upsertHead (headRow (projectionOf E e k))) ks rows))
    \<and> (\<forall>k. headMap (fold (\<lambda>k. upsertHead (headRow (projectionOf E e k))) ks rows) k
     = (if k \<in> set ks then Some (headRow (projectionOf E e k)) else headMap rows k))"
    using assms(4-7)
  proof (induction ks arbitrary: rows)
    case (Cons j ks)
    let ?r = "headRow (projectionOf E e j)"
    have j: "projection_key ?r = j" "num (head_sequence ?r) = num n" using headRow_projection [OF assms(1,2)] Cons.prems(1) assms(3) by auto
    then have m: "headMap (upsertHead ?r rows) = (headMap rows)(j \<mapsto> ?r)" using Cons.prems(4) [of j] upsertHead_map [of rows ?r] by simp
    have "distinct (map projection_key (fold (\<lambda>k. upsertHead (headRow (projectionOf E e k))) ks (upsertHead ?r rows)))
    \<and> (\<forall>k. headMap (fold (\<lambda>k. upsertHead (headRow (projectionOf E e k))) ks (upsertHead ?r rows)) k
     = (if k \<in> set ks then Some (headRow (projectionOf E e k)) else headMap (upsertHead ?r rows) k))"
    proof (rule Cons.IH)
      show "head_sequence q < n" if "k \<in> set ks" "headMap (upsertHead ?r rows) k = Some q" for k q
        using that Cons.prems(2) Cons.prems(4) [of k q] unfolding m by (auto split: if_splits)
    qed (use Cons.prems upsertHead_distinct in auto)
    then show ?case using Cons.prems(2) by (auto simp: m)
  qed simp
  then show "distinct (map projection_key (fold (\<lambda>k. upsertHead (headRow (projectionOf E e k))) ks rows))"
    "headMap (fold (\<lambda>k. upsertHead (headRow (projectionOf E e k))) ks rows) k
     = (if k \<in> set ks then Some (headRow (projectionOf E e k)) else headMap rows k)" by blast+
qed

lemma efold_heads:
  assumes "sha_ok E" "\<forall>e\<in>set es. event_ok E e" "chained d n es" "efold (applyProjectionHeadsForEvent E) es [] = Inr rows"
  shows "(\<forall>e\<in>set es. projects E e) \<and> heads_of E es rows \<and> (\<forall>r\<in>set rows. head_sequence r < n + int (length es))"
  using assms(2-4)
proof (induction es arbitrary: rows rule: rev_induct)
  case Nil
  then show ?case by (simp add: heads_of_def)
next
  case (snoc e es)
  then obtain rows0 where r0: "efold (applyProjectionHeadsForEvent E) es [] = Inr rows0" and ap: "applyProjectionHeadsForEvent E e rows0 = Inr rows"
    by (auto simp: efold_snoc_Inr)
  have ok: "event_ok E e" and sq: "fld e ''globalSequence'' = num (n + int (length es))" and ch: "chained d n es"
    using snoc.prems by (auto simp: chained_snoc)
  have ih: "\<forall>e\<in>set es. projects E e" "heads_of E es rows0" "\<forall>r\<in>set rows0. head_sequence r < n + int (length es)"
    using snoc.IH [OF _ ch r0] snoc.prems by auto
  note pe = applyProjectionHeads_Inr [OF assms(1) ok ap]
  have lt: "head_sequence q < n + int (length es)" if "headMap rows0 k = Some q" for k q
    using ih(3) map_of_SomeD [OF that] by auto
  note f = fold_upsert [OF assms(1) pe(1) sq subset_refl eventKeys_distinct, of rows0, folded pe(2)]
  have d: "distinct (map projection_key rows0)" using ih(2) by (simp add: heads_of_def)
  have "heads_of E (es @ [e]) rows"
    using f [OF d lt] ih(2) by (auto simp: heads_of_def latest_snoc)
  moreover have "\<forall>r\<in>set rows. head_sequence r < n + int (length (es @ [e]))"
  proof
    fix r assume "r \<in> set rows"
    then have "headMap rows (projection_key r) = Some r" using f(1) [OF d lt] by (intro map_of_is_SomeI) (auto simp: comp_def)
    then consider "r = headRow (projectionOf E e (projection_key r))" "projection_key r \<in> set (eventKeys e)" | "headMap rows0 (projection_key r) = Some r"
      using f(2) [OF d lt, where k = "projection_key r"] by (auto split: if_splits)
    then show "head_sequence r < n + int (length (es @ [e]))"
    proof cases
      case 1
      then have "num (head_sequence r) = num (n + int (length es))" using headRow_projection(2) [OF assms(1) pe(1)] sq by metis
      then show ?thesis by simp
    qed (use lt in fastforce)
  qed
  ultimately show ?case using ih(1) pe(1) by simp
qed

subsection \<open>The map of the verification\<close>

lemma efold_snoc: "efold f (xs @ [x]) a = ebind (efold f xs a) (f x)"
proof (induction xs arbitrary: a)
  case Nil
  show ?case by (cases "f x a") simp_all
next
  case (Cons y ys)
  then show ?case by (cases "f y a") simp_all
qed

lemma expectedProjectionMap_snoc:
  "expectedProjectionMap E (es @ [e]) = ebind (expectedProjectionMap E es) (\<lambda>m.
     ebind (projectionKeysForEvent E e) (\<lambda>keys.
     efold (\<lambda>key m. ebind (buildMaterializedEpistemicProjection E e key) (\<lambda>projection.
       Inr (AList.update key projection m))) keys m))"
  unfolding expectedProjectionMap_def by (rule efold_snoc)

lemma efold_update:
  assumes "\<forall>k\<in>set ks. f k = Inr (g k)"
  shows "efold (\<lambda>key m. ebind (f key) (\<lambda>p. Inr (AList.update key p m))) ks m = Inr (fold (\<lambda>k. AList.update k (g k)) ks m)"
  using assms by (induction ks arbitrary: m) auto

lemma map_of_fold_update:
  "map_of (fold (\<lambda>k. AList.update k (g k)) ks m) k = (if k \<in> set ks then Some (g k) else map_of m k)"
  by (induction ks arbitrary: m) (auto simp: update_conv')

lemma distinct_fold_update: "distinct (map fst m) \<Longrightarrow> distinct (map fst (fold (\<lambda>k. AList.update k (g k)) ks m))"
  by (induction ks arbitrary: m) (auto simp: distinct_update)

lemma expected_map:
  assumes "sha_ok E" "\<forall>e\<in>set es. projects E e"
  shows "\<exists>m. expectedProjectionMap E es = Inr m \<and> distinct (map fst m) \<and> (\<forall>k. map_of m k = map_option (\<lambda>e. projectionOf E e k) (latest es k))"
  using assms(2)
proof (induction es rule: rev_induct)
  case Nil
  show ?case by (simp add: expectedProjectionMap_def)
next
  case (snoc e es)
  then obtain m where m: "expectedProjectionMap E es = Inr m" "distinct (map fst m)"
    "\<forall>k. map_of m k = map_option (\<lambda>e. projectionOf E e k) (latest es k)" by auto
  have pe: "projects E e" using snoc.prems by simp
  then have "projectionKeysForEvent E e = Inr (eventKeys e)" using projectionKeys_ok [OF assms(1)] by (simp add: projects_def)
  moreover have "efold (\<lambda>key m. ebind (buildMaterializedEpistemicProjection E e key) (\<lambda>p. Inr (AList.update key p m))) (eventKeys e) m
     = Inr (fold (\<lambda>k. AList.update k (projectionOf E e k)) (eventKeys e) m)"
    using pe by (intro efold_update) (simp add: projects_def)
  ultimately have "expectedProjectionMap E (es @ [e]) = Inr (fold (\<lambda>k. AList.update k (projectionOf E e k)) (eventKeys e) m)"
    by (simp add: expectedProjectionMap_snoc m(1))
  then show ?case using m(2,3) distinct_fold_update [of m "projectionOf E e" "eventKeys e"]
    by (auto simp: map_of_fold_update latest_snoc)
qed

subsection \<open>Reading the rows back\<close>

lemma latest_Some: "latest es k = Some e \<Longrightarrow> e \<in> set es \<and> k \<in> set (eventKeys e)"
  by (auto simp: latest_def find_Some_iff) (metis nth_mem set_rev length_rev)

lemma head_cases:
  assumes "sha_ok E" "\<forall>e\<in>set es. projects E e" "heads_of E es rows" "r \<in> set rows"
  obtains e where "latest es (projection_key r) = Some e" "r = headRow (projectionOf E e (projection_key r))"
    "projection_ok E e (projection_key r) (projectionOf E e (projection_key r))"
proof -
  have "headMap rows (projection_key r) = Some r" using assms(3,4) by (intro map_of_is_SomeI) (auto simp: heads_of_def comp_def)
  then obtain e where e: "latest es (projection_key r) = Some e" "r = headRow (projectionOf E e (projection_key r))"
    using assms(3) by (auto simp: heads_of_def)
  with that projects_ok [OF assms(1)] latest_Some [OF e(1)] assms(2) show thesis by blast
qed

definition headProjection :: "head_row \<Rightarrow> jval" where
  "headProjection r = (case projection_json r of JsonOf p \<Rightarrow> p | _ \<Rightarrow> JUndef)"

lemma headProjection_row: "projection_ok E e k p \<Longrightarrow> headProjection (headRow p) = p"
  by (simp add: headProjection_def headRow_def projection_ok_def json_jsonic)

lemma listHeads:
  assumes "sha_ok E" "\<forall>e\<in>set es. projects E e" "heads_of E es (head_rows s)"
  shows "listProjectionHeads E s = Inr (map headProjection (sort_key projection_key (head_rows s)))"
  unfolding listProjectionHeads_def
proof (rule emap_total)
  fix r assume "r \<in> set (sort_key projection_key (head_rows s))"
  then have "r \<in> set (head_rows s)" by simp
  from head_cases [OF assms this] obtain e where e: "r = headRow (projectionOf E e (projection_key r))"
    "projection_ok E e (projection_key r) (projectionOf E e (projection_key r))" by blast
  let ?p = "projectionOf E e (projection_key r)"
  have j: "projection_json (headRow ?p) = json ?p" by (simp add: headRow_def)
  have "parseJson (projection_json r) l = Inr ?p" for l
    unfolding e(1) [THEN arg_cong, of projection_json] j using e(2) by (simp add: projection_ok_def)
  moreover have "headProjection r = ?p" using headProjection_row [OF e(2)] e(1) by metis
  ultimately show "ebind (parseJson (projection_json r) ''projection-list'') (\<lambda>projection.
     ebind (validateMaterializedEpistemicProjection E projection) (\<lambda>_. Inr projection)) = Inr (headProjection r)"
    using e(2) by (simp add: projection_ok_def)
qed

lemma headProjection_key:
  assumes "sha_ok E" "\<forall>e\<in>set es. projects E e" "heads_of E es rows" "r \<in> set rows"
  shows "raw_string (fld (headProjection r) ''projectionKey'') = projection_key r"
    "headProjection r = projectionOf E (the (latest es (projection_key r))) (projection_key r)"
proof -
  from head_cases [OF assms] obtain e where e: "latest es (projection_key r) = Some e" "r = headRow (projectionOf E e (projection_key r))"
    "projection_ok E e (projection_key r) (projectionOf E e (projection_key r))" by blast
  then have h: "headProjection r = projectionOf E e (projection_key r)" using headProjection_row by metis
  then show "headProjection r = projectionOf E (the (latest es (projection_key r))) (projection_key r)" by (simp add: e(1))
  show "raw_string (fld (headProjection r) ''projectionKey'') = projection_key r" unfolding h using e(3) by (simp add: projection_ok_def)
qed

lemma map_of_tagged: "map_of (map (\<lambda>r. (g r, f (g r))) xs) k = (if k \<in> g ` set xs then Some (f k) else None)"
  by (induction xs) auto

lemma distinct_fst_length: "distinct (map fst xs) \<Longrightarrow> length xs = card (dom (map_of xs))"
  by (metis distinct_card dom_map_of_conv_image_fst length_map list.set_map)

subsection \<open>The verdict of the projection check\<close>

lemma inv_heads:
  assumes "sha_ok E" "ledger_inv E s es rs" "heads_inv E s es" "length es \<le> 10000"
  shows "\<forall>e\<in>set es. projects E e" "heads_of E es (head_rows s)"
proof -
  have "\<forall>e\<in>set es. event_ok E e" "chained (LEDGER_GENESIS_DIGEST E) 1 es" using assms(2) unfolding ledger_inv_def by blast+
  moreover have "efold (applyProjectionHeadsForEvent E) es [] = Inr (head_rows s)" using assms(3,4) by (simp add: heads_inv_def)
  ultimately show "\<forall>e\<in>set es. projects E e" "heads_of E es (head_rows s)" using efold_heads [OF assms(1)] by blast+
qed

lemma inv_projectionCheck:
  assumes "sha_ok E" "ledger_inv E s es rs" "heads_inv E s es" "length es \<le> 10000"
  shows "projectionCheck E s = Inr (JObj [(''ok'', JBool True), (''projectionCount'', num (int (length (head_rows s))))])"
proof -
  note h = inv_heads [OF assms]
  have ev: "listEvents E s 0 10000 = Inr es" using inv_listEvents [OF assms(1,2)] assms(4) by simp
  obtain m where m: "expectedProjectionMap E es = Inr m" "distinct (map fst m)"
    "\<forall>k. map_of m k = map_option (\<lambda>e. projectionOf E e k) (latest es k)" using expected_map [OF assms(1) h(1)] by blast
  let ?rows = "sort_key projection_key (head_rows s)"
  let ?actual = "assign_all [] (map (\<lambda>p. (raw_string (fld p ''projectionKey''), p)) (map headProjection ?rows))"
  have pairs: "map (\<lambda>p. (raw_string (fld p ''projectionKey''), p)) (map headProjection ?rows)
     = map (\<lambda>r. (projection_key r, projectionOf E (the (latest es (projection_key r))) (projection_key r))) ?rows"
    using headProjection_key [OF assms(1) h] by simp
  have dk: "distinct (map projection_key (head_rows s))" using h(2) by (simp add: heads_of_def)
  then have dr: "distinct (map projection_key ?rows)" by (simp add: distinct_map)
  have act: "map_of ?actual k = map_option (\<lambda>e. projectionOf E e k) (latest es k)" for k
  proof -
    let ?f = "\<lambda>k. projectionOf E (the (latest es k)) k"
    have "map_of ?actual k = map_of (map (\<lambda>r. (projection_key r, ?f (projection_key r))) ?rows) k"
      unfolding pairs using dr by (simp add: map_of_assign_all map_of_rev_distinct comp_def)
    also have "\<dots> = (if k \<in> projection_key ` set (head_rows s) then Some (?f k) else None)"
      by (simp only: map_of_tagged [where g = projection_key and f = ?f] set_sort)
    also have "k \<in> projection_key ` set (head_rows s) \<longleftrightarrow> latest es k \<noteq> None"
    proof -
      have "k \<in> projection_key ` set (head_rows s) \<longleftrightarrow> headMap (head_rows s) k \<noteq> None"
        by (simp add: map_of_eq_None_iff image_image)
      then show ?thesis using h(2) by (simp add: heads_of_def)
    qed
    finally show ?thesis by (cases "latest es k") auto
  qed
  have "map_of m = map_of ?actual" using m(3) act by (intro ext) simp
  then have len: "length m = length ?actual"
    using distinct_fst_length [OF m(2)] distinct_fst_length [of ?actual] by (simp add: distinct_assign_all)
  have cnt: "length m = length (head_rows s)"
  proof -
    have "dom (map_of m) = projection_key ` set (head_rows s)"
    proof -
      have "map_of m k \<noteq> None \<longleftrightarrow> headMap (head_rows s) k \<noteq> None" for k using m(3) h(2) by (simp add: heads_of_def)
      then show ?thesis by (auto simp: dom_def map_of_eq_None_iff image_image)
    qed
    then show ?thesis using distinct_fst_length [OF m(2)] dk by (metis card_image distinct_card distinct_map length_map)
  qed
  have "find (\<lambda>(key, projection). case map_of ?actual key of None \<Rightarrow> True | Some p \<Rightarrow> \<not> jsonEqual E p projection) m = None"
  proof -
    have "map_of ?actual k = Some p" if "(k, p) \<in> set m" for k p
      using that m(2) \<open>map_of m = map_of ?actual\<close> by (metis map_of_is_SomeI)
    then show ?thesis by (auto simp: find_None_iff split: option.splits)
  qed
  then show ?thesis
    using len cnt by (simp add: projectionCheck_def ev m(1) listHeads [OF assms(1) h])
qed

lemma inv_getProjectionHead:
  assumes "sha_ok E" "ledger_inv E s es rs" "heads_inv E s es" "length es \<le> 10000" "trim k = k"
  shows "getProjectionHead E s k = Inr (case latest es k of None \<Rightarrow> JNull | Some e \<Rightarrow> projectionOf E e k)"
proof -
  note h = inv_heads [OF assms(1-4)]
  have m: "headMap (head_rows s) k = map_option (\<lambda>e. headRow (projectionOf E e k)) (latest es k)" using h(2) by (simp add: heads_of_def)
  have f: "find (\<lambda>row. projection_key row = k) rows = headMap rows k" for rows by (induction rows) auto
  show ?thesis
  proof (cases "latest es k")
    case None
    with m f assms(5) show ?thesis by (simp add: getProjectionHead_def)
  next
    case (Some e)
    have p: "projection_ok E e k (projectionOf E e k)" using latest_Some [OF Some] h(1) projects_ok [OF assms(1)] by blast
    have j: "projection_json (headRow x) = json x" for x by (simp add: headRow_def)
    from p have "parseJson (json (projectionOf E e k)) l = Inr (projectionOf E e k)" "validateMaterializedEpistemicProjection E (projectionOf E e k) = Inr True" for l
      by (simp_all add: projection_ok_def)
    with m f assms(5) Some show ?thesis by (simp add: getProjectionHead_def j)
  qed
qed

end
