(* ===== verification/LedgerProperties.thy ===== *)
theory LedgerProperties
  imports LedgerProjection
begin

section \<open>Epistemic ledger: properties\<close>

text \<open>
  What the ledger promises its clients, for every store that the operations reach from the empty
  one: it passes its integrity check, only grows, replays a repeated append and refuses a
  conflicting one, projects the latest events, delivers its outbox and restarts writable.
\<close>

subsection \<open>The store and its clock\<close>

lemma getActTypeConstitution_clock [simp]: "getActTypeConstitution (E\<lparr>date_now := t\<rparr>) s ref = getActTypeConstitution E s ref"
  by (simp add: getActTypeConstitution_def Let_def cong: if_cong option.case_cong)

lemma prepareAppendInput_clock [simp]: "prepareAppendInput (E\<lparr>date_now := t\<rparr>) s input = prepareAppendInput E s input"
  by (simp add: prepareAppendInput_def Let_def cong: if_cong)

lemma recorded_clock [simp]: "recorded (E\<lparr>date_now := t\<rparr>) s a e r = recorded E s a e r"
  by (simp add: recorded_def)

lemma find_append_Some: "find P xs = Some x \<Longrightarrow> find P (xs @ ys) = Some x"
  by (induction xs) (auto split: if_splits)

lemma getActTypeConstitution_mono:
  assumes "getActTypeConstitution E s ref = Inr c" "truthy c" "act_rows s' = act_rows s @ xs"
  shows "getActTypeConstitution E s' ref = Inr c"
proof -
  define i where "i = (case ref of JStr _ \<Rightarrow> js_text ref [] | _ \<Rightarrow> js_text (fld ref ''id'') [])"
  have "i \<noteq> []" using assms(1,2) by (auto simp: getActTypeConstitution_def Let_def i_def [symmetric])
  moreover from this obtain row where "find (\<lambda>row. act_type_ref_id row = i) (act_rows s) = Some row"
    using assms(1,2) by (cases "find (\<lambda>row. act_type_ref_id row = i) (act_rows s)") (auto simp: getActTypeConstitution_def Let_def i_def [symmetric])
  ultimately show ?thesis using assms(1)
    by (simp add: getActTypeConstitution_def Let_def i_def [symmetric] assms(3) find_append_Some)
qed

lemma prepareAppendInput_mono:
  assumes "prepareAppendInput E s input = Inr a" "act_rows s' = act_rows s @ xs"
  shows "prepareAppendInput E s' input = Inr a"
proof -
  obtain c where c: "getActTypeConstitution E s (fld input ''actTypeRef'') = Inr c" "truthy c"
    using assms(1) unfolding prepareAppendInput_def Let_def by (elim run_elims) simp
  from getActTypeConstitution_mono [OF c assms(2)] c(1) assms(1) show ?thesis
    by (simp add: prepareAppendInput_def Let_def cong: if_cong)
qed

lemma appendEvent_guards:
  assumes "appendEvent E s arg opts = Inr z"
  obtains input options seedIntents where "defaulted arg = Inr input" "defaulted opts = Inr options"
    "normalizeOutboxSeedIntents E (orEmpty (js_or (fld options ''outboxSeeds'') (fld input ''outboxSeeds''))) = Inr seedIntents"
  using assms unfolding appendEvent_def by (elim ebind_InrE) (rule that)

lemma recorded_later: "recorded E s a e r \<Longrightarrow> extends s s' \<Longrightarrow> recorded E s' a e r"
  by (auto simp: recorded_def extends_def)

lemma append_then_history:
  assumes "sha_ok E" "ledger_history E msg emptyStore s" "appendEvent (E\<lparr>date_now := t\<rparr>) s arg opts = Inr (out, s1)" "ledger_history E msg s1 s2"
  obtains input a x es rs where "defaulted arg = Inr input" "normalizeLedgerAppendIntent E x = Inr a" "prepareAppendInput E s2 input = Inr a"
    "ledger_inv E s2 es rs" "recorded E s2 a (fld out ''event'') (fld out ''persistedReceipt'')"
proof -
  let ?E = "E\<lparr>date_now := t\<rparr>"
  obtain es rs where i: "ledger_inv E s es rs" "heads_inv E s es" using reachable_inv [OF assms(1,2)] by blast
  then have i': "ledger_inv ?E s es rs" "sha_ok ?E" using assms(1) by simp_all
  obtain input a x where a: "defaulted arg = Inr input" "prepareAppendInput E s input = Inr a" "normalizeLedgerAppendIntent E x = Inr a"
    and r: "recorded E s1 a (fld out ''event'') (fld out ''persistedReceipt'')" and acts: "act_rows s1 = act_rows s"
  proof (rule appendEvent_recorded [OF i'(2,1) assms(3)])
    fix input a x
    assume p: "defaulted arg = Inr input" "prepareAppendInput ?E s input = Inr a" "normalizeLedgerAppendIntent ?E x = Inr a"
      "recorded ?E s1 a (fld out ''event'') (fld out ''persistedReceipt'')" "act_rows s1 = act_rows s"
    show thesis
      by (rule that [OF p(1) p(2) [unfolded prepareAppendInput_clock] p(3) [unfolded references_clock] p(4) [unfolded recorded_clock] p(5)])
  qed
  have "ledger_history E msg emptyStore s1" using assms(2) ledger_op.append [OF assms(3)] by (rule rtranclp.rtrancl_into_rtrancl)
  then obtain es1 rs1 where i1: "ledger_inv E s1 es1 rs1" "heads_inv E s1 es1" using reachable_inv [OF assms(1)] by blast
  from ledger_history_follows [OF assms(4,1) i1] obtain es2 rs2 where i2: "ledger_inv E s2 es2 rs2" and x: "extends s1 s2"
    unfolding follows_def by blast
  from x obtain xs where "act_rows s2 = act_rows s @ xs" using acts by (auto simp: extends_def)
  then have "prepareAppendInput E s2 input = Inr a" by (rule prepareAppendInput_mono [OF a(2)])
  with that [OF a(1,3) _ i2] recorded_later [OF r x] show thesis by blast
qed

lemma recorded_prior:
  assumes "recorded E s a e r" "ledger_inv E s es rs" "intentKey b = intentKey a"
  shows "priorReceipt s b = Some (receiptRow e r)"
proof -
  have "receiptRow e r \<in> set (receipt_rows s)" "requestKey (receiptRow e r) = intentKey b" using assms(1,3) by (simp_all add: recorded_def)
  moreover have "distinct (map requestKey (receipt_rows s))" using assms(2) unfolding ledger_inv_def by blast
  ultimately show ?thesis using find_unique [of "receiptRow e r" "receipt_rows s" requestKey] by simp
qed

subsection \<open>The properties\<close>

text \<open>C2: For every store that the operations of the ledger reach from the empty one, with any delivery
references and with act constitutions given as JSON data, the integrity check has exactly two
outcomes. When the stored digest of every completed delivery is that of its stored reference
normalised once more, the store is intact and the check reports the exact numbers of events and
receipts; otherwise it fails with epistemic_ledger_outbox_delivery_ref_mismatch, naming such a
delivery.\<close>

theorem ledger_stays_intact:
  assumes "sha_ok E" "ledger_history E msg emptyStore s"
  shows "if list_all (settled_delivery E) (outbox_rows s)
     then verifyLedgerIntegrity E msg s = JObj [(''ok'', JBool True),
       (''eventCount'', num (int (length (event_rows s)))),
       (''receiptCount'', num (int (length (event_rows s)))),
       (''outboxSeedCount'', num (int (length (outbox_rows s)))),
       (''headSequence'', num (int (length (event_rows s)))),
       (''headDigest'', JStr (if event_rows s = [] then LEDGER_GENESIS_DIGEST E else event_digest (last (event_rows s))))]
     else fld (verifyLedgerIntegrity E msg s) ''ok'' = JBool False
       \<and> fld (verifyLedgerIntegrity E msg s) ''issue'' = JStr ''epistemic_ledger_outbox_delivery_ref_mismatch''
       \<and> list_ex (\<lambda>row. \<not> settled_delivery E row
            \<and> fld (verifyLedgerIntegrity E msg s) ''detail'' = JStr (if outbox_seed_id row = [] then ''epistemic_ledger_outbox_delivery_ref_mismatch''
                else outbox_seed_id row)) (outbox_rows s)"
proof (cases "list_all (settled_delivery E) (outbox_rows s)")
  case True
  obtain es rs where i: "ledger_inv E s es rs" using reachable_inv [OF assms] by blast
  have r: "event_rows s = map eventRow es" using i unfolding ledger_inv_def by blast
  have "head_digest (LEDGER_GENESIS_DIGEST E) es = (if es = [] then LEDGER_GENESIS_DIGEST E else event_digest (last (map eventRow es)))"
    by (cases es rule: rev_cases) (simp_all add: head_digest_snoc eventRow_def)
  then show ?thesis using True by (simp add: verifyLedgerIntegrity_def inv_integrity [OF assms(1) i True] caught_def r)
next
  case False
  obtain es rs where i: "ledger_inv E s es rs" using reachable_inv [OF assms] by blast
  obtain row where row: "row \<in> set (outbox_rows s)" "\<not> settled_delivery E row"
    "integrityCheck E s = fail ''epistemic_ledger_outbox_delivery_ref_mismatch'' (outbox_seed_id row)"
    using inv_integrity_fails [OF assms(1) i False] by blast
  then have v: "verifyLedgerIntegrity E msg s = JObj [(''ok'', JBool False),
       (''issue'', JStr ''epistemic_ledger_outbox_delivery_ref_mismatch''),
       (''detail'', JStr (if outbox_seed_id row = [] then ''epistemic_ledger_outbox_delivery_ref_mismatch'' else outbox_seed_id row))]"
    by (simp add: verifyLedgerIntegrity_def caught_def fail_def)
  show ?thesis using False row(1,2) unfolding v by (auto simp: list_ex_iff)
qed

text \<open>C8: No operation changes or removes a recorded event, receipt or stream membership, and the events
are numbered 1, 2, 3 and so on without a gap.\<close>

theorem ledger_is_append_only:
  assumes "sha_ok E" "ledger_history E msg emptyStore s" "ledger_history E msg s s'"
  shows "take (length (event_rows s)) (event_rows s') = event_rows s \<and> take (length (receipt_rows s)) (receipt_rows s') = receipt_rows s
     \<and> take (length (membership_rows s)) (membership_rows s') = membership_rows s
     \<and> map global_sequence (event_rows s') = [1..int (length (event_rows s'))]"
proof -
  obtain es rs where i: "ledger_inv E s es rs" "heads_inv E s es" using reachable_inv [OF assms(1,2)] by blast
  from ledger_history_follows [OF assms(3,1) i] obtain es' rs' where i': "ledger_inv E s' (es @ es') (rs @ rs')" and x: "extends s s'"
    unfolding follows_def by blast
  let ?es = "es @ es'"
  have ch: "chained (LEDGER_GENESIS_DIGEST E) 1 ?es" and r: "event_rows s' = map eventRow ?es" using i' unfolding ledger_inv_def by blast+
  have "map global_sequence (event_rows s') = map (\<lambda>e. int_of (fld e ''globalSequence'')) ?es" unfolding r by (simp add: eventRow_def)
  also have "\<dots> = map (\<lambda>i. 1 + int i) [0..<length ?es]" by (rule chained_sequences [OF ch])
  also have "\<dots> = [1..int (length ?es)]" by (rule nth_equalityI) simp_all
  finally have "map global_sequence (event_rows s') = [1..int (length (event_rows s'))]" by (simp only: r length_map)
  moreover have "take (length (event_rows s)) (event_rows s') = event_rows s" "take (length (receipt_rows s)) (receipt_rows s') = receipt_rows s"
    "take (length (membership_rows s)) (membership_rows s') = membership_rows s" using x by (auto simp: extends_def)
  ultimately show ?thesis by blast
qed

text \<open>C3: In a writable store, appending the same input again, at any later time and after any other
operations, returns the recorded event and receipt with a replay receipt and leaves the store
unchanged.\<close>

theorem append_is_idempotent:
  assumes "sha_ok E" "ledger_history E msg emptyStore s" "appendEvent (E\<lparr>date_now := t\<rparr>) s arg opts = Inr (out, s1)"
    and "ledger_history E msg s1 s2" "\<not> truthy (readOnlyDiagnosis s2)"
  shows "\<exists>again. appendEvent (E\<lparr>date_now := t'\<rparr>) s2 arg opts = Inr (again, s2)
     \<and> fld again ''event'' = fld out ''event'' \<and> fld again ''persistedReceipt'' = fld out ''persistedReceipt''
     \<and> fld (fld again ''receipt'') ''appendState'' = JStr ''idempotent_replay''"
proof -
  let ?E = "E\<lparr>date_now := t'\<rparr>"
  obtain input a x es rs where a: "defaulted arg = Inr input" "normalizeLedgerAppendIntent E x = Inr a" "prepareAppendInput E s2 input = Inr a"
    and i: "ledger_inv E s2 es rs" and r: "recorded E s2 a (fld out ''event'') (fld out ''persistedReceipt'')"
    by (rule append_then_history [OF assms(1-4)])
  obtain input' options ns where g: "defaulted arg = Inr input'" "defaulted opts = Inr options"
    "normalizeOutboxSeedIntents E (orEmpty (js_or (fld options ''outboxSeeds'') (fld input' ''outboxSeeds''))) = Inr ns"
    by (rule appendEvent_guards [OF assms(3), unfolded references_clock])
  have same: "input' = input" using a(1) g(1) by simp
  have "appendEvent ?E s2 arg opts = replayAppend ?E s2 (receiptRow (fld out ''event'') (fld out ''persistedReceipt''))
     (intentDigestOf ?E (restabIntent a)) (conflictText a)"
    using appendEvent_cases [where E = ?E and s = s2 and input = input and a = a and x = x and arg = arg and opts = opts and options = options
      and seedIntents = ns] a g recorded_prior [OF r i refl] assms(5) by (simp add: same assertWritable_def)
  moreover have "\<exists>again. replayAppend ?E s2 (receiptRow (fld out ''event'') (fld out ''persistedReceipt'')) (intentDigestOf E (restabIntent a)) (conflictText a)
       = Inr (again, s2) \<and> fld again ''event'' = fld out ''event'' \<and> fld again ''persistedReceipt'' = fld out ''persistedReceipt''
     \<and> fld (fld again ''receipt'') ''appendState'' = JStr ''idempotent_replay''"
    using r i assms(1) by (intro replayAppend_recorded(2)) (simp_all add: recorded_def)
  ultimately show ?thesis by simp
qed

text \<open>C4: In a writable store, an append that reuses the actor, operation scope and idempotency key of a
recorded append for an intent with another digest is refused with the conflict error, whatever
happened in between.\<close>

theorem conflicting_append_refused:
  assumes "sha_ok E" "ledger_history E msg emptyStore s" "appendEvent (E\<lparr>date_now := t\<rparr>) s arg opts = Inr (out, s1)"
    and "ledger_history E msg s1 s2" "\<not> truthy (readOnlyDiagnosis s2)"
    and "defaulted arg' = Inr input'" "prepareAppendInput E s2 input' = Inr b" "defaulted opts' = Inr options'"
    and "normalizeOutboxSeedIntents E (orEmpty (js_or (fld options' ''outboxSeeds'') (fld input' ''outboxSeeds''))) = Inr seedIntents"
    and "fld (fld out ''persistedReceipt'') ''actorIdentity'' = JStr (refIdentityKey (fld b ''actorRef''))"
    and "fld (fld out ''persistedReceipt'') ''operationScope'' = fld b ''operationScope''"
    and "fld (fld out ''persistedReceipt'') ''idempotencyKey'' = fld b ''idempotencyKey''"
    and "ledgerAppendIntentDigest E b = Inr dg" "fld (fld out ''persistedReceipt'') ''appendRequestDigest'' \<noteq> JStr dg"
  shows "appendEvent (E\<lparr>date_now := t'\<rparr>) s2 arg' opts' = fail ''epistemic_ledger_idempotency_conflict'' (conflictText b)"
proof -
  let ?E = "E\<lparr>date_now := t'\<rparr>" and ?e = "fld out ''event''" and ?r = "fld out ''persistedReceipt''"
  obtain input a x es rs where i: "ledger_inv E s2 es rs" and r: "recorded E s2 a ?e ?r"
    by (rule append_then_history [OF assms(1-4)])
  have acts: "\<forall>row\<in>set (act_rows s2). act_ok E row" using i unfolding ledger_inv_def by blast
  obtain y where y: "normalizeLedgerAppendIntent E y = Inr b" using prepareAppendInput_Inr(1) [OF assms(1) acts assms(7)] by blast
  have ro: "receipt_ok E ?e ?r" using r by (simp add: recorded_def)
  have sh: "shaped (\<lambda>_. True) (\<lambda>_. True) b" by (rule normalize_Inr(2) [OF y])
  have "requestKey (receiptRow ?e ?r) = intentKey b"
    using ro assms(10-12) by (simp add: receipt_ok_def receiptRow_def)
  then have key: "intentKey b = intentKey a" using r by (simp add: recorded_def)
  have dg: "dg = intentDigestOf E (restabIntent b)" using digest_of_intent [OF y] assms(13) by simp
  have "appendEvent ?E s2 arg' opts' = replayAppend ?E s2 (receiptRow ?e ?r) (intentDigestOf ?E (restabIntent b)) (conflictText b)"
    using appendEvent_cases [where E = ?E and s = s2 and input = input' and a = b and x = y and arg = arg' and opts = opts' and options = options'
      and seedIntents = seedIntents] y assms(5-9) recorded_prior [OF r i key] by (simp add: assertWritable_def)
  moreover have "intentDigestOf E (intentOf ?e ?r) \<noteq> intentDigestOf E (restabIntent b)"
    using ro assms(14) dg by (simp add: receipt_ok_def)
  ultimately show ?thesis
    using replayAppend_recorded(1) [where E = ?E and s = s2 and es = es and rs = rs and e = ?e and r = ?r] r i assms(1) by (simp add: recorded_def)
qed

definition hasKey :: "jsenv \<Rightarrow> string \<Rightarrow> jval \<Rightarrow> bool" where
  "hasKey E k e = (case projectionKeysForEvent E e of Inr keys \<Rightarrow> k \<in> set keys | Inl _ \<Rightarrow> False)"

text \<open>C5: Up to the listing limit, the projection head of a key is the projection of the latest event
that has this key, or null when no event has it.\<close>

theorem projections_are_latest_events:
  assumes "sha_ok E" "ledger_history E msg emptyStore s" "length (event_rows s) \<le> 10000" "trim k = k"
  shows "\<exists>events. listEvents E s 0 10000 = Inr events \<and> length events = length (event_rows s)
     \<and> getProjectionHead E s k = (case find (hasKey E k) (rev events) of
          None \<Rightarrow> Inr JNull | Some e \<Rightarrow> buildMaterializedEpistemicProjection E e k)"
proof -
  obtain es rs where i: "ledger_inv E s es rs" "heads_inv E s es" using reachable_inv [OF assms(1,2)] by blast
  have r: "event_rows s = map eventRow es" and ok: "\<forall>e\<in>set es. event_ok E e" using i(1) unfolding ledger_inv_def by blast+
  then have len: "length es \<le> 10000" using assms(3) by simp
  have ev: "listEvents E s 0 10000 = Inr es" using inv_listEvents [OF assms(1) i(1)] len by simp
  have "find (hasKey E k) (rev es) = latest es k"
    unfolding latest_def using ok by (intro find_cong refl) (simp add: hasKey_def projectionKeys_ok [OF assms(1)])
  moreover have "buildMaterializedEpistemicProjection E e k = Inr (projectionOf E e k)" if "latest es k = Some e" for e
    using inv_heads(1) [OF assms(1) i len] latest_Some [OF that] by (auto simp: projects_def)
  ultimately have "getProjectionHead E s k = (case find (hasKey E k) (rev es) of
          None \<Rightarrow> Inr JNull | Some e \<Rightarrow> buildMaterializedEpistemicProjection E e k)"
    using inv_getProjectionHead [OF assms(1) i len assms(4)] by (auto split: option.split)
  then show ?thesis using ev r by auto
qed

text \<open>C11: After any history with at most 10000 events a restart, with or without repair, opens the
store for writing and rebuilds nothing when the stored digest of every completed delivery is that
of its stored reference normalised once more; otherwise it leaves the store read-only and reports
the mismatching delivery reference.\<close>

theorem restart_reopens_ledger:
  assumes "sha_ok E" "ledger_history E msg emptyStore s" "length (event_rows s) \<le> 10000"
  shows "\<exists>out. if list_all (settled_delivery E) (outbox_rows s)
     then verifyRestartState E msg repair s = Inr (out, s\<lparr>readOnlyDiagnosis := JNull\<rparr>)
       \<and> fld out ''ok'' = JBool True \<and> fld out ''writable'' = JBool True \<and> fld out ''rebuild'' = JNull
     else verifyRestartState E msg repair s = Inr (out, s\<lparr>readOnlyDiagnosis := verifyLedgerIntegrity E msg s\<rparr>)
       \<and> fld out ''ok'' = JBool False \<and> fld out ''writable'' = JBool False"
proof -
  obtain es rs where i: "ledger_inv E s es rs" "heads_inv E s es" using reachable_inv [OF assms(1,2)] by blast
  have "event_rows s = map eventRow es" using i(1) unfolding ledger_inv_def by blast
  then have len: "length es \<le> 10000" using assms(3) by simp
  show ?thesis
  proof (cases "list_all (settled_delivery E) (outbox_rows s)")
    case True
    have "fld (verifyLedgerIntegrity E msg s) ''ok'' = JBool True"
      by (simp add: verifyLedgerIntegrity_def inv_integrity [OF assms(1) i(1) True] caught_def)
    moreover have "fld (verifyProjectionHeads E msg s) ''ok'' = JBool True"
      by (simp add: verifyProjectionHeads_def inv_projectionCheck [OF assms(1) i len] caught_def)
    ultimately show ?thesis using True by (simp add: verifyRestartState_def Let_def)
  next
    case False
    have "fld (verifyLedgerIntegrity E msg s) ''ok'' = JBool False"
      using inv_integrity_fails [OF assms(1) i(1) False] by (auto simp: verifyLedgerIntegrity_def caught_def fail_def)
    then show ?thesis using False by (simp add: verifyRestartState_def Let_def)
  qed
qed

lemma seed_id_trimmed: "outbox_ok E es row \<Longrightarrow> js_text (JStr (outbox_seed_id row)) [] = outbox_seed_id row"
  by (auto simp: outbox_ok_def seed_ok_def)

text \<open>C12: A pending delivery can always be marked as dispatched in a writable store, while the clock
shows a date that can be printed, with a reference that is in normal form, and stays dispatched
with that reference in every later store.\<close>

theorem pending_delivery_completes:
  assumes "sha_ok E" "ledger_history E msg emptyStore s" "\<not> truthy (readOnlyDiagnosis s)"
    and "row \<in> set (outbox_rows s)" "dispatch_state row = ''pending'' \<or> dispatch_state row = ''retry_pending''"
    and "ledgerExactRef E ref ''deliveryRef'' = Inr ref" "\<bar>t 0\<bar> \<le> 8640000000000000"
  shows "\<exists>out s1. markOutboxDispatched (E\<lparr>date_now := t\<rparr>) s (outbox_seed_id row) ref = Inr (out, s1)
     \<and> fld out ''dispatchState'' = JStr ''dispatched'' \<and> ledger_op E msg s s1
     \<and> (\<forall>s2. ledger_history E msg s1 s2 \<longrightarrow> list_ex (\<lambda>q. outbox_seed_id q = outbox_seed_id row
           \<and> dispatch_state q = ''dispatched'' \<and> delivery_ref_json q = json ref) (outbox_rows s2))"
proof -
  let ?E = "E\<lparr>date_now := t\<rparr>"
  let ?f = "\<lambda>q. q\<lparr>dispatch_state := ''dispatched'', delivery_ref_json := json ref,
               delivery_ref_digest := digestFor E ''direct_ledger_outbox_delivery_ref@1'' ref [],
               last_failure_json := NoText, outbox_updated_at := iso_text ?E (t 0)\<rparr>"
  let ?out = "JObj [(''outboxSeedId'', JStr (outbox_seed_id row)), (''dispatchState'', JStr ''dispatched''),
               (''deliveryRef'', ref), (''changed'', JBool True)]"
  let ?s1 = "updateOutbox (outbox_seed_id row) ?f s"
  obtain es rs where i: "ledger_inv E s es rs" "heads_inv E s es" using reachable_inv [OF assms(1,2)] by blast
  have d: "distinct (map outbox_seed_id (outbox_rows s))" and ok: "outbox_ok E es row" using i(1) assms(4) unfolding ledger_inv_def by blast+
  have "find (\<lambda>q. outbox_seed_id q = outbox_seed_id row) (outbox_rows s) = Some row" by (rule find_unique [OF assms(4) d])
  then have m: "markOutboxDispatched ?E s (outbox_seed_id row) ref = Inr (?out, ?s1)"
    using assms(3,5-7) by (auto simp: markOutboxDispatched_def assertWritable_def Let_def seed_id_trimmed [OF ok] isoAt_def)
  have op: "ledger_op E msg s ?s1" by (rule ledger_op.dispatched [OF m])
  have "list_ex (\<lambda>q. outbox_seed_id q = outbox_seed_id row \<and> dispatch_state q = ''dispatched'' \<and> delivery_ref_json q = json ref) (outbox_rows s2)"
    if "ledger_history E msg ?s1 s2" for s2
  proof -
    have "ledger_history E msg emptyStore ?s1" using assms(2) op by (rule rtranclp.rtrancl_into_rtrancl)
    then obtain es1 rs1 where "ledger_inv E ?s1 es1 rs1" "heads_inv E ?s1 es1" using reachable_inv [OF assms(1)] by blast
    from ledger_history_follows [OF that assms(1) this] have x: "extends ?s1 s2" by (simp add: follows_def)
    have "?f row \<in> set (outbox_rows ?s1)" using assms(4) by (auto simp: updateOutbox_def)
    then have "?f row \<in> set (outbox_rows s2)" using x by (simp add: extends_def)
    then show ?thesis unfolding list_ex_iff by (rule bexI [rotated]) simp
  qed
  then show ?thesis using m op by (intro exI [of _ ?out] exI [of _ ?s1]) simp
qed

lemma checkEvent_Inr:
  assumes "checkEvent E s cs row (d, n) = Inr st"
  obtains e where "eventFromRow E row = Inr e" "fld e ''globalSequence'' = num n" "fld e ''previousLedgerDigest'' = JStr d"
    "st = (raw_string (fld e ''eventDigest''), n + 1)"
proof -
  obtain e where "eventFromRow E row = Inr e" using assms by (auto simp: checkEvent_def ebind_Inr_iff)
  with assms that show thesis unfolding checkEvent_def by (auto simp: ebind_Inr_iff split: if_splits)
qed

lemma checkEvents_chain:
  "efold (checkEvent E s cs) rows (d, n) = Inr st \<Longrightarrow>
     \<exists>es. emap (eventFromRow E) rows = Inr es \<and> chained d n es \<and> st = (head_digest d es, n + int (length es))"
proof (induction rows arbitrary: d n)
  case (Cons row rows)
  then obtain st1 where st1: "checkEvent E s cs row (d, n) = Inr st1" and rest: "efold (checkEvent E s cs) rows st1 = Inr st" by (auto simp: ebind_Inr_iff)
  obtain e where e: "eventFromRow E row = Inr e" "fld e ''globalSequence'' = num n" "fld e ''previousLedgerDigest'' = JStr d"
    "st1 = (raw_string (fld e ''eventDigest''), n + 1)" by (rule checkEvent_Inr [OF st1])
  from Cons.IH rest e(4) obtain es where "emap (eventFromRow E) rows = Inr es" "chained (raw_string (fld e ''eventDigest'')) (n + 1) es"
    "st = (head_digest (raw_string (fld e ''eventDigest'')) es, n + 1 + int (length es))" by blast
  with e show ?case by (intro exI [of _ "e # es"]) simp
qed simp

text \<open>C15: When the integrity check accepts a store, whoever wrote it, the stored events are readable,
form a chain from the genesis digest with the sequence numbers 1, 2, 3, each carries the digest of
its own content, and there are as many receipts as events.\<close>

theorem integrity_check_is_sound:
  assumes "fld (verifyLedgerIntegrity E msg s) ''ok'' = JBool True"
  shows "\<exists>events. emap (eventFromRow E) (eventsInOrder s) = Inr events \<and> chained (LEDGER_GENESIS_DIGEST E) 1 events
     \<and> list_all (\<lambda>e. fld e ''eventDigest'' = JStr (digestFor E EPISTEMIC_LEDGER_EVENT_SCHEMA e [''eventDigest''])) events
     \<and> length (receipt_rows s) = length events
     \<and> fld (verifyLedgerIntegrity E msg s) ''headDigest'' = JStr (head_digest (LEDGER_GENESIS_DIGEST E) events)"
proof -
  obtain v where v: "integrityCheck E s = Inr v" using assms by (cases "integrityCheck E s") (auto simp: verifyLedgerIntegrity_def caught_def)
  then have w: "verifyLedgerIntegrity E msg s = v" by (simp add: verifyLedgerIntegrity_def caught_def)
  obtain cs final where f: "efold (checkEvent E s cs) (eventsInOrder s) (LEDGER_GENESIS_DIGEST E, 1) = Inr final"
    and len: "length (receipt_rows s) = length (event_rows s)" and h: "fld v ''headDigest'' = JStr (fst final)"
    using v unfolding integrityCheck_def by (auto simp: ebind_Inr_iff split: if_splits)
  from checkEvents_chain [OF f] obtain es where es: "emap (eventFromRow E) (eventsInOrder s) = Inr es" "chained (LEDGER_GENESIS_DIGEST E) 1 es"
    "final = (head_digest (LEDGER_GENESIS_DIGEST E) es, 1 + int (length es))" by blast
  have "length es = length (event_rows s)" using es(1) by (auto simp: emap_Inr_iff eventsInOrder_def dest: list_all2_lengthD)
  moreover have "list_all (\<lambda>e. fld e ''eventDigest'' = JStr (digestFor E EPISTEMIC_LEDGER_EVENT_SCHEMA e [''eventDigest''])) es"
    unfolding list_all_iff
  proof (rule emap_all [OF es(1)])
    fix row e assume "eventFromRow E row = Inr e"
    then have "validateEpistemicLedgerEvent E e = Inr True" by (auto simp: eventFromRow_def ebind_Inr_iff dest: validators_True split: if_splits)
    then show "fld e ''eventDigest'' = JStr (digestFor E EPISTEMIC_LEDGER_EVENT_SCHEMA e [''eventDigest''])"
      by (auto simp: validateEpistemicLedgerEvent_def ebind_Inr_iff split: if_splits)
  qed
  ultimately show ?thesis using es h w len by auto
qed

text \<open>C19: Normalising an append intent twice gives a fixed point of the normalisation, and the digest
of an intent is the same after the first and the second step.\<close>

theorem intents_normalise_in_two_steps:
  assumes "normalizeLedgerAppendIntent E x = Inr a"
  shows "\<exists>b. normalizeLedgerAppendIntent E a = Inr b \<and> normalizeLedgerAppendIntent E b = Inr b
     \<and> ledgerAppendIntentDigest E a = ledgerAppendIntentDigest E b"
proof -
  note t = normalize_twice [OF assms]
  have "normalizeLedgerAppendIntent E (restabIntent a) = Inr (restabIntent a)"
    using normalize_shaped [OF restabIntent_fields(24) t(2)] restabIntent_twice [OF normalize_Inr(2) [OF assms]] by simp
  with t(1) show ?thesis by (auto simp: ledgerAppendIntentDigest_def)
qed

subsection \<open>A reference that changes when it is read again\<close>

text \<open>
  A label longer than 240 characters is cut after it was trimmed, so it can end in a blank that
  the next normalisation removes. A delivery reference with such a label is stored with the digest
  of its first normal form, and the integrity check recomputes the digest of the second one.
\<close>

theorem reference_labels_cut_twice:
  "\<exists>ref r r'. ledgerExactRef E ref l = Inr r \<and> ledgerExactRef E r l = Inr r' \<and> r' \<noteq> r"
proof -
  let ?a = "replicate 239 (CHR ''a'')"
  let ?ref = "\<lambda>label. JObj [(''kind'', JStr ''k''), (''id'', JStr ''i''), (''digest'', JStr ''d''), (''label'', JStr label)]"
  have sp: "\<not> is_space (CHR ''a'')" "\<not> is_space (CHR ''b'')" "is_space (CHR '' '')" by (simp_all add: is_space_def)
  have t1: "trim (?a @ '' b'') = ?a @ '' b''" by (rule trim_id) (simp add: sp numeral_eq_Suc)
  have t2: "trim (?a @ '' '') = ?a"
    by (simp add: trim_def trimEnd_def dropWhile_append3 sp numeral_eq_Suc)
  have k: "js_text (JStr ''k'') [] = ''k''" "js_text (JStr ''i'') [] = ''i''" "js_text (JStr ''d'') [] = ''d''" by (simp_all add: js_text_def trim_id is_space_def)
  have b1: "ledgerBounded (JStr (?a @ '' b'')) [] 240 = ?a @ '' ''" 
    by (simp add: ledgerBounded_def t1)
  have b2: "ledgerBounded (JStr (?a @ '' '')) [] 240 = ?a" by (simp add: ledgerBounded_def js_text_def t2)
  have r: "ledgerExactRef E (?ref x) l = Inr (?ref y)" if "ledgerBounded (JStr x) [] 240 = y" "y \<noteq> []" for x y
    using that by (simp add: ledgerExactRef_def Let_def k to_number_def isInteger_def)
  have "ledgerExactRef E (?ref (?a @ '' b'')) l = Inr (?ref (?a @ '' ''))" by (rule r [OF b1]) simp
  moreover have "ledgerExactRef E (?ref (?a @ '' '')) l = Inr (?ref ?a)" by (rule r [OF b2]) simp
  moreover have "?ref ?a \<noteq> ?ref (?a @ '' '')" by simp
  ultimately show ?thesis by (intro exI conjI)
qed
end
