(* ===== verification/Scenario.thy ===== *)
theory Scenario
  imports LifecycleRuntime AroCandidates AroRevisions
begin

section \<open>A worked scenario\<close>

text \<open>
  Concrete records on which the operations of the model are evaluated inside the kernel: a host
  whose hash is constant, a constitution with a mechanical witness and an audit that depends on
  it, a lifecycle, its revision and graph, and the evidence about that revision. The theorems at
  the end apply the properties of the development to these records, so none of them holds only
  because its hypotheses cannot.
\<close>

subsection \<open>A host\<close>

definition digest0 :: string where
  "digest0 = ''sha256:'' @ replicate 64 (CHR ''0'')"

definition E0 :: jsenv where
  "E0 = \<lparr>sha256hex = (\<lambda>_. replicate 64 (CHR ''0'')), num_text = (\<lambda>_. []), date_now = (\<lambda>_. 1),
     iso_text = (\<lambda>_. ''T''), locale_less = (\<lambda>a b. a < b)\<rparr>"

lemma sha_E0: "sha_ok E0"
  by (simp add: sha_ok_def E0_def)

lemma digest_E0 [simp]: "digestFor E0 d v om = digest0"
  by (simp add: digestFor_def E0_def digest0_def)

lemma trim_digest0 [simp]: "trim digest0 = digest0"
  using digest_trimmed [OF sha_E0] by simp

lemma digest0_nonempty [simp]: "digest0 \<noteq> []"
  by (simp add: digest0_def)

lemma stamp_E0 [simp]: "nowIso E0 JUndef = Inr ''T''"
  by (simp add: nowIso_def E0_def num_or_def)

definition ref0 :: "string \<Rightarrow> jval" where
  "ref0 i = JObj [(''kind'', JStr ''k''), (''id'', JStr i), (''digest'', JStr ''d'')]"

definition sealedRef :: "string \<Rightarrow> string \<Rightarrow> jval" where
  "sealedRef k i = JObj [(''kind'', JStr k), (''id'', JStr i), (''digest'', JStr digest0)]"

lemma strict_eq_num [simp]: "strict_eq (num i) (num j) \<longleftrightarrow> i = j"
  by (auto simp: strict_eq_def num_def)

lemma short_words [simp]:
  "trim [c] = (if is_space c then [] else [c])"
  by (simp add: trim_def trimEnd_def)

lemma trim_kinds [simp]:
  "trim ''artifact_revision'' = ''artifact_revision''"
  "trim ''artifact_type_constitution'' = ''artifact_type_constitution''"
  "trim ''artifact_lifecycle_instance'' = ''artifact_lifecycle_instance''"
  "trim ''artifact_assurance_graph'' = ''artifact_assurance_graph''"
  "trim ''artifact_gate_decision'' = ''artifact_gate_decision''"
  "trim ''artifact_mechanical_witness_join'' = ''artifact_mechanical_witness_join''"
  "trim ''artifact_audit_assessment'' = ''artifact_audit_assessment''"
  "trim ''user_world'' = ''user_world''"
  by (simp_all add: trim_id is_space_def)

lemma exactRef_ref0: "trim i = i \<Longrightarrow> i \<noteq> [] \<Longrightarrow> exactRef (ref0 i) l = Inr (ref0 i)"
  by (simp add: exactRef_def ref0_def Let_def is_space_def)

lemma exactRef_sealedRef:
  "trim k = k \<Longrightarrow> k \<noteq> [] \<Longrightarrow> trim i = i \<Longrightarrow> i \<noteq> [] \<Longrightarrow> exactRef (sealedRef k i) l = Inr (sealedRef k i)"
  by (simp add: exactRef_def sealedRef_def Let_def)

lemma ref_matches [simp]:
  "exactRefMatches (ref0 i) (ref0 j) = (i = j)" "exactRefMatches (sealedRef k i) (sealedRef k' j) = (k = k' \<and> i = j)"
  by (auto simp: exactRefMatches_def ref0_def sealedRef_def)

lemma ref_truthy [simp]: "truthy (ref0 i)" "truthy (sealedRef k i)"
  by (simp_all add: ref0_def sealedRef_def)

subsection \<open>A constitution with one mechanical witness and one audit that depends on it\<close>

definition witnessReq :: jval where
  "witnessReq = JObj [(''schema'', JStr ARTIFACT_AUDIT_REQUIREMENT_SCHEMA), (''requirementId'', JStr ''m''),
     (''requirementKind'', JStr ''mechanical_witness''), (''required'', JBool True),
     (''dependencyRequirementIds'', JArr [])]"

definition auditReq :: jval where
  "auditReq = JObj [(''schema'', JStr ARTIFACT_AUDIT_REQUIREMENT_SCHEMA), (''requirementId'', JStr ''a''),
     (''requirementKind'', JStr ''semantic_audit''), (''auditType'', JStr ''s''), (''required'', JBool True),
     (''dependencyRequirementIds'', JArr [JStr ''m''])]"

definition scope0 :: jval where
  "scope0 = JObj [(''kind'', JStr ''user_world''), (''userWorldId'', JStr ''user_world_local''),
     (''projectId'', JStr []), (''taskType'', JStr []), (''workThreadId'', JStr []),
     (''artifactLifecycleId'', JStr [])]"

definition exConstitution :: jval where
  "exConstitution = JObj [(''schema'', JStr ARTIFACT_TYPE_CONSTITUTION_SCHEMA),
     (''artifactTypeConstitutionId'', JStr ''c''), (''artifactTypeId'', JStr ''t''), (''revision'', num 1),
     (''canonical'', JBool True), (''activationEligible'', JBool True), (''grantsAuthority'', JBool False),
     (''rawChainOfThoughtIncluded'', JBool False), (''rawSecretIncluded'', JBool False),
     (''assuranceRoots'', JArr [JObj [(''rootKind'', JStr ''authorized_human''), (''rootRef'', ref0 ''r'')]]),
     (''semanticScope'', scope0),
     (''constitutionAdmissionReceiptRef'', ref0 ''r''), (''admissionAuthorityRef'', ref0 ''r''),
     (''assuranceRootPolicyRef'', ref0 ''r''), (''requiredMechanicalWitnesses'', JArr [witnessReq]),
     (''requiredSemanticAudits'', JArr [auditReq]), (''conditionalAuditRules'', JArr []),
     (''auditorIndependenceRuleRef'', ref0 ''i''),
     (''digest'', JStr digest0)]"

lemma scope0_normal [simp]: "normalizeScope scope0 = Inr scope0"
  by (simp add: normalizeScope_def scope0_def scope_kinds_def project_scope_kinds_def)

lemma requirements0 [simp]: "assertAcyclicRequirements E [witnessReq, auditReq] = Inr True"
  by (simp add: assertAcyclicRequirements_def assertUniqueRequirementIds_def witnessReq_def auditReq_def getp_def
   nullish_def Let_def eforeach_def checkDependencies_def visit.simps one_of_def REQUIREMENT_KINDS_def)

lemma exConstitution_valid [simp]: "validateArtifactTypeConstitution E0 exConstitution = Inr True"
  by (simp add: validateArtifactTypeConstitution_def validateArtifact_def exConstitution_def exactRef_ref0
    eforeach_def allRequirements_def normalizeAssuranceRoot_def ASSURANCE_ROOT_KINDS_def is_space_def
    js_text_JStr trim_id Let_def)

lemma exConstitution_ref [simp]:
  "artifactTypeConstitutionRef E0 exConstitution = Inr (sealedRef ''artifact_type_constitution'' ''c'')"
  by (simp add: artifactTypeConstitutionRef_def) (simp add: exConstitution_def scope0_def artifactExactRef_def
    exactRef_def sealedRef_def Let_def is_space_def)


lemma exConstitution_fields [simp]:
  "fld exConstitution ''admissionAuthorityRef'' = ref0 ''r''" "fld exConstitution ''semanticScope'' = scope0"
  "fld exConstitution ''revision'' = num 1" "fld exConstitution ''auditorIndependenceRuleRef'' = ref0 ''i''"
  "fld exConstitution ''conditionalAuditRules'' = JArr []"
  by (simp_all add: exConstitution_def)

subsection \<open>A lifecycle, its revision and its graph\<close>

definition exLifecycle :: "string \<Rightarrow> jval" where
  "exLifecycle state = JObj [(''schema'', JStr ARTIFACT_LIFECYCLE_INSTANCE_SCHEMA),
     (''lifecycleInstanceRevisionId'', JStr ''l''), (''lifecycleId'', JStr ''L''), (''lifecycleRevision'', num 1),
     (''state'', JStr state), (''terminal'', JBool (state \<in> set TERMINAL_LIFECYCLE_STATES)),
     (''canonicalAdmissionEffect'', JBool (state = ''admitted'')),
     (''producerAssignmentRef'', ref0 ''p''), (''currentArtifactRevisionRef'', ref0 ''v''),
     (''gateDecisionRef'', ref0 ''g''),
     (''artifactTypeConstitutionRef'', sealedRef ''artifact_type_constitution'' ''c''),
     (''assuranceGraphRef'', ref0 ''g''), (''requestRef'', ref0 ''q''), (''subjectScope'', scope0),
     (''remandCount'', num 0), (''budgetUsage'', JObj [(''attempts'', num 0), (''remands'', num 0)]),
     (''digest'', JStr digest0)]"

lemma exLifecycle_valid [simp]:
  "state \<in> set LIFECYCLE_STATES \<Longrightarrow> validateArtifactLifecycleInstance E0 (exLifecycle state) = Inr True"
  by (auto simp: validateArtifactLifecycleInstance_def validateArtifact_def exLifecycle_def exactRef_ref0
    exactRef_sealedRef js_text_JStr is_space_def detail_text_def)

lemma exLifecycle_ref [simp]:
  "state \<in> set LIFECYCLE_STATES \<Longrightarrow>
     artifactLifecycleInstanceRef E0 (exLifecycle state) = Inr (sealedRef ''artifact_lifecycle_instance'' ''l'')"
  by (simp add: artifactLifecycleInstanceRef_def) (simp add: exLifecycle_def scope0_def artifactExactRef_def
    exactRef_def sealedRef_def Let_def is_space_def)

lemma exLifecycle_fields [simp]:
  "fld (exLifecycle state) ''subjectScope'' = scope0" "fld (exLifecycle state) ''remandCount'' = num 0"
  "fld (exLifecycle state) ''state'' = JStr state" "fld (exLifecycle state) ''lifecycleId'' = JStr ''L''"
  "fld (exLifecycle state) ''lifecycleRevision'' = num 1"
  "fld (exLifecycle state) ''budgetUsage'' = JObj [(''attempts'', num 0), (''remands'', num 0)]"
  "fld (exLifecycle state) ''artifactTypeConstitutionRef'' = sealedRef ''artifact_type_constitution'' ''c''"
  "fld (exLifecycle state) ''requestRef'' = ref0 ''q''" "fld (exLifecycle state) ''assuranceGraphRef'' = ref0 ''g''"
  "fld (exLifecycle state) ''producerAssignmentRef'' = ref0 ''p''"
  "fld (exLifecycle state) ''currentArtifactRevisionRef'' = ref0 ''v''"
  "fld (exLifecycle state) ''gateDecisionRef'' = ref0 ''g''"
  by (simp_all add: exLifecycle_def)

definition exRevision :: jval where
  "exRevision = JObj [(''schema'', JStr ARTIFACT_REVISION_SCHEMA), (''artifactRevisionId'', JStr ''v''),
     (''artifactId'', JStr ''x''), (''lifecycleId'', JStr ''L''), (''revision'', num 1),
     (''artifactContentRef'', ref0 ''y''), (''artifactDigest'', JStr ''d''), (''immutable'', JBool True),
     (''canonical'', JBool False), (''canonicalEffect'', JBool False), (''lifecycleRef'', ref0 ''l''),
     (''artifactTypeConstitutionRef'', ref0 ''c''), (''producerAssignmentRef'', ref0 ''p''),
     (''digest'', JStr digest0)]"

lemma exRevision_valid [simp]: "validateArtifactRevision E0 exRevision = Inr True"
  by (simp add: validateArtifactRevision_def validateArtifact_def exRevision_def exactRef_ref0 js_text_JStr
    is_space_def) (simp add: ref0_def)

lemma exRevision_ref [simp]: "artifactRevisionRefFor E0 exRevision = Inr (sealedRef ''artifact_revision'' ''v'')"
  by (simp add: artifactRevisionRefFor_def) (simp add: exRevision_def ref0_def artifactExactRef_def
    exactRef_def sealedRef_def Let_def is_space_def)

definition exNode :: "string \<Rightarrow> jval \<Rightarrow> jval" where
  "exNode kind requirement = JObj [(''nodeId'', fld requirement ''requirementId''), (''requirementKind'', JStr kind),
     (''required'', JBool True), (''active'', JBool True), (''state'', JStr ''pending''),
     (''dependencyNodeIds'', fld requirement ''dependencyRequirementIds''),
     (''artifactRevisionRef'', sealedRef ''artifact_revision'' ''v''), (''requirement'', requirement)]"

definition exGraph :: jval where
  "exGraph = JObj [(''schema'', JStr ARTIFACT_ASSURANCE_GRAPH_SCHEMA), (''assuranceGraphId'', JStr ''g''),
     (''lifecycleId'', JStr ''L''), (''graphRevision'', num 1), (''rootPolicyApplied'', JBool True),
     (''cycleFree'', JBool True), (''canonicalEffect'', JBool False), (''joinState'', JStr ''pending''),
     (''artifactRevisionRef'', sealedRef ''artifact_revision'' ''v''),
     (''nodes'', JArr [exNode ''mechanical_witness'' witnessReq, exNode ''semantic_audit'' auditReq]),
     (''conditionalEvaluations'', JArr []), (''digest'', JStr digest0)]"

lemma exNode_fields [simp]:
  "fld (exNode kind requirement) ''nodeId'' = fld requirement ''requirementId''"
  "fld (exNode kind requirement) ''requirementKind'' = JStr kind"
  "fld (exNode kind requirement) ''required'' = JBool True" "fld (exNode kind requirement) ''active'' = JBool True"
  "fld (exNode kind requirement) ''state'' = JStr ''pending''"
  "fld (exNode kind requirement) ''dependencyNodeIds'' = fld requirement ''dependencyRequirementIds''"
  "fld (exNode kind requirement) ''artifactRevisionRef'' = sealedRef ''artifact_revision'' ''v''"
  "fld (exNode kind requirement) ''requirement'' = requirement" "\<not> nullish (exNode kind requirement)"
  by (simp_all add: exNode_def)

lemma requirement_fields [simp]:
  "fld witnessReq ''requirementId'' = JStr ''m''" "fld auditReq ''requirementId'' = JStr ''a''"
  "fld witnessReq ''dependencyRequirementIds'' = JArr []" "fld auditReq ''dependencyRequirementIds'' = JArr [JStr ''m'']"
  "fld auditReq ''auditType'' = JStr ''s''"
  by (simp_all add: witnessReq_def auditReq_def)

lemma exGraph_fields [simp]:
  "fld exGraph ''nodes'' = JArr [exNode ''mechanical_witness'' witnessReq, exNode ''semantic_audit'' auditReq]"
  "fld exGraph ''artifactRevisionRef'' = sealedRef ''artifact_revision'' ''v''"
  "fld exGraph ''conditionalEvaluations'' = JArr []" "fld exGraph ''graphRevision'' = num 1"
  "fld exGraph ''joinState'' = JStr ''pending''" "fld exGraph ''lifecycleId'' = JStr ''L''"
  by (simp_all add: exGraph_def)

lemma exGraph_valid [simp]: "validateAssuranceGraph E0 exGraph = Inr True"
  by (simp add: validateAssuranceGraph_def validateArtifact_def eforeach_def validateAssuranceNode_def getp_def
    REQUIREMENT_KINDS_def REQUIREMENT_STATES_def join_states_def is_space_def js_text_JStr)
   (simp add: exGraph_def is_space_def)

lemma exGraph_ref [simp]:
  "\<not> truthy p \<Longrightarrow> assuranceGraphRef E0 exGraph p = Inr (sealedRef ''artifact_assurance_graph'' ''g'')"
  by (simp add: assuranceGraphRef_def) (simp add: exGraph_def artifactExactRef_def
    exactRef_def sealedRef_def Let_def is_space_def)

subsection \<open>Evidence\<close>

definition exWitness :: jval where
  "exWitness = JObj [(''schema'', JStr ARTIFACT_MECHANICAL_WITNESS_JOIN_SCHEMA),
     (''mechanicalWitnessJoinId'', JStr ''w''), (''requirementId'', JStr ''m''), (''state'', JStr ''supported''),
     (''mechanicallyAuthored'', JBool True), (''semanticTruthClaimed'', JBool False),
     (''canonicalEffect'', JBool False), (''evidenceRefs'', JArr [ref0 ''e'']),
     (''artifactRevisionRef'', sealedRef ''artifact_revision'' ''v''), (''digest'', JStr digest0)]"

definition exAssessment :: "string \<Rightarrow> jval" where
  "exAssessment verdict = JObj [(''schema'', JStr ARTIFACT_AUDIT_ASSESSMENT_SCHEMA),
     (''auditAssessmentId'', JStr ''b''), (''requirementId'', JStr ''a''), (''verdict'', JStr verdict),
     (''exactRevisionAssessed'', JBool True), (''canonical'', JBool False), (''canonicalEffect'', JBool False),
     (''remandObligations'', JArr [JStr ''o'']), (''artifactRevisionRef'', sealedRef ''artifact_revision'' ''v''),
     (''auditAssignmentRef'', ref0 ''n''), (''digest'', JStr digest0)]"

lemma evidence_valid [simp]:
  "validateMechanicalWitnessJoin E0 exWitness = Inr True"
  "verdict \<in> set AUDIT_VERDICTS \<Longrightarrow> validateAuditAssessment E0 (exAssessment verdict) = Inr True"
  by (simp_all add: validateMechanicalWitnessJoin_def validateAuditAssessment_def validateArtifact_def exWitness_def
    exAssessment_def exactRef_sealedRef exactRef_ref0 js_text_JStr is_space_def REQUIREMENT_STATES_def js_length_def)

lemma evidence_fields [simp]:
  "fld exWitness ''requirementId'' = JStr ''m''" "fld exWitness ''state'' = JStr ''supported''"
  "fld exWitness ''artifactRevisionRef'' = sealedRef ''artifact_revision'' ''v''"
  "fld exWitness ''mechanicalWitnessJoinId'' = JStr ''w''" "fld exWitness ''digest'' = JStr digest0"
  "fld (exAssessment verdict) ''requirementId'' = JStr ''a''" "fld (exAssessment verdict) ''verdict'' = JStr verdict"
  "fld (exAssessment verdict) ''artifactRevisionRef'' = sealedRef ''artifact_revision'' ''v''"
  "fld (exAssessment verdict) ''remandObligations'' = JArr [JStr ''o'']"
  by (simp_all add: exWitness_def exAssessment_def)

lemma exAssessment_ref [simp]:
  "verdict \<in> set AUDIT_VERDICTS \<Longrightarrow> \<not> truthy p \<Longrightarrow>
   auditAssessmentRef E0 (exAssessment verdict) p = Inr (sealedRef ''artifact_audit_assessment'' ''b'')"
  by (simp add: auditAssessmentRef_def) (simp add: exAssessment_def artifactExactRef_def
    exactRef_def sealedRef_def Let_def is_space_def)

definition exEvaluation :: "jval list \<Rightarrow> jval" where
  "exEvaluation assessments = JObj [(''constitution'', exConstitution), (''lifecycle'', exLifecycle ''under_audit''),
     (''artifactRevision'', exRevision), (''assuranceGraph'', exGraph),
     (''mechanicalWitnesses'', JArr [exWitness]), (''auditAssessments'', JArr assessments),
     (''authorityResolvable'', JBool True)]"

lemma stamped_E0 [simp]:
  "fld input ''now'' = JUndef \<Longrightarrow> fld input ''createdAt'' = JUndef \<Longrightarrow> stamped E0 input = Inr (JStr ''T'')"
  by (simp add: stamped_def)

lemma exLatest:
  "latestByRequirement (JArr [exWitness]) (sealedRef ''artifact_revision'' ''v'') (validateMechanicalWitnessJoin E0)
     = Inr [(JStr ''m'', exWitness)]"
  "verdict \<in> set AUDIT_VERDICTS \<Longrightarrow>
     latestByRequirement (JArr [exAssessment verdict]) (sealedRef ''artifact_revision'' ''v'') (validateAuditAssessment E0)
     = Inr [(JStr ''a'', exAssessment verdict)]"
  by (simp_all add: latestByRequirement_def)

lemma exSettled: "settleGraph E0 (exEvaluation [exAssessment ''supported'']) (exLifecycle ''under_audit'')
   [(JStr ''m'', exWitness)] [(JStr ''a'', exAssessment ''supported'')]
   = Inr \<lparr>nodeStates = [(''m'', JStr ''supported''), (''a'', JStr ''supported'')], blockerCodes = [], remandAssessmentRefs = []\<rparr>"
  by (simp add: settleGraph_def exEvaluation_def settleNode_def Let_def assign_prop_def reason_def
    conditionalBlockers_def dependencyBlockers_def nodeSupported_def remandBlockers_def)

definition ident0 :: "string \<Rightarrow> string" where
  "ident0 p = p @ ''_'' @ replicate 24 (CHR ''0'')"

lemma stableId_E0 [simp]: "stableId E0 p v = ident0 p"
  by (simp add: stableId_def digest0_def ident0_def)

lemma ident0_text [simp]: "p \<noteq> [] \<Longrightarrow> \<not> is_space (hd p) \<Longrightarrow> trim (ident0 p) = ident0 p" "ident0 p \<noteq> []"
  by (simp_all add: ident0_def trim_id numeral_eq_Suc is_space_def)

text \<open>Evaluating a builder: the record it seals is read field by field.\<close>

lemmas sealed_eval = fld_artifact validateArtifact_def map_add_def is_space_def

lemma getp_set_fld [simp]: "getp (set_fld k x v) k' = Inr (if k' = k then x else fld v k')"
  by (simp add: getp_def nullish_def set_fld_def) (metis fld_set_fld set_fld_def)

lemma exRevisedGraph_valid:
  assumes "trim ident = ident" "ident \<noteq> []"
  shows "validateAssuranceGraph E0 (artifact E0 ARTIFACT_ASSURANCE_GRAPH_SCHEMA ''assuranceGraphId'' ident
     (filter (\<lambda>(k, x). k \<noteq> ''assuranceGraphId'' \<and> k \<noteq> ''digest'') (JsValue.fields exGraph) @
               [(''graphRevision'', num 2),
                (''predecessorRef'', sealedRef ''artifact_assurance_graph'' ''g''),
                (''nodes'', JArr [set_fld ''state'' (JStr ''supported'') (exNode ''mechanical_witness'' witnessReq),
                   set_fld ''state'' (JStr ''supported'') (exNode ''semantic_audit'' auditReq)]),
                (''joinState'', JStr ''supported''),
                (''canonicalEffect'', JBool False),
                (''createdAt'', JStr ''T'')])) = Inr True"
  using assms by (simp add: validateAssuranceGraph_def sealed_eval exGraph_def join_states_def
    eforeach_def validateAssuranceNode_def REQUIREMENT_KINDS_def REQUIREMENT_STATES_def)


lemma artifact_ref:
  assumes "idField \<notin> fst ` set body" "idField \<noteq> ''digest''" "trim ident = ident" "ident \<noteq> []"
    "trim kind = kind" "kind \<noteq> []" "\<not> truthy p"
  shows "artifactExactRef kind (artifact E0 schema idField ident body) idField p = Inr (sealedRef kind ident)"
proof -
  have "map_of (rev body) idField = None" using assms(1) by (simp add: map_of_eq_None_iff)
  moreover have "\<not> nullish (artifact E0 schema idField ident body)"
    by (metis isPlainObject_artifact isPlainObject_simps(2,3) nullish_def)
  ultimately show ?thesis using assms
    by (simp add: artifactExactRef_def getp_def fld_artifact exactRef_def Let_def sealedRef_def)
qed

lemma exRevisedGraph_ref:
  assumes "trim ident = ident" "ident \<noteq> []"
  shows "assuranceGraphRef E0 (artifact E0 ARTIFACT_ASSURANCE_GRAPH_SCHEMA ''assuranceGraphId'' ident
     (filter (\<lambda>(k, x). k \<noteq> ''assuranceGraphId'' \<and> k \<noteq> ''digest'') (JsValue.fields exGraph) @
               [(''graphRevision'', num 2),
                (''predecessorRef'', sealedRef ''artifact_assurance_graph'' ''g''),
                (''nodes'', JArr [set_fld ''state'' (JStr ''supported'') (exNode ''mechanical_witness'' witnessReq),
                   set_fld ''state'' (JStr ''supported'') (exNode ''semantic_audit'' auditReq)]),
                (''joinState'', JStr ''supported''),
                (''canonicalEffect'', JBool False),
                (''createdAt'', JStr ''T'')])) (JStr []) = Inr (sealedRef ''artifact_assurance_graph'' ident)"
  unfolding assuranceGraphRef_def exRevisedGraph_valid [OF assms] ebind_simps
  by (rule artifact_ref) (use assms in auto)

lemma exRevisedGraph:
  "\<exists>g. reviseAssuranceGraph E0 exGraph (JObj [
         (''nodeStates'', JObj [(''m'', JStr ''supported''), (''a'', JStr ''supported'')]),
         (''joinState'', JStr ''supported''),
         (''now'', JUndef), (''createdAt'', JUndef)]) = Inr g
     \<and> assuranceGraphRef E0 g (JStr []) = Inr (sealedRef ''artifact_assurance_graph'' (ident0 ''wm_artifact_assurance_graph''))"
  by (simp add: reviseAssuranceGraph_def Let_def object_entries_def own_entries_def is_index_def is_digit_def
    reviseNode_def getp_def REQUIREMENT_STATES_def eforeach_def is_space_def join_states_def raw_string_def
    exRevisedGraph_valid exRevisedGraph_ref)

lemma scope0_project [simp]: "getp scope0 ''projectId'' = Inr (JStr [])" "fld scope0 ''projectId'' = JStr []"
  by (simp_all add: scope0_def)

lemma exGate:
  assumes "trim gid = gid" "gid \<noteq> []" "assuranceSupported v" "decisionState v = ''gate_ready''"
    "uniqueBlockers v = []" "escalationReasons v = []"
  shows "\<exists>d. evaluatedGate E0 (exEvaluation assessments) exConstitution (exLifecycle ''under_audit'')
     (sealedRef ''artifact_lifecycle_instance'' ''l'') (sealedRef ''artifact_revision'' ''v'')
     (sealedRef ''artifact_assurance_graph'' gid) v = Inr d
   \<and> artifactGateDecisionRef E0 d (JStr []) = Inr (sealedRef ''artifact_gate_decision'' (ident0 ''wm_artifact_gate_decision''))
   \<and> (\<exists>c. buildAdmissionReceiptCandidate E0 (JObj [(''gateDecision'', d), (''expectedCanonicalRevisionRefs'', JUndef),
       (''now'', JUndef), (''createdAt'', JUndef)]) = Inr c)"
  using assms
  apply (simp add: evaluatedGate_def buildArtifactGateDecision_def exEvaluation_def GATE_DECISION_STATES_def
     exactRef_sealedRef exactRef_ref0 Let_def strings_def stringList_def is_space_def validateArtifactGateDecision_def
     sealed_eval js_text_JStr artifactGateDecisionRef_def js_length_def bounded_def artifact_ref
     buildAdmissionReceiptCandidate_def uniqueRefs_def validateAdmissionReceiptCandidate_def)
  done

lemma trim_under [simp]: "trim ''under_audit'' = ''under_audit''" by (simp add: trim_id is_space_def)

lemma JNum_numeral [simp]: "JNum (Fin (numeral k)) = num (numeral k)" "JNum (Fin 1) = num 1" "JNum (Fin 0) = num 0"
  by (simp_all add: num_def)

lemma scope0_same [simp]: "sameScope scope0 scope0 = Inr True"
  by (simp add: sameScope_def) (simp add: scope0_def)

lemma lcf: "''under_audit'' \<in> set LIFECYCLE_STATES" "''under_audit'' \<notin> set TERMINAL_LIFECYCLE_STATES"
  "''gate_ready'' \<in> set LIFECYCLE_STATES" "''gate_ready'' \<notin> set TERMINAL_LIFECYCLE_STATES"
  by (simp_all add: LIFECYCLE_STATES_def TERMINAL_LIFECYCLE_STATES_def)
lemma counts: "count_field E0 (num 0) = num 0" "count_field E0 JUndef = num 0"
  by (simp_all add: count_field_def num_max0_def num_or_def)


definition exReady :: "string \<Rightarrow> string \<Rightarrow> string \<Rightarrow> string \<Rightarrow> jval" where
  "exReady state ident gid did = artifact E0 ARTIFACT_LIFECYCLE_INSTANCE_SCHEMA ''lifecycleInstanceRevisionId'' ident
       [(''lifecycleId'', JStr ''L''),
        (''lifecycleRevision'', num 2),
        (''predecessorRef'', sealedRef ''artifact_lifecycle_instance'' ''l''),
        (''artifactTypeConstitutionRef'', sealedRef ''artifact_type_constitution'' ''c''),
        (''pinnedConstitutionRevision'', num 1),
        (''requestRef'', ref0 ''q''),
        (''subjectScope'', scope0),
        (''producerAssignmentRef'', ref0 ''p''),
        (''currentArtifactRevisionRef'', ref0 ''v''),
        (''assuranceGraphRef'', sealedRef ''artifact_assurance_graph'' gid),
        (''gateDecisionRef'', sealedRef ''artifact_gate_decision'' did),
        (''state'', JStr state),
        (''remandCount'', num 0),
        (''budgetUsage'', JObj [(''attempts'', num 0), (''remands'', num 0), (''audits'', num 0)]),
        (''terminal'', JBool False), (''canonicalAdmissionEffect'', JBool False), (''createdAt'', JStr ''T'')]"

lemma exReady_fields:
  "fld (exReady state ident gid did) ''schema'' = JStr ARTIFACT_LIFECYCLE_INSTANCE_SCHEMA"
  "fld (exReady state ident gid did) ''lifecycleInstanceRevisionId'' = JStr ident"
  "fld (exReady state ident gid did) ''digest'' = JStr digest0"
  "fld (exReady state ident gid did) ''lifecycleId'' = JStr ''L''"
  "fld (exReady state ident gid did) ''lifecycleRevision'' = num 2"
  "fld (exReady state ident gid did) ''predecessorRef'' = sealedRef ''artifact_lifecycle_instance'' ''l''"
  "fld (exReady state ident gid did) ''artifactTypeConstitutionRef'' = sealedRef ''artifact_type_constitution'' ''c''"
  "fld (exReady state ident gid did) ''subjectScope'' = scope0"
  "fld (exReady state ident gid did) ''producerAssignmentRef'' = ref0 ''p''"
  "fld (exReady state ident gid did) ''currentArtifactRevisionRef'' = ref0 ''v''"
  "fld (exReady state ident gid did) ''assuranceGraphRef'' = sealedRef ''artifact_assurance_graph'' gid"
  "fld (exReady state ident gid did) ''gateDecisionRef'' = sealedRef ''artifact_gate_decision'' did"
  "fld (exReady state ident gid did) ''state'' = JStr state"
  "fld (exReady state ident gid did) ''terminal'' = JBool False"
  "fld (exReady state ident gid did) ''canonicalAdmissionEffect'' = JBool False"
  "isPlainObject (exReady state ident gid did)"
  by (simp_all add: exReady_def fld_artifact)

lemma exReady_valid:
  assumes "trim gid = gid" "gid \<noteq> []" "trim did = did" "did \<noteq> []" "trim ident = ident" "ident \<noteq> []"
     "state \<in> set LIFECYCLE_STATES - {''admitted'', ''rejected'', ''superseded''}"
  shows "validateArtifactLifecycleInstance E0 (exReady state ident gid did) = Inr True"
  using assms by (simp add: validateArtifactLifecycleInstance_def exReady_fields validateArtifact_def is_space_def
    exactRef_sealedRef TERMINAL_LIFECYCLE_STATES_def detail_text_def)

lemma exReviseLifecycle:
  assumes "trim gid = gid" "gid \<noteq> []" "trim did = did" "did \<noteq> []"
  shows "reviseArtifactLifecycleInstance E0 (exLifecycle ''under_audit'') (evaluationUpdate (exEvaluation assessments)
     (sealedRef ''artifact_assurance_graph'' gid) (sealedRef ''artifact_gate_decision'' did) ''gate_ready'')
     = Inr (exReady ''gate_ready'' (ident0 ''wm_artifact_lifecycle_revision'') gid did)"
  using assms
  apply (simp add: reviseArtifactLifecycleInstance_def evaluationUpdate_def exEvaluation_def lcf)
  apply (simp add: buildArtifactLifecycleInstance_def revisedLifecycleInput_def own_or_def has_own_def
     exactRef_ref0 exactRef_sealedRef is_space_def optionalRef_def Let_def js_or_num js_text_JStr counts lcf)
  apply (fold exReady_def)
  using exReady_valid [OF assms, of "ident0 ''wm_artifact_lifecycle_revision''" "''gate_ready''"]
  apply (simp add: lcf is_space_def)
  done

lemma exEvaluation_fields:
  "fld (exEvaluation as) ''constitution'' = exConstitution" "fld (exEvaluation as) ''lifecycle'' = exLifecycle ''under_audit''"
  "fld (exEvaluation as) ''artifactRevision'' = exRevision" "fld (exEvaluation as) ''assuranceGraph'' = exGraph"
  "fld (exEvaluation as) ''mechanicalWitnesses'' = JArr [exWitness]" "fld (exEvaluation as) ''auditAssessments'' = JArr as"
  "fld (exEvaluation as) ''authorityResolvable'' = JBool True" "fld (exEvaluation as) ''now'' = JUndef"
  "fld (exEvaluation as) ''createdAt'' = JUndef" "fld (exEvaluation as) ''expectedCanonicalRevisionRefs'' = JUndef"
  "fld (exEvaluation as) ''remandObligations'' = JUndef" "fld (exEvaluation as) ''escalationThresholds'' = JUndef"
  "fld (exEvaluation as) ''auditDisagreement'' = JUndef" "defaulted (exEvaluation as) = Inr (exEvaluation as)"
  by (simp_all add: exEvaluation_def)

lemma exEscalation: "escalationReasonsFor E0 (exEvaluation as) (exLifecycle ''under_audit'') [] = Inr []"
  by (simp add: escalationReasonsFor_def exEvaluation_fields reason_def at_least_def threshold_def num_max0_def num_or_def)

lemma exEvaluated:
  "\<exists>out. evaluateAssurance E0 (exEvaluation [exAssessment ''supported'']) = Inr out
    \<and> fld (fld out ''lifecycle'') ''state'' = JStr ''gate_ready''"
proof -
  let ?v = "assuranceVerdict E0 exGraph [(''m'', JStr ''supported''), (''a'', JStr ''supported'')] [] [] []"
  have v: "assuranceSupported ?v" "decisionState ?v = ''gate_ready''" "uniqueBlockers ?v = []"
    "escalationReasons ?v = []" "joinState ?v = ''supported''"
    by (simp_all add: assuranceVerdict_def nodeSupported_def)
  obtain g where g: "reviseAssuranceGraph E0 exGraph (JObj [
         (''nodeStates'', JObj [(''m'', JStr ''supported''), (''a'', JStr ''supported'')]),
         (''joinState'', JStr ''supported''),
         (''now'', JUndef), (''createdAt'', JUndef)]) = Inr g"
    and gr: "assuranceGraphRef E0 g (JStr []) = Inr (sealedRef ''artifact_assurance_graph'' (ident0 ''wm_artifact_assurance_graph''))"
    using exRevisedGraph by blast
  have tg: "trim (ident0 ''wm_artifact_assurance_graph'') = ident0 ''wm_artifact_assurance_graph''" by (simp add: is_space_def)
  obtain d c where d: "evaluatedGate E0 (exEvaluation [exAssessment ''supported'']) exConstitution (exLifecycle ''under_audit'')
     (sealedRef ''artifact_lifecycle_instance'' ''l'') (sealedRef ''artifact_revision'' ''v'')
     (sealedRef ''artifact_assurance_graph'' (ident0 ''wm_artifact_assurance_graph'')) ?v = Inr d"
    and dr: "artifactGateDecisionRef E0 d (JStr []) = Inr (sealedRef ''artifact_gate_decision'' (ident0 ''wm_artifact_gate_decision''))"
    and c: "buildAdmissionReceiptCandidate E0 (JObj [(''gateDecision'', d), (''expectedCanonicalRevisionRefs'', JUndef),
       (''now'', JUndef), (''createdAt'', JUndef)]) = Inr c"
    using exGate [OF tg ident0_text(2) v(1-4)] by blast
  have l: "reviseArtifactLifecycleInstance E0 (exLifecycle ''under_audit'') (evaluationUpdate (exEvaluation [exAssessment ''supported''])
     (sealedRef ''artifact_assurance_graph'' (ident0 ''wm_artifact_assurance_graph''))
     (sealedRef ''artifact_gate_decision'' (ident0 ''wm_artifact_gate_decision'')) ''gate_ready'')
     = Inr (exReady ''gate_ready'' (ident0 ''wm_artifact_lifecycle_revision'') (ident0 ''wm_artifact_assurance_graph'') (ident0 ''wm_artifact_gate_decision''))"
    by (rule exReviseLifecycle) (simp_all add: is_space_def)
  have cf: "conflictingAuditRequirementIds E0 (JArr [exAssessment ''supported'']) (sealedRef ''artifact_revision'' ''v'') = Inr []"
    by (simp add: conflictingAuditRequirementIds_def AUDIT_VERDICTS_def addVerdict_def)
  have s: "''supported'' \<in> set AUDIT_VERDICTS" by (simp add: AUDIT_VERDICTS_def)
  have e: "evaluatedState ?v [] g = ''gate_ready''" using v(1) by (simp only: evaluatedState_ready)
  show ?thesis
    unfolding evaluateAssurance_def
    using v s by (simp add: exEvaluation_fields exLatest exSettled exEscalation cf g gr d dr c l e lcf Let_def
      exactRef_def bounded_def exReady_fields js_text_JStr is_space_def)
qed


theorem gate_opens_only_on_evidence_witness:
  "\<exists>out revisionRef. evaluateAssurance E0 (exEvaluation [exAssessment ''supported'']) = Inr out
    \<and> fld (fld out ''lifecycle'') ''state'' = JStr ''gate_ready''
    \<and> artifactRevisionRefFor E0 exRevision = Inr revisionRef
    \<and> evidenceFor (exEvaluation [exAssessment ''supported'']) revisionRef (exNode ''semantic_audit'' auditReq)
    \<and> evidenceFor (exEvaluation [exAssessment ''supported'']) revisionRef (exNode ''mechanical_witness'' witnessReq)"
proof -
  obtain out where o: "evaluateAssurance E0 (exEvaluation [exAssessment ''supported'']) = Inr out"
    "fld (fld out ''lifecycle'') ''state'' = JStr ''gate_ready''" using exEvaluated by blast
  have n: "exNode ''semantic_audit'' auditReq \<in> set (elems (fld exGraph ''nodes''))"
    "exNode ''mechanical_witness'' witnessReq \<in> set (elems (fld exGraph ''nodes''))"
    by simp_all
  have a: "truthy (fld (exNode ''semantic_audit'' auditReq) ''active'')"
    "truthy (fld (exNode ''semantic_audit'' auditReq) ''required'')"
    "truthy (fld (exNode ''mechanical_witness'' witnessReq) ''active'')"
    "truthy (fld (exNode ''mechanical_witness'' witnessReq) ''required'')" by simp_all
  obtain revisionRef where r: "artifactRevisionRefFor E0 exRevision = Inr revisionRef"
    and e: "\<forall>n\<in>set (elems (fld exGraph ''nodes'')). truthy (fld n ''active'') \<and> truthy (fld n ''required'')
      \<longrightarrow> evidenceFor (exEvaluation [exAssessment ''supported'']) revisionRef n"
    using gate_opens_only_on_evidence [OF o] unfolding exEvaluation_fields by (elim exE conjE) (rule that)
  show ?thesis
    by (rule exI, rule exI, intro conjI, rule o, rule o, rule r) (rule e [rule_format]; use n a in simp)+
qed

theorem evaluateAssurance_outputs_witness:
  "\<exists>out. evaluateAssurance E0 (exEvaluation [exAssessment ''supported'']) = Inr out
    \<and> fld (fld out ''gateDecision'') ''decisionState'' = JStr ''gate_ready''
    \<and> fld (fld out ''graph'') ''joinState'' = JStr ''supported''
    \<and> fld out ''admissionReceiptCandidate'' \<noteq> JNull
    \<and> fld (fld out ''join'') ''admitted'' = JBool False"
proof -
  obtain out where o: "evaluateAssurance E0 (exEvaluation [exAssessment ''supported'']) = Inr out"
    "fld (fld out ''lifecycle'') ''state'' = JStr ''gate_ready''" using exEvaluated by blast
  show ?thesis using evaluateAssurance_outputs [OF o(1)] o(2)
    by (elim exE conjE) (rule exI [of _ out], simp add: o(1))
qed

subsection \<open>The properties at concrete inputs\<close>

definition cyclicReqs :: "jval list" where
  "cyclicReqs = [set_fld ''dependencyRequirementIds'' (JArr [JStr ''a'']) witnessReq, auditReq]"

lemma requirement_shapes [simp]:
  "requirement_shape (set_fld ''dependencyRequirementIds'' (JArr [JStr ''a'']) witnessReq)" "requirement_shape auditReq"
  by (simp_all add: requirement_shape_def one_of_def REQUIREMENT_KINDS_def witnessReq_def auditReq_def set_fld_def)

theorem requirement_cycle_rejected_witness:
  "\<exists>detail. assertAcyclicRequirements E0 cyclicReqs = fail cycle_code detail"
proof (rule requirement_cycle_rejected)
  show "requirements_ok cyclicReqs" by (simp add: requirements_ok_def cyclicReqs_def req_id_def req_deps_def)
  have "(JStr ''m'', JStr ''a'') \<in> dep_rel cyclicReqs" "(JStr ''a'', JStr ''m'') \<in> dep_rel cyclicReqs"
    by (auto simp: dep_rel_Cons cyclicReqs_def req_id_def req_deps_def)
  then show "\<not> acyclic (dep_rel cyclicReqs)" by (meson acyclic_def trancl.intros)
qed

theorem digest_of_same_data_witness:
  "\<forall>E domain omitted. digestFor E domain (JObj [(''a'', JNull), (''b'', JArr [])]) omitted
     = digestFor E domain (JObj [(''b'', JArr []), (''a'', JNull)]) omitted"
  by (intro allI digest_of_same_data same_obj [where hs = "[(''a'', JNull), (''b'', JArr [])]"]) (auto intro: same_refl)

theorem nested_digest_not_sealed_witness:
  "validateArtifact E0 (set_fld ''artifactTypeConstitutionRef'' (set_fld ''digest'' (JStr ''forged'')
      (fld (exLifecycle ''under_audit'') ''artifactTypeConstitutionRef'')) (exLifecycle ''under_audit''))
     ARTIFACT_LIFECYCLE_INSTANCE_SCHEMA ''lifecycleInstanceRevisionId'' ''code'' = Inr True"
  by (rule nested_digest_not_sealed [where b = True])
    (simp_all add: validateArtifact_def sealedRef_def, simp_all add: exLifecycle_def is_space_def)

theorem references_normalise_once_witness:
  "uniqueRefs E0 (JArr [ref0 ''a'']) ''m'' = Inr [ref0 ''a''] \<and> exactRef (ref0 ''a'') ''m'' = Inr (ref0 ''a'')"
proof -
  have "uniqueRefs E0 (JArr [ref0 ''a'', ref0 ''a'']) ''l'' = Inr [ref0 ''a'']"
    by (simp add: uniqueRefs_def exactRef_ref0 is_space_def)
  from references_normalise_once [OF this, of "''m''"] show ?thesis by simp
qed

theorem scope_normalises_once_witness:
  "normalizeScope scope0 = Inr scope0"
  by (rule scope_normalises_once [of "JObj [(''kind'', JStr '' user_world'')]"])
    (simp add: normalizeScope_def scope0_def scope_kinds_def project_scope_kinds_def js_text_JStr trim_def trimEnd_def is_space_def)

theorem texts_are_bounded_witness:
  "length (stringList (JArr [JStr ''x'', JStr '' x'', JNull])) \<le> 64 \<and> length (bounded (JStr ''abcdef'') [] 4) \<le> 4"
  using texts_are_bounded [of 4 "JArr [JStr ''x'', JStr '' x'', JNull]" "JStr ''abcdef''" "[]"] by simp

theorem graph_revision_moves_only_states_witness:
  "\<exists>g new. reviseAssuranceGraph E0 exGraph (JObj [
         (''nodeStates'', JObj [(''m'', JStr ''supported''), (''a'', JStr ''supported'')]),
         (''joinState'', JStr ''supported''), (''now'', JUndef), (''createdAt'', JUndef)]) = Inr g
     \<and> fld g ''nodes'' = JArr new \<and> length new = 2"
proof -
  obtain g where g: "reviseAssuranceGraph E0 exGraph (JObj [
         (''nodeStates'', JObj [(''m'', JStr ''supported''), (''a'', JStr ''supported'')]),
         (''joinState'', JStr ''supported''), (''now'', JUndef), (''createdAt'', JUndef)]) = Inr g"
    using exRevisedGraph by blast
  from graph_revision_moves_only_states [OF this] obtain old new where "fld exGraph ''nodes'' = JArr old"
    "fld g ''nodes'' = JArr new" "length old = length new" by (auto dest: list_all2_lengthD)
  with g show ?thesis by auto
qed

lemma exReadyGate:
  "\<exists>d i c. buildArtifactGateDecision E0 i = Inr d \<and> fld d ''decisionState'' = JStr ''gate_ready''
     \<and> buildAdmissionReceiptCandidate E0 (JObj [(''gateDecision'', d), (''expectedCanonicalRevisionRefs'', JUndef),
       (''now'', JUndef), (''createdAt'', JUndef)]) = Inr c"
proof -
  let ?v = "\<lparr>uniqueBlockers = [], escalationReasons = [], assuranceSupported = True, joinState = ''supported'',
     decisionState = ''gate_ready''\<rparr> :: assurance_verdict"
  obtain d c where d: "evaluatedGate E0 (exEvaluation []) exConstitution (exLifecycle ''under_audit'')
     (sealedRef ''artifact_lifecycle_instance'' ''l'') (sealedRef ''artifact_revision'' ''v'')
     (sealedRef ''artifact_assurance_graph'' ''g'') ?v = Inr d"
    and c: "buildAdmissionReceiptCandidate E0 (JObj [(''gateDecision'', d), (''expectedCanonicalRevisionRefs'', JUndef),
       (''now'', JUndef), (''createdAt'', JUndef)]) = Inr c"
    using exGate [of "''g''" ?v "[]"] by (auto simp: is_space_def)
  from d obtain i where "buildArtifactGateDecision E0 i = Inr d" unfolding evaluatedGate_def by blast
  moreover have "fld d ''decisionState'' = JStr ''gate_ready''"
    using buildAdmissionReceiptCandidate_Inr [OF c] by simp
  ultimately show ?thesis using c by blast
qed

theorem admission_candidate_admits_nothing_witness:
  "\<exists>d c. buildAdmissionReceiptCandidate E0 (JObj [(''gateDecision'', d), (''expectedCanonicalRevisionRefs'', JUndef),
       (''now'', JUndef), (''createdAt'', JUndef)]) = Inr c \<and> fld c ''admitted'' = JBool False
     \<and> fld d ''decisionState'' = JStr ''gate_ready''"
proof -
  obtain d c where c: "buildAdmissionReceiptCandidate E0 (JObj [(''gateDecision'', d),
     (''expectedCanonicalRevisionRefs'', JUndef), (''now'', JUndef), (''createdAt'', JUndef)]) = Inr c"
    using exReadyGate by blast
  from admission_candidate_admits_nothing [OF this] c show ?thesis by auto
qed

theorem gate_ready_needs_no_blockers_witness:
  "\<exists>i d. buildArtifactGateDecision E0 i = Inr d \<and> fld d ''decisionState'' = JStr ''gate_ready''
     \<and> fld d ''blockerCodes'' = JArr [] \<and> fld d ''admissionAuthorized'' = JBool False"
proof -
  obtain d i where d: "buildArtifactGateDecision E0 i = Inr d" "fld d ''decisionState'' = JStr ''gate_ready''"
    using exReadyGate by blast
  from gate_ready_needs_no_blockers [OF this(1)] d show ?thesis by blast
qed

theorem gate_refuses_blockers_witness:
  "buildArtifactGateDecision E0 (JObj [(''artifactRevisionRef'', ref0 ''v''), (''targetAdmissionScope'', scope0),
     (''decisionState'', JStr ''gate_ready''), (''blockerCodes'', JArr [JStr ''b'']),
     (''assuranceSupported'', JBool True), (''authorityResolvable'', JBool True)])
   = fail ''world_manager_artifact_gate_ready_with_blockers'' []"
  by (rule gate_refuses_blockers) (simp_all add: exactRef_ref0 stringList_def is_space_def)

theorem latest_evidence_counts_witness:
  "\<exists>m. latestByRequirement (JArr [exAssessment ''supported'']) (sealedRef ''artifact_revision'' ''v'')
     (validateAuditAssessment E0) = Inr m \<and> map_of m (JStr ''a'') \<noteq> None \<and> map_of m (JStr ''b'') = None"
proof -
  have s: "''supported'' \<in> set AUDIT_VERDICTS" by (simp add: AUDIT_VERDICTS_def)
  note l = exLatest(2) [OF s]
  show ?thesis
    using l latest_evidence_counts [OF l, of "JStr ''a''"] latest_evidence_counts [OF l, of "JStr ''b''"] s
    by (auto simp: about_def)
qed

theorem disagreement_detected_witness:
  "\<exists>ids. conflictingAuditRequirementIds E0 (JArr [exAssessment ''supported'', exAssessment ''contradicted''])
     (sealedRef ''artifact_revision'' ''v'') = Inr ids \<and> JStr ''a'' \<in> set ids"
proof -
  have "conflictingAuditRequirementIds E0 (JArr [exAssessment ''supported'', exAssessment ''contradicted''])
     (sealedRef ''artifact_revision'' ''v'') = Inr [JStr ''a'']"
    by (simp add: conflictingAuditRequirementIds_def AUDIT_VERDICTS_def addVerdict_def)
  note c = this
  then show ?thesis using disagreement_detected [OF c, of "JStr ''a''"] by (auto simp: about_def)
qed

theorem graph_chain_history_witness:
  "\<exists>g. graph_step E0 exGraph g \<and> revision_number ''graphRevision'' g = 2 \<and> same_graph exGraph g"
proof -
  obtain g where "graph_step E0 exGraph g" using exRevisedGraph graph_step.intros by blast
  then have "(graph_step E0 ^^ 1) exGraph g" by (simp only: relpowp_1)
  from graph_chain_history [OF this] have "revision_number ''graphRevision'' g = revision_number ''graphRevision'' exGraph + 1 \<and> same_graph exGraph g"
    by simp
  moreover have "revision_number ''graphRevision'' exGraph = 1" by (rule revision_number_num) (simp add: exGraph_def)
  ultimately show ?thesis using \<open>graph_step E0 exGraph g\<close> by auto
qed

theorem lifecycle_chain_history_witness:
  "\<exists>w. lifecycle_step E0 (exLifecycle ''under_audit'') w \<and> revision_number ''lifecycleRevision'' w = 2
     \<and> same_lifecycle (exLifecycle ''under_audit'') w"
proof -
  have "reviseArtifactLifecycleInstance E0 (exLifecycle ''under_audit'') (evaluationUpdate (exEvaluation [])
     (sealedRef ''artifact_assurance_graph'' ''g'') (sealedRef ''artifact_gate_decision'' ''d'') ''gate_ready'')
     = Inr (exReady ''gate_ready'' (ident0 ''wm_artifact_lifecycle_revision'') ''g'' ''d'')" (is "_ = Inr ?w")
    by (rule exReviseLifecycle) (simp_all add: is_space_def)
  then have s: "lifecycle_step E0 (exLifecycle ''under_audit'') ?w" by (rule lifecycle_step.intros)
  then have "(lifecycle_step E0 ^^ 1) (exLifecycle ''under_audit'') ?w" by (simp only: relpowp_1)
  from lifecycle_chain_history [OF this] have
    "revision_number ''lifecycleRevision'' ?w = revision_number ''lifecycleRevision'' (exLifecycle ''under_audit'') + 1
       \<and> same_lifecycle (exLifecycle ''under_audit'') ?w"
    by simp
  moreover have "revision_number ''lifecycleRevision'' (exLifecycle ''under_audit'') = 1"
    by (rule revision_number_num) simp
  ultimately show ?thesis using s by auto
qed

theorem terminal_is_final_witness:
  "exLifecycle ''admitted'' = exLifecycle ''admitted'' \<and> one_of (fld (exLifecycle ''admitted'') ''state'') TERMINAL_LIFECYCLE_STATES"
  using terminal_is_final [of E0 "exLifecycle ''admitted''" "exLifecycle ''admitted''"]
  by (simp add: one_of_def TERMINAL_LIFECYCLE_STATES_def)

definition exRule :: jval where
  "exRule = JObj [(''ruleId'', JStr ''r''), (''allOf'', JArr [JObj [(''path'', JStr ''p''), (''operator'', JStr ''equals''),
     (''value'', JBool True)]])]"

theorem missing_property_never_activates_witness:
  "\<exists>e. evaluateConditionalAuditRule E0 exRule (JObj []) = Inr e \<and> fld e ''activated'' = JBool False"
proof -
  have p: "getPath (JObj []) ''p'' = None" by (simp add: getPath_def own_property_def)
  obtain e where e: "evaluateConditionalAuditRule E0 exRule (JObj []) = Inr e"
    by (simp add: evaluateConditionalAuditRule_def exRule_def evaluatePredicateClause_def p)
  show ?thesis using e missing_property_never_activates [OF e _ _ _ p, of "JObj [(''path'', JStr ''p''),
     (''operator'', JStr ''equals''), (''value'', JBool True)]"] by (simp add: exRule_def)
qed

theorem terminal_revision_refused_witness:
  "reviseArtifactLifecycleInstance E0 (exLifecycle ''rejected'') JUndef
    = fail ''world_manager_artifact_lifecycle_terminal_revision_forbidden'' ''rejected''"
  using terminal_revision_refused [of E0 "exLifecycle ''rejected''" True]
  by (simp add: one_of_def LIFECYCLE_STATES_def TERMINAL_LIFECYCLE_STATES_def detail_text_def)

lemma exConstitution_requirements [simp]: "allRequirements exConstitution = Inr [witnessReq, auditReq]"
  by (simp add: allRequirements_def exConstitution_def)

lemma requirement_kinds [simp]:
  "fld witnessReq ''requirementKind'' = JStr ''mechanical_witness''" "fld auditReq ''requirementKind'' = JStr ''semantic_audit''"
  by (simp_all add: witnessReq_def auditReq_def)

text \<open>The constitution with two conditional audits: one rule is met by the settled properties, the other
is about a property that is not settled.\<close>

definition ruleReq :: "string \<Rightarrow> jval" where
  "ruleReq i = JObj [(''schema'', JStr ARTIFACT_AUDIT_REQUIREMENT_SCHEMA), (''requirementId'', JStr i),
     (''requirementKind'', JStr ''semantic_audit''), (''auditType'', JStr ''s''), (''required'', JBool True),
     (''dependencyRequirementIds'', JArr [])]"

definition exRuleOn :: "string \<Rightarrow> string \<Rightarrow> jval" where
  "exRuleOn i path = JObj [(''ruleId'', JStr i), (''auditRequirement'', ruleReq i),
     (''allOf'', JArr [JObj [(''path'', JStr path), (''operator'', JStr ''equals''), (''expected'', JBool True)]])]"

definition exRuled :: jval where
  "exRuled = JObj [(''schema'', JStr ARTIFACT_TYPE_CONSTITUTION_SCHEMA),
     (''artifactTypeConstitutionId'', JStr ''c''), (''artifactTypeId'', JStr ''t''), (''revision'', num 1),
     (''canonical'', JBool True), (''activationEligible'', JBool True), (''grantsAuthority'', JBool False),
     (''rawChainOfThoughtIncluded'', JBool False), (''rawSecretIncluded'', JBool False),
     (''assuranceRoots'', JArr [JObj [(''rootKind'', JStr ''authorized_human''), (''rootRef'', ref0 ''r'')]]),
     (''semanticScope'', scope0),
     (''constitutionAdmissionReceiptRef'', ref0 ''r''), (''admissionAuthorityRef'', ref0 ''r''),
     (''assuranceRootPolicyRef'', ref0 ''r''), (''requiredMechanicalWitnesses'', JArr [witnessReq]),
     (''requiredSemanticAudits'', JArr []), (''conditionalAuditRules'', JArr [exRuleOn ''x'' ''p'', exRuleOn ''y'' ''q'']),
     (''auditorIndependenceRuleRef'', ref0 ''i''),
     (''digest'', JStr digest0)]"

lemma exRule_fields [simp]:
  "fld (exRuleOn i path) ''ruleId'' = JStr i" "fld (exRuleOn i path) ''auditRequirement'' = ruleReq i"
  "fld (ruleReq i) ''requirementId'' = JStr i" "fld (ruleReq i) ''requirementKind'' = JStr ''semantic_audit''"
  "fld (ruleReq i) ''dependencyRequirementIds'' = JArr []" "fld (ruleReq i) ''required'' = JBool True"
  "fld (ruleReq i) ''auditType'' = JStr ''s''" "fld (ruleReq i) ''schema'' = JStr ARTIFACT_AUDIT_REQUIREMENT_SCHEMA"
  "getp (exRuleOn i path) ''auditRequirement'' = Inr (ruleReq i)" "isPlainObject (ruleReq i)" "ruleReq i \<noteq> JUndef" "ruleReq i \<noteq> JNull"
  by (simp_all add: exRuleOn_def ruleReq_def getp_def)

lemma ruled_requirements [simp]: "allRequirements exRuled = Inr [witnessReq, ruleReq ''x'', ruleReq ''y'']"
  by (simp add: allRequirements_def exRuled_def)

lemma ruled_acyclic [simp]: "assertAcyclicRequirements E [witnessReq, ruleReq ''x'', ruleReq ''y''] = Inr True"
  by (simp add: assertAcyclicRequirements_def assertUniqueRequirementIds_def witnessReq_def getp_def
   nullish_def Let_def eforeach_def checkDependencies_def visit.simps one_of_def REQUIREMENT_KINDS_def) 

lemma exRuled_valid [simp]: "validateArtifactTypeConstitution E0 exRuled = Inr True"
proof -
  have "fld exRuled ''artifactTypeId'' = JStr ''t''" "fld exRuled ''revision'' = num 1" by (simp_all add: exRuled_def)
  show ?thesis
    unfolding validateArtifactTypeConstitution_def ruled_requirements ebind_simps ruled_acyclic
    by (simp add: validateArtifact_def exRuled_def exactRef_ref0
      eforeach_def normalizeAssuranceRoot_def ASSURANCE_ROOT_KINDS_def is_space_def
      js_text_JStr trim_id Let_def)
qed

lemma exRuled_ref [simp]:
  "artifactTypeConstitutionRef E0 exRuled = Inr (sealedRef ''artifact_type_constitution'' ''c'')"
  by (simp add: artifactTypeConstitutionRef_def) (simp add: exRuled_def scope0_def artifactExactRef_def
    exactRef_def sealedRef_def Let_def is_space_def)

definition exSettled :: jval where
  "exSettled = JObj [(''p'', JBool True)]"

definition exEvaluated :: "string \<Rightarrow> string \<Rightarrow> bool option \<Rightarrow> jval" where
  "exEvaluated i path r = JObj [(''ruleId'', JStr i), (''evaluationState'', JStr (if r = None then ''indeterminate'' else ''evaluated'')),
     (''activated'', JBool (r = Some True)), (''clauseResults'', JArr [JObj ((''clause'', JObj [(''path'', JStr path),
        (''operator'', JStr ''equals''), (''expected'', JBool True)]) # verdict_fields r)])]"

lemma exRules_evaluated [simp]:
  "evaluateConditionalAuditRule E0 (exRuleOn i ''p'') exSettled = Inr (exEvaluated i ''p'' (Some True))"
  "evaluateConditionalAuditRule E0 (exRuleOn i ''q'') exSettled = Inr (exEvaluated i ''q'' None)"
proof -
  have "getPath exSettled ''p'' = Some (JBool True)" "getPath exSettled ''q'' = None"
    by (simp_all add: getPath_def own_property_def exSettled_def)
  then show "evaluateConditionalAuditRule E0 (exRuleOn i ''p'') exSettled = Inr (exEvaluated i ''p'' (Some True))"
    "evaluateConditionalAuditRule E0 (exRuleOn i ''q'') exSettled = Inr (exEvaluated i ''q'' None)"
    by (simp_all add: evaluateConditionalAuditRule_def exRuleOn_def evaluatePredicateClause_def clauseVerdict_def exEvaluated_def
      exSettled_def [symmetric] raw_string_def strict_eq_def) (auto simp: exSettled_def)
qed

lemma exEvaluated_fields [simp]:
  "fld (exEvaluated i path r) ''ruleId'' = JStr i" "fld (exEvaluated i path r) ''activated'' = JBool (r = Some True)"
  by (simp_all add: exEvaluated_def)

definition exGraphInput :: jval where
  "exGraphInput = JObj [(''constitution'', exRuled), (''lifecycleId'', JStr ''L''), (''artifactRevision'', exRevision),
     (''settledProperties'', exSettled)]"

lemma exGraphInput_fields [simp]:
  "fld exGraphInput ''constitution'' = exRuled" "fld exGraphInput ''lifecycleId'' = JStr ''L''"
  "fld exGraphInput ''artifactRevision'' = exRevision" "fld exGraphInput ''settledProperties'' = exSettled"
  "fld exRuled ''conditionalAuditRules'' = JArr [exRuleOn ''x'' ''p'', exRuleOn ''y'' ''q'']" "truthy exSettled"
  by (simp_all add: exGraphInput_def exRuled_def exSettled_def)

lemma exBuiltGraph: "\<exists>g. buildAssuranceGraph E0 exGraphInput = Inr g"
  by (simp add: buildAssuranceGraph_def exGraphInput_def graphNode_def ruleActive_def graphEdges_def Let_def optionalRef_def
    validateAssuranceGraph_def sealed_eval join_states_def
    eforeach_def validateAssuranceNode_def REQUIREMENT_KINDS_def REQUIREMENT_STATES_def)

theorem new_graph_activation_witness:
  "\<exists>g m x y. buildAssuranceGraph E0 exGraphInput = Inr g \<and> fld g ''nodes'' = JArr [m, x, y]
     \<and> fld m ''state'' = JStr ''pending'' \<and> fld x ''state'' = JStr ''pending'' \<and> fld y ''state'' = JStr ''inactive''"
proof -
  obtain g where g: "buildAssuranceGraph E0 exGraphInput = Inr g" using exBuiltGraph by blast
  let ?rules = "[exRuleOn ''x'' ''p'', exRuleOn ''y'' ''q'']" and ?es = "[exEvaluated ''x'' ''p'' (Some True), exEvaluated ''y'' ''q'' None]"
  from new_graph_activation [OF g] obtain nodes where n: "fld g ''nodes'' = JArr nodes"
    "map (\<lambda>n. fld n ''nodeId'') nodes = [JStr ''m'', JStr ''x'', JStr ''y'']"
    and s: "\<forall>n\<in>set nodes. fld n ''state'' = (if truthy (fld n ''active'') then JStr ''pending'' else JStr ''inactive'')
        \<and> (truthy (fld n ''active'') \<longleftrightarrow> (\<forall>rule\<in>set ?rules. \<not> governs rule n)
             \<or> (\<exists>rule\<in>set ?rules. governs rule n \<and> (\<exists>(other, e)\<in>set (zip ?rules ?es).
                   fld other ''ruleId'' = fld rule ''ruleId'' \<and> truthy (fld e ''activated''))))"
    by (auto simp: js_or_def)
  from n(2) obtain m x y where m: "nodes = [m, x, y]" "fld m ''nodeId'' = JStr ''m''" "fld x ''nodeId'' = JStr ''x''" "fld y ''nodeId'' = JStr ''y''"
    by (auto simp: map_eq_Cons_conv)
  show ?thesis using g n(1) s unfolding m(1) by (intro exI [of _ g] exI [of _ m] exI [of _ x] exI [of _ y]) (simp add: governs_def m)
qed

subsection \<open>Evaluating a handler step by step\<close>

text \<open>Congruences that keep the simplifier out of the continuations of a sequence of steps.\<close>

lemma ebind_weak: "m = m' \<Longrightarrow> ebind m f = ebind m' f" by simp

lemmas lazy = ebind_weak let_weak_cong prod.case_cong_weak

lemma trim_T [simp]: "trim ''T'' = ''T''" by (simp add: is_space_def)

end
