(* ===== verification/ScenarioAro.thy ===== *)
theory ScenarioAro
  imports Scenario
begin

section \<open>A worked scenario of reasoning objects\<close>

text \<open>
  One branch, one binding, its coverage witness, the object and the candidate around them, and
  the runs of the builders, the review, the admission, the freshness revision and the comparison
  on these records; the theorems apply the properties of the ARO theories to them.
\<close>

subsection \<open>The records\<close>

definition exSrc :: "string \<Rightarrow> jval" where
  "exSrc d = JObj [(''kind'', JStr ''k''), (''id'', JStr ''s''), (''digest'', JStr d)]"

definition exB :: "jval" where
  "exB = JObj [
     (''schema'', JStr ARO_BRANCH_SCHEMA),
     (''branchId'', JStr ''b''),
     (''branchKey'', JStr ''a''),
     (''branchKind'', JStr ''semantic_requirement''),
     (''modality'', JStr ''required''),
     (''statement'', JStr ''s''),
     (''condition'', JStr []),
     (''expectedOutcome'', JStr []),
     (''semanticState'', JStr ''supported''),
     (''parentBranchRef'', JNull),
     (''provenanceRefs'', JArr []),
     (''grantsAuthority'', JBool False),
     (''digest'', JStr digest0)]"

lemma exB_fields [simp]:
  "fld exB ''schema'' = JStr ARO_BRANCH_SCHEMA"
  "fld exB ''branchId'' = JStr ''b''"
  "fld exB ''branchKey'' = JStr ''a''"
  "fld exB ''branchKind'' = JStr ''semantic_requirement''"
  "fld exB ''modality'' = JStr ''required''"
  "fld exB ''statement'' = JStr ''s''"
  "fld exB ''condition'' = JStr []"
  "fld exB ''expectedOutcome'' = JStr []"
  "fld exB ''semanticState'' = JStr ''supported''"
  "fld exB ''parentBranchRef'' = JNull"
  "fld exB ''provenanceRefs'' = JArr []"
  "fld exB ''grantsAuthority'' = JBool False"
  "fld exB ''digest'' = JStr digest0"
  "isPlainObject exB" "truthy exB" "\<not> nullish exB" "defaulted exB = Inr exB"
  by (simp_all add: exB_def)

definition exR :: "string \<Rightarrow> string \<Rightarrow> jval \<Rightarrow> jval" where
  "exR st d obs = JObj [
     (''schema'', JStr ARO_REALIZATION_BINDING_SCHEMA),
     (''realizationBindingId'', JStr ''r''),
     (''branchRef'', JObj [(''kind'', JStr ''aro_branch''), (''id'', JStr ''b''), (''digest'', JStr digest0)]),
     (''realizationKind'', JStr ''source''),
     (''locator'', JStr ''x''),
     (''sourceRef'', exSrc d),
     (''coverageState'', JStr st),
     (''evidenceRefs'', JArr []),
     (''observedRevisionRef'', obs),
     (''grantsAuthority'', JBool False),
     (''digest'', JStr digest0)]"

lemma exR_fields [simp]:
  "fld (exR st d obs) ''schema'' = JStr ARO_REALIZATION_BINDING_SCHEMA"
  "fld (exR st d obs) ''realizationBindingId'' = JStr ''r''"
  "fld (exR st d obs) ''branchRef'' = JObj [(''kind'', JStr ''aro_branch''), (''id'', JStr ''b''), (''digest'', JStr digest0)]"
  "fld (exR st d obs) ''realizationKind'' = JStr ''source''"
  "fld (exR st d obs) ''locator'' = JStr ''x''"
  "fld (exR st d obs) ''sourceRef'' = exSrc d"
  "fld (exR st d obs) ''coverageState'' = JStr st"
  "fld (exR st d obs) ''evidenceRefs'' = JArr []"
  "fld (exR st d obs) ''observedRevisionRef'' = obs"
  "fld (exR st d obs) ''grantsAuthority'' = JBool False"
  "fld (exR st d obs) ''digest'' = JStr digest0"
  "isPlainObject (exR st d obs)" "truthy (exR st d obs)" "\<not> nullish (exR st d obs)" "defaulted (exR st d obs) = Inr (exR st d obs)"
  by (simp_all add: exR_def)

definition exW :: "string \<Rightarrow> string \<Rightarrow> jval" where
  "exW st d = JObj [
     (''schema'', JStr ARO_COVERAGE_WITNESS_SCHEMA),
     (''coverageWitnessId'', JStr (ident0 ''wm_aro_coverage_witness'')),
     (''aroIdentityRef'', JObj [(''kind'', JStr ''aro_identity''), (''id'', JStr ''i''), (''digest'', JStr digest0), (''projectId'', JStr ''p'')]),
     (''branchCount'', num 1),
     (''requiredBranchCount'', num 1),
     (''realizedBranchCount'', num (if st = ''realized'' then 1 else 0)),
     (''partialBranchCount'', num 0),
     (''absentBranchRefs'', JArr []),
     (''partialBranchRefs'', JArr []),
     (''staleBindingRefs'', JArr (if st = ''stale'' then [JObj [(''kind'', JStr ''aro_realization_binding''), (''id'', JStr ''r''), (''digest'', JStr digest0)]] else [])),
     (''contradictionRefs'', JArr []),
     (''branchCoverage'', JArr [JObj [(''branchRef'', JObj [(''kind'', JStr ''aro_branch''), (''id'', JStr ''b''), (''digest'', JStr digest0)]), (''coverageState'', JStr st), (''realizationBindingRefs'', JArr [JObj [(''kind'', JStr ''aro_realization_binding''), (''id'', JStr ''r''), (''digest'', JStr digest0)]]), (''grantsAuthority'', JBool False)]]),
     (''coveragePosture'', JStr (if st = ''stale'' then ''stale'' else ''complete'')),
     (''sourceRevisionRefs'', JArr [exSrc d]),
     (''canonical'', JBool False),
     (''grantsAuthority'', JBool False),
     (''digest'', JStr digest0)]"

lemma exW_fields [simp]:
  "fld (exW st d) ''schema'' = JStr ARO_COVERAGE_WITNESS_SCHEMA"
  "fld (exW st d) ''coverageWitnessId'' = JStr (ident0 ''wm_aro_coverage_witness'')"
  "fld (exW st d) ''aroIdentityRef'' = JObj [(''kind'', JStr ''aro_identity''), (''id'', JStr ''i''), (''digest'', JStr digest0), (''projectId'', JStr ''p'')]"
  "fld (exW st d) ''branchCount'' = num 1"
  "fld (exW st d) ''requiredBranchCount'' = num 1"
  "fld (exW st d) ''realizedBranchCount'' = num (if st = ''realized'' then 1 else 0)"
  "fld (exW st d) ''partialBranchCount'' = num 0"
  "fld (exW st d) ''absentBranchRefs'' = JArr []"
  "fld (exW st d) ''partialBranchRefs'' = JArr []"
  "fld (exW st d) ''staleBindingRefs'' = JArr (if st = ''stale'' then [JObj [(''kind'', JStr ''aro_realization_binding''), (''id'', JStr ''r''), (''digest'', JStr digest0)]] else [])"
  "fld (exW st d) ''contradictionRefs'' = JArr []"
  "fld (exW st d) ''branchCoverage'' = JArr [JObj [(''branchRef'', JObj [(''kind'', JStr ''aro_branch''), (''id'', JStr ''b''), (''digest'', JStr digest0)]), (''coverageState'', JStr st), (''realizationBindingRefs'', JArr [JObj [(''kind'', JStr ''aro_realization_binding''), (''id'', JStr ''r''), (''digest'', JStr digest0)]]), (''grantsAuthority'', JBool False)]]"
  "fld (exW st d) ''coveragePosture'' = JStr (if st = ''stale'' then ''stale'' else ''complete'')"
  "fld (exW st d) ''sourceRevisionRefs'' = JArr [exSrc d]"
  "fld (exW st d) ''canonical'' = JBool False"
  "fld (exW st d) ''grantsAuthority'' = JBool False"
  "fld (exW st d) ''digest'' = JStr digest0"
  "isPlainObject (exW st d)" "truthy (exW st d)" "\<not> nullish (exW st d)" "defaulted (exW st d) = Inr (exW st d)"
  by (simp_all add: exW_def)

definition exAro :: "string \<Rightarrow> string \<Rightarrow> bool \<Rightarrow> jval \<Rightarrow> int \<Rightarrow> jval \<Rightarrow> string \<Rightarrow> string \<Rightarrow> jval \<Rightarrow> jval" where
  "exAro posture life canon adm n pred st d obs = JObj [
     (''schema'', JStr ABSTRACT_REASONING_OBJECT_SCHEMA),
     (''aroId'', JStr ''i''),
     (''aroIdentityDigest'', JStr digest0),
     (''projectId'', JStr ''p''),
     (''conceptKey'', JStr ''k''),
     (''semanticIdentity'', JStr ''k''),
     (''purpose'', JStr []),
     (''posture'', JStr posture),
     (''revision'', num n),
     (''lifecycle'', JStr life),
     (''predecessorRef'', pred),
     (''branches'', JArr [exB]),
     (''edges'', JArr []),
     (''realizationBindings'', JArr [exR st d obs]),
     (''coverageWitness'', exW st d),
     (''coverageWitnessRef'', JObj [(''kind'', JStr ''aro_coverage_witness''), (''id'', JStr (ident0 ''wm_aro_coverage_witness'')), (''digest'', JStr digest0)]),
     (''counterpartRef'', JNull),
     (''admittedFromCandidateRef'', adm),
     (''provenanceRefs'', JArr []),
     (''canonical'', JBool canon),
     (''grantsAuthority'', JBool False),
     (''createdAt'', JStr ''T''),
     (''digest'', JStr digest0)]"

lemma exAro_fields [simp]:
  "fld (exAro posture life canon adm n pred st d obs) ''schema'' = JStr ABSTRACT_REASONING_OBJECT_SCHEMA"
  "fld (exAro posture life canon adm n pred st d obs) ''aroId'' = JStr ''i''"
  "fld (exAro posture life canon adm n pred st d obs) ''aroIdentityDigest'' = JStr digest0"
  "fld (exAro posture life canon adm n pred st d obs) ''projectId'' = JStr ''p''"
  "fld (exAro posture life canon adm n pred st d obs) ''conceptKey'' = JStr ''k''"
  "fld (exAro posture life canon adm n pred st d obs) ''semanticIdentity'' = JStr ''k''"
  "fld (exAro posture life canon adm n pred st d obs) ''purpose'' = JStr []"
  "fld (exAro posture life canon adm n pred st d obs) ''posture'' = JStr posture"
  "fld (exAro posture life canon adm n pred st d obs) ''revision'' = num n"
  "fld (exAro posture life canon adm n pred st d obs) ''lifecycle'' = JStr life"
  "fld (exAro posture life canon adm n pred st d obs) ''predecessorRef'' = pred"
  "fld (exAro posture life canon adm n pred st d obs) ''branches'' = JArr [exB]"
  "fld (exAro posture life canon adm n pred st d obs) ''edges'' = JArr []"
  "fld (exAro posture life canon adm n pred st d obs) ''realizationBindings'' = JArr [exR st d obs]"
  "fld (exAro posture life canon adm n pred st d obs) ''coverageWitness'' = exW st d"
  "fld (exAro posture life canon adm n pred st d obs) ''coverageWitnessRef'' = JObj [(''kind'', JStr ''aro_coverage_witness''), (''id'', JStr (ident0 ''wm_aro_coverage_witness'')), (''digest'', JStr digest0)]"
  "fld (exAro posture life canon adm n pred st d obs) ''counterpartRef'' = JNull"
  "fld (exAro posture life canon adm n pred st d obs) ''admittedFromCandidateRef'' = adm"
  "fld (exAro posture life canon adm n pred st d obs) ''provenanceRefs'' = JArr []"
  "fld (exAro posture life canon adm n pred st d obs) ''canonical'' = JBool canon"
  "fld (exAro posture life canon adm n pred st d obs) ''grantsAuthority'' = JBool False"
  "fld (exAro posture life canon adm n pred st d obs) ''createdAt'' = JStr ''T''"
  "fld (exAro posture life canon adm n pred st d obs) ''digest'' = JStr digest0"
  "isPlainObject (exAro posture life canon adm n pred st d obs)" "truthy (exAro posture life canon adm n pred st d obs)" "\<not> nullish (exAro posture life canon adm n pred st d obs)" "defaulted (exAro posture life canon adm n pred st d obs) = Inr (exAro posture life canon adm n pred st d obs)"
  by (simp_all add: exAro_def)


lemma exSrc_ref [simp]: "trim d = d \<Longrightarrow> d \<noteq> [] \<Longrightarrow> aroExactRef (exSrc d) l = Inr (exSrc d)" "truthy (exSrc d)"
   "fld (exSrc d) ''id'' = JStr ''s''" "fld (exSrc d) ''kind'' = JStr ''k''" "fld (exSrc d) ''digest'' = JStr d"
  by (simp_all add: exSrc_def aroExactRef_def Let_def is_space_def)

lemma refs_Nil [simp]: "aroUniqueRefs E (JArr []) = Inr []" "aroUniqueRefs E JUndef = Inr []" "checkRefs (JArr []) p = Inr True"
  by (simp_all add: aroUniqueRefs_def checkRefs_def eforeachi_def)

lemma exB_refs [simp]: "branchRef exB = Inr (JObj [(''kind'', JStr ''aro_branch''), (''id'', JStr ''b''), (''digest'', JStr digest0)])"
  by (simp add: branchRef_def aroExactRef_def Let_def is_space_def trim_id js_text_JStr getp_def)

lemma exR_refs [simp]: "realizationBindingRef (exR st d obs)
   = Inr (JObj [(''kind'', JStr ''aro_realization_binding''), (''id'', JStr ''r''), (''digest'', JStr digest0)])"
  by (simp add: realizationBindingRef_def aroExactRef_def Let_def is_space_def trim_id js_text_JStr getp_def)

lemma exB_valid [simp]: "validateAroBranch E0 exB = Inr True"
  by (simp add: validateAroBranch_def checkOptionalRef_def is_space_def trim_id js_text_JStr one_of_def ARO_BRANCH_MODALITIES_def ARO_BRANCH_STATES_def)

lemma exB_built [simp]: "buildAroBranch E0 (branchInputFrom [exB] exB) aid m = Inr exB"
  by (simp add: buildAroBranch_def branchInputFrom_def Let_def is_space_def trim_id js_text_JStr ARO_BRANCH_MODALITIES_def ARO_BRANCH_STATES_def bounded_def
     seal_def set_fld_def exB_def [symmetric] cong: lazy)
abbreviation refB :: jval where "refB \<equiv> JObj [(''kind'', JStr ''aro_branch''), (''id'', JStr ''b''), (''digest'', JStr digest0)]"
abbreviation refR :: jval where "refR \<equiv> JObj [(''kind'', JStr ''aro_realization_binding''), (''id'', JStr ''r''), (''digest'', JStr digest0)]"
abbreviation refW :: jval where
  "refW \<equiv> JObj [(''kind'', JStr ''aro_coverage_witness''), (''id'', JStr (ident0 ''wm_aro_coverage_witness'')), (''digest'', JStr digest0)]"

lemma aro_refs [simp]: "aroExactRef refB l = Inr refB" "aroExactRef refR l = Inr refR" "aroExactRef refW l = Inr refW"
  "aroExactRef (JObj [(''kind'', JStr ''aro_identity''), (''id'', JStr ''i''), (''digest'', JStr digest0), (''projectId'', JStr ''p'')]) l
   = Inr (JObj [(''kind'', JStr ''aro_identity''), (''id'', JStr ''i''), (''digest'', JStr digest0), (''projectId'', JStr ''p'')])"
  by (simp_all add: aroExactRef_def Let_def is_space_def trim_id js_text_JStr)

lemma exObs [simp]: "obs = JNull \<or> obs = exSrc d \<Longrightarrow> trim d = d \<Longrightarrow> d \<noteq> [] \<Longrightarrow> aroOptionalRef obs l = Inr obs"
  "obs = JNull \<or> obs = exSrc d \<Longrightarrow> trim d = d \<Longrightarrow> d \<noteq> [] \<Longrightarrow> checkOptionalRef obs l = Inr True"
  by (auto simp: aroOptionalRef_def checkOptionalRef_def)

lemma exR_valid [simp]:
  "st \<in> set ARO_COVERAGE_STATES \<Longrightarrow> trim d = d \<Longrightarrow> d \<noteq> [] \<Longrightarrow> obs = JNull \<or> obs = exSrc d \<Longrightarrow>
   validateAroRealizationBinding E0 (exR st d obs) = Inr True"
  by (simp add: validateAroRealizationBinding_def is_space_def one_of_def ARO_REALIZATION_KINDS_def)

lemma exR_built:
  assumes "st \<in> set ARO_COVERAGE_STATES" "trim st = st" "st \<noteq> []" "trim d = d" "d \<noteq> []" "obs = JNull \<or> obs = exSrc d"
    and "fld i ''realizationBindingId'' = JStr ''r''" "fld i ''branchKey'' = JStr ''a''" "fld i ''realizationKind'' = JStr ''source''"
    "fld i ''locator'' = JStr ''x''" "fld i ''sourceRef'' = exSrc d" "fld i ''coverageState'' = JStr st"
    "fld i ''evidenceRefs'' = JArr []" "fld i ''observedRevisionRef'' = obs" "defaulted i = Inr i"
  shows "buildAroRealizationBinding E0 i aid [(JStr ''a'', exB)] = Inr (exR st d obs)"
  using assms
  by (simp add: buildAroRealizationBinding_def Let_def branch_at_def is_space_def trim_id ARO_REALIZATION_KINDS_def bounded_def
     seal_def set_fld_def exR_def [symmetric] cong: lazy)

lemma aroUniqueRefs_single [simp]: "(\<And>l. aroExactRef r l = Inr r) \<Longrightarrow> aroUniqueRefs E (JArr [r]) = Inr [r]"
  by (simp add: aroUniqueRefs_def)

lemma checkRefs_single [simp]: "(\<And>l. aroExactRef r l = Inr r) \<Longrightarrow> checkRefs (JArr [r]) p = Inr True"
  by (simp add: checkRefs_def eforeachi_def)

lemma exW_valid [simp]:
  "st = ''realized'' \<or> st = ''stale'' \<Longrightarrow> trim d = d \<Longrightarrow> d \<noteq> [] \<Longrightarrow> validateAroCoverageWitness E0 (exW st d) = Inr True"
  by (auto simp: validateAroCoverageWitness_def is_space_def one_of_def coverage_postures_def eforeach_def validateCoverageEntry_def
     getp_def ARO_COVERAGE_STATES_def)

lemma exCoverage [simp]:
  "st = ''realized'' \<or> st = ''stale'' \<Longrightarrow> branchCoverage [exB] [exR st d obs] = Inr [(exB, [exR st d obs], st)]"
  "st = ''realized'' \<or> st = ''stale'' \<Longrightarrow> bindingsIn ''contradicted'' [exR st d obs] = Inr []"
  "bindingsIn ''stale'' [exR st d obs] = Inr (if st = ''stale'' then [exR st d obs] else [])"
  by (auto simp: branchCoverage_def bindingsOf_def bindingsIn_def getp_def coverageStateForBranch_cases strict_eq_def)

lemma exW_built:
  assumes "st = ''realized'' \<or> st = ''stale''" "trim d = d" "d \<noteq> []"
  shows "buildAroCoverageWitness E0 (JObj [(''aroId'', JStr ''i''), (''aroIdentityDigest'', JStr digest0), (''projectId'', JStr ''p''),
     (''branches'', JArr [exB]), (''realizationBindings'', JArr [exR st d obs]), (''provenanceRefs'', JArr [])]) = Inr (exW st d)"
  using assms(1)
proof
  assume st: "st = ''realized''"
  note eq = exW_def [of "''realized''" d, simplified, symmetric]
  show ?thesis using assms(2,3) unfolding st
    by (simp add: buildAroCoverageWitness_def entriesIn_def coverageEntry_def coveragePosture_def flat_elems_def seal_def set_fld_def
      Let_def eq cong: lazy)
next
  assume st: "st = ''stale''"
  note eq = exW_def [of "''stale''" d, simplified, symmetric]
  show ?thesis using assms(2,3) unfolding st
    by (simp add: buildAroCoverageWitness_def entriesIn_def coverageEntry_def coveragePosture_def flat_elems_def seal_def set_fld_def
      Let_def eq cong: lazy)
qed
lemma exAro_ref [simp]: "abstractReasoningObjectRef (exAro posture life canon adm n pred st d obs)
   = Inr (JObj [(''kind'', JStr ''abstract_reasoning_object''), (''id'', JStr ''i''), (''digest'', JStr digest0), (''projectId'', JStr ''p'')])"
  by (simp add: abstractReasoningObjectRef_def aroExactRef_def Let_def is_space_def trim_id js_text_JStr getp_def)

lemma exB_added [simp]: "addAroBranch E0 aid (branchInputFrom [exB] exB) ([], []) = Inr ([(JStr ''a'', exB)], [exB])"
  by (simp add: addAroBranch_def)

lemma exW_ref [simp]: "coverageWitnessRef (exW st d) = Inr refW"
  by (simp add: coverageWitnessRef_def getp_def)

lemma exB_identity [simp]: "branchIdentity E refB \<in> set (branchIdentities E [exB])"
  by (simp add: branchIdentity_def branchIdentities_def)

lemma exAro_valid:
  assumes "st = ''realized'' \<or> st = ''stale''" "trim d = d" "d \<noteq> []" "obs = JNull \<or> obs = exSrc d"
    and "posture \<in> set ARO_POSTURES" "life \<in> set ARO_LIFECYCLES" "canon \<Longrightarrow> life \<noteq> ''candidate''"
    and "n = 1 \<and> pred = JNull \<or> n = 2 \<and> truthy pred \<and> (\<forall>l. aroExactRef pred l = Inr pred)"
    and "adm = JNull \<or> truthy adm \<and> (\<forall>l. aroExactRef adm l = Inr adm)"
  shows "validateAbstractReasoningObject E0 (exAro posture life canon adm n pred st d obs) = Inr True"
proof -
  have s: "st \<in> set ARO_COVERAGE_STATES" using assms(1) by (auto simp: ARO_COVERAGE_STATES_def)
  have "aroBoundaryOk E0 (exAro posture life canon adm n pred st d obs)"
    using assms by (auto simp: aroBoundaryOk_def is_space_def one_of_def js_less_def)
  moreover have "validateAroBody E0 (exAro posture life canon adm n pred st d obs) = Inr True"
    using assms s by (auto simp: validateAroBody_def eforeach_def checkBindingBranch_def checkOptionalRef_def Let_def strict_eq_def)
  moreover have "(to_number E0 (num n) = Fin 1) \<noteq> truthy pred" using assms(8) by (auto simp: num_def)
  ultimately show ?thesis
    using assms(7) by (auto simp: validateAbstractReasoningObject_def aroIdentityDigest_def)
qed

lemma exAro_built:
  assumes "st = ''realized'' \<or> st = ''stale''" "trim d = d" "d \<noteq> []" "obs = JNull \<or> obs = exSrc d"
    and "posture \<in> set ARO_POSTURES" "life \<in> set ARO_LIFECYCLES" "canon \<Longrightarrow> life \<noteq> ''candidate''"
    and "n = 1 \<and> pred = JNull \<or> n = 2 \<and> truthy pred \<and> (\<forall>l. aroExactRef pred l = Inr pred)"
    and "adm = JNull \<or> truthy adm \<and> (\<forall>l. aroExactRef adm l = Inr adm)"
    and "trim posture = posture" "posture \<noteq> []" "trim life = life" "life \<noteq> []"
    and "fld i ''projectId'' = JStr ''p''" "fld i ''conceptKey'' = JStr ''k''" "fld i ''aroId'' = JStr ''i''"
      "fld i ''posture'' = JStr posture" "fld i ''revision'' = num n" "fld i ''lifecycle'' = JStr life"
      "fld i ''branches'' = JArr [branchInputFrom [exB] exB]" "fld i ''edges'' = JArr []"
      "fld i ''realizationBindings'' = JArr [r]"
      "buildAroRealizationBinding E0 r (JStr ''i'') [(JStr ''a'', exB)] = Inr (exR st d obs)"
      "fld i ''provenanceRefs'' = JArr []" "fld i ''predecessorRef'' = pred" "fld i ''counterpartRef'' = JNull"
      "fld i ''admittedFromCandidateRef'' = adm" "fld i ''canonical'' = JBool canon" "fld i ''semanticIdentity'' = JStr ''k''"
      "fld i ''purpose'' = JStr []" "fld i ''createdAt'' = JStr ''T''" "fld i ''now'' = JUndef" "defaulted i = Inr i"
  shows "buildAbstractReasoningObject E0 i = Inr (exAro posture life canon adm n pred st d obs)"
proof -
  have v: "validateAbstractReasoningObject E0 (exAro posture life canon adm n pred st d obs) = Inr True"
    by (rule exAro_valid [OF assms(1-9)])
  have r: "strict_eq (num n) (num 1) \<noteq> truthy pred" "JNum (to_number E0 (js_or (num n) (num 1))) = num n"
    "isInteger (num n)" "\<not> js_less E0 (num n) 1"
    using assms(8) by (auto simp: js_or_num js_less_def)
  have o: "aroOptionalRef pred l = Inr pred" "aroOptionalRef adm l = Inr adm" for l
    using assms(8,9) by (auto simp: aroOptionalRef_def)
  have s: "stampedAs E0 i ''createdAt'' = Inr (JStr ''T'')" using assms by (simp add: stampedAs_def is_space_def)
  show ?thesis
    using assms(2-6,10-) v r o s exW_built [OF assms(1-3)]
    by (simp add: buildAbstractReasoningObject_def Let_def is_space_def aroIdentityDigest_def bounded_def
      seal_def set_fld_def exAro_def [symmetric] cong: lazy)
qed
definition exCand :: "int \<Rightarrow> jval \<Rightarrow> string \<Rightarrow> string \<Rightarrow> jval \<Rightarrow> jval" where
  "exCand n pred review life adm = JObj [
     (''schema'', JStr ARO_RECONSTRUCTION_CANDIDATE_SCHEMA),
     (''candidateId'', JStr ''c''),
     (''candidateRevision'', num n),
     (''predecessorRef'', pred),
     (''projectId'', JStr ''p''),
     (''candidateAro'', exAro ''current'' ''candidate'' False JNull 1 JNull ''realized'' ''d'' JNull),
     (''repositorySnapshotRef'', exSrc ''d''),
     (''reconstructionMethod'', JStr ''m''),
     (''evidenceRefs'', JArr [exSrc ''d'']),
     (''contradictionRefs'', JArr []),
     (''evidenceReviewState'', JStr review),
     (''contradictionReviewState'', JStr review),
     (''lifecycle'', JStr life),
     (''sourceSemanticEventRef'', JNull),
     (''reviewedAt'', JStr ''T''),
     (''admittedAroRef'', adm),
     (''canonical'', JBool False),
     (''grantsAuthority'', JBool False),
     (''createdAt'', JStr ''T''),
     (''digest'', JStr digest0)]"

lemma exCand_fields [simp]:
  "fld (exCand n pred review life adm) ''schema'' = JStr ARO_RECONSTRUCTION_CANDIDATE_SCHEMA"
  "fld (exCand n pred review life adm) ''candidateId'' = JStr ''c''"
  "fld (exCand n pred review life adm) ''candidateRevision'' = num n"
  "fld (exCand n pred review life adm) ''predecessorRef'' = pred"
  "fld (exCand n pred review life adm) ''projectId'' = JStr ''p''"
  "fld (exCand n pred review life adm) ''candidateAro'' = exAro ''current'' ''candidate'' False JNull 1 JNull ''realized'' ''d'' JNull"
  "fld (exCand n pred review life adm) ''repositorySnapshotRef'' = exSrc ''d''"
  "fld (exCand n pred review life adm) ''reconstructionMethod'' = JStr ''m''"
  "fld (exCand n pred review life adm) ''evidenceRefs'' = JArr [exSrc ''d'']"
  "fld (exCand n pred review life adm) ''contradictionRefs'' = JArr []"
  "fld (exCand n pred review life adm) ''evidenceReviewState'' = JStr review"
  "fld (exCand n pred review life adm) ''contradictionReviewState'' = JStr review"
  "fld (exCand n pred review life adm) ''lifecycle'' = JStr life"
  "fld (exCand n pred review life adm) ''sourceSemanticEventRef'' = JNull"
  "fld (exCand n pred review life adm) ''reviewedAt'' = JStr ''T''"
  "fld (exCand n pred review life adm) ''admittedAroRef'' = adm"
  "fld (exCand n pred review life adm) ''canonical'' = JBool False"
  "fld (exCand n pred review life adm) ''grantsAuthority'' = JBool False"
  "fld (exCand n pred review life adm) ''createdAt'' = JStr ''T''"
  "fld (exCand n pred review life adm) ''digest'' = JStr digest0"
  "isPlainObject (exCand n pred review life adm)" "truthy (exCand n pred review life adm)" "\<not> nullish (exCand n pred review life adm)" "defaulted (exCand n pred review life adm) = Inr (exCand n pred review life adm)"
  by (simp_all add: exCand_def)

lemma postures [simp]: "''current'' \<in> set ARO_POSTURES" "''target'' \<in> set ARO_POSTURES"
  "''candidate'' \<in> set ARO_LIFECYCLES" "''active'' \<in> set ARO_LIFECYCLES" "''stale'' \<in> set ARO_LIFECYCLES"
  by (simp_all add: ARO_POSTURES_def ARO_LIFECYCLES_def)

abbreviation refA :: jval where
  "refA \<equiv> JObj [(''kind'', JStr ''abstract_reasoning_object''), (''id'', JStr ''i''), (''digest'', JStr digest0), (''projectId'', JStr ''p'')]"
abbreviation refC :: jval where
  "refC \<equiv> JObj [(''kind'', JStr ''aro_reconstruction_candidate''), (''id'', JStr ''c''), (''digest'', JStr digest0), (''projectId'', JStr ''p'')]"

lemma aro_refs' [simp]: "aroExactRef refA l = Inr refA" "aroExactRef refC l = Inr refC"
  by (simp_all add: aroExactRef_def Let_def is_space_def trim_id js_text_JStr)

lemma exCand_valid:
  assumes "review \<in> set ARO_REVIEW_STATES" "life \<in> set ARO_CANDIDATE_LIFECYCLES" "adm = JNull \<or> adm = refA"
    and "n = 1 \<and> pred = JNull \<or> n = 2 \<and> pred = refC \<or> n = 3 \<and> pred = refC"
  shows "validateAroReconstructionCandidate E0 (exCand n pred review life adm) = Inr True"
proof -
  have "validateAbstractReasoningObject E0 (exAro ''current'' ''candidate'' False JNull 1 JNull ''realized'' ''d'' JNull) = Inr True"
    by (rule exAro_valid) (simp_all add: is_space_def)
  moreover have "(to_number E0 (num n) = Fin 1) \<noteq> truthy pred" using assms(4) by (auto simp: num_def)
  ultimately show ?thesis
    using assms by (auto simp: validateAroReconstructionCandidate_def is_space_def one_of_def checkOptionalRef_def Let_def strict_eq_def)
qed

lemma exCand_ref [simp]: "aroReconstructionCandidateRef (exCand n pred review life adm) = Inr refC"
  by (simp add: aroReconstructionCandidateRef_def getp_def)
abbreviation exAroC :: jval where "exAroC \<equiv> exAro ''current'' ''candidate'' False JNull 1 JNull ''realized'' ''d'' JNull"

lemma exR_rebuilt:
  assumes "st \<in> set ARO_COVERAGE_STATES" "trim st = st" "st \<noteq> []" "trim d = d" "d \<noteq> []" "obs = JNull \<or> obs = exSrc d"
  shows "buildAroRealizationBinding E0 (bindingInputFrom [exB] (exR st d obs)) aid [(JStr ''a'', exB)] = Inr (exR st d obs)"
  by (rule exR_built [OF assms]) (simp_all add: bindingInputFrom_def keyOfBranch_def strict_eq_def)

lemma coverage_words [simp]: "''realized'' \<in> set ARO_COVERAGE_STATES" "''stale'' \<in> set ARO_COVERAGE_STATES"
  "trim ''realized'' = ''realized''" "trim ''stale'' = ''stale''" "trim ''candidate'' = ''candidate''" "trim ''active'' = ''active''"
  "trim ''current'' = ''current''" "trim ''target'' = ''target''" "trim ''reviewed'' = ''reviewed''" "trim ''admitted'' = ''admitted''"
  by (simp_all add: ARO_COVERAGE_STATES_def trim_id is_space_def)

definition exInput :: "string \<Rightarrow> string \<Rightarrow> bool \<Rightarrow> jval \<Rightarrow> int \<Rightarrow> jval \<Rightarrow> string \<Rightarrow> string \<Rightarrow> jval \<Rightarrow> jval" where
  "exInput posture life canon adm n pred st d obs = JObj [
     (''aroId'', JStr ''i''),
     (''projectId'', JStr ''p''),
     (''conceptKey'', JStr ''k''),
     (''semanticIdentity'', JStr ''k''),
     (''purpose'', JStr []),
     (''posture'', JStr posture),
     (''revision'', num n),
     (''lifecycle'', JStr life),
     (''predecessorRef'', pred),
     (''branches'', JArr [branchInputFrom [exB] exB]),
     (''edges'', JArr []),
     (''realizationBindings'', JArr [bindingInputFrom [exB] (exR st d obs)]),
     (''counterpartRef'', JNull),
     (''admittedFromCandidateRef'', adm),
     (''provenanceRefs'', JArr []),
     (''canonical'', JBool canon),
     (''createdAt'', JStr ''T'')]"

lemma exInput_fields [simp]:
  "fld (exInput posture life canon adm n pred st d obs) ''aroId'' = JStr ''i''"
  "fld (exInput posture life canon adm n pred st d obs) ''projectId'' = JStr ''p''"
  "fld (exInput posture life canon adm n pred st d obs) ''conceptKey'' = JStr ''k''"
  "fld (exInput posture life canon adm n pred st d obs) ''semanticIdentity'' = JStr ''k''"
  "fld (exInput posture life canon adm n pred st d obs) ''purpose'' = JStr []"
  "fld (exInput posture life canon adm n pred st d obs) ''posture'' = JStr posture"
  "fld (exInput posture life canon adm n pred st d obs) ''revision'' = num n"
  "fld (exInput posture life canon adm n pred st d obs) ''lifecycle'' = JStr life"
  "fld (exInput posture life canon adm n pred st d obs) ''predecessorRef'' = pred"
  "fld (exInput posture life canon adm n pred st d obs) ''branches'' = JArr [branchInputFrom [exB] exB]"
  "fld (exInput posture life canon adm n pred st d obs) ''edges'' = JArr []"
  "fld (exInput posture life canon adm n pred st d obs) ''realizationBindings'' = JArr [bindingInputFrom [exB] (exR st d obs)]"
  "fld (exInput posture life canon adm n pred st d obs) ''counterpartRef'' = JNull"
  "fld (exInput posture life canon adm n pred st d obs) ''admittedFromCandidateRef'' = adm"
  "fld (exInput posture life canon adm n pred st d obs) ''provenanceRefs'' = JArr []"
  "fld (exInput posture life canon adm n pred st d obs) ''canonical'' = JBool canon"
  "fld (exInput posture life canon adm n pred st d obs) ''createdAt'' = JStr ''T''"
  "fld (exInput posture life canon adm n pred st d obs) ''now'' = JUndef"
  "isPlainObject (exInput posture life canon adm n pred st d obs)" "truthy (exInput posture life canon adm n pred st d obs)" "\<not> nullish (exInput posture life canon adm n pred st d obs)" "defaulted (exInput posture life canon adm n pred st d obs) = Inr (exInput posture life canon adm n pred st d obs)"
  by (simp_all add: exInput_def)

lemma exAro_input [simp]: "aroInputFromExisting (exAro posture life canon adm n pred st d obs) ov
   = spread (exInput posture life canon adm n pred st d obs) ov"
  by (simp add: aroInputFromExisting_def exInput_def Let_def)

abbreviation exInputC :: jval where "exInputC \<equiv> exInput ''current'' ''candidate'' False JNull 1 JNull ''realized'' ''d'' JNull"

lemma spread_truthy [simp]: "truthy (spread v gs)" by (simp add: spread_def)

lemma exCand_input:
  assumes "fld (JObj rest) ''now'' = JUndef"
  shows "fld (candidateAroInput (candidateInputFrom E0 (exCand n pred review life adm) refC ov rest)) k =
    (if k = ''projectId'' then JStr ''p'' else if k = ''lifecycle'' then JStr ''candidate'' else if k = ''canonical'' then JBool False
     else if k = ''revision'' then js_or (fld (spread exInputC ov) ''revision'') (js_or (fld (fld (JObj rest) ''aro'') ''revision'') (num 1))
     else if k = ''now'' then JUndef else fld (spread exInputC ov) k)"
  using assms by (simp add: candidateAroInput_def candidateInputFrom_def fld_spread js_or_def spread_truthy cong: if_weak_cong)

lemma candidateAroInput_object [simp]: "defaulted (candidateAroInput i) = Inr (candidateAroInput i)"
  by (simp add: candidateAroInput_def spread_def)

lemma exCandidateAro_built:
  assumes "fld (JObj rest) ''now'' = JUndef"
  shows "buildAbstractReasoningObject E0 (candidateAroInput (candidateInputFrom E0 (exCand n pred review life adm) refC
     [(''lifecycle'', JStr ''candidate''), (''canonical'', JBool False), (''predecessorRef'', JNull)] rest)) = Inr exAroC"
  "buildAbstractReasoningObject E0 (candidateAroInput (candidateInputFrom E0 (exCand n pred review life adm) refC
     [(''lifecycle'', JStr ''candidate''), (''canonical'', JBool False)] rest)) = Inr exAroC"
  by (rule exAro_built [where r = "bindingInputFrom [exB] (exR ''realized'' ''d'' JNull)"];
    simp add: exR_rebuilt exCand_input [OF assms] fld_spread is_space_def)+

lemma exCand_rebuilt:
  assumes "i = candidateInputFrom E0 (exCand m pred' review life' adm') refC ov rest"
    and "m = 1 \<and> n = 2 \<or> m = 2 \<and> n = 3"
    and "buildAbstractReasoningObject E0 (candidateAroInput i) = Inr exAroC"
    and "fld (JObj rest) ''lifecycle'' = JStr life" "life = ''candidate'' \<or> life = ''admitted''"
    and "fld (JObj rest) ''reviewedAt'' = JStr ''T''" "fld (JObj rest) ''admittedAroRef'' = a" "a = JUndef \<and> adm = JNull \<or> a = refA \<and> adm = refA"
    and "fld (JObj rest) ''now'' = JUndef"
  shows "buildAroReconstructionCandidate E0 i = Inr (exCand n refC ''reviewed'' life adm)"
proof -
  have l: "life \<in> set ARO_CANDIDATE_LIFECYCLES" "trim life = life" using assms(5) by auto
  have v: "validateAroReconstructionCandidate E0 (exCand n refC ''reviewed'' life adm) = Inr True"
    by (rule exCand_valid) (use assms l in auto)
  have i: "fld i ''candidateId'' = JStr ''c''" "fld i ''predecessorRef'' = refC" "fld i ''evidenceReviewState'' = JStr ''reviewed''"
    "fld i ''contradictionReviewState'' = JStr ''reviewed''" "fld i ''candidateRevision'' = num n" "fld i ''lifecycle'' = JStr life"
    "fld i ''admittedAroRef'' = a" "fld i ''reviewedAt'' = JStr ''T''" "fld i ''repositorySnapshotRef'' = exSrc ''d''"
    "fld i ''reconstructionMethod'' = JStr ''m''" "fld i ''evidenceRefs'' = JArr [exSrc ''d'']" "fld i ''contradictionRefs'' = JArr []"
    "fld i ''sourceSemanticEventRef'' = JNull" "fld i ''createdAt'' = JStr ''T''" "fld i ''now'' = JUndef" "defaulted i = Inr i"
    using assms by (auto simp: candidateInputFrom_def)
  have n: "JNum (to_number E0 (num n)) = num n" "js_or (num n) (num 1) = num n" "isInteger (num n)" "\<not> js_less E0 (num n) 1" "n \<noteq> 1"
    using assms(2) by (auto simp: js_less_def)
  have "aroOptionalRef a l = Inr adm" for l using assms(8) by (auto simp: aroOptionalRef_def)
  then show ?thesis
    using assms(3) v l i n
    by (simp add: buildAroReconstructionCandidate_def Let_def is_space_def stampedAs_def aroOptionalRef_def aroUniqueRefs_def
      seal_def set_fld_def exCand_def [symmetric] cong: lazy)
qed
lemma spread_exInput [simp]: "spread (exInput posture life canon adm n pred st d obs) [] = exInput posture life canon adm n pred st d obs"
  by (simp add: spread_def exInput_def assign_all_def)

lemma review_states [simp]: "''pending'' \<in> set ARO_REVIEW_STATES" by (simp add: ARO_REVIEW_STATES_def)

lemma exReviewed:
  "\<exists>out. reviewAroReconstructionCandidate E0 (exCand 1 JNull ''pending'' ''candidate'' JNull) (JObj []) = Inr out
    \<and> fld out ''candidate'' = exCand 2 refC ''reviewed'' ''candidate'' JNull"
proof -
  let ?rest = "[(''lifecycle'', JStr ''candidate''), (''reviewedAt'', JStr ''T'')]"
  let ?i = "candidateInputFrom E0 (exCand 1 JNull ''pending'' ''candidate'' JNull) refC
     [(''lifecycle'', JStr ''candidate''), (''canonical'', JBool False), (''predecessorRef'', JNull)] ?rest"
  have b: "buildAroReconstructionCandidate E0 ?i = Inr (exCand 2 refC ''reviewed'' ''candidate'' JNull)"
    by (rule exCand_rebuilt [OF refl, where a = JUndef]) (simp_all add: exCandidateAro_built)
  have v: "validateAroReconstructionCandidate E0 (exCand 1 JNull ''pending'' ''candidate'' JNull) = Inr True"
    by (rule exCand_valid) simp_all
  show ?thesis
    by (simp add: reviewAroReconstructionCandidate_def v b Let_def getp_def stampedAs_def is_space_def validateAroReviewReceipt_def
      seal_def set_fld_def trim_id js_text_JStr cong: lazy)
qed

theorem review_is_idempotent_witness:
  "\<exists>out. reviewAroReconstructionCandidate E0 (exCand 1 JNull ''pending'' ''candidate'' JNull) (JObj []) = Inr out
    \<and> reviewed_candidate (fld out ''candidate'')
    \<and> reviewAroReconstructionCandidate E0 (fld out ''candidate'') JUndef
        = Inr (JObj [(''candidate'', fld out ''candidate''), (''receipt'', JNull), (''reused'', JBool True)])"
proof -
  obtain out where o: "reviewAroReconstructionCandidate E0 (exCand 1 JNull ''pending'' ''candidate'' JNull) (JObj []) = Inr out"
    using exReviewed by blast
  show ?thesis using review_is_idempotent [OF o, of JUndef] o by blast
qed

lemma exAdmitted:
  "\<exists>out. admitAroReconstructionCandidate E0 (exCand 2 refC ''reviewed'' ''candidate'' JNull) (JObj []) = Inr out"
proof -
  let ?c = "exCand 2 refC ''reviewed'' ''candidate'' JNull"
  have v: "validateAroReconstructionCandidate E0 ?c = Inr True" by (rule exCand_valid) simp_all
  have a: "buildAbstractReasoningObject E0 (spread exInputC
         [(''revision'', num 1), (''lifecycle'', JStr ''active''), (''predecessorRef'', JNull),
          (''admittedFromCandidateRef'', refC), (''canonical'', JBool True), (''createdAt'', JStr ''T'')])
      = Inr (exAro ''current'' ''active'' True refC 1 JNull ''realized'' ''d'' JNull)"
    by (rule exAro_built [where r = "bindingInputFrom [exB] (exR ''realized'' ''d'' JNull)"])
      (simp_all add: exR_rebuilt fld_spread is_space_def, simp add: spread_def)
  have b: "buildAroReconstructionCandidate E0 (candidateInputFrom E0 ?c refC
         [(''lifecycle'', JStr ''candidate''), (''canonical'', JBool False)]
         [(''lifecycle'', JStr ''admitted''), (''reviewedAt'', JStr ''T''), (''admittedAroRef'', refA)])
      = Inr (exCand 3 refC ''reviewed'' ''admitted'' refA)"
    by (rule exCand_rebuilt [OF refl, where a = refA]) (simp_all add: exCandidateAro_built)
  show ?thesis
    by (simp add: admitAroReconstructionCandidate_def v a b Let_def getp_def stampedAs_def is_space_def validateAroAdmissionReceipt_def
      checkCurrentAro_def seal_def set_fld_def trim_id js_text_JStr cong: lazy)
qed

theorem admission_makes_canonical_witness:
  "\<exists>out. admitAroReconstructionCandidate E0 (exCand 2 refC ''reviewed'' ''candidate'' JNull) (JObj []) = Inr out
    \<and> fld (fld out ''aro'') ''canonical'' = JBool True \<and> fld (fld out ''aro'') ''revision'' = num 1
    \<and> fld (fld out ''aro'') ''admittedFromCandidateRef'' = refC"
proof -
  obtain out where o: "admitAroReconstructionCandidate E0 (exCand 2 refC ''reviewed'' ''candidate'' JNull) (JObj []) = Inr out"
    using exAdmitted by blast
  show ?thesis using admission_makes_canonical [OF o] o by (intro exI [of _ out]) simp
qed

theorem admission_needs_review_witness:
  "admitAroReconstructionCandidate E0 (exCand 1 JNull ''pending'' ''candidate'' JNull) (JObj [])
    = fail ''aro_candidate_admission_gate_blocked'' []"
  by (rule admission_needs_review) (rule exCand_valid, simp_all add: reviewed_candidate_def)

theorem built_object_is_closed_witness:
  "\<exists>aro. buildAbstractReasoningObject E0 exInputC = Inr aro \<and> validateAbstractReasoningObject E0 aro = Inr True
     \<and> fld aro ''branches'' = JArr [exB] \<and> parents_in [] [exB]"
proof -
  have b: "buildAbstractReasoningObject E0 exInputC = Inr exAroC"
    by (rule exAro_built [where r = "bindingInputFrom [exB] (exR ''realized'' ''d'' JNull)"]) (simp_all add: exR_rebuilt is_space_def)
  show ?thesis using built_object_is_closed [OF b] b by (intro exI [of _ exAroC]) simp
qed

theorem coverage_complete_iff_witness:
  "\<exists>w. buildAroCoverageWitness E0 (JObj [(''aroId'', JStr ''i''), (''aroIdentityDigest'', JStr digest0), (''projectId'', JStr ''p''),
     (''branches'', JArr [exB]), (''realizationBindings'', JArr [exR ''stale'' ''d'' JNull]), (''provenanceRefs'', JArr [])]) = Inr w
     \<and> fld w ''coveragePosture'' \<noteq> JStr ''complete''"
proof -
  have b: "buildAroCoverageWitness E0 (JObj [(''aroId'', JStr ''i''), (''aroIdentityDigest'', JStr digest0), (''projectId'', JStr ''p''),
     (''branches'', JArr [exB]), (''realizationBindings'', JArr [exR ''stale'' ''d'' JNull]), (''provenanceRefs'', JArr [])])
     = Inr (exW ''stale'' ''d'')" by (rule exW_built) (simp_all add: is_space_def)
  show ?thesis using coverage_complete_iff [OF b, of "[exB]" "[exR ''stale'' ''d'' JNull]"] b
    by (intro exI [of _ "exW ''stale'' ''d''"]) simp
qed

theorem freshness_marks_changed_sources_stale_witness:
  "\<exists>out new. reviseAroRealizationFreshness E0 (exAro ''current'' ''active'' True JNull 1 JNull ''realized'' ''d'' JNull)
      (JObj [(''changedSourceRefs'', JArr [exSrc ''e''])]) = Inr out \<and> fld out ''changed'' = JBool True
     \<and> elems (fld (fld out ''aro'') ''realizationBindings'') = [new] \<and> fld new ''coverageState'' = JStr ''stale''"
proof -
  let ?a = "exAro ''current'' ''active'' True JNull 1 JNull ''realized'' ''d'' JNull"
  let ?b = "exAro ''current'' ''stale'' True JNull 2 refA ''stale'' ''e'' (exSrc ''e'')"
  have v: "validateAbstractReasoningObject E0 ?a = Inr True" by (rule exAro_valid) (simp_all add: is_space_def)
  have s: "changedSource E0 [exSrc ''e''] (exR ''realized'' ''d'' JNull) = Some (exSrc ''e'')"
    by (simp add: changedSource_def sourceKey_def strict_eq_def)
  have r: "buildAroRealizationBinding E0 (freshBindingInput E0 [exSrc ''e''] [exB] (exR ''realized'' ''d'' JNull)) (JStr ''i'') [(JStr ''a'', exB)]
      = Inr (exR ''stale'' ''e'' (exSrc ''e''))"
    by (rule exR_built) (simp_all add: freshBindingInput_def s is_space_def keyOfBranch_def strict_eq_def)
  have u: "aroUniqueRefs E0 (JArr [exSrc ''e'']) = Inr [exSrc ''e'']" by (simp add: is_space_def)
  have b: "buildAbstractReasoningObject E0 (spread (exInput ''current'' ''active'' True JNull 1 JNull ''realized'' ''d'' JNull)
         [(''revision'', num 2), (''lifecycle'', JStr ''stale''), (''predecessorRef'', refA),
          (''realizationBindings'', JArr [freshBindingInput E0 [exSrc ''e''] [exB] (exR ''realized'' ''d'' JNull)]),
          (''createdAt'', JStr ''T'')]) = Inr ?b"
    by (rule exAro_built [where r = "freshBindingInput E0 [exSrc ''e''] [exB] (exR ''realized'' ''d'' JNull)"])
      (simp_all add: r fld_spread is_space_def, simp add: spread_def)
  have f: "reviseAroRealizationFreshness E0 ?a (JObj [(''changedSourceRefs'', JArr [exSrc ''e''])])
      = Inr (JObj [(''changed'', JBool True), (''aro'', ?b)])"
    by (simp add: reviseAroRealizationFreshness_def v u s b Let_def getp_def stampedAs_def cong: lazy)
  show ?thesis using freshness_marks_changed_sources_stale [OF f] f u s by (auto simp: refreshed_def)
qed

definition exCmp :: "jval" where
  "exCmp = JObj [
     (''schema'', JStr ARO_CURRENT_TARGET_COMPARISON_SCHEMA),
     (''comparisonId'', JStr (ident0 ''wm_aro_current_target_comparison'')),
     (''projectId'', JStr ''p''),
     (''conceptKey'', JStr ''k''),
     (''currentAroRef'', refA),
     (''targetAroRef'', refA),
     (''sharedBranchKeys'', JArr [JStr ''a'']),
     (''currentOnlyBranchRefs'', JArr []),
     (''targetOnlyBranchRefs'', JArr []),
     (''conflictPairs'', JArr []),
     (''currentCoverageWitnessRef'', refW),
     (''targetCoverageWitnessRef'', refW),
     (''currentCoveragePosture'', JStr ''complete''),
     (''targetCoveragePosture'', JStr ''complete''),
     (''candidateImplementationObligation'', JBool False),
     (''codeMutationAuthorized'', JBool False),
     (''canonical'', JBool False),
     (''grantsAuthority'', JBool False),
     (''digest'', JStr digest0)]"

lemma exCmp_fields [simp]:
  "fld exCmp ''schema'' = JStr ARO_CURRENT_TARGET_COMPARISON_SCHEMA"
  "fld exCmp ''comparisonId'' = JStr (ident0 ''wm_aro_current_target_comparison'')"
  "fld exCmp ''projectId'' = JStr ''p''"
  "fld exCmp ''conceptKey'' = JStr ''k''"
  "fld exCmp ''currentAroRef'' = refA"
  "fld exCmp ''targetAroRef'' = refA"
  "fld exCmp ''sharedBranchKeys'' = JArr [JStr ''a'']"
  "fld exCmp ''currentOnlyBranchRefs'' = JArr []"
  "fld exCmp ''targetOnlyBranchRefs'' = JArr []"
  "fld exCmp ''conflictPairs'' = JArr []"
  "fld exCmp ''currentCoverageWitnessRef'' = refW"
  "fld exCmp ''targetCoverageWitnessRef'' = refW"
  "fld exCmp ''currentCoveragePosture'' = JStr ''complete''"
  "fld exCmp ''targetCoveragePosture'' = JStr ''complete''"
  "fld exCmp ''candidateImplementationObligation'' = JBool False"
  "fld exCmp ''codeMutationAuthorized'' = JBool False"
  "fld exCmp ''canonical'' = JBool False"
  "fld exCmp ''grantsAuthority'' = JBool False"
  "fld exCmp ''digest'' = JStr digest0"
  "isPlainObject exCmp" "truthy exCmp" "\<not> nullish exCmp" "defaulted exCmp = Inr exCmp"
  by (simp_all add: exCmp_def)

lemma exCmp_valid [simp]: "validateAroCurrentTargetComparison E0 exCmp = Inr True"
  by (simp add: validateAroCurrentTargetComparison_def is_space_def eforeach_def)

theorem comparison_is_exact_witness:
  "\<exists>v. buildAroCurrentTargetComparison E0 (exAro ''current'' ''active'' True JNull 1 JNull ''realized'' ''d'' JNull)
      (exAro ''target'' ''active'' True JNull 1 JNull ''realized'' ''d'' JNull) = Inr v
     \<and> JStr ''a'' \<in> set (elems (fld v ''sharedBranchKeys'')) \<and> fld v ''codeMutationAuthorized'' = JBool False"
proof -
  have v: "validateAbstractReasoningObject E0 (exAro p ''active'' True JNull 1 JNull ''realized'' ''d'' JNull) = Inr True"
    if "p \<in> set ARO_POSTURES" for p by (rule exAro_valid) (use that in \<open>simp_all add: is_space_def\<close>)
  have k: "branchesByKey [exB] = [(JStr ''a'', exB)]" by (simp add: branchesByKey_def assign_all_def)
  have c: "conflictPair [(JStr ''a'', exB)] [(JStr ''a'', exB)] (JStr ''a'') = Inr None"
    by (simp add: conflictPair_def distinctions_def strict_eq_def)
  have o: "onlyIn [(JStr ''a'', exB)] [(JStr ''a'', exB)] = []" by (simp add: onlyIn_def)
  have "\<exists>v. buildAroCurrentTargetComparison E0 (exAro ''current'' ''active'' True JNull 1 JNull ''realized'' ''d'' JNull)
      (exAro ''target'' ''active'' True JNull 1 JNull ''realized'' ''d'' JNull) = Inr v"
    by (simp add: buildAroCurrentTargetComparison_def v k c o Let_def strict_eq_def
      seal_def set_fld_def exCmp_def [symmetric] cong: lazy)
  then obtain v where b: "buildAroCurrentTargetComparison E0 (exAro ''current'' ''active'' True JNull 1 JNull ''realized'' ''d'' JNull)
      (exAro ''target'' ''active'' True JNull 1 JNull ''realized'' ''d'' JNull) = Inr v" by blast
  have d: "branch_with (exAro p ''active'' True JNull 1 JNull ''realized'' ''d'' JNull) (JStr ''a'') = Some exB" for p
    by (simp add: branch_with_def)
  note r = comparison_is_exact [OF b]
  have "JStr ''a'' \<in> set (elems (fld v ''sharedBranchKeys''))"
    by (subst r [THEN conjunct2, THEN conjunct2, THEN conjunct1]) (rule IntI domI d)+
  moreover have "fld v ''codeMutationAuthorized'' = JBool False" using r by (elim conjE)
  ultimately show ?thesis using b by (intro exI conjI)
qed

theorem branch_coverage_table_witness: "coverageStateForBranch (JObj []) [] = ''absent''"
  using branch_coverage_table [of "JObj []" "[]"] by simp

end
