(* ===== verification/ScenarioRuntime.thy ===== *)
theory ScenarioRuntime
  imports Scenario
begin

text \<open>Witnesses for the runtime: concrete inputs of the resolution of a producer, the publication of a second revision, the
  routing of audits, a remand and a fresh lifecycle, each evaluated in the host \<open>E0\<close>.\<close>

definition exAgent :: "string \<Rightarrow> int \<Rightarrow> jval" where
  "exAgent i load = JObj [(''agentRef'', ref0 i), (''role'', JStr ''w''), (''eligibilityReceiptRef'', ref0 ''e''),
     (''currentLoad'', num load), (''supportedAuditTypes'', JArr [JStr ''s''])]"

lemma exAgent_fields [simp]:
  "fld (exAgent i load) ''role'' = JStr ''w''" "fld (exAgent i load) ''eligibilityReceiptRef'' = ref0 ''e''"
  "fld (exAgent i load) ''currentLoad'' = num load" "fld (exAgent i load) ''active'' = JUndef"
  "fld (exAgent i load) ''substrateAvailable'' = JUndef" "fld (exAgent i load) ''budgetAvailable'' = JUndef"
  "fld (exAgent i load) ''eligibleArtifactTypeIds'' = JUndef" "fld (exAgent i load) ''visibleProjectIds'' = JUndef"
  "fld (exAgent i load) ''agentRunRef'' = JUndef" "fld (exAgent i load) ''agentRef'' = ref0 i"
  "truthy (exAgent i load)" "\<not> nullish (exAgent i load)"
  by (simp_all add: exAgent_def)

lemma exAgent_ref [simp]: "trim i = i \<Longrightarrow> i \<noteq> [] \<Longrightarrow> candidateAgentRef (exAgent i load) l = Inr (ref0 i)"
  by (simp add: candidateAgentRef_def getp_def exactRef_ref0)

lemma exAgent_load [simp]: "candidateLoad E (exAgent i 5) = Fin 5" "candidateLoad E (exAgent i 2) = Fin 2"
  by (simp_all add: candidateLoad_def num_or_def num_max0_def num_def del: JNum_numeral)

lemma scope0_object [simp]: "\<not> nullish scope0" by (simp add: scope0_def)

lemma states [simp]: "''requested'' \<in> set LIFECYCLE_STATES" "''under_production'' \<in> set LIFECYCLE_STATES"
  "trim ''under_production'' = ''under_production''"
  by (simp_all add: LIFECYCLE_STATES_def trim_id is_space_def)

lemma exProducerReasons [simp]:
  "trim i = i \<Longrightarrow> i \<noteq> [] \<Longrightarrow> producerReasons exConstitution scope0 ''w'' (exAgent i load) = Inr []"
  by (simp add: producerReasons_def getp_def candidateIsInScope_def availabilityReasons_def is_space_def)

definition exIdle :: jval where
  "exIdle = JObj [(''agentRef'', ref0 ''z''), (''role'', JStr ''v''), (''active'', JBool False)]"

lemma exIdle_reasons [simp]: "producerReasons exConstitution scope0 ''w'' exIdle
     = Inr [''role_mismatch'', ''inactive'', ''eligibility_receipt_missing'']"
  by (simp add: producerReasons_def exIdle_def getp_def candidateIsInScope_def availabilityReasons_def is_space_def reason_def
    candidateAgentRef_def exactRef_ref0)

lemma exIdle_ref [simp]: "candidateAgentRef exIdle l = Inr (ref0 ''z'')"
  by (simp add: exIdle_def candidateAgentRef_def getp_def exactRef_ref0 is_space_def)

definition exResolve3 :: jval where
  "exResolve3 = JObj [(''constitution'', exConstitution), (''lifecycle'', exLifecycle ''requested''), (''producerRole'', JStr ''w''),
     (''candidates'', JArr [exAgent ''x'' 5, exIdle, exAgent ''y'' 2])]"

lemma exResolved3: "\<exists>out. resolveProducer E0 exResolve3 = Inr out"
proof -
  have "\<exists>a. buildProducerAssignment E0 (JObj [(''lifecycleRef'', sealedRef ''artifact_lifecycle_instance'' ''l''), (''lifecycleId'', JStr ''L''),
     (''producerRole'', JStr ''w''), (''producerAgentRef'', ref0 ''y''), (''producerRunRef'', JUndef), (''eligibilityRef'', ref0 ''e''),
     (''now'', JUndef), (''createdAt'', JUndef)]) = Inr a"
    by (simp add: buildProducerAssignment_def validateProducerAssignment_def exactRef_ref0 exactRef_sealedRef optionalRef_def sealed_eval
      is_space_def Let_def cong: lazy)
  then obtain a where a: "buildProducerAssignment E0 (JObj [(''lifecycleRef'', sealedRef ''artifact_lifecycle_instance'' ''l''), (''lifecycleId'', JStr ''L''),
     (''producerRole'', JStr ''w''), (''producerAgentRef'', ref0 ''y''), (''producerRunRef'', JUndef), (''eligibilityRef'', ref0 ''e''),
     (''now'', JUndef), (''createdAt'', JUndef)]) = Inr a" ..
  show ?thesis
    by (simp add: resolveProducer_def exResolve3_def is_space_def firstOrNull_def sortedCandidates_def sortsBefore_def Let_def a cong: lazy)
qed

lemma exEligible [simp]: "trim i = i \<Longrightarrow> i \<noteq> [] \<Longrightarrow> eligible_producer exConstitution scope0 ''w'' (exAgent i load)"
  "\<not> eligible_producer exConstitution scope0 ''w'' exIdle"
  by (simp_all add: producerReasons_Nil [symmetric])


definition exProd :: "jval" where
  "exProd = JObj [
     (''schema'', JStr ARTIFACT_LIFECYCLE_INSTANCE_SCHEMA),
     (''lifecycleInstanceRevisionId'', JStr ''l''),
     (''lifecycleId'', JStr ''L''),
     (''lifecycleRevision'', num 1),
     (''predecessorRef'', JNull),
     (''state'', JStr ''under_production''),
     (''terminal'', JBool False),
     (''canonicalAdmissionEffect'', JBool False),
     (''producerAssignmentRef'', sealedRef ''artifact_producer_assignment'' ''p''),
     (''currentArtifactRevisionRef'', ref0 ''v''),
     (''gateDecisionRef'', ref0 ''g''),
     (''artifactTypeConstitutionRef'', sealedRef ''artifact_type_constitution'' ''c''),
     (''assuranceGraphRef'', ref0 ''g''),
     (''requestRef'', ref0 ''q''),
     (''subjectScope'', scope0),
     (''remandCount'', num 0),
     (''budgetUsage'', JObj [(''attempts'', num 0), (''remands'', num 0), (''audits'', num 0)]),
     (''digest'', JStr digest0)]"

lemma exProd_fields [simp]:
  "fld exProd ''schema'' = JStr ARTIFACT_LIFECYCLE_INSTANCE_SCHEMA"
  "fld exProd ''lifecycleInstanceRevisionId'' = JStr ''l''"
  "fld exProd ''lifecycleId'' = JStr ''L''"
  "fld exProd ''lifecycleRevision'' = num 1"
  "fld exProd ''predecessorRef'' = JNull"
  "fld exProd ''state'' = JStr ''under_production''"
  "fld exProd ''terminal'' = JBool False"
  "fld exProd ''canonicalAdmissionEffect'' = JBool False"
  "fld exProd ''producerAssignmentRef'' = sealedRef ''artifact_producer_assignment'' ''p''"
  "fld exProd ''currentArtifactRevisionRef'' = ref0 ''v''"
  "fld exProd ''gateDecisionRef'' = ref0 ''g''"
  "fld exProd ''artifactTypeConstitutionRef'' = sealedRef ''artifact_type_constitution'' ''c''"
  "fld exProd ''assuranceGraphRef'' = ref0 ''g''"
  "fld exProd ''requestRef'' = ref0 ''q''"
  "fld exProd ''subjectScope'' = scope0"
  "fld exProd ''remandCount'' = num 0"
  "fld exProd ''budgetUsage'' = JObj [(''attempts'', num 0), (''remands'', num 0), (''audits'', num 0)]"
  "fld exProd ''digest'' = JStr digest0"
  "isPlainObject exProd" "truthy exProd" "\<not> nullish exProd" "defaulted exProd = Inr exProd"
  by (simp_all add: exProd_def)

definition exAssignment :: "jval" where
  "exAssignment = JObj [
     (''schema'', JStr ARTIFACT_PRODUCER_ASSIGNMENT_SCHEMA),
     (''assignmentId'', JStr ''p''),
     (''lifecycleRef'', ref0 ''l''),
     (''lifecycleId'', JStr ''L''),
     (''producerRole'', JStr ''w''),
     (''producerAgentRef'', ref0 ''x''),
     (''producerRunRef'', JNull),
     (''eligibilityRef'', ref0 ''e''),
     (''assignmentPosture'', JStr ''candidate''),
     (''providerLaunchAuthorized'', JBool False),
     (''canonicalEffect'', JBool False),
     (''digest'', JStr digest0)]"

lemma exAssignment_fields [simp]:
  "fld exAssignment ''schema'' = JStr ARTIFACT_PRODUCER_ASSIGNMENT_SCHEMA"
  "fld exAssignment ''assignmentId'' = JStr ''p''"
  "fld exAssignment ''lifecycleRef'' = ref0 ''l''"
  "fld exAssignment ''lifecycleId'' = JStr ''L''"
  "fld exAssignment ''producerRole'' = JStr ''w''"
  "fld exAssignment ''producerAgentRef'' = ref0 ''x''"
  "fld exAssignment ''producerRunRef'' = JNull"
  "fld exAssignment ''eligibilityRef'' = ref0 ''e''"
  "fld exAssignment ''assignmentPosture'' = JStr ''candidate''"
  "fld exAssignment ''providerLaunchAuthorized'' = JBool False"
  "fld exAssignment ''canonicalEffect'' = JBool False"
  "fld exAssignment ''digest'' = JStr digest0"
  "isPlainObject exAssignment" "truthy exAssignment" "\<not> nullish exAssignment" "defaulted exAssignment = Inr exAssignment"
  by (simp_all add: exAssignment_def)

lemma words [simp]: "trim ''artifact_producer_assignment'' = ''artifact_producer_assignment''" "trim ''under_audit'' = ''under_audit''"
  "trim ''remanded'' = ''remanded''" "''remanded'' \<in> set LIFECYCLE_STATES" "trim ''requires_revision'' = ''requires_revision''"
  by (simp_all add: trim_id is_space_def LIFECYCLE_STATES_def)

lemma exProd_valid [simp]: "validateArtifactLifecycleInstance E0 exProd = Inr True"
  by (simp add: validateArtifactLifecycleInstance_def validateArtifact_def exactRef_ref0 exactRef_sealedRef is_space_def
    TERMINAL_LIFECYCLE_STATES_def detail_text_def)

lemma exProd_ref [simp]: "artifactLifecycleInstanceRef E0 exProd = Inr (sealedRef ''artifact_lifecycle_instance'' ''l'')"
  by (simp add: artifactLifecycleInstanceRef_def artifactExactRef_def getp_def exactRef_def sealedRef_def Let_def is_space_def)

lemma exAssignment_valid [simp]: "validateProducerAssignment E0 exAssignment = Inr True"
  by (simp add: validateProducerAssignment_def validateArtifact_def exactRef_ref0 is_space_def)

lemma exAssignment_ref [simp]:
  "\<not> truthy p \<Longrightarrow> producerAssignmentRef E0 exAssignment p = Inr (sealedRef ''artifact_producer_assignment'' ''p'')"
  by (simp add: producerAssignmentRef_def artifactExactRef_def getp_def exactRef_def sealedRef_def Let_def is_space_def)

lemma sealed_ident:
  "k \<in> {''artifact_revision'', ''artifact_assurance_graph'', ''artifact_gate_decision'', ''artifact_producer_assignment'',
     ''artifact_type_constitution'', ''artifact_lifecycle_instance'', ''artifact_audit_assessment''} \<Longrightarrow> trim i = i \<Longrightarrow> i \<noteq> [] \<Longrightarrow>
   exactRef (sealedRef k i) l = Inr (sealedRef k i)"
  by (rule exactRef_sealedRef) auto

lemma exApplied:
  "\<exists>w. applyProducerAssignment E0 (JObj [(''constitution'', exConstitution), (''lifecycle'', exProd),
     (''assignment'', exAssignment)]) = Inr w"
  by (simp add: applyProducerAssignment_def Let_def is_space_def TERMINAL_LIFECYCLE_STATES_def one_of_def spread_def assign_all_def
    reviseArtifactLifecycleInstance_def buildArtifactLifecycleInstance_def revisedLifecycleInput_def own_or_def has_own_def
    exactRef_ref0 exactRef_sealedRef optionalRef_def js_or_num js_text_JStr counts getp_def sealed_eval
    validateArtifactLifecycleInstance_def detail_text_def cong: lazy)
definition exPublication :: jval where
  "exPublication = JObj [(''constitution'', exConstitution), (''lifecycle'', exProd), (''producerAssignment'', exAssignment),
     (''previousRevision'', exRevision), (''artifactContentRef'', ref0 ''z''), (''artifactId'', JStr ''x''),
     (''priorAuditAssessments'', JArr [exAssessment ''supported''])]"

lemma exRevision_fields [simp]: "fld exRevision ''lifecycleId'' = JStr ''L''" "fld exRevision ''revision'' = num 1" "truthy exRevision"
  "fld exRevision ''artifactId'' = JStr ''x''"
  by (simp_all add: exRevision_def)

abbreviation exRevised :: jval where
  "exRevised \<equiv> artifact E0 ARTIFACT_REVISION_SCHEMA ''artifactRevisionId'' (ident0 ''wm_artifact_revision'')
       [(''lifecycleRef'', sealedRef ''artifact_lifecycle_instance'' ''l''),
        (''artifactTypeConstitutionRef'', sealedRef ''artifact_type_constitution'' ''c''),
        (''lifecycleId'', JStr ''L''), (''artifactId'', JStr ''x''), (''revision'', num 2),
        (''predecessorRef'', sealedRef ''artifact_revision'' ''v''), (''artifactContentRef'', ref0 ''z''),
        (''artifactDigest'', JStr ''d''), (''producerAssignmentRef'', sealedRef ''artifact_producer_assignment'' ''p''),
        (''producerRunRef'', JNull), (''evidenceRefs'', JArr []), (''settledProperties'', JObj []),
        (''immutable'', JBool True), (''canonical'', JBool False), (''canonicalEffect'', JBool False),
        (''createdAt'', JStr ''T'')]"

lemma ref0_digest [simp]: "fld (ref0 i) ''digest'' = JStr ''d''" by (simp add: ref0_def)

lemma exRevised_valid [simp]: "validateArtifactRevision E0 exRevised = Inr True"
  by (simp add: validateArtifactRevision_def exactRef_ref0 exactRef_sealedRef is_space_def sealed_eval)

lemma exRevised_built: "buildArtifactRevision E0 (JObj [
         (''lifecycleRef'', sealedRef ''artifact_lifecycle_instance'' ''l''),
         (''artifactTypeConstitutionRef'', sealedRef ''artifact_type_constitution'' ''c''),
         (''lifecycleId'', JStr ''L''), (''artifactId'', JStr ''x''), (''revision'', num 2),
         (''predecessorRef'', sealedRef ''artifact_revision'' ''v''), (''artifactContentRef'', ref0 ''z''),
         (''producerAssignmentRef'', sealedRef ''artifact_producer_assignment'' ''p''), (''producerRunRef'', JNull),
         (''evidenceRefs'', JUndef), (''settledProperties'', JUndef), (''now'', JUndef), (''createdAt'', JUndef)]) = Inr exRevised"
  by (simp add: buildArtifactRevision_def exactRef_ref0 exactRef_sealedRef is_space_def optionalRef_def uniqueRefs_def Let_def cong: lazy)

lemma exRevised_ref [simp]: "artifactRevisionRefFor E0 exRevised = Inr (sealedRef ''artifact_revision'' (ident0 ''wm_artifact_revision''))"
proof -
  have "getp (fld exRevised ''artifactContentRef'') ''projectId'' = Inr JUndef" by (simp add: fld_artifact getp_def ref0_def)
  moreover have "artifactExactRef ''artifact_revision'' exRevised ''artifactRevisionId'' JUndef
      = Inr (sealedRef ''artifact_revision'' (ident0 ''wm_artifact_revision''))"
    by (rule artifact_ref) (simp_all add: is_space_def)
  ultimately show ?thesis by (simp only: artifactRevisionRefFor_def exRevised_valid ebind_simps)
qed

definition nodeAt :: "jval \<Rightarrow> string \<Rightarrow> jval \<Rightarrow> jval" where
  "nodeAt r kind requirement = JObj [(''nodeId'', fld requirement ''requirementId''), (''requirementKind'', JStr kind),
     (''required'', JBool True), (''active'', JBool True), (''state'', JStr ''pending''),
     (''dependencyNodeIds'', fld requirement ''dependencyRequirementIds''),
     (''artifactRevisionRef'', r), (''requirement'', requirement)]"

lemma nodeAt_fields [simp]:
  "fld (nodeAt r kind requirement) ''nodeId'' = fld requirement ''requirementId''"
  "fld (nodeAt r kind requirement) ''requirementKind'' = JStr kind"
  "fld (nodeAt r kind requirement) ''required'' = JBool True" "fld (nodeAt r kind requirement) ''active'' = JBool True"
  "fld (nodeAt r kind requirement) ''state'' = JStr ''pending''"
  "fld (nodeAt r kind requirement) ''dependencyNodeIds'' = fld requirement ''dependencyRequirementIds''"
  "fld (nodeAt r kind requirement) ''artifactRevisionRef'' = r"
  "fld (nodeAt r kind requirement) ''requirement'' = requirement" "\<not> nullish (nodeAt r kind requirement)"
  by (simp_all add: nodeAt_def)

lemma nodeAt_made [simp]:
  "graphNode [] [] r witnessReq = nodeAt r ''mechanical_witness'' witnessReq"
  "graphNode [] [] r auditReq = nodeAt r ''semantic_audit'' auditReq"
  by (simp_all add: graphNode_def ruleActive_def nodeAt_def Let_def) (simp_all add: witnessReq_def auditReq_def)

lemma nodeAt_valid [simp]:
  "validateAssuranceNode E0 (sealedRef ''artifact_revision'' (ident0 ''wm_artifact_revision'')) (nodeAt (sealedRef ''artifact_revision'' (ident0 ''wm_artifact_revision'')) ''mechanical_witness'' witnessReq) = Inr True"
  "validateAssuranceNode E0 (sealedRef ''artifact_revision'' (ident0 ''wm_artifact_revision'')) (nodeAt (sealedRef ''artifact_revision'' (ident0 ''wm_artifact_revision'')) ''semantic_audit'' auditReq) = Inr True"
  "validateAssuranceNode E0 JNull (nodeAt JNull ''mechanical_witness'' witnessReq) = Inr True"
  "validateAssuranceNode E0 JNull (nodeAt JNull ''semantic_audit'' auditReq) = Inr True"
  by (simp_all add: validateAssuranceNode_def REQUIREMENT_KINDS_def REQUIREMENT_STATES_def exactRef_sealedRef getp_def is_space_def
    cong: lazy)

lemma nodeAt_edges [simp]: "graphEdges [nodeAt r ''mechanical_witness'' witnessReq, nodeAt r ''semantic_audit'' auditReq]
   = Inr [JObj [(''fromNodeId'', JStr ''m''), (''toNodeId'', JStr ''a'')]]"
  by (simp add: graphEdges_def)

lemma exRevised_truthy [simp]: "truthy exRevised"
  by (simp add: artifact_def seal_def spread_def set_fld_def)

lemma exPublishedGraph: "\<exists>g. buildAssuranceGraph E0 (JObj [
         (''constitution'', exConstitution), (''lifecycleId'', JStr ''L''), (''artifactRevision'', exRevised),
         (''settledProperties'', JObj []), (''now'', JUndef), (''createdAt'', JUndef)]) = Inr g
     \<and> assuranceGraphRef E0 g (JStr []) = Inr (sealedRef ''artifact_assurance_graph'' (ident0 ''wm_artifact_assurance_graph''))
     \<and> needsAudit g"
  by (simp add: buildAssuranceGraph_def Let_def optionalRef_def is_space_def
    validateAssuranceGraph_def sealed_eval join_states_def assuranceGraphRef_def artifact_ref needsAudit_def
    eforeach_def getp_def cong: lazy)
lemma ident0_long: "ident0 p \<noteq> [c]" "[c] \<noteq> ident0 p"
  by (simp_all add: ident0_def numeral_eq_Suc)

lemma exPublished: "\<exists>out. publishArtifactRevision E0 exPublication = Inr out"
proof -
  obtain g where g: "buildAssuranceGraph E0 (JObj [
         (''constitution'', exConstitution), (''lifecycleId'', JStr ''L''), (''artifactRevision'', exRevised),
         (''settledProperties'', JObj []), (''now'', JUndef), (''createdAt'', JUndef)]) = Inr g"
    and gr: "assuranceGraphRef E0 g (JStr []) = Inr (sealedRef ''artifact_assurance_graph'' (ident0 ''wm_artifact_assurance_graph''))"
    and n: "needsAudit g" using exPublishedGraph by blast
  have l: "\<exists>w. reviseArtifactLifecycleInstance E0 exProd (JObj [
         (''constitution'', exConstitution),
         (''currentArtifactRevisionRef'', sealedRef ''artifact_revision'' (ident0 ''wm_artifact_revision'')),
         (''assuranceGraphRef'', sealedRef ''artifact_assurance_graph'' (ident0 ''wm_artifact_assurance_graph'')),
         (''gateDecisionRef'', JNull), (''state'', JStr ''under_audit''), (''now'', JUndef), (''createdAt'', JUndef)]) = Inr w"
  by (simp add: is_space_def TERMINAL_LIFECYCLE_STATES_def one_of_def LIFECYCLE_STATES_def
    reviseArtifactLifecycleInstance_def buildArtifactLifecycleInstance_def revisedLifecycleInput_def own_or_def has_own_def
    exactRef_ref0 exactRef_sealedRef optionalRef_def js_or_num js_text_JStr counts Let_def sealed_eval
    validateArtifactLifecycleInstance_def detail_text_def cong: lazy)
  then obtain w where l: "reviseArtifactLifecycleInstance E0 exProd (JObj [
         (''constitution'', exConstitution),
         (''currentArtifactRevisionRef'', sealedRef ''artifact_revision'' (ident0 ''wm_artifact_revision'')),
         (''assuranceGraphRef'', sealedRef ''artifact_assurance_graph'' (ident0 ''wm_artifact_assurance_graph'')),
         (''gateDecisionRef'', JNull), (''state'', JStr ''under_audit''), (''now'', JUndef), (''createdAt'', JUndef)]) = Inr w" ..
  have v: "''supported'' \<in> set AUDIT_VERDICTS" by (simp add: AUDIT_VERDICTS_def)
  have sp: "fld exRevised ''settledProperties'' = JObj []" by (simp add: fld_artifact)
  show ?thesis
    by (simp add: publishArtifactRevision_def exPublication_def Let_def checkPreviousRevision_def exRevised_built sp g gr n l v
      publicationInvalidations_def buildAuditInvalidation_def exactRef_sealedRef is_space_def ident0_long cong: lazy)
qed
lemma exactRef_made:
  "trim k = k \<Longrightarrow> k \<noteq> [] \<Longrightarrow> trim i = i \<Longrightarrow> i \<noteq> [] \<Longrightarrow>
   exactRef (JObj [(''kind'', JStr k), (''id'', JStr i), (''digest'', JStr digest0), (''projectId'', JStr [])]) l = Inr (sealedRef k i)"
  by (simp add: exactRef_def Let_def sealedRef_def)

lemma made_words [simp]: "trim ''artifact_audit_assignment'' = ''artifact_audit_assignment''"
  "trim ''artifact_remand_obligation'' = ''artifact_remand_obligation''" "trim ''review_auditor'' = ''review_auditor''"
  by (simp_all add: trim_id is_space_def)

definition exAuditor :: jval where
  "exAuditor = JObj [(''agentRef'', ref0 ''u''), (''role'', JStr ''review_auditor''), (''independenceReceiptRef'', ref0 ''n''),
     (''currentLoad'', num 2), (''auditTypes'', JArr [JStr ''s''])]"

lemma exAuditor_fields [simp]:
  "fld exAuditor ''role'' = JStr ''review_auditor''" "fld exAuditor ''independenceReceiptRef'' = ref0 ''n''"
  "fld exAuditor ''active'' = JUndef" "fld exAuditor ''substrateAvailable'' = JUndef" "fld exAuditor ''budgetAvailable'' = JUndef"
  "fld exAuditor ''auditTypes'' = JArr [JStr ''s'']" "fld exAuditor ''visibleProjectIds'' = JUndef"
  "fld exAuditor ''agentRunRef'' = JUndef" "fld exAuditor ''conflictRefs'' = JUndef" "fld exAuditor ''boundedCapabilityNames'' = JUndef"
  "truthy exAuditor" "\<not> nullish exAuditor" "candidateAgentRef exAuditor l = Inr (ref0 ''u'')"
  by (simp_all add: exAuditor_def candidateAgentRef_def getp_def exactRef_ref0 is_space_def)

definition exRouting :: jval where
  "exRouting = JObj [(''constitution'', exConstitution), (''lifecycle'', exProd), (''artifactRevision'', exRevision),
     (''assuranceGraph'', exGraph), (''producerAssignment'', exAssignment), (''candidates'', JArr [exAuditor])]"

lemma exAuditorReasons [simp]: "auditorReasons E0 scope0 auditReq exAssignment exAuditor = Inr []"
  by (simp add: auditorReasons_def getp_def candidateIsInScope_def candidateConflictsWithProducer_def availabilityReasons_def
    is_space_def Let_def trim_id js_text_JStr same_value_zero_def)

lemma exPending [simp]: "pendingAuditNodes exGraph = [exNode ''semantic_audit'' auditReq]"
  by (simp add: pendingAuditNodes_def)

lemma exRouted: "\<exists>out a. resolveAuditRouting E0 exRouting = Inr out \<and> fld out ''assignments'' = JArr [a]"
  by (simp add: resolveAuditRouting_def exRouting_def Let_def routeNode_def eligibleAuditors_def sortedCandidates_def firstOrNull_def
    auditAssignmentFor_def buildAuditAssignment_def validateAuditAssignment_def optionalRef_def exactRef_ref0 exactRef_sealedRef
    is_space_def trim_id js_text_JStr stringList_def strings_def exactRef_made sealed_eval cong: lazy)

definition exRemand :: jval where
  "exRemand = JObj [(''constitution'', exConstitution), (''lifecycle'', exProd), (''artifactRevision'', exRevision),
     (''auditAssessments'', JArr [exAssessment ''requires_revision'']), (''remandThreshold'', num 3)]"

lemma exRemanded: "\<exists>out. createRemandRouting E0 exRemand = Inr out"
proof -
  have v: "''requires_revision'' \<in> set AUDIT_VERDICTS" by (simp add: AUDIT_VERDICTS_def)
  have l: "\<exists>w. reviseArtifactLifecycleInstance E0 exProd (JObj [
         (''constitution'', exConstitution), (''state'', JStr ''remanded''), (''remandCount'', num 1),
         (''budgetUsage'', spread (JObj [(''attempts'', num 0), (''remands'', num 0), (''audits'', num 0)]) [(''remands'', num 1)]),
         (''now'', JUndef), (''createdAt'', JUndef)]) = Inr w"
    by (simp add: is_space_def TERMINAL_LIFECYCLE_STATES_def one_of_def LIFECYCLE_STATES_def spread_def assign_all_def
      reviseArtifactLifecycleInstance_def buildArtifactLifecycleInstance_def revisedLifecycleInput_def own_or_def has_own_def
      exactRef_ref0 exactRef_sealedRef optionalRef_def js_or_num js_text_JStr counts Let_def sealed_eval
      validateArtifactLifecycleInstance_def detail_text_def cong: lazy)
  have t: "threshold E0 (num 3) 3 = Fin 3" "\<not> at_least E0 (num 1) (Fin 3)"
    by (simp_all add: threshold_def num_max0_def num_or_def at_least_def num_def del: JNum_numeral)
  from l obtain w where l: "reviseArtifactLifecycleInstance E0 exProd (JObj [
         (''constitution'', exConstitution), (''state'', JStr ''remanded''), (''remandCount'', num 1),
         (''budgetUsage'', spread (JObj [(''attempts'', num 0), (''remands'', num 0), (''audits'', num 0)]) [(''remands'', num 1)]),
         (''now'', JUndef), (''createdAt'', JUndef)]) = Inr w" ..
  show ?thesis
    using v by (simp add: createRemandRouting_def exRemand_def Let_def remandingAssessments_def remandObligationsOf_def
      buildRemandObligation_def exactRef_sealedRef is_space_def bounded_def exactRef_made getp_def l t
      sealed_eval cong: lazy)
qed
theorem producer_assignment_applied_witness:
  "\<exists>w. applyProducerAssignment E0 (JObj [(''constitution'', exConstitution), (''lifecycle'', exProd),
     (''assignment'', exAssignment)]) = Inr w \<and> lifecycle_step E0 exProd w \<and> fld (fld w ''budgetUsage'') ''attempts'' = num 1"
proof -
  obtain w where w: "applyProducerAssignment E0 (JObj [(''constitution'', exConstitution), (''lifecycle'', exProd),
     (''assignment'', exAssignment)]) = Inr w" using exApplied by blast
  show ?thesis using producer_assignment_applied [OF w, of 0] w by (intro exI [of _ w]) simp
qed

theorem publication_restarts_assurance_witness:
  "\<exists>out. publishArtifactRevision E0 exPublication = Inr out \<and> fld (fld out ''lifecycle'') ''gateDecisionRef'' = JNull
     \<and> fld (fld out ''graph'') ''joinState'' = JStr ''pending''"
proof -
  obtain out where o: "publishArtifactRevision E0 exPublication = Inr out" using exPublished by blast
  note r = publication_restarts_assurance [OF o]
  from r have "fld (fld out ''lifecycle'') ''gateDecisionRef'' = JNull" by (elim conjE)
  moreover from r have "fld (fld out ''graph'') ''joinState'' = JStr ''pending''" by (elim conjE)
  ultimately show ?thesis using o by (intro exI conjI)
qed

theorem publication_extends_lineage_witness:
  "\<exists>out. publishArtifactRevision E0 exPublication = Inr out \<and> fld (fld out ''revision'') ''revision'' = num 2"
proof -
  obtain out where o: "publishArtifactRevision E0 exPublication = Inr out" using exPublished by blast
  have p: "fld exPublication ''previousRevision'' = exRevision" by (simp add: exPublication_def)
  obtain i where i: "fld exRevision ''revision'' = num i" "fld (fld out ''revision'') ''revision'' = num (i + 1)"
    using publication_extends_lineage [OF o] unfolding p if_P [OF exRevision_fields(3)] by (elim exE conjE) (rule that; assumption)
  from i(1) have "num 1 = num i" by simp
  then have "i = 1" by (simp only: num_def jval.inject jnum.inject of_int_eq_iff)
  with i(2) have "fld (fld out ''revision'') ''revision'' = num (1 + 1)" by simp
  with o show ?thesis by (intro exI conjI) simp_all
qed

theorem replaced_revision_audits_go_stale_witness:
  "\<exists>out i. publishArtifactRevision E0 exPublication = Inr out \<and> fld out ''invalidations'' = JArr [i]
     \<and> fld i ''priorAssessmentStanding'' = JStr ''stale''"
proof -
  obtain out where o: "publishArtifactRevision E0 exPublication = Inr out" using exPublished by blast
  have p: "fld exPublication ''previousRevision'' = exRevision"
    "elems (fld exPublication ''priorAuditAssessments'') = [exAssessment ''supported'']" by (simp_all add: exPublication_def)
  have t: "truthy (fld exPublication ''previousRevision'')" by (simp add: p)
  from replaced_revision_audits_go_stale [OF o t] have
    "\<exists>i. fld out ''invalidations'' = JArr [i] \<and> fld i ''priorAssessmentStanding'' = JStr ''stale''"
    by (auto simp: p list_all2_Cons1)
  with o show ?thesis by blast
qed

theorem auditors_are_independent_witness:
  "\<exists>out a. resolveAuditRouting E0 exRouting = Inr out \<and> a \<in> set (elems (fld out ''assignments''))
     \<and> \<not> exactRefMatches (fld a ''auditorAgentRef'') (ref0 ''x'')"
proof -
  obtain out a where o: "resolveAuditRouting E0 exRouting = Inr out" and a: "fld out ''assignments'' = JArr [a]"
    using exRouted by blast
  have m: "a \<in> set (elems (fld out ''assignments''))" by (simp add: a)
  have "fld (fld exRouting ''producerAssignment'') ''producerAgentRef'' = ref0 ''x''" by (simp add: exRouting_def)
  with auditors_are_independent [OF o m] have "\<not> exactRefMatches (fld a ''auditorAgentRef'') (ref0 ''x'')" by auto
  with o m show ?thesis by blast
qed

theorem routing_is_complete_witness:
  "\<exists>out. resolveAuditRouting E0 exRouting = Inr out
     \<and> length (elems (fld out ''assignments'')) + length (elems (fld (fld out ''plan'') ''unresolved'')) = 1"
proof -
  obtain out where o: "resolveAuditRouting E0 exRouting = Inr out" using exRouted by blast
  have "pendingAuditNodes (fld exRouting ''assuranceGraph'') = [exNode ''semantic_audit'' auditReq]" by (simp add: exRouting_def)
  then show ?thesis using routing_is_complete [OF o, THEN conjunct1] o by (intro exI [of _ out]) simp
qed

theorem remand_counts_and_escalates_witness:
  "\<exists>out. createRemandRouting E0 exRemand = Inr out \<and> fld (fld out ''lifecycle'') ''remandCount'' = num 1
     \<and> fld out ''escalation'' = JNull"
proof -
  obtain out where o: "createRemandRouting E0 exRemand = Inr out" using exRemanded by blast
  have c: "fld (fld exRemand ''lifecycle'') ''remandCount'' = num 0" by (simp add: exRemand_def)
  have t: "threshold E0 (fld exRemand ''remandThreshold'') 3 = Fin (of_int 3)"
    by (simp add: exRemand_def threshold_def num_max0_def num_or_def num_def del: JNum_numeral)
  from remand_counts_and_escalates [OF o c _ t] o show ?thesis by auto
qed

theorem remand_obligations_from_audits_witness:
  "\<exists>out obligations. createRemandRouting E0 exRemand = Inr out \<and> fld out ''obligations'' = JArr obligations
     \<and> (\<exists>ob\<in>set obligations. fld ob ''obligation'' = JStr ''o'')"
proof -
  obtain out where o: "createRemandRouting E0 exRemand = Inr out" using exRemanded by blast
  have a: "elems (fld exRemand ''auditAssessments'') = [exAssessment ''requires_revision'']"
    "artifactRevisionRefFor E0 (fld exRemand ''artifactRevision'') = Inr (sealedRef ''artifact_revision'' ''v'')"
    by (simp_all add: exRemand_def)
  have "bounded (JStr ''o'') [] 800 = ''o''" by (simp add: bounded_def Let_def is_space_def)
  with remand_obligations_from_audits [OF o] o show ?thesis by (auto simp: a)
qed
definition exRequest :: jval where
  "exRequest = JObj [(''constitution'', exConstitution), (''lifecycleId'', JStr ''L''), (''requestRef'', ref0 ''q''),
     (''subjectScope'', scope0)]"

lemma exInitialGraph: "\<exists>g. buildAssuranceGraph E0 (JObj [
         (''constitution'', exConstitution), (''lifecycleId'', JStr ''L''),
         (''settledProperties'', JObj []), (''now'', JUndef)]) = Inr g
     \<and> assuranceGraphRef E0 g (JStr []) = Inr (sealedRef ''artifact_assurance_graph'' (ident0 ''wm_artifact_assurance_graph''))"
  by (simp add: buildAssuranceGraph_def Let_def optionalRef_def is_space_def
    validateAssuranceGraph_def sealed_eval join_states_def assuranceGraphRef_def artifact_ref
    eforeach_def getp_def cong: lazy)

text \<open>A runtime initialises a lifecycle and its first operation assigns a producer.\<close>

definition exFresh :: jval where
  "exFresh = artifact E0 ARTIFACT_LIFECYCLE_INSTANCE_SCHEMA ''lifecycleInstanceRevisionId'' (ident0 ''wm_artifact_lifecycle_revision'')
     [(''lifecycleId'', JStr ''L''), (''lifecycleRevision'', num 1), (''predecessorRef'', JNull),
      (''artifactTypeConstitutionRef'', sealedRef ''artifact_type_constitution'' ''c''), (''pinnedConstitutionRevision'', num 1),
      (''requestRef'', ref0 ''q''), (''subjectScope'', scope0), (''producerAssignmentRef'', JNull), (''currentArtifactRevisionRef'', JNull),
      (''assuranceGraphRef'', sealedRef ''artifact_assurance_graph'' (ident0 ''wm_artifact_assurance_graph'')),
      (''gateDecisionRef'', JNull), (''state'', JStr ''requested''), (''remandCount'', num 0),
      (''budgetUsage'', JObj [(''attempts'', num 0), (''remands'', num 0), (''audits'', num 0)]),
      (''terminal'', JBool False), (''canonicalAdmissionEffect'', JBool False), (''createdAt'', JStr ''T'')]"

lemma exFresh_fields [simp]:
  "fld exFresh ''schema'' = JStr ARTIFACT_LIFECYCLE_INSTANCE_SCHEMA"
  "fld exFresh ''lifecycleInstanceRevisionId'' = JStr (ident0 ''wm_artifact_lifecycle_revision'')"
  "fld exFresh ''lifecycleId'' = JStr ''L''" "fld exFresh ''lifecycleRevision'' = num 1" "fld exFresh ''predecessorRef'' = JNull"
  "fld exFresh ''artifactTypeConstitutionRef'' = sealedRef ''artifact_type_constitution'' ''c''" "fld exFresh ''requestRef'' = ref0 ''q''"
  "fld exFresh ''subjectScope'' = scope0" "fld exFresh ''producerAssignmentRef'' = JNull" "fld exFresh ''currentArtifactRevisionRef'' = JNull"
  "fld exFresh ''assuranceGraphRef'' = sealedRef ''artifact_assurance_graph'' (ident0 ''wm_artifact_assurance_graph'')"
  "fld exFresh ''gateDecisionRef'' = JNull" "fld exFresh ''state'' = JStr ''requested''" "fld exFresh ''remandCount'' = num 0"
  "fld exFresh ''budgetUsage'' = JObj [(''attempts'', num 0), (''remands'', num 0), (''audits'', num 0)]"
  "fld exFresh ''terminal'' = JBool False" "fld exFresh ''canonicalAdmissionEffect'' = JBool False" "fld exFresh ''digest'' = JStr digest0"
  "isPlainObject exFresh"
  by (simp_all add: exFresh_def fld_artifact)

lemma exFresh_object [simp]: "\<not> nullish exFresh" "truthy exFresh"
proof -
  obtain fs where e: "exFresh = JObj fs" using isPlainObjectE [OF exFresh_fields(19)] by blast
  show "\<not> nullish exFresh" "truthy exFresh" unfolding e by simp_all
qed

lemma exFresh_valid [simp]: "validateArtifactLifecycleInstance E0 exFresh = Inr True"
  by (simp add: validateArtifactLifecycleInstance_def validateArtifact_def exactRef_ref0 exactRef_sealedRef is_space_def
    LIFECYCLE_STATES_def TERMINAL_LIFECYCLE_STATES_def revision_bearing_states_def one_of_def detail_text_def)

lemma exFresh_ref [simp]: "artifactLifecycleInstanceRef E0 exFresh
     = Inr (sealedRef ''artifact_lifecycle_instance'' (ident0 ''wm_artifact_lifecycle_revision''))"
  by (simp add: artifactLifecycleInstanceRef_def artifactExactRef_def getp_def exactRef_def sealedRef_def Let_def is_space_def)

lemma exFresh_built: "buildArtifactLifecycleInstance E0 (JObj [
         (''constitution'', exConstitution), (''lifecycleId'', JStr ''L''), (''requestRef'', ref0 ''q''),
         (''subjectScope'', scope0),
         (''assuranceGraphRef'', sealedRef ''artifact_assurance_graph'' (ident0 ''wm_artifact_assurance_graph'')),
         (''state'', JStr ''requested''), (''now'', JUndef)]) = Inr exFresh"
  unfolding exFresh_def
  by (simp add: is_space_def TERMINAL_LIFECYCLE_STATES_def one_of_def LIFECYCLE_STATES_def revision_bearing_states_def trim_id
    buildArtifactLifecycleInstance_def exactRef_ref0 exactRef_sealedRef optionalRef_def js_or_num js_text_JStr counts Let_def sealed_eval
    validateArtifactLifecycleInstance_def detail_text_def cong: lazy)

lemma exInitialised: "\<exists>out. runtimeInitialize E0 \<lparr>clock = JUndef\<rparr> exRequest = Inr out \<and> fld out ''lifecycle'' = exFresh"
proof -
  obtain g where g: "buildAssuranceGraph E0 (JObj [
         (''constitution'', exConstitution), (''lifecycleId'', JStr ''L''),
         (''settledProperties'', JObj []), (''now'', JUndef)]) = Inr g"
    and gr: "assuranceGraphRef E0 g (JStr []) = Inr (sealedRef ''artifact_assurance_graph'' (ident0 ''wm_artifact_assurance_graph''))"
    using exInitialGraph by blast
  show ?thesis
    by (simp add: runtimeInitialize_def exRequest_def Let_def g gr exFresh_built is_space_def cong: lazy)
qed

definition exAssign :: jval where
  "exAssign = JObj [(''constitution'', exConstitution), (''lifecycle'', exFresh), (''assignment'', exAssignment)]"

lemma exAssigned: "\<exists>w. runtimeApplyProducerAssignment E0 \<lparr>clock = JUndef\<rparr> exAssign = Inr w"
proof -
  have f: "defaulted (withClock \<lparr>clock = JUndef\<rparr> exAssign) = Inr (withClock \<lparr>clock = JUndef\<rparr> exAssign)" by (simp add: withClock_def spread_def)
  have c: "fld (withClock \<lparr>clock = JUndef\<rparr> exAssign) ''constitution'' = exConstitution" "fld (withClock \<lparr>clock = JUndef\<rparr> exAssign) ''lifecycle'' = exFresh"
    "fld (withClock \<lparr>clock = JUndef\<rparr> exAssign) ''assignment'' = exAssignment" "fld (withClock \<lparr>clock = JUndef\<rparr> exAssign) ''now'' = JUndef"
    "fld (withClock \<lparr>clock = JUndef\<rparr> exAssign) ''createdAt'' = JUndef"
    by (simp_all add: fld_withClock exAssign_def)
  show ?thesis
    by (simp add: runtimeApplyProducerAssignment_def applyProducerAssignment_def f c Let_def is_space_def TERMINAL_LIFECYCLE_STATES_def one_of_def spread_def assign_all_def
      reviseArtifactLifecycleInstance_def buildArtifactLifecycleInstance_def revisedLifecycleInput_def own_or_def has_own_def
      exactRef_ref0 exactRef_sealedRef optionalRef_def js_or_num js_text_JStr counts getp_def sealed_eval
      validateArtifactLifecycleInstance_def detail_text_def revision_bearing_states_def cong: lazy)
qed

theorem runtime_never_admits_witness:
  "\<exists>out w. runtimeInitialize E0 \<lparr>clock = JUndef\<rparr> exRequest = Inr out
     \<and> runtimeApplyProducerAssignment E0 \<lparr>clock = JUndef\<rparr> exAssign = Inr w
     \<and> fld exAssign ''lifecycle'' = fld out ''lifecycle''
     \<and> revision_number ''lifecycleRevision'' w = 2 \<and> same_lifecycle (fld out ''lifecycle'') w \<and> fld w ''terminal'' = JBool False"
proof -
  obtain out where o: "runtimeInitialize E0 \<lparr>clock = JUndef\<rparr> exRequest = Inr out" "fld out ''lifecycle'' = exFresh" using exInitialised by blast
  obtain w where w: "runtimeApplyProducerAssignment E0 \<lparr>clock = JUndef\<rparr> exAssign = Inr w" using exAssigned by blast
  have l: "fld exAssign ''lifecycle'' = fld out ''lifecycle''" by (simp add: exAssign_def o(2))
  have "(runtime_step E0 \<lparr>clock = JUndef\<rparr> ^^ 1) (fld out ''lifecycle'') w"
    unfolding relpowp_1 l [symmetric] by (rule runtime_step.assign [OF w])
  from runtime_never_admits [OF o(1) this] have
    "revision_number ''lifecycleRevision'' w = 2" "same_lifecycle (fld out ''lifecycle'') w" "fld w ''terminal'' = JBool False"
    by simp_all
  with o(1) w l show ?thesis by (intro exI conjI)
qed

end
