(* ===== verification/ScenarioLedger.thy ===== *)
theory ScenarioLedger
  imports LedgerProperties Scenario
begin

text \<open>
  Witnesses for the ledger: in the host \<open>EL\<close> an act type is registered in the empty store, an
  observation is appended with one delivery, appended again, contradicted, delivered, and the
  store is restarted.
\<close>

subsection \<open>A host\<close>

text \<open>
  The host of \<open>Scenario\<close>, except that its digests tell some append intents apart, by the length
  of their text.
\<close>

definition intentDomain :: string where
  "intentDomain = ''direct_epistemic_ledger_append_intent@1''"

definition EL :: jsenv where
  "EL = E0\<lparr>sha256hex := (\<lambda>s. replicate 64 (if takeWhile (\<lambda>c. c \<noteq> CHR 0x00) s = intentDomain \<and> length s mod 4 < 2
     then CHR ''1'' else CHR ''0''))\<rparr>"

lemma sha_EL: "sha_ok EL"
  by (simp add: sha_ok_def EL_def)

lemma digest_domain: "CHR 0x00 \<notin> set d \<Longrightarrow> digestFor EL d v om = (if d = intentDomain \<and> (length d + 1 + length (stringified EL (stableValue om v))) mod 4 < 2
     then ''sha256:'' @ replicate 64 (CHR ''1'') else digest0)"
proof -
  assume "CHR 0x00 \<notin> set d"
  then have "takeWhile (\<lambda>c. c \<noteq> CHR 0x00) (d @ [CHR 0x00] @ t) = d" for t
    by (subst takeWhile_append2) auto
  moreover have "sha256hex EL s = replicate 64 (if takeWhile (\<lambda>c. c \<noteq> CHR 0x00) s = intentDomain \<and> length s mod 4 < 2
     then CHR ''1'' else CHR ''0'')" for s by (simp add: EL_def)
  ultimately show ?thesis by (cases "d = intentDomain") (simp_all add: digestFor_def digest0_def)
qed

lemma ledger_domains [simp]:
  "digestFor EL LEDGER_ACT_TYPE_CONSTITUTION_SCHEMA v om = digest0" "digestFor EL EPISTEMIC_LEDGER_EVENT_SCHEMA v om = digest0"
  "digestFor EL LEDGER_WRITE_RECEIPT_SCHEMA v om = digest0" "digestFor EL MATERIALIZED_EPISTEMIC_PROJECTION_SCHEMA v om = digest0"
  "digestFor EL LEDGER_DELIVERY_OUTBOX_SEED_SCHEMA v om = digest0" "digestFor EL ''direct_epistemic_ledger_genesis@1'' v om = digest0"
  "digestFor EL ''ledger_event@1'' v om = digest0" "digestFor EL ''ledger_outbox@1'' v om = digest0" "digestFor EL ''ledger_receipt@1'' v om = digest0"
  "digestFor EL ''ledger_projection@1'' v om = digest0"
  by (simp_all add: digest_domain intentDomain_def LEDGER_ACT_TYPE_CONSTITUTION_SCHEMA_def EPISTEMIC_LEDGER_EVENT_SCHEMA_def LEDGER_WRITE_RECEIPT_SCHEMA_def
    MATERIALIZED_EPISTEMIC_PROJECTION_SCHEMA_def LEDGER_DELIVERY_OUTBOX_SEED_SCHEMA_def)

subsection \<open>An act type\<close>

lemma exactRef_ledger0 [simp]: "trim i = i \<Longrightarrow> i \<noteq> [] \<Longrightarrow> ledgerExactRef E (ref0 i) l = Inr (ref0 i)"
  by (simp add: ledgerExactRef_def ref0_def Let_def is_space_def ledgerBounded_def to_number_def isInteger_def)

definition exAct :: jval where
  "exAct = JObj [(''schema'', JStr LEDGER_ACT_TYPE_CONSTITUTION_SCHEMA), (''actTypeId'', JStr ''a''), (''revision'', num 1),
     (''operationName'', JStr ''o''), (''actClass'', JStr ''observation''), (''authorshipKinds'', JArr [JStr ''semantic_role'']),
     (''allowedRights'', JArr []), (''allowedRoleLanes'', JArr []), (''typedPayloadSchema'', JStr ''p''),
     (''defaultEpistemicPosture'', JStr ''observed''), (''defaultAuthorityPosture'', JStr ''descriptive''),
     (''rendererSafeLabel'', JStr ''l''), (''canonicalAdmissionCapable'', JBool False), (''admittedByRef'', JNull),
     (''createdAt'', JStr ''T''), (''rawChainOfThoughtIncluded'', JBool False), (''rawSecretIncluded'', JBool False),
     (''digest'', JStr digest0)]"

lemma exAct_fields [simp]:
  "fld exAct ''schema'' = JStr LEDGER_ACT_TYPE_CONSTITUTION_SCHEMA" "fld exAct ''actTypeId'' = JStr ''a''" "fld exAct ''revision'' = num 1"
  "fld exAct ''operationName'' = JStr ''o''" "fld exAct ''actClass'' = JStr ''observation''"
  "fld exAct ''authorshipKinds'' = JArr [JStr ''semantic_role'']" "fld exAct ''allowedRights'' = JArr []"
  "fld exAct ''allowedRoleLanes'' = JArr []" "fld exAct ''typedPayloadSchema'' = JStr ''p''"
  "fld exAct ''defaultEpistemicPosture'' = JStr ''observed''" "fld exAct ''defaultAuthorityPosture'' = JStr ''descriptive''"
  "fld exAct ''rendererSafeLabel'' = JStr ''l''" "fld exAct ''canonicalAdmissionCapable'' = JBool False"
  "fld exAct ''admittedByRef'' = JNull" "fld exAct ''createdAt'' = JStr ''T''" "fld exAct ''rawChainOfThoughtIncluded'' = JBool False"
  "fld exAct ''rawSecretIncluded'' = JBool False" "fld exAct ''digest'' = JStr digest0"
  "isPlainObject exAct" "truthy exAct" "defaulted exAct = Inr exAct" "dflt exAct = exAct"
  by (simp_all add: exAct_def dflt_def)

lemma exAct_json [simp]: "jsonic exAct"
  unfolding exAct_def by (rule jsonic_JObj) simp

definition exActRef :: jval where
  "exActRef = madeRef ''ledger_act_type_constitution'' ''a@1'' digest0 ''l'' [] 1"

lemma exAct_valid [simp]: "validateLedgerActTypeConstitution EL exAct = Inr True"
  by (simp add: validateLedgerActTypeConstitution_def is_space_def one_of_def ACT_CLASSES_def AUTHORSHIP_KINDS_def
    EPISTEMIC_POSTURES_def AUTHORITY_POSTURES_def)

lemma one_text [simp]: "js_string E (num 1) = ''1''"
  by (simp add: num_def rat_text_def is_integral_def int_text_def nat_text.simps del: JNum_numeral)

lemma exAct_ref [simp]: "ledgerActTypeConstitutionRef EL exAct = Inr exActRef"
  by (simp add: ledgerActTypeConstitutionRef_def exActRef_def one_text) (simp add: ledgerExactRef_def Let_def madeRef_def trim_id is_space_def ledgerBounded_def)

definition exLedger1 :: ledger_store where
  "exLedger1 = emptyStore\<lparr>act_rows := [constitutionRow EL exActRef exAct]\<rparr>"

lemma exActRef_fields [simp]: "fld exActRef ''id'' = JStr ''a@1''"
  by (simp add: exActRef_def)

lemma exRegistered: "\<exists>out. registerActTypeConstitution EL emptyStore exAct = Inr (out, exLedger1)"
  by (simp add: registerActTypeConstitution_def assertWritable_def emptyStore_def exLedger1_def insertRow_def LEDGER_ACT_TYPE_CONSTITUTION_SCHEMA_def)

lemma same_clock: "EL\<lparr>date_now := (\<lambda>_. 1)\<rparr> = EL"
  by (simp add: EL_def E0_def)

lemma exHistory1: "ledger_history EL msg emptyStore exLedger1"
proof -
  obtain out where "registerActTypeConstitution (EL\<lparr>date_now := (\<lambda>_. 1)\<rparr>) emptyStore exAct = Inr (out, exLedger1)"
    using exRegistered by (auto simp: same_clock)
  then have "ledger_op EL msg emptyStore exLedger1" by (rule ledger_op.register) simp
  then show ?thesis by blast
qed

lemma exLedger1_writable [simp]: "readOnlyDiagnosis exLedger1 = JNull" "outbox_rows exLedger1 = []" "event_rows exLedger1 = []"
  "receipt_rows exLedger1 = []" "head_rows exLedger1 = []" "membership_rows exLedger1 = []"
  "act_rows exLedger1 = [constitutionRow EL exActRef exAct]"
  by (simp_all add: exLedger1_def emptyStore_def)

subsection \<open>An observation with one delivery\<close>

definition exIntent :: "string \<Rightarrow> jval" where
  "exIntent kind = JObj [(''streamRefs'', JArr [JStr ''world:w'']),
     (''actTypeRef'', JObj [(''kind'', JStr ''ledger_act_type_constitution''), (''id'', JStr ''a@1''), (''digest'', JStr digest0)]),
     (''authorshipKind'', JStr ''semantic_role''), (''actorRef'', ref0 ''x''), (''roleLaneRef'', ref0 ''r''),
     (''subjectScope'', JObj [(''kind'', JStr ''user_world'')]), (''typedPayload'', JObj []), (''epistemicPosture'', JStr kind),
     (''rendererSafeSummary'', JStr ''s''), (''idempotencyKey'', JStr ''i''), (''operationScope'', JStr ''o''),
     (''outboxSeeds'', JArr [JObj [(''subscriptionRef'', ref0 ''u''), (''recipientRef'', ref0 ''v'')]])]"

definition exNormal :: "string \<Rightarrow> jval" where
  "exNormal kind = JObj [
       (''streamRefs'', JArr [JObj [(''schema'', JStr LEDGER_STREAM_REF_SCHEMA), (''streamType'', JStr ''world''),
          (''streamId'', JStr ''w''), (''streamKey'', JStr ''world:w'')]]),
       (''actTypeRef'', sealedRef ''ledger_act_type_constitution'' ''a@1''),
       (''actClass'', JStr ''observation''), (''authorshipKind'', JStr ''semantic_role''),
       (''actorRef'', ref0 ''x''), (''roleLaneRef'', ref0 ''r''), (''agentRunRef'', JNull),
       (''subjectScope'', JObj [(''kind'', JStr ''user_world''), (''userWorldId'', JStr ''user_world_local''), (''projectId'', JStr []),
          (''taskType'', JStr []), (''taskId'', JStr []), (''workThreadId'', JStr []), (''artifactLifecycleId'', JStr [])]),
       (''objectRefs'', JArr []), (''artifactLifecycleRef'', JNull), (''evidenceRefs'', JArr []), (''affectsRefs'', JArr []),
       (''sourceEventRefs'', JArr []), (''expectedRevisionVector'', JArr []),
       (''epistemicPosture'', JStr kind), (''authorityPosture'', JStr ''descriptive''), (''typedPayloadSchema'', JStr ''p''),
       (''typedPayload'', JObj []), (''rendererSafeSummary'', JStr ''s''), (''idempotencyKey'', JStr ''i''), (''operationScope'', JStr ''o''),
       (''affectedContextRefs'', JArr []), (''lifecycleTransitionRefs'', JArr [])]"

lemma exWords [simp]: "trim ''observed'' = ''observed''" "trim ''challenged'' = ''challenged''" "trim ''observation'' = ''observation''"
  "trim ''descriptive'' = ''descriptive''" "trim ''semantic_role'' = ''semantic_role''" "trim ''world'' = ''world''" "trim ''a@1'' = ''a@1''"
  "trim ''ledger_act_type_constitution'' = ''ledger_act_type_constitution''" "trim ''user_world_local'' = ''user_world_local''"
  by (simp_all add: trim_id is_space_def)

lemma exIntent_fields [simp]:
  "fld (exIntent kind) ''streamRefs'' = JArr [JStr ''world:w'']"
  "fld (exIntent kind) ''actTypeRef'' = sealedRef ''ledger_act_type_constitution'' ''a@1''"
  "fld (exIntent kind) ''actClass'' = JUndef" "fld (exIntent kind) ''authorityPosture'' = JUndef" "fld (exIntent kind) ''typedPayloadSchema'' = JUndef"
  "fld (exIntent kind) ''authorshipKind'' = JStr ''semantic_role''" "fld (exIntent kind) ''actorRef'' = ref0 ''x''"
  "fld (exIntent kind) ''roleLaneRef'' = ref0 ''r''" "fld (exIntent kind) ''agentRunRef'' = JUndef"
  "fld (exIntent kind) ''subjectScope'' = JObj [(''kind'', JStr ''user_world'')]" "fld (exIntent kind) ''objectRefs'' = JUndef"
  "fld (exIntent kind) ''artifactLifecycleRef'' = JUndef" "fld (exIntent kind) ''evidenceRefs'' = JUndef" "fld (exIntent kind) ''affectsRefs'' = JUndef"
  "fld (exIntent kind) ''sourceEventRefs'' = JUndef" "fld (exIntent kind) ''expectedRevisionVector'' = JUndef"
  "fld (exIntent kind) ''affectedContextRefs'' = JUndef" "fld (exIntent kind) ''lifecycleTransitionRefs'' = JUndef"
  "fld (exIntent kind) ''typedPayload'' = JObj []" "fld (exIntent kind) ''epistemicPosture'' = JStr kind"
  "fld (exIntent kind) ''rendererSafeSummary'' = JStr ''s''" "fld (exIntent kind) ''idempotencyKey'' = JStr ''i''"
  "fld (exIntent kind) ''operationScope'' = JStr ''o''"
  "fld (exIntent kind) ''outboxSeeds'' = JArr [JObj [(''subscriptionRef'', ref0 ''u''), (''recipientRef'', ref0 ''v'')]]"
  "defaulted (exIntent kind) = Inr (exIntent kind)"
  by (simp_all add: exIntent_def sealedRef_def)

lemma exactRef_sealed0 [simp]: "trim k = k \<Longrightarrow> k \<noteq> [] \<Longrightarrow> trim i = i \<Longrightarrow> i \<noteq> [] \<Longrightarrow> ledgerExactRef E (sealedRef k i) l = Inr (sealedRef k i)"
  by (simp add: ledgerExactRef_def sealedRef_def Let_def ledgerBounded_def to_number_def isInteger_def)

lemma exStreams [simp]: "uniqueStreamRefs (JArr [JStr ''world:w'']) = Inr [JObj [(''schema'', JStr LEDGER_STREAM_REF_SCHEMA),
     (''streamType'', JStr ''world''), (''streamId'', JStr ''w''), (''streamKey'', JStr ''world:w'')]]"
  by (simp add: uniqueStreamRefs_def buildLedgerStreamRef_def splitStreamKey_def STREAM_TYPES_def Let_def is_space_def)

lemma exScope [simp]: "normalizeSemanticScope (JObj [(''kind'', JStr ''user_world'')]) = Inr (fld (exNormal kind) ''subjectScope'')"
  by (simp add: normalizeSemanticScope_def requirePlainObject_def SCOPE_KINDS_def Let_def exNormal_def dflt_def)

lemma exLists [simp]: "ledgerUniqueRefs E (orEmpty JUndef) l = Inr []" "normalizeRevisionVector E (orEmpty JUndef) = Inr []"
  "ledgerOptionalRef E JUndef l = Inr JNull" "orEmpty (JArr vs) = JArr vs"
  by (simp_all add: ledgerUniqueRefs_def orEmpty_def normalizeRevisionVector_def ledgerOptionalRef_def)

lemma exIntent_normal:
  assumes "kind = ''observed'' \<or> kind = ''challenged''"
  shows "normalizeLedgerAppendIntent EL (spread (exIntent kind) [(''actClass'', JStr ''observation''), (''epistemicPosture'', JStr kind),
       (''authorityPosture'', JStr ''descriptive''), (''typedPayloadSchema'', JStr ''p'')]) = Inr (exNormal kind)"
  using assms
  by (auto simp: normalizeLedgerAppendIntent_def fld_spread exScope [of kind] requirePlainObject_def
    ACT_CLASSES_def AUTHORSHIP_KINDS_def EPISTEMIC_POSTURES_def AUTHORITY_POSTURES_def ledgerBounded_def Let_def is_space_def exNormal_def own_entries_def)

lemma exPrepared:
  assumes "kind = ''observed'' \<or> kind = ''challenged''"
  shows "prepareAppendInput EL exLedger1 (exIntent kind) = Inr (exNormal kind)"
proof -
  have act: "getActTypeConstitution EL exLedger1 (sealedRef ''ledger_act_type_constitution'' ''a@1'') = Inr exAct"
    by (simp add: getActTypeConstitution_def sealedRef_def constitutionRow_def strict_eq_def)
  have k: "js_text (JStr kind) fb = kind" for fb using assms by auto
  have "fld (exNormal kind) ''actClass'' = JStr ''observation''" "fld (exNormal kind) ''authorshipKind'' = JStr ''semantic_role''"
    "fld (exNormal kind) ''typedPayloadSchema'' = JStr ''p''" "fld (exNormal kind) ''authorityPosture'' = JStr ''descriptive''"
    by (simp_all add: exNormal_def)
  then show ?thesis
    by (simp add: prepareAppendInput_def act k exIntent_normal [OF assms] strict_eq_def cong: lazy)
qed

definition exStream :: jval where
  "exStream = JObj [(''schema'', JStr LEDGER_STREAM_REF_SCHEMA), (''streamType'', JStr ''world''), (''streamId'', JStr ''w''), (''streamKey'', JStr ''world:w'')]"

definition exSubject :: jval where
  "exSubject = JObj [(''kind'', JStr ''user_world''), (''userWorldId'', JStr ''user_world_local''), (''projectId'', JStr []),
          (''taskType'', JStr []), (''taskId'', JStr []), (''workThreadId'', JStr []), (''artifactLifecycleId'', JStr [])]"

lemma exNormal_fields [simp]:
  "fld (exNormal kind) ''streamRefs'' = JArr [exStream]"
  "fld (exNormal kind) ''actTypeRef'' = sealedRef ''ledger_act_type_constitution'' ''a@1''"
  "fld (exNormal kind) ''actClass'' = JStr ''observation''" "fld (exNormal kind) ''authorityPosture'' = JStr ''descriptive''"
  "fld (exNormal kind) ''typedPayloadSchema'' = JStr ''p''"
  "fld (exNormal kind) ''authorshipKind'' = JStr ''semantic_role''" "fld (exNormal kind) ''actorRef'' = ref0 ''x''"
  "fld (exNormal kind) ''roleLaneRef'' = ref0 ''r''" "fld (exNormal kind) ''agentRunRef'' = JNull"
  "fld (exNormal kind) ''subjectScope'' = exSubject" "fld (exNormal kind) ''objectRefs'' = JArr []"
  "fld (exNormal kind) ''artifactLifecycleRef'' = JNull" "fld (exNormal kind) ''evidenceRefs'' = JArr []" "fld (exNormal kind) ''affectsRefs'' = JArr []"
  "fld (exNormal kind) ''sourceEventRefs'' = JArr []" "fld (exNormal kind) ''expectedRevisionVector'' = JArr []"
  "fld (exNormal kind) ''affectedContextRefs'' = JArr []" "fld (exNormal kind) ''lifecycleTransitionRefs'' = JArr []"
  "fld (exNormal kind) ''typedPayload'' = JObj []" "fld (exNormal kind) ''epistemicPosture'' = JStr kind"
  "fld (exNormal kind) ''rendererSafeSummary'' = JStr ''s''" "fld (exNormal kind) ''idempotencyKey'' = JStr ''i''"
  "fld (exNormal kind) ''operationScope'' = JStr ''o''"
  "defaulted (exNormal kind) = Inr (exNormal kind)" "isPlainObject (exNormal kind)"
  by (simp_all add: exNormal_def exStream_def exSubject_def)

lemma restab_ref0 [simp]: "restab (ref0 i) = ref0 i" "restab (sealedRef k i) = sealedRef k i"
  by (simp_all add: restab_def madeRef_def ref0_def sealedRef_def)

lemma restab_exNormal: "restabIntent (exNormal kind) = exNormal kind"
  unfolding restabIntent_def exNormal_fields
  by (simp add: exNormal_def exStream_def exSubject_def restabOpt_def restabs_def restabVector_def is_space_def)

lemma exNormal_again: "kind = ''observed'' \<or> kind = ''challenged'' \<Longrightarrow> normalizeLedgerAppendIntent EL (exNormal kind) = Inr (exNormal kind)"
  using normalize_twice(1) [OF exIntent_normal] by (simp add: restab_exNormal)

lemma genesis0 [simp]: "LEDGER_GENESIS_DIGEST EL = digest0"
  by (simp add: LEDGER_GENESIS_DIGEST_def)

definition exEvent :: "string \<Rightarrow> jval" where
  "exEvent kind = event_of EL (exNormal kind) 1 digest0 ''T''"

definition ident32 :: "string \<Rightarrow> string" where
  "ident32 p = p @ ''_'' @ replicate 32 (CHR ''0'')"

lemma stableIdN0 [simp]: "stableIdN EL ''ledger_event'' v 32 = ident32 ''ledger_event''"
  "stableIdN EL ''ledger_outbox'' v 32 = ident32 ''ledger_outbox''" "stableIdN EL ''ledger_receipt'' v 32 = ident32 ''ledger_receipt''"
  "stableIdN EL ''ledger_projection'' v 32 = ident32 ''ledger_projection''"
  by (simp_all add: stableIdN_def ident32_def) (simp_all add: digest0_def)

lemma ident32_trim [simp]: "p \<noteq> [] \<Longrightarrow> \<not> is_space (hd p) \<Longrightarrow> trim (ident32 p) = ident32 p" "ident32 p \<noteq> []"
  by (simp_all add: ident32_def trim_id is_space_def hd_append)

lemma exEvent_ids: "fld (exEvent kind) ''ledgerEventId'' = JStr (ident32 ''ledger_event'')"
  "fld (exEvent kind) ''eventDigest'' = JStr digest0"
  "fld (exEvent kind) ''rawChainOfThoughtIncluded'' = JBool False" "fld (exEvent kind) ''rawSecretIncluded'' = JBool False"
  by (simp_all add: exEvent_def event_of_def eventEntries_def)

lemma exStream_valid [simp]: "validateLedgerStreamRef exStream l = Inr True"
  by (simp add: validateLedgerStreamRef_def buildLedgerStreamRef_def exStream_def STREAM_TYPES_def Let_def is_space_def)

lemma exSubject_normal [simp]: "normalizeSemanticScope exSubject = Inr exSubject"
  by (simp add: normalizeSemanticScope_def requirePlainObject_def SCOPE_KINDS_def Let_def exSubject_def dflt_def)

lemma exEvent_valid:
  assumes "kind = ''observed'' \<or> kind = ''challenged''"
  shows "validateEpistemicLedgerEvent EL (exEvent kind) = Inr True"
  unfolding validateEpistemicLedgerEvent_def exEvent_ids unfolding exEvent_def
  using assms by (auto simp: eforeachi_def one_of_def ACT_CLASSES_def AUTHORSHIP_KINDS_def EPISTEMIC_POSTURES_def AUTHORITY_POSTURES_def
    is_space_def ledgerUniqueRefs_def normalizeRevisionVector_def ledgerOptionalRef_def)

lemma exEvent_fields [simp]:
  "fld (exEvent kind) ''globalSequence'' = num 1" "fld (exEvent kind) ''createdAt'' = JStr ''T''" "fld (exEvent kind) ''streamRefs'' = JArr [exStream]"
  "fld (exEvent kind) ''objectRefs'' = JArr []" "fld (exEvent kind) ''artifactLifecycleRef'' = JNull" "fld (exEvent kind) ''subjectScope'' = exSubject"
  "fld (exEvent kind) ''epistemicPosture'' = JStr kind" "fld (exEvent kind) ''authorityPosture'' = JStr ''descriptive''"
  "fld (exEvent kind) ''rendererSafeSummary'' = JStr ''s''" "fld (exEvent kind) ''idempotencyKey'' = JStr ''i''"
  "fld (exEvent kind) ''actTypeRef'' = sealedRef ''ledger_act_type_constitution'' ''a@1''"
  by (simp_all add: exEvent_def)

lemma stamp0 [simp]: "ledgerStamp EL v JUndef = Inr (js_text v ''T'')" "ledgerStamp EL v (JNum (Fin (date_now EL n))) = Inr (js_text v ''T'')"
  "isoAt EL (date_now EL n) = Inr ''T''"
  by (simp_all add: ledgerStamp_def ledgerNowIso_def isoAt_def to_number_def) (simp_all add: EL_def E0_def)

lemma exEvent_built:
  assumes "kind = ''observed'' \<or> kind = ''challenged''"
  shows "buildEpistemicLedgerEvent EL (exNormal kind) (JObj [(''globalSequence'', num 1), (''previousLedgerDigest'', JStr digest0),
     (''createdAt'', JStr ''T'')]) = Inr (exEvent kind)"
proof -
  have e: "sealWith EL EPISTEMIC_LEDGER_EVENT_SCHEMA ''eventDigest'' (JObj (eventEntries EL (exNormal kind) 1 digest0 ''T'')) = exEvent kind"
    by (simp add: exEvent_def event_of_def)
  show ?thesis
    using e exEvent_valid [OF assms] by (simp add: buildEpistemicLedgerEvent_def exNormal_again [OF assms] eventEntries_def
      stamp0 Let_def is_space_def cong: lazy)
qed

lemma exEvent_ref:
  assumes "kind = ''observed'' \<or> kind = ''challenged''"
  shows "epistemicLedgerEventRef EL (exEvent kind) = Inr (madeRef ''epistemic_ledger_event'' (ident32 ''ledger_event'') digest0 ''s'' [] 0)"
proof -
  have h: "\<not> is_space (hd ''ledger_event'')" "trim ''epistemic_ledger_event'' = ''epistemic_ledger_event''" by (simp_all add: is_space_def trim_id)
  show ?thesis
    by (simp add: epistemicLedgerEventRef_def exEvent_valid [OF assms] exEvent_ids ledgerExactRef_def madeRef_def ledgerBounded_def h Let_def
      is_space_def to_number_def isInteger_def)
qed

lemma exKeys:
  assumes "kind = ''observed'' \<or> kind = ''challenged''"
  shows "projectionKeysForEvent EL (exEvent kind) = Inr [''ledger:global'', ''stream:world:w'']"
  by (simp add: projectionKeysForEvent_def exEvent_valid [OF assms] exStream_def)

lemma madeRef_exact [simp]:
  "ledgerExactRef E (madeRef ''epistemic_ledger_event'' (ident32 ''ledger_event'') digest0 ''s'' [] 0) l
     = Inr (madeRef ''epistemic_ledger_event'' (ident32 ''ledger_event'') digest0 ''s'' [] 0)"
  using ledgerExactRef_madeRef [of "''epistemic_ledger_event''" "ident32 ''ledger_event''" digest0 "[]" "''s''" 0 E l]
  by (simp add: trim_id is_space_def no_lead_def)

lemma exProjection:
  assumes "kind = ''observed'' \<or> kind = ''challenged''" "k = ''ledger:global'' \<or> k = ''stream:world:w''"
  shows "\<exists>p. buildMaterializedEpistemicProjection EL (exEvent kind) k = Inr p"
proof -
  have k: "js_text (JStr k) [] = k" "k \<noteq> []" "k \<in> {''ledger:global'', ''stream:world:w''}" using assms(2) by (auto simp: trim_id is_space_def)
  show ?thesis
    using assms(1) k by (auto simp: buildMaterializedEpistemicProjection_def exEvent_valid [OF assms(1)] exKeys [OF assms(1)] exEvent_ref [OF assms(1)]
      validateMaterializedEpistemicProjection_def one_of_def EPISTEMIC_POSTURES_def AUTHORITY_POSTURES_def is_space_def ledgerUniqueRefs_def
      ledgerOptionalRef_def)
qed

definition exSeedIntent :: jval where
  "exSeedIntent = JObj [(''subscriptionRef'', ref0 ''u''), (''recipientRef'', ref0 ''v''), (''deliveryPolicy'', JStr ''safe_boundary''),
     (''matchReason'', JStr ''subscription_match''), (''materiality'', JStr ''ordinary'')]"

lemma exSeedIntents: "normalizeOutboxSeedIntents E (JArr [JObj [(''subscriptionRef'', ref0 ''u''), (''recipientRef'', ref0 ''v'')]]) = Inr [exSeedIntent]"
  by (simp add: normalizeOutboxSeedIntents_def exSeedIntent_def Let_def is_space_def DELIVERY_POLICIES_def ledgerBounded_def)

lemma exSeed:
  assumes "kind = ''observed'' \<or> kind = ''challenged''"
  shows "\<exists>sd. buildLedgerDeliveryOutboxSeed EL exSeedIntent (exEvent kind) (JObj [(''now'', JNum (Fin (date_now EL n)))]) = Inr sd
     \<and> fld sd ''dispatchState'' = JStr ''pending''"
proof -
  have n: "normalizeOutboxSeedIntents EL (JArr [exSeedIntent]) = Inr [exSeedIntent]"
    by (simp add: normalizeOutboxSeedIntents_def exSeedIntent_def Let_def trim_id is_space_def DELIVERY_POLICIES_def ledgerBounded_def)
  have f: "fld exSeedIntent ''subscriptionRef'' = ref0 ''u''" "fld exSeedIntent ''recipientRef'' = ref0 ''v''"
    "fld exSeedIntent ''deliveryPolicy'' = JStr ''safe_boundary''" "fld exSeedIntent ''matchReason'' = JStr ''subscription_match''"
    "fld exSeedIntent ''materiality'' = JStr ''ordinary''" "fld exSeedIntent ''createdAt'' = JUndef" "fld exSeedIntent ''outboxSeedId'' = JUndef"
    "dflt exSeedIntent = exSeedIntent"
    by (simp_all add: exSeedIntent_def dflt_def)
  show ?thesis
    by (simp add: buildLedgerDeliveryOutboxSeed_def exEvent_valid [OF assms] f n exEvent_ref [OF assms] validateLedgerDeliveryOutboxSeed_def
      one_of_def DELIVERY_POLICIES_def trim_id is_space_def Let_def)
qed

subsection \<open>The append\<close>

definition intentDigest :: "string \<Rightarrow> string" where
  "intentDigest kind = digestFor EL ''direct_epistemic_ledger_append_intent@1'' (exNormal kind) []"

definition keyedReceipt :: "string \<Rightarrow> jval \<Rightarrow> bool" where
  "keyedReceipt kind r \<longleftrightarrow> fld r ''actorIdentity'' = JStr (refIdentityKey (ref0 ''x'')) \<and> fld r ''operationScope'' = JStr ''o''
     \<and> fld r ''idempotencyKey'' = JStr ''i'' \<and> fld r ''appendRequestDigest'' = JStr (intentDigest kind)"

definition appended :: "string \<Rightarrow> jval \<Rightarrow> ledger_store \<Rightarrow> bool" where
  "appended kind out s1 \<longleftrightarrow> keyedReceipt kind (fld out ''persistedReceipt'') \<and> act_rows s1 = act_rows exLedger1
     \<and> readOnlyDiagnosis s1 = JNull \<and> length (event_rows s1) = 1
     \<and> (\<exists>row. outbox_rows s1 = [row] \<and> dispatch_state row = ''pending'')"

lemma exReceipt:
  assumes "kind = ''observed'' \<or> kind = ''challenged''"
  shows "\<exists>r. buildLedgerWriteReceipt EL (JObj [
         (''event'', exEvent kind), (''actorIdentity'', JStr (refIdentityKey (ref0 ''x''))), (''operationScope'', JStr ''o''),
         (''appendRequestDigest'', JStr (intentDigest kind)), (''appendState'', JStr ''appended''),
         (''affectedContextRefs'', JArr []), (''lifecycleTransitionRefs'', JArr []), (''deliveryDispatchState'', JStr ''outbox_committed''),
         (''rendererSafeSummary'', JStr ''s''), (''createdAt'', JStr ''T'')]) JUndef = Inr r
     \<and> keyedReceipt kind r"
proof -
  have w: "trim ''appended'' = ''appended''" "trim ''outbox_committed'' = ''outbox_committed''" "trim (refIdentityKey (ref0 ''x'')) = refIdentityKey (ref0 ''x'')"
    "refIdentityKey (ref0 ''x'') \<noteq> []" "trim (intentDigest kind) = intentDigest kind" "intentDigest kind \<noteq> []"
    using digest_trimmed [OF sha_EL] by (simp_all add: trim_id is_space_def refIdentityKey_def ref0_def intentDigest_def)
  show ?thesis
    using assms by (auto simp: keyedReceipt_def buildLedgerWriteReceipt_def exEvent_valid [OF assms] append_states_def dispatch_postures_def w exEvent_ref [OF assms]
      ledgerUniqueRefs_def orEmpty_def js_or_def validateLedgerWriteReceipt_def one_of_def EPISTEMIC_POSTURES_def ledgerBounded_def Let_def is_space_def)
qed

lemma exDigest: "kind = ''observed'' \<or> kind = ''challenged'' \<Longrightarrow> ledgerAppendIntentDigest EL (exNormal kind) = Inr (intentDigest kind)"
  by (simp add: ledgerAppendIntentDigest_def exNormal_again intentDigest_def)

lemma exCommitted:
  assumes "kind = ''observed'' \<or> kind = ''challenged''"
  shows "\<exists>out s1. commitEvent EL exLedger1 (exNormal kind) [exSeedIntent] (intentDigest kind) (refIdentityKey (ref0 ''x'')) = Inr (out, s1) \<and> appended kind out s1"
proof -
  have "\<exists>p. buildMaterializedEpistemicProjection EL (exEvent kind) ''ledger:global'' = Inr p" by (rule exProjection [OF assms]) simp
  then obtain p where p: "buildMaterializedEpistemicProjection EL (exEvent kind) ''ledger:global'' = Inr p" by (elim exE)
  have "\<exists>q. buildMaterializedEpistemicProjection EL (exEvent kind) ''stream:world:w'' = Inr q" by (rule exProjection [OF assms]) simp
  then obtain q where q: "buildMaterializedEpistemicProjection EL (exEvent kind) ''stream:world:w'' = Inr q" by (elim exE)
  obtain sd where sd: "buildLedgerDeliveryOutboxSeed EL exSeedIntent (exEvent kind) (JObj [(''now'', JNum (Fin (date_now EL (0 + 1))))]) = Inr sd"
    and pending: "fld sd ''dispatchState'' = JStr ''pending''"
    using exSeed [where n = "0 + 1", OF assms] by (elim exE conjE)
  obtain r where r: "buildLedgerWriteReceipt EL (JObj [
         (''event'', exEvent kind), (''actorIdentity'', JStr (refIdentityKey (ref0 ''x''))), (''operationScope'', JStr ''o''),
         (''appendRequestDigest'', JStr (intentDigest kind)), (''appendState'', JStr ''appended''),
         (''affectedContextRefs'', JArr []), (''lifecycleTransitionRefs'', JArr []), (''deliveryDispatchState'', JStr ''outbox_committed''),
         (''rendererSafeSummary'', JStr ''s''), (''createdAt'', JStr ''T'')]) JUndef = Inr r" and keyed: "keyedReceipt kind r" using exReceipt [OF assms] by (elim exE conjE)
  have i: "insertEvent exLedger1 (exEvent kind) = Inr (exLedger1\<lparr>event_rows := [eventRow (exEvent kind)]\<rparr>)"
    by (simp add: insertEvent_def insertRow_def eventRow_def constitutionRow_def sealedRef_def exActRef_def Let_def)
  have o: "eventsInOrder exLedger1 = []" by (simp add: eventsInOrder_def)
  have m: "insertMemberships (exEvent kind) 0 [exStream] [] = Inr [membershipRow (exEvent kind) 0 exStream]"
    by (simp add: insertRow_def Let_def)
  have h: "\<exists>hs. applyProjectionHeadsForEvent EL (exEvent kind) [] = Inr hs"
    by (simp add: applyProjectionHeadsForEvent_def exEvent_valid [OF assms] exKeys [OF assms] p q)
  then obtain hs where h: "applyProjectionHeadsForEvent EL (exEvent kind) [] = Inr hs" by (elim exE)
  have ob: "insertOutbox (outboxRow (exEvent kind) sd) [] = Inr [outboxRow (exEvent kind) sd]" by (simp add: insertOutbox_def insertRow_def)
  have rr: "insertReceipt (receiptRow (exEvent kind) r) [] = Inr [receiptRow (exEvent kind) r]" by (simp add: insertReceipt_def insertRow_def)
  have st: "membership_rows (exLedger1\<lparr>event_rows := x\<rparr>) = []" "head_rows (exLedger1\<lparr>event_rows := x\<rparr>) = []"
    "outbox_rows (exLedger1\<lparr>event_rows := x\<rparr>) = []" "receipt_rows (exLedger1\<lparr>event_rows := x\<rparr>) = []" for x by simp_all
  show ?thesis
    unfolding commitEvent_def Let_def o if_True simp_thms stamp0 ebind_simps genesis0 exEvent_built [OF assms] i st exEvent_fields elems_simps m h
      enumerate_simps emap.simps prod.case sd efold.simps ob exNormal_fields list.distinct if_False r rr
    by (simp only: simp_thms if_True if_False list.distinct(2) r ebind_simps rr) (intro exI conjI, rule refl, simp add: appended_def keyed outboxRow_def pending)
qed

lemma exAppended:
  assumes "kind = ''observed'' \<or> kind = ''challenged''"
  shows "\<exists>out s1. appendEvent EL exLedger1 (exIntent kind) JUndef = Inr (out, s1) \<and> appended kind out s1"
proof -
  have "ledgerExactRefKey EL (ref0 ''x'') False = Inr (refIdentityKey (ref0 ''x''))" by (simp add: ledgerExactRefKey_def is_space_def)
  with exCommitted [OF assms] show ?thesis
    by (simp add: appendEvent_def assertWritable_def exPrepared [OF assms] exSeedIntents exDigest [OF assms] js_or_def Let_def cong: lazy)
qed


subsection \<open>Digests that tell intents apart\<close>

lemma length_joined: "length (joined [c] xs) = sum_list (map length xs) + (length xs - 1)"
proof (induction xs)
  case (Cons x xs) then show ?case by (cases xs) simp_all
qed simp

lemma length_text:
  assumes "\<And>e. e \<in> set fs \<Longrightarrow> kept [] e"
  shows "length (json_text E (stableValue [] (JObj fs))) =
     2 + sum_list (map (\<lambda>e. length (json_string (fst e)) + 1 + length (json_text E (stableValue [] (snd e)))) fs) + (length fs - 1)"
proof -
  let ?g = "\<lambda>e. (fst e, stableValue [] (snd e))" and ?t = "\<lambda>e. (fst e, json_text E (snd e))" and ?w = "\<lambda>e. length (json_string (fst e) @ '':'' @ snd e)"
  define gs where "gs = sort_key fst (map ?g fs)"
  define os where "os = own_entries (map ?t gs)"
  have f: "filter (kept []) fs = fs" using assms by (intro filter_True) blast
  have d: "filter (\<lambda>e. snd e \<noteq> JUndef) gs = gs"
    using assms by (intro filter_True) (auto simp: kept_def gs_def)
  have "mset os = image_mset ?t (mset gs)" by (simp only: os_def mset_own_entries mset_map)
  also have "mset gs = image_mset ?g (mset fs)" by (simp only: gs_def mset_sort mset_map)
  finally have m: "mset os = mset (map (\<lambda>e. ?t (?g e)) fs)" by (simp only: mset_map image_mset.compositionality comp_def)
  have l: "length os = length fs" using arg_cong [OF m, of size] by (simp only: size_mset length_map)
  have "sum_list (map ?w os) = sum_mset (image_mset ?w (mset os))" by (simp only: mset_map [symmetric] sum_mset_sum_list)
  also have "\<dots> = sum_list (map ?w (map (\<lambda>e. ?t (?g e)) fs))" by (simp only: m mset_map [symmetric] sum_mset_sum_list)
  finally have s: "sum_list (map ?w os) = sum_list (map (\<lambda>e. length (json_string (fst e)) + 1 + length (json_text E (stableValue [] (snd e)))) fs)"
    by (simp add: comp_def add.assoc)
  have "stableValue [] (JObj fs) = JObj gs" by (simp only: stableValue.simps f case_prod_unfold gs_def)
  then have "json_text E (stableValue [] (JObj fs)) = ''{'' @ joined '','' (map (\<lambda>e. json_string (fst e) @ '':'' @ snd e) os) @ ''}''"
    by (simp only: json_text.simps case_prod_unfold d os_def)
  then have "length (json_text E (stableValue [] (JObj fs))) = 2 + (sum_list (map ?w os) + (length os - 1))"
    by (simp only: length_append length_joined map_map comp_def length_map) simp
  then show ?thesis by (simp only: s l add.assoc)
qed
definition entries :: "jval \<Rightarrow> (string \<times> jval) list" where
  "entries v = (case v of JObj fs \<Rightarrow> fs | _ \<Rightarrow> [])"

lemma exNormal_text:
  "length (json_text EL (stableValue [] (exNormal ''challenged''))) = length (json_text EL (stableValue [] (exNormal ''observed''))) + 2"
proof -
  define w where "w e = length (json_string (fst e)) + 1 + length (json_text EL (stableValue [] (snd e)))" for e :: "string \<times> jval"
  have l: "length (json_text EL (stableValue [] (exNormal kind))) = 2 + sum_list (map w (entries (exNormal kind))) + (length (entries (exNormal kind)) - 1)" for kind
  proof -
    have "kept [] e" if "e \<in> set (entries (exNormal kind))" for e
      using that by (auto simp: entries_def exNormal_def kept_def sealedRef_def ref0_def)
    moreover have "exNormal kind = JObj (entries (exNormal kind))" by (simp add: entries_def exNormal_def)
    ultimately show ?thesis using length_text [of "entries (exNormal kind)" EL] by (simp add: w_def [abs_def])
  qed
  have p: "w (''epistemicPosture'', JStr ''challenged'') = w (''epistemicPosture'', JStr ''observed'') + 2"
    by (simp add: w_def json_string_def json_char_def)
  have "sum_list (map w (entries (exNormal ''challenged''))) = sum_list (map w (entries (exNormal ''observed''))) + 2"
    unfolding exNormal_def entries_def jval.case list.map sum_list_simps p by (simp only: add.assoc add.left_commute add.commute)
  moreover have "length (entries (exNormal ''challenged'')) = length (entries (exNormal ''observed''))" by (simp add: exNormal_def entries_def)
  ultimately show ?thesis by (simp only: l)
qed

lemma intentDigest_differs: "intentDigest ''observed'' \<noteq> intentDigest ''challenged''"
proof -
  have n: "stableValue [] (exNormal kind) \<noteq> JUndef" for kind by (simp add: exNormal_def)
  have d: "replicate 64 (CHR ''1'') \<noteq> replicate 64 (CHR ''0'')" by (simp add: replicate_eq_replicate)
  have m: "((x + (n + 2)) mod 4 < 2) \<noteq> ((x + n) mod 4 < 2)" for x n :: nat by presburger
  have "CHR 0x00 \<notin> set intentDomain" by (simp add: intentDomain_def)
  from digest_domain [OF this] show ?thesis
    using m [of "length intentDomain + 1"] n d by (auto simp: intentDigest_def intentDomain_def [symmetric] stringified_def exNormal_text digest0_def split: if_splits)
qed

subsection \<open>Witnesses\<close>

lemma exChallenge: "appended kind out s1 \<Longrightarrow> prepareAppendInput EL s1 (exIntent ''challenged'') = Inr (exNormal ''challenged'')"
  using prepareAppendInput_mono [OF exPrepared [of "''challenged''"], of s1 "[]"] by (simp add: appended_def)

lemma exStep:
  assumes "kind = ''observed'' \<or> kind = ''challenged''"
  obtains out s1 where "appendEvent (EL\<lparr>date_now := (\<lambda>_. 1)\<rparr>) exLedger1 (exIntent kind) JUndef = Inr (out, s1)" "appended kind out s1"
    "ledger_history EL msg emptyStore s1"
proof -
  obtain out s1 where a: "appendEvent EL exLedger1 (exIntent kind) JUndef = Inr (out, s1)" "appended kind out s1"
    using exAppended [OF assms] by (elim exE conjE)
  then have b: "appendEvent (EL\<lparr>date_now := (\<lambda>_. 1)\<rparr>) exLedger1 (exIntent kind) JUndef = Inr (out, s1)" by (simp only: same_clock)
  have "ledger_history EL msg emptyStore s1" using exHistory1 ledger_op.append [OF b] by (rule rtranclp.rtrancl_into_rtrancl)
  then show thesis by (rule that [OF b a(2)])
qed

lemma appended_settled: "appended kind out s1 \<Longrightarrow> list_all (settled_delivery EL) (outbox_rows s1)"
  unfolding appended_def by (elim conjE exE) (simp add: settled_delivery_def)

lemma ledger_stays_intact_witness:
  "\<exists>s. length (event_rows s) = 1 \<and> fld (verifyLedgerIntegrity EL (\<lambda>_. []) s) ''ok'' = JBool True
     \<and> fld (verifyLedgerIntegrity EL (\<lambda>_. []) s) ''eventCount'' = num 1"
proof (rule exStep [of "''observed''" "\<lambda>_. []"])
  fix out s1 assume a: "appended ''observed'' out s1" "ledger_history EL (\<lambda>_. []) emptyStore s1"
  from ledger_stays_intact [OF sha_EL a(2)] appended_settled [OF a(1)] a(1) show ?thesis by (intro exI [of _ s1]) (simp add: appended_def)
qed simp

lemma ledger_is_append_only_witness:
  "\<exists>s' :: ledger_store. length (event_rows s') = 1 \<and> map global_sequence (event_rows s') = [1..int 1]"
proof (rule exStep [of "''observed''" "\<lambda>_. []"])
  fix out s1 assume a: "appended ''observed'' out s1" "ledger_history EL (\<lambda>_. []) emptyStore s1"
    "appendEvent (EL\<lparr>date_now := (\<lambda>_. 1)\<rparr>) exLedger1 (exIntent ''observed'') JUndef = Inr (out, s1)"
  have "ledger_history EL (\<lambda>_. []) exLedger1 s1" using ledger_op.append [OF a(3)] by (rule r_into_rtranclp)
  note p = ledger_is_append_only [OF sha_EL exHistory1 this]
  have l: "length (event_rows s1) = 1" using a(1) by (simp add: appended_def)
  from p have "map global_sequence (event_rows s1) = [1..int 1]" unfolding l by (elim conjE)
  with l show ?thesis by (intro exI [of _ s1] conjI)
qed simp

lemma append_is_idempotent_witness:
  "\<exists>out s1 again. appendEvent (EL\<lparr>date_now := (\<lambda>_. 1)\<rparr>) exLedger1 (exIntent ''observed'') JUndef = Inr (out, s1)
     \<and> appendEvent (EL\<lparr>date_now := (\<lambda>_. 2)\<rparr>) s1 (exIntent ''observed'') JUndef = Inr (again, s1)
     \<and> fld again ''event'' = fld out ''event''"
proof (rule exStep [of "''observed''" "\<lambda>_. []"])
  fix out s1 assume a: "appended ''observed'' out s1" "ledger_history EL (\<lambda>_. []) emptyStore s1"
    "appendEvent (EL\<lparr>date_now := (\<lambda>_. 1)\<rparr>) exLedger1 (exIntent ''observed'') JUndef = Inr (out, s1)"
  have "\<not> truthy (readOnlyDiagnosis s1)" using a(1) by (simp add: appended_def)
  from append_is_idempotent [OF sha_EL exHistory1 a(3) rtranclp.rtrancl_refl this, of "\<lambda>_. 2"] obtain again where
    "appendEvent (EL\<lparr>date_now := (\<lambda>_. 2)\<rparr>) s1 (exIntent ''observed'') JUndef = Inr (again, s1)" "fld again ''event'' = fld out ''event''"
    by (elim exE conjE)
  with a(3) show ?thesis by (intro exI conjI)
qed simp

lemma conflicting_append_refused_witness:
  "\<exists>out s1. appendEvent (EL\<lparr>date_now := (\<lambda>_. 1)\<rparr>) exLedger1 (exIntent ''observed'') JUndef = Inr (out, s1)
     \<and> appendEvent (EL\<lparr>date_now := (\<lambda>_. 2)\<rparr>) s1 (exIntent ''challenged'') JUndef
        = fail ''epistemic_ledger_idempotency_conflict'' (conflictText (exNormal ''challenged''))"
proof (rule exStep [of "''observed''" "\<lambda>_. []"])
  fix out s1 assume a: "appended ''observed'' out s1" "ledger_history EL (\<lambda>_. []) emptyStore s1"
    "appendEvent (EL\<lparr>date_now := (\<lambda>_. 1)\<rparr>) exLedger1 (exIntent ''observed'') JUndef = Inr (out, s1)"
  have w: "\<not> truthy (readOnlyDiagnosis s1)" and k: "keyedReceipt ''observed'' (fld out ''persistedReceipt'')" using a(1) by (simp_all add: appended_def)
  have seeds: "normalizeOutboxSeedIntents EL (orEmpty (js_or (fld (JObj []) ''outboxSeeds'') (fld (exIntent ''challenged'') ''outboxSeeds''))) = Inr [exSeedIntent]"
    by (simp add: exSeedIntents js_or_def)
  have "appendEvent (EL\<lparr>date_now := (\<lambda>_. 2)\<rparr>) s1 (exIntent ''challenged'') JUndef
      = fail ''epistemic_ledger_idempotency_conflict'' (conflictText (exNormal ''challenged''))"
    by (rule conflicting_append_refused [OF sha_EL exHistory1 a(3) rtranclp.rtrancl_refl w exIntent_fields(25) exChallenge [OF a(1)] _ seeds _ _ _
        exDigest [of "''challenged''"]])
      (use k intentDigest_differs in \<open>simp_all add: keyedReceipt_def\<close>)
  with a(3) show ?thesis by (intro exI conjI)
qed simp

lemma projections_are_latest_events_witness:
  "\<exists>s events. length (event_rows s) = 1 \<and> listEvents EL s 0 10000 = Inr events
     \<and> getProjectionHead EL s ''ledger:global'' = (case find (hasKey EL ''ledger:global'') (rev events) of
          None \<Rightarrow> Inr JNull | Some e \<Rightarrow> buildMaterializedEpistemicProjection EL e ''ledger:global'')"
proof (rule exStep [of "''observed''" "\<lambda>_. []"])
  fix out s1 assume a: "appended ''observed'' out s1" "ledger_history EL (\<lambda>_. []) emptyStore s1"
  have l: "length (event_rows s1) = 1" "length (event_rows s1) \<le> 10000" using a(1) by (simp_all add: appended_def)
  have t: "trim ''ledger:global'' = ''ledger:global''" by (simp add: trim_id is_space_def)
  from projections_are_latest_events [OF sha_EL a(2) l(2) t] obtain events where
    "listEvents EL s1 0 10000 = Inr events" "getProjectionHead EL s1 ''ledger:global'' = (case find (hasKey EL ''ledger:global'') (rev events) of
          None \<Rightarrow> Inr JNull | Some e \<Rightarrow> buildMaterializedEpistemicProjection EL e ''ledger:global'')"
    by (elim exE conjE)
  with l(1) show ?thesis by (intro exI conjI)
qed simp

lemma restart_reopens_ledger_witness:
  "\<exists>s out. length (event_rows s) = 1 \<and> verifyRestartState EL (\<lambda>_. []) True s = Inr (out, s\<lparr>readOnlyDiagnosis := JNull\<rparr>)
     \<and> fld out ''writable'' = JBool True"
proof (rule exStep [of "''observed''" "\<lambda>_. []"])
  fix out s1 assume a: "appended ''observed'' out s1" "ledger_history EL (\<lambda>_. []) emptyStore s1"
  have l: "length (event_rows s1) = 1" "length (event_rows s1) \<le> 10000" using a(1) by (simp_all add: appended_def)
  from restart_reopens_ledger [OF sha_EL a(2) l(2), of True] obtain r where
    "verifyRestartState EL (\<lambda>_. []) True s1 = Inr (r, s1\<lparr>readOnlyDiagnosis := JNull\<rparr>)" "fld r ''writable'' = JBool True"
    using appended_settled [OF a(1)] by auto
  with l(1) show ?thesis by (intro exI conjI)
qed simp

lemma pending_delivery_completes_witness:
  "\<exists>s row out s1. outbox_rows s = [row] \<and> markOutboxDispatched (EL\<lparr>date_now := (\<lambda>_. 2)\<rparr>) s (outbox_seed_id row) (ref0 ''z'') = Inr (out, s1)
     \<and> fld out ''dispatchState'' = JStr ''dispatched'' \<and> ledger_op EL (\<lambda>_. []) s s1"
proof (rule exStep [of "''observed''" "\<lambda>_. []"])
  fix out s1 assume a: "appended ''observed'' out s1" "ledger_history EL (\<lambda>_. []) emptyStore s1"
  have w: "\<not> truthy (readOnlyDiagnosis s1)" using a(1) by (simp add: appended_def)
  obtain row where row: "outbox_rows s1 = [row]" "dispatch_state row = ''pending'' \<or> dispatch_state row = ''retry_pending''"
    using a(1) unfolding appended_def by (elim conjE exE) (rule that, assumption, rule disjI1)
  have m: "row \<in> set (outbox_rows s1)" by (simp add: row(1))
  have r: "ledgerExactRef EL (ref0 ''z'') ''deliveryRef'' = Inr (ref0 ''z'')" by (rule exactRef_ledger0) (simp_all add: is_space_def)
  have t: "\<bar>2 :: rat\<bar> \<le> 8640000000000000" by simp
  from pending_delivery_completes [where t = "\<lambda>_. 2", OF sha_EL a(2) w m row(2) r t] obtain o2 s2 where
    "markOutboxDispatched (EL\<lparr>date_now := (\<lambda>_. 2)\<rparr>) s1 (outbox_seed_id row) (ref0 ''z'') = Inr (o2, s2)"
    "fld o2 ''dispatchState'' = JStr ''dispatched''" "ledger_op EL (\<lambda>_. []) s1 s2"
    by (elim exE conjE)
  with row(1) show ?thesis by (intro exI conjI)
qed simp

lemma integrity_check_is_sound_witness:
  "\<exists>s events. length (event_rows s) = 1 \<and> emap (eventFromRow EL) (eventsInOrder s) = Inr events \<and> chained (LEDGER_GENESIS_DIGEST EL) 1 events"
proof (rule exStep [of "''observed''" "\<lambda>_. []"])
  fix out s1 assume a: "appended ''observed'' out s1" "ledger_history EL (\<lambda>_. []) emptyStore s1"
  obtain es rs where "ledger_inv EL s1 es rs" using reachable_inv [OF sha_EL a(2)] by (elim exE conjE)
  then have "fld (verifyLedgerIntegrity EL (\<lambda>_. []) s1) ''ok'' = JBool True"
    using appended_settled [OF a(1)] by (simp add: verifyLedgerIntegrity_def inv_integrity [OF sha_EL] caught_def)
  from integrity_check_is_sound [OF this] obtain events where
    "emap (eventFromRow EL) (eventsInOrder s1) = Inr events" "chained (LEDGER_GENESIS_DIGEST EL) 1 events" by (elim exE conjE)
  moreover have "length (event_rows s1) = 1" using a(1) by (simp add: appended_def)
  ultimately show ?thesis by (intro exI conjI)
qed simp

lemma intents_normalise_in_two_steps_witness:
  "\<exists>b. normalizeLedgerAppendIntent EL (exNormal ''observed'') = Inr b \<and> normalizeLedgerAppendIntent EL b = Inr b"
proof -
  have "''observed'' = ''observed'' \<or> ''observed'' = ''challenged''" by simp
  from intents_normalise_in_two_steps [OF exIntent_normal [OF this]] show ?thesis by (elim exE conjE) (intro exI conjI)
qed

end
