(* ===== verification/Spec2Isabelle.thy ===== *)
theory Spec2Isabelle
  imports LifecycleRuntime AroCandidates AroRevisions SearchDepth LedgerProperties Scenario ScenarioAro ScenarioRuntime ScenarioLedger
begin

text \<open>
  A model of the governance kernels of codex-review-shell, the files
  \<^verbatim>\<open>artifact-lifecycle-kernel.js\<close>, \<^verbatim>\<open>artifact-lifecycle-runtime.js\<close>, \<^verbatim>\<open>aro-kernel.js\<close>,
  \<^verbatim>\<open>epistemic-ledger-kernel.js\<close> and \<^verbatim>\<open>epistemic-ledger-store.js\<close> of
  \<^verbatim>\<open>src/main/direct/worldmanager/\<close>. They decide, without doing any work of their own, what the
  agents of the shell may claim: which artifact revision has the audits it needs, when a gate may
  be proposed for admission, which abstract reasoning object is canonical, and what was recorded
  about it. Every record they exchange is a plain JSON object, sealed with a digest and linked to
  others by exact references (kind, identifier, digest).

  \<^bold>\<open>The language.\<close> \<open>JsValue\<close> has the values of JavaScript (\<open>jval\<close>, numbers as rationals with the
  infinities and NaN), property access, truthiness, \<open>String\<close>, \<open>Number\<close>, trimming and the errors
  (\<open>Fail code detail\<close> for \<open>fail\<close>, \<open>TypeError\<close>, \<open>RangeError\<close>); \<open>Prelude\<close> has the error monad
  (\<open>ebind\<close>, \<open>emap\<close>, \<open>eforeach\<close>, \<open>efold\<close>) and the lists without duplicates. An operation that throws returns \<open>Inl\<close>, so the order of the
  checks of the code is the order of the binds. What comes from outside is the record \<open>jsenv\<close>:
  SHA-256, the text of a number, the clock and its text, the order of \<open>localeCompare\<close>. An operation
  sees the clock as the sequence of its readings, \<open>date_now E n\<close>; an append reads it once for the
  event and once for each outbox seed, a builder without a given time reads it once. The one
  assumption made about it is \<open>sha_ok\<close>: a hash is 64 hexadecimal digits. Collision freedom is
  nowhere assumed; where it would be needed the statement speaks of equal digests. Strings are
  lists of 8-bit characters, not UTF-16 code units, so a length limit counts characters.
  \<open>Canonical\<close> and \<open>ArtifactRefs\<close> model \<open>stableValue\<close>, \<open>digestFor\<close>, \<open>exactRef\<close>, \<open>uniqueRefs\<close> and
  \<open>stringList\<close>: a digest does not depend on the order of properties, references normalise once; the locale \<open>sealed_record\<close> has what every
  sealed record promises and is interpreted for the records of the lifecycle kernel.

  \<^bold>\<open>The artifact lifecycle.\<close> \<open>Requirements\<close> holds the audit requirements and the depth-first search
  that keeps their dependencies acyclic: the search is shown correct in both directions and, in
  \<open>SearchDepth\<close>, to return on a stack no deeper than the number of requirements plus one.
  \<open>Constitution\<close>, \<open>AssuranceGraph\<close>, \<open>LifecycleInstance\<close>, \<open>ArtifactRecords\<close> and \<open>GateDecisions\<close>
  have the builder, validator, reference and revision of each record, in the order of the kernel;
  \<open>RevisionChains\<close> has the locale of revision chains, interpreted for lifecycles and for graphs:
  revisions count up by one, keep their frame, are linked and do not recur. \<open>ProducerResolution\<close>,
  \<open>Publication\<close>, \<open>AuditRouting\<close>, \<open>AssuranceEvaluation\<close>, \<open>RemandRouting\<close> and \<open>LifecycleRuntime\<close> are
  the operations of the runtime, in the order in which an artifact passes through them. The main
  statements: a gate opens only on accepted evidence about exactly the evaluated revision, a
  publication starts assurance afresh, auditors are independent of the producer, a remand counts
  and escalates, and no run of the runtime reaches an admitted or terminal state.

  \<^bold>\<open>Abstract reasoning objects.\<close> \<open>AroRefs\<close>, \<open>AroBranches\<close>, \<open>AroCoverage\<close>, \<open>AroObjects\<close>,
  \<open>AroCandidates\<close> and \<open>AroRevisions\<close> model \<^verbatim>\<open>aro-kernel.js\<close>: the tree of branches, the bindings to
  realizing material, coverage, candidates with their review and admission, freshness and the
  comparison of a current object with a target.

  \<^bold>\<open>The epistemic ledger.\<close> \<open>LedgerRefs\<close>, \<open>LedgerActs\<close>, \<open>LedgerEvents\<close> and \<open>LedgerReceipts\<close> are the
  functions of the ledger kernel. \<open>LedgerStore\<close> is the class \<open>DirectEpistemicLedgerStore\<close>: one
  list of rows per table (\<open>ledger_store\<close>), the primary keys and unique constraints as conditions of
  an insertion, a method as a function from a store to its result and the next store; a transaction
  that throws leaves the store as it was, which is what returning \<open>Inl\<close> without a store says.
  \<open>LedgerVerify\<close> has the checks of a restart. \<open>LedgerStable\<close>, \<open>LedgerNormal\<close>, \<open>LedgerIntents\<close> and
  \<open>LedgerRecords\<close> show what survives a second normalisation: an intent does after one more step,
  which is why the replay of an append recognises it. A delivery reference need not: its label is
  trimmed before it is cut, the stored digest is that of the first normal form and the integrity
  check recomputes it from the second. \<open>LedgerIntegrity\<close> states the invariant of a
  store (\<open>ledger_inv\<close>) and the two outcomes of the integrity check on it: it passes when every
  completed delivery is unchanged by a second normalisation (\<open>settled_delivery\<close>) and otherwise
  fails on a delivery reference; \<open>LedgerAppend\<close> and \<open>LedgerReplay\<close>
  show that an append keeps it and is found again; \<open>LedgerHistory\<close> has the operations as a step
  relation (\<open>ledger_op\<close>), the clock of each step and the reference of each delivery left open, and the
  stores it reaches (a constitution that is registered with a schema of its own is JSON data);
  \<open>LedgerProjection\<close> relates the heads to the latest events. \<open>LedgerProperties\<close> holds what follows
  for every history: the ledger only grows, appends are idempotent and conflicts refused,
  projections are current, deliveries complete, and the integrity check and a restart accept the
  store except for the delivery references just described.

  \<^bold>\<open>Bounds.\<close> Nothing runs on fuel, except \<open>assertAcyclicWithin\<close>, whose purpose is to count. The
  lists of the code are cut where the code cuts them (64 and 128 entries, 160, 240 and 480
  characters). The projection heads are described up to 10000 events, the limit with which the
  code itself lists events for them.

  \<^bold>\<open>Witnesses.\<close> \<open>Scenario\<close>, \<open>ScenarioAro\<close>, \<open>ScenarioRuntime\<close> and \<open>ScenarioLedger\<close> run the model on
  concrete records, in hosts with a constant or nearly constant hash, and apply each property that
  has hypotheses to them.

  \<^bold>\<open>Not modelled.\<close> The SQLite calls that open, migrate and close the database of the ledger, and
  file names and pragmas. The rest of the world manager (its control plane, service and the
  runtimes around the kernels), the Electron main process, the renderer, the agents and their
  protocols: they move these records between processes, files and windows, and mostly consist of
  input and output. Getters, prototypes other than that of plain objects and values shared by
  reference are outside the model: the kernels clone what they keep and never mutate an argument.
\<close>

end
